(* ===== verification/Prelude.thy ===== *)
theory Prelude
  imports Main "HOL-Library.Word" "HOL-Library.Char_ord" "HOL-Library.List_Lexorder"
    "HOL-Library.AList"
begin

text \<open>
  Shared vocabulary of the development: Rust results as sums, Rust strings as the
  sequence of their UTF-8 bytes, \<open>BTreeMap\<close> as a sorted association list and
  \<open>HashMap\<close> as an association list with distinct keys in its iteration order, with
  the generic lemmas the component theories rely on. A locale states the laws every
  keyed table obeys; both representations interpret it.
\<close>

named_theorems res_simps \<open>rewriting of the result combinators\<close>
named_theorems str_simps \<open>unfolding of the string operations\<close>
named_theorems invariants \<open>preservation of component invariants\<close>

section \<open>Machine integers\<close>

type_synonym u8 = "8 word"
type_synonym u16 = "16 word"
type_synonym u32 = "32 word"
type_synonym u64 = "64 word"

text \<open>\<open>u64::saturating_add\<close> and \<open>u32::saturating_sub\<close>; \<open>u64::wrapping_add\<close> is \<open>(+)\<close>.\<close>

definition saturating_add :: "'a::len word \<Rightarrow> 'a word \<Rightarrow> 'a word" where
  "saturating_add a b = (if a + b < a then - 1 else a + b)"

definition saturating_sub :: "'a::len word \<Rightarrow> 'a word \<Rightarrow> 'a word" where
  "saturating_sub a b = (if a < b then 0 else a - b)"

lemma saturating_add_ge: "a \<le> saturating_add a b"
  by (simp add: saturating_add_def not_less)

lemma saturating_sub_le: "saturating_sub a b \<le> a"
  by (simp add: saturating_sub_def word_sub_le not_less)

section \<open>Results\<close>

text \<open>
  \<open>Result<T, E>\<close> is \<open>'e + 'a\<close>: \<open>Inl e\<close> for \<open>Err(e)\<close>, \<open>Inr x\<close> for \<open>Ok(x)\<close>.
  \<open>bind_res\<close> is the \<open>?\<close> operator followed by the rest of the function.
\<close>

definition bind_res :: "'e + 'a \<Rightarrow> ('a \<Rightarrow> 'e + 'b) \<Rightarrow> 'e + 'b" where
  "bind_res r f = (case r of Inl e \<Rightarrow> Inl e | Inr x \<Rightarrow> f x)"

definition map_res :: "('a \<Rightarrow> 'b) \<Rightarrow> 'e + 'a \<Rightarrow> 'e + 'b" where
  "map_res f r = (case r of Inl e \<Rightarrow> Inl e | Inr x \<Rightarrow> Inr (f x))"

definition map_err :: "('e \<Rightarrow> 'd) \<Rightarrow> 'e + 'a \<Rightarrow> 'd + 'a" where
  "map_err f r = (case r of Inl e \<Rightarrow> Inl (f e) | Inr x \<Rightarrow> Inr x)"

definition ok_or :: "'a option \<Rightarrow> 'e \<Rightarrow> 'e + 'a" where
  "ok_or o' e = (case o' of None \<Rightarrow> Inl e | Some x \<Rightarrow> Inr x)"

definition is_ok :: "'e + 'a \<Rightarrow> bool" where
  "is_ok r = (case r of Inl _ \<Rightarrow> False | Inr _ \<Rightarrow> True)"

text \<open>Running a fallible step over a list, left to right, until the first error.\<close>

fun map_results :: "('a \<Rightarrow> 'e + 'b) \<Rightarrow> 'a list \<Rightarrow> 'e + 'b list" where
  "map_results f [] = Inr []"
| "map_results f (x # xs) =
     bind_res (f x) (\<lambda>y. bind_res (map_results f xs) (\<lambda>ys. Inr (y # ys)))"

lemma bind_res_simps [simp]:
  "bind_res (Inl e) f = Inl e" "bind_res (Inr x) f = f x"
  by (simp_all add: bind_res_def)

lemma map_res_simps [simp]:
  "map_res f (Inl e) = Inl e" "map_res f (Inr x) = Inr (f x)"
  by (simp_all add: map_res_def)

lemma map_err_simps [simp]:
  "map_err f (Inl e) = Inl (f e)" "map_err f (Inr x) = Inr x"
  by (simp_all add: map_err_def)

lemma ok_or_simps [simp]:
  "ok_or None e = Inl e" "ok_or (Some x) e = Inr x"
  by (simp_all add: ok_or_def)

lemma is_ok_simps [simp]:
  "is_ok (Inl e) = False" "is_ok (Inr x) = True"
  by (simp_all add: is_ok_def)

lemma bind_res_eq_Inr [res_simps]:
  "bind_res r f = Inr y \<longleftrightarrow> (\<exists>x. r = Inr x \<and> f x = Inr y)"
  by (cases r) auto

lemma bind_res_eq_Inl:
  "bind_res r f = Inl e \<longleftrightarrow> r = Inl e \<or> (\<exists>x. r = Inr x \<and> f x = Inl e)"
  by (cases r) auto

lemma map_res_eq_Inr [res_simps]: "map_res f r = Inr y \<longleftrightarrow> (\<exists>x. r = Inr x \<and> y = f x)"
  by (cases r) auto

lemma map_err_eq_Inr [res_simps]: "map_err f r = Inr y \<longleftrightarrow> r = Inr y"
  by (cases r) auto

lemma ok_or_eq_Inr [res_simps]: "ok_or o' e = Inr y \<longleftrightarrow> o' = Some y"
  by (cases o') auto

lemma is_ok_iff: "is_ok r \<longleftrightarrow> (\<exists>x. r = Inr x)"
  by (cases r) auto

lemma map_results_Inr_iff:
  "map_results f xs = Inr ys \<longleftrightarrow> list_all2 (\<lambda>x y. f x = Inr y) xs ys"
  by (induction xs arbitrary: ys) (auto simp: res_simps list_all2_Cons1)

lemma bind_res_cong [fundef_cong]:
  "r = r' \<Longrightarrow> (\<And>x. r' = Inr x \<Longrightarrow> f x = g x) \<Longrightarrow> bind_res r f = bind_res r' g"
  by (cases r') auto

section \<open>Strings\<close>

text \<open>
  A Rust \<open>str\<close> is its sequence of UTF-8 bytes, so \<open>len\<close>, \<open>bytes\<close>, \<open>starts_with\<close>,
  \<open>contains\<close> and the ASCII case maps are the list operations. \<open>utf8_chars\<close> cuts a
  string before every byte that is not a continuation byte (\<open>0x80\<close> to \<open>0xBF\<close>): on
  well-formed UTF-8 these are its \<open>chars()\<close>, each as its encoding.
\<close>

definition byte :: "char \<Rightarrow> nat" where
  "byte c = of_char c"

definition utf8_cont :: "char \<Rightarrow> bool" where
  "utf8_cont c \<longleftrightarrow> 128 \<le> byte c \<and> byte c < 192"

function utf8_chars :: "string \<Rightarrow> string list" where
  "utf8_chars [] = []"
| "utf8_chars (b # bs) = (b # takeWhile utf8_cont bs) # utf8_chars (dropWhile utf8_cont bs)"
  by pat_completeness auto
termination
  by (relation "measure length") (auto simp: le_imp_less_Suc length_dropWhile_le)

text \<open>\<open>char::is_whitespace\<close>: the code points with the Unicode property \<open>White_Space\<close>.\<close>

definition is_whitespace :: "string \<Rightarrow> bool" where
  "is_whitespace ch = (case map byte ch of
      [b] \<Rightarrow> (9 \<le> b \<and> b \<le> 13) \<or> b = 32
    | [b1, b2] \<Rightarrow> b1 = 194 \<and> (b2 = 133 \<or> b2 = 160)
    | [b1, b2, b3] \<Rightarrow>
        (b1 = 225 \<and> b2 = 154 \<and> b3 = 128)
        \<or> (b1 = 226 \<and> b2 = 128 \<and> ((128 \<le> b3 \<and> b3 \<le> 138) \<or> b3 = 168 \<or> b3 = 169 \<or> b3 = 175))
        \<or> (b1 = 226 \<and> b2 = 129 \<and> b3 = 159)
        \<or> (b1 = 227 \<and> b2 = 128 \<and> b3 = 128)
    | _ \<Rightarrow> False)"

text \<open>\<open>char::is_control\<close>: the code points of the general category \<open>Cc\<close>.\<close>

definition is_control :: "string \<Rightarrow> bool" where
  "is_control ch = (case map byte ch of
      [b] \<Rightarrow> b < 32 \<or> b = 127
    | [b1, b2] \<Rightarrow> b1 = 194 \<and> 128 \<le> b2 \<and> b2 < 160
    | _ \<Rightarrow> False)"

definition trim :: "string \<Rightarrow> string" where
  "trim s = concat (rev (dropWhile is_whitespace (rev (dropWhile is_whitespace (utf8_chars s)))))"

definition ascii_upper_char :: "char \<Rightarrow> bool" where
  "ascii_upper_char c \<longleftrightarrow> 65 \<le> byte c \<and> byte c \<le> 90"

definition ascii_lower_char :: "char \<Rightarrow> bool" where
  "ascii_lower_char c \<longleftrightarrow> 97 \<le> byte c \<and> byte c \<le> 122"

definition is_ascii_alphabetic :: "char \<Rightarrow> bool" where
  "is_ascii_alphabetic c \<longleftrightarrow> ascii_upper_char c \<or> ascii_lower_char c"

definition is_ascii_digit :: "char \<Rightarrow> bool" where
  "is_ascii_digit c \<longleftrightarrow> 48 \<le> byte c \<and> byte c \<le> 57"

definition is_ascii_alphanumeric :: "char \<Rightarrow> bool" where
  "is_ascii_alphanumeric c \<longleftrightarrow> is_ascii_alphabetic c \<or> is_ascii_digit c"

definition to_ascii_lowercase :: "string \<Rightarrow> string" where
  "to_ascii_lowercase = map (\<lambda>c. if ascii_upper_char c then char_of (byte c + 32) else c)"

definition to_ascii_uppercase :: "string \<Rightarrow> string" where
  "to_ascii_uppercase = map (\<lambda>c. if ascii_lower_char c then char_of (byte c - 32) else c)"

definition starts_with :: "string \<Rightarrow> string \<Rightarrow> bool" where
  "starts_with s p \<longleftrightarrow> take (length p) s = p"

definition ends_with :: "string \<Rightarrow> string \<Rightarrow> bool" where
  "ends_with s p \<longleftrightarrow> starts_with (rev s) (rev p)"

definition strip_prefix :: "string \<Rightarrow> string \<Rightarrow> string option" where
  "strip_prefix s p = (if starts_with s p then Some (drop (length p) s) else None)"

fun str_contains :: "string \<Rightarrow> string \<Rightarrow> bool" where
  "str_contains [] p = (p = [])"
| "str_contains (c # s) p = (starts_with (c # s) p \<or> str_contains s p)"

text \<open>\<open>str::split_once(c)\<close>: the parts before and after the first \<open>c\<close>.\<close>

fun split_once :: "char \<Rightarrow> string \<Rightarrow> (string \<times> string) option" where
  "split_once d [] = None"
| "split_once d (c # s) =
     (if c = d then Some ([], s)
      else map_option (\<lambda>(a, b). (c # a, b)) (split_once d s))"

text \<open>\<open>str::split(c)\<close> and \<open>split_whitespace\<close>.\<close>

fun split_on :: "char \<Rightarrow> string \<Rightarrow> string list" where
  "split_on d [] = [[]]"
| "split_on d (c # s) =
     (if c = d then [] # split_on d s
      else (case split_on d s of [] \<Rightarrow> [[c]] | w # ws \<Rightarrow> (c # w) # ws))"

function split_ws_chars :: "string list \<Rightarrow> string list" where
  "split_ws_chars cs =
     (case dropWhile is_whitespace cs of
        [] \<Rightarrow> []
      | w # ws \<Rightarrow> concat (takeWhile (\<lambda>c. \<not> is_whitespace c) (w # ws))
                 # split_ws_chars (dropWhile (\<lambda>c. \<not> is_whitespace c) ws))"
  by pat_completeness auto
termination
proof (relation "measure length", simp, simp)
  fix cs w ws
  assume "dropWhile is_whitespace cs = w # ws"
  then have "length (w # ws) \<le> length cs" by (metis length_dropWhile_le)
  moreover have "length (dropWhile (\<lambda>c. \<not> is_whitespace c) ws) \<le> length ws"
    by (rule length_dropWhile_le)
  ultimately show "length (dropWhile (\<lambda>c. \<not> is_whitespace c) ws) < length cs"
    by simp
qed

declare split_ws_chars.simps [simp del]

definition split_whitespace :: "string \<Rightarrow> string list" where
  "split_whitespace s = split_ws_chars (utf8_chars s)"

fun join :: "string \<Rightarrow> string list \<Rightarrow> string" where
  "join sep [] = []"
| "join sep [w] = w"
| "join sep (w # v # ws) = w @ sep @ join sep (v # ws)"

lemma concat_utf8_chars [simp]: "concat (utf8_chars s) = s"
  by (induction s rule: utf8_chars.induct) simp_all

lemma starts_with_iff: "starts_with s p \<longleftrightarrow> (\<exists>t. s = p @ t)"
  by (auto simp: starts_with_def) (metis append_take_drop_id)

lemma ends_with_iff: "ends_with s p \<longleftrightarrow> (\<exists>t. s = t @ p)"
proof -
  have "ends_with s p \<longleftrightarrow> (\<exists>t. rev s = rev p @ t)"
    by (simp add: ends_with_def starts_with_iff)
  also have "\<dots> \<longleftrightarrow> (\<exists>t. s = t @ p)"
    by (metis rev_append rev_rev_ident)
  finally show ?thesis .
qed

lemma strip_prefix_Some_iff: "strip_prefix s p = Some t \<longleftrightarrow> s = p @ t"
  by (auto simp: strip_prefix_def starts_with_iff)

lemma str_contains_iff: "str_contains s p \<longleftrightarrow> (\<exists>a b. s = a @ p @ b)"
proof (induction s)
  case Nil
  then show ?case by auto
next
  case (Cons c s)
  show ?case
  proof
    assume "str_contains (c # s) p"
    then consider (here) "starts_with (c # s) p" | (later) "str_contains s p" by auto
    then show "\<exists>a b. c # s = a @ p @ b"
    proof cases
      case here
      then show ?thesis by (metis append_Nil starts_with_iff)
    next
      case later
      with Cons.IH obtain a b where "s = a @ p @ b" by blast
      then have "c # s = (c # a) @ p @ b" by simp
      then show ?thesis by blast
    qed
  next
    assume "\<exists>a b. c # s = a @ p @ b"
    then obtain a b where ab: "c # s = a @ p @ b" by blast
    show "str_contains (c # s) p"
    proof (cases a)
      case Nil
      with ab have "starts_with (c # s) p" by (auto simp: starts_with_iff)
      then show ?thesis by simp
    next
      case (Cons x xs)
      with ab have "s = xs @ p @ b" by simp
      with Cons.IH show ?thesis by auto
    qed
  qed
qed

lemma split_once_Some_iff:
  "split_once d s = Some (a, b) \<longleftrightarrow> s = a @ d # b \<and> d \<notin> set a"
proof (induction s arbitrary: a)
  case Nil
  then show ?case by simp
next
  case (Cons c s)
  then show ?case by (cases a) auto
qed

lemma split_once_length: "split_once d s = Some (a, b) \<Longrightarrow> length b < length s"
  by (auto simp: split_once_Some_iff)

section \<open>Numbers in texts\<close>

text \<open>The decimal texts \<open>format!\<close> writes for unsigned and signed integers.\<close>

fun show_nat :: "nat \<Rightarrow> string" where
  "show_nat n = (if n < 10 then [char_of (48 + n)]
     else show_nat (n div 10) @ [char_of (48 + n mod 10)])"

declare show_nat.simps [simp del]

definition show_word :: "'a::len word \<Rightarrow> string" where
  "show_word w = show_nat (unat w)"

definition show_int :: "int \<Rightarrow> string" where
  "show_int i = (if i < 0 then ''-'' @ show_nat (nat (- i)) else show_nat (nat i))"

section \<open>Keyed tables\<close>

text \<open>
  What the code relies on of \<open>HashMap\<close>, \<open>BTreeMap\<close> and of a SQLite table with a
  primary key: a lookup returns the last value stored under a key that was not removed
  since, and every operation keeps the representation's invariant.
\<close>

locale keyed_table =
  fixes tempty :: "'m"
    and tget :: "'m \<Rightarrow> 'k \<Rightarrow> 'v option"
    and tput :: "'k \<Rightarrow> 'v \<Rightarrow> 'm \<Rightarrow> 'm"
    and tdel :: "'k \<Rightarrow> 'm \<Rightarrow> 'm"
    and tinv :: "'m \<Rightarrow> bool"
  assumes get_empty: "tget tempty k = None"
    and get_put: "tinv m \<Longrightarrow> tget (tput k v m) k' = (if k' = k then Some v else tget m k')"
    and get_del: "tinv m \<Longrightarrow> tget (tdel k m) k' = (if k' = k then None else tget m k')"
    and inv_empty: "tinv tempty"
    and inv_put: "tinv m \<Longrightarrow> tinv (tput k v m)"
    and inv_del: "tinv m \<Longrightarrow> tinv (tdel k m)"
begin

lemma get_put_same: "tinv m \<Longrightarrow> tget (tput k v m) k = Some v"
  by (simp add: get_put)

lemma get_put_other: "tinv m \<Longrightarrow> k' \<noteq> k \<Longrightarrow> tget (tput k v m) k' = tget m k'"
  by (simp add: get_put)

lemma get_del_put: "tinv m \<Longrightarrow> tget m k = None \<Longrightarrow> tget (tdel k (tput k v m)) k' = tget m k'"
  by (simp add: get_del get_put inv_put)

lemma get_put_put: "tinv m \<Longrightarrow> tget m k = Some v \<Longrightarrow> tget (tput k v (tput k v' m)) k' = tget m k'"
  by (simp add: get_put inv_put)

end

text \<open>\<open>BTreeMap\<close>: strictly sorted by key.\<close>

type_synonym ('k, 'v) btree = "('k \<times> 'v) list"

fun bt_insert :: "'k::linorder \<Rightarrow> 'v \<Rightarrow> ('k, 'v) btree \<Rightarrow> ('k, 'v) btree" where
  "bt_insert k v [] = [(k, v)]"
| "bt_insert k v ((k', v') # m) =
     (if k < k' then (k, v) # (k', v') # m
      else if k = k' then (k, v) # m
      else (k', v') # bt_insert k v m)"

definition bt_get :: "('k, 'v) btree \<Rightarrow> 'k \<Rightarrow> 'v option" where
  "bt_get m k = map_of m k"

definition bt_remove :: "'k \<Rightarrow> ('k, 'v) btree \<Rightarrow> ('k, 'v) btree" where
  "bt_remove k m = filter (\<lambda>e. fst e \<noteq> k) m"

definition bt_contains_key :: "('k, 'v) btree \<Rightarrow> 'k \<Rightarrow> bool" where
  "bt_contains_key m k \<longleftrightarrow> k \<in> set (map fst m)"

definition bt_wf :: "('k::linorder, 'v) btree \<Rightarrow> bool" where
  "bt_wf m \<longleftrightarrow> sorted_wrt (<) (map fst m)"

lemma bt_insert_keys: "fst ` set (bt_insert k v m) = insert k (fst ` set m)"
  by (induction k v m rule: bt_insert.induct) (auto split: if_splits)

lemma bt_get_insert: "bt_get (bt_insert k v m) k' = (if k' = k then Some v else bt_get m k')"
  by (induction m) (auto simp: bt_get_def)

lemma bt_wf_insert: "bt_wf m \<Longrightarrow> bt_wf (bt_insert k v m)"
proof (induction m)
  case Nil
  then show ?case by (simp add: bt_wf_def)
next
  case (Cons e m)
  obtain k' v' where e: "e = (k', v')" by (cases e)
  have keys: "\<forall>x \<in> set (bt_insert k v m). fst x = k \<or> fst x \<in> fst ` set m"
    using bt_insert_keys [of k v m] by blast
  from Cons show ?case
    by (auto simp: bt_wf_def e split: if_splits) (use keys in fastforce)+
qed

lemma bt_get_remove: "bt_get (bt_remove k m) k' = (if k' = k then None else bt_get m k')"
  by (induction m) (auto simp: bt_get_def bt_remove_def)

lemma bt_wf_remove: "bt_wf m \<Longrightarrow> bt_wf (bt_remove k m)"
  by (induction m) (auto simp: bt_wf_def bt_remove_def)

lemma bt_empty [simp]: "bt_get [] k = None" "bt_wf []"
  by (simp_all add: bt_get_def bt_wf_def)

interpretation bt: keyed_table "[]" bt_get bt_insert bt_remove bt_wf
  by unfold_locales
    (auto simp: bt_get_insert bt_get_remove bt_wf_insert bt_wf_remove bt_empty)

lemma bt_contains_key_iff: "bt_contains_key m k \<longleftrightarrow> bt_get m k \<noteq> None"
  by (auto simp: bt_contains_key_def bt_get_def map_of_eq_None_iff)

text \<open>
  \<open>HashMap\<close> and SQLite tables: entries with distinct keys; the list order stands for
  the iteration order, which no theorem depends on.
\<close>

type_synonym ('k, 'v) hashmap = "('k \<times> 'v) list"

definition hm_get :: "('k, 'v) hashmap \<Rightarrow> 'k \<Rightarrow> 'v option" where
  "hm_get m k = map_of m k"

definition hm_insert :: "'k \<Rightarrow> 'v \<Rightarrow> ('k, 'v) hashmap \<Rightarrow> ('k, 'v) hashmap" where
  "hm_insert k v m = AList.update k v m"

definition hm_remove :: "'k \<Rightarrow> ('k, 'v) hashmap \<Rightarrow> ('k, 'v) hashmap" where
  "hm_remove k m = AList.delete k m"

definition hm_retain :: "('k \<Rightarrow> 'v \<Rightarrow> bool) \<Rightarrow> ('k, 'v) hashmap \<Rightarrow> ('k, 'v) hashmap" where
  "hm_retain P m = filter (\<lambda>(k, v). P k v) m"

definition hm_wf :: "('k, 'v) hashmap \<Rightarrow> bool" where
  "hm_wf m \<longleftrightarrow> distinct (map fst m)"

lemma hm_get_insert: "hm_get (hm_insert k v m) k' = (if k' = k then Some v else hm_get m k')"
  by (simp add: hm_get_def hm_insert_def update_conv')

lemma hm_get_remove: "hm_get (hm_remove k m) k' = (if k' = k then None else hm_get m k')"
  by (simp add: hm_get_def hm_remove_def delete_conv')

lemma hm_wf_insert [invariants]: "hm_wf m \<Longrightarrow> hm_wf (hm_insert k v m)"
  by (simp add: hm_wf_def hm_insert_def distinct_update)

lemma hm_wf_remove [invariants]: "hm_wf m \<Longrightarrow> hm_wf (hm_remove k m)"
  by (simp add: hm_wf_def hm_remove_def distinct_delete)

lemma hm_wf_retain [invariants]: "hm_wf m \<Longrightarrow> hm_wf (hm_retain P m)"
  by (simp add: hm_wf_def hm_retain_def distinct_map inj_on_def)

lemma hm_wf_Nil [simp]: "hm_wf []"
  by (simp add: hm_wf_def)

lemma hm_get_Nil [simp]: "hm_get [] k = None"
  by (simp add: hm_get_def)

lemma hm_get_retain:
  "hm_wf m \<Longrightarrow>
    hm_get (hm_retain P m) k = (case hm_get m k of None \<Rightarrow> None | Some v \<Rightarrow> if P k v then Some v else None)"
  by (induction m) (auto simp: hm_get_def hm_retain_def hm_wf_def split: option.splits
      dest: map_of_SomeD, metis fst_conv image_eqI)

interpretation hm: keyed_table "[]" hm_get hm_insert hm_remove hm_wf
  by unfold_locales
    (simp_all add: hm_get_insert hm_get_remove hm_wf_insert hm_wf_remove)

lemma hm_length_insert_new: "hm_get m k = None \<Longrightarrow> length (hm_insert k v m) = Suc (length m)"
  by (induction m) (auto simp: hm_get_def hm_insert_def split: if_splits)

lemma hm_length_insert_old: "hm_get m k \<noteq> None \<Longrightarrow> length (hm_insert k v m) = length m"
  by (induction m) (auto simp: hm_get_def hm_insert_def split: if_splits)

lemma hm_length_insert_le: "length (hm_insert k v m) \<le> Suc (length m)"
  by (cases "hm_get m k = None")
    (simp_all add: hm_length_insert_new hm_length_insert_old)

lemma hm_length_remove: "hm_wf m \<Longrightarrow> hm_get m k \<noteq> None \<Longrightarrow> Suc (length (hm_remove k m)) = length m"
proof (induction m)
  case Nil
  then show ?case by simp
next
  case (Cons e m)
  have "k \<notin> fst ` set m \<Longrightarrow> AList.delete k m = m" by (rule delete_id)
  with Cons show ?case
    by (auto simp: hm_get_def hm_wf_def hm_remove_def split: if_splits)
qed

lemma hm_length_retain: "length (hm_retain P m) \<le> length m"
  by (simp add: hm_retain_def)

lemma hm_get_set: "hm_wf m \<Longrightarrow> hm_get m k = Some v \<longleftrightarrow> (k, v) \<in> set m"
  by (simp add: hm_get_def hm_wf_def)

text \<open>\<open>Iterator::min_by_key\<close>: the first entry whose key is least.\<close>

fun min_by_key :: "('a \<Rightarrow> 'k::linorder) \<Rightarrow> 'a list \<Rightarrow> 'a option" where
  "min_by_key f [] = None"
| "min_by_key f (x # xs) =
     (case min_by_key f xs of
        None \<Rightarrow> Some x
      | Some y \<Rightarrow> if f y < f x then Some y else Some x)"

lemma min_by_key_None_iff: "min_by_key f xs = None \<longleftrightarrow> xs = []"
  by (cases xs) (auto split: option.splits)

lemma min_by_key_Some:
  "min_by_key f xs = Some x \<Longrightarrow> x \<in> set xs \<and> (\<forall>y \<in> set xs. f x \<le> f y)"
proof (induction xs arbitrary: x)
  case Nil
  then show ?case by simp
next
  case (Cons z xs)
  show ?case
  proof (cases "min_by_key f xs")
    case None
    with Cons.prems show ?thesis by (simp add: min_by_key_None_iff)
  next
    case (Some y)
    with Cons show ?thesis by (fastforce split: if_splits)
  qed
qed

lemma min_by_key_entry:
  assumes "m \<noteq> []"
  obtains k v where "min_by_key (\<lambda>(_, v). f v) m = Some (k, v)" "(k, v) \<in> set m"
    "\<forall>(k', v') \<in> set m. f v \<le> f v'"
proof -
  obtain k v where m: "min_by_key (\<lambda>(_, v). f v) m = Some (k, v)"
    using assms by (cases "min_by_key (\<lambda>(_, v). f v) m") (auto simp: min_by_key_None_iff)
  with min_by_key_Some [OF m] show ?thesis by (intro that) (auto simp: split_beta)
qed

section \<open>A self-delimiting text\<close>

text \<open>A string after its length in unary: the encoding the sample codecs are built from.\<close>

definition unary :: "string \<Rightarrow> string" where
  "unary s = replicate (length s) (CHR ''1'') @ ''0'' @ s"

definition split_unary :: "string \<Rightarrow> string \<times> string" where
  "split_unary s =
     (let n = length (takeWhile (\<lambda>c. c = CHR ''1'') s); rest = drop (Suc n) s in (take n rest, drop n rest))"

lemma split_unary [simp]: "split_unary (unary a @ xs) = (a, xs)"
proof -
  have "takeWhile (\<lambda>c. c = CHR ''1'') (unary a @ xs) = replicate (length a) (CHR ''1'')"
    by (simp add: unary_def takeWhile_append)
  then show ?thesis by (simp add: split_unary_def unary_def Let_def)
qed

lemma unary_append_inject: "unary a @ xs = unary b @ ys \<Longrightarrow> a = b \<and> xs = ys"
  by (metis split_unary prod.inject)

section \<open>Expiring tables\<close>

text \<open>
  A table of entries that expire, bounded by dropping the entry that expires first: what the
  registry of masked cursors and the tombstones of cancelled requests have in common.
\<close>

locale expiring_table =
  fixes expires :: "'v \<Rightarrow> int" and capacity :: nat
    and prune :: "int \<Rightarrow> ('k, 'v) hashmap \<Rightarrow> ('k, 'v) hashmap"
    and make_room :: "('k, 'v) hashmap \<Rightarrow> ('k, 'v) hashmap"
  assumes capacity_positive: "0 < capacity"
    and prune_retains: "prune now m = hm_retain (\<lambda>_ v. expires v > now) m"
    and room_kept: "length m < capacity \<Longrightarrow> make_room m = m"
    and room_made: "capacity \<le> length m \<Longrightarrow>
      \<exists>k v. (k, v) \<in> set m \<and> (\<forall>(k', v') \<in> set m. expires v \<le> expires v') \<and> make_room m = hm_remove k m"
begin

lemma prune_wf: "hm_wf m \<Longrightarrow> hm_wf (prune now m)"
  by (simp add: prune_retains hm_wf_retain)

lemma prune_length: "length (prune now m) \<le> length m"
  by (simp add: prune_retains hm_length_retain)

lemma prune_get:
  "hm_wf m \<Longrightarrow> hm_get (prune now m) k =
     (case hm_get m k of None \<Rightarrow> None | Some v \<Rightarrow> if expires v > now then Some v else None)"
  by (simp add: prune_retains hm_get_retain)

lemma make_room_wf: "hm_wf m \<Longrightarrow> hm_wf (make_room m)"
  by (cases "length m < capacity") (use room_kept room_made [of m] hm_wf_remove [of m] in \<open>force+\<close>)

text \<open>There is room for one more entry.\<close>

lemma make_room_length:
  assumes "hm_wf m" "length m \<le> capacity"
  shows "length (make_room m) < capacity"
proof (cases "length m < capacity")
  case False
  then obtain k v where kv: "(k, v) \<in> set m" "make_room m = hm_remove k m" using room_made [of m] by auto
  then have "hm_get m k = Some v" using assms(1) by (simp add: hm_get_set)
  then have "Suc (length (hm_remove k m)) = length m" by (intro hm_length_remove [OF assms(1)]) simp
  then show ?thesis using kv assms(2) by simp
qed (simp add: room_kept)

text \<open>An entry is lost only from a full table in which no entry expires before it.\<close>

lemma make_room_get:
  assumes "hm_wf m" "hm_get m k = Some v"
  shows "hm_get (make_room m) k = Some v \<or>
    capacity \<le> length m \<and> (\<forall>(k', v') \<in> set m. expires v \<le> expires v')"
proof (cases "length m < capacity")
  case False
  then obtain k0 v0 where kv: "(k0, v0) \<in> set m" "\<forall>(k', v') \<in> set m. expires v0 \<le> expires v'"
    "make_room m = hm_remove k0 m" using room_made [of m] by auto
  show ?thesis
  proof (cases "k0 = k")
    case True
    then have "v0 = v" using kv(1) assms by (simp add: hm_get_set [symmetric])
    then show ?thesis using kv(2) False by simp
  qed (use kv(3) assms(2) in \<open>simp add: hm_get_remove\<close>)
qed (simp add: room_kept assms(2))

lemma make_room_subset: "hm_wf m \<Longrightarrow> hm_get (make_room m) k = Some v \<Longrightarrow> hm_get m k = Some v"
  by (cases "length m < capacity")
    (use room_kept room_made [of m] in \<open>auto simp: hm_get_remove split: if_splits\<close>)

end

end
