(* ===== verification/Programs.thy ===== *)
theory Programs
  imports Prelude
begin

text \<open>
  Asynchronous functions as programs: a tree of calls on shared state, each with a
  continuation for its reply. What a call does is given by the component that uses it; the
  paths of a program take every reply into account. The requests of the runtime and the calls of the worker
  supervisor are programs of this kind.
\<close>

datatype ('q, 'p, 'r) Prog =
    Return 'r
  | Panic
  | Do 'q "'p \<Rightarrow> ('q, 'p, 'r) Prog"

text \<open>
  A monitor: a state updated by each event, a condition on it along the way, and one on the
  state and the result at the end (\<open>None\<close> for a panic).
\<close>

primrec monitored ::
  "('s \<Rightarrow> 'q \<times> 'p \<Rightarrow> 's) \<Rightarrow> ('s \<Rightarrow> bool) \<Rightarrow> ('s \<Rightarrow> 'r option \<Rightarrow> bool) \<Rightarrow> ('q, 'p, 'r) Prog \<Rightarrow> 's \<Rightarrow> bool"
  where
  "monitored step always finish (Return r) = (\<lambda>s. always s \<and> finish s (Some r))"
| "monitored step always finish Panic = (\<lambda>s. always s \<and> finish s None)"
| "monitored step always finish (Do call k) =
     (\<lambda>s. always s \<and> (\<forall>r. monitored step always finish (k r) (step s (call, r))))"

text \<open>The paths of a program: the events so far and what is left to do.\<close>

inductive path :: "('q, 'p, 'r) Prog \<Rightarrow> ('q \<times> 'p) list \<Rightarrow> ('q, 'p, 'r) Prog \<Rightarrow> bool" where
  path_nil: "path p [] p"
| path_cons: "path (k r) es q \<Longrightarrow> path (Do call k) ((call, r) # es) q"

inductive_cases path_nilE [elim!]: "path p [] q"
inductive_cases path_consE [elim!]: "path p (e # es) q"
inductive_simps path_Return: "path (Return r) es q"
inductive_simps path_Panic: "path Panic es q"
inductive_simps path_Do: "path (Do call k) es q"

lemma path_snoc: "path p es (Do call k) \<Longrightarrow> path p (es @ [(call, r)]) (k r)"
  by (induction p es "Do call k" rule: path.induct) (auto intro: path.intros)

lemma monitored_path:
  "path p es q \<Longrightarrow> monitored step always finish p s \<Longrightarrow>
     monitored step always finish q (foldl step s es)"
  by (induction arbitrary: s rule: path.induct) auto

lemma monitored_always: "monitored step always finish p s \<Longrightarrow> always s"
  by (cases p) auto

text \<open>The two uses: a condition at every point of a path, and one at its end.\<close>

lemma path_always:
  "path p es q \<Longrightarrow> monitored step always finish p s \<Longrightarrow> always (foldl step s es)"
  by (rule monitored_always [OF monitored_path])

lemma path_return:
  "path p es (Return r) \<Longrightarrow> monitored step always finish p s \<Longrightarrow> finish (foldl step s es) (Some r)"
  by (drule (1) monitored_path) simp

text \<open>A function applied to the result of a program.\<close>

primrec map_return :: "('r \<Rightarrow> 'u) \<Rightarrow> ('q, 'p, 'r) Prog \<Rightarrow> ('q, 'p, 'u) Prog" where
  "map_return f (Return r) = Return (f r)"
| "map_return f Panic = Panic"
| "map_return f (Do q k) = Do q (\<lambda>reply. map_return f (k reply))"

lemma path_map_return:
  "path (map_return f p) es q \<longleftrightarrow> (\<exists>q'. path p es q' \<and> q = map_return f q')"
proof (induction p arbitrary: es)
  case (Do call k)
  show ?case by (simp add: path_Do Do) (auto simp: path_Do)
qed (auto simp: path_Return path_Panic)

text \<open>A condition on the events of all paths, by looking at the program.\<close>

definition all_paths :: "(('q \<times> 'p) list \<Rightarrow> bool) \<Rightarrow> (('q \<times> 'p) list \<Rightarrow> 'r \<Rightarrow> bool) \<Rightarrow> ('q, 'p, 'r) Prog \<Rightarrow> ('q \<times> 'p) list \<Rightarrow> bool" where
  "all_paths always finish p es = monitored (\<lambda>es e. es @ [e]) always (\<lambda>es r. case r of Some r \<Rightarrow> finish es r | None \<Rightarrow> True) p es"

lemma all_paths_simps [simp]:
  "all_paths always finish (Return r) es \<longleftrightarrow> always es \<and> finish es r"
  "all_paths always finish Panic es \<longleftrightarrow> always es"
  "all_paths always finish (Do q k) es \<longleftrightarrow> always es \<and> (\<forall>r. all_paths always finish (k r) (es @ [(q, r)]))"
  by (simp_all add: all_paths_def)

lemma foldl_snoc: "foldl (\<lambda>es e. es @ [e]) xs ys = xs @ ys"
  by (induction ys arbitrary: xs) simp_all

lemma all_paths_path:
  assumes "path p es q" "all_paths always finish p []"
  shows "always es" and "q = Return r \<Longrightarrow> finish es r"
proof -
  note monitor = assms(2) [unfolded all_paths_def]
  show "always es" using path_always [OF assms(1) monitor] by (simp add: foldl_snoc)
  assume "q = Return r"
  then show "finish es r" using path_return [OF _ monitor, of es r] assms(1) by (simp add: foldl_snoc)
qed

end
