(* ===== verification/Core_Types.thy ===== *)
theory Core_Types
  imports Prelude
begin

text \<open>
  The database-neutral contracts of \<open>crates/connector-core\<close>: values and results
  (\<open>value.rs\<close>), requests and operations (\<open>operation.rs\<close>), errors (\<open>error.rs\<close>),
  connection configuration (\<open>config.rs\<close>) and the connector contract's data
  (\<open>connector.rs\<close>), with the functions these files define. Floats are their bit
  patterns, UUIDs 128-bit words, \<open>BTreeMap\<close>s sorted association lists. A \<open>Url\<close> of the
  \<open>url\<close> crate is the record of what the accessors the code calls return.
\<close>

section \<open>JSON values\<close>

text \<open>\<open>serde_json::Value\<close>; a number is an unsigned, a negative or a floating-point one.\<close>

datatype json_number = PosInt u64 | NegInt "64 word" | FloatNum "64 word"

datatype json =
    JNull
  | JBool bool
  | JNumber json_number
  | JString string
  | JArray "json list"
  | JObject "(string \<times> json) list"

fun json_as_str :: "json \<Rightarrow> string option" where
  "json_as_str (JString s) = Some s"
| "json_as_str _ = None"

section \<open>Values and results (value.rs)\<close>

type_synonym f64 = "64 word"
type_synonym f32 = "32 word"

datatype DbValue =
    DbNull
  | DbBool bool
  | DbInt64 "64 word"
  | DbUInt64 u64
  | DbFloat64 f64
  | DbDecimal string
  | DbString string
  | DbDate string
  | DbTime string
  | DbDateTime string
  | DbUuid string
  | DbBinary string
  | DbArray "DbValue list"
  | DbDocument "(string \<times> DbValue) list"
  | DbVector "f32 list"

type_synonym DbRecord = "(string, DbValue) btree"

datatype WriteOutcome =
  Outcome_NotApplicable | Outcome_Succeeded | Outcome_Failed | Outcome_Unknown

record ResultMetrics =
  rm_elapsed_ms :: u64
  rm_returned :: u64
  rm_affected :: u64
  rm_scanned :: "u64 option"
  rm_bytes :: "u64 option"

definition ResultMetrics_default :: ResultMetrics where
  "ResultMetrics_default =
     \<lparr>rm_elapsed_ms = 0, rm_returned = 0, rm_affected = 0, rm_scanned = None, rm_bytes = None\<rparr>"

record OperationResult =
  or_request_id :: string
  or_records :: "DbRecord list"
  or_next_cursor :: "string option"
  or_truncated :: bool
  or_warnings :: "string list"
  or_metrics :: ResultMetrics
  or_outcome :: WriteOutcome

definition OperationResult_empty :: "string \<Rightarrow> OperationResult" where
  "OperationResult_empty request_id =
     \<lparr>or_request_id = request_id, or_records = [], or_next_cursor = None, or_truncated = False,
      or_warnings = [], or_metrics = ResultMetrics_default, or_outcome = Outcome_NotApplicable\<rparr>"

section \<open>Errors (error.rs)\<close>

datatype ErrorCategory =
    Cat_InvalidRequest | Cat_Authentication | Cat_PermissionDenied | Cat_NotFound | Cat_Conflict
  | Cat_Unsupported | Cat_RateLimited | Cat_Timeout | Cat_Cancelled | Cat_Unavailable
  | Cat_Protocol | Cat_UnknownOutcome | Cat_Internal

datatype ErrorPhase =
    Phase_Configuration | Phase_Network | Phase_Tls | Phase_Authentication
  | Phase_Authorization | Phase_Protocol | Phase_Operation

fun for_category :: "ErrorCategory \<Rightarrow> ErrorPhase" where
  "for_category Cat_InvalidRequest = Phase_Configuration"
| "for_category Cat_NotFound = Phase_Configuration"
| "for_category Cat_Unsupported = Phase_Configuration"
| "for_category Cat_Authentication = Phase_Authentication"
| "for_category Cat_PermissionDenied = Phase_Authorization"
| "for_category Cat_Timeout = Phase_Network"
| "for_category Cat_Unavailable = Phase_Network"
| "for_category Cat_Protocol = Phase_Protocol"
| "for_category Cat_Conflict = Phase_Operation"
| "for_category Cat_RateLimited = Phase_Operation"
| "for_category Cat_Cancelled = Phase_Operation"
| "for_category Cat_UnknownOutcome = Phase_Operation"
| "for_category Cat_Internal = Phase_Operation"

record ConnectorError =
  ce_category :: ErrorCategory
  ce_phase :: ErrorPhase
  ce_message :: string
  ce_retryable :: bool
  ce_code :: "string option"

definition ConnectorError_new :: "ErrorCategory \<Rightarrow> string \<Rightarrow> ConnectorError" where
  "ConnectorError_new category message =
     \<lparr>ce_category = category, ce_phase = for_category category, ce_message = message,
      ce_retryable = False, ce_code = None\<rparr>"

definition with_retryable :: "bool \<Rightarrow> ConnectorError \<Rightarrow> ConnectorError" where
  "with_retryable r e = e\<lparr>ce_retryable := r\<rparr>"

definition with_phase :: "ErrorPhase \<Rightarrow> ConnectorError \<Rightarrow> ConnectorError" where
  "with_phase p e = e\<lparr>ce_phase := p\<rparr>"

definition with_code :: "string \<Rightarrow> ConnectorError \<Rightarrow> ConnectorError" where
  "with_code c e = e\<lparr>ce_code := Some c\<rparr>"

lemma ConnectorError_category [simp]:
  "ce_category (ConnectorError_new c m) = c"
  "ce_category (with_retryable r e) = ce_category e"
  "ce_category (with_phase p e) = ce_category e"
  "ce_category (with_code k e) = ce_category e"
  by (simp_all add: ConnectorError_new_def with_retryable_def with_phase_def with_code_def)

section \<open>Requests and operations (operation.rs)\<close>

datatype Filter =
    F_Eq string DbValue
  | F_Ne string DbValue
  | F_Lt string DbValue
  | F_Lte string DbValue
  | F_Gt string DbValue
  | F_Gte string DbValue
  | F_In string "DbValue list"
  | F_Contains string DbValue
  | F_And "Filter list"
  | F_Or "Filter list"
  | F_Not Filter

datatype SortDirection = Asc | Desc

record SortField =
  sf_field :: string
  sf_direction :: SortDirection

record QueryOptions =
  qo_limit :: u32
  qo_cursor :: "string option"
  qo_sort :: "SortField list"
  qo_timeout_ms :: "u64 option"

definition QueryOptions_default :: QueryOptions where
  "QueryOptions_default = \<lparr>qo_limit = 100, qo_cursor = None, qo_sort = [], qo_timeout_ms = None\<rparr>"

record ReadRequest =
  rd_target :: string
  rd_fields :: "string list"
  rd_filter :: "Filter option"
  rd_options :: QueryOptions

record InsertRequest =
  ins_target :: string
  ins_records :: "DbRecord list"
  ins_idempotency_key :: "string option"

record UpdateRequest =
  upd_target :: string
  upd_filter :: Filter
  upd_changes :: DbRecord
  upd_max_affected :: u64
  upd_idempotency_key :: "string option"

record DeleteRequest =
  del_target :: string
  del_filter :: Filter
  del_max_affected :: u64
  del_idempotency_key :: "string option"

record NativeRequest =
  nat_language :: string
  nat_statement :: string
  nat_parameters :: "(string, DbValue) btree"
  nat_positional_parameters :: "DbValue list"
  nat_max_affected :: "u64 option"
  nat_idempotency_key :: "string option"

record SqlQueryRequest =
  sq_language :: string
  sq_statement :: string
  sq_parameters :: "(string, DbValue) btree"
  sq_positional_parameters :: "DbValue list"

definition NativeRequest_from :: "SqlQueryRequest \<Rightarrow> NativeRequest" where
  "NativeRequest_from request =
     \<lparr>nat_language = sq_language request, nat_statement = sq_statement request,
      nat_parameters = sq_parameters request,
      nat_positional_parameters = sq_positional_parameters request,
      nat_max_affected = None, nat_idempotency_key = None\<rparr>"

record SearchRequest =
  se_target :: string
  se_query :: json
  se_options :: QueryOptions

record VectorSearchRequest =
  vs_target :: string
  vs_vector :: "f32 list"
  vs_top_k :: u32
  vs_filter :: "json option"
  vs_namespace :: "string option"
  vs_include_vectors :: bool

record VectorPoint =
  vp_id :: string
  vp_vector :: "f32 list"
  vp_metadata :: DbRecord

record VectorUpsertRequest =
  vu_target :: string
  vu_points :: "VectorPoint list"
  vu_namespace :: "string option"
  vu_idempotency_key :: "string option"

record TimeSeriesPoint =
  tp_measurement :: string
  tp_timestamp :: string
  tp_tags :: "(string, string) btree"
  tp_fields :: "(string, DbValue) btree"

record TimeSeriesWriteRequest =
  tw_target :: string
  tw_points :: "TimeSeriesPoint list"
  tw_idempotency_key :: "string option"

datatype DataOperation =
    Op_Read ReadRequest
  | Op_Insert InsertRequest
  | Op_Update UpdateRequest
  | Op_Delete DeleteRequest
  | Op_NativeQuery NativeRequest
  | Op_NativeExecute NativeRequest
  | Op_Search SearchRequest
  | Op_VectorSearch VectorSearchRequest
  | Op_VectorUpsert VectorUpsertRequest
  | Op_TimeSeriesWrite TimeSeriesWriteRequest

fun write_idempotency_key :: "DataOperation \<Rightarrow> string option" where
  "write_idempotency_key (Op_Insert request) = ins_idempotency_key request"
| "write_idempotency_key (Op_Update request) = upd_idempotency_key request"
| "write_idempotency_key (Op_Delete request) = del_idempotency_key request"
| "write_idempotency_key (Op_NativeExecute request) = nat_idempotency_key request"
| "write_idempotency_key (Op_VectorUpsert request) = vu_idempotency_key request"
| "write_idempotency_key (Op_TimeSeriesWrite request) = tw_idempotency_key request"
| "write_idempotency_key (Op_Read _) = None"
| "write_idempotency_key (Op_NativeQuery _) = None"
| "write_idempotency_key (Op_Search _) = None"
| "write_idempotency_key (Op_VectorSearch _) = None"

section \<open>Configuration (config.rs)\<close>

type_synonym ConnectionId = "128 word"

datatype Product =
    PostgreSql | MySql | Oracle | SqlServer | MongoDb | Couchbase | Cassandra | HBase | InfluxDb
  | Prometheus | Elasticsearch | OpenSearch | Splunk | Pinecone | Milvus | Qdrant | Weaviate
  | CockroachDb | TiDb | YugabyteDb | OceanBase

text \<open>The derived order of \<open>Product\<close>: by declaration.\<close>

fun product_index :: "Product \<Rightarrow> nat" where
  "product_index PostgreSql = 0" | "product_index MySql = 1" | "product_index Oracle = 2"
| "product_index SqlServer = 3" | "product_index MongoDb = 4" | "product_index Couchbase = 5"
| "product_index Cassandra = 6" | "product_index HBase = 7" | "product_index InfluxDb = 8"
| "product_index Prometheus = 9" | "product_index Elasticsearch = 10"
| "product_index OpenSearch = 11" | "product_index Splunk = 12" | "product_index Pinecone = 13"
| "product_index Milvus = 14" | "product_index Qdrant = 15" | "product_index Weaviate = 16"
| "product_index CockroachDb = 17" | "product_index TiDb = 18"
| "product_index YugabyteDb = 19" | "product_index OceanBase = 20"

lemma product_index_inject: "product_index a = product_index b \<Longrightarrow> a = b"
  by (cases a; cases b) simp_all

instantiation Product :: linorder
begin

definition less_eq_Product :: "Product \<Rightarrow> Product \<Rightarrow> bool" where
  "less_eq_Product a b \<longleftrightarrow> product_index a \<le> product_index b"

definition less_Product :: "Product \<Rightarrow> Product \<Rightarrow> bool" where
  "less_Product a b \<longleftrightarrow> product_index a < product_index b"

instance
  by standard
    (auto simp: less_eq_Product_def less_Product_def intro: product_index_inject)

end

definition normalize_mode :: "string \<Rightarrow> string" where
  "normalize_mode api_mode =
     map (\<lambda>c. if c = CHR '' '' \<or> c = CHR ''_'' then CHR ''-'' else c)
       (to_ascii_lowercase (trim api_mode))"

definition canonical_api_mode :: "Product \<Rightarrow> string \<Rightarrow> string" where
  "canonical_api_mode product api_mode =
     (let normalized = normalize_mode api_mode in
      if product = PostgreSql \<and> normalized \<in> {''postgres'', ''pgwire''}
         \<or> product = CockroachDb \<and> normalized = ''pgwire'' then ''postgresql''
      else if product \<in> {MySql, TiDb} \<and> normalized = ''mysql-protocol'' then ''mysql''
      else if product = SqlServer \<and> normalized \<in> {''sqlserver'', ''sql-server''} then ''tds''
      else if product = MongoDb \<and> normalized = ''mongo'' then ''mongodb''
      else if product = Cassandra \<and> normalized = ''cassandra'' then ''cql''
      else if product = YugabyteDb \<and> normalized = ''cql'' then ''ycql''
      else if product = YugabyteDb \<and> normalized \<in> {''postgresql'', ''pgwire''} then ''ysql''
      else if product = OceanBase \<and> normalized \<in> {''mysql'', ''mysql-protocol''}
        then ''oceanbase-mysql''
      else normalized)"

datatype AuthKind =
    Auth_Anonymous | Auth_UsernamePassword | Auth_ConnectionString | Auth_ApiKey
  | Auth_BearerToken | Auth_ClientCertificate

record TlsConfig =
  tls_enabled :: bool
  tls_verify_server_certificate :: bool
  tls_ca_certificate_ref :: "string option"
  tls_client_certificate_ref :: "string option"
  tls_server_name :: "string option"

definition TlsConfig_default :: TlsConfig where
  "TlsConfig_default =
     \<lparr>tls_enabled = True, tls_verify_server_certificate = True, tls_ca_certificate_ref = None,
      tls_client_certificate_ref = None, tls_server_name = None\<rparr>"

datatype DataEgress = LocalOnly | CloudAllowed | CloudAllowedMasked

record ResourceRule =
  rule_pattern :: string
  rule_allow_read :: bool
  rule_allow_insert :: bool
  rule_allow_update :: bool
  rule_allow_delete :: bool
  rule_masked_fields :: "string list"

record ConnectionPolicy =
  pol_enabled :: bool
  pol_egress :: DataEgress
  pol_max_rows :: u32
  pol_max_bytes :: u64
  pol_timeout_ms :: u64
  pol_max_affected :: u64
  pol_allow_native_read :: bool
  pol_allow_native_write :: bool
  pol_allow_time_series_query :: bool
  pol_resources :: "ResourceRule list"

definition ConnectionPolicy_default :: ConnectionPolicy where
  "ConnectionPolicy_default =
     \<lparr>pol_enabled = True, pol_egress = LocalOnly, pol_max_rows = 1000,
      pol_max_bytes = 10 * 1024 * 1024, pol_timeout_ms = 30000, pol_max_affected = 100,
      pol_allow_native_read = False, pol_allow_native_write = False,
      pol_allow_time_series_query = True, pol_resources = []\<rparr>"

text \<open>What the accessors of \<open>url::Url\<close> return: \<open>scheme\<close>, \<open>host_str\<close>, \<open>username\<close>,
  \<open>password\<close>, \<open>query_pairs\<close>, and the serialization as a whole.\<close>

record Url =
  url_scheme :: string
  url_host :: "string option"
  url_username :: string
  url_password :: "string option"
  url_query_pairs :: "(string \<times> string) list"
  url_as_str :: string

record ConnectionProfile =
  pr_id :: ConnectionId
  pr_display_name :: string
  pr_product :: Product
  pr_api_mode :: string
  pr_endpoint :: Url
  pr_database :: "string option"
  pr_tags :: "string list"
  pr_auth_kind :: AuthKind
  pr_secret_ref :: string
  pr_tls :: TlsConfig
  pr_policy :: ConnectionPolicy
  pr_policy_version :: u64
  pr_expected_version :: "string option"
  pr_options :: "(string, json) btree"

record SanitizedConnection =
  sc_id :: ConnectionId
  sc_display_name :: string
  sc_product :: Product
  sc_api_mode :: string
  sc_tags :: "string list"
  sc_enabled :: bool
  sc_egress :: DataEgress

definition SanitizedConnection_from :: "ConnectionProfile \<Rightarrow> SanitizedConnection" where
  "SanitizedConnection_from profile =
     \<lparr>sc_id = pr_id profile, sc_display_name = pr_display_name profile,
      sc_product = pr_product profile, sc_api_mode = pr_api_mode profile,
      sc_tags = pr_tags profile, sc_enabled = pol_enabled (pr_policy profile),
      sc_egress = pol_egress (pr_policy profile)\<rparr>"

record SecretMaterial =
  sm_kind :: AuthKind
  sm_fields :: "(string, string) btree"

text \<open>
  The cache identity of a connection: the fields of \<open>ConnectionCacheIdentity\<close> in their
  order. \<open>digest\<close> is \<open>Sha256::digest\<close> of their JSON encoding, which fails for no value
  of these types; the parameter returns \<open>None\<close> where \<open>serde_json::to_vec\<close> would fail.
\<close>

record ConnectionCacheIdentity =
  cci_product :: Product
  cci_api_mode :: string
  cci_endpoint :: Url
  cci_database :: "string option"
  cci_auth_kind :: AuthKind
  cci_tls :: TlsConfig
  cci_options :: "(string, json) btree"
  cci_timeout_ms :: u64
  cci_secret :: SecretMaterial

definition cache_identity :: "ConnectionProfile \<Rightarrow> SecretMaterial \<Rightarrow> ConnectionCacheIdentity" where
  "cache_identity profile secret =
     \<lparr>cci_product = pr_product profile, cci_api_mode = pr_api_mode profile,
      cci_endpoint = pr_endpoint profile, cci_database = pr_database profile,
      cci_auth_kind = pr_auth_kind profile, cci_tls = pr_tls profile,
      cci_options = pr_options profile, cci_timeout_ms = pol_timeout_ms (pr_policy profile),
      cci_secret = secret\<rparr>"

definition connection_cache_key ::
  "(ConnectionCacheIdentity \<Rightarrow> 'd option) \<Rightarrow> ConnectionProfile \<Rightarrow> SecretMaterial
     \<Rightarrow> ConnectorError + (ConnectionId \<times> 'd)" where
  "connection_cache_key digest profile secret =
     bind_res (ok_or (digest (cache_identity profile secret))
         (ConnectorError_new Cat_Internal ''could not derive the connection cache identity''))
       (\<lambda>d. Inr (pr_id profile, d))"

section \<open>Time\<close>

text \<open>A \<open>DateTime<Utc>\<close> of \<open>chrono\<close> is the number of nanoseconds since the epoch.\<close>

type_synonym DateTime = int

definition nanos_per_second :: int where
  "nanos_per_second = 1000000000"

definition timestamp_millis :: "DateTime \<Rightarrow> int" where
  "timestamp_millis t = t div 1000000"

section \<open>The connector contract (connector.rs)\<close>

text \<open>Instants of the monotonic clock are counted in nanoseconds.\<close>

type_synonym Instant = int

record ConnectorContext =
  cx_request_id :: string
  cx_session_id :: string
  cx_deadline :: Instant
  cx_max_rows :: u32
  cx_max_bytes :: u64

record ConnectionInfo =
  ci_product_name :: string
  ci_product_version :: "string option"
  ci_api_mode :: string
  ci_server_identity :: "string option"
  ci_warnings :: "string list"

definition validate_expected_version ::
  "ConnectionProfile \<Rightarrow> ConnectionInfo \<Rightarrow> ConnectorError + unit" where
  "validate_expected_version profile info =
     (case pr_expected_version profile of
        None \<Rightarrow> Inr ()
      | Some expected \<Rightarrow>
          (let expected = trim expected in
           if expected = [] then
             Inl (ConnectorError_new Cat_InvalidRequest ''expected_version must not be empty'')
           else
             bind_res (ok_or (ci_product_version info)
                 (ConnectorError_new Cat_Protocol
                    ''the server did not report a version required by expected_version''))
               (\<lambda>actual. if \<not> starts_with actual expected then
                   Inl (ConnectorError_new Cat_Protocol
                      ''the server version does not match expected_version'')
                 else Inr ())))"

record CatalogQuery =
  cq_pattern :: "string option"
  cq_namespace :: "string option"
  cq_limit :: u32
  cq_cursor :: "string option"

record CatalogEntity =
  cat_id :: string
  cat_namespace :: "string option"
  cat_name :: string
  cat_kind :: string
  cat_comment :: "string option"

record CatalogPage =
  cp_entities :: "CatalogEntity list"
  cp_next_cursor :: "string option"

record EntityDescription =
  ed_entity :: CatalogEntity
  ed_fields :: "DbRecord list"
  ed_metadata :: DbRecord
  ed_truncated :: bool
  ed_warnings :: "string list"

section \<open>Lemmas\<close>

lemma canonical_api_mode_cases:
  "canonical_api_mode product m \<in>
     {''postgresql'', ''mysql'', ''tds'', ''mongodb'', ''cql'', ''ycql'', ''ysql'',
      ''oceanbase-mysql'', normalize_mode m}"
  by (simp add: canonical_api_mode_def Let_def)

lemma validate_expected_version_Inr_iff:
  "validate_expected_version profile info = Inr () \<longleftrightarrow>
     (case pr_expected_version profile of
        None \<Rightarrow> True
      | Some e \<Rightarrow> trim e \<noteq> [] \<and>
          (\<exists>v. ci_product_version info = Some v \<and> starts_with v (trim e)))"
  by (auto simp: validate_expected_version_def Let_def res_simps split: option.splits)

end
