(* ===== verification/Capability.thy ===== *)
theory Capability
  imports Core_Types
begin

text \<open>
  \<open>crates/connector-core/src/capability.rs\<close>: connector manifests, the descriptor built
  from a manifest (resource-target hints, connection-form hints, MCP tool routes) and
  the validation of a connection's profile and secret against the descriptor. The
  \<open>unreachable!\<close> arm of \<open>resource_target_hints\<close> is \<open>None\<close>.
\<close>

definition TIME_SERIES_QUERY_POLICY_TARGET :: string where
  "TIME_SERIES_QUERY_POLICY_TARGET = ''@timeseries_query''"

datatype Capability =
    Cap_TestConnection | Cap_Discover | Cap_Describe | Cap_Read | Cap_Insert | Cap_Upsert
  | Cap_Update | Cap_Delete | Cap_Batch | Cap_Transactions | Cap_NativeQuery
  | Cap_NativeExecute | Cap_TextSearch | Cap_VectorSearch | Cap_TimeSeriesQuery
  | Cap_TimeSeriesWrite | Cap_Explain | Cap_AsyncJobs

datatype ConnectorStatus = Experimental | Verified | Unavailable

record ConnectorManifest =
  mf_id :: string
  mf_display_name :: string
  mf_product :: Product
  mf_api_mode :: string
  mf_driver :: string
  mf_driver_version :: string
  mf_status :: ConnectorStatus
  mf_capabilities :: "Capability list"
  mf_auth_kinds :: "AuthKind list"
  mf_limitations :: "string list"

record AuthenticationInputHints =
  ah_kind :: AuthKind
  ah_requires_tls :: bool
  ah_required_field_sets :: "string list list"
  ah_optional_fields :: "string list"

datatype ConnectionOptionType = Type_String | Type_Boolean

record ConnectionOptionHints =
  oh_name :: string
  oh_value_type :: ConnectionOptionType
  oh_required :: bool
  oh_default_value :: "json option"
  oh_allowed_values :: "json list"

datatype TlsMode = Tls_Unsupported | Tls_Optional | Tls_Required

record TlsInputHints =
  th_mode :: TlsMode
  th_custom_ca_supported :: bool
  th_client_certificate_supported :: bool

record ConnectionInputHints =
  ih_endpoint_schemes :: "string list"
  ih_default_port :: "u16 option"
  ih_database_required :: bool
  ih_tls :: TlsInputHints
  ih_authentication :: "AuthenticationInputHints list"
  ih_options :: "ConnectionOptionHints list"

datatype ResourceTargetKind =
    Kind_SqlRelation | Kind_DocumentCollection | Kind_KeyValueTable | Kind_WideColumnTable
  | Kind_TimeSeriesDestination | Kind_SearchIndex | Kind_EventIndex | Kind_VectorIndex
  | Kind_VectorCollection

record ResourceTargetFormat =
  tf_template :: string
  tf_prerequisite :: "string option"

record ResourceTargetHints =
  rt_kind :: ResourceTargetKind
  rt_formats :: "ResourceTargetFormat list"
  rt_discovery_entity_kinds :: "string list"

record McpToolRoute =
  route_capability :: Capability
  route_tool :: string
  route_fixed_policy_target :: "string option"

record EffectiveMcpTool =
  et_capability :: Capability
  et_tool :: string
  et_available :: bool
  et_unavailable_reason :: "string option"

record ConnectorDescriptor =
  ds_manifest :: ConnectorManifest
  ds_connection_input :: ConnectionInputHints
  ds_resource_target :: ResourceTargetHints
  ds_mcp_tools :: "McpToolRoute list"

record ConnectionCapabilities =
  cc_connector :: ConnectorDescriptor
  cc_connection :: SanitizedConnection
  cc_policy :: ConnectionPolicy
  cc_policy_version :: u64
  cc_effective_mcp_tools :: "EffectiveMcpTool list"

section \<open>MCP tool routes\<close>

definition supports :: "ConnectorManifest \<Rightarrow> Capability \<Rightarrow> bool" where
  "supports manifest capability \<longleftrightarrow> capability \<in> set (mf_capabilities manifest)"

definition add_tool_route ::
  "McpToolRoute list \<Rightarrow> ConnectorManifest \<Rightarrow> Capability \<Rightarrow> string \<Rightarrow> McpToolRoute list" where
  "add_tool_route routes manifest capability tool =
     (if tool \<noteq> [] \<and> supports manifest capability then
        routes @ [\<lparr>route_capability = capability, route_tool = tool,
          route_fixed_policy_target =
            (if capability = Cap_TimeSeriesQuery then Some TIME_SERIES_QUERY_POLICY_TARGET
             else None)\<rparr>]
      else routes)"

fun add_tool_routes ::
  "McpToolRoute list \<Rightarrow> ConnectorManifest \<Rightarrow> (Capability \<times> string) list \<Rightarrow> McpToolRoute list" where
  "add_tool_routes routes manifest [] = routes"
| "add_tool_routes routes manifest ((capability, tool) # rest) =
     add_tool_routes (add_tool_route routes manifest capability tool) manifest rest"

text \<open>The tools for read, insert, update and delete on each kind of target.\<close>

fun kind_tools :: "ResourceTargetKind \<Rightarrow> string \<times> string \<times> string \<times> string" where
  "kind_tools Kind_SqlRelation = (''sql_read'', ''sql_insert'', ''sql_update'', ''sql_delete'')"
| "kind_tools Kind_DocumentCollection =
     (''document_find'', ''document_insert'', ''document_update'', ''document_delete'')"
| "kind_tools Kind_KeyValueTable = (''kv_read'', ''kv_put'', ''kv_update'', ''kv_delete'')"
| "kind_tools Kind_WideColumnTable = (''kv_read'', ''kv_put'', ''kv_update'', ''kv_delete'')"
| "kind_tools Kind_SearchIndex =
     (''search_document_read'', ''search_document_upsert'', ''search_document_update'',
      ''search_document_delete'')"
| "kind_tools Kind_EventIndex =
     (''search_document_read'', ''event_ingest'', ''search_document_update'',
      ''search_document_delete'')"
| "kind_tools Kind_VectorIndex = (''vector_fetch'', ''vector_insert'', '''', ''vector_delete'')"
| "kind_tools Kind_VectorCollection =
     (''vector_fetch'', ''vector_insert'', '''', ''vector_delete'')"
| "kind_tools Kind_TimeSeriesDestination = ('''', '''', '''', '''')"

definition mcp_tool_routes ::
  "ConnectorManifest \<Rightarrow> ResourceTargetKind \<Rightarrow> McpToolRoute list" where
  "mcp_tool_routes manifest target_kind =
     (let routes = add_tool_routes [] manifest
        [(Cap_TestConnection, ''db_test_connection''),
         (Cap_Discover, ''db_search_catalog''),
         (Cap_Describe, ''db_describe_entity''),
         (Cap_NativeQuery, ''native_query''),
         (Cap_NativeExecute, ''native_execute''),
         (Cap_TextSearch, ''search_query''),
         (Cap_VectorSearch, ''vector_search''),
         (Cap_TimeSeriesQuery, ''timeseries_query''),
         (Cap_TimeSeriesWrite, ''timeseries_write'')];
       routes =
        (if supports manifest Cap_Discover \<and> supports manifest Cap_Describe then
           routes @ [\<lparr>route_capability = Cap_Describe, route_tool = ''db_inspect_schema'',
             route_fixed_policy_target = None\<rparr>]
         else routes);
       routes =
        (if target_kind = Kind_SqlRelation \<and> supports manifest Cap_NativeQuery then
           routes @ [\<lparr>route_capability = Cap_NativeQuery, route_tool = ''sql_query'',
             route_fixed_policy_target = None\<rparr>]
         else routes);
       (read_tool, insert_tool, update_tool, delete_tool) = kind_tools target_kind;
       routes = add_tool_routes routes manifest
        [(Cap_Read, read_tool), (Cap_Insert, insert_tool), (Cap_Update, update_tool),
         (Cap_Delete, delete_tool)];
       batch_tool =
        (if target_kind = Kind_VectorIndex \<or> target_kind = Kind_VectorCollection
         then ''vector_upsert'' else insert_tool);
       routes = add_tool_route routes manifest Cap_Batch batch_tool
      in
       if target_kind = Kind_VectorIndex \<or> target_kind = Kind_VectorCollection
       then add_tool_route routes manifest Cap_Upsert ''vector_upsert''
       else routes)"

section \<open>Resource targets\<close>

definition target_format :: "string \<Rightarrow> string option \<Rightarrow> ResourceTargetFormat" where
  "target_format template prerequisite =
     \<lparr>tf_template = template, tf_prerequisite = prerequisite\<rparr>"

definition namespaced_formats :: "string \<Rightarrow> string \<Rightarrow> string \<Rightarrow> ResourceTargetFormat list" where
  "namespaced_formats namespace resource separator =
     [target_format (''{'' @ namespace @ ''}'' @ separator @ ''{'' @ resource @ ''}'') None,
      target_format (''{'' @ resource @ ''}'') (Some ''profile.database'')]"

definition resource_target_hints :: "Product \<Rightarrow> string \<Rightarrow> ResourceTargetHints option" where
  "resource_target_hints product api_mode =
     (let hints = (\<lambda>kind formats kinds.
        Some \<lparr>rt_kind = kind, rt_formats = formats, rt_discovery_entity_kinds = kinds\<rparr>)
      in
      if product \<in> {PostgreSql, CockroachDb} \<or> product = YugabyteDb \<and> api_mode = ''ysql'' then
        hints Kind_SqlRelation [target_format ''{schema}.{relation}'' None]
          [''base table'', ''table'', ''view'', ''foreign table'']
      else if product \<in> {MySql, TiDb, OceanBase} then
        hints Kind_SqlRelation
          [target_format ''{database}.{table}'' None,
           target_format ''{table}'' (Some ''profile.database'')]
          [''base table'', ''table'', ''view'']
      else if product = Oracle then
        hints Kind_SqlRelation
          [target_format ''{owner}.{table}'' None,
           target_format ''{table}'' (Some ''secret.username'')]
          [''table'', ''view'']
      else if product = SqlServer then
        hints Kind_SqlRelation [target_format ''{schema}.{table}'' None]
          [''base table'', ''table'', ''view'']
      else if product = MongoDb then
        hints Kind_DocumentCollection (namespaced_formats ''database'' ''collection'' ''.'')
          [''collection'']
      else if product = Couchbase then
        hints Kind_DocumentCollection
          [target_format ''{bucket}.{scope}.{collection}'' None,
           target_format ''{scope}.{collection}'' (Some ''profile.database''),
           target_format ''{collection}'' (Some ''profile.database'')]
          [''collection'']
      else if product = Cassandra \<or> product = YugabyteDb \<and> api_mode = ''ycql'' then
        hints Kind_WideColumnTable (namespaced_formats ''keyspace'' ''table'' ''.'') [''table'']
      else if product = HBase then
        hints Kind_WideColumnTable
          [target_format ''{namespace}:{table}'' None, target_format ''{table}'' None]
          [''table'']
      else if product = InfluxDb \<and> api_mode = ''v2'' then
        hints Kind_TimeSeriesDestination [target_format ''{profile.options.bucket}'' None]
          [''measurement'']
      else if product = InfluxDb \<and> api_mode = ''v3'' then
        hints Kind_TimeSeriesDestination [target_format ''{profile.database}'' None] [''table'']
      else if product = InfluxDb then
        hints Kind_TimeSeriesDestination [target_format ''{profile.database}'' None]
          [''measurement'']
      else if product = Prometheus then
        hints Kind_TimeSeriesDestination [target_format ''remote_write'' None] [''metric'']
      else if product \<in> {Elasticsearch, OpenSearch} then
        hints Kind_SearchIndex [target_format ''{index}'' None] [''index'']
      else if product = Splunk then
        hints Kind_EventIndex [target_format ''{index}'' None] [''index'']
      else if product = Pinecone then
        hints Kind_VectorIndex [target_format ''{index}'' None] [''vector_index'']
      else if product \<in> {Milvus, Qdrant, Weaviate} then
        hints Kind_VectorCollection [target_format ''{collection}'' None] [''collection'']
      else None)"

section \<open>Connection form hints\<close>

definition endpoint_hints :: "Product \<Rightarrow> string \<Rightarrow> string list \<times> u16 option" where
  "endpoint_hints product api_mode =
     (if product \<in> {PostgreSql, CockroachDb} \<or> product = YugabyteDb \<and> api_mode = ''ysql'' then
        ([''postgresql'', ''postgres''], Some 5432)
      else if product \<in> {MySql, TiDb, OceanBase} then ([''mysql''], Some 3306)
      else if product = Oracle then
        ([''oracle'', ''oracles'', ''tcp'', ''tcps''], Some 1521)
      else if product = SqlServer then ([''sqlserver''], Some 1433)
      else if product = MongoDb then ([''mongodb'', ''mongodb+srv''], Some 27017)
      else if product = Couchbase then
        ([''couchbase'', ''couchbases'', ''http'', ''https''], Some 11210)
      else if product = Cassandra \<or> product = YugabyteDb \<and> api_mode = ''ycql'' then
        ([''cql'', ''cassandra'', ''ycql'', ''tcp''], Some 9042)
      else if product = HBase then ([''thrift'', ''tcp''], Some 9090)
      else if product = InfluxDb \<and> api_mode = ''v3'' then ([''http'', ''https''], Some 8181)
      else if product = InfluxDb then ([''http'', ''https''], Some 8086)
      else if product = Prometheus then ([''http'', ''https''], Some 9090)
      else if product \<in> {Elasticsearch, OpenSearch} then ([''http'', ''https''], Some 9200)
      else if product = Splunk then ([''http'', ''https''], Some 8089)
      else if product = Pinecone then ([''http'', ''https''], Some 443)
      else if product = Milvus then ([''http'', ''https''], Some 19530)
      else if product = Qdrant then ([''http'', ''https''], Some 6333)
      else if product = Weaviate then ([''http'', ''https''], Some 8080)
      else ([], None))"

definition required_field_sets :: "Product \<Rightarrow> string \<Rightarrow> AuthKind \<Rightarrow> string list list" where
  "required_field_sets product api_mode kind =
     (case kind of
        Auth_Anonymous \<Rightarrow> []
      | Auth_UsernamePassword \<Rightarrow>
          (if product = Splunk then
             [[''username'', ''password''], [''management_username'', ''management_password'']]
           else [[''username'', ''password'']])
      | Auth_ConnectionString \<Rightarrow>
          (if product = Oracle then [[''connection_string'', ''username'', ''password'']]
           else if product = Couchbase then
             [[''connection_string'', ''username'', ''password''],
              [''uri'', ''username'', ''password'']]
           else if product = MongoDb then [[''connection_string''], [''uri'']]
           else [[''connection_string'']])
      | Auth_ApiKey \<Rightarrow>
          (if product = Elasticsearch then [[''api_key''], [''api_key_id'', ''api_key_secret'']]
           else if product = InfluxDb then [[''token''], [''api_key'']]
           else if product = Splunk then [[''api_key''], [''management_token'']]
           else [[''api_key'']])
      | Auth_BearerToken \<Rightarrow>
          (if product = Splunk then [[''token''], [''management_token''], [''bearer_token'']]
           else [[''token''], [''bearer_token'']])
      | Auth_ClientCertificate \<Rightarrow>
          (if product \<in> {PostgreSql, CockroachDb, MySql, TiDb, OceanBase}
              \<or> product = YugabyteDb \<and> api_mode = ''ysql'' then
             [[''username'', ''client_certificate_pem'', ''client_private_key_pem'']]
           else [[''client_certificate_pem'', ''client_private_key_pem'']]))"

definition optional_fields :: "Product \<Rightarrow> AuthKind \<Rightarrow> string list" where
  "optional_fields product kind =
     (if kind = Auth_UsernamePassword \<and> product = MongoDb then [''auth_source'']
      else if kind \<in> {Auth_UsernamePassword, Auth_ApiKey, Auth_BearerToken} \<and> product = Splunk
        then [''hec_token'']
      else if kind = Auth_ClientCertificate \<and> product = MongoDb
        then [''username'', ''ca_certificate_pem'']
      else if kind = Auth_ClientCertificate then [''ca_certificate_pem'']
      else [])"

definition authentication_hints ::
  "Product \<Rightarrow> string \<Rightarrow> AuthKind \<Rightarrow> AuthenticationInputHints" where
  "authentication_hints product api_mode kind =
     \<lparr>ah_kind = kind, ah_requires_tls = (kind = Auth_ClientCertificate),
      ah_required_field_sets = required_field_sets product api_mode kind,
      ah_optional_fields = optional_fields product kind\<rparr>"

definition string_option ::
  "string \<Rightarrow> bool \<Rightarrow> string option \<Rightarrow> string list \<Rightarrow> ConnectionOptionHints" where
  "string_option name required default_value allowed =
     \<lparr>oh_name = name, oh_value_type = Type_String, oh_required = required,
      oh_default_value = map_option JString default_value,
      oh_allowed_values = map JString allowed\<rparr>"

definition boolean_option :: "string \<Rightarrow> bool \<Rightarrow> bool option \<Rightarrow> ConnectionOptionHints" where
  "boolean_option name required default_value =
     \<lparr>oh_name = name, oh_value_type = Type_Boolean, oh_required = required,
      oh_default_value = map_option JBool default_value, oh_allowed_values = []\<rparr>"

definition option_hints :: "Product \<Rightarrow> string \<Rightarrow> ConnectionOptionHints list" where
  "option_hints product api_mode =
     (if product = Oracle then
        [boolean_option ''sid'' False (Some False), string_option ''schema'' False None []]
      else if product = HBase then
        [string_option ''transport'' False (Some ''buffered'') [''buffered'', ''framed''],
         string_option ''protocol'' False (Some ''binary'') [''binary'', ''compact''],
         boolean_option ''include_system_tables'' False (Some False)]
      else if product = InfluxDb \<and> api_mode = ''v2'' then
        [string_option ''org'' True None [], string_option ''bucket'' True None []]
      else if product = Splunk then
        map (\<lambda>name. string_option name False None []) [''hec_endpoint'', ''source'', ''sourcetype'']
      else if product = Pinecone then
        map (\<lambda>name. string_option name False None []) [''index_host'', ''namespace'']
      else if product = Milvus then
        [string_option ''vector_field'' False (Some ''vector'') [],
         string_option ''primary_key_field'' False (Some ''id'') []]
      else if product = Weaviate then [string_option ''tenant'' False None []]
      else [])"

definition tls_hints :: "ConnectorManifest \<Rightarrow> TlsInputHints" where
  "tls_hints manifest =
     (let product = mf_product manifest in
      \<lparr>th_mode = (if product = HBase then Tls_Unsupported else Tls_Optional),
       th_custom_ca_supported = (product \<in>
         {PostgreSql, MySql, MongoDb, Cassandra, InfluxDb, Prometheus, Elasticsearch, OpenSearch,
          Splunk, Pinecone, Milvus, Qdrant, Weaviate, CockroachDb, TiDb, YugabyteDb, OceanBase}),
       th_client_certificate_supported =
         (Auth_ClientCertificate \<in> set (mf_auth_kinds manifest))\<rparr>)"

definition connection_input_hints :: "ConnectorManifest \<Rightarrow> ConnectionInputHints" where
  "connection_input_hints manifest =
     (let (schemes, default_port) = endpoint_hints (mf_product manifest) (mf_api_mode manifest) in
      \<lparr>ih_endpoint_schemes = schemes, ih_default_port = default_port,
       ih_database_required =
         (mf_product manifest = InfluxDb \<and> mf_api_mode manifest \<in> {''v1'', ''v3''}),
       ih_tls = tls_hints manifest,
       ih_authentication =
         map (authentication_hints (mf_product manifest) (mf_api_mode manifest))
           (mf_auth_kinds manifest),
       ih_options = option_hints (mf_product manifest) (mf_api_mode manifest)\<rparr>)"

definition into_descriptor :: "ConnectorManifest \<Rightarrow> ConnectorDescriptor option" where
  "into_descriptor manifest =
     (case resource_target_hints (mf_product manifest) (mf_api_mode manifest) of
        None \<Rightarrow> None
      | Some resource_target \<Rightarrow>
          Some \<lparr>ds_manifest = manifest,
                ds_connection_input = connection_input_hints manifest,
                ds_resource_target = resource_target,
                ds_mcp_tools = mcp_tool_routes manifest (rt_kind resource_target)\<rparr>)"

section \<open>Validation of connection input\<close>

definition invalid_input :: "string \<Rightarrow> ConnectorError" where
  "invalid_input message = ConnectorError_new Cat_InvalidRequest message"

definition validate_tls_input :: "TlsInputHints \<Rightarrow> ConnectionProfile \<Rightarrow> ConnectorError + unit" where
  "validate_tls_input hints profile =
     (let tls = pr_tls profile in
      if th_mode hints = Tls_Unsupported \<and> tls_enabled tls then
        Inl (invalid_input ''TLS is not supported by this connector mode'')
      else if th_mode hints = Tls_Required \<and> \<not> tls_enabled tls then
        Inl (invalid_input ''TLS is required by this connector mode'')
      else if tls_enabled tls \<and> \<not> tls_verify_server_certificate tls then
        Inl (invalid_input ''TLS server certificate verification cannot be disabled'')
      else if tls_ca_certificate_ref tls \<noteq> None \<and> \<not> th_custom_ca_supported hints then
        Inl (invalid_input ''custom CA certificates are not supported by this connector mode'')
      else if tls_client_certificate_ref tls \<noteq> None \<and> \<not> th_client_certificate_supported hints then
        Inl (invalid_input ''client certificates are not supported by this connector mode'')
      else Inr ())"

definition has_secret_field :: "ConnectionProfile \<Rightarrow> SecretMaterial \<Rightarrow> string \<Rightarrow> bool" where
  "has_secret_field profile secret field =
     (let configured_reference =
        (if field = ''client_certificate_pem'' then tls_client_certificate_ref (pr_tls profile)
         else if field = ''ca_certificate_pem'' then tls_ca_certificate_ref (pr_tls profile)
         else None);
       by_reference =
        (case configured_reference of None \<Rightarrow> None | Some name \<Rightarrow> bt_get (sm_fields secret) name)
      in
       case (case by_reference of None \<Rightarrow> bt_get (sm_fields secret) field | Some v \<Rightarrow> Some v) of
         None \<Rightarrow> False
       | Some value \<Rightarrow> value \<noteq> [])"

definition option_type_name :: "ConnectionOptionType \<Rightarrow> string" where
  "option_type_name t = (case t of Type_String \<Rightarrow> ''string'' | Type_Boolean \<Rightarrow> ''boolean'')"

text \<open>\<open>to_str\<close> is \<open>serde_json::Value::to_string\<close>, used in an error message only.\<close>

definition validate_option ::
  "(json \<Rightarrow> string) \<Rightarrow> ConnectionProfile \<Rightarrow> ConnectionOptionHints \<Rightarrow> ConnectorError + unit" where
  "validate_option to_str profile hint =
     (case bt_get (pr_options profile) (oh_name hint) of
        None \<Rightarrow>
          (if oh_required hint then
             Inl (invalid_input (''profile option `'' @ oh_name hint @ ''` is required''))
           else Inr ())
      | Some value \<Rightarrow>
          (let valid_type =
             (case oh_value_type hint of
                Type_String \<Rightarrow> (case json_as_str value of None \<Rightarrow> False | Some s \<Rightarrow> s \<noteq> [])
              | Type_Boolean \<Rightarrow> (case value of JBool _ \<Rightarrow> True | _ \<Rightarrow> False))
           in
           if \<not> valid_type then
             Inl (invalid_input (''profile option `'' @ oh_name hint @ ''` must be a non-empty ''
                @ option_type_name (oh_value_type hint)))
           else if oh_allowed_values hint \<noteq> [] \<and> value \<notin> set (oh_allowed_values hint) then
             Inl (invalid_input (''profile option `'' @ oh_name hint @ ''` must be one of: ''
                @ join '', '' (map to_str (oh_allowed_values hint))))
           else Inr ()))"

fun validate_options ::
  "(json \<Rightarrow> string) \<Rightarrow> ConnectionProfile \<Rightarrow> ConnectionOptionHints list \<Rightarrow> ConnectorError + unit" where
  "validate_options to_str profile [] = Inr ()"
| "validate_options to_str profile (hint # hints) =
     bind_res (validate_option to_str profile hint) (\<lambda>_. validate_options to_str profile hints)"

definition validate_connection_input ::
  "(json \<Rightarrow> string) \<Rightarrow> ConnectorDescriptor \<Rightarrow> ConnectionProfile \<Rightarrow> SecretMaterial
     \<Rightarrow> ConnectorError + unit" where
  "validate_connection_input to_str descriptor profile secret =
     (let manifest = ds_manifest descriptor; input = ds_connection_input descriptor;
          endpoint = pr_endpoint profile; tls = pr_tls profile in
      if pr_product profile \<noteq> mf_product manifest
         \<or> canonical_api_mode (pr_product profile) (pr_api_mode profile)
             \<noteq> canonical_api_mode (mf_product manifest) (mf_api_mode manifest) then
        Inl (invalid_input ''connection product and api_mode do not match the selected connector'')
      else if url_scheme endpoint \<notin> set (ih_endpoint_schemes input) \<or> url_host endpoint = None then
        Inl (invalid_input (''endpoint must include a host and use one of: ''
           @ join '', '' (ih_endpoint_schemes input)))
      else if url_username endpoint \<noteq> [] \<or> url_password endpoint \<noteq> None then
        Inl (invalid_input ''endpoint must not contain credentials; use secret fields'')
      else if ih_database_required input
         \<and> (case pr_database profile of None \<Rightarrow> True | Some d \<Rightarrow> d = []) then
        Inl (invalid_input ''this connector requires a database name'')
      else if (case pr_expected_version profile of None \<Rightarrow> False | Some v \<Rightarrow> trim v = []) then
        Inl (invalid_input ''expected_version must not be empty'')
      else bind_res (validate_tls_input (ih_tls input) profile) (\<lambda>_.
      let expected_scheme = (if tls_enabled tls then ''https'' else ''http'') in
      if url_scheme endpoint \<in> {''http'', ''https''} \<and> url_scheme endpoint \<noteq> expected_scheme then
        Inl (invalid_input (''endpoint scheme must be `'' @ expected_scheme
           @ ''` when tls.enabled is '' @ (if tls_enabled tls then ''true'' else ''false'')))
      else bind_res
        (ok_or (find (\<lambda>h. ah_kind h = pr_auth_kind profile) (ih_authentication input))
          (ConnectorError_new Cat_Unsupported
             ''authentication kind is not supported by this connector'')) (\<lambda>authentication.
      if sm_kind secret \<noteq> pr_auth_kind profile then
        Inl (ConnectorError_new Cat_Authentication
               ''credential kind does not match the connection profile'')
      else if ah_requires_tls authentication \<and> \<not> tls_enabled tls then
        Inl (invalid_input ''the selected authentication kind requires TLS'')
      else if ah_kind authentication = Auth_ClientCertificate
         \<and> tls_client_certificate_ref tls = None then
        Inl (invalid_input ''client-certificate authentication requires tls.client_certificate_ref'')
      else if ah_required_field_sets authentication \<noteq> []
         \<and> \<not> list_ex (\<lambda>fields. list_all (has_secret_field profile secret) fields)
              (ah_required_field_sets authentication) then
        Inl (ConnectorError_new Cat_Authentication (''required credential fields: ''
           @ join '' or '' (map (join '' + '') (ah_required_field_sets authentication))))
      else validate_options to_str profile (ih_options input))))"

section \<open>Lemmas\<close>

text \<open>What every advertised route satisfies.\<close>

definition route_ok :: "ConnectorManifest \<Rightarrow> McpToolRoute \<Rightarrow> bool" where
  "route_ok manifest route \<longleftrightarrow>
     supports manifest (route_capability route) \<and> route_tool route \<noteq> [] \<and>
     (route_fixed_policy_target route =
        (if route_capability route = Cap_TimeSeriesQuery
         then Some TIME_SERIES_QUERY_POLICY_TARGET else None))"

definition routes_ok :: "ConnectorManifest \<Rightarrow> McpToolRoute list \<Rightarrow> bool" where
  "routes_ok manifest routes \<longleftrightarrow> list_all (route_ok manifest) routes"

lemma routes_ok_simps [simp]:
  "routes_ok m []"
  "routes_ok m (r # rs) \<longleftrightarrow> route_ok m r \<and> routes_ok m rs"
  "routes_ok m (rs @ qs) \<longleftrightarrow> routes_ok m rs \<and> routes_ok m qs"
  by (simp_all add: routes_ok_def)

lemma add_tool_route_ok [simp]: "routes_ok m (add_tool_route rs m c t) \<longleftrightarrow> routes_ok m rs"
  by (simp add: add_tool_route_def route_ok_def)

lemma add_tool_routes_ok [simp]: "routes_ok m (add_tool_routes rs m cts) \<longleftrightarrow> routes_ok m rs"
  by (induction rs m cts rule: add_tool_routes.induct) auto

lemma mcp_tool_routes_ok: "routes_ok m (mcp_tool_routes m k)"
  by (simp add: mcp_tool_routes_def Let_def case_prod_beta route_ok_def)

lemma into_descriptor_Some:
  assumes "into_descriptor m = Some d"
  shows "ds_manifest d = m" and "ds_connection_input d = connection_input_hints m"
    and "resource_target_hints (mf_product m) (mf_api_mode m) = Some (ds_resource_target d)"
    and "ds_mcp_tools d = mcp_tool_routes m (rt_kind (ds_resource_target d))"
  using assms by (auto simp: into_descriptor_def split: option.splits)

lemma resource_target_hints_None_iff:
  "resource_target_hints p mode = None \<longleftrightarrow> p = YugabyteDb \<and> mode \<notin> {''ysql'', ''ycql''}"
  by (cases p) (simp_all add: resource_target_hints_def Let_def)

text \<open>
  Every MCP tool a connector's descriptor advertises is backed by a capability of its
  manifest, has a name, and carries the fixed policy target \<open>@timeseries_query\<close> exactly
  when it serves time-series queries.
\<close>

theorem descriptor_routes_supported:
  assumes "into_descriptor manifest = Some descriptor"
    and "route \<in> set (ds_mcp_tools descriptor)"
  shows "supports manifest (route_capability route) \<and> route_tool route \<noteq> [] \<and>
    (route_fixed_policy_target route = Some TIME_SERIES_QUERY_POLICY_TARGET
       \<longleftrightarrow> route_capability route = Cap_TimeSeriesQuery)"
proof -
  have "routes_ok manifest (ds_mcp_tools descriptor)"
    by (simp add: into_descriptor_Some [OF assms(1)] mcp_tool_routes_ok)
  with assms(2) have "route_ok manifest route"
    by (simp add: routes_ok_def list_all_iff)
  then show ?thesis by (simp add: route_ok_def)
qed

lemma validate_tls_input_Inr:
  "validate_tls_input h p = Inr () \<Longrightarrow>
     tls_enabled (pr_tls p) \<longrightarrow> tls_verify_server_certificate (pr_tls p) \<and> th_mode h \<noteq> Tls_Unsupported"
  by (auto simp: validate_tls_input_def Let_def split: if_splits)

lemma validate_options_Inr:
  "validate_options to_str p hs = Inr () \<Longrightarrow> h \<in> set hs \<Longrightarrow> validate_option to_str p h = Inr ()"
  by (induction to_str p hs rule: validate_options.induct) (auto simp: res_simps)

lemma connection_input_hints_auth:
  "ih_authentication (connection_input_hints m) =
     map (authentication_hints (mf_product m) (mf_api_mode m)) (mf_auth_kinds m)"
  by (simp add: connection_input_hints_def case_prod_beta)

lemma required_field_sets_nonempty:
  "required_field_sets p mode kind = [] \<longleftrightarrow> kind = Auth_Anonymous"
  by (cases kind) (simp_all add: required_field_sets_def)

lemma find_auth_Some:
  "find (\<lambda>h. ah_kind h = k) hs = Some a \<Longrightarrow> a \<in> set hs \<and> ah_kind a = k"
  by (auto simp: find_Some_iff)

lemma validate_connection_input_auth:
  assumes "validate_connection_input to_str d p s = Inr ()"
  obtains a where "find (\<lambda>h. ah_kind h = pr_auth_kind p) (ih_authentication (ds_connection_input d)) = Some a"
    and "ah_requires_tls a \<longrightarrow> tls_enabled (pr_tls p)"
    and "ah_required_field_sets a = [] \<or>
      (\<exists>fields \<in> set (ah_required_field_sets a). \<forall>f \<in> set fields. has_secret_field p s f)"
    and "sm_kind s = pr_auth_kind p"
    and "validate_options to_str p (ih_options (ds_connection_input d)) = Inr ()"
    and "validate_tls_input (ih_tls (ds_connection_input d)) p = Inr ()"
  using assms unfolding validate_connection_input_def Let_def
  by (auto simp: res_simps list_ex_iff list_all_iff split: if_splits)

lemma validate_connection_input_endpoint:
  assumes "validate_connection_input to_str d p s = Inr ()"
  shows "pr_product p = mf_product (ds_manifest d)"
    and "canonical_api_mode (pr_product p) (pr_api_mode p)
      = canonical_api_mode (mf_product (ds_manifest d)) (mf_api_mode (ds_manifest d))"
    and "url_username (pr_endpoint p) = [] \<and> url_password (pr_endpoint p) = None"
    and "url_scheme (pr_endpoint p) \<in> set (ih_endpoint_schemes (ds_connection_input d))"
  using assms by (simp_all add: validate_connection_input_def Let_def split: if_splits)

section \<open>Sample inputs\<close>

text \<open>A PostgreSQL connector and a connection to it, used by the examples.\<close>

definition pg_manifest :: ConnectorManifest where
  "pg_manifest =
     \<lparr>mf_id = ''postgresql'', mf_display_name = ''PostgreSQL'', mf_product = PostgreSql,
      mf_api_mode = ''postgresql'', mf_driver = ''d'', mf_driver_version = ''1'',
      mf_status = Experimental,
      mf_capabilities = [Cap_TestConnection, Cap_Discover, Cap_Describe, Cap_Read, Cap_Insert,
        Cap_Update, Cap_Delete, Cap_NativeQuery, Cap_NativeExecute],
      mf_auth_kinds = [Auth_UsernamePassword, Auth_ClientCertificate], mf_limitations = []\<rparr>"

definition pg_url :: Url where
  "pg_url = \<lparr>url_scheme = ''postgresql'', url_host = Some ''localhost'', url_username = [],
     url_password = None, url_query_pairs = [], url_as_str = ''postgresql://localhost''\<rparr>"

definition pg_rule :: ResourceRule where
  "pg_rule = \<lparr>rule_pattern = ''public.users'', rule_allow_read = True, rule_allow_insert = True,
     rule_allow_update = False, rule_allow_delete = False, rule_masked_fields = [''email'']\<rparr>"

definition pg_policy :: ConnectionPolicy where
  "pg_policy = ConnectionPolicy_default\<lparr>pol_resources := [pg_rule]\<rparr>"

definition pg_profile :: ConnectionProfile where
  "pg_profile =
     \<lparr>pr_id = 7, pr_display_name = ''local'', pr_product = PostgreSql, pr_api_mode = ''pgwire'',
      pr_endpoint = pg_url, pr_database = Some ''app'', pr_tags = [],
      pr_auth_kind = Auth_UsernamePassword, pr_secret_ref = ''connection/7'',
      pr_tls = TlsConfig_default, pr_policy = pg_policy, pr_policy_version = 1,
      pr_expected_version = None, pr_options = []\<rparr>"

definition pg_secret :: SecretMaterial where
  "pg_secret = \<lparr>sm_kind = Auth_UsernamePassword,
     sm_fields = [(''password'', ''pw''), (''username'', ''app'')]\<rparr>"

definition pg_descriptor :: ConnectorDescriptor where
  "pg_descriptor = the (into_descriptor pg_manifest)"

lemma pg_descriptor: "into_descriptor pg_manifest = Some pg_descriptor"
proof -
  have "into_descriptor pg_manifest \<noteq> None" by code_simp
  then show ?thesis by (auto simp: pg_descriptor_def)
qed

lemma pg_validates: "validate_connection_input (\<lambda>_. []) pg_descriptor pg_profile pg_secret = Inr ()"
  by code_simp


theorem descriptor_routes_supported_witness:
  "into_descriptor pg_manifest = Some pg_descriptor \<and>
     (\<exists>route. route \<in> set (ds_mcp_tools pg_descriptor) \<and>
        supports pg_manifest (route_capability route))"
proof -
  have "ds_mcp_tools pg_descriptor \<noteq> []" by code_simp
  then have "hd (ds_mcp_tools pg_descriptor) \<in> set (ds_mcp_tools pg_descriptor)" by simp
  with pg_descriptor descriptor_routes_supported [OF pg_descriptor] show ?thesis by blast
qed

end
