(* ===== verification/Sql_Analysis.thy ===== *)
theory Sql_Analysis
  imports Core_Types
begin

text \<open>
  The SQL read analysis of \<open>crates/connector-policy/src/policy.rs\<close>
  (\<open>sql_query_resources\<close> down to \<open>normalized_identifier\<close>): a statement is accepted only
  if every query in it is read-only, and the analysis returns the base relations it
  reads. The parser is \<open>sqlparser\<close>, a parameter; its syntax tree appears here with the
  constructors and fields the analysis matches on. The callbacks that
  \<open>Query::visit\<close> makes for the parts of a query other than its \<open>WITH\<close> clause are
  the query's list \<open>q_visited\<close>, a nested query being one item of it:
  \<open>visit_query\<close> flattens the tree into the callback sequence, with
  \<open>pre_visit_query\<close> before and \<open>post_visit_query\<close> after the parts of each query.
\<close>

section \<open>Errors of the policy crate (lib.rs)\<close>

datatype PolicyError =
    InvalidOperation string
  | Denied string
  | ConfirmationRequired
  | InvalidGrant string
  | Expired
  | Replayed
  | GrantMismatch string
  | Serialization string

section \<open>The syntax tree\<close>

record Ident =
  id_value :: string
  id_quote_style :: "char option"

datatype ObjectNamePart = Part_Identifier Ident | Part_Function

type_synonym ObjectName = "ObjectNamePart list"

text \<open>A table factor: whether \<open>args\<close> is \<open>None\<close>, \<open>with_ordinality\<close>, whether
  \<open>json_path\<close> is \<open>None\<close>; derived tables, nested joins and everything else.\<close>

datatype TableFactor =
    TF_Table (args_none: bool) (with_ordinality: bool) (json_path_none: bool)
  | TF_Derived
  | TF_NestedJoin
  | TF_Other

datatype Query =
    Query (q_with: "With option") (q_body: SetExpr) (q_has_locks: bool)
      (q_has_pipe_operators: bool) (q_visited: "VisitItem list")
and With = With (with_recursive: bool) (with_cte_tables: "Cte list")
and Cte = Cte (cte_alias: Ident) (cte_query: Query) (cte_has_from: bool)
and SetExpr =
    SE_Select (sel_has_into: bool) (sel_has_lateral_views: bool)
  | SE_Query Query
  | SE_SetOperation SetExpr SetExpr
  | SE_Values
  | SE_Insert
  | SE_Update
  | SE_Delete
  | SE_Merge
  | SE_Table
and VisitItem = V_TableFactor TableFactor | V_Relation ObjectName | V_Query Query

datatype Statement = Stmt_Query Query | Stmt_Other

datatype Dialect = GenericDialect | PostgreSqlDialect | MySqlDialect | MsSqlDialect

datatype IdentifierSemantics = Preserve | LowercaseUnquoted | UppercaseUnquoted

section \<open>Identifiers\<close>

definition normalized_identifier :: "Ident \<Rightarrow> IdentifierSemantics \<Rightarrow> PolicyError + string" where
  "normalized_identifier identifier semantics =
     (if id_value identifier = []
         \<or> list_ex (\<lambda>c. c \<in> set ''.*?[]{}'' \<or> c = CHR 0x5C) (id_value identifier) then
        Inl (InvalidOperation ''SQL identifier cannot be mapped safely to a resource rule'')
      else if id_quote_style identifier \<noteq> None then Inr (id_value identifier)
      else Inr (case semantics of
          Preserve \<Rightarrow> id_value identifier
        | LowercaseUnquoted \<Rightarrow> to_ascii_lowercase (id_value identifier)
        | UppercaseUnquoted \<Rightarrow> to_ascii_uppercase (id_value identifier)))"

definition identifier_key :: "Ident \<Rightarrow> IdentifierSemantics \<Rightarrow> PolicyError + string" where
  "identifier_key identifier semantics = normalized_identifier identifier semantics"

fun as_ident :: "ObjectNamePart \<Rightarrow> Ident option" where
  "as_ident (Part_Identifier i) = Some i"
| "as_ident Part_Function = None"

fun collect_idents :: "ObjectNamePart list \<Rightarrow> Ident list option" where
  "collect_idents [] = Some []"
| "collect_idents (p # ps) =
     (case as_ident p of None \<Rightarrow> None | Some i \<Rightarrow> map_option ((#) i) (collect_idents ps))"

definition relation_identifiers :: "ObjectName \<Rightarrow> Ident list option" where
  "relation_identifiers relation =
     (case collect_idents relation of None \<Rightarrow> None | Some ids \<Rightarrow> if ids = [] then None else Some ids)"

definition relation_resource ::
  "Ident list \<Rightarrow> IdentifierSemantics \<Rightarrow> PolicyError + string" where
  "relation_resource identifiers semantics =
     map_res (join ''.'') (map_results (\<lambda>i. normalized_identifier i semantics) identifiers)"

section \<open>The visitor of one query\<close>

datatype Callback =
    PreVisitQuery Query
  | PostVisitQuery
  | PreVisitTableFactor TableFactor
  | PreVisitRelation ObjectName

fun visit_query :: "Query \<Rightarrow> Callback list"
and visit_with :: "With option \<Rightarrow> Callback list"
and visit_ctes :: "Cte list \<Rightarrow> Callback list"
and visit_items :: "VisitItem list \<Rightarrow> Callback list" where
  "visit_query (Query w body locks pipes items) =
     PreVisitQuery (Query w body locks pipes items) # visit_with w @ visit_items items
       @ [PostVisitQuery]"
| "visit_with None = []"
| "visit_with (Some (With r ctes)) = visit_ctes ctes"
| "visit_ctes [] = []"
| "visit_ctes (Cte a q f # ctes) = visit_query q @ visit_ctes ctes"
| "visit_items [] = []"
| "visit_items (V_TableFactor t # items) = PreVisitTableFactor t # visit_items items"
| "visit_items (V_Relation r # items) = PreVisitRelation r # visit_items items"
| "visit_items (V_Query q # items) = visit_query q @ visit_items items"

text \<open>\<open>BTreeSet<String>\<close> is a sorted list without duplicates.\<close>

record CurrentQueryVisitor =
  cv_root_seen :: bool
  cv_nested_depth :: nat
  cv_resources :: "string list"
  cv_nested_queries :: "Query list"

definition visitor_new :: CurrentQueryVisitor where
  "visitor_new = \<lparr>cv_root_seen = False, cv_nested_depth = 0, cv_resources = [],
     cv_nested_queries = []\<rparr>"

definition pre_visit_query :: "Query \<Rightarrow> CurrentQueryVisitor \<Rightarrow> CurrentQueryVisitor" where
  "pre_visit_query query v =
     (if cv_root_seen v then
        v\<lparr>cv_nested_queries :=
            (if cv_nested_depth v = 0 then cv_nested_queries v @ [query]
             else cv_nested_queries v),
          cv_nested_depth := cv_nested_depth v + 1\<rparr>
      else v\<lparr>cv_root_seen := True\<rparr>)"

definition post_visit_query :: "CurrentQueryVisitor \<Rightarrow> CurrentQueryVisitor" where
  "post_visit_query v =
     (if cv_nested_depth v > 0 then v\<lparr>cv_nested_depth := cv_nested_depth v - 1\<rparr> else v)"

fun table_factor_allowed :: "TableFactor \<Rightarrow> bool" where
  "table_factor_allowed (TF_Table no_args ordinality no_json) \<longleftrightarrow>
     no_args \<and> \<not> ordinality \<and> no_json"
| "table_factor_allowed TF_Derived \<longleftrightarrow> True"
| "table_factor_allowed TF_NestedJoin \<longleftrightarrow> True"
| "table_factor_allowed TF_Other \<longleftrightarrow> False"

definition pre_visit_table_factor ::
  "TableFactor \<Rightarrow> CurrentQueryVisitor \<Rightarrow> string + CurrentQueryVisitor" where
  "pre_visit_table_factor table_factor v =
     (if cv_nested_depth v > 0 then Inr v
      else if table_factor_allowed table_factor then Inr v
      else Inl ''SQL table functions and unsupported table factors cannot be authorized safely'')"

text \<open>What one relation name contributes at depth 0: nothing if it names a visible CTE,
  otherwise the resource it stands for.\<close>

definition relation_unsafe :: string where
  "relation_unsafe = ''SQL relation name cannot be authorized safely''"

definition scan_relation ::
  "IdentifierSemantics \<Rightarrow> string list \<Rightarrow> ObjectName \<Rightarrow> string + string option" where
  "scan_relation semantics visible_ctes relation =
     (case relation_identifiers relation of
        None \<Rightarrow> Inl relation_unsafe
      | Some identifiers \<Rightarrow>
          bind_res
            (if length identifiers = 1 then
               (case identifier_key (hd identifiers) semantics of
                  Inl _ \<Rightarrow> Inl relation_unsafe
                | Inr key \<Rightarrow> Inr (key \<in> set visible_ctes))
             else Inr False)
            (\<lambda>is_cte.
               if is_cte then Inr None
               else (case relation_resource identifiers semantics of
                       Inl _ \<Rightarrow> Inl relation_unsafe
                     | Inr resource \<Rightarrow> Inr (Some resource))))"

definition add_resource :: "string option \<Rightarrow> string list \<Rightarrow> string list" where
  "add_resource r rs = (case r of None \<Rightarrow> rs | Some x \<Rightarrow> insort_insert x rs)"

definition pre_visit_relation ::
  "IdentifierSemantics \<Rightarrow> string list \<Rightarrow> ObjectName \<Rightarrow> CurrentQueryVisitor
     \<Rightarrow> string + CurrentQueryVisitor" where
  "pre_visit_relation semantics visible_ctes relation v =
     (if cv_nested_depth v > 0 then Inr v
      else map_res (\<lambda>r. v\<lparr>cv_resources := add_resource r (cv_resources v)\<rparr>)
        (scan_relation semantics visible_ctes relation))"

fun visitor_step ::
  "IdentifierSemantics \<Rightarrow> string list \<Rightarrow> Callback \<Rightarrow> CurrentQueryVisitor
     \<Rightarrow> string + CurrentQueryVisitor" where
  "visitor_step semantics visible (PreVisitQuery q) v = Inr (pre_visit_query q v)"
| "visitor_step semantics visible PostVisitQuery v = Inr (post_visit_query v)"
| "visitor_step semantics visible (PreVisitTableFactor t) v = pre_visit_table_factor t v"
| "visitor_step semantics visible (PreVisitRelation r) v =
     pre_visit_relation semantics visible r v"

fun run_visitor ::
  "IdentifierSemantics \<Rightarrow> string list \<Rightarrow> Callback list \<Rightarrow> CurrentQueryVisitor
     \<Rightarrow> string + CurrentQueryVisitor" where
  "run_visitor semantics visible [] v = Inr v"
| "run_visitor semantics visible (c # cs) v =
     bind_res (visitor_step semantics visible c v) (run_visitor semantics visible cs)"

section \<open>The visitor computes the direct parts of a query\<close>

text \<open>
  Reference definition: the items of one query, in order, without the depth counter.
  A nested query is recorded and not entered.
\<close>

fun scan_items ::
  "IdentifierSemantics \<Rightarrow> string list \<Rightarrow> VisitItem list \<Rightarrow> string list \<Rightarrow> Query list
     \<Rightarrow> string + (string list \<times> Query list)" where
  "scan_items semantics visible [] rs qs = Inr (rs, qs)"
| "scan_items semantics visible (V_TableFactor t # items) rs qs =
     (if table_factor_allowed t then scan_items semantics visible items rs qs
      else Inl ''SQL table functions and unsupported table factors cannot be authorized safely'')"
| "scan_items semantics visible (V_Relation r # items) rs qs =
     bind_res (scan_relation semantics visible r)
       (\<lambda>x. scan_items semantics visible items (add_resource x rs) qs)"
| "scan_items semantics visible (V_Query q # items) rs qs =
     scan_items semantics visible items rs (qs @ [q])"

lemma run_visitor_append:
  "run_visitor s vis (xs @ ys) v = bind_res (run_visitor s vis xs v) (run_visitor s vis ys)"
  by (induction xs arbitrary: v) (auto simp: bind_res_def split: sum.splits)

text \<open>Inside a nested query the visitor changes nothing: the depth returns to where it was.\<close>

lemma run_visitor_nested:
  "cv_root_seen v \<Longrightarrow> cv_nested_depth v > 0 \<Longrightarrow> run_visitor s vis (visit_query q) v = Inr v"
  "cv_root_seen v \<Longrightarrow> cv_nested_depth v > 0 \<Longrightarrow> run_visitor s vis (visit_with w) v = Inr v"
  "cv_root_seen v \<Longrightarrow> cv_nested_depth v > 0 \<Longrightarrow> run_visitor s vis (visit_ctes cs) v = Inr v"
  "cv_root_seen v \<Longrightarrow> cv_nested_depth v > 0 \<Longrightarrow> run_visitor s vis (visit_items is) v = Inr v"
proof (induction q and w and cs and "is" arbitrary: v and v and v and v
    rule: visit_query_visit_with_visit_ctes_visit_items.induct)
  case (1 w body locks pipes items)
  then show ?case
    by (simp add: run_visitor_append pre_visit_query_def post_visit_query_def)
qed (simp_all add: run_visitor_append pre_visit_table_factor_def pre_visit_relation_def)

lemma run_visitor_subquery:
  assumes "cv_root_seen v" and "cv_nested_depth v = 0"
  shows "run_visitor s vis (visit_query q) v =
    Inr (v\<lparr>cv_nested_queries := cv_nested_queries v @ [q]\<rparr>)"
  using assms
  by (cases q) (simp add: run_visitor_append run_visitor_nested pre_visit_query_def
      post_visit_query_def)

definition visitor_at :: "string list \<Rightarrow> Query list \<Rightarrow> CurrentQueryVisitor" where
  "visitor_at rs qs = \<lparr>cv_root_seen = True, cv_nested_depth = 0, cv_resources = rs,
     cv_nested_queries = qs\<rparr>"

lemma run_visitor_items:
  "run_visitor s vis (visit_items items) (visitor_at rs qs) =
     map_res (\<lambda>(rs, qs). visitor_at rs qs) (scan_items s vis items rs qs)"
proof (induction s vis items rs qs rule: scan_items.induct)
  case (2 s vis t items rs qs)
  then show ?case by (simp add: pre_visit_table_factor_def visitor_at_def)
next
  case (3 s vis r items rs qs)
  then show ?case
    by (cases "scan_relation s vis r") (simp_all add: pre_visit_relation_def visitor_at_def)
next
  case (4 s vis q items rs qs)
  then show ?case by (simp add: run_visitor_append run_visitor_subquery visitor_at_def)
qed simp

definition take_with :: "Query \<Rightarrow> Query" where
  "take_with q = Query None (q_body q) (q_has_locks q) (q_has_pipe_operators q) (q_visited q)"

lemma run_visitor_take_with:
  "run_visitor semantics visible (visit_query (take_with q)) visitor_new =
     map_res (\<lambda>(rs, qs). visitor_at rs qs) (scan_items semantics visible (q_visited q) [] [])"
proof -
  have new: "pre_visit_query q' visitor_new = visitor_at [] []" for q'
    by (simp add: pre_visit_query_def visitor_new_def visitor_at_def)
  have post: "post_visit_query (visitor_at rs qs) = visitor_at rs qs" for rs qs
    by (simp add: post_visit_query_def visitor_at_def)
  show ?thesis
    by (cases "scan_items semantics visible (q_visited q) [] []")
      (auto simp: take_with_def run_visitor_append run_visitor_items new post)
qed

text \<open>
  On a query whose \<open>WITH\<close> clause has been taken, the depth-counting visitor over the
  whole callback sequence, nested queries included, returns what a scan of the query's
  own items returns: the relations used directly in it and, unentered, its immediate
  subqueries.
\<close>

theorem visitor_scans_direct_items:
  "run_visitor semantics visible (visit_query (take_with q)) visitor_new =
     map_res (\<lambda>(rs, qs). visitor_at rs qs) (scan_items semantics visible (q_visited q) [] [])"
  by (rule run_visitor_take_with)

lemma scan_items_size:
  "scan_items s vis items rs qs = Inr (rs', qs') \<Longrightarrow>
     size_list size qs' \<le> size_list size qs + size_list size items"
proof (induction s vis items rs qs arbitrary: rs' qs' rule: scan_items.induct)
  case (3 s vis r items rs qs)
  then show ?case by (force simp: res_simps intro: le_SucI)
next
  case (4 s vis q items rs qs)
  then show ?case by fastforce
qed (auto split: if_splits)

lemma visitor_nested_size:
  assumes "run_visitor s vis (visit_query (take_with q)) visitor_new = Inr v"
  shows "size_list size (cv_nested_queries v) < size q"
proof -
  from assms obtain rs qs where v: "v = visitor_at rs qs"
    and "scan_items s vis (q_visited q) [] [] = Inr (rs, qs)"
    by (auto simp: run_visitor_take_with res_simps)
  then have "size_list size qs \<le> size_list size (q_visited q)"
    using scan_items_size by fastforce
  also have "\<dots> < size q" by (cases q) auto
  finally show ?thesis by (simp add: v visitor_at_def)
qed

section \<open>The analysis of a query and its subqueries\<close>

fun validate_read_only_set_expr :: "SetExpr \<Rightarrow> PolicyError + unit" where
  "validate_read_only_set_expr (SE_Select into lateral) =
     (if into then Inl (InvalidOperation ''SELECT INTO is not a read-only query'')
      else if lateral then
        Inl (InvalidOperation ''SQL lateral table functions are not supported by policy analysis'')
      else Inr ())"
| "validate_read_only_set_expr (SE_Query _) = Inr ()"
| "validate_read_only_set_expr SE_Values = Inr ()"
| "validate_read_only_set_expr (SE_SetOperation left right) =
     bind_res (validate_read_only_set_expr left) (\<lambda>_. validate_read_only_set_expr right)"
| "validate_read_only_set_expr _ =
     Inl (InvalidOperation ''SQL query contains an unsupported or mutating query body'')"

definition validate_read_only_query_shape :: "Query \<Rightarrow> PolicyError + unit" where
  "validate_read_only_query_shape query =
     (if q_has_locks query then
        Inl (InvalidOperation ''SQL row-locking clauses are not read-only'')
      else if q_has_pipe_operators query then
        Inl (InvalidOperation ''SQL pipe operators are not supported by policy analysis'')
      else validate_read_only_set_expr (q_body query))"

definition query_ctes :: "Query \<Rightarrow> Cte list" where
  "query_ctes q = (case q_with q of None \<Rightarrow> [] | Some w \<Rightarrow> with_cte_tables w)"

definition query_recursive :: "Query \<Rightarrow> bool" where
  "query_recursive q = (case q_with q of None \<Rightarrow> False | Some w \<Rightarrow> with_recursive w)"

lemma query_ctes_size: "size_list size (query_ctes q) < size q"
proof (cases q)
  case (Query w body locks pipes items)
  show ?thesis
  proof (cases w)
    case None
    with Query show ?thesis by (simp add: query_ctes_def)
  next
    case (Some x)
    with Query show ?thesis by (cases x) (simp add: query_ctes_def)
  qed
qed

definition extend_resources :: "string list \<Rightarrow> string list \<Rightarrow> string list" where
  "extend_resources new rs = fold insort_insert new rs"

function (sequential) analyze_query ::
  "IdentifierSemantics \<Rightarrow> string list \<Rightarrow> Query \<Rightarrow> string list \<Rightarrow> PolicyError + string list"
and analyze_ctes ::
  "IdentifierSemantics \<Rightarrow> string list \<Rightarrow> bool \<Rightarrow> Cte list \<Rightarrow> string list
     \<Rightarrow> PolicyError + (string list \<times> string list)"
and analyze_nested ::
  "IdentifierSemantics \<Rightarrow> string list \<Rightarrow> Query list \<Rightarrow> string list \<Rightarrow> PolicyError + string list"
where
  "analyze_query semantics resources query inherited_ctes =
     bind_res (validate_read_only_query_shape query) (\<lambda>_.
     bind_res (analyze_ctes semantics resources (query_recursive query) (query_ctes query)
         inherited_ctes) (\<lambda>(resources, visible_ctes).
     bind_res (map_err InvalidOperation
         (run_visitor semantics visible_ctes (visit_query (take_with query)) visitor_new))
       (\<lambda>visitor. analyze_nested semantics (extend_resources (cv_resources visitor) resources)
          (cv_nested_queries visitor) visible_ctes)))"
| "analyze_ctes semantics resources recursive [] visible_ctes = Inr (resources, visible_ctes)"
| "analyze_ctes semantics resources recursive (cte # ctes) visible_ctes =
     (if cte_has_from cte then
        Inl (InvalidOperation ''SQL CTE FROM clauses are not supported by policy analysis'')
      else bind_res (identifier_key (cte_alias cte) semantics) (\<lambda>cte_name.
        let visible_ctes =
          (if recursive then insort_insert cte_name visible_ctes else visible_ctes) in
        bind_res (analyze_query semantics resources (cte_query cte) visible_ctes) (\<lambda>resources.
        analyze_ctes semantics resources recursive ctes (insort_insert cte_name visible_ctes))))"
| "analyze_nested semantics resources [] visible_ctes = Inr resources"
| "analyze_nested semantics resources (query # queries) visible_ctes =
     bind_res (analyze_query semantics resources query visible_ctes) (\<lambda>resources.
       analyze_nested semantics resources queries visible_ctes)"
  by pat_completeness auto
termination
proof (relation "measure (\<lambda>x. case x of
      Inl (_, _, q, _) \<Rightarrow> size q
    | Inr (Inl (_, _, _, cs, _)) \<Rightarrow> size_list size cs
    | Inr (Inr (_, _, qs, _)) \<Rightarrow> size_list size qs)", goal_cases)
  case (4 semantics resources recursive cte ctes visible x xa)
  then show ?case by (cases cte) simp
next
  case (3 semantics resources query inherited x xa y z visitor)
  then show ?case by (auto simp: res_simps visitor_nested_size)
qed (auto simp: query_ctes_size)

declare analyze_query.simps [simp del]

section \<open>Specification: what a query reads\<close>

text \<open>
  \<open>cte_scope\<close> is the set of CTE names visible after a list of CTEs; \<open>reads\<close> says that a
  query reads a resource: through a relation it names directly that is no visible CTE,
  through a subquery, or through the body of one of its CTEs, each in its own scope.
\<close>

definition add_cte :: "IdentifierSemantics \<Rightarrow> Cte \<Rightarrow> string list \<Rightarrow> string list" where
  "add_cte semantics cte visible =
     (case identifier_key (cte_alias cte) semantics of
        Inl _ \<Rightarrow> visible
      | Inr name \<Rightarrow> insort_insert name visible)"

definition cte_scope :: "IdentifierSemantics \<Rightarrow> Cte list \<Rightarrow> string list \<Rightarrow> string list" where
  "cte_scope semantics ctes visible = fold (add_cte semantics) ctes visible"

definition own_scope :: "IdentifierSemantics \<Rightarrow> bool \<Rightarrow> Cte \<Rightarrow> string list \<Rightarrow> string list" where
  "own_scope semantics recursive cte visible =
     (if recursive then add_cte semantics cte visible else visible)"

inductive reads :: "IdentifierSemantics \<Rightarrow> string list \<Rightarrow> Query \<Rightarrow> string \<Rightarrow> bool" where
  reads_own: "V_Relation rel \<in> set (q_visited q) \<Longrightarrow>
    scan_relation sem (cte_scope sem (query_ctes q) visible) rel = Inr (Some r) \<Longrightarrow>
    reads sem visible q r"
| reads_sub: "V_Query q' \<in> set (q_visited q) \<Longrightarrow>
    reads sem (cte_scope sem (query_ctes q) visible) q' r \<Longrightarrow>
    reads sem visible q r"
| reads_cte: "query_ctes q = before @ cte # after \<Longrightarrow>
    reads sem (own_scope sem (query_recursive q) cte (cte_scope sem before visible))
      (cte_query cte) r \<Longrightarrow>
    reads sem visible q r"

inductive_simps reads_iff: "reads sem visible q r"

text \<open>The queries contained in a query, itself included.\<close>

inductive contained :: "Query \<Rightarrow> Query \<Rightarrow> bool" where
  contained_refl: "contained q q"
| contained_sub: "V_Query q1 \<in> set (q_visited q) \<Longrightarrow> contained q1 q2 \<Longrightarrow> contained q q2"
| contained_cte: "cte \<in> set (query_ctes q) \<Longrightarrow> contained (cte_query cte) q2 \<Longrightarrow> contained q q2"

text \<open>The set expressions that make up a query's body, subqueries not entered.\<close>

fun set_expr_leaves :: "SetExpr \<Rightarrow> SetExpr set" where
  "set_expr_leaves (SE_SetOperation left right) = set_expr_leaves left \<union> set_expr_leaves right"
| "set_expr_leaves e = {e}"

definition leaf_read_only :: "SetExpr \<Rightarrow> bool" where
  "leaf_read_only e \<longleftrightarrow> e = SE_Select False False \<or> e = SE_Values \<or> (\<exists>q. e = SE_Query q)"

definition query_read_only :: "Query \<Rightarrow> bool" where
  "query_read_only q \<longleftrightarrow> \<not> q_has_locks q \<and> \<not> q_has_pipe_operators q
     \<and> (\<forall>e \<in> set_expr_leaves (q_body q). leaf_read_only e)
     \<and> (\<forall>t. V_TableFactor t \<in> set (q_visited q) \<longrightarrow> table_factor_allowed t)
     \<and> (\<forall>cte \<in> set (query_ctes q). \<not> cte_has_from cte)"

section \<open>Correctness of the analysis\<close>

lemma scan_items_result:
  "scan_items s vis items rs qs = Inr (rs', qs') \<Longrightarrow>
     set rs' = set rs \<union> {r. \<exists>rel. V_Relation rel \<in> set items \<and> scan_relation s vis rel = Inr (Some r)} \<and>
     set qs' = set qs \<union> {q. V_Query q \<in> set items} \<and>
     (\<forall>t. V_TableFactor t \<in> set items \<longrightarrow> table_factor_allowed t)"
proof (induction s vis items rs qs arbitrary: rs' qs' rule: scan_items.induct)
  case (3 s vis r items rs qs)
  from "3.prems" obtain x where x: "scan_relation s vis r = Inr x"
    and rest: "scan_items s vis items (add_resource x rs) qs = Inr (rs', qs')"
    by (auto simp: res_simps)
  note IH = "3.IH" [OF x rest]
  have "set (add_resource x rs) = set rs \<union> {y. x = Some y}"
    by (cases x) (auto simp: add_resource_def set_insort_insert)
  with IH x show ?case by auto
qed (auto split: if_splits)

lemma extend_resources_set [simp]: "set (extend_resources new rs) = set new \<union> set rs"
  unfolding extend_resources_def
  by (induction new arbitrary: rs) (auto simp: set_insort_insert)

lemma run_visitor_result:
  assumes "run_visitor s vis (visit_query (take_with q)) visitor_new = Inr v"
  shows "set (cv_resources v) =
      {r. \<exists>rel. V_Relation rel \<in> set (q_visited q) \<and> scan_relation s vis rel = Inr (Some r)}"
    and "set (cv_nested_queries v) = {q'. V_Query q' \<in> set (q_visited q)}"
    and "V_TableFactor t \<in> set (q_visited q) \<Longrightarrow> table_factor_allowed t"
proof -
  from assms obtain rs qs where v: "v = visitor_at rs qs"
    and scan: "scan_items s vis (q_visited q) [] [] = Inr (rs, qs)"
    by (auto simp: run_visitor_take_with res_simps)
  from scan_items_result [OF scan] v
  show "set (cv_resources v) =
      {r. \<exists>rel. V_Relation rel \<in> set (q_visited q) \<and> scan_relation s vis rel = Inr (Some r)}"
    and "set (cv_nested_queries v) = {q'. V_Query q' \<in> set (q_visited q)}"
    and "V_TableFactor t \<in> set (q_visited q) \<Longrightarrow> table_factor_allowed t"
    by (auto simp: visitor_at_def)
qed

lemma analyze_query_Inr:
  assumes "analyze_query s res q vis = Inr res'"
  obtains res1 vis1 v where "validate_read_only_query_shape q = Inr ()"
    and "analyze_ctes s res (query_recursive q) (query_ctes q) vis = Inr (res1, vis1)"
    and "run_visitor s vis1 (visit_query (take_with q)) visitor_new = Inr v"
    and "analyze_nested s (extend_resources (cv_resources v) res1) (cv_nested_queries v) vis1 = Inr res'"
  using assms by (subst (asm) analyze_query.simps) (auto simp: res_simps)

lemma analyze_ctes_Cons:
  assumes "analyze_ctes s res rec (cte # ctes) vis = Inr (res', vis')"
  obtains name res1 where "\<not> cte_has_from cte" and "identifier_key (cte_alias cte) s = Inr name"
    and "analyze_query s res (cte_query cte) (own_scope s rec cte vis) = Inr res1"
    and "analyze_ctes s res1 rec ctes (add_cte s cte vis) = Inr (res', vis')"
proof -
  have idem: "insort_insert n (insort_insert n v) = insort_insert n v" for n :: string and v
    by (simp add: insort_insert_triv set_insort_insert)
  show ?thesis
  proof (cases rec)
    case True
    with assms show ?thesis
      by (auto simp: res_simps Let_def own_scope_def add_cte_def idem split: if_splits intro: that)
  next
    case False
    with assms show ?thesis
      by (auto simp: res_simps Let_def own_scope_def add_cte_def idem split: if_splits intro: that)
  qed
qed

lemma split_at_Cons:
  "(\<exists>before y after. x # xs = before @ y # after \<and> P before y) \<longleftrightarrow>
     P [] x \<or> (\<exists>before y after. xs = before @ y # after \<and> P (x # before) y)"
  by (auto simp: Cons_eq_append_conv)

lemma analyze_reads:
  "analyze_query s res q vis = Inr res' \<Longrightarrow> set res' = set res \<union> {r. reads s vis q r}"
  "analyze_ctes s res rec cs vis = Inr (res', vis') \<Longrightarrow>
     vis' = cte_scope s cs vis \<and> set res' = set res \<union>
       {r. \<exists>before cte after. cs = before @ cte # after \<and>
          reads s (own_scope s rec cte (cte_scope s before vis)) (cte_query cte) r}"
  "analyze_nested s res qs vis = Inr res' \<Longrightarrow>
     set res' = set res \<union> {r. \<exists>q \<in> set qs. reads s vis q r}"
proof (induction s res q vis and s res rec cs vis and s res qs vis
    arbitrary: res' and res' vis' and res'
    rule: analyze_query_analyze_ctes_analyze_nested.induct)
  case (1 s res q vis)
  from "1.prems" obtain res1 vis1 v where shape: "validate_read_only_query_shape q = Inr ()"
    and ctes: "analyze_ctes s res (query_recursive q) (query_ctes q) vis = Inr (res1, vis1)"
    and run: "run_visitor s vis1 (visit_query (take_with q)) visitor_new = Inr v"
    and nested: "analyze_nested s (extend_resources (cv_resources v) res1)
      (cv_nested_queries v) vis1 = Inr res'"
    by (rule analyze_query_Inr)
  note res1 = "1.IH"(1) [OF shape ctes]
  note res2 = "1.IH"(2) [OF shape ctes refl _ nested, simplified run map_err_simps, OF refl]
  from res1 have vis1: "vis1 = cte_scope s (query_ctes q) vis" by simp
  from res1 res2 show ?case
    unfolding run_visitor_result(1) [OF run] run_visitor_result(2) [OF run] extend_resources_set
    by (auto simp: vis1 reads_iff [of s vis q])
next
  case (3 s res rec cte ctes vis)
  from "3.prems" obtain name res1 where a: "\<not> cte_has_from cte"
    and n: "identifier_key (cte_alias cte) s = Inr name"
    and q: "analyze_query s res (cte_query cte) (own_scope s rec cte vis) = Inr res1"
    and rest: "analyze_ctes s res1 rec ctes (add_cte s cte vis) = Inr (res', vis')"
    by (rule analyze_ctes_Cons)
  have own: "own_scope s rec cte vis = (if rec then insort_insert name vis else vis)"
    by (simp add: own_scope_def add_cte_def n)
  have add: "add_cte s cte vis = insort_insert name (if rec then insort_insert name vis else vis)"
    by (simp add: add_cte_def n insort_insert_triv set_insort_insert)
  note r1 = "3.IH"(1) [OF a n refl q [unfolded own], folded own]
  note r2 = "3.IH"(2) [OF a n refl q [unfolded own] rest [unfolded add], folded add]
  show ?case
    unfolding split_at_Cons using r1 r2
    by (auto simp: cte_scope_def)
next
  case (5 s res q qs vis)
  then show ?case by (auto simp: res_simps)
qed (auto simp: cte_scope_def)

lemma analyze_subqueries:
  "analyze_ctes s res rec cs vis = Inr (res', vis') \<Longrightarrow> cte \<in> set cs \<Longrightarrow>
     \<not> cte_has_from cte \<and> (\<exists>res1 vis1 res2. analyze_query s res1 (cte_query cte) vis1 = Inr res2)"
  "analyze_nested s nres qs nvis = Inr nres' \<Longrightarrow> q \<in> set qs \<Longrightarrow>
     \<exists>res1 res2. analyze_query s res1 q nvis = Inr res2"
proof -
  show "analyze_ctes s res rec cs vis = Inr (res', vis') \<Longrightarrow> cte \<in> set cs \<Longrightarrow>
     \<not> cte_has_from cte \<and> (\<exists>res1 vis1 res2. analyze_query s res1 (cte_query cte) vis1 = Inr res2)"
  proof (induction cs arbitrary: res vis)
    case (Cons c cs)
    from Cons.prems(1) show ?case
      by (rule analyze_ctes_Cons) (use Cons.IH Cons.prems(2) in auto)
  qed simp
  show "analyze_nested s nres qs nvis = Inr nres' \<Longrightarrow> q \<in> set qs \<Longrightarrow>
     \<exists>res1 res2. analyze_query s res1 q nvis = Inr res2"
    by (induction qs arbitrary: nres) (auto simp: res_simps)
qed

lemma validate_read_only_set_expr_Inr:
  "validate_read_only_set_expr e = Inr () \<longleftrightarrow> (\<forall>l \<in> set_expr_leaves e. leaf_read_only l)"
  by (induction e) (auto simp: res_simps leaf_read_only_def split: if_splits)

lemma analyze_query_read_only:
  assumes "analyze_query s res q vis = Inr res'"
  shows "query_read_only q"
    and "V_Query q' \<in> set (q_visited q) \<Longrightarrow> \<exists>r1 v1 r2. analyze_query s r1 q' v1 = Inr r2"
    and "cte \<in> set (query_ctes q) \<Longrightarrow> \<exists>r1 v1 r2. analyze_query s r1 (cte_query cte) v1 = Inr r2"
proof -
  from assms obtain res1 vis1 v where shape: "validate_read_only_query_shape q = Inr ()"
    and ctes: "analyze_ctes s res (query_recursive q) (query_ctes q) vis = Inr (res1, vis1)"
    and run: "run_visitor s vis1 (visit_query (take_with q)) visitor_new = Inr v"
    and nested: "analyze_nested s (extend_resources (cv_resources v) res1)
      (cv_nested_queries v) vis1 = Inr res'"
    by (rule analyze_query_Inr)
  show "query_read_only q"
    using shape analyze_subqueries(1) [OF ctes] run_visitor_result(3) [OF run]
    by (auto simp: query_read_only_def validate_read_only_query_shape_def
        validate_read_only_set_expr_Inr split: if_splits)
  show "V_Query q' \<in> set (q_visited q) \<Longrightarrow> \<exists>r1 v1 r2. analyze_query s r1 q' v1 = Inr r2"
    using analyze_subqueries(2) [OF nested] run_visitor_result(2) [OF run] by blast
  show "cte \<in> set (query_ctes q) \<Longrightarrow> \<exists>r1 v1 r2. analyze_query s r1 (cte_query cte) v1 = Inr r2"
    using analyze_subqueries(1) [OF ctes] by blast
qed

lemma analyzed_contained_read_only:
  "contained q q' \<Longrightarrow> analyze_query s res q vis = Inr res' \<Longrightarrow> query_read_only q'"
proof (induction arbitrary: res vis res' rule: contained.induct)
  case (contained_refl q)
  then show ?case by (rule analyze_query_read_only(1))
next
  case (contained_sub q1 q q2)
  then show ?case using analyze_query_read_only(2) by blast
next
  case (contained_cte cte q q2)
  then show ?case using analyze_query_read_only(3) by blast
qed

section \<open>Statements\<close>

fun set_expr_contains_select :: "SetExpr \<Rightarrow> bool"
and query_contains_select :: "Query \<Rightarrow> bool" where
  "set_expr_contains_select (SE_Select _ _) = True"
| "set_expr_contains_select (SE_Query query) = query_contains_select query"
| "set_expr_contains_select (SE_SetOperation left right) =
     (set_expr_contains_select left \<or> set_expr_contains_select right)"
| "set_expr_contains_select _ = False"
| "query_contains_select (Query w body locks pipes items) = set_expr_contains_select body"

definition parse_single_sql_query ::
  "(Dialect \<Rightarrow> string \<Rightarrow> Statement list option) \<Rightarrow> Dialect \<Rightarrow> string \<Rightarrow> Query option" where
  "parse_single_sql_query parse_sql dialect statement =
     (case parse_sql dialect statement of
        Some [Stmt_Query query] \<Rightarrow> Some query
      | _ \<Rightarrow> None)"

definition analyze_parsed_sql_query ::
  "Query \<Rightarrow> IdentifierSemantics \<Rightarrow> PolicyError + string list" where
  "analyze_parsed_sql_query query semantics =
     (if \<not> set_expr_contains_select (q_body query) then
        Inl (InvalidOperation ''SQL query must be a SELECT or WITH ... SELECT statement'')
      else analyze_query semantics [] query [])"

definition could_not_parse :: PolicyError where
  "could_not_parse =
     InvalidOperation ''SQL query could not be parsed as one SELECT/WITH statement''"

definition analyze_sql_with_dialect ::
  "(Dialect \<Rightarrow> string \<Rightarrow> Statement list option) \<Rightarrow> Dialect \<Rightarrow> IdentifierSemantics \<Rightarrow> string
     \<Rightarrow> PolicyError + string list" where
  "analyze_sql_with_dialect parse_sql dialect semantics statement =
     bind_res (ok_or (parse_single_sql_query parse_sql dialect statement) could_not_parse)
       (\<lambda>query. analyze_parsed_sql_query query semantics)"

fun analyze_first_dialect ::
  "(Dialect \<Rightarrow> string \<Rightarrow> Statement list option) \<Rightarrow> (Dialect \<times> IdentifierSemantics) list \<Rightarrow> string
     \<Rightarrow> PolicyError + string list" where
  "analyze_first_dialect parse_sql [] statement = Inl could_not_parse"
| "analyze_first_dialect parse_sql ((dialect, semantics) # dialects) statement =
     (case parse_single_sql_query parse_sql dialect statement of
        Some query \<Rightarrow> analyze_parsed_sql_query query semantics
      | None \<Rightarrow> analyze_first_dialect parse_sql dialects statement)"

definition analyze_generic_sql ::
  "(Dialect \<Rightarrow> string \<Rightarrow> Statement list option) \<Rightarrow> string \<Rightarrow> PolicyError + string list" where
  "analyze_generic_sql parse_sql statement =
     analyze_first_dialect parse_sql
       [(GenericDialect, Preserve), (PostgreSqlDialect, LowercaseUnquoted),
        (MySqlDialect, Preserve), (MsSqlDialect, Preserve)] statement"

definition sql_query_resources ::
  "(Dialect \<Rightarrow> string \<Rightarrow> Statement list option) \<Rightarrow> NativeRequest \<Rightarrow> PolicyError + string list" where
  "sql_query_resources parse_sql request =
     (let language = to_ascii_lowercase (trim (nat_language request));
          statement = trim (nat_statement request) in
      if statement = [] then Inl (InvalidOperation ''SQL query must not be empty'')
      else if language \<in> {''postgres'', ''postgresql'', ''cockroachdb'', ''yugabytedb''} then
        analyze_sql_with_dialect parse_sql PostgreSqlDialect LowercaseUnquoted statement
      else if language \<in> {''mysql'', ''mariadb'', ''tidb'', ''oceanbase''} then
        analyze_sql_with_dialect parse_sql MySqlDialect Preserve statement
      else if language \<in> {''tsql'', ''sqlserver''} then
        analyze_sql_with_dialect parse_sql MsSqlDialect Preserve statement
      else if language = ''oracle'' then
        analyze_sql_with_dialect parse_sql GenericDialect UppercaseUnquoted statement
      else if language = ''sql'' then analyze_generic_sql parse_sql statement
      else Inl (InvalidOperation (''unsupported SQL language `'' @ trim (nat_language request)
        @ ''`'')))"

text \<open>The parser dialects and identifier rules each SQL language is analysed under.\<close>

definition language_dialects :: "string \<Rightarrow> (Dialect \<times> IdentifierSemantics) list" where
  "language_dialects language =
     (if language \<in> {''postgres'', ''postgresql'', ''cockroachdb'', ''yugabytedb''} then
        [(PostgreSqlDialect, LowercaseUnquoted)]
      else if language \<in> {''mysql'', ''mariadb'', ''tidb'', ''oceanbase''} then
        [(MySqlDialect, Preserve)]
      else if language \<in> {''tsql'', ''sqlserver''} then [(MsSqlDialect, Preserve)]
      else if language = ''oracle'' then [(GenericDialect, UppercaseUnquoted)]
      else if language = ''sql'' then
        [(GenericDialect, Preserve), (PostgreSqlDialect, LowercaseUnquoted),
         (MySqlDialect, Preserve), (MsSqlDialect, Preserve)]
      else [])"

lemma analyze_parsed_Inr:
  "analyze_parsed_sql_query q sem = Inr rs \<Longrightarrow> analyze_query sem [] q [] = Inr rs"
  by (auto simp: analyze_parsed_sql_query_def split: if_splits)

lemma parse_single_Some:
  "parse_single_sql_query parse_sql d st = Some q \<longleftrightarrow> parse_sql d st = Some [Stmt_Query q]"
  by (auto simp: parse_single_sql_query_def
      split: option.splits list.splits Statement.splits)

lemma analyze_first_dialect_Inr:
  "analyze_first_dialect parse_sql ds st = Inr rs \<Longrightarrow>
     \<exists>d sem q. (d, sem) \<in> set ds \<and> parse_sql d st = Some [Stmt_Query q] \<and>
       analyze_query sem [] q [] = Inr rs"
proof (induction ds)
  case (Cons x ds)
  obtain d sem where x: "x = (d, sem)" by (cases x)
  show ?case
  proof (cases "parse_single_sql_query parse_sql d st")
    case None
    with Cons x show ?thesis by fastforce
  next
    case (Some q)
    with Cons.prems x have "analyze_query sem [] q [] = Inr rs"
      by (simp add: analyze_parsed_Inr)
    with Some x show ?thesis by (auto simp: parse_single_Some)
  qed
qed simp

lemma analyze_sql_with_dialect_eq:
  "analyze_sql_with_dialect parse_sql d sem st = analyze_first_dialect parse_sql [(d, sem)] st"
  by (auto simp: analyze_sql_with_dialect_def split: option.splits)

lemma sql_query_resources_eq:
  "sql_query_resources parse_sql request = Inr rs \<Longrightarrow>
     analyze_first_dialect parse_sql
       (language_dialects (to_ascii_lowercase (trim (nat_language request))))
       (trim (nat_statement request)) = Inr rs"
  unfolding sql_query_resources_def language_dialects_def Let_def analyze_generic_sql_def
    analyze_sql_with_dialect_eq
  by (simp only: split: if_splits) simp_all

lemma sql_query_resources_query:
  assumes "sql_query_resources parse_sql request = Inr resources"
  shows "\<exists>dialect semantics query.
    (dialect, semantics)
      \<in> set (language_dialects (to_ascii_lowercase (trim (nat_language request)))) \<and>
    parse_sql dialect (trim (nat_statement request)) = Some [Stmt_Query query] \<and>
    (\<forall>q. contained query q \<longrightarrow> query_read_only q) \<and>
    set resources = {r. reads semantics [] query r}"
proof -
  from analyze_first_dialect_Inr [OF sql_query_resources_eq [OF assms]]
  obtain d sem q where dialect: "(d, sem)
      \<in> set (language_dialects (to_ascii_lowercase (trim (nat_language request))))"
    and parsed: "parse_sql d (trim (nat_statement request)) = Some [Stmt_Query q]"
    and ok: "analyze_query sem [] q [] = Inr resources"
    by blast
  from analyze_reads(1) [OF ok] have "set resources = {r. reads sem [] q r}" by simp
  with dialect parsed analyzed_contained_read_only [OF _ ok] show ?thesis by blast
qed

text \<open>
  C9: a statement the analysis accepts is exactly one query; every query contained in it
  (subqueries and CTE bodies, at any depth) is read-only, without row locks, pipe
  operators, \<open>SELECT INTO\<close>, table functions or a mutating body; and the returned
  resources are exactly the base relations it reads, CTE names resolved in scope.
\<close>

theorem sql_query_resources_correct:
  assumes "sql_query_resources parse_sql request = Inr resources"
  shows "\<exists>dialect semantics query.
    (dialect, semantics)
      \<in> set (language_dialects (to_ascii_lowercase (trim (nat_language request)))) \<and>
    parse_sql dialect (trim (nat_statement request)) = Some [Stmt_Query query] \<and>
    (\<forall>q. contained query q \<longrightarrow> query_read_only q) \<and>
    set resources = {r. reads semantics [] query r}"
  by (rule sql_query_resources_query [OF assms])

text \<open>A parser result for the examples: a query over \<open>Public.users\<close> and a CTE.\<close>

definition plain_ident :: "string \<Rightarrow> Ident" where
  "plain_ident s = \<lparr>id_value = s, id_quote_style = None\<rparr>"

definition sample_table :: "string list \<Rightarrow> VisitItem list" where
  "sample_table parts = [V_TableFactor (TF_Table True False True),
     V_Relation (map (\<lambda>p. Part_Identifier (plain_ident p)) parts)]"

definition sample_query :: Query where
  "sample_query = Query
     (Some (With False [Cte (plain_ident ''Recent'')
        (Query None (SE_Select False False) False False (sample_table [''Public'', ''Users'']))
        False]))
     (SE_Select False False) False False
     (sample_table [''recent''] @ [V_Query
        (Query None (SE_Select False False) False False (sample_table [''public'', ''orders'']))])"

definition sample_parse :: "Dialect \<Rightarrow> string \<Rightarrow> Statement list option" where
  "sample_parse d s = (if s = ''q'' then Some [Stmt_Query sample_query] else None)"

definition sample_request :: NativeRequest where
  "sample_request = \<lparr>nat_language = ''PostgreSQL'', nat_statement = '' q '', nat_parameters = [],
     nat_positional_parameters = [], nat_max_affected = None, nat_idempotency_key = None\<rparr>"

lemma sample_resources:
  "sql_query_resources sample_parse sample_request = Inr [''public.orders'', ''public.users'']"
  by code_simp

theorem sql_query_resources_correct_witness:
  "sql_query_resources sample_parse sample_request = Inr [''public.orders'', ''public.users''] \<and>
   (\<exists>semantics query. set [''public.orders'', ''public.users'']
      = {r. reads semantics [] query r})"
  using sample_resources sql_query_resources_correct [OF sample_resources] by blast

end
