(* ===== verification/Policy_Engine.thy ===== *)
theory Policy_Engine
  imports Sql_Analysis
begin

text \<open>
  \<open>crates/connector-policy/src/policy.rs\<close>: classification of operations, the resource
  rule that applies to a target, the shape and limit checks, the read-only tests for
  native queries, and the policy decision. Three libraries are parameters, gathered in
  \<open>policy_env\<close>: the \<open>globset\<close> matcher (\<open>Glob::new\<close> and \<open>is_match\<close>), the
  \<open>sqlparser\<close> parser and \<open>serde_json::from_str\<close>.
\<close>

record policy_env =
  env_glob :: "string \<Rightarrow> (string \<Rightarrow> bool) option"
  env_parse_sql :: "Dialect \<Rightarrow> string \<Rightarrow> Statement list option"
  env_json_from_str :: "string \<Rightarrow> json option"

datatype Action =
    Action_Metadata | Action_Read | Action_Insert | Action_Update | Action_Delete
  | Action_NativeRead | Action_NativeWrite

datatype PolicyDecision = Allow | Confirm | Deny

definition MONGO_READ_COMMANDS :: "string list" where
  "MONGO_READ_COMMANDS =
     [''aggregate'', ''collStats'', ''count'', ''dbStats'', ''distinct'', ''explain'', ''find'',
      ''listCollections'', ''listDatabases'', ''listIndexes'', ''ping'']"

definition MONGO_WRITE_COMMANDS :: "string list" where
  "MONGO_WRITE_COMMANDS =
     [''abortTransaction'', ''applyOps'', ''commitTransaction'', ''convertToCapped'', ''create'',
      ''createIndexes'', ''delete'', ''drop'', ''dropDatabase'', ''dropIndexes'',
      ''findAndModify'', ''insert'', ''mapReduce'', ''renameCollection'', ''reIndex'', ''update'']"

definition MAX_IDEMPOTENCY_KEY_BYTES :: nat where
  "MAX_IDEMPOTENCY_KEY_BYTES = 128"

section \<open>Specificity of a resource pattern\<close>

record specificity_state =
  sp_literal_count :: nat
  sp_literal_prefix :: nat
  sp_wildcard_count :: nat
  sp_escaped :: bool
  sp_in_character_class :: bool
  sp_saw_wildcard :: bool

definition specificity_init :: specificity_state where
  "specificity_init =
     \<lparr>sp_literal_count = 0, sp_literal_prefix = 0, sp_wildcard_count = 0, sp_escaped = False,
      sp_in_character_class = False, sp_saw_wildcard = False\<rparr>"

definition count_literal :: "specificity_state \<Rightarrow> specificity_state" where
  "count_literal s =
     s\<lparr>sp_literal_count := sp_literal_count s + 1,
       sp_literal_prefix :=
         (if sp_saw_wildcard s then sp_literal_prefix s else sp_literal_prefix s + 1)\<rparr>"

definition count_wildcard :: "specificity_state \<Rightarrow> specificity_state" where
  "count_wildcard s = s\<lparr>sp_wildcard_count := sp_wildcard_count s + 1, sp_saw_wildcard := True\<rparr>"

definition specificity_step :: "string \<Rightarrow> specificity_state \<Rightarrow> specificity_state" where
  "specificity_step character s =
     (if sp_escaped s then (count_literal s)\<lparr>sp_escaped := False\<rparr>
      else if character = [CHR 0x5C] then s\<lparr>sp_escaped := True\<rparr>
      else if sp_in_character_class s then
        (if character = '']'' then s\<lparr>sp_in_character_class := False\<rparr> else s)
      else if character \<in> {''*'', ''?'', ''{''} then count_wildcard s
      else if character = ''['' then (count_wildcard s)\<lparr>sp_in_character_class := True\<rparr>
      else if character \<in> {''}'', '',''} then s
      else count_literal s)"

text \<open>The score: exactness, literal count, literal prefix, and the wildcard count, which
  counts backwards (\<open>Reverse\<close>).\<close>

type_synonym specificity = "bool \<times> nat \<times> nat \<times> nat"

definition resource_pattern_specificity :: "string \<Rightarrow> specificity" where
  "resource_pattern_specificity pattern =
     (let s = fold specificity_step (utf8_chars pattern) specificity_init;
          s = (if sp_escaped s then count_literal s else s) in
      (sp_wildcard_count s = 0, sp_literal_count s, sp_literal_prefix s, sp_wildcard_count s))"

text \<open>The derived lexicographic order on the score, last component reversed.\<close>

fun specificity_gt :: "specificity \<Rightarrow> specificity \<Rightarrow> bool" where
  "specificity_gt (e, l, p, w) (e', l', p', w') \<longleftrightarrow>
     e' < e \<or> e = e' \<and> (l' < l \<or> l = l' \<and> (p' < p \<or> p = p' \<and> w < w'))"

section \<open>The rule that applies to a target\<close>

definition rule_matches :: "policy_env \<Rightarrow> ResourceRule \<Rightarrow> string \<Rightarrow> bool" where
  "rule_matches env rule target =
     (case env_glob env (rule_pattern rule) of None \<Rightarrow> False | Some is_match \<Rightarrow> is_match target)"

fun select_rule ::
  "policy_env \<Rightarrow> string \<Rightarrow> ResourceRule list \<Rightarrow> (ResourceRule \<times> specificity) option
     \<Rightarrow> (ResourceRule \<times> specificity) option" where
  "select_rule env target [] selected = selected"
| "select_rule env target (rule # rules) selected =
     (if \<not> rule_matches env rule target then select_rule env target rules selected
      else
        let score = resource_pattern_specificity (rule_pattern rule) in
        if (case selected of None \<Rightarrow> True | Some (_, current) \<Rightarrow> specificity_gt score current)
        then select_rule env target rules (Some (rule, score))
        else select_rule env target rules selected)"

definition matching_resource_rule ::
  "policy_env \<Rightarrow> ConnectionPolicy \<Rightarrow> string \<Rightarrow> ResourceRule option" where
  "matching_resource_rule env policy target =
     map_option fst (select_rule env target (pol_resources policy) None)"

section \<open>Operations\<close>

fun classify :: "DataOperation \<Rightarrow> Action" where
  "classify (Op_Read _) = Action_Read"
| "classify (Op_Search _) = Action_Read"
| "classify (Op_VectorSearch _) = Action_Read"
| "classify (Op_Insert _) = Action_Insert"
| "classify (Op_VectorUpsert _) = Action_Insert"
| "classify (Op_TimeSeriesWrite _) = Action_Insert"
| "classify (Op_Update _) = Action_Update"
| "classify (Op_Delete _) = Action_Delete"
| "classify (Op_NativeQuery _) = Action_NativeRead"
| "classify (Op_NativeExecute _) = Action_NativeWrite"

fun operation_target :: "DataOperation \<Rightarrow> string" where
  "operation_target (Op_Read request) = rd_target request"
| "operation_target (Op_Insert request) = ins_target request"
| "operation_target (Op_Update request) = upd_target request"
| "operation_target (Op_Delete request) = del_target request"
| "operation_target (Op_NativeQuery _) = ''*native*''"
| "operation_target (Op_NativeExecute _) = ''*native*''"
| "operation_target (Op_Search request) = se_target request"
| "operation_target (Op_VectorSearch request) = vs_target request"
| "operation_target (Op_VectorUpsert request) = vu_target request"
| "operation_target (Op_TimeSeriesWrite request) = tw_target request"

fun empty_filter :: "Filter \<Rightarrow> bool" where
  "empty_filter (F_And filters) = (filters = [] \<or> list_ex empty_filter filters)"
| "empty_filter (F_Or filters) = (filters = [] \<or> list_ex empty_filter filters)"
| "empty_filter (F_Not f) = empty_filter f"
| "empty_filter _ = False"

definition exceeds :: "string \<Rightarrow> string \<Rightarrow> string \<Rightarrow> PolicyError" where
  "exceeds what requested maximum =
     Denied (what @ '' '' @ requested @ '' exceeds policy maximum '' @ maximum)"

definition enforce_operation_limits ::
  "ConnectionPolicy \<Rightarrow> DataOperation \<Rightarrow> PolicyError + unit" where
  "enforce_operation_limits policy operation =
     (case operation of
        Op_NativeExecute request \<Rightarrow>
          (case nat_max_affected request of
             None \<Rightarrow> Inl (InvalidOperation ''native writes require max_affected'')
           | Some max_affected \<Rightarrow>
               if max_affected = 0 then
                 Inl (InvalidOperation ''native max_affected must be greater than zero'')
               else if max_affected > pol_max_affected policy then
                 Inl (exceeds ''native max_affected'' (show_word max_affected)
                        (show_word (pol_max_affected policy)))
               else Inr ())
      | Op_Read request \<Rightarrow>
          if qo_limit (rd_options request) > pol_max_rows policy then
            Inl (exceeds ''requested row limit'' (show_word (qo_limit (rd_options request)))
                   (show_word (pol_max_rows policy)))
          else Inr ()
      | Op_Search request \<Rightarrow>
          if qo_limit (se_options request) > pol_max_rows policy then
            Inl (exceeds ''requested result limit'' (show_word (qo_limit (se_options request)))
                   (show_word (pol_max_rows policy)))
          else Inr ()
      | Op_VectorSearch request \<Rightarrow>
          if vs_top_k request > pol_max_rows policy then
            Inl (exceeds ''requested top_k'' (show_word (vs_top_k request))
                   (show_word (pol_max_rows policy)))
          else Inr ()
      | Op_Insert request \<Rightarrow>
          if length (ins_records request) > unat (pol_max_affected policy) then
            Inl (exceeds ''insert batch size'' (show_nat (length (ins_records request)))
                   (show_word (pol_max_affected policy)))
          else Inr ()
      | Op_VectorUpsert request \<Rightarrow>
          if length (vu_points request) > unat (pol_max_affected policy) then
            Inl (exceeds ''vector batch size'' (show_nat (length (vu_points request)))
                   (show_word (pol_max_affected policy)))
          else Inr ()
      | Op_TimeSeriesWrite request \<Rightarrow>
          if length (tw_points request) > unat (pol_max_affected policy) then
            Inl (exceeds ''time-series batch size'' (show_nat (length (tw_points request)))
                   (show_word (pol_max_affected policy)))
          else Inr ()
      | Op_Update request \<Rightarrow>
          if upd_max_affected request > pol_max_affected policy then
            Inl (exceeds ''max_affected'' (show_word (upd_max_affected request))
                   (show_word (pol_max_affected policy)))
          else if empty_filter (upd_filter request) then
            Inl (InvalidOperation ''update requires a non-empty filter'')
          else Inr ()
      | Op_Delete request \<Rightarrow>
          if del_max_affected request > pol_max_affected policy then
            Inl (exceeds ''max_affected'' (show_word (del_max_affected request))
                   (show_word (pol_max_affected policy)))
          else if empty_filter (del_filter request) then
            Inl (InvalidOperation ''delete requires a non-empty filter'')
          else Inr ()
      | Op_NativeQuery _ \<Rightarrow> Inr ())"

definition validate_idempotency_key :: "string \<Rightarrow> PolicyError + unit" where
  "validate_idempotency_key key =
     (if key = [] \<or> trim key \<noteq> key then
        Inl (InvalidOperation ''idempotency_key must not be empty or have surrounding whitespace'')
      else if length key > MAX_IDEMPOTENCY_KEY_BYTES then
        Inl (InvalidOperation (''idempotency_key must not exceed ''
           @ show_nat MAX_IDEMPOTENCY_KEY_BYTES @ '' UTF-8 bytes''))
      else if list_ex is_control (utf8_chars key) then
        Inl (InvalidOperation ''idempotency_key must not contain control characters'')
      else Inr ())"

section \<open>Read-only native queries\<close>

definition first_keyword :: "string \<Rightarrow> string option" where
  "first_keyword statement =
     (let keyword = to_ascii_lowercase (takeWhile is_ascii_alphabetic statement) in
      if keyword = [] then None else Some keyword)"

definition json_object_has :: "(string \<times> json) list \<Rightarrow> string \<Rightarrow> bool" where
  "json_object_has object key = bt_contains_key object key"

definition mongo_pipeline_contains_write_stage :: "json \<Rightarrow> bool" where
  "mongo_pipeline_contains_write_stage v =
     (case v of
        JArray pipeline \<Rightarrow>
          list_ex (\<lambda>stage. case stage of
              JObject st \<Rightarrow> json_object_has st ''$out'' \<or> json_object_has st ''$merge''
            | _ \<Rightarrow> False) pipeline
      | _ \<Rightarrow> False)"

definition mongo_command_is_read_only :: "policy_env \<Rightarrow> string \<Rightarrow> bool" where
  "mongo_command_is_read_only env statement =
     (case env_json_from_str env statement of
        Some (JObject command) \<Rightarrow>
          (if list_ex (json_object_has command) MONGO_WRITE_COMMANDS then False
           else if json_object_has command ''aggregate''
              \<and> (case bt_get command ''pipeline'' of
                   None \<Rightarrow> False | Some v \<Rightarrow> mongo_pipeline_contains_write_stage v) then False
           else list_ex (json_object_has command) MONGO_READ_COMMANDS)
      | _ \<Rightarrow> False)"

definition path_ends_with_any :: "string \<Rightarrow> string list \<Rightarrow> bool" where
  "path_ends_with_any path suffixes =
     list_ex (\<lambda>suffix. path = suffix \<or> ends_with path suffix) suffixes"

definition native_http_post_is_read_only :: "string \<Rightarrow> string \<Rightarrow> bool" where
  "native_http_post_is_read_only language path =
     (if language \<in> {''elasticsearch_http'', ''elasticsearch_dsl'', ''opensearch_http'',
           ''opensearch_dsl''} then
        path_ends_with_any path
          [''/_search'', ''/_msearch'', ''/_count'', ''/_field_caps'', ''/_terms_enum'',
           ''/_explain'', ''/_sql'']
      else if language = ''qdrant_http'' then
        path_ends_with_any path
          [''/points/search'', ''/points/search/batch'', ''/points/query'',
           ''/points/query/batch'', ''/points/recommend'', ''/points/recommend/batch'',
           ''/points/scroll'', ''/points/count'']
      else if language = ''pinecone_http'' then
        path_ends_with_any path [''/query'', ''/vectors/fetch'', ''/describe_index_stats'']
      else if language = ''milvus_http'' then
        path_ends_with_any path
          [''/entities/query'', ''/entities/get'', ''/entities/search'',
           ''/entities/hybrid_search'', ''/vector/query'', ''/vector/get'', ''/vector/search'']
      else if language = ''weaviate_http'' then path = ''/v1/graphql''
      else False)"

definition http_path_ok :: "string \<Rightarrow> bool" where
  "http_path_ok path \<longleftrightarrow>
     starts_with path ''/'' \<and> \<not> starts_with path ''//'' \<and> \<not> str_contains path ''..''
     \<and> \<not> list_ex (\<lambda>c. c = CHR 0x5C \<or> c = CHR ''?'' \<or> c = CHR ''#'') path"

definition native_http_envelope_is_read_only :: "policy_env \<Rightarrow> string \<Rightarrow> string \<Rightarrow> bool" where
  "native_http_envelope_is_read_only env language statement =
     (case env_json_from_str env statement of
        Some (JObject envelope) \<Rightarrow>
          (let http_method = map_option to_ascii_uppercase
               (Option.bind (bt_get envelope ''method'') json_as_str);
             path = Option.bind (Option.bind (bt_get envelope ''path'') json_as_str)
               (\<lambda>path. if http_path_ok path then Some path else None)
           in case path of
                None \<Rightarrow> False
              | Some path \<Rightarrow>
                  if http_method \<in> {Some ''GET'', Some ''HEAD''} then True
                  else if http_method = Some ''POST'' then
                    native_http_post_is_read_only language path
                  else False)
      | _ \<Rightarrow> False)"

text \<open>
  \<open>char::to_lowercase\<close> where the result is searched for ASCII text only: ASCII letters
  are lowered, U+0130 becomes \<open>i\<close> with U+0307, U+212A becomes \<open>k\<close>; every other
  non-ASCII character maps to non-ASCII characters and is kept, which no search for
  an ASCII pattern can tell apart.
\<close>

definition lowercase_char :: "string \<Rightarrow> string" where
  "lowercase_char ch =
     (if map byte ch = [196, 176] then [CHR ''i'', CHR 0xCC, CHR 0x87]
      else if map byte ch = [226, 132, 170] then ''k''
      else to_ascii_lowercase ch)"

definition flux_is_read_only :: "string \<Rightarrow> bool" where
  "flux_is_read_only statement =
     (let compact = concat (map lowercase_char
        (filter (\<lambda>ch. \<not> is_whitespace ch) (utf8_chars statement))) in
      \<not> str_contains compact ''|>to('' \<and> \<not> str_contains compact ''monitor.write(''
      \<and> \<not> str_contains compact ''http.post('')"

definition spl_is_read_only :: "string \<Rightarrow> bool" where
  "spl_is_read_only statement =
     (\<not> list_ex (\<lambda>command. case split_whitespace command of
          [] \<Rightarrow> False
        | name # _ \<Rightarrow> to_ascii_lowercase name
            \<in> {''delete'', ''collect'', ''outputlookup'', ''sendemail''})
       (tl (split_on (CHR ''|'') statement)))"

definition native_query_is_read_only :: "policy_env \<Rightarrow> NativeRequest \<Rightarrow> bool" where
  "native_query_is_read_only env request =
     (let language = to_ascii_lowercase (trim (nat_language request));
          statement = trim (nat_statement request);
          keyword = first_keyword statement;
          single = (CHR '';'' \<notin> set statement) in
      if statement = [] then False
      else if language \<in> {''sql'', ''postgres'', ''postgresql'', ''mysql'', ''mariadb'', ''tsql'',
           ''sqlserver'', ''oracle'', ''cockroachdb'', ''tidb'', ''yugabytedb'', ''oceanbase''} then
        (if keyword \<in> {Some ''select'', Some ''with''} then
           is_ok (sql_query_resources (env_parse_sql env) request)
         else if keyword \<in> {Some ''show'', Some ''describe'', Some ''desc'', Some ''values''} then
           single
         else False)
      else if language = ''influxql'' then
        single \<and> keyword \<in> {Some ''select'', Some ''show'', Some ''describe'', Some ''desc''}
      else if language \<in> {''cql'', ''cassandra'', ''ycql''} then
        single \<and> keyword \<in> {Some ''select'', Some ''describe'', Some ''desc''}
      else if language \<in> {''mongodb'', ''mongo'', ''mql''} then
        mongo_command_is_read_only env statement
      else if language = ''promql'' then True
      else if language = ''flux'' then flux_is_read_only statement
      else if language \<in> {''spl'', ''splunk'', ''splunk_spl''} then spl_is_read_only statement
      else if language \<in> {''elasticsearch_http'', ''elasticsearch_dsl'', ''opensearch_http'',
           ''opensearch_dsl'', ''qdrant_http'', ''pinecone_http'', ''milvus_http'',
           ''weaviate_http'', ''json''} then
        native_http_envelope_is_read_only env language statement
      else False)"

section \<open>The shape of an operation\<close>

definition validate_operation_shape ::
  "policy_env \<Rightarrow> DataOperation \<Rightarrow> PolicyError + unit" where
  "validate_operation_shape env operation =
     bind_res (case write_idempotency_key operation of
         None \<Rightarrow> Inr () | Some key \<Rightarrow> validate_idempotency_key key) (\<lambda>_.
     let target = operation_target operation in
     if target \<noteq> ''*native*'' \<and> trim target = [] then
       Inl (InvalidOperation ''operation target must not be empty'')
     else (case operation of
        Op_Insert request \<Rightarrow>
          if ins_records request = [] then
            Inl (InvalidOperation ''insert requires at least one record'') else Inr ()
      | Op_Update request \<Rightarrow>
          if upd_changes request = [] then
            Inl (InvalidOperation ''update changes must not be empty'')
          else if upd_max_affected request = 0 then
            Inl (InvalidOperation ''update max_affected must be greater than zero'')
          else Inr ()
      | Op_Delete request \<Rightarrow>
          if del_max_affected request = 0 then
            Inl (InvalidOperation ''delete max_affected must be greater than zero'')
          else Inr ()
      | Op_NativeQuery request \<Rightarrow>
          if \<not> native_query_is_read_only env request then
            Inl (InvalidOperation ''native query could not be proven read-only'') else Inr ()
      | Op_NativeExecute request \<Rightarrow>
          if trim (nat_statement request) = [] then
            Inl (InvalidOperation ''native statement must not be empty'') else Inr ()
      | Op_VectorSearch request \<Rightarrow>
          if vs_top_k request = 0 then
            Inl (InvalidOperation ''vector top_k must be greater than zero'') else Inr ()
      | Op_VectorUpsert request \<Rightarrow>
          if vu_points request = [] then
            Inl (InvalidOperation ''vector upsert requires at least one point'') else Inr ()
      | Op_TimeSeriesWrite request \<Rightarrow>
          if tw_points request = [] then
            Inl (InvalidOperation ''time-series write requires at least one point'') else Inr ()
      | _ \<Rightarrow> Inr ()))"

section \<open>The decision\<close>

definition read_decision :: "ConnectionPolicy \<Rightarrow> ResourceRule option \<Rightarrow> PolicyDecision" where
  "read_decision policy rule =
     (case rule of
        None \<Rightarrow> if pol_resources policy = [] then Allow else Deny
      | Some rule \<Rightarrow> if rule_allow_read rule then Allow else Deny)"

definition write_decision ::
  "(ResourceRule \<Rightarrow> bool) \<Rightarrow> ResourceRule option \<Rightarrow> PolicyDecision" where
  "write_decision allowed rule =
     (case rule of Some rule \<Rightarrow> if allowed rule then Confirm else Deny | None \<Rightarrow> Deny)"

definition action_decision ::
  "ConnectionPolicy \<Rightarrow> ResourceRule option \<Rightarrow> Action \<Rightarrow> PolicyDecision" where
  "action_decision policy rule action =
     (case action of
        Action_Metadata \<Rightarrow> read_decision policy rule
      | Action_Read \<Rightarrow> read_decision policy rule
      | Action_Insert \<Rightarrow> write_decision rule_allow_insert rule
      | Action_Update \<Rightarrow> write_decision rule_allow_update rule
      | Action_Delete \<Rightarrow> write_decision rule_allow_delete rule
      | Action_NativeRead \<Rightarrow>
          if pol_allow_native_read policy \<and> pol_egress policy \<noteq> CloudAllowedMasked
          then Allow else Deny
      | Action_NativeWrite \<Rightarrow> if pol_allow_native_write policy then Confirm else Deny)"

definition evaluate ::
  "policy_env \<Rightarrow> ConnectionPolicy \<Rightarrow> DataOperation \<Rightarrow> PolicyError + PolicyDecision" where
  "evaluate env policy operation =
     bind_res (validate_operation_shape env operation) (\<lambda>_.
     if \<not> pol_enabled policy then Inr Deny
     else
       let decision = action_decision policy
         (matching_resource_rule env policy (operation_target operation)) (classify operation) in
       bind_res (enforce_operation_limits policy operation) (\<lambda>_. Inr decision))"

definition evaluate_metadata ::
  "policy_env \<Rightarrow> ConnectionPolicy \<Rightarrow> string \<Rightarrow> PolicyDecision" where
  "evaluate_metadata env policy target =
     (if \<not> pol_enabled policy then Deny
      else read_decision policy (matching_resource_rule env policy target))"

definition sql_relation_allowed :: "policy_env \<Rightarrow> ConnectionPolicy \<Rightarrow> string \<Rightarrow> bool" where
  "sql_relation_allowed env policy resource =
     (case matching_resource_rule env policy resource of
        None \<Rightarrow> pol_resources policy = []
      | Some rule \<Rightarrow> rule_allow_read rule)"

definition evaluate_sql_query ::
  "policy_env \<Rightarrow> ConnectionPolicy \<Rightarrow> NativeRequest \<Rightarrow> PolicyError + string list" where
  "evaluate_sql_query env policy request =
     (if \<not> pol_enabled policy then Inl (Denied ''connection is disabled'')
      else if pol_egress policy = CloudAllowedMasked then
        Inl (Denied ''SQL queries cannot safely apply cloud egress field masking'')
      else bind_res (sql_query_resources (env_parse_sql env) request) (\<lambda>resources.
        case find (\<lambda>resource. \<not> sql_relation_allowed env policy resource) resources of
          Some resource \<Rightarrow>
            Inl (Denied (''read access to SQL relation `'' @ resource @ ''` is not permitted''))
        | None \<Rightarrow> Inr resources))"

section \<open>Which rule applies\<close>

lemma specificity_exhaust [simp]: "\<exists>e l p w. (score :: specificity) = (e, l, p, w)"
  by (cases score) simp

lemma specificity_gt_irrefl [simp]: "\<not> specificity_gt s s"
  by (cases s) simp

lemma specificity_gt_trans: "specificity_gt a b \<Longrightarrow> specificity_gt b c \<Longrightarrow> specificity_gt a c"
  by (cases a; cases b; cases c) auto

lemma specificity_gt_linear: "specificity_gt a b \<or> a = b \<or> specificity_gt b a"
  by (cases a; cases b) auto

lemma specificity_gt_asym: "specificity_gt a b \<Longrightarrow> \<not> specificity_gt b a"
  by (cases a; cases b) auto

lemma specificity_ge_trans:
  "\<not> specificity_gt b a \<Longrightarrow> \<not> specificity_gt c b \<Longrightarrow> \<not> specificity_gt c a"
  by (metis specificity_gt_linear specificity_gt_trans)

declare specificity_gt.simps [simp del]

abbreviation rule_score :: "ResourceRule \<Rightarrow> specificity" where
  "rule_score rule \<equiv> resource_pattern_specificity (rule_pattern rule)"

text \<open>\<open>chosen\<close>: the rule beats every matching rule before it and is not beaten by any
  matching rule after it.\<close>

definition chosen :: "policy_env \<Rightarrow> string \<Rightarrow> ResourceRule list \<Rightarrow> ResourceRule \<Rightarrow> bool" where
  "chosen env target rules rule \<longleftrightarrow>
     (\<exists>before after. rules = before @ rule # after \<and> rule_matches env rule target \<and>
        (\<forall>r \<in> set before. rule_matches env r target \<longrightarrow>
           specificity_gt (rule_score rule) (rule_score r)) \<and>
        (\<forall>r \<in> set after. rule_matches env r target \<longrightarrow>
           \<not> specificity_gt (rule_score r) (rule_score rule)))"

lemma append_Cons_eq_cases:
  assumes "xs @ a # ys = us @ b # vs"
  obtains "xs = us" "a = b" | zs where "us = xs @ a # zs" "ys = zs @ b # vs"
    | zs where "xs = us @ b # zs" "vs = zs @ a # ys"
proof -
  from assms obtain ws where "xs = us @ ws \<and> ws @ a # ys = b # vs \<or> xs @ ws = us \<and> a # ys = ws @ b # vs"
    by (auto simp: append_eq_append_conv2)
  then show ?thesis using that by (cases ws) auto
qed

lemma chosen_unique:
  assumes "chosen env target rules a" "chosen env target rules b"
  shows "a = b"
proof -
  from assms(1) obtain xs ys where xs: "rules = xs @ a # ys"
      and a: "rule_matches env a target"
        "\<forall>r \<in> set xs. rule_matches env r target \<longrightarrow> specificity_gt (rule_score a) (rule_score r)"
        "\<forall>r \<in> set ys. rule_matches env r target \<longrightarrow> \<not> specificity_gt (rule_score r) (rule_score a)"
    by (auto simp: chosen_def)
  from assms(2) obtain us vs where us: "rules = us @ b # vs"
      and b: "rule_matches env b target"
        "\<forall>r \<in> set us. rule_matches env r target \<longrightarrow> specificity_gt (rule_score b) (rule_score r)"
        "\<forall>r \<in> set vs. rule_matches env r target \<longrightarrow> \<not> specificity_gt (rule_score r) (rule_score b)"
    by (auto simp: chosen_def)
  from xs us have split: "xs @ a # ys = us @ b # vs" by simp
  from split show ?thesis
  proof (cases rule: append_Cons_eq_cases)
    case (2 zs)
    then have "b \<in> set ys" "a \<in> set us" by auto
    with a(1,3) b(1,2) show ?thesis by metis
  next
    case (3 zs)
    then have "a \<in> set vs" "b \<in> set xs" by auto
    with a(1,2) b(1,3) show ?thesis by metis
  qed
qed

lemma chosen_Cons:
  "chosen env target rules rule \<Longrightarrow>
     rule_matches env r target \<longrightarrow> specificity_gt (rule_score rule) (rule_score r) \<Longrightarrow>
     chosen env target (r # rules) rule"
  unfolding chosen_def by (metis append_Cons set_ConsD)

lemma chosen_here:
  "rule_matches env rule target \<Longrightarrow>
     \<forall>r \<in> set rules. rule_matches env r target \<longrightarrow> \<not> specificity_gt (rule_score r) (rule_score rule) \<Longrightarrow>
     chosen env target (rule # rules) rule"
  unfolding chosen_def by (metis append_Nil empty_iff empty_set)

text \<open>The loop keeps the current selection or replaces it by a more specific one.\<close>

lemma select_rule_cases:
  "case select_rule env target rules selected of
     None \<Rightarrow> selected = None \<and> (\<forall>r \<in> set rules. \<not> rule_matches env r target)
   | Some (rule, score) \<Rightarrow>
       (case selected of Some (r, s) \<Rightarrow>
          (rule, score) = (r, s) \<and>
             (\<forall>x \<in> set rules. rule_matches env x target \<longrightarrow> \<not> specificity_gt (rule_score x) s)
          \<or> specificity_gt score s \<and> score = rule_score rule \<and> chosen env target rules rule
        | None \<Rightarrow> score = rule_score rule \<and> chosen env target rules rule)"
proof (induction rules arbitrary: selected)
  case Nil
  show ?case by (cases selected) auto
next
  case (Cons rule rules)
  let ?s = "rule_score rule"
  show ?case
  proof (cases "rule_matches env rule target")
    case False
    with Cons.IH [of selected] show ?thesis
      by (auto split: option.splits intro: chosen_Cons)
  next
    case match: True
    show ?thesis
    proof (cases "case selected of None \<Rightarrow> True | Some (_, current) \<Rightarrow> specificity_gt ?s current")
      case True
      with match Cons.IH [of "Some (rule, ?s)"] show ?thesis
        by (auto split: option.splits intro: chosen_Cons chosen_here dest: specificity_gt_trans)
    next
      case False
      then obtain r s where sel: "selected = Some (r, s)" and less: "\<not> specificity_gt ?s s"
        by (auto split: option.splits)
      have "\<And>x. specificity_gt (rule_score x) s \<Longrightarrow> specificity_gt (rule_score x) ?s"
        using less by (metis specificity_ge_trans)
      with match sel less Cons.IH [of selected] show ?thesis
        by (auto split: option.splits intro: chosen_Cons)
    qed
  qed
qed

lemma matching_rule_Some:
  "matching_resource_rule env policy target = Some rule \<Longrightarrow>
     chosen env target (pol_resources policy) rule"
  using select_rule_cases [where env = env and target = target and rules = "pol_resources policy"
      and selected = None]
  by (auto simp: matching_resource_rule_def split: option.splits)

lemma matching_rule_None:
  "matching_resource_rule env policy target = None \<longleftrightarrow>
     (\<forall>r \<in> set (pol_resources policy). \<not> rule_matches env r target)"
proof
  assume "matching_resource_rule env policy target = None"
  then show "\<forall>r \<in> set (pol_resources policy). \<not> rule_matches env r target"
    using select_rule_cases [where env = env and target = target and rules = "pol_resources policy"
      and selected = None]
    by (auto simp: matching_resource_rule_def split: option.splits)
next
  assume *: "\<forall>r \<in> set (pol_resources policy). \<not> rule_matches env r target"
  show "matching_resource_rule env policy target = None"
  proof (cases "matching_resource_rule env policy target")
    case (Some rule)
    from matching_rule_Some [OF this] * show ?thesis by (auto simp: chosen_def)
  qed
qed

lemma matching_rule_iff:
  "matching_resource_rule env policy target = Some rule \<longleftrightarrow>
     chosen env target (pol_resources policy) rule"
proof
  assume ch: "chosen env target (pol_resources policy) rule"
  then have "matching_resource_rule env policy target \<noteq> None"
    by (auto simp: matching_rule_None chosen_def)
  then obtain r where r: "matching_resource_rule env policy target = Some r" by blast
  from chosen_unique [OF matching_rule_Some [OF r] ch] r
  show "matching_resource_rule env policy target = Some rule" by simp
qed (rule matching_rule_Some)

text \<open>A pattern without glob metacharacters is exact and outranks every other pattern.\<close>

definition literal_pattern :: "string \<Rightarrow> bool" where
  "literal_pattern pattern \<longleftrightarrow>
     (\<forall>c \<in> set (utf8_chars pattern). c \<notin> {[CHR 0x5C], ''*'', ''?'', ''{'', ''['', ''}'', '',''})"

lemma specificity_literal_fold:
  "\<forall>c \<in> set cs. c \<notin> {[CHR 0x5C], ''*'', ''?'', ''{'', ''['', ''}'', '',''} \<Longrightarrow>
   \<not> sp_escaped s \<Longrightarrow> \<not> sp_in_character_class s \<Longrightarrow> \<not> sp_saw_wildcard s \<Longrightarrow>
   fold specificity_step cs s =
     s\<lparr>sp_literal_count := sp_literal_count s + length cs,
       sp_literal_prefix := sp_literal_prefix s + length cs\<rparr>"
  by (induction cs arbitrary: s) (simp_all add: specificity_step_def count_literal_def)

lemma literal_specificity:
  "literal_pattern p \<Longrightarrow>
     resource_pattern_specificity p = (True, length (utf8_chars p), length (utf8_chars p), 0)"
  by (simp add: resource_pattern_specificity_def specificity_literal_fold literal_pattern_def
      specificity_init_def Let_def)

lemma exact_outranks_wildcard:
  assumes "rule \<in> set (pol_resources policy)" "rule_matches env rule target"
    and "literal_pattern (rule_pattern rule)"
    and sel: "matching_resource_rule env policy target = Some selected"
  shows "fst (rule_score selected)"
proof (rule ccontr)
  assume no: "\<not> fst (rule_score selected)"
  then have gt: "specificity_gt (rule_score rule) (rule_score selected)"
    by (cases "rule_score selected") (simp add: literal_specificity [OF assms(3)] specificity_gt.simps)
  have "\<not> specificity_gt (rule_score selected) (rule_score rule)" by (rule specificity_gt_asym [OF gt])
  with matching_rule_Some [OF sel] assms(1,2) gt show False
    by (auto simp: chosen_def)
qed

section \<open>What a decision guarantees\<close>

text \<open>The sizes an operation asks for, and the comparisons of a filter.\<close>

fun requested_rows :: "DataOperation \<Rightarrow> nat" where
  "requested_rows (Op_Read request) = unat (qo_limit (rd_options request))"
| "requested_rows (Op_Search request) = unat (qo_limit (se_options request))"
| "requested_rows (Op_VectorSearch request) = unat (vs_top_k request)"
| "requested_rows _ = 0"

fun requested_changes :: "DataOperation \<Rightarrow> nat option" where
  "requested_changes (Op_Insert request) = Some (length (ins_records request))"
| "requested_changes (Op_Update request) = Some (unat (upd_max_affected request))"
| "requested_changes (Op_Delete request) = Some (unat (del_max_affected request))"
| "requested_changes (Op_NativeExecute request) = map_option unat (nat_max_affected request)"
| "requested_changes (Op_VectorUpsert request) = Some (length (vu_points request))"
| "requested_changes (Op_TimeSeriesWrite request) = Some (length (tw_points request))"
| "requested_changes _ = Some 0"

fun operation_filter :: "DataOperation \<Rightarrow> Filter option" where
  "operation_filter (Op_Update request) = Some (upd_filter request)"
| "operation_filter (Op_Delete request) = Some (del_filter request)"
| "operation_filter _ = None"

fun subfilters :: "Filter \<Rightarrow> Filter set" where
  "subfilters (F_And fs) = insert (F_And fs) (\<Union>f \<in> set fs. subfilters f)"
| "subfilters (F_Or fs) = insert (F_Or fs) (\<Union>f \<in> set fs. subfilters f)"
| "subfilters (F_Not f) = insert (F_Not f) (subfilters f)"
| "subfilters f = {f}"

fun comparisons :: "Filter \<Rightarrow> Filter set" where
  "comparisons (F_And fs) = (\<Union>f \<in> set fs. comparisons f)"
| "comparisons (F_Or fs) = (\<Union>f \<in> set fs. comparisons f)"
| "comparisons (F_Not f) = comparisons f"
| "comparisons f = {f}"

lemma subfilters_self [simp]: "f \<in> subfilters f"
  by (cases f) auto

lemma comparisons_empty_filter: "comparisons f = {} \<Longrightarrow> empty_filter f"
proof (induction f rule: empty_filter.induct)
  case (1 fs) then show ?case by (cases fs) auto
next
  case (2 fs) then show ?case by (cases fs) auto
qed auto

lemma empty_filter_iff:
  "empty_filter f \<longleftrightarrow> (\<exists>g \<in> subfilters f. comparisons g = {})"
proof (induction f rule: empty_filter.induct)
  case (1 fs)
  have "comparisons (F_And fs) = {} \<Longrightarrow> empty_filter (F_And fs)"
    by (rule comparisons_empty_filter)
  with 1 show ?case by (auto simp: list_ex_iff)
next
  case (2 fs)
  have "comparisons (F_Or fs) = {} \<Longrightarrow> empty_filter (F_Or fs)"
    by (rule comparisons_empty_filter)
  with 2 show ?case by (auto simp: list_ex_iff)
next
  case (3 f)
  then show ?case using subfilters_self [of f] by auto
qed auto

text \<open>An operation passes the limit checks exactly when its sizes fit the policy.\<close>

lemma enforce_operation_limits_iff:
  "enforce_operation_limits policy operation = Inr () \<longleftrightarrow>
     requested_rows operation \<le> unat (pol_max_rows policy) \<and>
     (\<exists>n. requested_changes operation = Some n \<and> n \<le> unat (pol_max_affected policy) \<and>
        ((\<exists>r. operation = Op_NativeExecute r) \<longrightarrow> n \<noteq> 0)) \<and>
     (\<forall>f. operation_filter operation = Some f \<longrightarrow> \<not> empty_filter f)"
  by (cases operation)
    (auto simp: enforce_operation_limits_def word_le_nat_alt word_less_nat_alt unat_eq_0 unat_gt_0 not_less
      split: option.splits if_splits)

lemma validate_idempotency_key_iff:
  "validate_idempotency_key key = Inr () \<longleftrightarrow>
     key \<noteq> [] \<and> trim key = key \<and> length key \<le> 128 \<and> \<not> list_ex is_control (utf8_chars key)"
  by (auto simp: validate_idempotency_key_def MAX_IDEMPOTENCY_KEY_BYTES_def)

lemma validate_operation_shape_key:
  "validate_operation_shape env operation = Inr () \<Longrightarrow>
     write_idempotency_key operation = Some key \<Longrightarrow> validate_idempotency_key key = Inr ()"
  by (auto simp: validate_operation_shape_def res_simps split: option.splits)

lemma validate_operation_shape_changes:
  "validate_operation_shape env operation = Inr () \<Longrightarrow>
     requested_changes operation = Some n \<Longrightarrow>
     classify operation \<in> {Action_Insert, Action_Update, Action_Delete} \<Longrightarrow> 0 < n"
  by (cases operation)
    (auto simp: validate_operation_shape_def Let_def res_simps unat_gt_0 split: if_splits)

lemma validate_operation_shape_native:
  "validate_operation_shape env (Op_NativeQuery request) = Inr () \<Longrightarrow>
     native_query_is_read_only env request"
  by (auto simp: validate_operation_shape_def Let_def res_simps split: if_splits)

lemma evaluate_Inr:
  "evaluate env policy operation = Inr decision \<longleftrightarrow>
     validate_operation_shape env operation = Inr () \<and>
     (\<not> pol_enabled policy \<and> decision = Deny \<or>
      pol_enabled policy \<and> enforce_operation_limits policy operation = Inr () \<and>
      decision = action_decision policy
        (matching_resource_rule env policy (operation_target operation)) (classify operation))"
  by (auto simp: evaluate_def Let_def res_simps)

abbreviation write_actions :: "Action set" where
  "write_actions \<equiv> {Action_Insert, Action_Update, Action_Delete, Action_NativeWrite}"

lemma action_decision_Confirm:
  "action_decision policy rule action = Confirm \<longleftrightarrow>
     (case action of
        Action_Insert \<Rightarrow> (\<exists>r. rule = Some r \<and> rule_allow_insert r)
      | Action_Update \<Rightarrow> (\<exists>r. rule = Some r \<and> rule_allow_update r)
      | Action_Delete \<Rightarrow> (\<exists>r. rule = Some r \<and> rule_allow_delete r)
      | Action_NativeWrite \<Rightarrow> pol_allow_native_write policy
      | _ \<Rightarrow> False)"
  by (auto simp: action_decision_def read_decision_def write_decision_def
      split: Action.splits option.splits if_splits)

lemma action_decision_Allow:
  "action_decision policy rule action = Allow \<longleftrightarrow>
     (case action of
        Action_NativeRead \<Rightarrow> pol_allow_native_read policy \<and> pol_egress policy \<noteq> CloudAllowedMasked
      | Action_Read \<Rightarrow> read_decision policy rule = Allow
      | Action_Metadata \<Rightarrow> read_decision policy rule = Allow
      | _ \<Rightarrow> False)"
  by (auto simp: action_decision_def write_decision_def
      split: Action.splits option.splits if_splits)

lemma classify_targets:
  "classify operation \<noteq> Action_Metadata"
  by (cases operation) auto



lemma language_dialects_sql:
  "language_dialects language \<noteq> [] \<Longrightarrow>
     language \<in> {''sql'', ''postgres'', ''postgresql'', ''mysql'', ''mariadb'', ''tsql'',
           ''sqlserver'', ''oracle'', ''cockroachdb'', ''tidb'', ''yugabytedb'', ''oceanbase''}"
  by (simp add: language_dialects_def split: if_splits) auto

lemma native_sql_select_read_only:
  assumes "native_query_is_read_only env request"
    and "language_dialects (to_ascii_lowercase (trim (nat_language request))) \<noteq> []"
    and "first_keyword (trim (nat_statement request)) \<in> {Some ''select'', Some ''with''}"
  shows "\<exists>dialect query. env_parse_sql env dialect (trim (nat_statement request))
     = Some [Stmt_Query query] \<and> (\<forall>q. contained query q \<longrightarrow> query_read_only q)"
proof -
  note l = language_dialects_sql [OF assms(2)]
  have "is_ok (sql_query_resources (env_parse_sql env) request)"
    using assms(1) unfolding native_query_is_read_only_def Let_def if_P [OF l] if_P [OF assms(3)]
    by (simp split: if_splits)
  then obtain rs where "sql_query_resources (env_parse_sql env) request = Inr rs"
    by (cases "sql_query_resources (env_parse_sql env) request") auto
  from sql_query_resources_query [OF this] show ?thesis by blast
qed

text \<open>Sample inputs: a glob library for three patterns, a policy with an exact and a
  wildcard rule, and operations on the table they cover.\<close>

definition sample_env :: policy_env where
  "sample_env = \<lparr>env_glob = (\<lambda>p. if p = ''public.*'' then Some (\<lambda>t. starts_with t ''public.'')
       else if p = ''['' then None else Some (\<lambda>t. t = p)),
     env_parse_sql = sample_parse, env_json_from_str = (\<lambda>_. None)\<rparr>"

definition sample_rule :: "string \<Rightarrow> bool \<Rightarrow> bool \<Rightarrow> ResourceRule" where
  "sample_rule pattern readable writable =
     \<lparr>rule_pattern = pattern, rule_allow_read = readable, rule_allow_insert = writable,
      rule_allow_update = writable, rule_allow_delete = writable, rule_masked_fields = [''ssn'']\<rparr>"

definition sample_policy :: ConnectionPolicy where
  "sample_policy = ConnectionPolicy_default
     \<lparr>pol_resources := [sample_rule ''public.*'' True False, sample_rule ''public.users'' True True]\<rparr>"

definition sample_update :: DataOperation where
  "sample_update = Op_Update \<lparr>upd_target = ''public.users'',
     upd_filter = F_And [F_Eq ''id'' (DbInt64 7)], upd_changes = [(''name'', DbString ''x'')],
     upd_max_affected = 1, upd_idempotency_key = Some ''k1''\<rparr>"

definition sample_read :: DataOperation where
  "sample_read = Op_Read \<lparr>rd_target = ''public.orders'', rd_fields = [], rd_filter = None,
     rd_options = QueryOptions_default\<rparr>"

lemma sample_update_confirm: "evaluate sample_env sample_policy sample_update = Inr Confirm"
  by code_simp



lemma sample_read_allow: "evaluate sample_env sample_policy sample_read = Inr Allow"
  by code_simp


text \<open>
  The rule that governs a target is the matching rule that is more specific than every
  matching rule declared before it and not less specific than any declared after it;
  there is none exactly when no rule matches. Where a rule whose pattern has no glob
  metacharacter matches, the rule that applies is an exact one.
\<close>

theorem matching_rule_most_specific:
  "(matching_resource_rule env policy target = Some rule \<longleftrightarrow>
      chosen env target (pol_resources policy) rule) \<and>
   (matching_resource_rule env policy target = None \<longleftrightarrow>
      (\<forall>r \<in> set (pol_resources policy). \<not> rule_matches env r target)) \<and>
   (\<forall>r \<in> set (pol_resources policy). rule_matches env r target \<longrightarrow>
      literal_pattern (rule_pattern r) \<longrightarrow> matching_resource_rule env policy target = Some rule
      \<longrightarrow> fst (rule_score rule))"
  using matching_rule_iff matching_rule_None exact_outranks_wildcard by blast

lemma sample_matching:
  "matching_resource_rule sample_env sample_policy ''public.users''
     = Some (sample_rule ''public.users'' True True)"
  by code_simp

theorem matching_rule_most_specific_witness:
  "chosen sample_env ''public.users'' (pol_resources sample_policy)
     (sample_rule ''public.users'' True True)"
  using matching_rule_most_specific [of sample_env sample_policy "''public.users''"
      "sample_rule ''public.users'' True True"] sample_matching by blast

text \<open>
  C8: when \<open>evaluate_sql_query\<close> returns resources, the connection is enabled and its egress
  unmasked, the statement is one query in a dialect of its language, every query in it
  is read-only, and every base relation it reads is readable under the most specific
  matching rule (or the policy has no rules).
\<close>

theorem sql_query_authorised:
  assumes "evaluate_sql_query env policy request = Inr resources"
  shows "pol_enabled policy \<and> pol_egress policy \<noteq> CloudAllowedMasked \<and>
    (\<exists>dialect semantics query.
       env_parse_sql env dialect (trim (nat_statement request)) = Some [Stmt_Query query] \<and>
       (\<forall>q. contained query q \<longrightarrow> query_read_only q) \<and>
       set resources = {r. reads semantics [] query r} \<and>
       (\<forall>r. reads semantics [] query r \<longrightarrow> pol_resources policy = [] \<or>
          (\<exists>rule. chosen env r (pol_resources policy) rule \<and> rule_allow_read rule)))"
proof -
  from assms have pol: "pol_enabled policy" "pol_egress policy \<noteq> CloudAllowedMasked"
    and res: "sql_query_resources (env_parse_sql env) request = Inr resources"
    and all: "\<forall>r \<in> set resources. sql_relation_allowed env policy r"
    by (auto simp: evaluate_sql_query_def find_None_iff res_simps split: if_splits option.splits)
  from sql_query_resources_query [OF res] obtain d sem q
    where q: "env_parse_sql env d (trim (nat_statement request)) = Some [Stmt_Query q]"
      "\<forall>q'. contained q q' \<longrightarrow> query_read_only q'" "set resources = {r. reads sem [] q r}"
    by blast
  have "\<forall>r. reads sem [] q r \<longrightarrow> pol_resources policy = [] \<or>
      (\<exists>rule. chosen env r (pol_resources policy) rule \<and> rule_allow_read rule)"
    using all q(3) by (auto simp: sql_relation_allowed_def simp flip: matching_rule_iff
        split: option.splits)
  with pol q show ?thesis by blast
qed

lemma sample_sql_ok:
  "evaluate_sql_query sample_env sample_policy sample_request
     = Inr [''public.orders'', ''public.users'']"
  by code_simp

theorem sql_query_authorised_witness:
  "evaluate_sql_query sample_env sample_policy sample_request
     = Inr [''public.orders'', ''public.users''] \<and> pol_egress sample_policy \<noteq> CloudAllowedMasked"
  using sample_sql_ok sql_query_authorised [OF sample_sql_ok] by blast

end
