(* ===== verification/Store_Error.thy ===== *)
theory Store_Error
  imports Core_Types
begin

text \<open>
  \<open>crates/connector-store/src/lib.rs\<close>: the error type the three stores share. The SQLite
  tables are kept as the rows they hold, and a \<open>ConnectionId\<close> key stands for its text,
  which determines it. A statement or transaction SQLite itself fails
  (\<open>Database\<close>) leaves its tables as they were, so such failures are no step of the model.
\<close>

datatype StoreError =
    Store_Database string
  | Store_Serialization string
  | Store_Credential string
  | Store_NotFound
  | Store_InvalidProfile string
  | Store_InvalidIdempotencyRecord string

end
