(* ===== verification/Runtime_Rules.thy ===== *)
theory Runtime_Rules
  imports Capability Policy_Engine Store_Error "HOL-Library.Sublist"
begin

text \<open>
  The functions of \<open>crates/connector-runtime/src/runtime.rs\<close> that keep no state: which MCP
  tool may carry which operation, the decision for an MCP call, field masking, the row and
  byte limits on results, and what metadata a policy shows. The lengths of JSON encodings
  (\<open>serde_json::to_vec(..).len()\<close>) are parameters.
\<close>

datatype RuntimeError =
    RT_Store StoreError
  | RT_Policy PolicyError
  | RT_Connector ConnectorError
  | RT_ConnectorNotFound Product string
  | RT_DuplicateConnector Product string
  | RT_Timeout
  | RT_Serialization string
  | RT_InvalidRequest string

section \<open>Tools and operations\<close>

fun capability_name :: "Capability \<Rightarrow> string" where
  "capability_name Cap_TestConnection = ''test_connection''"
| "capability_name Cap_Discover = ''discover''"
| "capability_name Cap_Describe = ''describe''"
| "capability_name Cap_Read = ''read''"
| "capability_name Cap_Insert = ''insert''"
| "capability_name Cap_Upsert = ''upsert''"
| "capability_name Cap_Update = ''update''"
| "capability_name Cap_Delete = ''delete''"
| "capability_name Cap_Batch = ''batch''"
| "capability_name Cap_Transactions = ''transactions''"
| "capability_name Cap_NativeQuery = ''native_query''"
| "capability_name Cap_NativeExecute = ''native_execute''"
| "capability_name Cap_TextSearch = ''text_search''"
| "capability_name Cap_VectorSearch = ''vector_search''"
| "capability_name Cap_TimeSeriesQuery = ''time_series_query''"
| "capability_name Cap_TimeSeriesWrite = ''time_series_write''"
| "capability_name Cap_Explain = ''explain''"
| "capability_name Cap_AsyncJobs = ''async_jobs''"

fun route_matches_operation :: "Capability \<Rightarrow> DataOperation \<Rightarrow> bool" where
  "route_matches_operation c (Op_Read _) = (c = Cap_Read)"
| "route_matches_operation c (Op_Insert _) = (c = Cap_Insert)"
| "route_matches_operation c (Op_Update _) = (c = Cap_Update)"
| "route_matches_operation c (Op_Delete _) = (c = Cap_Delete)"
| "route_matches_operation c (Op_NativeQuery _) = (c \<in> {Cap_NativeQuery, Cap_TimeSeriesQuery})"
| "route_matches_operation c (Op_NativeExecute _) = (c = Cap_NativeExecute)"
| "route_matches_operation c (Op_Search _) = (c = Cap_TextSearch)"
| "route_matches_operation c (Op_VectorSearch _) = (c = Cap_VectorSearch)"
| "route_matches_operation c (Op_VectorUpsert _) = (c = Cap_Upsert)"
| "route_matches_operation c (Op_TimeSeriesWrite _) = (c = Cap_TimeSeriesWrite)"

fun operation_name :: "DataOperation \<Rightarrow> string" where
  "operation_name (Op_Read _) = ''read''"
| "operation_name (Op_Insert _) = ''insert''"
| "operation_name (Op_Update _) = ''update''"
| "operation_name (Op_Delete _) = ''delete''"
| "operation_name (Op_NativeQuery _) = ''native_query''"
| "operation_name (Op_NativeExecute _) = ''native_execute''"
| "operation_name (Op_Search _) = ''text_search''"
| "operation_name (Op_VectorSearch _) = ''vector_search''"
| "operation_name (Op_VectorUpsert _) = ''upsert''"
| "operation_name (Op_TimeSeriesWrite _) = ''time_series_write''"

definition validate_allowed_tools ::
  "ConnectorDescriptor \<Rightarrow> string \<Rightarrow> string \<Rightarrow> string list \<Rightarrow> RuntimeError + unit" where
  "validate_allowed_tools descriptor name tool allowed_tools =
     (if tool \<in> set allowed_tools then Inr ()
      else if allowed_tools = [] then
        Inl (RT_InvalidRequest (''connector `'' @ mf_id (ds_manifest descriptor)
          @ ''` does not expose `'' @ name @ ''` through MCP''))
      else Inl (RT_InvalidRequest (''tool `'' @ tool @ ''` cannot execute `'' @ name
          @ ''` for connector `'' @ mf_id (ds_manifest descriptor) @ ''`; use ''
          @ join '', '' allowed_tools)))"

definition validate_mcp_tool ::
  "ConnectorDescriptor \<Rightarrow> DataOperation \<Rightarrow> string \<Rightarrow> RuntimeError + unit" where
  "validate_mcp_tool descriptor operation tool =
     validate_allowed_tools descriptor (operation_name operation) tool
       (map route_tool (filter (\<lambda>route. route_matches_operation (route_capability route) operation)
         (ds_mcp_tools descriptor)))"

definition validate_capability_tool ::
  "ConnectorDescriptor \<Rightarrow> Capability \<Rightarrow> string \<Rightarrow> RuntimeError + unit" where
  "validate_capability_tool descriptor capability tool =
     validate_allowed_tools descriptor (capability_name capability) tool
       (map route_tool (filter (\<lambda>route. route_capability route = capability) (ds_mcp_tools descriptor)))"

definition runtime_operation_target :: "DataOperation \<Rightarrow> string \<Rightarrow> string option" where
  "runtime_operation_target operation tool =
     (if tool = ''timeseries_query'' \<and> (case operation of Op_NativeQuery _ \<Rightarrow> True | _ \<Rightarrow> False)
      then Some TIME_SERIES_QUERY_POLICY_TARGET
      else case operation of
        Op_Read request \<Rightarrow> Some (rd_target request)
      | Op_Insert request \<Rightarrow> Some (ins_target request)
      | Op_Update request \<Rightarrow> Some (upd_target request)
      | Op_Delete request \<Rightarrow> Some (del_target request)
      | Op_NativeQuery _ \<Rightarrow> None
      | Op_NativeExecute _ \<Rightarrow> None
      | Op_Search request \<Rightarrow> Some (se_target request)
      | Op_VectorSearch request \<Rightarrow> Some (vs_target request)
      | Op_VectorUpsert request \<Rightarrow> Some (vu_target request)
      | Op_TimeSeriesWrite request \<Rightarrow> Some (tw_target request))"

fun decision_name :: "PolicyDecision \<Rightarrow> string" where
  "decision_name Allow = ''allow''"
| "decision_name Confirm = ''confirm''"
| "decision_name Deny = ''deny''"

fun policy_error_category :: "PolicyError \<Rightarrow> ErrorCategory" where
  "policy_error_category (InvalidOperation _) = Cat_InvalidRequest"
| "policy_error_category (Serialization _) = Cat_Internal"
| "policy_error_category (Denied _) = Cat_PermissionDenied"
| "policy_error_category ConfirmationRequired = Cat_PermissionDenied"
| "policy_error_category (InvalidGrant _) = Cat_PermissionDenied"
| "policy_error_category Expired = Cat_PermissionDenied"
| "policy_error_category Replayed = Cat_PermissionDenied"
| "policy_error_category (GrantMismatch _) = Cat_PermissionDenied"

fun runtime_error_category :: "RuntimeError \<Rightarrow> ErrorCategory" where
  "runtime_error_category (RT_Connector error) = ce_category error"
| "runtime_error_category (RT_Policy error) = policy_error_category error"
| "runtime_error_category RT_Timeout = Cat_Timeout"
| "runtime_error_category (RT_InvalidRequest _) = Cat_InvalidRequest"
| "runtime_error_category (RT_Store _) = Cat_Internal"
| "runtime_error_category (RT_ConnectorNotFound _ _) = Cat_Internal"
| "runtime_error_category (RT_DuplicateConnector _ _) = Cat_Internal"
| "runtime_error_category (RT_Serialization _) = Cat_Internal"

section \<open>The decision for an MCP call\<close>

definition is_native_query :: "DataOperation \<Rightarrow> bool" where
  "is_native_query operation = (case operation of Op_NativeQuery _ \<Rightarrow> True | _ \<Rightarrow> False)"

definition evaluate_time_series ::
  "policy_env \<Rightarrow> ConnectionPolicy \<Rightarrow> DataOperation \<Rightarrow> PolicyError + PolicyDecision" where
  "evaluate_time_series env policy operation =
     (if \<not> pol_allow_time_series_query policy then Inr Deny
      else
        let validation_policy = policy\<lparr>pol_egress := LocalOnly, pol_allow_native_read := True\<rparr> in
        bind_res (evaluate env validation_policy operation) (\<lambda>decision.
        if decision \<noteq> Allow then Inr Deny
        else if pol_egress policy = CloudAllowedMasked then
          Inr (case matching_resource_rule env policy TIME_SERIES_QUERY_POLICY_TARGET of
                 None \<Rightarrow> Deny
               | Some rule \<Rightarrow> if rule_allow_read rule then Allow else Deny)
        else Inr Allow))"

definition evaluate_mcp_policy ::
  "policy_env \<Rightarrow> ConnectionPolicy \<Rightarrow> DataOperation \<Rightarrow> string \<Rightarrow> PolicyError + PolicyDecision" where
  "evaluate_mcp_policy env policy operation tool =
     (if tool = ''sql_query'' \<and> is_native_query operation then
        (case operation of
           Op_NativeQuery request \<Rightarrow> bind_res (evaluate_sql_query env policy request) (\<lambda>_. Inr Allow)
         | _ \<Rightarrow> evaluate env policy operation)
      else if tool = ''timeseries_query'' \<and> is_native_query operation then
        evaluate_time_series env policy operation
      else evaluate env policy operation)"

definition policy_denial_reason :: "ConnectionPolicy \<Rightarrow> Action \<Rightarrow> string \<Rightarrow> string" where
  "policy_denial_reason policy action tool =
     (if \<not> pol_enabled policy then ''the connection is disabled by its policy''
      else if action = Action_NativeRead \<and> tool = ''sql_query'' then
        (if pol_egress policy = CloudAllowedMasked
         then ''policy-scoped SQL queries are unavailable with `cloud_allowed_masked`''
         else ''one or more SQL relations are denied by the connection read policy'')
      else if action = Action_NativeRead \<and> tool = ''timeseries_query'' then
        (if pol_allow_time_series_query policy
         then ''the time-series query is denied by the connection resource or egress policy''
         else ''time-series queries are disabled by the connection policy'')
      else if action = Action_NativeRead \<and> pol_egress policy = CloudAllowedMasked then
        ''native read queries are unavailable with `cloud_allowed_masked`; choose a compatible egress mode and enable `allow_native_read`''
      else if action = Action_NativeRead \<and> \<not> pol_allow_native_read policy then
        ''native read queries are disabled; enable `allow_native_read` in this connection's policy''
      else if action = Action_NativeWrite \<and> \<not> pol_allow_native_write policy then
        ''native write commands are disabled by the connection policy''
      else ''operation is not permitted by the connection policy'')"

fun rule_allows :: "Action \<Rightarrow> ResourceRule \<Rightarrow> bool" where
  "rule_allows Action_Metadata rule = rule_allow_read rule"
| "rule_allows Action_Read rule = rule_allow_read rule"
| "rule_allows Action_NativeRead rule = rule_allow_read rule"
| "rule_allows Action_Insert rule = rule_allow_insert rule"
| "rule_allows Action_Update rule = rule_allow_update rule"
| "rule_allows Action_Delete rule = rule_allow_delete rule"
| "rule_allows Action_NativeWrite rule = False"

definition any_resource_allows :: "ConnectionPolicy \<Rightarrow> Action \<Rightarrow> bool" where
  "any_resource_allows policy action = list_ex (rule_allows action) (pol_resources policy)"

definition effective_tool_unavailable_reason ::
  "ConnectionPolicy \<Rightarrow> McpToolRoute \<Rightarrow> string option" where
  "effective_tool_unavailable_reason policy route =
     (let tool = route_tool route in
      if tool = ''native_query'' \<and> \<not> pol_allow_native_read policy then
        Some ''native read queries are disabled by the connection policy''
      else if tool \<in> {''native_query'', ''sql_query''} \<and> pol_egress policy = CloudAllowedMasked then
        Some ''this query tool cannot apply field masking safely''
      else if tool = ''native_execute'' \<and> \<not> pol_allow_native_write policy then
        Some ''native write commands are disabled by the connection policy''
      else if tool = ''timeseries_query'' \<and> \<not> pol_allow_time_series_query policy then
        Some ''time-series queries are disabled by the connection policy''
      else if tool \<in> {''sql_query'', ''sql_read'', ''document_find'', ''kv_read'', ''search_query'',
          ''search_document_read'', ''vector_fetch'', ''vector_search''}
          \<and> pol_resources policy \<noteq> [] \<and> \<not> any_resource_allows policy Action_Read then
        Some ''no connection resource allows reads''
      else if tool \<in> {''sql_insert'', ''document_insert'', ''kv_put'', ''search_document_upsert'',
          ''event_ingest'', ''vector_insert'', ''vector_upsert'', ''timeseries_write''}
          \<and> \<not> any_resource_allows policy Action_Insert then
        Some ''no connection resource allows inserts''
      else if tool \<in> {''sql_update'', ''document_update'', ''kv_update'', ''search_document_update''}
          \<and> \<not> any_resource_allows policy Action_Update then
        Some ''no connection resource allows updates''
      else if tool \<in> {''sql_delete'', ''document_delete'', ''kv_delete'', ''search_document_delete'',
          ''vector_delete''} \<and> \<not> any_resource_allows policy Action_Delete then
        Some ''no connection resource allows deletes''
      else None)"

definition effective_mcp_tool :: "ConnectionPolicy \<Rightarrow> McpToolRoute \<Rightarrow> EffectiveMcpTool" where
  "effective_mcp_tool policy route =
     (let unavailable_reason =
        (if pol_enabled policy then effective_tool_unavailable_reason policy route
         else Some ''the connection is disabled'') in
      \<lparr>et_capability = route_capability route, et_tool = route_tool route,
       et_available = (unavailable_reason = None), et_unavailable_reason = unavailable_reason\<rparr>)"

section \<open>Masking\<close>

definition masked_text :: DbValue where
  "masked_text = DbString ''[MASKED]''"

text \<open>\<open>*record.get_mut(key) = value\<close>.\<close>

definition bt_set :: "'k \<Rightarrow> 'v \<Rightarrow> ('k \<times> 'v) list \<Rightarrow> ('k \<times> 'v) list" where
  "bt_set k v m = map (\<lambda>(k', v'). if k' = k then (k', v) else (k', v')) m"

function (sequential) mask_record_field :: "DbRecord \<Rightarrow> string \<Rightarrow> DbRecord"
  and mask_nested_value :: "DbValue \<Rightarrow> string \<Rightarrow> DbValue"
  and mask_nested_values :: "DbValue list \<Rightarrow> string \<Rightarrow> DbValue list" where
  "mask_record_field record path =
     (case bt_get record path of
        Some _ \<Rightarrow> bt_set path masked_text record
      | None \<Rightarrow>
          (case split_once (CHR ''.'') path of
             None \<Rightarrow> record
           | Some (field, nested_path) \<Rightarrow>
               (case bt_get record field of
                  None \<Rightarrow> record
                | Some v \<Rightarrow> bt_set field (mask_nested_value v nested_path) record)))"
| "mask_nested_value (DbDocument document) path = DbDocument (mask_record_field document path)"
| "mask_nested_value (DbArray vs) path = DbArray (mask_nested_values vs path)"
| "mask_nested_value v path = v"
| "mask_nested_values [] path = []"
| "mask_nested_values (v # vs) path = mask_nested_value v path # mask_nested_values vs path"
  by pat_completeness auto

termination
  by (relation "inv_image (less_than <*lex*> less_than) (\<lambda>x. case x of
        Inl (record, path) \<Rightarrow> (length path, size_list (size_prod (\<lambda>_. 0) size) record)
      | Inr (Inl (v, path)) \<Rightarrow> (length path, size v)
      | Inr (Inr (vs, path)) \<Rightarrow> (length path, size_list size vs))")
    (auto dest: split_once_length)

declare mask_record_field.simps [simp del]

section \<open>Limits on results\<close>

text \<open>Lengths of encodings; an \<open>Inl\<close> is the text of a serialization error.\<close>

record size_env =
  sz_records :: "DbRecord list \<Rightarrow> string + nat"
  sz_result :: "OperationResult \<Rightarrow> string + nat"
  sz_entities :: "CatalogEntity list \<Rightarrow> string + nat"
  sz_description :: "EntityDescription \<Rightarrow> string + nat"

definition masked_fields_for ::
  "policy_env \<Rightarrow> ConnectionPolicy \<Rightarrow> string option \<Rightarrow> string list option" where
  "masked_fields_for env policy target =
     map_option rule_masked_fields (Option.bind target (matching_resource_rule env policy))"

definition mask_record :: "string list \<Rightarrow> DbRecord \<Rightarrow> DbRecord" where
  "mask_record paths record = fold (\<lambda>path r. mask_record_field r path) paths record"

definition result_too_large :: "string \<Rightarrow> RuntimeError" where
  "result_too_large message =
     RT_Connector (with_code ''result_too_large'' (ConnectorError_new Cat_InvalidRequest message))"

text \<open>The metrics of the records that are left: the first statements of the loop body.\<close>

definition count_metrics :: "size_env \<Rightarrow> OperationResult \<Rightarrow> RuntimeError + OperationResult" where
  "count_metrics sz r =
     (let r = r\<lparr>or_metrics := (or_metrics r)\<lparr>rm_returned := word_of_nat (length (or_records r))\<rparr>\<rparr> in
      if rm_bytes (or_metrics r) \<noteq> None then
        bind_res (map_err RT_Serialization (sz_records sz (or_records r))) (\<lambda>n.
        Inr (r\<lparr>or_metrics := (or_metrics r)\<lparr>rm_bytes := Some (word_of_nat n)\<rparr>\<rparr>))
      else Inr r)"

lemma count_metrics_records:
  "count_metrics sz r = Inr r' \<Longrightarrow> or_records r' = or_records r \<and> or_next_cursor r' = or_next_cursor r
     \<and> or_truncated r' = or_truncated r \<and> or_warnings r' = or_warnings r
     \<and> rm_returned (or_metrics r') = word_of_nat (length (or_records r))"
  by (auto simp: count_metrics_def Let_def res_simps split: if_splits)

function fit_bytes :: "size_env \<Rightarrow> u64 \<Rightarrow> OperationResult \<Rightarrow> RuntimeError + OperationResult" where
  "fit_bytes sz max_bytes r =
     (case count_metrics sz r of
        Inl e \<Rightarrow> Inl e
      | Inr r' \<Rightarrow>
          (case sz_result sz r' of
             Inl e \<Rightarrow> Inl (RT_Serialization e)
           | Inr n \<Rightarrow>
               if n \<le> unat max_bytes then Inr r'
               else if or_next_cursor r' \<noteq> None then
                 Inl (result_too_large ''result exceeds the connection byte limit and cannot be safely truncated without invalidating its cursor'')
               else if or_records r' = [] then
                 Inl (result_too_large ''result metadata exceeds the connection byte limit'')
               else if length (or_records r') = 1 then
                 Inl (result_too_large ''first result row exceeds the connection byte limit'')
               else fit_bytes sz max_bytes
                 (r'\<lparr>or_records := butlast (or_records r'), or_truncated := True\<rparr>)))"
  by pat_completeness auto

termination
  by (relation "measure (\<lambda>(sz, m, r). length (or_records r))") (auto dest!: count_metrics_records)

declare fit_bytes.simps [simp del]

definition truncate_rows :: "ConnectionPolicy \<Rightarrow> OperationResult \<Rightarrow> OperationResult" where
  "truncate_rows policy r =
     (let kept = take (unat (pol_max_rows policy)) (or_records r) in
      if length kept < length (or_records r) then
        r\<lparr>or_records := kept, or_truncated := True,
          or_warnings := or_warnings r @ [''result was truncated by the connection row limit'']\<rparr>
      else r\<lparr>or_records := kept\<rparr>)"

definition enforce_result_limits_and_masking ::
  "policy_env \<Rightarrow> size_env \<Rightarrow> ConnectionProfile \<Rightarrow> string option \<Rightarrow> OperationResult
     \<Rightarrow> RuntimeError + OperationResult" where
  "enforce_result_limits_and_masking env sz profile target r =
     (let r = truncate_rows (pr_policy profile) r;
          r = (case masked_fields_for env (pr_policy profile) target of
                 Some masked_fields \<Rightarrow>
                   if pol_egress (pr_policy profile) = CloudAllowedMasked
                   then r\<lparr>or_records := map (mask_record masked_fields) (or_records r)\<rparr> else r
               | None \<Rightarrow> r) in
      fit_bytes sz (pol_max_bytes (pr_policy profile)) r)"

definition enforce_catalog_limits ::
  "size_env \<Rightarrow> ConnectionProfile \<Rightarrow> CatalogEntity list \<Rightarrow> ConnectorError + CatalogEntity list" where
  "enforce_catalog_limits sz profile entities =
     (let entities = take (unat (pol_max_rows (pr_policy profile))) entities in
      bind_res (map_err (\<lambda>error. ConnectorError_new Cat_Internal
          (''catalog result could not be serialized: '' @ error)) (sz_entities sz entities)) (\<lambda>n.
      if n > unat (pol_max_bytes (pr_policy profile)) then
        Inl (ConnectorError_new Cat_InvalidRequest
          ''catalog result exceeds the connection byte limit; reduce the catalog limit or narrow the pattern'')
      else Inr entities))"

section \<open>Visible metadata\<close>

definition is_parent :: "string \<Rightarrow> string \<Rightarrow> bool" where
  "is_parent parent child =
     (case strip_prefix child parent of
        None \<Rightarrow> False
      | Some [] \<Rightarrow> False
      | Some (c # _) \<Rightarrow> c = CHR ''.'' \<or> c = CHR ''/'' \<or> c = CHR '':'')"

definition metadata_visible :: "policy_env \<Rightarrow> ConnectionPolicy \<Rightarrow> string \<Rightarrow> bool" where
  "metadata_visible env policy target =
     (if \<not> pol_enabled policy then False
      else case matching_resource_rule env policy target of
        Some rule \<Rightarrow> rule_allow_read rule
      | None \<Rightarrow>
          if pol_resources policy = [] then True
          else list_ex (\<lambda>rule. rule_allow_read rule
            \<and> (is_parent target (rule_pattern rule) \<or> is_parent (rule_pattern rule) target))
            (pol_resources policy))"

definition relationship_visible :: "policy_env \<Rightarrow> ConnectionPolicy \<Rightarrow> DbValue \<Rightarrow> bool" where
  "relationship_visible env policy foreign_key =
     (case foreign_key of
        DbDocument document \<Rightarrow>
          (case bt_get document ''referenced_entity'' of
             Some (DbString referenced_entity) \<Rightarrow> metadata_visible env policy referenced_entity
           | _ \<Rightarrow> False)
      | _ \<Rightarrow> False)"

definition filter_invisible_relationships ::
  "policy_env \<Rightarrow> ConnectionPolicy \<Rightarrow> EntityDescription \<Rightarrow> EntityDescription" where
  "filter_invisible_relationships env policy description =
     (case bt_get (ed_metadata description) ''foreign_keys'' of
        Some (DbArray foreign_keys) \<Rightarrow>
          description\<lparr>ed_metadata := bt_set ''foreign_keys''
            (DbArray (filter (relationship_visible env policy) foreign_keys)) (ed_metadata description)\<rparr>
      | _ \<Rightarrow> description)"

definition DESCRIPTION_MAX_ROWS_WARNING :: string where
  "DESCRIPTION_MAX_ROWS_WARNING = ''entity fields were truncated by the connection max_rows limit''"

definition DESCRIPTION_MAX_BYTES_WARNING :: string where
  "DESCRIPTION_MAX_BYTES_WARNING = ''entity fields were truncated by the connection max_bytes limit''"

definition mark_description_truncated :: "EntityDescription \<Rightarrow> string \<Rightarrow> EntityDescription" where
  "mark_description_truncated description warning =
     description\<lparr>ed_truncated := True,
       ed_warnings := (if warning \<in> set (ed_warnings description) then ed_warnings description
         else ed_warnings description @ [warning])\<rparr>"

lemma mark_description_fields [simp]:
  "ed_fields (mark_description_truncated d w) = ed_fields d"
  "ed_metadata (mark_description_truncated d w) = ed_metadata d"
  "ed_entity (mark_description_truncated d w) = ed_entity d"
  by (simp_all add: mark_description_truncated_def)

function fit_description ::
  "size_env \<Rightarrow> u64 \<Rightarrow> EntityDescription \<Rightarrow> ConnectorError + EntityDescription" where
  "fit_description sz max_bytes description =
     (case sz_description sz description of
        Inl e \<Rightarrow> Inl (ConnectorError_new Cat_Internal
          (''entity description could not be serialized: '' @ e))
      | Inr n \<Rightarrow>
          if n > unat max_bytes then
            if ed_fields description = [] then
              Inl (ConnectorError_new Cat_InvalidRequest
                ''entity description metadata exceeds the connection byte limit'')
            else fit_description sz max_bytes (mark_description_truncated
              (description\<lparr>ed_fields := butlast (ed_fields description)\<rparr>) DESCRIPTION_MAX_BYTES_WARNING)
          else Inr description)"
  by pat_completeness auto

termination
  by (relation "measure (\<lambda>(sz, m, d). length (ed_fields d))") auto

declare fit_description.simps [simp del]

definition enforce_description_limits ::
  "size_env \<Rightarrow> ConnectionProfile \<Rightarrow> EntityDescription \<Rightarrow> ConnectorError + EntityDescription" where
  "enforce_description_limits sz profile description =
     (let max_fields = unat (pol_max_rows (pr_policy profile));
          description =
            (if length (ed_fields description) > max_fields then
               mark_description_truncated
                 (description\<lparr>ed_fields := take max_fields (ed_fields description)\<rparr>)
                 DESCRIPTION_MAX_ROWS_WARNING
             else description) in
      fit_description sz (pol_max_bytes (pr_policy profile)) description)"

section \<open>What is returned\<close>

lemma fit_bytes_Inr:
  "fit_bytes sz m r = Inr r' \<Longrightarrow>
     (\<exists>n. sz_result sz r' = Inr n \<and> n \<le> unat m) \<and> prefix (or_records r') (or_records r) \<and>
     or_next_cursor r' = or_next_cursor r \<and> or_warnings r' = or_warnings r \<and>
     rm_returned (or_metrics r') = word_of_nat (length (or_records r')) \<and>
     (or_truncated r' \<longleftrightarrow> or_truncated r \<or> length (or_records r') < length (or_records r)) \<and>
     (or_next_cursor r \<noteq> None \<longrightarrow> or_records r' = or_records r)"
proof (induction sz m r rule: fit_bytes.induct)
  case (1 sz m r)
  from "1.prems" obtain r1 n where r1: "count_metrics sz r = Inr r1" and n: "sz_result sz r1 = Inr n"
    by (subst (asm) fit_bytes.simps) (auto split: sum.splits)
  note same = count_metrics_records [OF r1]
  show ?case
  proof (cases "n \<le> unat m")
    case True
    with "1.prems" r1 n have "r' = r1" by (subst (asm) fit_bytes.simps) simp
    with True n same show ?thesis by auto
  next
    case False
    with "1.prems" r1 n have *: "or_next_cursor r1 = None" "or_records r1 \<noteq> []"
        "length (or_records r1) \<noteq> 1"
      and rec: "fit_bytes sz m (r1\<lparr>or_records := butlast (or_records r1), or_truncated := True\<rparr>) = Inr r'"
      by (subst (asm) fit_bytes.simps; simp split: if_splits)+
    from "1.IH" [OF r1 n] False * rec
    have ih: "(\<exists>n. sz_result sz r' = Inr n \<and> n \<le> unat m)"
        "prefix (or_records r') (butlast (or_records r1))" "or_next_cursor r' = None"
        "or_warnings r' = or_warnings r1"
        "rm_returned (or_metrics r') = word_of_nat (length (or_records r'))" "or_truncated r'"
      by auto
    have short: "length (or_records r') < length (or_records r1)"
      using prefix_length_le [OF ih(2)] *(2) by (simp add: Suc_le_eq flip: length_greater_0_conv)
    have "prefix (or_records r') (or_records r1)"
      using ih(2) prefixeq_butlast prefix_order.trans by blast
    with ih short same * show ?thesis by auto
  qed
qed

section \<open>What masking hides\<close>

text \<open>The values a field path of a record denotes: the field of that very name, or, past the
  first dot, the fields inside a document or inside every element of an array.\<close>

function (sequential) values_at :: "DbRecord \<Rightarrow> string \<Rightarrow> DbValue list"
  and nested_values_at :: "DbValue \<Rightarrow> string \<Rightarrow> DbValue list"
  and list_values_at :: "DbValue list \<Rightarrow> string \<Rightarrow> DbValue list" where
  "values_at record path =
     (case bt_get record path of
        Some v \<Rightarrow> [v]
      | None \<Rightarrow>
          (case split_once (CHR ''.'') path of
             None \<Rightarrow> []
           | Some (field, nested_path) \<Rightarrow>
               (case bt_get record field of
                  None \<Rightarrow> []
                | Some v \<Rightarrow> nested_values_at v nested_path)))"
| "nested_values_at (DbDocument document) path = values_at document path"
| "nested_values_at (DbArray vs) path = list_values_at vs path"
| "nested_values_at v path = []"
| "list_values_at [] path = []"
| "list_values_at (v # vs) path = nested_values_at v path @ list_values_at vs path"
  by pat_completeness auto

termination
  by (relation "inv_image (less_than <*lex*> less_than) (\<lambda>x. case x of
        Inl (record, path) \<Rightarrow> (length path, size_list (size_prod (\<lambda>_. 0) size) record)
      | Inr (Inl (v, path)) \<Rightarrow> (length path, size v)
      | Inr (Inr (vs, path)) \<Rightarrow> (length path, size_list size vs))")
    (auto dest: split_once_length)

declare values_at.simps [simp del]

lemma bt_get_set: "bt_get (bt_set k v m) k' = (if k' = k \<and> bt_get m k \<noteq> None then Some v else bt_get m k')"
  by (induction m) (auto simp: bt_get_def bt_set_def)

text \<open>What masking one path does to the value of one field.\<close>

lemma mask_record_field_get:
  obtains (kept) "bt_get (mask_record_field r q) k = bt_get r k"
  | (masked) "bt_get r k \<noteq> None" "bt_get (mask_record_field r q) k = Some masked_text"
  | (inside) v n where "bt_get r k = Some v" "bt_get (mask_record_field r q) k = Some (mask_nested_value v n)"
proof -
  consider "bt_get r q \<noteq> None"
    | "bt_get r q = None" "mask_record_field r q = r"
    | f n v where "bt_get r q = None" "split_once (CHR ''.'') q = Some (f, n)" "bt_get r f = Some v"
    by (cases "bt_get r q"; cases "split_once (CHR ''.'') q"; cases "bt_get r (fst (the (split_once (CHR ''.'') q)))")
      (auto simp: mask_record_field.simps)
  then show ?thesis
  proof cases
    case 1
    then show ?thesis using kept masked
      by (cases "k = q") (auto simp: mask_record_field.simps bt_get_set)
  next
    case 2
    then show ?thesis using kept by simp
  next
    case (3 f n v)
    then show ?thesis using kept inside
      by (cases "k = f") (auto simp: mask_record_field.simps bt_get_set)
  qed
qed

lemma mask_nested_masked [simp]: "mask_nested_value masked_text n = masked_text"
  "nested_values_at masked_text n = []"
  by (simp_all add: masked_text_def)

definition all_masked :: "DbValue list \<Rightarrow> bool" where
  "all_masked vs \<longleftrightarrow> (\<forall>v \<in> set vs. v = masked_text)"

lemma all_masked_simps [simp]:
  "all_masked []" "all_masked (v # vs) \<longleftrightarrow> v = masked_text \<and> all_masked vs"
  "all_masked (vs @ ws) \<longleftrightarrow> all_masked vs \<and> all_masked ws"
  by (auto simp: all_masked_def)

text \<open>Masking a path masks everything it denotes, and masking another path reveals nothing.\<close>

lemma mask_hides:
  "all_masked (values_at (mask_record_field r p) p)"
  "all_masked (nested_values_at (mask_nested_value v p) p)"
  "all_masked (list_values_at (mask_nested_values vs p) p)"
proof (induction r p and v p and vs p rule: mask_record_field_mask_nested_value_mask_nested_values.induct)
  case (1 r p)
  show ?case
  proof (cases "bt_get r p")
    case (Some v)
    then show ?thesis by (simp add: mask_record_field.simps values_at.simps bt_get_set)
  next
    case None
    show ?thesis
    proof (cases "split_once (CHR ''.'') p")
      case None': None
      with None show ?thesis by (simp add: mask_record_field.simps values_at.simps)
    next
      case (Some fn)
      obtain f n where fn: "fn = (f, n)" by (cases fn)
      with Some None "1.IH" show ?thesis
        by (cases "bt_get r f") (auto simp: mask_record_field.simps values_at.simps bt_get_set)
    qed
  qed
qed simp_all

lemma mask_keeps_hidden:
  "all_masked (values_at r p) \<Longrightarrow> all_masked (values_at (mask_record_field r q) p)"
  "all_masked (nested_values_at v p) \<Longrightarrow> all_masked (nested_values_at (mask_nested_value v q) p)"
  "all_masked (list_values_at vs p) \<Longrightarrow> all_masked (list_values_at (mask_nested_values vs q) p)"
proof (induction r p and v p and vs p arbitrary: q and q and q
    rule: values_at_nested_values_at_list_values_at.induct)
  case (1 r p)
  show ?case
  proof (cases "bt_get r p")
    case (Some v)
    with "1.prems" have "v = masked_text" by (simp add: values_at.simps)
    with Some show ?thesis
      by (cases rule: mask_record_field_get [of r q p]) (auto simp: values_at.simps)
  next
    case None
    then have none: "bt_get (mask_record_field r q) p = None"
      by (cases rule: mask_record_field_get [of r q p]) auto
    show ?thesis
    proof (cases "split_once (CHR ''.'') p")
      case None': None
      with none show ?thesis by (simp add: values_at.simps)
    next
      case (Some fn)
      obtain f n where fn: "fn = (f, n)" by (cases fn)
      note IH = "1.IH" [OF None Some fn [symmetric]]
      show ?thesis
      proof (cases rule: mask_record_field_get [of r q f])
        case kept
        with "1.prems" None none Some fn show ?thesis by (simp add: values_at.simps)
      next
        case masked
        with none Some fn show ?thesis by (simp add: values_at.simps)
      next
        case (inside v m)
        with "1.prems" None Some fn have "all_masked (nested_values_at v n)"
          by (simp add: values_at.simps)
        from IH [OF inside(1) this] inside none Some fn show ?thesis by (simp add: values_at.simps)
      qed
    qed
  qed
qed simp_all

lemma mask_record_hides:
  "path \<in> set paths \<or> all_masked (values_at r path) \<Longrightarrow> all_masked (values_at (mask_record paths r) path)"
proof (induction paths arbitrary: r)
  case (Cons q paths)
  have "path \<in> set paths \<or> all_masked (values_at (mask_record_field r q) path)"
    using Cons.prems mask_hides(1) mask_keeps_hidden(1) by auto
  from Cons.IH [OF this] show ?case by (simp add: mask_record_def)
qed (simp add: mask_record_def)

lemma bt_set_keys: "map fst (bt_set k v m) = map fst m"
  by (induction m) (auto simp: bt_set_def)

lemma mask_record_field_keys: "map fst (mask_record_field r q) = map fst r"
  by (simp add: mask_record_field.simps bt_set_keys split: option.splits)

lemma mask_record_keys: "map fst (mask_record paths r) = map fst r"
  by (induction paths arbitrary: r) (simp_all add: mask_record_def mask_record_field_keys)


section \<open>Decisions for MCP calls\<close>

lemma evaluate_mcp_Confirm:
  assumes "evaluate_mcp_policy env policy operation tool = Inr Confirm"
  shows "evaluate env policy operation = Inr Confirm"
proof -
  have "evaluate_time_series env policy operation \<noteq> Inr Confirm"
    by (auto simp: evaluate_time_series_def Let_def res_simps split: option.splits if_splits)
  with assms show ?thesis
    by (auto simp: evaluate_mcp_policy_def is_native_query_def res_simps
        split: if_splits DataOperation.splits)
qed

lemma evaluate_write_never_Allow:
  "classify operation \<in> write_actions \<Longrightarrow> evaluate env policy operation \<noteq> Inr Allow"
  by (auto simp: evaluate_Inr action_decision_def write_decision_def split: option.splits if_splits)

lemma evaluate_mcp_Allow:
  assumes "evaluate_mcp_policy env policy operation tool = Inr Allow"
  shows "classify operation \<in> {Action_Read, Action_NativeRead} \<and> pol_enabled policy"
proof -
  have ts: "evaluate_time_series env policy operation = Inr Allow \<Longrightarrow> pol_enabled policy"
    by (auto simp: evaluate_time_series_def Let_def res_simps evaluate_Inr split: if_splits)
  have sql: "evaluate_sql_query env policy request = Inr rs \<Longrightarrow> pol_enabled policy" for request rs
    by (auto simp: evaluate_sql_query_def split: if_splits)
  have plain: "evaluate env policy operation = Inr Allow \<Longrightarrow>
      classify operation \<in> {Action_Read, Action_NativeRead} \<and> pol_enabled policy"
    using evaluate_write_never_Allow [of operation env policy] classify_targets [of operation]
    by (cases "classify operation") (auto simp: evaluate_Inr simp del: classify.simps)
  have native: "is_native_query operation \<Longrightarrow> classify operation = Action_NativeRead"
    by (auto simp: is_native_query_def split: DataOperation.splits)
  from assms consider "evaluate env policy operation = Inr Allow"
    | "is_native_query operation" "evaluate_time_series env policy operation = Inr Allow"
    | request rs where "is_native_query operation" "evaluate_sql_query env policy request = Inr rs"
    by (auto simp: evaluate_mcp_policy_def res_simps split: if_splits DataOperation.splits)
  then show ?thesis using plain ts sql native by cases auto
qed

text \<open>
  Through whichever tool an operation comes, a write is at best told to confirm, and then
  the policy engine itself asks for confirmation; only reads are allowed outright, and
  only while the connection is enabled.
\<close>

theorem mcp_writes_need_confirmation:
  "(evaluate_mcp_policy env policy operation tool = Inr Confirm \<longrightarrow>
      evaluate env policy operation = Inr Confirm) \<and>
   (evaluate_mcp_policy env policy operation tool = Inr Allow \<longrightarrow>
      classify operation \<in> {Action_Read, Action_NativeRead} \<and> pol_enabled policy)"
  using evaluate_mcp_Confirm evaluate_mcp_Allow by blast

lemma sample_mcp_confirm:
  "evaluate_mcp_policy sample_env sample_policy sample_update ''sql_update'' = Inr Confirm"
  by code_simp

theorem mcp_writes_need_confirmation_witness:
  "evaluate sample_env sample_policy sample_update = Inr Confirm"
  using mcp_writes_need_confirmation [of sample_env sample_policy sample_update "''sql_update''"]
    sample_mcp_confirm by blast

section \<open>Advertised tools\<close>

text \<open>The tools that stand for a capability, among the routes of a descriptor.\<close>

fun tool_ok :: "Capability \<Rightarrow> string \<Rightarrow> bool" where
  "tool_ok Cap_Read t = (t \<in> {''sql_read'', ''document_find'', ''kv_read'', ''search_document_read'',
      ''vector_fetch''})"
| "tool_ok Cap_Insert t = (t \<in> {''sql_insert'', ''document_insert'', ''kv_put'',
      ''search_document_upsert'', ''event_ingest'', ''vector_insert''})"
| "tool_ok Cap_Update t = (t \<in> {''sql_update'', ''document_update'', ''kv_update'',
      ''search_document_update''})"
| "tool_ok Cap_Delete t = (t \<in> {''sql_delete'', ''document_delete'', ''kv_delete'',
      ''search_document_delete'', ''vector_delete''})"
| "tool_ok Cap_NativeQuery t = (t \<in> {''native_query'', ''sql_query''})"
| "tool_ok Cap_NativeExecute t = (t = ''native_execute'')"
| "tool_ok Cap_TextSearch t = (t = ''search_query'')"
| "tool_ok Cap_VectorSearch t = (t = ''vector_search'')"
| "tool_ok Cap_TimeSeriesQuery t = (t = ''timeseries_query'')"
| "tool_ok Cap_TimeSeriesWrite t = (t = ''timeseries_write'')"
| "tool_ok Cap_Upsert t = (t = ''vector_upsert'')"
| "tool_ok _ t = True"

definition pairs_ok :: "McpToolRoute list \<Rightarrow> bool" where
  "pairs_ok routes \<longleftrightarrow> (\<forall>r \<in> set routes. tool_ok (route_capability r) (route_tool r))"

lemma pairs_ok_append [simp]: "pairs_ok (xs @ ys) \<longleftrightarrow> pairs_ok xs \<and> pairs_ok ys" "pairs_ok []"
  "pairs_ok (x # ys) \<longleftrightarrow> tool_ok (route_capability x) (route_tool x) \<and> pairs_ok ys"
  by (auto simp: pairs_ok_def)

lemma pairs_ok_add_route:
  "pairs_ok rs \<Longrightarrow> t = [] \<or> tool_ok c t \<Longrightarrow> pairs_ok (add_tool_route rs m c t)"
  by (auto simp: add_tool_route_def)

lemma pairs_ok_add_routes:
  "pairs_ok rs \<Longrightarrow> list_all (\<lambda>(c, t). t = [] \<or> tool_ok c t) cts \<Longrightarrow> pairs_ok (add_tool_routes rs m cts)"
  by (induction rs m cts rule: add_tool_routes.induct) (simp_all add: pairs_ok_add_route)

lemma mcp_tool_routes_pairs: "pairs_ok (mcp_tool_routes m k)"
proof -
  have "list_all (\<lambda>(c, t). t = [] \<or> tool_ok c t)
      [(Cap_Read, fst (kind_tools k)), (Cap_Insert, fst (snd (kind_tools k))),
       (Cap_Update, fst (snd (snd (kind_tools k)))), (Cap_Delete, snd (snd (snd (kind_tools k))))]"
    by (cases k) simp_all
  then show ?thesis
    unfolding mcp_tool_routes_def Let_def case_prod_beta
    by (simp add: pairs_ok_add_routes pairs_ok_add_route)
qed

lemmas reason_def = effective_tool_unavailable_reason_def Let_def

lemma reason_read:
  assumes "effective_tool_unavailable_reason policy route = Some x"
    and "tool_ok Cap_Read (route_tool route) \<or> route_tool route \<in> {''search_query'', ''vector_search''}"
  shows "pol_resources policy \<noteq> [] \<and> \<not> any_resource_allows policy Action_Read"
  using assms unfolding tool_ok.simps
  by (elim disjE insertE emptyE; simp add: reason_def split: if_splits)

lemma reason_insert:
  assumes "effective_tool_unavailable_reason policy route = Some x"
    and "tool_ok Cap_Insert (route_tool route) \<or> route_tool route \<in> {''vector_upsert'', ''timeseries_write''}"
  shows "\<not> any_resource_allows policy Action_Insert"
  using assms unfolding tool_ok.simps
  by (elim disjE insertE emptyE; simp add: reason_def split: if_splits)

lemma reason_update:
  assumes "effective_tool_unavailable_reason policy route = Some x" "tool_ok Cap_Update (route_tool route)"
  shows "\<not> any_resource_allows policy Action_Update"
  using assms unfolding tool_ok.simps
  by (elim insertE emptyE; simp add: reason_def split: if_splits)

lemma reason_delete:
  assumes "effective_tool_unavailable_reason policy route = Some x" "tool_ok Cap_Delete (route_tool route)"
  shows "\<not> any_resource_allows policy Action_Delete"
  using assms unfolding tool_ok.simps
  by (elim insertE emptyE; simp add: reason_def split: if_splits)

lemma plain_tools:
  "tool_ok c t \<Longrightarrow> c \<in> {Cap_Read, Cap_Insert, Cap_Update, Cap_Delete, Cap_NativeExecute, Cap_TextSearch,
     Cap_VectorSearch, Cap_TimeSeriesWrite, Cap_Upsert} \<Longrightarrow> t \<noteq> ''sql_query'' \<and> t \<noteq> ''timeseries_query''"
  by (cases c) auto

lemma no_rule_allows:
  "\<not> any_resource_allows policy a \<Longrightarrow> matching_resource_rule env policy t = Some rule \<Longrightarrow> \<not> rule_allows a rule"
  by (auto simp: any_resource_allows_def list_ex_iff matching_rule_iff chosen_def)

lemma evaluate_not_allowed:
  assumes "evaluate env policy operation = Inr d" "\<not> any_resource_allows policy (classify operation)"
    and "classify operation \<in> {Action_Insert, Action_Update, Action_Delete}
      \<or> classify operation = Action_Read \<and> pol_resources policy \<noteq> []"
  shows "d = Deny"
proof (rule ccontr)
  assume "d \<noteq> Deny"
  with assms have "d = action_decision policy
      (matching_resource_rule env policy (operation_target operation)) (classify operation)"
    by (auto simp: evaluate_Inr)
  with assms(2,3) \<open>d \<noteq> Deny\<close> show False
    by (cases "matching_resource_rule env policy (operation_target operation)")
      (auto simp: action_decision_def read_decision_def write_decision_def
        dest: no_rule_allows split: if_splits)
qed

lemma evaluate_disabled: "\<not> pol_enabled policy \<Longrightarrow> evaluate env policy operation = Inr d \<Longrightarrow> d = Deny"
  by (auto simp: evaluate_Inr)

lemma mcp_disabled:
  "\<not> pol_enabled policy \<Longrightarrow> evaluate_mcp_policy env policy operation tool = Inr d \<Longrightarrow> d = Deny"
  by (cases operation) (auto simp: evaluate_mcp_policy_def is_native_query_def res_simps
      evaluate_sql_query_def evaluate_time_series_def Let_def evaluate_Inr split: if_splits)

lemma mcp_plain:
  "tool \<noteq> ''sql_query'' \<Longrightarrow> tool \<noteq> ''timeseries_query'' \<Longrightarrow>
     evaluate_mcp_policy env policy operation tool = evaluate env policy operation"
  by (simp add: evaluate_mcp_policy_def)

lemma native_read_decision:
  "evaluate env policy (Op_NativeQuery request) = Inr d \<Longrightarrow>
     \<not> pol_allow_native_read policy \<or> pol_egress policy = CloudAllowedMasked \<Longrightarrow> d = Deny"
  by (auto simp: evaluate_Inr action_decision_def)

lemma native_write_decision:
  "evaluate env policy (Op_NativeExecute request) = Inr d \<Longrightarrow> \<not> pol_allow_native_write policy \<Longrightarrow> d = Deny"
  by (auto simp: evaluate_Inr action_decision_def)

text \<open>
  A tool that the capabilities of a connection show as unavailable is of no use: every
  operation of its kind that the policy can judge through it is denied. (The
  policy-scoped SQL tool is apart: its queries may read no relation at all, and are then
  allowed although no rule is; \<open>sql_query_authorised\<close> says what it can read.)
\<close>

theorem unavailable_tools_are_denied:
  assumes "into_descriptor manifest = Some descriptor" "route \<in> set (ds_mcp_tools descriptor)"
    and "\<not> et_available (effective_mcp_tool policy route)"
    and "route_matches_operation (route_capability route) operation"
    and "route_tool route \<noteq> ''sql_query''"
    and "evaluate_mcp_policy env policy operation (route_tool route) = Inr decision"
  shows "decision = Deny"
proof (cases "pol_enabled policy")
  case False
  then show ?thesis using assms(6) by (rule mcp_disabled)
next
  case True
  have tool: "tool_ok (route_capability route) (route_tool route)"
    using assms(2) mcp_tool_routes_pairs by (auto simp: into_descriptor_Some [OF assms(1)] pairs_ok_def)
  from True assms(3) obtain reason
    where reason: "effective_tool_unavailable_reason policy route = Some reason"
    by (auto simp: effective_mcp_tool_def Let_def)
  show ?thesis
  proof (cases "is_native_query operation")
    case True
    then obtain request where op: "operation = Op_NativeQuery request"
      by (auto simp: is_native_query_def split: DataOperation.splits)
    with assms(4) tool assms(5) consider "route_tool route = ''native_query''"
      | "route_tool route = ''timeseries_query''" by auto
    then show ?thesis
    proof cases
      case 1
      with assms(6) op have "evaluate env policy (Op_NativeQuery request) = Inr decision"
        by (simp add: evaluate_mcp_policy_def)
      moreover from 1 reason have "\<not> pol_allow_native_read policy \<or> pol_egress policy = CloudAllowedMasked"
        by (simp add: reason_def split: if_splits)
      ultimately show ?thesis by (rule native_read_decision)
    next
      case 2
      with reason have "\<not> pol_allow_time_series_query policy" by (simp add: reason_def split: if_splits)
      with 2 assms(6) True show ?thesis by (simp add: evaluate_mcp_policy_def evaluate_time_series_def)
    qed
  next
    case False
    with assms(4) tool plain_tools have "route_tool route \<noteq> ''sql_query''"
      "route_tool route \<noteq> ''timeseries_query''"
      by (cases operation; fastforce simp: is_native_query_def)+
    with assms(6) have ev: "evaluate env policy operation = Inr decision" by (simp add: mcp_plain)
    show ?thesis
    proof (cases operation)
      case (Op_NativeExecute request)
      with tool assms(4) have "route_tool route = ''native_execute''" by simp
      with reason have "\<not> pol_allow_native_write policy" by (simp add: reason_def split: if_splits)
      with ev Op_NativeExecute show ?thesis by (auto dest: native_write_decision)
    next
      case (Op_Update request)
      with tool assms(4) reason_update [OF reason] evaluate_not_allowed [OF ev] show ?thesis by simp
    next
      case (Op_Delete request)
      with tool assms(4) reason_delete [OF reason] evaluate_not_allowed [OF ev] show ?thesis by simp
    next
      case (Op_Read request)
      with tool assms(4) have "tool_ok Cap_Read (route_tool route)" by (simp del: tool_ok.simps)
      with reason_read [OF reason] evaluate_not_allowed [OF ev] Op_Read show ?thesis
        by (simp del: tool_ok.simps)
    next
      case (Op_Insert request)
      with tool assms(4) have "tool_ok Cap_Insert (route_tool route)" by (simp del: tool_ok.simps)
      with reason_insert [OF reason] evaluate_not_allowed [OF ev] Op_Insert show ?thesis
        by (simp del: tool_ok.simps)
    next
      case (Op_NativeQuery request)
      with False show ?thesis by (simp add: is_native_query_def)
    qed (use tool assms(4) reason_read [OF reason] reason_insert [OF reason]
        evaluate_not_allowed [OF ev] in simp_all)
  qed
qed

section \<open>Sample inputs\<close>

text \<open>A result of three records under masked egress with at most two rows, and a connection
  whose rules allow no update.\<close>

definition sample_sizes :: size_env where
  "sample_sizes = \<lparr>sz_records = (\<lambda>rs. Inr (10 * length rs)),
     sz_result = (\<lambda>r. Inr (5 + 10 * length (or_records r))),
     sz_entities = (\<lambda>es. Inr (10 * length es)), sz_description = (\<lambda>_. Inr 10)\<rparr>"

definition masking_profile :: ConnectionProfile where
  "masking_profile = pg_profile\<lparr>pr_policy := sample_policy\<lparr>pol_egress := CloudAllowedMasked,
     pol_max_rows := 2, pol_max_bytes := 100\<rparr>\<rparr>"

definition unmasked_record :: "string \<Rightarrow> DbRecord" where
  "unmasked_record x = [(''name'', DbString x), (''ssn'', DbString ''123'')]"

definition sample_result :: OperationResult where
  "sample_result = (OperationResult_empty ''r'')
     \<lparr>or_records := [unmasked_record ''a'', unmasked_record ''b'', unmasked_record ''c'']\<rparr>"

definition masked_result :: OperationResult where
  "masked_result = (case enforce_result_limits_and_masking sample_env sample_sizes masking_profile
     (Some ''public.users'') sample_result of Inr r \<Rightarrow> r | Inl _ \<Rightarrow> sample_result)"

lemma masked_result_returned:
  "enforce_result_limits_and_masking sample_env sample_sizes masking_profile
     (Some ''public.users'') sample_result = Inr masked_result"
  by code_simp

lemma masked_result_records: "map (map fst) (or_records masked_result) = [[''name'', ''ssn''], [''name'', ''ssn'']]"
  by code_simp


definition read_only_policy :: ConnectionPolicy where
  "read_only_policy = ConnectionPolicy_default\<lparr>pol_resources := [sample_rule ''public.*'' True False]\<rparr>"

definition update_route :: McpToolRoute where
  "update_route = \<lparr>route_capability = Cap_Update, route_tool = ''sql_update'', route_fixed_policy_target = None\<rparr>"

theorem unavailable_tools_are_denied_witness:
  "evaluate_mcp_policy sample_env read_only_policy sample_update ''sql_update'' = Inr Deny"
proof -
  have "update_route \<in> set (ds_mcp_tools pg_descriptor)"
    "\<not> et_available (effective_mcp_tool read_only_policy update_route)"
    "route_matches_operation (route_capability update_route) sample_update"
    "route_tool update_route = ''sql_update''"
    "is_ok (evaluate_mcp_policy sample_env read_only_policy sample_update ''sql_update'')"
    by code_simp+
  then show ?thesis using unavailable_tools_are_denied [OF pg_descriptor,
      where env = sample_env and policy = read_only_policy and route = update_route
        and operation = sample_update]
    by (auto simp: is_ok_def split: sum.splits)
qed

end
