(* ===== verification/Runtime_Requests.thy ===== *)
theory Runtime_Requests
  imports Runtime_Rules "HOL-Library.Multiset"
begin

text \<open>
  The running requests of the runtime (\<open>connector-runtime/src/runtime.rs\<close>): the request map,
  the global and the per-connection semaphores, the cancellation state of each request and
  the registry of masked cursors. Each lock region and each semaphore call of the source is
  one atomic operation on the shared state; \<open>reserve_request\<close> and the drop of a
  \<open>RequestGuard\<close> are composed of them, and \<open>runtime_step\<close> interleaves the threads
  that run them. A connector (\<open>Arc<dyn Connector>\<close>) is a value of type \<open>'c\<close>;
  \<open>Arc\<close>s of request controls and semaphores are indices into lists of objects.
\<close>

section \<open>State\<close>

record RequestConcurrencyLimits =
  rl_global :: nat
  rl_per_connection :: nat

definition DEFAULT_GLOBAL_REQUEST_CONCURRENCY :: nat where
  "DEFAULT_GLOBAL_REQUEST_CONCURRENCY = 32"

definition DEFAULT_PER_CONNECTION_REQUEST_CONCURRENCY :: nat where
  "DEFAULT_PER_CONNECTION_REQUEST_CONCURRENCY = 4"

text \<open>The assertions of the constructor; \<open>None\<close> is the panic.\<close>

definition RequestConcurrencyLimits_new :: "nat \<Rightarrow> nat \<Rightarrow> RequestConcurrencyLimits option" where
  "RequestConcurrencyLimits_new global per_connection =
     (if \<not> global > 0 then None
      else if \<not> global \<le> DEFAULT_GLOBAL_REQUEST_CONCURRENCY then None
      else if \<not> (per_connection > 0 \<and> per_connection \<le> global) then None
      else Some \<lparr>rl_global = global, rl_per_connection = per_connection\<rparr>)"

definition RequestConcurrencyLimits_default :: RequestConcurrencyLimits where
  "RequestConcurrencyLimits_default =
     the (RequestConcurrencyLimits_new DEFAULT_GLOBAL_REQUEST_CONCURRENCY
       DEFAULT_PER_CONNECTION_REQUEST_CONCURRENCY)"

datatype 'c RequestState =
    RS_Pending
  | RS_Active 'c
  | RS_CancelRequested "'c option"

record 'c RequestControl =
  rc_connection_id :: ConnectionId
  rc_session_id :: string
  rc_cancelled :: bool
  rc_state :: "'c RequestState"

text \<open>A semaphore behind an \<open>Arc\<close>: its free permits and its strong count.\<close>

record ConnectionSemaphore =
  sem_permits :: nat
  sem_strong :: nat

record 'c Requests =
  rq_limits :: RequestConcurrencyLimits
  rq_global_capacity :: nat
  rq_semaphores :: "ConnectionSemaphore list"
  rq_connection_capacity :: "(ConnectionId, nat) hashmap"
  rq_controls :: "'c RequestControl list"
  rq_requests :: "(string, nat) hashmap"

definition Requests_new :: "'c Requests" where
  "Requests_new =
     \<lparr>rq_limits = RequestConcurrencyLimits_default,
      rq_global_capacity = DEFAULT_GLOBAL_REQUEST_CONCURRENCY, rq_semaphores = [],
      rq_connection_capacity = [], rq_controls = [], rq_requests = []\<rparr>"

definition with_request_concurrency_limits ::
  "RequestConcurrencyLimits \<Rightarrow> 'c Requests \<Rightarrow> 'c Requests" where
  "with_request_concurrency_limits limits s =
     s\<lparr>rq_limits := limits, rq_global_capacity := rl_global limits, rq_connection_capacity := []\<rparr>"

record RequestGuard =
  rg_request_id :: string
  rg_control :: nat
  rg_connection_permit :: nat

section \<open>Validation and errors\<close>

definition valid_request_id :: "string \<Rightarrow> bool" where
  "valid_request_id v \<longleftrightarrow> v \<noteq> [] \<and> length v \<le> 128 \<and>
     list_all (\<lambda>b. is_ascii_alphanumeric b \<or> b \<in> {CHR ''.'', CHR ''_'', CHR '':'', CHR ''-''}) v"

definition single_quoted :: "string \<Rightarrow> string" where
  "single_quoted text = CHR 0x27 # text @ [CHR 0x27]"

definition invalid_request_id :: RuntimeError where
  "invalid_request_id = RT_InvalidRequest
     (''request_id must contain 1 to 128 ASCII letters, digits, '' @ single_quoted ''.'' @ '', '' @
      single_quoted ''_'' @ '', '' @ single_quoted '':'' @ '', or '' @ single_quoted ''-'')"

definition request_capacity_error :: "string \<Rightarrow> RuntimeError" where
  "request_capacity_error message = RT_Connector
     (with_code ''busy'' (with_retryable True (ConnectorError_new Cat_RateLimited message)))"

definition validate_optional_request_id :: "string option \<Rightarrow> RuntimeError + unit" where
  "validate_optional_request_id request_id =
     (case request_id of
        Some v \<Rightarrow> if \<not> valid_request_id v then Inl invalid_request_id else Inr ()
      | None \<Rightarrow> Inr ())"

definition request_cancelled_error :: "bool \<Rightarrow> RuntimeError" where
  "request_cancelled_error dispatched_write =
     (if dispatched_write then RT_Connector (ConnectorError_new Cat_UnknownOutcome
        ''write cancellation was requested after dispatch; the database outcome is unknown'')
      else RT_Connector (ConnectorError_new Cat_Cancelled ''request was cancelled''))"

section \<open>Atomic operations\<close>

definition insert_request ::
  "string \<Rightarrow> ConnectionId \<Rightarrow> string \<Rightarrow> 'c Requests \<Rightarrow> (RuntimeError + nat) \<times> 'c Requests" where
  "insert_request request_id connection_id session_id s =
     (if hm_get (rq_requests s) request_id \<noteq> None
      then (Inl (RT_InvalidRequest ''request_id is already active''), s)
      else let control = length (rq_controls s) in
        (Inr control,
         s\<lparr>rq_controls := rq_controls s @ [\<lparr>rc_connection_id = connection_id,
              rc_session_id = session_id, rc_cancelled = False, rc_state = RS_Pending\<rparr>],
           rq_requests := hm_insert request_id control (rq_requests s)\<rparr>))"

definition release_request :: "string \<Rightarrow> 'c Requests \<Rightarrow> 'c Requests" where
  "release_request request_id s = s\<lparr>rq_requests := hm_remove request_id (rq_requests s)\<rparr>"

definition try_acquire_global :: "'c Requests \<Rightarrow> bool \<times> 'c Requests" where
  "try_acquire_global s =
     (if rq_global_capacity s > 0
      then (True, s\<lparr>rq_global_capacity := rq_global_capacity s - 1\<rparr>) else (False, s))"

definition release_global :: "'c Requests \<Rightarrow> 'c Requests" where
  "release_global s = s\<lparr>rq_global_capacity := rq_global_capacity s + 1\<rparr>"

text \<open>
  The semaphore of a connection: entries whose semaphore is gone are dropped, then the live
  one is upgraded or a new one is put in. The strong reference goes to the caller.
\<close>

definition connection_capacity :: "ConnectionId \<Rightarrow> 'c Requests \<Rightarrow> nat \<times> 'c Requests" where
  "connection_capacity connection_id s =
     (let capacities = hm_retain (\<lambda>_ k. sem_strong (rq_semaphores s ! k) > 0) (rq_connection_capacity s) in
      case hm_get capacities connection_id of
        Some k \<Rightarrow> (k, s\<lparr>rq_connection_capacity := capacities,
          rq_semaphores := (rq_semaphores s)[k := (rq_semaphores s ! k)
            \<lparr>sem_strong := sem_strong (rq_semaphores s ! k) + 1\<rparr>]\<rparr>)
      | None \<Rightarrow> let k = length (rq_semaphores s) in
          (k, s\<lparr>rq_connection_capacity := hm_insert connection_id k capacities,
             rq_semaphores := rq_semaphores s @
               [\<lparr>sem_permits = rl_per_connection (rq_limits s), sem_strong = 1\<rparr>]\<rparr>))"

text \<open>\<open>try_acquire_owned\<close> moves the reference into the permit or drops it.\<close>

definition try_acquire_connection :: "nat \<Rightarrow> 'c Requests \<Rightarrow> bool \<times> 'c Requests" where
  "try_acquire_connection k s =
     (let sem = rq_semaphores s ! k in
      if sem_permits sem > 0
      then (True, s\<lparr>rq_semaphores := (rq_semaphores s)[k := sem\<lparr>sem_permits := sem_permits sem - 1\<rparr>]\<rparr>)
      else (False, s\<lparr>rq_semaphores := (rq_semaphores s)[k := sem\<lparr>sem_strong := sem_strong sem - 1\<rparr>]\<rparr>))"

definition release_connection :: "nat \<Rightarrow> 'c Requests \<Rightarrow> 'c Requests" where
  "release_connection k s =
     (let sem = rq_semaphores s ! k in
      s\<lparr>rq_semaphores := (rq_semaphores s)[k :=
          \<lparr>sem_permits = sem_permits sem + 1, sem_strong = sem_strong sem - 1\<rparr>]\<rparr>)"

section \<open>Reserving, activating and dropping a request\<close>

definition reserve_request ::
  "string \<Rightarrow> ConnectionId \<Rightarrow> string \<Rightarrow> 'c Requests \<Rightarrow> (RuntimeError + RequestGuard) \<times> 'c Requests" where
  "reserve_request request_id connection_id session_id s =
     (case insert_request request_id connection_id session_id s of
        (Inl e, s) \<Rightarrow> (Inl e, s)
      | (Inr control, s) \<Rightarrow>
          (case try_acquire_global s of
             (False, s) \<Rightarrow>
               (Inl (request_capacity_error ''runtime request capacity is exhausted; retry later''),
                release_request request_id s)
           | (True, s) \<Rightarrow>
               (case connection_capacity connection_id s of (k, s) \<Rightarrow>
                  (case try_acquire_connection k s of
                     (False, s) \<Rightarrow>
                       (Inl (request_capacity_error
                          ''connection request capacity is exhausted; retry later''),
                        release_global (release_request request_id s))
                   | (True, s) \<Rightarrow>
                       (Inr \<lparr>rg_request_id = request_id, rg_control = control,
                          rg_connection_permit = k\<rparr>, s)))))"

definition drop_guard :: "RequestGuard \<Rightarrow> 'c Requests \<Rightarrow> 'c Requests" where
  "drop_guard guard s =
     release_connection (rg_connection_permit guard)
       (release_global (release_request (rg_request_id guard) s))"

definition reserve_optional_request ::
  "string \<Rightarrow> string option \<Rightarrow> ConnectionId \<Rightarrow> string \<Rightarrow> 'c Requests
     \<Rightarrow> (RuntimeError + string \<times> RequestGuard) \<times> 'c Requests" where
  "reserve_optional_request uuid request_id connection_id session_id s =
     (case validate_optional_request_id request_id of
        Inl e \<Rightarrow> (Inl e, s)
      | Inr _ \<Rightarrow>
          let request_id = (case request_id of Some v \<Rightarrow> v | None \<Rightarrow> uuid) in
          (case reserve_request request_id connection_id session_id s of
             (Inl e, s) \<Rightarrow> (Inl e, s)
           | (Inr request, s) \<Rightarrow> (Inr (request_id, request), s)))"

definition set_state :: "nat \<Rightarrow> ('c RequestControl \<Rightarrow> 'c RequestControl) \<Rightarrow> 'c Requests \<Rightarrow> 'c Requests" where
  "set_state control f s = s\<lparr>rq_controls := (rq_controls s)[control := f (rq_controls s ! control)]\<rparr>"

definition activate_request ::
  "RequestGuard \<Rightarrow> 'c \<Rightarrow> 'c Requests \<Rightarrow> (RuntimeError + unit) \<times> 'c Requests" where
  "activate_request request connector s =
     (case rc_state (rq_controls s ! rg_control request) of
        RS_Pending \<Rightarrow> (Inr (), set_state (rg_control request) (\<lambda>c. c\<lparr>rc_state := RS_Active connector\<rparr>) s)
      | RS_CancelRequested _ \<Rightarrow> (Inl (request_cancelled_error False), s)
      | RS_Active _ \<Rightarrow> (Inl (RT_InvalidRequest ''request_id is already active''), s))"

section \<open>Cancelling\<close>

definition state_connector :: "'c RequestState \<Rightarrow> 'c option" where
  "state_connector st =
     (case st of RS_Pending \<Rightarrow> None | RS_Active connector \<Rightarrow> Some connector
      | RS_CancelRequested connector \<Rightarrow> connector)"

definition request_cancel :: "nat \<Rightarrow> 'c Requests \<Rightarrow> 'c option \<times> 'c Requests" where
  "request_cancel control s =
     (let connector = state_connector (rc_state (rq_controls s ! control)) in
      (connector,
       set_state control (\<lambda>c. c\<lparr>rc_state := RS_CancelRequested connector, rc_cancelled := True\<rparr>) s))"

text \<open>The control a client of this connection and session may cancel.\<close>

definition find_cancellable ::
  "ConnectionId \<Rightarrow> string \<Rightarrow> string \<Rightarrow> 'c Requests \<Rightarrow> RuntimeError + nat" where
  "find_cancellable connection_id request_id session_id s =
     (if \<not> valid_request_id request_id then Inl invalid_request_id
      else case hm_get (rq_requests s) request_id of
        Some control \<Rightarrow>
          if rc_connection_id (rq_controls s ! control) = connection_id \<and>
             rc_session_id (rq_controls s ! control) = session_id then Inr control
          else Inl (RT_InvalidRequest ''request is not active in the current MCP session'')
      | None \<Rightarrow> Inl (RT_InvalidRequest ''request is not active in the current MCP session''))"

text \<open>
  The answer of \<open>connector.cancel(request_id)\<close> within \<open>CANCEL_TIMEOUT\<close>: \<open>None\<close> when the
  second passes first.
\<close>

definition cancel_with_timeout ::
  "('c \<Rightarrow> string \<Rightarrow> (ConnectorError + unit) option) \<Rightarrow> 'c \<Rightarrow> string \<Rightarrow> RuntimeError + unit" where
  "cancel_with_timeout connector_cancel connector request_id =
     (case connector_cancel connector request_id of
        None \<Rightarrow> Inl RT_Timeout
      | Some (Inl e) \<Rightarrow> Inl (RT_Connector e)
      | Some (Inr _) \<Rightarrow> Inr ())"

definition cancel ::
  "('c \<Rightarrow> string \<Rightarrow> (ConnectorError + unit) option) \<Rightarrow> ConnectionId \<Rightarrow> string \<Rightarrow> string
     \<Rightarrow> 'c Requests \<Rightarrow> (RuntimeError + unit) \<times> 'c Requests" where
  "cancel connector_cancel connection_id request_id session_id s =
     (case find_cancellable connection_id request_id session_id s of
        Inl e \<Rightarrow> (Inl e, s)
      | Inr control \<Rightarrow>
          (case request_cancel control s of
             (None, s) \<Rightarrow> (Inr (), s)
           | (Some connector, s) \<Rightarrow> (cancel_with_timeout connector_cancel connector request_id, s)))"

text \<open>Cancelling every request of a connection; the connectors to call are returned.\<close>

fun request_cancel_all ::
  "(string \<times> nat) list \<Rightarrow> 'c Requests \<Rightarrow> ('c \<times> string) list \<times> 'c Requests" where
  "request_cancel_all [] s = ([], s)"
| "request_cancel_all ((request_id, control) # rest) s =
     (case request_cancel control s of (connector, s) \<Rightarrow>
        (case request_cancel_all rest s of (calls, s) \<Rightarrow>
           ((case connector of Some c \<Rightarrow> [(c, request_id)] | None \<Rightarrow> []) @ calls, s)))"

definition requests_of :: "ConnectionId \<Rightarrow> 'c Requests \<Rightarrow> (string \<times> nat) list" where
  "requests_of connection_id s =
     filter (\<lambda>(_, control). rc_connection_id (rq_controls s ! control) = connection_id) (rq_requests s)"

definition cancel_connection_requests ::
  "ConnectionId \<Rightarrow> 'c Requests \<Rightarrow> ('c \<times> string) list \<times> 'c Requests" where
  "cancel_connection_requests connection_id s = request_cancel_all (requests_of connection_id s) s"

section \<open>Threads\<close>

text \<open>
  Where a thread stands in \<open>reserve_request\<close>, in the call its guard lives in, or in the drop
  of the guard. \<open>Ph_Cancelling\<close> is a thread in \<open>cancel\<close> or
  \<open>invalidate_connection\<close> that has cloned the control of a request and not yet cancelled it.
\<close>

datatype Phase =
    Ph_Inserted string ConnectionId nat
  | Ph_GlobalBusy string nat
  | Ph_Global string ConnectionId nat
  | Ph_Capacity string ConnectionId nat nat
  | Ph_ConnectionBusy string nat
  | Ph_BusyReleased
  | Ph_Guarded ConnectionId RequestGuard
  | Ph_Removed ConnectionId nat
  | Ph_GlobalDropped ConnectionId nat
  | Ph_Cancelling nat
  | Ph_Done

definition start_reserve ::
  "string \<Rightarrow> ConnectionId \<Rightarrow> string \<Rightarrow> 'c Requests \<Rightarrow> Phase \<times> 'c Requests" where
  "start_reserve request_id connection_id session_id s =
     (case insert_request request_id connection_id session_id s of
        (Inl _, s) \<Rightarrow> (Ph_Done, s)
      | (Inr control, s) \<Rightarrow> (Ph_Inserted request_id connection_id control, s))"

text \<open>The next atomic operation of a thread; for a guarded request, the start of the drop.\<close>

fun advance :: "Phase \<Rightarrow> 'c Requests \<Rightarrow> Phase \<times> 'c Requests" where
  "advance (Ph_Inserted rid cid control) s =
     (case try_acquire_global s of
        (True, s) \<Rightarrow> (Ph_Global rid cid control, s)
      | (False, s) \<Rightarrow> (Ph_GlobalBusy rid control, s))"
| "advance (Ph_GlobalBusy rid control) s = (Ph_Done, release_request rid s)"
| "advance (Ph_Global rid cid control) s =
     (case connection_capacity cid s of (k, s) \<Rightarrow> (Ph_Capacity rid cid control k, s))"
| "advance (Ph_Capacity rid cid control k) s =
     (case try_acquire_connection k s of
        (True, s) \<Rightarrow> (Ph_Guarded cid \<lparr>rg_request_id = rid, rg_control = control,
           rg_connection_permit = k\<rparr>, s)
      | (False, s) \<Rightarrow> (Ph_ConnectionBusy rid control, s))"
| "advance (Ph_ConnectionBusy rid control) s = (Ph_BusyReleased, release_request rid s)"
| "advance Ph_BusyReleased s = (Ph_Done, release_global s)"
| "advance (Ph_Guarded cid guard) s =
     (Ph_Removed cid (rg_connection_permit guard), release_request (rg_request_id guard) s)"
| "advance (Ph_Removed cid k) s = (Ph_GlobalDropped cid k, release_global s)"
| "advance (Ph_GlobalDropped cid k) s = (Ph_Done, release_connection k s)"
| "advance (Ph_Cancelling control) s = (Ph_Done, snd (request_cancel control s))"
| "advance Ph_Done s = (Ph_Done, s)"

type_synonym 'c Machine = "'c Requests \<times> Phase list"

inductive runtime_step :: "'c Machine \<Rightarrow> 'c Machine \<Rightarrow> bool" where
  start: "start_reserve rid cid sid s = (ph, s') \<Longrightarrow> runtime_step (s, ths) (s', ths @ [ph])"
| thread: "i < length ths \<Longrightarrow> advance (ths ! i) s = (ph, s') \<Longrightarrow> runtime_step (s, ths) (s', ths[i := ph])"
| activate: "Ph_Guarded cid guard \<in> set ths \<Longrightarrow> activate_request guard connector s = (r, s') \<Longrightarrow>
     runtime_step (s, ths) (s', ths)"
| cancel_lookup: "find_cancellable cid rid sid s = Inr control \<Longrightarrow>
     runtime_step (s, ths) (s, ths @ [Ph_Cancelling control])"
| invalidate_lookup: "runtime_step (s, ths)
     (s, ths @ map (\<lambda>(_, control). Ph_Cancelling control) (requests_of cid s))"

inductive runtime_reachable :: "RequestConcurrencyLimits \<Rightarrow> 'c Machine \<Rightarrow> bool" for limits where
  init: "runtime_reachable limits (with_request_concurrency_limits limits Requests_new, [])"
| step: "runtime_reachable limits m \<Longrightarrow> runtime_step m m' \<Longrightarrow> runtime_reachable limits m'"

section \<open>What a thread holds\<close>

fun holds_global :: "Phase \<Rightarrow> bool" where
  "holds_global (Ph_Global _ _ _) = True"
| "holds_global (Ph_Capacity _ _ _ _) = True"
| "holds_global (Ph_ConnectionBusy _ _) = True"
| "holds_global Ph_BusyReleased = True"
| "holds_global (Ph_Guarded _ _) = True"
| "holds_global (Ph_Removed _ _) = True"
| "holds_global _ = False"

fun permit_of :: "Phase \<Rightarrow> (ConnectionId \<times> nat) option" where
  "permit_of (Ph_Guarded cid guard) = Some (cid, rg_connection_permit guard)"
| "permit_of (Ph_Removed cid k) = Some (cid, k)"
| "permit_of (Ph_GlobalDropped cid k) = Some (cid, k)"
| "permit_of _ = None"

fun ref_of :: "Phase \<Rightarrow> (ConnectionId \<times> nat) option" where
  "ref_of (Ph_Capacity _ cid _ k) = Some (cid, k)"
| "ref_of ph = permit_of ph"

fun entry_of :: "Phase \<Rightarrow> (string \<times> nat) option" where
  "entry_of (Ph_Inserted rid _ control) = Some (rid, control)"
| "entry_of (Ph_GlobalBusy rid control) = Some (rid, control)"
| "entry_of (Ph_Global rid _ control) = Some (rid, control)"
| "entry_of (Ph_Capacity rid _ control _) = Some (rid, control)"
| "entry_of (Ph_ConnectionBusy rid control) = Some (rid, control)"
| "entry_of (Ph_Guarded _ guard) = Some (rg_request_id guard, rg_control guard)"
| "entry_of _ = None"

definition count_threads :: "(Phase \<Rightarrow> bool) \<Rightarrow> Phase list \<Rightarrow> nat" where
  "count_threads P ths = length (filter P ths)"

definition running :: "Phase list \<Rightarrow> (string \<times> nat) multiset" where
  "running ths = mset (List.map_filter entry_of ths)"

lemma count_threads_simps [simp]:
  "count_threads P [] = 0" "count_threads P (x # xs) = (if P x then 1 else 0) + count_threads P xs"
  "count_threads P (xs @ ys) = count_threads P xs + count_threads P ys"
  by (simp_all add: count_threads_def)

lemma count_threads_update:
  "i < length ths \<Longrightarrow> count_threads P (ths[i := ph]) + (if P (ths ! i) then 1 else 0)
     = count_threads P ths + (if P ph then 1 else 0)"
proof (induction ths arbitrary: i)
  case (Cons x xs)
  then show ?case by (cases i) auto
qed simp

lemma running_simps [simp]:
  "running [] = {#}"
  "running (x # xs) = (case entry_of x of None \<Rightarrow> running xs | Some e \<Rightarrow> add_mset e (running xs))"
  "running (xs @ ys) = running xs + running ys"
  by (auto simp: running_def map_filter_simps List.map_filter_def split: option.splits)

lemma running_update:
  "i < length ths \<Longrightarrow> running (ths[i := ph]) + running [ths ! i] = running ths + running [ph]"
proof (induction ths arbitrary: i)
  case (Cons x xs)
  then show ?case by (cases i) (auto split: option.splits)
qed simp

lemma running_map_cancelling [simp]: "running (map (\<lambda>(_, control). Ph_Cancelling control) xs) = {#}"
  by (induction xs) (auto)

lemma count_map_cancelling [simp]:
  "(\<And>c. \<not> P (Ph_Cancelling c)) \<Longrightarrow> count_threads P (map (\<lambda>(_, control). Ph_Cancelling control) xs) = 0"
  by (induction xs) auto

section \<open>Permits\<close>

definition has_permit :: "nat \<Rightarrow> Phase \<Rightarrow> bool" where
  "has_permit k ph \<longleftrightarrow> map_option snd (permit_of ph) = Some k"

definition has_ref :: "nat \<Rightarrow> Phase \<Rightarrow> bool" where
  "has_ref k ph \<longleftrightarrow> map_option snd (ref_of ph) = Some k"

definition semaphore_ok :: "RequestConcurrencyLimits \<Rightarrow> Phase list \<Rightarrow> nat \<Rightarrow> ConnectionSemaphore \<Rightarrow> bool" where
  "semaphore_ok limits ths k sem \<longleftrightarrow>
     sem_permits sem + count_threads (has_permit k) ths = rl_per_connection limits \<and>
     sem_strong sem = count_threads (has_ref k) ths"

definition capacities_ok :: "'c Requests \<Rightarrow> Phase list \<Rightarrow> bool" where
  "capacities_ok s ths \<longleftrightarrow> hm_wf (rq_connection_capacity s) \<and>
     (\<forall>cid k. hm_get (rq_connection_capacity s) cid = Some k \<longrightarrow> k < length (rq_semaphores s)) \<and>
     (\<forall>cid cid' k. hm_get (rq_connection_capacity s) cid = Some k \<longrightarrow>
        hm_get (rq_connection_capacity s) cid' = Some k \<longrightarrow> cid = cid') \<and>
     (\<forall>ph \<in> set ths. \<forall>cid k. ref_of ph = Some (cid, k) \<longrightarrow>
        hm_get (rq_connection_capacity s) cid = Some k)"

definition permits_inv :: "RequestConcurrencyLimits \<Rightarrow> 'c Machine \<Rightarrow> bool" where
  "permits_inv limits m \<longleftrightarrow> (case m of (s, ths) \<Rightarrow>
     rq_limits s = limits \<and>
     rq_global_capacity s + count_threads holds_global ths = rl_global limits \<and>
     (\<forall>k < length (rq_semaphores s). semaphore_ok limits ths k (rq_semaphores s ! k)) \<and>
     capacities_ok s ths)"

lemmas permit_defs = has_permit_def has_ref_def

lemma count_threads_zero: "count_threads P ths = 0 \<longleftrightarrow> (\<forall>ph \<in> set ths. \<not> P ph)"
  by (induction ths) auto

lemma capacities_ok_ref:
  "capacities_ok s ths \<Longrightarrow> ph \<in> set ths \<Longrightarrow> ref_of ph = Some (cid, k) \<Longrightarrow>
     hm_get (rq_connection_capacity s) cid = Some k"
  unfolding capacities_ok_def by blast

lemma capacities_okI:
  assumes "hm_wf (rq_connection_capacity s)"
    "\<And>cid k. hm_get (rq_connection_capacity s) cid = Some k \<Longrightarrow> k < length (rq_semaphores s)"
    "\<And>cid cid' k. hm_get (rq_connection_capacity s) cid = Some k \<Longrightarrow>
        hm_get (rq_connection_capacity s) cid' = Some k \<Longrightarrow> cid = cid'"
    "\<And>ph cid k. ph \<in> set ths \<Longrightarrow> ref_of ph = Some (cid, k) \<Longrightarrow>
        hm_get (rq_connection_capacity s) cid = Some k"
  shows "capacities_ok s ths"
  using assms unfolding capacities_ok_def by blast

lemma capacities_okD:
  assumes "capacities_ok s ths"
  shows "hm_wf (rq_connection_capacity s)"
    "hm_get (rq_connection_capacity s) cid = Some k \<Longrightarrow> k < length (rq_semaphores s)"
    "hm_get (rq_connection_capacity s) cid = Some k \<Longrightarrow>
        hm_get (rq_connection_capacity s) cid' = Some k \<Longrightarrow> cid = cid'"
  using assms unfolding capacities_ok_def by blast+

lemma capacities_ok_cong:
  assumes "capacities_ok s ths" "rq_connection_capacity s' = rq_connection_capacity s"
    "length (rq_semaphores s') = length (rq_semaphores s)"
    "\<And>ph cid k. ph \<in> set ths' \<Longrightarrow> ref_of ph = Some (cid, k) \<Longrightarrow>
       hm_get (rq_connection_capacity s) cid = Some k"
  shows "capacities_ok s' ths'"
  using assms unfolding capacities_ok_def by metis

lemma permits_inv_capacities: "permits_inv limits (s, ths) \<Longrightarrow> capacities_ok s ths"
  by (simp add: permits_inv_def)

text \<open>A thread that does not touch a semaphore.\<close>

lemma permits_inv_update:
  assumes inv: "permits_inv limits (s, ths)" and i: "i < length ths"
    and same: "rq_limits s' = rq_limits s" "rq_semaphores s' = rq_semaphores s"
      "rq_connection_capacity s' = rq_connection_capacity s"
    and refs: "ref_of ph = ref_of (ths ! i)" "permit_of ph = permit_of (ths ! i)"
    and global: "rq_global_capacity s' + (if holds_global ph then 1 else 0) =
      rq_global_capacity s + (if holds_global (ths ! i) then 1 else 0)"
  shows "permits_inv limits (s', ths[i := ph])"
proof -
  have keep: "count_threads (has_permit k) (ths[i := ph]) = count_threads (has_permit k) ths"
    "count_threads (has_ref k) (ths[i := ph]) = count_threads (has_ref k) ths" for k
    using count_threads_update [OF i, of "has_permit k" ph] count_threads_update [OF i, of "has_ref k" ph]
    by (simp_all add: permit_defs refs)
  have origin: "ph' \<in> set (ths[i := ph]) \<Longrightarrow> \<exists>ph'' \<in> set ths. ref_of ph' = ref_of ph''" for ph'
    using set_update_subset_insert [of ths i ph] i refs(1) by (metis insertE nth_mem subsetD)
  have caps: "capacities_ok s' (ths[i := ph])"
    using permits_inv_capacities [OF inv] same(3) arg_cong [OF same(2), of length]
  proof (rule capacities_ok_cong)
    fix ph' cid k assume "ph' \<in> set (ths[i := ph])" "ref_of ph' = Some (cid, k)"
    with origin [of ph'] capacities_ok_ref [OF permits_inv_capacities [OF inv]]
    show "hm_get (rq_connection_capacity s) cid = Some k" by auto
  qed
  show ?thesis
    using inv global caps count_threads_update [OF i, of holds_global ph]
    by (auto simp: permits_inv_def same semaphore_ok_def keep)
qed

text \<open>A thread that moves one semaphore.\<close>

lemma permits_inv_semaphore:
  assumes inv: "permits_inv limits (s, ths)" and i: "i < length ths"
    and k: "k < length (rq_semaphores s)"
    and cap: "hm_get (rq_connection_capacity s) cid = Some k"
    and same: "rq_limits s' = rq_limits s" "rq_global_capacity s' = rq_global_capacity s"
      "holds_global ph \<longleftrightarrow> holds_global (ths ! i)"
      "rq_semaphores s' = (rq_semaphores s)[k := sem]"
      "rq_connection_capacity s' = rq_connection_capacity s"
    and refs: "ref_of ph \<in> {None, Some (cid, k)}" "ref_of (ths ! i) \<in> {None, Some (cid, k)}"
      "permit_of ph \<in> {None, Some (cid, k)}" "permit_of (ths ! i) \<in> {None, Some (cid, k)}"
    and sem: "sem_permits sem + (if permit_of ph = None then 0 else 1) =
        sem_permits (rq_semaphores s ! k) + (if permit_of (ths ! i) = None then 0 else 1)"
      "sem_strong sem + (if ref_of (ths ! i) = None then 0 else 1) =
        sem_strong (rq_semaphores s ! k) + (if ref_of ph = None then 0 else 1)"
  shows "permits_inv limits (s', ths[i := ph])"
proof -
  have upd: "count_threads (has_permit j) (ths[i := ph]) + (if has_permit j (ths ! i) then 1 else 0)
      = count_threads (has_permit j) ths + (if has_permit j ph then 1 else 0)"
    "count_threads (has_ref j) (ths[i := ph]) + (if has_ref j (ths ! i) then 1 else 0)
      = count_threads (has_ref j) ths + (if has_ref j ph then 1 else 0)" for j
    by (rule count_threads_update [OF i])+
  have "semaphore_ok limits (ths[i := ph]) j (rq_semaphores s' ! j)"
    if "j < length (rq_semaphores s')" for j
  proof (cases "j = k")
    case True
    have "semaphore_ok limits ths k (rq_semaphores s ! k)" using inv k by (simp add: permits_inv_def)
    then show ?thesis using True upd [of k] sem refs k
      by (auto simp: semaphore_ok_def same permit_defs split: if_splits)
  next
    case False
    have "semaphore_ok limits ths j (rq_semaphores s ! j)" using inv that by (simp add: permits_inv_def same)
    then show ?thesis using False upd [of j] refs
      by (auto simp: semaphore_ok_def same permit_defs split: if_splits)
  qed
  moreover have "capacities_ok s' (ths[i := ph])"
  proof (rule capacities_ok_cong [OF permits_inv_capacities [OF inv] same(5)])
    fix ph' c j assume "ph' \<in> set (ths[i := ph])" "ref_of ph' = Some (c, j)"
    moreover have "set (ths[i := ph]) \<subseteq> insert ph (set ths)" by (rule set_update_subset_insert)
    ultimately consider "ph' = ph" | "ph' \<in> set ths" by blast
    then show "hm_get (rq_connection_capacity s) c = Some j"
      using refs(1) cap \<open>ref_of ph' = _\<close> capacities_ok_ref [OF permits_inv_capacities [OF inv]] by cases auto
  qed (simp add: same)
  moreover have "count_threads holds_global (ths[i := ph]) = count_threads holds_global ths"
    using count_threads_update [OF i, of holds_global ph] same(3) by simp
  ultimately show ?thesis using inv by (simp add: permits_inv_def same)
qed

lemma permits_inv_semaphore_ok:
  "permits_inv limits (s, ths) \<Longrightarrow> k < length (rq_semaphores s) \<Longrightarrow>
     semaphore_ok limits ths k (rq_semaphores s ! k)"
  by (simp add: permits_inv_def)

lemma referenced_semaphore:
  assumes "permits_inv limits (s, ths)" "ph \<in> set ths" "ref_of ph = Some (cid, k)"
  shows "hm_get (rq_connection_capacity s) cid = Some k" "k < length (rq_semaphores s)"
    "sem_strong (rq_semaphores s ! k) > 0"
proof -
  note caps = permits_inv_capacities [OF assms(1)]
  show get: "hm_get (rq_connection_capacity s) cid = Some k"
    by (rule capacities_ok_ref [OF caps assms(2,3)])
  with caps show k: "k < length (rq_semaphores s)" by (auto simp: capacities_ok_def)
  have "has_ref k ph" using assms(3) by (simp add: has_ref_def)
  with assms(2) have "count_threads (has_ref k) ths \<noteq> 0" by (auto simp: count_threads_zero)
  with permits_inv_semaphore_ok [OF assms(1) k] show "sem_strong (rq_semaphores s ! k) > 0"
    by (simp add: semaphore_ok_def)
qed

definition live_capacities :: "'c Requests \<Rightarrow> (ConnectionId, nat) hashmap" where
  "live_capacities s =
     hm_retain (\<lambda>_ k. sem_strong (rq_semaphores s ! k) > 0) (rq_connection_capacity s)"

lemma live_capacities_get:
  "capacities_ok s ths \<Longrightarrow> hm_get (live_capacities s) cid = Some k \<longleftrightarrow>
     hm_get (rq_connection_capacity s) cid = Some k \<and> sem_strong (rq_semaphores s ! k) > 0"
  by (auto simp: live_capacities_def capacities_ok_def hm_get_retain split: option.splits)

lemma permits_inv_retain:
  assumes "permits_inv limits (s, ths)"
  shows "permits_inv limits (s\<lparr>rq_connection_capacity := live_capacities s\<rparr>, ths)"
proof -
  note caps = permits_inv_capacities [OF assms]
  have "capacities_ok (s\<lparr>rq_connection_capacity := live_capacities s\<rparr>) ths"
  proof (intro capacities_okI, goal_cases)
    case 1
    show ?case using capacities_okD(1) [OF caps] by (simp add: live_capacities_def hm_wf_retain)
  next
    case (2 cid k)
    then show ?case using capacities_okD(2) [OF caps, of cid k] by (simp add: live_capacities_get [OF caps])
  next
    case (3 cid cid' k)
    then have "hm_get (rq_connection_capacity s) cid = Some k" "hm_get (rq_connection_capacity s) cid' = Some k"
      by (simp_all add: live_capacities_get [OF caps])
    then show ?case by (rule capacities_okD(3) [OF caps])
  next
    case (4 ph cid k)
    then show ?case using referenced_semaphore [OF assms 4] by (simp add: live_capacities_get [OF caps])
  qed
  then show ?thesis using assms by (simp add: permits_inv_def)
qed

text \<open>A fresh semaphore, before its first reference.\<close>

lemma permits_inv_allocate:
  assumes inv: "permits_inv limits (s, ths)" and free: "hm_get (rq_connection_capacity s) cid = None"
  shows "permits_inv limits (s\<lparr>rq_connection_capacity := hm_insert cid (length (rq_semaphores s))
      (rq_connection_capacity s), rq_semaphores := rq_semaphores s @
      [\<lparr>sem_permits = rl_per_connection limits, sem_strong = 0\<rparr>]\<rparr>, ths)"
proof -
  note caps = permits_inv_capacities [OF inv]
  let ?k = "length (rq_semaphores s)"
  have none: "\<not> has_ref ?k ph" "\<not> has_permit ?k ph" if "ph \<in> set ths" for ph
  proof -
    show "\<not> has_ref ?k ph" using referenced_semaphore(2) [OF inv that] by (auto simp: has_ref_def)
    then show "\<not> has_permit ?k ph" by (cases ph) (auto simp: permit_defs)
  qed
  then have new: "semaphore_ok limits ths ?k \<lparr>sem_permits = rl_per_connection limits, sem_strong = 0\<rparr>"
    using count_threads_zero [of "has_ref ?k" ths] count_threads_zero [of "has_permit ?k" ths]
    by (simp add: semaphore_ok_def)
  have "ph \<in> set ths \<Longrightarrow> ref_of ph = Some (c, k) \<Longrightarrow> c \<noteq> cid" for ph c k
    using referenced_semaphore(1) [OF inv] free by auto
  then have "capacities_ok (s\<lparr>rq_connection_capacity := hm_insert cid ?k (rq_connection_capacity s),
      rq_semaphores := rq_semaphores s @ [\<lparr>sem_permits = rl_per_connection limits, sem_strong = 0\<rparr>]\<rparr>) ths"
  proof (intro capacities_okI, goal_cases)
    case 1
    show ?case using capacities_okD(1) [OF caps] by (simp add: hm_wf_insert)
  next
    case (2 c k)
    then show ?case using capacities_okD(2) [OF caps, of c k] by (auto simp: hm_get_insert split: if_splits)
  next
    case (3 c c' k)
    then show ?case using capacities_okD(2) [OF caps, of c k] capacities_okD(2) [OF caps, of c' k]
        capacities_okD(3) [OF caps, of c k c'] by (auto simp: hm_get_insert split: if_splits)
  next
    case (4 ph c k)
    then show ?case using referenced_semaphore(1) [OF inv, of ph c k] by (simp add: hm_get_insert)
  qed
  with inv new show ?thesis
    by (auto simp: permits_inv_def nth_append less_Suc_eq)
qed


lemma permits_inv_connection_capacity:
  assumes inv: "permits_inv limits (s, ths)" and i: "i < length ths"
    and at: "ths ! i = Ph_Global rid cid control" and step: "connection_capacity cid s = (k, s')"
  shows "permits_inv limits (s', ths[i := Ph_Capacity rid cid control k])"
proof -
  let ?s = "s\<lparr>rq_connection_capacity := live_capacities s\<rparr>"
  note retain = permits_inv_retain [OF inv]
  have limits: "rq_limits s = limits" using inv by (simp add: permits_inv_def)
  show ?thesis
  proof (cases "hm_get (live_capacities s) cid")
    case (Some j)
    with step have "k = j" and s': "s' = ?s\<lparr>rq_semaphores := (rq_semaphores s)[k :=
        (rq_semaphores s ! k)\<lparr>sem_strong := sem_strong (rq_semaphores s ! k) + 1\<rparr>]\<rparr>"
      by (auto simp: connection_capacity_def live_capacities_def [symmetric] Let_def)
    with Some have get: "hm_get (rq_connection_capacity ?s) cid = Some k" by simp
    show ?thesis
      by (rule permits_inv_semaphore [OF retain i capacities_okD(2) [OF permits_inv_capacities [OF retain] get] get,
            where sem = "(rq_semaphores s ! k)\<lparr>sem_strong := sem_strong (rq_semaphores s ! k) + 1\<rparr>"])
        (simp_all add: s' at)
  next
    case None
    with step have k: "k = length (rq_semaphores s)" and s': "s' = ?s\<lparr>
        rq_connection_capacity := hm_insert cid k (live_capacities s),
        rq_semaphores := rq_semaphores s @ [\<lparr>sem_permits = rl_per_connection limits, sem_strong = 1\<rparr>]\<rparr>"
      by (auto simp: connection_capacity_def live_capacities_def [symmetric] Let_def limits)
    let ?t = "?s\<lparr>rq_connection_capacity := hm_insert cid k (live_capacities s),
        rq_semaphores := rq_semaphores s @ [\<lparr>sem_permits = rl_per_connection limits, sem_strong = 0\<rparr>]\<rparr>"
    have "permits_inv limits (?t, ths)"
      using permits_inv_allocate [OF retain, of cid] None by (simp add: k)
    then show ?thesis
      by (rule permits_inv_semaphore [OF _ i, where k = k and cid = cid and
            sem = "\<lparr>sem_permits = rl_per_connection limits, sem_strong = 1\<rparr>"])
        (simp_all add: s' at k hm_get_insert)
  qed
qed

lemma permits_inv_advance:
  assumes inv: "permits_inv limits (s, ths)" and i: "i < length ths"
    and step: "advance (ths ! i) s = (ph, s')"
  shows "permits_inv limits (s', ths[i := ph])"
proof (cases "ths ! i")
  case (Ph_Global rid cid control)
  with step permits_inv_connection_capacity [OF inv i Ph_Global] show ?thesis
    by (auto split: prod.splits)
next
  case (Ph_Capacity rid cid control k)
  have k: "hm_get (rq_connection_capacity s) cid = Some k" "k < length (rq_semaphores s)"
    "sem_strong (rq_semaphores s ! k) > 0"
    using referenced_semaphore [OF inv nth_mem [OF i]] Ph_Capacity by simp_all
  then show ?thesis using step Ph_Capacity
    by (intro permits_inv_semaphore [OF inv i k(2,1), where sem = "rq_semaphores s' ! k"])
      (auto simp: try_acquire_connection_def Let_def split: if_splits)
next
  case (Ph_GlobalDropped cid k)
  have k: "hm_get (rq_connection_capacity s) cid = Some k" "k < length (rq_semaphores s)"
    "sem_strong (rq_semaphores s ! k) > 0"
    using referenced_semaphore [OF inv nth_mem [OF i]] Ph_GlobalDropped by simp_all
  then show ?thesis using step Ph_GlobalDropped
    by (intro permits_inv_semaphore [OF inv i k(2,1), where sem = "rq_semaphores s' ! k"])
      (auto simp: release_connection_def Let_def split: if_splits)
qed (rule permits_inv_update [OF inv i]; insert step; auto simp: try_acquire_global_def release_global_def
      release_request_def request_cancel_def set_state_def Let_def split: if_splits)+


lemma permits_inv_append:
  assumes inv: "permits_inv limits (s, ths)"
    and same: "rq_limits s' = rq_limits s" "rq_semaphores s' = rq_semaphores s"
      "rq_connection_capacity s' = rq_connection_capacity s" "rq_global_capacity s' = rq_global_capacity s"
    and idle: "\<And>ph. ph \<in> set new \<Longrightarrow> \<not> holds_global ph \<and> ref_of ph = None \<and> permit_of ph = None"
  shows "permits_inv limits (s', ths @ new)"
proof -
  have "count_threads holds_global new = 0" "count_threads (has_permit k) new = 0"
    "count_threads (has_ref k) new = 0" for k
    using idle by (simp_all add: count_threads_zero permit_defs)
  moreover have "capacities_ok s' (ths @ new)"
    by (rule capacities_ok_cong [OF permits_inv_capacities [OF inv] same(3)])
      (use idle capacities_ok_ref [OF permits_inv_capacities [OF inv]] in \<open>auto simp: same\<close>)
  ultimately show ?thesis using inv by (simp add: permits_inv_def semaphore_ok_def same)
qed

lemma permits_inv_step:
  assumes "runtime_step m m'" "permits_inv limits m"
  shows "permits_inv limits m'"
  using assms
proof (induction rule: runtime_step.induct)
  case (start rid cid sid s ph s' ths)
  show ?case
    by (rule permits_inv_append [OF start.prems])
      (use start.hyps in \<open>auto simp: start_reserve_def insert_request_def Let_def split: if_splits\<close>)
next
  case (thread i ths s ph s')
  then show ?case by (blast intro: permits_inv_advance)
next
  case (activate cid guard ths connector s r s')
  have "permits_inv limits (s', ths @ [])"
    by (rule permits_inv_append [OF activate.prems])
      (use activate.hyps in \<open>auto simp: activate_request_def set_state_def split: RequestState.splits\<close>)
  then show ?case by simp
next
  case (cancel_lookup cid rid sid s control ths)
  show ?case by (rule permits_inv_append [OF cancel_lookup.prems]) auto
next
  case (invalidate_lookup s ths cid)
  show ?case by (rule permits_inv_append [OF invalidate_lookup.prems]) auto
qed

lemma permits_inv_init: "permits_inv limits (with_request_concurrency_limits limits Requests_new, [])"
  by (simp add: permits_inv_def with_request_concurrency_limits_def Requests_new_def capacities_ok_def)

lemma reachable_permits: "runtime_reachable limits m \<Longrightarrow> permits_inv limits m"
  by (induction rule: runtime_reachable.induct) (rule permits_inv_init, rule permits_inv_step)

section \<open>The request map\<close>

lemma mset_hm_insert: "hm_get m k = None \<Longrightarrow> mset (hm_insert k v m) = add_mset (k, v) (mset m)"
  by (induction m) (auto simp: hm_get_def hm_insert_def split: if_splits)

lemma mset_hm_remove:
  "hm_wf m \<Longrightarrow> (k, v) \<in># mset m \<Longrightarrow> mset (hm_remove k m) + {#(k, v)#} = mset m"
proof (induction m)
  case (Cons e m)
  obtain k' v' where e: "e = (k', v')" by (cases e)
  show ?case
  proof (cases "k' = k")
    case True
    with Cons.prems e have "k \<notin> fst ` set m" "v' = v" by (auto simp: hm_wf_def image_iff)
    then show ?thesis using True e delete_id [of k m] by (simp add: hm_remove_def)
  next
    case False
    with Cons e show ?thesis by (auto simp: hm_wf_def hm_remove_def)
  qed
qed simp

fun uses_control :: "Phase \<Rightarrow> nat option" where
  "uses_control (Ph_Cancelling control) = Some control"
| "uses_control ph = map_option snd (entry_of ph)"

fun connection_of :: "Phase \<Rightarrow> (ConnectionId \<times> nat) option" where
  "connection_of (Ph_Inserted _ cid control) = Some (cid, control)"
| "connection_of (Ph_Global _ cid control) = Some (cid, control)"
| "connection_of (Ph_Capacity _ cid control _) = Some (cid, control)"
| "connection_of (Ph_Guarded cid guard) = Some (cid, rg_control guard)"
| "connection_of _ = None"

definition state_ok :: "'c RequestControl \<Rightarrow> bool" where
  "state_ok c \<longleftrightarrow> (rc_cancelled c \<longleftrightarrow> (\<exists>x. rc_state c = RS_CancelRequested x))"

definition controls_ok :: "'c RequestControl list \<Rightarrow> Phase \<Rightarrow> bool" where
  "controls_ok controls ph \<longleftrightarrow>
     (\<forall>c. uses_control ph = Some c \<longrightarrow> c < length controls) \<and>
     (\<forall>cid c. connection_of ph = Some (cid, c) \<longrightarrow> rc_connection_id (controls ! c) = cid)"

definition requests_inv :: "'c Machine \<Rightarrow> bool" where
  "requests_inv m \<longleftrightarrow> (case m of (s, ths) \<Rightarrow>
     hm_wf (rq_requests s) \<and> mset (rq_requests s) = running ths \<and>
     list_all (controls_ok (rq_controls s)) ths \<and>
     list_all state_ok (rq_controls s))"

lemma running_in: "ph \<in> set ths \<Longrightarrow> entry_of ph = Some e \<Longrightarrow> e \<in># running ths"
  by (induction ths) (auto split: option.splits)

lemma running_iff: "e \<in># running ths \<longleftrightarrow> (\<exists>ph \<in> set ths. entry_of ph = Some e)"
  by (induction ths) (auto split: option.splits)

lemma list_all_thread:
  "list_all P xs \<Longrightarrow> (i < length xs \<Longrightarrow> P (xs ! i) \<Longrightarrow> P y) \<Longrightarrow> list_all P (xs[i := y])"
  by (cases "i < length xs") (auto simp: list_all_length nth_list_update list_update_beyond)

text \<open>Controls are only appended and never change their connection.\<close>

definition controls_grow :: "'c RequestControl list \<Rightarrow> 'c RequestControl list \<Rightarrow> bool" where
  "controls_grow old new \<longleftrightarrow> length old \<le> length new \<and>
     (\<forall>c < length old. rc_connection_id (new ! c) = rc_connection_id (old ! c) \<and>
        rc_session_id (new ! c) = rc_session_id (old ! c) \<and>
        (rc_cancelled (old ! c) \<longrightarrow> rc_cancelled (new ! c)))"

lemma controls_grow_refl [simp]: "controls_grow cs cs"
  by (simp add: controls_grow_def)

lemma controls_grow_trans: "controls_grow a b \<Longrightarrow> controls_grow b c \<Longrightarrow> controls_grow a c"
  unfolding controls_grow_def by (metis (no_types) le_trans order_less_le_trans)

lemma controls_grow_append [simp]: "controls_grow cs (cs @ new)"
  by (simp add: controls_grow_def nth_append)

lemma connection_uses: "connection_of ph = Some (cid, c) \<Longrightarrow> uses_control ph = Some c"
  by (cases ph) auto

lemma entry_uses: "entry_of ph = Some (rid, c) \<Longrightarrow> uses_control ph = Some c"
  by (cases ph) auto

lemma controls_ok_grow: "controls_ok cs ph \<Longrightarrow> controls_grow cs cs' \<Longrightarrow> controls_ok cs' ph"
  using connection_uses [of ph] unfolding controls_ok_def controls_grow_def
  by (metis order_less_le_trans)

lemma controls_grow_update:
  "(c < length cs \<Longrightarrow> rc_connection_id y = rc_connection_id (cs ! c) \<and> rc_session_id y = rc_session_id (cs ! c)
     \<and> (rc_cancelled (cs ! c) \<longrightarrow> rc_cancelled y)) \<Longrightarrow> controls_grow cs (cs[c := y])"
  by (cases "c < length cs") (auto simp: controls_grow_def nth_list_update list_update_beyond)

lemma activate_grow:
  "activate_request guard connector s = (r, s') \<Longrightarrow> list_all state_ok (rq_controls s) \<Longrightarrow>
     rq_requests s' = rq_requests s \<and> controls_grow (rq_controls s) (rq_controls s') \<and>
     list_all state_ok (rq_controls s')"
  by (auto simp: activate_request_def set_state_def state_ok_def
      intro!: controls_grow_update list_all_thread split: RequestState.splits)

lemma request_cancel_grow:
  "list_all state_ok (rq_controls s) \<Longrightarrow>
     rq_requests (snd (request_cancel c s)) = rq_requests s \<and>
     controls_grow (rq_controls s) (rq_controls (snd (request_cancel c s))) \<and>
     list_all state_ok (rq_controls (snd (request_cancel c s)))"
  by (auto simp: request_cancel_def set_state_def state_ok_def Let_def
      intro!: controls_grow_update list_all_thread)

lemma connection_capacity_frame:
  "connection_capacity cid s = (k, s') \<Longrightarrow> rq_requests s' = rq_requests s \<and> rq_controls s' = rq_controls s"
  by (auto simp: connection_capacity_def Let_def split: option.splits)

lemma try_acquire_connection_frame:
  "try_acquire_connection k s = (b, s') \<Longrightarrow> rq_requests s' = rq_requests s \<and> rq_controls s' = rq_controls s"
  by (auto simp: try_acquire_connection_def Let_def split: if_splits)

lemma release_request_running:
  assumes "hm_wf (rq_requests s)" "mset (rq_requests s) = running ths" "i < length ths"
    and "entry_of (ths ! i) = Some (rid, c)" "entry_of ph = None"
  shows "hm_wf (rq_requests (release_request rid s)) \<and>
    mset (rq_requests (release_request rid s)) = running (ths[i := ph])"
proof -
  have "(rid, c) \<in># mset (rq_requests s)" using assms(2-4) running_in [of "ths ! i" ths] by auto
  with mset_hm_remove [OF assms(1), of rid c] running_update [OF assms(3), of ph] assms
  have "add_mset (rid, c) (mset (hm_remove rid (rq_requests s))) = add_mset (rid, c) (running (ths[i := ph]))"
    by simp
  then show ?thesis using assms(1) by (simp add: release_request_def hm_wf_remove)
qed

lemma requests_inv_advance:
  assumes inv: "requests_inv (s, ths)" and i: "i < length ths"
    and step: "advance (ths ! i) s = (ph, s')"
  shows "requests_inv (s', ths[i := ph]) \<and> controls_grow (rq_controls s) (rq_controls s')"
proof -
  have parts: "hm_wf (rq_requests s)" "mset (rq_requests s) = running ths"
    "list_all (controls_ok (rq_controls s)) ths" "list_all state_ok (rq_controls s)"
    using inv by (simp_all add: requests_inv_def)
  have map: "hm_wf (rq_requests s') \<and> mset (rq_requests s') = running (ths[i := ph])"
    using running_update [OF i, of ph] step parts(1,2) request_cancel_grow [OF parts(4)]
      release_request_running [OF parts(1,2) i, of _ _ ph]
    by (cases "ths ! i")
      (auto simp: try_acquire_global_def release_global_def release_connection_def Let_def
        dest!: connection_capacity_frame try_acquire_connection_frame
        split: if_splits prod.splits bool.splits)
  have grow: "controls_grow (rq_controls s) (rq_controls s') \<and> list_all state_ok (rq_controls s')"
    using step request_cancel_grow [OF parts(4)] parts(4)
    by (cases "ths ! i") (auto simp: try_acquire_global_def release_global_def release_connection_def
        release_request_def Let_def dest: connection_capacity_frame try_acquire_connection_frame
        split: if_splits prod.splits bool.splits)
  have "controls_ok (rq_controls s) (ths ! i) \<Longrightarrow> controls_ok (rq_controls s) ph"
    using step by (cases "ths ! i") (auto simp: controls_ok_def split: prod.splits if_splits bool.splits)
  then have "list_all (controls_ok (rq_controls s')) (ths[i := ph])"
    using list_all_thread [OF parts(3), of i ph] controls_ok_grow [OF _ conjunct1 [OF grow]] by (metis list_all_iff)
  with map grow show ?thesis by (simp add: requests_inv_def)
qed


lemma requests_inv_append:
  assumes "requests_inv (s, ths)" "running new = {#}" "list_all (controls_ok (rq_controls s)) new"
  shows "requests_inv (s, ths @ new)"
  using assms by (simp add: requests_inv_def)

lemma requests_entry:
  assumes "requests_inv (s, ths)" "hm_get (rq_requests s) rid = Some c"
  shows "c < length (rq_controls s)"
proof -
  from assms have "(rid, c) \<in># running ths"
    by (auto simp: requests_inv_def hm_get_set simp flip: set_mset_mset)
  then obtain ph where "ph \<in> set ths" "entry_of ph = Some (rid, c)" by (auto simp: running_iff)
  with assms(1) entry_uses [of ph rid c] show ?thesis
    by (simp add: requests_inv_def list_all_iff controls_ok_def)
qed

lemma requests_inv_start:
  assumes inv: "requests_inv (s, ths)" and step: "start_reserve rid cid sid s = (ph, s')"
  shows "requests_inv (s', ths @ [ph]) \<and> controls_grow (rq_controls s) (rq_controls s')"
proof (cases "hm_get (rq_requests s) rid")
  case (Some c)
  with inv step show ?thesis
    by (auto simp: start_reserve_def insert_request_def requests_inv_def controls_ok_def)
next
  case None
  define control where "control = \<lparr>rc_connection_id = cid, rc_session_id = sid, rc_cancelled = False,
      rc_state = (RS_Pending :: 'a RequestState)\<rparr>"
  from None step have ph: "ph = Ph_Inserted rid cid (length (rq_controls s))"
    and s': "s' = s\<lparr>rq_controls := rq_controls s @ [control],
      rq_requests := hm_insert rid (length (rq_controls s)) (rq_requests s)\<rparr>"
    by (simp_all add: start_reserve_def insert_request_def Let_def control_def)
  have "list_all (controls_ok (rq_controls s')) ths"
    using inv controls_ok_grow [OF _ controls_grow_append, of "rq_controls s" _ "[control]"]
    by (auto simp: requests_inv_def list_all_iff s')
  then show ?thesis using inv None
    by (simp add: requests_inv_def ph s' hm_wf_insert mset_hm_insert state_ok_def control_def controls_ok_def
        nth_append)
qed

lemma requests_inv_step:
  assumes "runtime_step m m'" "requests_inv m"
  shows "requests_inv m' \<and> controls_grow (rq_controls (fst m)) (rq_controls (fst m'))"
  using assms
proof (induction rule: runtime_step.induct)
  case (start rid cid sid s ph s' ths)
  then show ?case using requests_inv_start [of s ths rid cid sid ph s'] by simp
next
  case (thread i ths s ph s')
  then show ?case using requests_inv_advance [of s ths i ph s'] by simp
next
  case (activate cid guard ths connector s r s')
  then have "rq_requests s' = rq_requests s" "controls_grow (rq_controls s) (rq_controls s')"
    "list_all state_ok (rq_controls s')"
    using activate_grow [OF activate.hyps(2)] by (simp_all add: requests_inv_def)
  then show ?case using activate.prems by (auto simp: requests_inv_def list_all_iff intro: controls_ok_grow)
next
  case (cancel_lookup cid rid sid s control ths)
  then have "hm_get (rq_requests s) rid = Some control"
    by (auto simp: find_cancellable_def split: if_splits option.splits)
  with cancel_lookup.prems requests_entry show ?case
    by (auto intro!: requests_inv_append simp: controls_ok_def)
next
  case (invalidate_lookup s ths cid)
  have "list_all (controls_ok (rq_controls s)) (map (\<lambda>(_, control). Ph_Cancelling control) (requests_of cid s))"
    using requests_entry [OF invalidate_lookup] invalidate_lookup
    by (auto simp: list_all_iff requests_of_def controls_ok_def requests_inv_def simp flip: hm_get_set)
  then show ?case using invalidate_lookup by (auto intro!: requests_inv_append)
qed

lemma requests_inv_init: "requests_inv (with_request_concurrency_limits limits Requests_new, [])"
  by (simp add: requests_inv_def with_request_concurrency_limits_def Requests_new_def)

lemma reachable_requests: "runtime_reachable limits m \<Longrightarrow> requests_inv m"
  by (induction rule: runtime_reachable.induct) (auto simp: requests_inv_init requests_inv_step)

section \<open>What holds of the running requests\<close>

definition is_guarded :: "Phase \<Rightarrow> bool" where
  "is_guarded ph = (case ph of Ph_Guarded _ _ \<Rightarrow> True | _ \<Rightarrow> False)"

definition guarded_on :: "ConnectionId \<Rightarrow> Phase \<Rightarrow> bool" where
  "guarded_on cid ph = (case ph of Ph_Guarded c _ \<Rightarrow> c = cid | _ \<Rightarrow> False)"

lemma count_threads_mono:
  "(\<And>ph. ph \<in> set ths \<Longrightarrow> P ph \<Longrightarrow> Q ph) \<Longrightarrow> count_threads P ths \<le> count_threads Q ths"
proof (induction ths)
  case (Cons ph ths)
  then have "count_threads P ths \<le> count_threads Q ths" "P ph \<longrightarrow> Q ph" by simp_all
  then show ?case by simp
qed simp

lemma guarded_on_permits:
  assumes "permits_inv limits (s, ths)"
  shows "count_threads (guarded_on cid) ths \<le> rl_per_connection limits"
proof (cases "hm_get (rq_connection_capacity s) cid")
  case None
  have "\<not> guarded_on cid ph" if "ph \<in> set ths" for ph
    using capacities_ok_ref [OF permits_inv_capacities [OF assms] that, of cid] None
    by (cases ph) (auto simp: guarded_on_def)
  then have "count_threads (guarded_on cid) ths = 0" by (simp add: count_threads_zero)
  then show ?thesis by simp
next
  case (Some k)
  then have k: "k < length (rq_semaphores s)"
    using capacities_okD(2) [OF permits_inv_capacities [OF assms]] by blast
  have "has_permit k ph" if "ph \<in> set ths" "guarded_on cid ph" for ph
    using capacities_ok_ref [OF permits_inv_capacities [OF assms] that(1), of cid] Some that(2)
    by (cases ph) (auto simp: guarded_on_def has_permit_def)
  then have "count_threads (guarded_on cid) ths \<le> count_threads (has_permit k) ths"
    by (rule count_threads_mono)
  with permits_inv_semaphore_ok [OF assms k] show ?thesis by (simp add: semaphore_ok_def)
qed

text \<open>
  C17: however the threads interleave, at most \<open>global\<close> requests run at a time, at most 32, and
  at most \<open>per_connection\<close> of them on one connection.
\<close>

theorem request_concurrency_bounded:
  assumes "RequestConcurrencyLimits_new global per_connection = Some limits"
    and "runtime_reachable limits (s, ths)"
  shows "count_threads is_guarded ths \<le> global \<and> global \<le> 32 \<and>
    count_threads (guarded_on cid) ths \<le> per_connection"
proof -
  have limits: "rl_global limits = global" "rl_per_connection limits = per_connection" "global \<le> 32"
    using assms(1) by (auto simp: RequestConcurrencyLimits_new_def DEFAULT_GLOBAL_REQUEST_CONCURRENCY_def
        split: if_splits)
  have inv: "permits_inv limits (s, ths)" by (rule reachable_permits [OF assms(2)])
  have "count_threads is_guarded ths \<le> count_threads holds_global ths"
    by (rule count_threads_mono) (auto simp: is_guarded_def split: Phase.splits)
  with inv have "count_threads is_guarded ths \<le> global" by (simp add: permits_inv_def limits)
  with limits guarded_on_permits [OF inv, of cid] show ?thesis by simp
qed

lemma running_distinct:
  assumes "i < length ths" "j < length ths" "i \<noteq> j"
    and "entry_of (ths ! i) = Some (rid, c)" "entry_of (ths ! j) = Some (rid, c')"
  shows "\<not> (\<exists>m. hm_wf m \<and> mset m = running ths)"
proof
  assume "\<exists>m. hm_wf m \<and> mset m = running ths"
  then obtain m where m: "hm_wf m" "mset m = running ths" by blast
  have "running ths = running (ths[i := Ph_Done]) + {#(rid, c)#}"
    using running_update [OF assms(1), of Ph_Done] assms(4) by simp
  moreover have "running (ths[i := Ph_Done]) = running (ths[i := Ph_Done, j := Ph_Done]) + {#(rid, c')#}"
    using running_update [of j "ths[i := Ph_Done]" Ph_Done] assms by simp
  ultimately have "image_mset fst (mset m) =
      image_mset fst (running (ths[i := Ph_Done, j := Ph_Done])) + {#rid, rid#}"
    by (simp add: m(2))
  then have "count (mset (map fst m)) rid \<ge> 2" by simp
  moreover have "count (mset (map fst m)) rid \<le> 1"
    using m(1) by (metis distinct_count_atmost_1 hm_wf_def le_numeral_extra(4) zero_le)
  ultimately show False by simp
qed

text \<open>
  The request map holds exactly the requests that are reserved or running, each under its
  own id: two threads never run requests of the same id, and every control in the map
  belongs to the thread that put it there.
\<close>

theorem request_map_exact:
  assumes "runtime_reachable limits (s, ths)"
  shows "hm_wf (rq_requests s) \<and> mset (rq_requests s) = running ths \<and>
    (\<forall>i j cid guard cid' guard'. i < length ths \<longrightarrow> j < length ths \<longrightarrow>
       ths ! i = Ph_Guarded cid guard \<longrightarrow> ths ! j = Ph_Guarded cid' guard' \<longrightarrow>
       rg_request_id guard = rg_request_id guard' \<longrightarrow> i = j) \<and>
    (\<forall>cid guard. Ph_Guarded cid guard \<in> set ths \<longrightarrow>
       hm_get (rq_requests s) (rg_request_id guard) = Some (rg_control guard) \<and>
       rc_connection_id (rq_controls s ! rg_control guard) = cid)"
proof -
  have inv: "requests_inv (s, ths)" by (rule reachable_requests [OF assms])
  then have map: "hm_wf (rq_requests s)" "mset (rq_requests s) = running ths"
    by (simp_all add: requests_inv_def)
  have "i = j" if "i < length ths" "j < length ths" "ths ! i = Ph_Guarded cid guard"
    "ths ! j = Ph_Guarded cid' guard'" "rg_request_id guard = rg_request_id guard'"
    for i j cid guard cid' guard'
    using running_distinct [OF that(1,2), of "rg_request_id guard" "rg_control guard" "rg_control guard'"]
      that map by auto
  moreover have "hm_get (rq_requests s) (rg_request_id guard) = Some (rg_control guard) \<and>
      rc_connection_id (rq_controls s ! rg_control guard) = cid" if "Ph_Guarded cid guard \<in> set ths" for cid guard
  proof
    have "(rg_request_id guard, rg_control guard) \<in># running ths" using running_in [OF that] by simp
    then show "hm_get (rq_requests s) (rg_request_id guard) = Some (rg_control guard)"
      using map by (simp add: hm_get_set flip: set_mset_mset)
    show "rc_connection_id (rq_controls s ! rg_control guard) = cid"
      using inv that by (auto simp: requests_inv_def list_all_iff controls_ok_def)
  qed
  ultimately show ?thesis using map by blast
qed

lemma controls_grow_steps:
  assumes "runtime_step\<^sup>*\<^sup>* m m'" "requests_inv m"
  shows "requests_inv m' \<and> controls_grow (rq_controls (fst m)) (rq_controls (fst m'))"
  using assms
proof (induction rule: rtranclp_induct)
  case (step m1 m2)
  then show ?case using requests_inv_step [OF step.hyps(2)] controls_grow_trans by blast
qed simp

text \<open>
  A cancelled request stays cancelled in every run, and \<open>activate_request\<close> refuses it with
  the cancellation error, so that no connector is called for it any more.
\<close>

theorem cancelled_request_never_activated:
  assumes "runtime_reachable limits m" "runtime_step\<^sup>*\<^sup>* m m'"
    and "c < length (rq_controls (fst m))" "rc_cancelled (rq_controls (fst m) ! c)"
  shows "rc_cancelled (rq_controls (fst m') ! c) \<and>
    (\<forall>guard connector. rg_control guard = c \<longrightarrow>
       activate_request guard connector (fst m') = (Inl (request_cancelled_error False), fst m'))"
proof -
  have inv: "requests_inv m'" and grow: "controls_grow (rq_controls (fst m)) (rq_controls (fst m'))"
    using controls_grow_steps [OF assms(2) reachable_requests [OF assms(1)]] by simp_all
  have c: "c < length (rq_controls (fst m'))" "rc_cancelled (rq_controls (fst m') ! c)"
    using grow assms(3,4) by (auto simp: controls_grow_def)
  then have "state_ok (rq_controls (fst m') ! c)"
    using inv by (auto simp: requests_inv_def list_all_length split: prod.splits)
  with c(2) have "\<exists>x. rc_state (rq_controls (fst m') ! c) = RS_CancelRequested x"
    by (simp add: state_ok_def)
  with c show ?thesis by (auto simp: activate_request_def)
qed

text \<open>
  C18: a \<open>cancel\<close> that changes anything found the request under its id, and the connection and
  the session given are the request's own; it cancels this request and no other. One that
  names another session or connection is refused.
\<close>

theorem cancel_is_session_bound:
  assumes "runtime_reachable limits (s, ths)"
    and "cancel connector_cancel cid rid sid s = (r, s')"
  shows "(case hm_get (rq_requests s) rid of
      Some c \<Rightarrow> if valid_request_id rid \<and> rc_connection_id (rq_controls s ! c) = cid \<and>
             rc_session_id (rq_controls s ! c) = sid
          then s' = s\<lparr>rq_controls := rq_controls s'\<rparr> \<and> rc_cancelled (rq_controls s' ! c) \<and>
             (\<forall>c'. c' \<noteq> c \<longrightarrow> rq_controls s' ! c' = rq_controls s ! c')
          else s' = s \<and> (\<exists>text. r = Inl (RT_InvalidRequest text))
    | None \<Rightarrow> s' = s \<and> (\<exists>text. r = Inl (RT_InvalidRequest text)))"
proof (cases "hm_get (rq_requests s) rid")
  case None
  with assms(2) show ?thesis
    by (auto simp: cancel_def find_cancellable_def invalid_request_id_def split: if_splits)
next
  case (Some c)
  have "c < length (rq_controls s)" by (rule requests_entry [OF reachable_requests [OF assms(1)] Some])
  with Some assms(2) show ?thesis
    by (auto simp: cancel_def find_cancellable_def invalid_request_id_def request_cancel_def set_state_def
        Let_def split: if_splits option.splits)
qed

section \<open>The functions and the threads\<close>

lemma reachable_steps:
  "runtime_step\<^sup>*\<^sup>* m m' \<Longrightarrow> runtime_reachable limits m \<Longrightarrow> runtime_reachable limits m'"
  by (induction rule: rtranclp_induct) (auto intro: runtime_reachable.step)

lemma step_last:
  assumes "advance ph s = (ph', s')"
  shows "runtime_step (s, ths @ [ph]) (s', ths @ [ph'])"
  using runtime_step.thread [of "length ths" "ths @ [ph]" s ph' s'] assms by simp

lemma steps_last:
  "runtime_step\<^sup>*\<^sup>* m (s, ths @ [ph]) \<Longrightarrow> advance ph s = (ph', s') \<Longrightarrow>
     runtime_step\<^sup>*\<^sup>* m (s', ths @ [ph'])"
  by (meson rtranclp.rtrancl_into_rtrancl step_last)

lemma reserve_request_run:
  assumes "reserve_request rid cid sid s = (r, s')"
  shows "runtime_step\<^sup>*\<^sup>* (s, ths)
    (s', ths @ [case r of Inl _ \<Rightarrow> Ph_Done | Inr guard \<Rightarrow> Ph_Guarded cid guard])"
proof -
  obtain r1 s1 where i: "insert_request rid cid sid s = (r1, s1)" by fastforce
  show ?thesis
  proof (cases r1)
    case (Inl e)
    then have "runtime_step (s, ths) (s1, ths @ [Ph_Done])"
      by (intro runtime_step.start [of rid cid sid]) (simp add: start_reserve_def i)
    then show ?thesis using assms Inl i by (auto simp: reserve_request_def)
  next
    case (Inr c)
    have st: "runtime_step\<^sup>*\<^sup>* (s, ths) (s1, ths @ [Ph_Inserted rid cid c])"
      by (intro r_into_rtranclp runtime_step.start [of rid cid sid]) (simp add: start_reserve_def i Inr)
    obtain b s2 where g: "try_acquire_global s1 = (b, s2)" by fastforce
    obtain k s3 where k: "connection_capacity cid s2 = (k, s3)" by fastforce
    obtain b' s4 where p: "try_acquire_connection k s3 = (b', s4)" by fastforce
    note res = assms [unfolded reserve_request_def i Inr prod.case sum.case g]
    show ?thesis
    proof (cases b)
      case False
      from st have "runtime_step\<^sup>*\<^sup>* (s, ths) (s2, ths @ [Ph_GlobalBusy rid c])"
        by (rule steps_last) (simp add: g False)
      then have "runtime_step\<^sup>*\<^sup>* (s, ths) (release_request rid s2, ths @ [Ph_Done])"
        by (rule steps_last) simp
      then show ?thesis using res False by auto
    next
      case True
      from st have "runtime_step\<^sup>*\<^sup>* (s, ths) (s2, ths @ [Ph_Global rid cid c])"
        by (rule steps_last) (simp add: g True)
      then have cap: "runtime_step\<^sup>*\<^sup>* (s, ths) (s3, ths @ [Ph_Capacity rid cid c k])"
        by (rule steps_last) (simp add: k)
      show ?thesis
      proof (cases b')
        case False
        from cap have "runtime_step\<^sup>*\<^sup>* (s, ths) (s4, ths @ [Ph_ConnectionBusy rid c])"
          by (rule steps_last) (simp add: p False)
        then have "runtime_step\<^sup>*\<^sup>* (s, ths) (release_request rid s4, ths @ [Ph_BusyReleased])"
          by (rule steps_last) simp
        then have "runtime_step\<^sup>*\<^sup>* (s, ths) (release_global (release_request rid s4), ths @ [Ph_Done])"
          by (rule steps_last) simp
        then show ?thesis using res True False k p by auto
      next
        case b': True
        from cap have "runtime_step\<^sup>*\<^sup>* (s, ths) (s4, ths @ [Ph_Guarded cid \<lparr>rg_request_id = rid,
            rg_control = c, rg_connection_permit = k\<rparr>])"
          by (rule steps_last) (simp add: p b')
        then show ?thesis using res True b' k p by auto
      qed
    qed
  qed
qed

lemma drop_guard_run:
  assumes "i < length ths" "ths ! i = Ph_Guarded cid guard"
  shows "runtime_step\<^sup>*\<^sup>* (s, ths) (drop_guard guard s, ths[i := Ph_Done])"
proof -
  let ?k = "rg_connection_permit guard" and ?s = "release_request (rg_request_id guard) s"
  have "runtime_step (s, ths) (?s, ths[i := Ph_Removed cid ?k])"
    by (rule runtime_step.thread) (use assms in simp_all)
  moreover have "runtime_step (?s, ths[i := Ph_Removed cid ?k])
      (release_global ?s, ths[i := Ph_Removed cid ?k, i := Ph_GlobalDropped cid ?k])"
    by (rule runtime_step.thread) (use assms in simp_all)
  moreover have "runtime_step (release_global ?s, ths[i := Ph_GlobalDropped cid ?k])
      (release_connection ?k (release_global ?s), ths[i := Ph_GlobalDropped cid ?k, i := Ph_Done])"
    by (rule runtime_step.thread) (use assms in simp_all)
  ultimately show ?thesis by (simp add: drop_guard_def)
qed

section \<open>No capacity is lost\<close>

fun phase_rank :: "Phase \<Rightarrow> nat" where
  "phase_rank (Ph_Inserted _ _ _) = 6"
| "phase_rank (Ph_Global _ _ _) = 5"
| "phase_rank (Ph_Capacity _ _ _ _) = 4"
| "phase_rank (Ph_Guarded _ _) = 3"
| "phase_rank (Ph_Removed _ _) = 2"
| "phase_rank (Ph_ConnectionBusy _ _) = 2"
| "phase_rank Ph_Done = 0"
| "phase_rank _ = 1"

definition work_left :: "Phase list \<Rightarrow> nat" where
  "work_left ths = sum_list (map phase_rank ths)"

lemma advance_rank: "advance ph s = (ph', s') \<Longrightarrow> ph \<noteq> Ph_Done \<Longrightarrow> phase_rank ph' < phase_rank ph"
  by (cases ph) (auto split: prod.splits bool.splits)

lemma work_left_update:
  "i < length ths \<Longrightarrow> phase_rank ph < phase_rank (ths ! i) \<Longrightarrow> work_left (ths[i := ph]) < work_left ths"
proof (induction ths arbitrary: i)
  case (Cons x xs)
  then show ?case by (cases i) (auto simp: work_left_def)
qed simp

lemma drains:
  "\<exists>s' ths'. runtime_step\<^sup>*\<^sup>* (s, ths) (s', ths') \<and> list_all (\<lambda>ph. ph = Ph_Done) ths'"
proof (induction "work_left ths" arbitrary: s ths rule: less_induct)
  case less
  show ?case
  proof (cases "list_all (\<lambda>ph. ph = Ph_Done) ths")
    case True
    then show ?thesis by blast
  next
    case False
    then obtain i where i: "i < length ths" "ths ! i \<noteq> Ph_Done" by (auto simp: list_all_length)
    obtain ph s' where adv: "advance (ths ! i) s = (ph, s')" by fastforce
    have "work_left (ths[i := ph]) < work_left ths"
      using work_left_update [OF i(1)] advance_rank [OF adv i(2)] by blast
    from less [OF this, of s'] runtime_step.thread [OF i(1) adv] show ?thesis
      by (meson converse_rtranclp_into_rtranclp)
  qed
qed

lemma idle_state:
  assumes "permits_inv limits (s, ths)" "requests_inv (s, ths)" "list_all (\<lambda>ph. ph = Ph_Done) ths"
  shows "rq_requests s = []" "rq_global_capacity s = rl_global limits" "rq_limits s = limits"
    "live_capacities s = []"
proof -
  have none: "count_threads P ths = 0" if "\<not> P Ph_Done" for P
    using assms(3) that by (auto simp: count_threads_zero list_all_iff)
  have "running ths = {#}" using assms(3) by (induction ths) auto
  with assms(2) show "rq_requests s = []" by (simp add: requests_inv_def)
  show "rq_global_capacity s = rl_global limits" "rq_limits s = limits"
    using assms(1) none [of holds_global] by (simp_all add: permits_inv_def)
  have "sem_strong (rq_semaphores s ! k) = 0" if "hm_get (rq_connection_capacity s) cid = Some k" for cid k
    using permits_inv_semaphore_ok [OF assms(1) capacities_okD(2) [OF permits_inv_capacities [OF assms(1)] that]]
      none [of "has_ref k"] by (simp add: semaphore_ok_def has_ref_def)
  then show "live_capacities s = []"
    using capacities_okD(1) [OF permits_inv_capacities [OF assms(1)]]
    by (auto simp: live_capacities_def hm_retain_def filter_empty_conv simp flip: hm_get_set)
qed

lemma idle_reserve:
  assumes "permits_inv limits (s, ths)" "requests_inv (s, ths)" "list_all (\<lambda>ph. ph = Ph_Done) ths"
    and "rl_global limits > 0" "rl_per_connection limits > 0"
  shows "\<exists>guard s'. reserve_request rid cid sid s = (Inr guard, s')"
  using assms(4,5) idle_state(4) [OF assms(1-3), unfolded live_capacities_def]
  by (simp add: reserve_request_def insert_request_def try_acquire_global_def connection_capacity_def
      try_acquire_connection_def idle_state(1-3) [OF assms(1-3)] Let_def)

text \<open>
  C19: whatever the requests did, failed reservations and cancelled ones included, once the
  threads have run to their ends, as every thread can, the map is empty, all permits are
  back and a reservation for any connection succeeds.
\<close>

theorem capacity_comes_back:
  assumes "RequestConcurrencyLimits_new global per_connection = Some limits"
    and "runtime_reachable limits m"
  shows "\<exists>s ths. runtime_step\<^sup>*\<^sup>* m (s, ths) \<and> list_all (\<lambda>ph. ph = Ph_Done) ths \<and>
    rq_requests s = [] \<and> rq_global_capacity s = global \<and>
    (\<forall>rid cid sid. \<exists>guard s'. reserve_request rid cid sid s = (Inr guard, s'))"
proof -
  obtain s ths where run: "runtime_step\<^sup>*\<^sup>* m (s, ths)" and idle: "list_all (\<lambda>ph. ph = Ph_Done) ths"
    using drains [of "fst m" "snd m"] by auto
  have reach: "runtime_reachable limits (s, ths)" by (rule reachable_steps [OF run assms(2)])
  have limits: "rl_global limits = global" "rl_global limits > 0" "rl_per_connection limits > 0"
    using assms(1) by (auto simp: RequestConcurrencyLimits_new_def split: if_splits)
  note inv = reachable_permits [OF reach] reachable_requests [OF reach] idle
  have "\<exists>guard s'. reserve_request rid cid sid s = (Inr guard, s')" for rid cid sid
    by (rule idle_reserve [OF inv limits(2,3)])
  then show ?thesis using run idle idle_state(1,2) [OF inv] limits(1) by blast
qed


section \<open>Sample run\<close>

text \<open>Room for two requests, one per connection; one request runs, a second on the same
  connection was refused, and the first is then cancelled by its session.\<close>

definition sample_limits :: RequestConcurrencyLimits where
  "sample_limits = \<lparr>rl_global = 2, rl_per_connection = 1\<rparr>"

definition sample_reserve :: "(RuntimeError + RequestGuard) \<times> nat Requests" where
  "sample_reserve = reserve_request ''r1'' 7 ''s'' (with_request_concurrency_limits sample_limits Requests_new)"

definition sample_guard :: RequestGuard where
  "sample_guard = \<lparr>rg_request_id = ''r1'', rg_control = 0, rg_connection_permit = 0\<rparr>"

definition sample_machine :: "nat Machine" where
  "sample_machine = (snd (reserve_request ''r2'' 7 ''s'' (snd sample_reserve)), [Ph_Guarded 7 sample_guard, Ph_Done])"

lemma sample_limits_new: "RequestConcurrencyLimits_new 2 1 = Some sample_limits"
  by code_simp

lemma sample_machine_reachable: "runtime_reachable sample_limits sample_machine"
proof -
  have first: "sample_reserve = (Inr sample_guard, snd sample_reserve)" by code_simp
  have "\<not> is_ok (fst (reserve_request ''r2'' 7 ''s'' (snd sample_reserve)))" by code_simp
  then obtain e where second: "reserve_request ''r2'' 7 ''s'' (snd sample_reserve) = (Inl e, fst sample_machine)"
    by (auto simp: is_ok_def sample_machine_def prod_eq_iff split: sum.splits)
  have "runtime_step\<^sup>*\<^sup>* (with_request_concurrency_limits sample_limits Requests_new, [])
      (snd sample_reserve, [Ph_Guarded 7 sample_guard])"
    using reserve_request_run [OF first [unfolded sample_reserve_def], where ths = "[]"]
    by (simp add: sample_reserve_def)
  moreover have "runtime_step\<^sup>*\<^sup>* (snd sample_reserve, [Ph_Guarded 7 sample_guard]) sample_machine"
    using reserve_request_run [OF second, where ths = "[Ph_Guarded 7 sample_guard]"]
    by (simp add: sample_machine_def)
  ultimately show ?thesis by (meson reachable_steps runtime_reachable.init)
qed


theorem request_concurrency_bounded_witness:
  "count_threads is_guarded (snd sample_machine) \<le> 2 \<and> count_threads (guarded_on 7) (snd sample_machine) \<le> 1"
  using request_concurrency_bounded [OF sample_limits_new, of "fst sample_machine" "snd sample_machine" 7]
    sample_machine_reachable by simp

theorem request_map_exact_witness:
  "hm_get (rq_requests (fst sample_machine)) ''r1'' = Some 0"
  using request_map_exact [of sample_limits "fst sample_machine" "snd sample_machine"] sample_machine_reachable
  by (auto simp: sample_machine_def sample_guard_def)

definition sample_cancelled :: "nat Requests" where
  "sample_cancelled = snd (cancel (\<lambda>_ _. None) 7 ''r1'' ''s'' (fst sample_machine))"

theorem cancel_is_session_bound_witness:
  "rc_cancelled (rq_controls sample_cancelled ! 0)"
proof -
  have "hm_get (rq_requests (fst sample_machine)) ''r1'' = Some 0" "valid_request_id ''r1''"
    "rc_connection_id (rq_controls (fst sample_machine) ! 0) = 7"
    "rc_session_id (rq_controls (fst sample_machine) ! 0) = ''s''"
    by code_simp+
  then show ?thesis
    using cancel_is_session_bound [of sample_limits "fst sample_machine" "snd sample_machine"
        "\<lambda>_ _. None" 7 "''r1''" "''s''" "fst (cancel (\<lambda>_ _. None) 7 ''r1'' ''s'' (fst sample_machine))"
        sample_cancelled] sample_machine_reachable
    by (simp add: sample_cancelled_def)
qed

theorem cancelled_request_never_activated_witness:
  "fst (activate_request sample_guard 3 sample_cancelled) = Inl (request_cancelled_error False)"
proof -
  let ?m = "(sample_cancelled, snd sample_machine @ [Ph_Done])"
  have "find_cancellable 7 ''r1'' ''s'' (fst sample_machine) = Inr 0"
    "snd (request_cancel 0 (fst sample_machine)) = sample_cancelled"
    "length (rq_controls sample_cancelled) > 0" "rc_cancelled (rq_controls sample_cancelled ! 0)"
    by code_simp+
  moreover from this have "runtime_step sample_machine (fst sample_machine, snd sample_machine @ [Ph_Cancelling 0])"
    using runtime_step.cancel_lookup [of 7 "''r1''" "''s''" "fst sample_machine" 0 "snd sample_machine"] by simp
  ultimately have "runtime_reachable sample_limits ?m"
    using step_last [of "Ph_Cancelling 0" "fst sample_machine" Ph_Done sample_cancelled "snd sample_machine"]
      sample_machine_reachable by (simp; blast intro: runtime_reachable.step)
  from cancelled_request_never_activated [OF this rtranclp.rtrancl_refl, of 0]
  show ?thesis using \<open>rc_cancelled _\<close> \<open>length _ > 0\<close> by (simp add: sample_guard_def)
qed

theorem capacity_comes_back_witness:
  "\<exists>s ths. runtime_step\<^sup>*\<^sup>* sample_machine (s, ths) \<and> rq_requests s = [] \<and> rq_global_capacity s = 2"
  using capacity_comes_back [OF sample_limits_new sample_machine_reachable] by blast

end
