(* ===== verification/Masked_Cursors.thy ===== *)
theory Masked_Cursors
  imports Runtime_Rules
begin

text \<open>
  The registry of masked cursors (\<open>MaskedCursorRegistry\<close> in \<open>connector-runtime/src/runtime.rs\<close>).
  Under masked egress a connector's page cursor, which may contain values of masked fields,
  is replaced by a random token bound to the connection, session, tool and target. The
  clock and the sequence of random UUIDs are parameters; the loop that draws a fresh token
  is a partial function, and it is proved to return.
\<close>

definition MASKED_CURSOR_TTL :: int where
  "MASKED_CURSOR_TTL = 15 * 60 * nanos_per_second"

definition MASKED_CURSOR_CAPACITY :: nat where
  "MASKED_CURSOR_CAPACITY = 1024"

record MaskedCursor =
  mc_connection_id :: ConnectionId
  mc_session_id :: string
  mc_tool :: string
  mc_target :: "string option"
  mc_connector_cursor :: string
  mc_expires_at :: Instant

type_synonym MaskedCursorRegistry = "(string, MaskedCursor) hashmap"

definition unexpired :: "Instant \<Rightarrow> MaskedCursorRegistry \<Rightarrow> MaskedCursorRegistry" where
  "unexpired now entries = hm_retain (\<lambda>_ cursor. mc_expires_at cursor > now) entries"

definition cursor_resolve ::
  "Instant \<Rightarrow> string \<Rightarrow> ConnectionId \<Rightarrow> string \<Rightarrow> string \<Rightarrow> string option \<Rightarrow> MaskedCursorRegistry
     \<Rightarrow> (RuntimeError + string) \<times> MaskedCursorRegistry" where
  "cursor_resolve now token connection_id session_id tool target entries =
     (let entries = unexpired now entries;
          invalid = RT_InvalidRequest ''cursor is invalid, expired, or does not belong to this operation'' in
      (case hm_get entries token of
         Some cursor \<Rightarrow>
           if mc_connection_id cursor = connection_id \<and> mc_session_id cursor = session_id \<and>
              mc_tool cursor = tool \<and> mc_target cursor = target
           then Inr (mc_connector_cursor cursor) else Inl invalid
       | None \<Rightarrow> Inl invalid, entries))"

partial_function (option) fresh_token ::
  "(nat \<Rightarrow> string) \<Rightarrow> MaskedCursorRegistry \<Rightarrow> nat \<Rightarrow> string option" where
  "fresh_token uuids entries n =
     (if hm_get entries (uuids n) = None then Some (uuids n) else fresh_token uuids entries (Suc n))"

declare fresh_token.simps [code]

definition evict_oldest :: "MaskedCursorRegistry \<Rightarrow> MaskedCursorRegistry" where
  "evict_oldest entries =
     (if length entries \<ge> MASKED_CURSOR_CAPACITY then
        (case min_by_key (\<lambda>(_, cursor). mc_expires_at cursor) entries of
           Some (oldest, _) \<Rightarrow> hm_remove oldest entries
         | None \<Rightarrow> entries)
      else entries)"

definition cursor_insert ::
  "Instant \<Rightarrow> (nat \<Rightarrow> string) \<Rightarrow> ConnectionId \<Rightarrow> string \<Rightarrow> string \<Rightarrow> string option \<Rightarrow> string
     \<Rightarrow> MaskedCursorRegistry \<Rightarrow> (string \<times> MaskedCursorRegistry) option" where
  "cursor_insert now uuids connection_id session_id tool target connector_cursor entries =
     (let entries = evict_oldest (unexpired now entries) in
      case fresh_token uuids entries 0 of
        None \<Rightarrow> None
      | Some token \<Rightarrow>
          Some (token, hm_insert token \<lparr>mc_connection_id = connection_id, mc_session_id = session_id,
            mc_tool = tool, mc_target = target, mc_connector_cursor = connector_cursor,
            mc_expires_at = now + MASKED_CURSOR_TTL\<rparr> entries))"

definition operation_cursor :: "DataOperation \<Rightarrow> string option" where
  "operation_cursor operation =
     (case operation of
        Op_Read request \<Rightarrow> qo_cursor (rd_options request)
      | Op_Search request \<Rightarrow> qo_cursor (se_options request)
      | _ \<Rightarrow> None)"

definition set_operation_cursor :: "string \<Rightarrow> DataOperation \<Rightarrow> DataOperation" where
  "set_operation_cursor cursor operation =
     (case operation of
        Op_Read request \<Rightarrow> Op_Read (request\<lparr>rd_options := (rd_options request)\<lparr>qo_cursor := Some cursor\<rparr>\<rparr>)
      | Op_Search request \<Rightarrow> Op_Search (request\<lparr>se_options := (se_options request)\<lparr>qo_cursor := Some cursor\<rparr>\<rparr>)
      | _ \<Rightarrow> operation)"

definition resolve_masked_cursor ::
  "Instant \<Rightarrow> ConnectionId \<Rightarrow> string \<Rightarrow> string \<Rightarrow> string option \<Rightarrow> DataOperation \<Rightarrow> MaskedCursorRegistry
     \<Rightarrow> (RuntimeError + DataOperation) \<times> MaskedCursorRegistry" where
  "resolve_masked_cursor now connection_id session_id tool target operation entries =
     (case operation_cursor operation of
        None \<Rightarrow> (Inr operation, entries)
      | Some token \<Rightarrow>
          (case cursor_resolve now token connection_id session_id tool target entries of
             (Inl e, entries) \<Rightarrow> (Inl e, entries)
           | (Inr connector_cursor, entries) \<Rightarrow>
               (Inr (set_operation_cursor connector_cursor operation), entries)))"

definition protect_masked_cursor ::
  "Instant \<Rightarrow> (nat \<Rightarrow> string) \<Rightarrow> ConnectionId \<Rightarrow> string \<Rightarrow> string \<Rightarrow> string option \<Rightarrow> OperationResult
     \<Rightarrow> MaskedCursorRegistry \<Rightarrow> (OperationResult \<times> MaskedCursorRegistry) option" where
  "protect_masked_cursor now uuids connection_id session_id tool target result entries =
     (case or_next_cursor result of
        None \<Rightarrow> Some (result, entries)
      | Some connector_cursor \<Rightarrow>
          map_option (\<lambda>(token, entries). (result\<lparr>or_next_cursor := Some token\<rparr>, entries))
            (cursor_insert now uuids connection_id session_id tool target connector_cursor entries))"

definition clear_masked_cursors :: "ConnectionId \<Rightarrow> MaskedCursorRegistry \<Rightarrow> MaskedCursorRegistry" where
  "clear_masked_cursors connection_id entries =
     hm_retain (\<lambda>_ cursor. mc_connection_id cursor \<noteq> connection_id) entries"

section \<open>Invariant\<close>

definition registry_ok :: "MaskedCursorRegistry \<Rightarrow> bool" where
  "registry_ok entries \<longleftrightarrow> hm_wf entries \<and> length entries \<le> MASKED_CURSOR_CAPACITY"

lemma registry_ok_retain: "registry_ok entries \<Longrightarrow> registry_ok (hm_retain P entries)"
  using hm_length_retain [of P entries] by (auto simp: registry_ok_def hm_wf_retain)

lemma evict_oldest_full:
  assumes "MASKED_CURSOR_CAPACITY \<le> length entries"
  shows "\<exists>token cursor. (token, cursor) \<in> set entries \<and>
    (\<forall>(token', cursor') \<in> set entries. mc_expires_at cursor \<le> mc_expires_at cursor') \<and>
    evict_oldest entries = hm_remove token entries"
proof -
  have "entries \<noteq> []" using assms by (auto simp: MASKED_CURSOR_CAPACITY_def)
  then obtain token cursor where m: "min_by_key (\<lambda>(_, cursor). mc_expires_at cursor) entries = Some (token, cursor)"
    "(token, cursor) \<in> set entries" "\<forall>(_, cursor') \<in> set entries. mc_expires_at cursor \<le> mc_expires_at cursor'"
    by (rule min_by_key_entry [of entries mc_expires_at])
  then have "evict_oldest entries = hm_remove token entries" using assms by (simp add: evict_oldest_def)
  with m(2,3) show ?thesis by blast
qed

interpretation cursors: expiring_table mc_expires_at MASKED_CURSOR_CAPACITY unexpired evict_oldest
proof
  show "0 < MASKED_CURSOR_CAPACITY" by (simp add: MASKED_CURSOR_CAPACITY_def)
qed (simp_all add: unexpired_def evict_oldest_full, simp add: evict_oldest_def)

lemma evict_oldest_ok:
  "registry_ok entries \<Longrightarrow> hm_wf (evict_oldest entries) \<and> length (evict_oldest entries) < MASKED_CURSOR_CAPACITY"
  by (simp add: registry_ok_def cursors.make_room_wf cursors.make_room_length)

text \<open>
  The loop returns: with distinct UUIDs, at most as many draws fail as there are entries.
\<close>

lemma fresh_token_found:
  "hm_get entries (uuids (n + k)) = None \<Longrightarrow>
     \<exists>token. fresh_token uuids entries n = Some token \<and> hm_get entries token = None \<and> token \<in> range uuids"
proof (induction k arbitrary: n)
  case 0
  then show ?case by (subst fresh_token.simps) simp
next
  case (Suc k)
  then show ?case
    by (subst fresh_token.simps) (cases "hm_get entries (uuids n) = None", simp_all)
qed

lemma fresh_token_returns:
  assumes "inj uuids"
  shows "\<exists>token. fresh_token uuids entries 0 = Some token \<and> hm_get entries token = None"
proof -
  have "infinite (range uuids)" using assms by (simp add: finite_image_iff)
  then have "\<not> range uuids \<subseteq> fst ` set entries" by (meson List.finite_set finite_imageI finite_subset)
  then obtain k where "uuids k \<notin> fst ` set entries" by auto
  then have "hm_get entries (uuids (0 + k)) = None" by (simp add: hm_get_def map_of_eq_None_iff)
  from fresh_token_found [of entries uuids 0 k, OF this] show ?thesis by blast
qed

lemma cursor_insert_ok:
  assumes "registry_ok entries" "inj uuids"
  obtains token entries' where
    "cursor_insert now uuids cid sid tool target cursor entries = Some (token, entries')"
    "registry_ok entries'" "hm_get (evict_oldest (unexpired now entries)) token = None"
    "entries' = hm_insert token \<lparr>mc_connection_id = cid, mc_session_id = sid, mc_tool = tool,
      mc_target = target, mc_connector_cursor = cursor, mc_expires_at = now + MASKED_CURSOR_TTL\<rparr>
      (evict_oldest (unexpired now entries))"
proof -
  let ?entries = "evict_oldest (unexpired now entries)"
  obtain token where token: "fresh_token uuids ?entries 0 = Some token" "hm_get ?entries token = None"
    using fresh_token_returns [OF assms(2)] by blast
  have ok: "hm_wf ?entries \<and> length ?entries < MASKED_CURSOR_CAPACITY"
    unfolding unexpired_def by (rule evict_oldest_ok [OF registry_ok_retain [OF assms(1)]])
  show ?thesis
  proof (rule that)
    show "cursor_insert now uuids cid sid tool target cursor entries = Some (token, hm_insert token
      \<lparr>mc_connection_id = cid, mc_session_id = sid, mc_tool = tool, mc_target = target,
       mc_connector_cursor = cursor, mc_expires_at = now + MASKED_CURSOR_TTL\<rparr> ?entries)"
      by (simp add: cursor_insert_def token Let_def)
    show "registry_ok (hm_insert token \<lparr>mc_connection_id = cid, mc_session_id = sid, mc_tool = tool,
       mc_target = target, mc_connector_cursor = cursor, mc_expires_at = now + MASKED_CURSOR_TTL\<rparr> ?entries)"
      using ok by (simp add: registry_ok_def hm_wf_insert hm_length_insert_new token(2))
  qed (simp_all add: token)
qed



end
