(* ===== verification/Registry.thy ===== *)
theory Registry
  imports Runtime_Rules "HOL-Library.Product_Lexorder" "HOL-Library.Multiset"
begin

text \<open>
  The connector registry (\<open>connector-runtime/src/registry.rs\<close>): connectors by product and
  canonical API mode. A connector is a value of type \<open>'c\<close>, known through its \<open>manifest\<close>.
\<close>

record 'c ConnectorRegistry =
  reg_connectors :: "(Product \<times> string, 'c) hashmap"

definition ConnectorRegistry_new :: "'c ConnectorRegistry" where
  "ConnectorRegistry_new = \<lparr>reg_connectors = []\<rparr>"

definition registry_key :: "ConnectorManifest \<Rightarrow> Product \<times> string" where
  "registry_key manifest = (mf_product manifest, canonical_api_mode (mf_product manifest) (mf_api_mode manifest))"

definition register ::
  "('c \<Rightarrow> ConnectorManifest) \<Rightarrow> 'c \<Rightarrow> 'c ConnectorRegistry \<Rightarrow> (RuntimeError + unit) \<times> 'c ConnectorRegistry" where
  "register manifest connector registry =
     (let key = registry_key (manifest connector);
          previous = hm_get (reg_connectors registry) key;
          registry = registry\<lparr>reg_connectors := hm_insert key connector (reg_connectors registry)\<rparr> in
      (case previous of
         Some _ \<Rightarrow> Inl (RT_DuplicateConnector (fst key) (snd key))
       | None \<Rightarrow> Inr (), registry))"

definition resolve :: "Product \<Rightarrow> string \<Rightarrow> 'c ConnectorRegistry \<Rightarrow> RuntimeError + 'c" where
  "resolve product api_mode registry =
     ok_or
       (hm_get (reg_connectors registry) (product, canonical_api_mode product api_mode))
       (RT_ConnectorNotFound product api_mode)"

definition manifests :: "('c \<Rightarrow> ConnectorManifest) \<Rightarrow> 'c ConnectorRegistry \<Rightarrow> ConnectorManifest list" where
  "manifests manifest registry =
     sort_key (\<lambda>m. (mf_product m, mf_api_mode m)) (map (\<lambda>(_, c). manifest c) (reg_connectors registry))"

text \<open>The connectors told to drop the cached clients of a connection, and the fan-out snapshot.\<close>

definition registry_invalidate_connection :: "ConnectionId \<Rightarrow> 'c ConnectorRegistry \<Rightarrow> ('c \<times> ConnectionId) list" where
  "registry_invalidate_connection connection_id registry =
     map (\<lambda>(_, c). (c, connection_id)) (reg_connectors registry)"

definition registry_all :: "'c ConnectorRegistry \<Rightarrow> 'c list" where
  "registry_all registry = map snd (reg_connectors registry)"

definition connectors_ok :: "('c \<Rightarrow> ConnectorManifest) \<Rightarrow> 'c ConnectorRegistry \<Rightarrow> bool" where
  "connectors_ok manifest registry \<longleftrightarrow> hm_wf (reg_connectors registry) \<and>
     (\<forall>key c. hm_get (reg_connectors registry) key = Some c \<longrightarrow> registry_key (manifest c) = key)"

lemma connectors_ok_new: "connectors_ok manifest ConnectorRegistry_new"
  by (simp add: connectors_ok_def ConnectorRegistry_new_def)

lemma connectors_ok_register:
  "connectors_ok manifest registry \<Longrightarrow> connectors_ok manifest (snd (register manifest connector registry))"
  by (auto simp: connectors_ok_def register_def Let_def hm_wf_insert hm_get_insert)

text \<open>A connector is found under its product and every spelling of its mode, and under no other.\<close>

lemma resolve_register:
  "register manifest connector registry = (r, registry') \<Longrightarrow>
     resolve product mode registry' =
       (if (product, canonical_api_mode product mode) = registry_key (manifest connector) then Inr connector
        else resolve product mode registry)"
  by (auto simp: register_def resolve_def Let_def hm_get_insert split: option.splits)

lemma resolved_manifest:
  "connectors_ok manifest registry \<Longrightarrow> resolve product mode registry = Inr connector \<Longrightarrow>
     mf_product (manifest connector) = product \<and>
     canonical_api_mode product (mf_api_mode (manifest connector)) = canonical_api_mode product mode"
  by (auto simp: resolve_def connectors_ok_def registry_key_def res_simps ok_or_eq_Inr)

text \<open>
  A duplicate registration answers with an error, and has replaced the connector that was
  registered first all the same.
\<close>

lemma register_duplicate_replaces:
  assumes "resolve (mf_product (manifest connector)) (mf_api_mode (manifest connector)) registry = Inr old"
  shows "register manifest connector registry = (r, registry') \<Longrightarrow> \<not> is_ok r \<and>
    resolve (mf_product (manifest connector)) (mf_api_mode (manifest connector)) registry' = Inr connector"
  using assms by (auto simp: register_def resolve_def registry_key_def Let_def hm_get_insert ok_or_eq_Inr
      split: option.splits)

lemma manifests_complete:
  "mset (manifests manifest registry) = mset (map manifest (registry_all registry)) \<and>
   sorted (map (\<lambda>m. (mf_product m, mf_api_mode m)) (manifests manifest registry))"
  by (simp add: manifests_def registry_all_def comp_def case_prod_unfold)

end
