(* ===== verification/Profile_Store.thy ===== *)
theory Profile_Store
  imports Store_Error
begin

text \<open>
  \<open>crates/connector-store/src/profile.rs\<close>: connection profiles without their secrets, and
  the revision counters by which other processes learn of changes. Parameters, gathered
  in \<open>profile_env\<close>: \<open>Glob::new\<close> (its error text, or success) and the JSON texts of a
  profile and of a product. The time columns, which SQLite fills and nothing reads, are
  left out.
\<close>

definition SENSITIVE_QUERY_KEYS :: "string list" where
  "SENSITIVE_QUERY_KEYS =
     [''access_key'', ''api_key'', ''apikey'', ''credential'', ''key'', ''password'', ''secret'',
      ''sig'', ''signature'', ''token'']"

record profile_env =
  pe_glob_new :: "string \<Rightarrow> string + unit"
  pe_encode :: "ConnectionProfile \<Rightarrow> string + string"
  pe_decode :: "string \<Rightarrow> string + ConnectionProfile"
  pe_product :: "Product \<Rightarrow> string + string"

record ProfileRow =
  pw_display_name :: string
  pw_product :: string
  pw_api_mode :: string
  pw_profile_json :: string

record ProfileRepository =
  pf_profiles :: "(ConnectionId, ProfileRow) hashmap"
  pf_revisions :: "(ConnectionId, int) hashmap"

definition validate_rule :: "profile_env \<Rightarrow> ResourceRule \<Rightarrow> StoreError + unit" where
  "validate_rule pe rule =
     (if trim (rule_pattern rule) = [] then
        Inl (Store_InvalidProfile ''policy resource patterns must not be empty'')
      else
        bind_res (map_err (\<lambda>error. Store_InvalidProfile (''policy resource pattern `''
            @ rule_pattern rule @ ''` is invalid: '' @ error)) (pe_glob_new pe (rule_pattern rule)))
        (\<lambda>_. if list_ex (\<lambda>f. f = []) (rule_masked_fields rule) then
            Inl (Store_InvalidProfile ''policy masked field paths must not be empty'')
          else Inr ()))"

definition validate_profile :: "profile_env \<Rightarrow> ConnectionProfile \<Rightarrow> StoreError + unit" where
  "validate_profile pe profile =
     (if trim (pr_display_name profile) = [] then
        Inl (Store_InvalidProfile ''display_name must not be empty'')
      else if trim (pr_api_mode profile) = [] then
        Inl (Store_InvalidProfile ''api_mode must not be empty'')
      else if trim (pr_secret_ref profile) = [] then
        Inl (Store_InvalidProfile ''secret_ref must not be empty'')
      else if url_username (pr_endpoint profile) \<noteq> [] \<or> url_password (pr_endpoint profile) \<noteq> None then
        Inl (Store_InvalidProfile
          ''endpoint must not contain credentials; store them in the OS credential store'')
      else if list_ex (\<lambda>(key, _). list_ex (str_contains (to_ascii_lowercase key)) SENSITIVE_QUERY_KEYS)
          (url_query_pairs (pr_endpoint profile)) then
        Inl (Store_InvalidProfile ''endpoint query must not contain credentials or tokens'')
      else if tls_enabled (pr_tls profile) \<and> \<not> tls_verify_server_certificate (pr_tls profile) then
        Inl (Store_InvalidProfile ''TLS certificate verification cannot be disabled'')
      else if pol_max_rows (pr_policy profile) = 0 \<or> pol_max_bytes (pr_policy profile) = 0
          \<or> pol_timeout_ms (pr_policy profile) = 0 \<or> pol_max_affected (pr_policy profile) = 0 then
        Inl (Store_InvalidProfile ''policy limits must be greater than zero'')
      else map_res (\<lambda>_. ()) (map_results (validate_rule pe) (pol_resources (pr_policy profile))))"

definition bump_revision :: "ConnectionId \<Rightarrow> ProfileRepository \<Rightarrow> ProfileRepository" where
  "bump_revision cid db = db\<lparr>pf_revisions :=
     hm_insert cid (case hm_get (pf_revisions db) cid of None \<Rightarrow> 1 | Some r \<Rightarrow> r + 1)
       (pf_revisions db)\<rparr>"

definition trim_quotes :: "string \<Rightarrow> string" where
  "trim_quotes s = rev (dropWhile (\<lambda>c. c = CHR 0x22) (rev (dropWhile (\<lambda>c. c = CHR 0x22) s)))"

definition upsert ::
  "profile_env \<Rightarrow> ConnectionProfile \<Rightarrow> ProfileRepository \<Rightarrow> (StoreError + unit) \<times> ProfileRepository" where
  "upsert pe profile db =
     (case bind_res (validate_profile pe profile) (\<lambda>_.
           bind_res (map_err Store_Serialization (pe_encode pe profile)) (\<lambda>encoded.
           bind_res (map_err Store_Serialization (pe_product pe (pr_product profile))) (\<lambda>product.
           Inr \<lparr>pw_display_name = pr_display_name profile, pw_product = trim_quotes product,
                pw_api_mode = pr_api_mode profile, pw_profile_json = encoded\<rparr>))) of
        Inl e \<Rightarrow> (Inl e, db)
      | Inr row \<Rightarrow> (Inr (), bump_revision (pr_id profile)
          (db\<lparr>pf_profiles := hm_insert (pr_id profile) row (pf_profiles db)\<rparr>)))"

definition get_profile ::
  "profile_env \<Rightarrow> ConnectionId \<Rightarrow> ProfileRepository \<Rightarrow> StoreError + ConnectionProfile" where
  "get_profile pe cid db =
     bind_res (ok_or (hm_get (pf_profiles db) cid) Store_NotFound) (\<lambda>row.
     map_err Store_Serialization (pe_decode pe (pw_profile_json row)))"

definition list_profiles ::
  "profile_env \<Rightarrow> ProfileRepository \<Rightarrow> StoreError + ConnectionProfile list" where
  "list_profiles pe db =
     map_results (\<lambda>row. map_err Store_Serialization (pe_decode pe (pw_profile_json row)))
       (sort_key (\<lambda>row. to_ascii_lowercase (pw_display_name row)) (map snd (pf_profiles db)))"

definition list_connections ::
  "profile_env \<Rightarrow> ProfileRepository \<Rightarrow> StoreError + SanitizedConnection list" where
  "list_connections pe db =
     map_results (\<lambda>row. bind_res (map_err Store_Serialization (pe_decode pe (pw_profile_json row)))
         (\<lambda>profile. Inr (SanitizedConnection_from profile)))
       (sort_key (\<lambda>row. to_ascii_lowercase (pw_display_name row)) (map snd (pf_profiles db)))"

definition delete_profile ::
  "ConnectionId \<Rightarrow> ProfileRepository \<Rightarrow> (StoreError + unit) \<times> ProfileRepository" where
  "delete_profile cid db =
     (if hm_get (pf_profiles db) cid = None then (Inl Store_NotFound, db)
      else (Inr (), bump_revision cid (db\<lparr>pf_profiles := hm_remove cid (pf_profiles db)\<rparr>)))"

definition notify_changed :: "ConnectionId \<Rightarrow> ProfileRepository \<Rightarrow> ProfileRepository" where
  "notify_changed cid db = bump_revision cid db"

definition connection_revisions ::
  "ProfileRepository \<Rightarrow> StoreError + (ConnectionId \<times> u64) list" where
  "connection_revisions db =
     map_results (\<lambda>(cid, revision).
         if revision < 0 then
           Inl (Store_InvalidProfile ''stored connection revision must not be negative'')
         else Inr (cid, word_of_int revision))
       (sort_key fst (pf_revisions db))"

section \<open>What the repository guarantees\<close>

definition revision_of :: "ProfileRepository \<Rightarrow> ConnectionId \<Rightarrow> int" where
  "revision_of db cid = (case hm_get (pf_revisions db) cid of None \<Rightarrow> 0 | Some r \<Rightarrow> r)"

lemma revision_of_bump [simp]:
  "revision_of (bump_revision cid db) cid' = revision_of db cid' + (if cid' = cid then 1 else 0)"
  by (auto simp: revision_of_def bump_revision_def hm_get_insert split: option.splits)

lemma revision_of_profiles [simp]: "revision_of (db\<lparr>pf_profiles := m\<rparr>) cid = revision_of db cid"
  by (simp add: revision_of_def)

lemma pf_profiles_bump [simp]: "pf_profiles (bump_revision cid db) = pf_profiles db"
  by (simp add: bump_revision_def)

text \<open>The profiles that validation admits: nothing secret in the endpoint, verified TLS,
  positive limits, patterns the glob library accepts.\<close>

definition profile_admissible :: "profile_env \<Rightarrow> ConnectionProfile \<Rightarrow> bool" where
  "profile_admissible pe p \<longleftrightarrow>
     trim (pr_display_name p) \<noteq> [] \<and> trim (pr_api_mode p) \<noteq> [] \<and> trim (pr_secret_ref p) \<noteq> [] \<and>
     url_username (pr_endpoint p) = [] \<and> url_password (pr_endpoint p) = None \<and>
     (\<forall>(key, v) \<in> set (url_query_pairs (pr_endpoint p)). \<forall>word \<in> set SENSITIVE_QUERY_KEYS.
        \<not> str_contains (to_ascii_lowercase key) word) \<and>
     (tls_enabled (pr_tls p) \<longrightarrow> tls_verify_server_certificate (pr_tls p)) \<and>
     0 < pol_max_rows (pr_policy p) \<and> 0 < pol_max_bytes (pr_policy p) \<and>
     0 < pol_timeout_ms (pr_policy p) \<and> 0 < pol_max_affected (pr_policy p) \<and>
     (\<forall>rule \<in> set (pol_resources (pr_policy p)). trim (rule_pattern rule) \<noteq> [] \<and>
        pe_glob_new pe (rule_pattern rule) = Inr () \<and> [] \<notin> set (rule_masked_fields rule))"

lemma validate_rule_iff:
  "validate_rule pe rule = Inr () \<longleftrightarrow> trim (rule_pattern rule) \<noteq> [] \<and>
     pe_glob_new pe (rule_pattern rule) = Inr () \<and> [] \<notin> set (rule_masked_fields rule)"
  by (auto simp: validate_rule_def res_simps list_ex_iff)

lemma map_results_unit:
  "(\<exists>us. map_results f xs = Inr us) \<longleftrightarrow> (\<forall>x \<in> set xs. \<exists>u. f x = Inr u)"
  by (induction xs) (auto simp: res_simps)

lemma validate_profile_iff: "validate_profile pe p = Inr () \<longleftrightarrow> profile_admissible pe p"
proof -
  have rules: "(\<exists>us. map_results (validate_rule pe) rules = Inr us) \<longleftrightarrow>
      (\<forall>rule \<in> set rules. validate_rule pe rule = Inr ())" for rules
    by (simp add: map_results_unit)
  show ?thesis
    by (auto simp: validate_profile_def profile_admissible_def rules validate_rule_iff res_simps
        list_ex_iff word_gt_0 split: if_splits)
qed

lemma upsert_Inr:
  "upsert pe p db = (Inr (), db') \<longleftrightarrow> profile_admissible pe p \<and>
     (\<exists>encoded product. pe_encode pe p = Inr encoded \<and> pe_product pe (pr_product p) = Inr product \<and>
        db' = bump_revision (pr_id p) (db\<lparr>pf_profiles := hm_insert (pr_id p)
          \<lparr>pw_display_name = pr_display_name p, pw_product = trim_quotes product,
           pw_api_mode = pr_api_mode p, pw_profile_json = encoded\<rparr> (pf_profiles db)\<rparr>))"
  by (auto simp: upsert_def res_simps validate_profile_iff validate_profile_iff [THEN iffD2]
      split: sum.splits)

lemma upsert_Inl: "upsert pe p db = (Inl e, db') \<Longrightarrow> db' = db"
  by (auto simp: upsert_def split: sum.splits)

definition profile_codec :: "profile_env \<Rightarrow> bool" where
  "profile_codec pe \<longleftrightarrow> (\<forall>p t. pe_encode pe p = Inr t \<longrightarrow> pe_decode pe t = Inr p)"

lemma upsert_get_same:
  assumes "profile_codec pe" "upsert pe p db = (Inr (), db')"
  shows "get_profile pe cid db' = (if cid = pr_id p then Inr p else get_profile pe cid db)"
    and "revision_of db' cid = revision_of db cid + (if cid = pr_id p then 1 else 0)"
  using assms by (auto simp: upsert_Inr get_profile_def hm_get_insert profile_codec_def)

text \<open>
  C12: a profile that was stored is admissible (no credentials in the endpoint or its query,
  verified TLS, positive limits, valid patterns), is what a lookup of its id returns, and
  leaves every other profile as it was; its revision and no other goes up by one. A
  rejected profile leaves the repository unchanged.
\<close>

theorem upsert_get:
  assumes "profile_codec pe"
  shows "(case upsert pe p db of
      (Inr _, db') \<Rightarrow> profile_admissible pe p \<and> get_profile pe (pr_id p) db' = Inr p \<and>
        (\<forall>cid. cid \<noteq> pr_id p \<longrightarrow> get_profile pe cid db' = get_profile pe cid db) \<and>
        (\<forall>cid. revision_of db' cid = revision_of db cid + (if cid = pr_id p then 1 else 0))
    | (Inl _, db') \<Rightarrow> db' = db)"
proof (cases "upsert pe p db")
  case (Pair r db')
  show ?thesis
  proof (cases r)
    case (Inl e)
    with Pair upsert_Inl show ?thesis by fastforce
  next
    case (Inr u)
    with Pair have eq: "upsert pe p db = (Inr (), db')" by simp
    then have "profile_admissible pe p" by (simp add: upsert_Inr)
    with upsert_get_same [OF assms eq] show ?thesis by (simp add: eq)
  qed
qed

text \<open>
  Deleting a profile makes its id unknown and nothing else, and moves its revision on, so
  that a process holding the connection notices; deleting an unknown id is an error
  that changes nothing.
\<close>

theorem delete_then_not_found:
  "(case delete_profile cid db of
      (Inr _, db') \<Rightarrow> hm_get (pf_profiles db) cid \<noteq> None \<and>
        get_profile pe cid db' = Inl Store_NotFound \<and>
        (\<forall>c. c \<noteq> cid \<longrightarrow> get_profile pe c db' = get_profile pe c db) \<and>
        (\<forall>c. revision_of db' c = revision_of db c + (if c = cid then 1 else 0))
    | (Inl e, db') \<Rightarrow> e = Store_NotFound \<and> hm_get (pf_profiles db) cid = None \<and> db' = db)"
  by (auto simp: delete_profile_def get_profile_def hm_get_remove)

section \<open>Sample values\<close>

definition sample_endpoint :: Url where
  "sample_endpoint = \<lparr>url_scheme = ''https'', url_host = Some ''db'', url_username = [],
     url_password = None, url_query_pairs = [(''mode'', ''x'')], url_as_str = ''https://db/?mode=x''\<rparr>"

definition sample_profile :: ConnectionProfile where
  "sample_profile =
     \<lparr>pr_id = 7, pr_display_name = ''Main'', pr_product = PostgreSql, pr_api_mode = ''postgresql'',
      pr_endpoint = sample_endpoint, pr_database = None, pr_tags = [],
      pr_auth_kind = Auth_ApiKey, pr_secret_ref = ''ref'', pr_tls = TlsConfig_default,
      pr_policy = ConnectionPolicy_default, pr_policy_version = 1, pr_expected_version = None,
      pr_options = []\<rparr>"

definition sample_profile_env :: profile_env where
  "sample_profile_env =
     \<lparr>pe_glob_new = (\<lambda>_. Inr ()),
      pe_encode = (\<lambda>p. if p = sample_profile then Inr ''p'' else Inl ''unsupported''),
      pe_decode = (\<lambda>t. Inr sample_profile), pe_product = (\<lambda>_. Inr ''postgre_sql'')\<rparr>"

definition empty_profiles :: ProfileRepository where
  "empty_profiles = \<lparr>pf_profiles = [], pf_revisions = []\<rparr>"

lemma sample_profile_codec: "profile_codec sample_profile_env"
  by (simp add: profile_codec_def sample_profile_env_def)

lemma sample_upsert_ok: "is_ok (fst (upsert sample_profile_env sample_profile empty_profiles))"
  by code_simp

theorem upsert_get_witness:
  "get_profile sample_profile_env 7 (snd (upsert sample_profile_env sample_profile empty_profiles))
     = Inr sample_profile"
  using upsert_get [OF sample_profile_codec, where p = sample_profile and db = empty_profiles] sample_upsert_ok
  by (auto simp: sample_profile_def split: prod.splits sum.splits)

theorem delete_then_not_found_witness:
  "get_profile sample_profile_env 7
     (snd (delete_profile 7 (snd (upsert sample_profile_env sample_profile empty_profiles)))) = Inl Store_NotFound"
proof -
  have "is_ok (fst (delete_profile 7 (snd (upsert sample_profile_env sample_profile empty_profiles))))"
    by code_simp
  with delete_then_not_found [where cid = 7 and pe = sample_profile_env and
      db = "snd (upsert sample_profile_env sample_profile empty_profiles)"]
  show ?thesis by (auto simp: is_ok_iff split: prod.splits sum.splits)
qed

end
