(* ===== verification/Audit_Store.thy ===== *)
theory Audit_Store
  imports Store_Error "HOL-Library.Multiset"
begin

text \<open>
  \<open>crates/connector-store/src/audit.rs\<close>: the audit log, the idempotency records and the
  table of consumed grant nonces, in one SQLite database. Every operation is one
  statement or one immediate transaction, so the calls of all processes on the database
  form one sequence. Libraries are the fields of \<open>audit_env\<close>: the RFC 3339 text of a
  time, the JSON text of an event and SQLite's \<open>json_extract\<close> on such a text.
\<close>

record AuditEvent =
  ev_request_id :: string
  ev_timestamp :: DateTime
  ev_subject :: string
  ev_session_id :: string
  ev_connection_id :: "ConnectionId option"
  ev_tool :: string
  ev_target :: "string option"
  ev_policy_decision :: string
  ev_confirmed :: bool
  ev_elapsed_ms :: u64
  ev_returned :: u64
  ev_affected :: u64
  ev_error_category :: "ErrorCategory option"

record AuditQuery =
  aq_since :: "DateTime option"
  aq_until :: "DateTime option"
  aq_connection_id :: "ConnectionId option"
  aq_subject :: "string option"
  aq_session_id :: "string option"
  aq_tool :: "string option"
  aq_error_category :: "ErrorCategory option"
  aq_limit :: u32

datatype IdempotencyState = InFlight | Succeeded | Unknown

fun state_as_str :: "IdempotencyState \<Rightarrow> string" where
  "state_as_str InFlight = ''in_flight''"
| "state_as_str Succeeded = ''succeeded''"
| "state_as_str Unknown = ''unknown''"

definition state_parse :: "string \<Rightarrow> StoreError + IdempotencyState" where
  "state_parse v =
     (if v = ''in_flight'' then Inr InFlight
      else if v = ''succeeded'' then Inr Succeeded
      else if v = ''unknown'' then Inr Unknown
      else Inl (Store_InvalidIdempotencyRecord (''unsupported state `'' @ v @ ''`'')))"

datatype IdempotencyReservation = Reserved | Existing IdempotencyState | KeyConflict

datatype GrantNonceConsumption = Consumed | Nonce_Replayed | Nonce_Expired

definition default_query_limit :: u32 where
  "default_query_limit = 100"

definition AuditQuery_default :: AuditQuery where
  "AuditQuery_default =
     \<lparr>aq_since = None, aq_until = None, aq_connection_id = None, aq_subject = None,
      aq_session_id = None, aq_tool = None, aq_error_category = None,
      aq_limit = default_query_limit\<rparr>"

record audit_env =
  ae_rfc3339 :: "DateTime \<Rightarrow> string"
  ae_uuid :: "ConnectionId \<Rightarrow> string"
  ae_encode :: "AuditEvent \<Rightarrow> string + string"
  ae_decode :: "string \<Rightarrow> string + AuditEvent"
  ae_json_extract :: "string \<Rightarrow> string \<Rightarrow> string option"
  ae_category :: "ErrorCategory \<Rightarrow> string option"

section \<open>The database\<close>

record AuditRow =
  ar_id :: nat
  ar_request_id :: string
  ar_timestamp :: string
  ar_event_json :: string

record IdempotencyRow =
  ir_operation_hash :: string
  ir_state :: string
  ir_updated_at :: string

text \<open>\<open>db_next_id\<close> is the next value of the \<open>AUTOINCREMENT\<close> column; a nonce row holds
  its expiry and when it was consumed, in milliseconds.\<close>

record AuditRepository =
  db_events :: "AuditRow list"
  db_next_id :: nat
  db_idempotency :: "(ConnectionId \<times> string, IdempotencyRow) hashmap"
  db_nonces :: "(string, int \<times> int) hashmap"

text \<open>
  What \<open>migrate\<close> finds: no \<open>audit_events\<close> table, one of the older layout whose primary
  key is the request id, or the current one; and the other two tables if they exist.
\<close>

datatype events_table =
    No_Events
  | Legacy_Events "(string \<times> string \<times> string) list"
  | Current_Events "AuditRow list" nat

record audit_file =
  af_events :: events_table
  af_idempotency :: "(ConnectionId \<times> string, IdempotencyRow) hashmap option"
  af_nonces :: "(string, int \<times> int) hashmap option"

fun number_rows :: "nat \<Rightarrow> (string \<times> string \<times> string) list \<Rightarrow> AuditRow list" where
  "number_rows n [] = []"
| "number_rows n ((request_id, timestamp, event_json) # rows) =
     \<lparr>ar_id = n, ar_request_id = request_id, ar_timestamp = timestamp,
      ar_event_json = event_json\<rparr> # number_rows (Suc n) rows"

definition migrate :: "audit_file \<Rightarrow> AuditRepository" where
  "migrate file =
     (let (events, next_id) =
        (case af_events file of
           No_Events \<Rightarrow> ([], 1)
         | Legacy_Events rows \<Rightarrow> (number_rows 1 rows, Suc (length rows))
         | Current_Events rows n \<Rightarrow> (rows, n)) in
      \<lparr>db_events = events, db_next_id = next_id,
       db_idempotency = (case af_idempotency file of None \<Rightarrow> [] | Some t \<Rightarrow> t),
       db_nonces = (case af_nonces file of None \<Rightarrow> [] | Some t \<Rightarrow> t)\<rparr>)"

definition saved :: "AuditRepository \<Rightarrow> audit_file" where
  "saved db = \<lparr>af_events = Current_Events (db_events db) (db_next_id db),
     af_idempotency = Some (db_idempotency db), af_nonces = Some (db_nonces db)\<rparr>"

section \<open>Operations\<close>

definition consume_grant_nonce ::
  "DateTime \<Rightarrow> string \<Rightarrow> int \<Rightarrow> AuditRepository \<Rightarrow> GrantNonceConsumption \<times> AuditRepository" where
  "consume_grant_nonce now replay_key expires_at_millis db =
     (let now_millis = timestamp_millis now;
          nonces = hm_retain (\<lambda>_ (expires, _). \<not> expires \<le> now_millis) (db_nonces db) in
      if expires_at_millis \<le> now_millis then (Nonce_Expired, db\<lparr>db_nonces := nonces\<rparr>)
      else case hm_get nonces replay_key of
        None \<Rightarrow> (Consumed,
          db\<lparr>db_nonces := hm_insert replay_key (expires_at_millis, now_millis) nonces\<rparr>)
      | Some _ \<Rightarrow> (Nonce_Replayed, db\<lparr>db_nonces := nonces\<rparr>))"

definition reserve_idempotency ::
  "audit_env \<Rightarrow> DateTime \<Rightarrow> ConnectionId \<Rightarrow> string \<Rightarrow> string \<Rightarrow> AuditRepository
     \<Rightarrow> (StoreError + IdempotencyReservation) \<times> AuditRepository" where
  "reserve_idempotency ae now connection_id idempotency_key operation_hash db =
     (case hm_get (db_idempotency db) (connection_id, idempotency_key) of
        None \<Rightarrow> (Inr Reserved, db\<lparr>db_idempotency := hm_insert (connection_id, idempotency_key)
          \<lparr>ir_operation_hash = operation_hash, ir_state = ''in_flight'',
           ir_updated_at = ae_rfc3339 ae now\<rparr> (db_idempotency db)\<rparr>)
      | Some row \<Rightarrow>
          (if ir_operation_hash row = operation_hash
           then map_res Existing (state_parse (ir_state row)) else Inr KeyConflict, db))"

definition in_flight_row :: "AuditRepository \<Rightarrow> ConnectionId \<Rightarrow> string \<Rightarrow> string \<Rightarrow> IdempotencyRow option"
  where
  "in_flight_row db connection_id idempotency_key operation_hash =
     (case hm_get (db_idempotency db) (connection_id, idempotency_key) of
        None \<Rightarrow> None
      | Some row \<Rightarrow> if ir_operation_hash row = operation_hash \<and> ir_state row = ''in_flight''
          then Some row else None)"

definition release_idempotency ::
  "ConnectionId \<Rightarrow> string \<Rightarrow> string \<Rightarrow> AuditRepository \<Rightarrow> (StoreError + unit) \<times> AuditRepository" where
  "release_idempotency connection_id idempotency_key operation_hash db =
     (case in_flight_row db connection_id idempotency_key operation_hash of
        None \<Rightarrow> (Inl (Store_InvalidIdempotencyRecord
          ''in-flight reservation could not be released''), db)
      | Some _ \<Rightarrow> (Inr (), db\<lparr>db_idempotency :=
          hm_remove (connection_id, idempotency_key) (db_idempotency db)\<rparr>))"

definition update_idempotency_state ::
  "audit_env \<Rightarrow> DateTime \<Rightarrow> ConnectionId \<Rightarrow> string \<Rightarrow> string \<Rightarrow> IdempotencyState \<Rightarrow> AuditRepository
     \<Rightarrow> (StoreError + unit) \<times> AuditRepository" where
  "update_idempotency_state ae now connection_id idempotency_key operation_hash state db =
     (case in_flight_row db connection_id idempotency_key operation_hash of
        None \<Rightarrow> (Inl (Store_InvalidIdempotencyRecord
          ''in-flight reservation could not be updated''), db)
      | Some row \<Rightarrow> (Inr (), db\<lparr>db_idempotency := hm_insert (connection_id, idempotency_key)
          (row\<lparr>ir_state := state_as_str state, ir_updated_at := ae_rfc3339 ae now\<rparr>)
          (db_idempotency db)\<rparr>))"

definition mark_idempotency_succeeded ::
  "audit_env \<Rightarrow> DateTime \<Rightarrow> ConnectionId \<Rightarrow> string \<Rightarrow> string \<Rightarrow> AuditRepository
     \<Rightarrow> (StoreError + unit) \<times> AuditRepository" where
  "mark_idempotency_succeeded ae now connection_id idempotency_key operation_hash =
     update_idempotency_state ae now connection_id idempotency_key operation_hash Succeeded"

definition mark_idempotency_unknown ::
  "audit_env \<Rightarrow> DateTime \<Rightarrow> ConnectionId \<Rightarrow> string \<Rightarrow> string \<Rightarrow> AuditRepository
     \<Rightarrow> (StoreError + unit) \<times> AuditRepository" where
  "mark_idempotency_unknown ae now connection_id idempotency_key operation_hash =
     update_idempotency_state ae now connection_id idempotency_key operation_hash Unknown"

definition append_event ::
  "audit_env \<Rightarrow> AuditEvent \<Rightarrow> AuditRepository \<Rightarrow> (StoreError + unit) \<times> AuditRepository" where
  "append_event ae event db =
     (case ae_encode ae event of
        Inl e \<Rightarrow> (Inl (Store_Serialization e), db)
      | Inr encoded \<Rightarrow> (Inr (),
          db\<lparr>db_events := db_events db @
               [\<lparr>ar_id = db_next_id db, ar_request_id = ev_request_id event,
                 ar_timestamp = ae_rfc3339 ae (ev_timestamp event), ar_event_json = encoded\<rparr>],
             db_next_id := Suc (db_next_id db)\<rparr>))"

definition sql_filter :: "'a option \<Rightarrow> ('a \<Rightarrow> bool) \<Rightarrow> bool" where
  "sql_filter parameter test = (case parameter of None \<Rightarrow> True | Some v \<Rightarrow> test v)"

definition row_matches :: "audit_env \<Rightarrow> AuditQuery \<Rightarrow> AuditRow \<Rightarrow> bool" where
  "row_matches ae q row \<longleftrightarrow>
     (let extract = ae_json_extract ae (ar_event_json row) in
     sql_filter (map_option (ae_rfc3339 ae) (aq_since q)) (\<lambda>v. v \<le> ar_timestamp row) \<and>
     sql_filter (map_option (ae_rfc3339 ae) (aq_until q)) (\<lambda>v. ar_timestamp row \<le> v) \<and>
     sql_filter (map_option (ae_uuid ae) (aq_connection_id q))
       (\<lambda>v. extract ''$.connection_id'' = Some v) \<and>
     sql_filter (aq_subject q) (\<lambda>v. extract ''$.subject'' = Some v) \<and>
     sql_filter (aq_session_id q) (\<lambda>v. extract ''$.session_id'' = Some v) \<and>
     sql_filter (aq_tool q) (\<lambda>v. extract ''$.tool'' = Some v) \<and>
     sql_filter (Option.bind (aq_error_category q) (ae_category ae))
       (\<lambda>v. extract ''$.error_category'' = Some v))"

definition clamp :: "u32 \<Rightarrow> u32 \<Rightarrow> u32 \<Rightarrow> u32" where
  "clamp v lo hi = (if v < lo then lo else if v > hi then hi else v)"

definition query :: "audit_env \<Rightarrow> AuditQuery \<Rightarrow> AuditRepository \<Rightarrow> StoreError + AuditEvent list" where
  "query ae q db =
     (let rows = rev (sort_key ar_timestamp (sort_key ar_id
        (filter (row_matches ae q) (db_events db)))) in
      map_results (\<lambda>row. map_err Store_Serialization (ae_decode ae (ar_event_json row)))
        (take (unat (clamp (aq_limit q) 1 1000)) rows))"

definition nanos_per_day :: int where
  "nanos_per_day = 86400 * nanos_per_second"

definition purge_older_than ::
  "audit_env \<Rightarrow> DateTime \<Rightarrow> int \<Rightarrow> AuditRepository \<Rightarrow> nat \<times> AuditRepository" where
  "purge_older_than ae now retention_days db =
     (let cutoff = ae_rfc3339 ae (now - retention_days * nanos_per_day);
          kept = filter (\<lambda>row. \<not> ar_timestamp row < cutoff) (db_events db) in
      (length (db_events db) - length kept, db\<lparr>db_events := kept\<rparr>))"

section \<open>Sequences of calls\<close>

text \<open>A call on the database by any process, and its answer.\<close>

datatype AuditCall =
    Call_Consume DateTime string int
  | Call_Reserve DateTime ConnectionId string string
  | Call_Succeeded DateTime ConnectionId string string
  | Call_Unknown DateTime ConnectionId string string
  | Call_Release ConnectionId string string
  | Call_Append AuditEvent
  | Call_Purge DateTime int

datatype AuditReply =
    Reply_Consume GrantNonceConsumption
  | Reply_Reserve "StoreError + IdempotencyReservation"
  | Reply_Unit "StoreError + unit"
  | Reply_Purge nat

fun audit_call :: "audit_env \<Rightarrow> AuditCall \<Rightarrow> AuditRepository \<Rightarrow> AuditReply \<times> AuditRepository" where
  "audit_call ae (Call_Consume now k e) db = apfst Reply_Consume (consume_grant_nonce now k e db)"
| "audit_call ae (Call_Reserve now c k h) db =
     apfst Reply_Reserve (reserve_idempotency ae now c k h db)"
| "audit_call ae (Call_Succeeded now c k h) db =
     apfst Reply_Unit (mark_idempotency_succeeded ae now c k h db)"
| "audit_call ae (Call_Unknown now c k h) db =
     apfst Reply_Unit (mark_idempotency_unknown ae now c k h db)"
| "audit_call ae (Call_Release c k h) db = apfst Reply_Unit (release_idempotency c k h db)"
| "audit_call ae (Call_Append event) db = apfst Reply_Unit (append_event ae event db)"
| "audit_call ae (Call_Purge now days) db = apfst Reply_Purge (purge_older_than ae now days db)"

fun audit_run ::
  "audit_env \<Rightarrow> AuditCall list \<Rightarrow> AuditRepository \<Rightarrow> (AuditCall \<times> AuditReply) list \<times> AuditRepository"
  where
  "audit_run ae [] db = ([], db)"
| "audit_run ae (c # cs) db =
     (let (reply, db') = audit_call ae c db; (log, db'') = audit_run ae cs db' in
      ((c, reply) # log, db''))"

text \<open>The well-formed databases: unique keys, and a state the \<open>CHECK\<close> constraint admits.\<close>

definition audit_wf :: "AuditRepository \<Rightarrow> bool" where
  "audit_wf db \<longleftrightarrow> hm_wf (db_idempotency db) \<and> hm_wf (db_nonces db) \<and>
     (\<forall>k row. hm_get (db_idempotency db) k = Some row \<longrightarrow>
        ir_state row \<in> {''in_flight'', ''succeeded'', ''unknown''})"

lemma state_parse_as_str: "state_parse (state_as_str s) = Inr s"
  by (cases s) (simp_all add: state_parse_def)

lemma state_as_str_in [simp]: "state_as_str s \<in> {''in_flight'', ''succeeded'', ''unknown''}"
  by (cases s) simp_all

lemma in_flight_row_Some:
  "in_flight_row db c k h = Some row \<longleftrightarrow>
     hm_get (db_idempotency db) (c, k) = Some row \<and> ir_operation_hash row = h \<and>
     ir_state row = ''in_flight''"
  by (auto simp: in_flight_row_def split: option.splits)

lemmas idempotency_defs =
  reserve_idempotency_def release_idempotency_def update_idempotency_state_def
  mark_idempotency_succeeded_def mark_idempotency_unknown_def

lemma audit_wf_call [invariants]:
  assumes "audit_wf db"
  shows "audit_wf (snd (audit_call ae c db))"
proof (cases c)
  case (Call_Consume now k e)
  with assms show ?thesis
    by (auto simp: audit_wf_def consume_grant_nonce_def Let_def hm_wf_insert hm_wf_retain
        split: option.splits)
qed (use assms state_as_str_in [of Succeeded] state_as_str_in [of Unknown] in
    \<open>auto simp: audit_wf_def idempotency_defs append_event_def purge_older_than_def Let_def
      hm_get_insert hm_get_remove in_flight_row_Some hm_wf_insert hm_wf_remove
      split: option.splits sum.splits if_splits\<close>)

lemma audit_run_Cons:
  "audit_run ae (c # cs) db =
     ((c, fst (audit_call ae c db)) # fst (audit_run ae cs (snd (audit_call ae c db))),
      snd (audit_run ae cs (snd (audit_call ae c db))))"
  by (simp add: Let_def split: prod.splits)

declare audit_run.simps(2) [simp del]

lemma audit_wf_run [invariants]: "audit_wf db \<Longrightarrow> audit_wf (snd (audit_run ae cs db))"
  by (induction cs arbitrary: db) (simp_all add: audit_run_Cons audit_wf_call)

section \<open>Grant nonces are consumed at most once\<close>

fun consume_times :: "AuditCall list \<Rightarrow> DateTime list" where
  "consume_times [] = []"
| "consume_times (Call_Consume now _ _ # cs) = now # consume_times cs"
| "consume_times (_ # cs) = consume_times cs"

definition consumptions ::
  "string \<Rightarrow> int \<Rightarrow> (AuditCall \<times> AuditReply) list \<Rightarrow> (AuditCall \<times> AuditReply) list" where
  "consumptions key expires log =
     filter (\<lambda>(c, r). (\<exists>now. c = Call_Consume now key expires) \<and> r = Reply_Consume Consumed) log"

text \<open>A grant is spent once its row is present or its expiry has passed.\<close>

definition spent :: "string \<Rightarrow> int \<Rightarrow> DateTime \<Rightarrow> AuditRepository \<Rightarrow> bool" where
  "spent key expires now db \<longleftrightarrow>
     (\<exists>at. hm_get (db_nonces db) key = Some (expires, at)) \<or> expires \<le> timestamp_millis now"

lemma timestamp_millis_mono: "a \<le> b \<Longrightarrow> timestamp_millis a \<le> timestamp_millis b"
  by (simp add: timestamp_millis_def zdiv_mono1)

lemma consume_spent:
  assumes "audit_wf db" "spent key expires t db" "t \<le> now"
  shows "spent key expires now (snd (consume_grant_nonce now k e db))"
    and "fst (consume_grant_nonce now key expires db) \<noteq> Consumed"
proof -
  from assms have wf: "hm_wf (db_nonces db)" by (simp add: audit_wf_def)
  from assms(3) have "timestamp_millis t \<le> timestamp_millis now" by (rule timestamp_millis_mono)
  with assms(2) show "spent key expires now (snd (consume_grant_nonce now k e db))"
    by (auto simp: consume_grant_nonce_def Let_def spent_def hm_get_insert hm_get_retain [OF wf]
        split: option.splits if_splits)
  from assms(2) \<open>timestamp_millis t \<le> timestamp_millis now\<close>
  show "fst (consume_grant_nonce now key expires db) \<noteq> Consumed"
    by (auto simp: consume_grant_nonce_def Let_def spent_def hm_get_retain [OF wf]
        split: option.splits if_splits)
qed

lemma consume_makes_spent:
  "fst (consume_grant_nonce now key expires db) = Consumed \<Longrightarrow>
     spent key expires now (snd (consume_grant_nonce now key expires db))"
  by (auto simp: consume_grant_nonce_def Let_def spent_def hm_get_insert split: option.splits if_splits)

lemma other_calls_keep_nonces:
  "(\<And>now k e. c \<noteq> Call_Consume now k e) \<Longrightarrow> db_nonces (snd (audit_call ae c db)) = db_nonces db"
  by (cases c) (auto simp: idempotency_defs append_event_def purge_older_than_def Let_def
      split: option.splits sum.splits)

lemma spent_no_consumption:
  assumes "audit_wf db" "spent key expires t db" "sorted (t # consume_times cs)"
  shows "consumptions key expires (fst (audit_run ae cs db)) = []"
  using assms
proof (induction cs arbitrary: db t)
  case Nil
  then show ?case by (simp add: consumptions_def)
next
  case (Cons c cs)
  show ?case
  proof (cases "\<exists>now k e. c = Call_Consume now k e")
    case True
    then obtain now k e where c: "c = Call_Consume now k e" by blast
    with Cons.prems have le: "t \<le> now" and sorted: "sorted (now # consume_times cs)" by auto
    note step = consume_spent [OF Cons.prems(1,2) le]
    from Cons.IH [OF audit_wf_call [OF Cons.prems(1), of ae c] _ sorted] step(1) [of k e] c
    have "consumptions key expires (fst (audit_run ae cs (snd (audit_call ae c db)))) = []" by simp
    with step(2) c show ?thesis by (auto simp: consumptions_def audit_run_Cons)
  next
    case False
    with Cons.prems have "spent key expires t (snd (audit_call ae c db))"
      by (auto simp: spent_def other_calls_keep_nonces)
    moreover from False Cons.prems(3) have "sorted (t # consume_times cs)" by (cases c) auto
    ultimately have "consumptions key expires (fst (audit_run ae cs (snd (audit_call ae c db)))) = []"
      using Cons.IH audit_wf_call [OF Cons.prems(1)] by blast
    with False show ?thesis by (auto simp: consumptions_def audit_run_Cons)
  qed
qed

lemma nonce_at_most_once:
  assumes "audit_wf db" "sorted (consume_times cs)"
  shows "length (consumptions key expires (fst (audit_run ae cs db))) \<le> 1"
  using assms
proof (induction cs arbitrary: db)
  case Nil
  then show ?case by (simp add: consumptions_def)
next
  case (Cons c cs)
  note wf = audit_wf_call [OF Cons.prems(1), of ae c]
  have sorted: "sorted (consume_times cs)" using Cons.prems(2) by (cases c) auto
  show ?case
  proof (cases "\<exists>now. c = Call_Consume now key expires \<and> fst (audit_call ae c db) = Reply_Consume Consumed")
    case True
    then obtain now where c: "c = Call_Consume now key expires"
      and "fst (consume_grant_nonce now key expires db) = Consumed" by auto
    from consume_makes_spent [OF this(2)] c
    have "spent key expires now (snd (audit_call ae c db))" by simp
    moreover have "sorted (now # consume_times cs)" using Cons.prems(2) c by simp
    ultimately have "consumptions key expires (fst (audit_run ae cs (snd (audit_call ae c db)))) = []"
      using spent_no_consumption [OF wf] by blast
    then show ?thesis by (simp add: consumptions_def audit_run_Cons)
  next
    case False
    with Cons.IH [OF wf sorted] show ?thesis by (auto simp: consumptions_def audit_run_Cons)
  qed
qed

text \<open>
  Over any sequence of calls on the audit database, by any number of processes, in which
  the clock does not go back between consumptions, a grant (its replay key and expiry)
  is answered \<open>Consumed\<close> at most once.
\<close>

theorem grant_consumed_at_most_once:
  assumes "audit_wf db" "sorted (consume_times cs)"
  shows "length (consumptions key expires (fst (audit_run ae cs db))) \<le> 1"
  by (rule nonce_at_most_once [OF assms])

text \<open>Sample values: an empty database, and texts of an event only for the sample event.\<close>

definition empty_repository :: AuditRepository where
  "empty_repository = \<lparr>db_events = [], db_next_id = 1, db_idempotency = [], db_nonces = []\<rparr>"

lemma empty_repository_wf [simp]: "audit_wf empty_repository"
  by (simp add: audit_wf_def empty_repository_def)

definition sample_event :: AuditEvent where
  "sample_event =
     \<lparr>ev_request_id = ''r1'', ev_timestamp = 5, ev_subject = ''u'', ev_session_id = ''s'',
      ev_connection_id = None, ev_tool = ''data_read'', ev_target = None,
      ev_policy_decision = ''allow'', ev_confirmed = False, ev_elapsed_ms = 3, ev_returned = 1,
      ev_affected = 0, ev_error_category = None\<rparr>"

definition sample_calls :: "AuditCall list" where
  "sample_calls = [Call_Consume 1000000 ''k'' 9, Call_Append sample_event,
     Call_Consume 2000000 ''k'' 9, Call_Consume 9000000 ''k'' 9]"

theorem grant_consumed_at_most_once_witness:
  "sorted (consume_times sample_calls) \<and>
   (\<forall>ae. length (consumptions ''k'' 9 (fst (audit_run ae sample_calls empty_repository))) \<le> 1)"
proof -
  have "sorted (consume_times sample_calls)" by (simp add: sample_calls_def)
  then show ?thesis using grant_consumed_at_most_once [OF empty_repository_wf] by blast
qed

section \<open>Idempotency records\<close>

definition count_reserved :: "ConnectionId \<Rightarrow> string \<Rightarrow> (AuditCall \<times> AuditReply) list \<Rightarrow> nat" where
  "count_reserved cid key log = length (filter (\<lambda>(c, r).
     (\<exists>now h. c = Call_Reserve now cid key h) \<and> r = Reply_Reserve (Inr Reserved)) log)"

definition count_released :: "ConnectionId \<Rightarrow> string \<Rightarrow> (AuditCall \<times> AuditReply) list \<Rightarrow> nat" where
  "count_released cid key log = length (filter (\<lambda>(c, r).
     (\<exists>h. c = Call_Release cid key h) \<and> r = Reply_Unit (Inr ())) log)"

definition held :: "AuditRepository \<Rightarrow> ConnectionId \<Rightarrow> string \<Rightarrow> nat" where
  "held db cid key = (if hm_get (db_idempotency db) (cid, key) = None then 0 else 1)"

lemma held_call:
  "held (snd (audit_call ae c db)) cid key + count_released cid key [(c, fst (audit_call ae c db))] =
     held db cid key + count_reserved cid key [(c, fst (audit_call ae c db))]"
proof (cases c)
  case (Call_Consume now k e)
  then show ?thesis
    by (auto simp: held_def count_released_def count_reserved_def consume_grant_nonce_def Let_def
        split: option.splits)
qed (auto simp: held_def count_released_def count_reserved_def idempotency_defs append_event_def
      purge_older_than_def Let_def hm_get_insert hm_get_remove in_flight_row_def res_simps
      split: option.splits sum.splits if_splits)

lemma count_Cons:
  "count_reserved cid key (x # log) = count_reserved cid key [x] + count_reserved cid key log"
  "count_released cid key (x # log) = count_released cid key [x] + count_released cid key log"
  by (simp_all add: count_reserved_def count_released_def)

lemma held_run:
  "held (snd (audit_run ae cs db)) cid key + count_released cid key (fst (audit_run ae cs db)) =
     held db cid key + count_reserved cid key (fst (audit_run ae cs db))"
proof (induction cs arbitrary: db)
  case Nil
  then show ?case by (simp add: count_reserved_def count_released_def)
next
  case (Cons c cs)
  show ?case
    using held_call [of ae c db cid key] Cons.IH [of "snd (audit_call ae c db)"]
      count_Cons [of cid key "(c, fst (audit_call ae c db))"
        "fst (audit_run ae cs (snd (audit_call ae c db)))"]
    unfolding audit_run_Cons fst_conv snd_conv by linarith
qed

text \<open>A record that has left \<open>in_flight\<close> keeps its hash and its state.\<close>

definition settled ::
  "AuditRepository \<Rightarrow> ConnectionId \<Rightarrow> string \<Rightarrow> string \<Rightarrow> IdempotencyState \<Rightarrow> bool" where
  "settled db cid key hash state \<longleftrightarrow> state \<noteq> InFlight \<and>
     (\<exists>row. hm_get (db_idempotency db) (cid, key) = Some row \<and> ir_operation_hash row = hash \<and>
        ir_state row = state_as_str state)"

lemma settled_text: "state \<noteq> InFlight \<Longrightarrow> state_as_str state \<noteq> ''in_flight''"
  by (cases state) simp_all

lemma settled_call:
  "settled db cid key hash state \<Longrightarrow> settled (snd (audit_call ae c db)) cid key hash state"
proof (cases c)
  case (Call_Consume now k e)
  moreover assume "settled db cid key hash state"
  ultimately show ?thesis
    by (auto simp: settled_def consume_grant_nonce_def Let_def split: option.splits)
qed (auto simp: settled_def idempotency_defs append_event_def purge_older_than_def Let_def
      hm_get_insert hm_get_remove in_flight_row_Some settled_text
      split: option.splits sum.splits)

lemma settled_run:
  "settled db cid key hash state \<Longrightarrow> settled (snd (audit_run ae cs db)) cid key hash state"
  by (induction cs arbitrary: db) (simp_all add: audit_run_Cons settled_call)

lemma settled_reserve:
  assumes "settled db cid key hash state"
  shows "reserve_idempotency ae now cid key h db =
    (if h = hash then Inr (Existing state) else Inr KeyConflict, db)"
  using assms by (auto simp: settled_def reserve_idempotency_def state_parse_as_str)

text \<open>
  Over any sequence of calls, the reservations granted for an idempotency key are as many
  as the successful releases, plus one if the key is held at the end, less one if it
  was held at the start: a second reservation needs a release of the first.
\<close>

theorem reservations_balance:
  "held (snd (audit_run ae cs db)) cid key + count_released cid key (fst (audit_run ae cs db)) =
     held db cid key + count_reserved cid key (fst (audit_run ae cs db))"
  by (rule held_run)

text \<open>
  A key whose record was marked succeeded or unknown stays so over any sequence of calls;
  no reservation for it is granted any more, a repeated request with the same
  operation hash is told the state and one with another hash gets a conflict.
\<close>

theorem settled_write_never_reserved_again:
  assumes "settled db cid key hash state"
  shows "settled (snd (audit_run ae cs db)) cid key hash state \<and>
    reserve_idempotency ae' now cid key h (snd (audit_run ae cs db)) =
      (if h = hash then Inr (Existing state) else Inr KeyConflict, snd (audit_run ae cs db))"
  using settled_run [OF assms] settled_reserve by blast

definition settled_repository :: AuditRepository where
  "settled_repository = empty_repository\<lparr>db_idempotency :=
     [((7, ''k''), \<lparr>ir_operation_hash = ''h'', ir_state = ''succeeded'', ir_updated_at = ''t''\<rparr>)]\<rparr>"

lemma settled_repository_settled: "settled settled_repository 7 ''k'' ''h'' Succeeded"
  by (simp add: settled_def settled_repository_def hm_get_def)

theorem settled_write_never_reserved_again_witness:
  "\<forall>ae now. fst (reserve_idempotency ae now 7 ''k'' ''h''
     (snd (audit_run ae sample_calls settled_repository))) = Inr (Existing Succeeded)"
  by (simp add: settled_write_never_reserved_again [OF settled_repository_settled])

section \<open>Queries\<close>

text \<open>
  Assumptions on the libraries, for the events that were stored: the decoder inverts the
  encoder, \<open>json_extract\<close> finds the serialized fields, the category and id texts are
  injective, and RFC 3339 texts compare as their times.
\<close>

definition audit_env_laws :: "audit_env \<Rightarrow> bool" where
  "audit_env_laws ae \<longleftrightarrow>
     (\<forall>e t. ae_encode ae e = Inr t \<longrightarrow> ae_decode ae t = Inr e \<and>
        ae_json_extract ae t ''$.connection_id'' = map_option (ae_uuid ae) (ev_connection_id e) \<and>
        ae_json_extract ae t ''$.subject'' = Some (ev_subject e) \<and>
        ae_json_extract ae t ''$.session_id'' = Some (ev_session_id e) \<and>
        ae_json_extract ae t ''$.tool'' = Some (ev_tool e) \<and>
        ae_json_extract ae t ''$.error_category'' =
          Option.bind (ev_error_category e) (ae_category ae)) \<and>
     (\<forall>c d. ae_uuid ae c = ae_uuid ae d \<longrightarrow> c = d) \<and>
     (\<forall>c. ae_category ae c \<noteq> None) \<and>
     (\<forall>c d. ae_category ae c = ae_category ae d \<longrightarrow> c = d) \<and>
     (\<forall>s t. s < t \<longrightarrow> ae_rfc3339 ae s < ae_rfc3339 ae t)"

text \<open>Every row holds an event and its time.\<close>

definition row_event :: "audit_env \<Rightarrow> AuditRow \<Rightarrow> AuditEvent" where
  "row_event ae row = (case ae_decode ae (ar_event_json row) of Inr e \<Rightarrow> e | Inl _ \<Rightarrow> undefined)"

definition rows_ok :: "audit_env \<Rightarrow> AuditRepository \<Rightarrow> bool" where
  "rows_ok ae db \<longleftrightarrow> (\<forall>row \<in> set (db_events db).
     \<exists>e. ae_encode ae e = Inr (ar_event_json row) \<and> ar_timestamp row = ae_rfc3339 ae (ev_timestamp e))"

definition event_matches :: "AuditQuery \<Rightarrow> AuditEvent \<Rightarrow> bool" where
  "event_matches q e \<longleftrightarrow>
     (\<forall>t. aq_since q = Some t \<longrightarrow> t \<le> ev_timestamp e) \<and>
     (\<forall>t. aq_until q = Some t \<longrightarrow> ev_timestamp e \<le> t) \<and>
     (\<forall>c. aq_connection_id q = Some c \<longrightarrow> ev_connection_id e = Some c) \<and>
     (\<forall>s. aq_subject q = Some s \<longrightarrow> ev_subject e = s) \<and>
     (\<forall>s. aq_session_id q = Some s \<longrightarrow> ev_session_id e = s) \<and>
     (\<forall>s. aq_tool q = Some s \<longrightarrow> ev_tool e = s) \<and>
     (\<forall>c. aq_error_category q = Some c \<longrightarrow> ev_error_category e = Some c)"

lemma rfc3339_le:
  assumes "audit_env_laws ae"
  shows "ae_rfc3339 ae s \<le> ae_rfc3339 ae t \<longleftrightarrow> s \<le> t"
proof -
  have mono: "\<And>s t. s < t \<Longrightarrow> ae_rfc3339 ae s < ae_rfc3339 ae t"
    using assms by (simp add: audit_env_laws_def)
  show ?thesis by (cases s t rule: linorder_cases) (auto dest: mono)
qed

lemma row_ok_event:
  assumes "audit_env_laws ae" "rows_ok ae db" "row \<in> set (db_events db)"
  shows "ae_decode ae (ar_event_json row) = Inr (row_event ae row)"
    and "ar_timestamp row = ae_rfc3339 ae (ev_timestamp (row_event ae row))"
    and "row_matches ae q row \<longleftrightarrow> event_matches q (row_event ae row)"
proof -
  from assms(2,3) obtain e where e: "ae_encode ae e = Inr (ar_event_json row)"
    and ts: "ar_timestamp row = ae_rfc3339 ae (ev_timestamp e)"
    by (auto simp: rows_ok_def)
  from assms(1) e have dec: "ae_decode ae (ar_event_json row) = Inr e"
    and ext: "ae_json_extract ae (ar_event_json row) ''$.connection_id''
          = map_option (ae_uuid ae) (ev_connection_id e)"
        "ae_json_extract ae (ar_event_json row) ''$.subject'' = Some (ev_subject e)"
        "ae_json_extract ae (ar_event_json row) ''$.session_id'' = Some (ev_session_id e)"
        "ae_json_extract ae (ar_event_json row) ''$.tool'' = Some (ev_tool e)"
        "ae_json_extract ae (ar_event_json row) ''$.error_category''
          = Option.bind (ev_error_category e) (ae_category ae)"
    unfolding audit_env_laws_def by blast+
  then have [simp]: "row_event ae row = e" by (simp add: row_event_def)
  show "ae_decode ae (ar_event_json row) = Inr (row_event ae row)" using dec by simp
  show "ar_timestamp row = ae_rfc3339 ae (ev_timestamp (row_event ae row))" using ts by simp
  have uuid: "\<And>c d. ae_uuid ae c = ae_uuid ae d \<longleftrightarrow> c = d"
    and some: "\<And>c. \<exists>t. ae_category ae c = Some t"
    using assms(1) by (auto simp: audit_env_laws_def)
  have cat: "c = d" if "ae_category ae c = Some t" "ae_category ae d = Some t" for c d t
    using assms(1) that by (simp add: audit_env_laws_def)
  have category: "sql_filter (Option.bind (aq_error_category q) (ae_category ae))
       (\<lambda>v. Option.bind (ev_error_category e) (ae_category ae) = Some v) \<longleftrightarrow>
       (\<forall>c. aq_error_category q = Some c \<longrightarrow> ev_error_category e = Some c)"
  proof (cases "aq_error_category q")
    case (Some c)
    from some obtain t where "ae_category ae c = Some t" by blast
    with Some show ?thesis
      by (cases "ev_error_category e") (auto simp: sql_filter_def dest: cat)
  qed (simp add: sql_filter_def)
  show "row_matches ae q row \<longleftrightarrow> event_matches q (row_event ae row)"
    unfolding row_matches_def Let_def ext category event_matches_def
    using rfc3339_le [OF assms(1)] uuid
    by (simp add: ts sql_filter_def split: option.splits)
qed


lemma map_results_total: "(\<And>x. x \<in> set xs \<Longrightarrow> f x = Inr (g x)) \<Longrightarrow> map_results f xs = Inr (map g xs)"
  by (induction xs) simp_all

lemma sort_key_map_time:
  assumes "\<And>x y. x \<in> set xs \<Longrightarrow> y \<in> set xs \<Longrightarrow> (f x \<le> f y) = (g x \<le> g y)"
  shows "sort_key f xs = sort_key g xs"
  using assms
proof (induction xs)
  case (Cons x xs)
  have "insort_key f x ys = insort_key g x ys" if "set ys \<subseteq> set xs" for ys
    using that Cons.prems by (induction ys) auto
  with Cons show ?case by simp
qed simp

lemma query_rows:
  assumes "audit_env_laws ae" "rows_ok ae db"
  shows "query ae q db = Inr (take (unat (clamp (aq_limit q) 1 1000)) (map (row_event ae)
    (rev (sort_key (\<lambda>row. ev_timestamp (row_event ae row))
      (sort_key ar_id (filter (\<lambda>row. event_matches q (row_event ae row)) (db_events db)))))))"
proof -
  let ?rows = "sort_key ar_id (filter (\<lambda>row. event_matches q (row_event ae row)) (db_events db))"
  note row = row_ok_event [OF assms]
  have filt: "filter (row_matches ae q) (db_events db)
      = filter (\<lambda>row. event_matches q (row_event ae row)) (db_events db)"
    by (rule filter_cong [OF refl row(3)])
  have sorted: "sort_key ar_timestamp ?rows = sort_key (\<lambda>row. ev_timestamp (row_event ae row)) ?rows"
    by (rule sort_key_map_time) (simp add: row(2) rfc3339_le [OF assms(1)])
  show ?thesis
    unfolding query_def Let_def filt sorted take_map
    by (rule map_results_total) (auto simp: row(1) dest: in_set_takeD)
qed

lemma rows_ok_call [invariants]:
  assumes "rows_ok ae db"
  shows "rows_ok ae (snd (audit_call ae c db))"
proof (cases c)
  case (Call_Consume now k e)
  with assms show ?thesis
    by (auto simp: rows_ok_def consume_grant_nonce_def Let_def split: option.splits)
next
  case (Call_Append event)
  with assms show ?thesis by (auto simp: rows_ok_def append_event_def split: sum.splits)
qed (use assms in \<open>auto simp: rows_ok_def idempotency_defs purge_older_than_def Let_def
      split: option.splits\<close>)

lemma rows_ok_run [invariants]: "rows_ok ae db \<Longrightarrow> rows_ok ae (snd (audit_run ae cs db))"
  by (induction cs arbitrary: db) (simp_all add: audit_run_Cons rows_ok_call)

lemma clamp_limit:
  "1 \<le> unat (clamp limit 1 1000)" "unat (clamp limit 1 1000) \<le> 1000"
  by (auto simp: clamp_def word_le_nat_alt word_less_nat_alt not_less Suc_le_eq
      simp flip: word_neq_0_conv split: if_splits)

text \<open>
  A query over a log written by \<open>append\<close> calls (and cut by \<open>purge_older_than\<close>) succeeds.
  Its answer and the events it leaves out are together exactly the matching events, newest
  first; it returns at least one and at most 1000 of them, as many as the limit asks for.
\<close>

theorem audit_query_newest_first:
  assumes "audit_env_laws ae" "rows_ok ae db"
  shows "\<exists>events rest. query ae q (snd (audit_run ae cs db)) = Inr events \<and>
    mset (events @ rest) = filter_mset (event_matches q)
      (image_mset (row_event ae) (mset (db_events (snd (audit_run ae cs db))))) \<and>
    sorted_wrt (\<lambda>a b. ev_timestamp b \<le> ev_timestamp a) (events @ rest) \<and>
    (rest = [] \<or> length events = unat (clamp (aq_limit q) 1 1000)) \<and> length events \<le> 1000"
proof -
  let ?db = "snd (audit_run ae cs db)" and ?n = "unat (clamp (aq_limit q) 1 1000)"
  let ?key = "\<lambda>row. ev_timestamp (row_event ae row)"
  let ?rows = "rev (sort_key ?key
      (sort_key ar_id (filter (\<lambda>row. event_matches q (row_event ae row)) (db_events ?db))))"
  let ?all = "map (row_event ae) ?rows"
  have ok: "query ae q ?db = Inr (take ?n ?all)"
    by (rule query_rows [OF assms(1) rows_ok_run [OF assms(2)]])
  have "sorted_wrt (\<lambda>a b. ?key b \<le> ?key a) ?rows"
    using sorted_sort_key [of ?key] by (simp add: sorted_wrt_rev sorted_map)
  then have "sorted_wrt (\<lambda>a b. ev_timestamp b \<le> ev_timestamp a) ?all"
    by (simp add: sorted_wrt_map)
  moreover have "mset ?all = filter_mset (event_matches q)
      (image_mset (row_event ae) (mset (db_events ?db)))"
    by (simp add: filter_mset_image_mset)
  ultimately have "query ae q ?db = Inr (take ?n ?all) \<and>
      mset (take ?n ?all @ drop ?n ?all) = filter_mset (event_matches q)
        (image_mset (row_event ae) (mset (db_events ?db))) \<and>
      sorted_wrt (\<lambda>a b. ev_timestamp b \<le> ev_timestamp a) (take ?n ?all @ drop ?n ?all) \<and>
      (drop ?n ?all = [] \<or> length (take ?n ?all) = ?n) \<and> length (take ?n ?all) \<le> 1000"
    using ok clamp_limit [of "aq_limit q"] by (simp only: append_take_drop_id) auto
  then show ?thesis by blast
qed

text \<open>
  Libraries for the sample: the texts of times are any texts in the right order, an id is
  written in unary, and only the sample event has an encoding.
\<close>

definition sample_rfc3339 :: "DateTime \<Rightarrow> string" where
  "sample_rfc3339 t = (if t < 0 then replicate (nat (- t)) (CHR ''a'') @ ''b''
     else replicate (Suc (nat t)) (CHR ''c''))"

fun category_text :: "ErrorCategory \<Rightarrow> string" where
  "category_text Cat_InvalidRequest = ''invalid_request''"
| "category_text Cat_Authentication = ''authentication''"
| "category_text Cat_PermissionDenied = ''permission_denied''"
| "category_text Cat_NotFound = ''not_found''"
| "category_text Cat_Conflict = ''conflict''"
| "category_text Cat_Unsupported = ''unsupported''"
| "category_text Cat_RateLimited = ''rate_limited''"
| "category_text Cat_Timeout = ''timeout''"
| "category_text Cat_Cancelled = ''cancelled''"
| "category_text Cat_Unavailable = ''unavailable''"
| "category_text Cat_Protocol = ''protocol''"
| "category_text Cat_UnknownOutcome = ''unknown_outcome''"
| "category_text Cat_Internal = ''internal''"

definition sample_audit_env :: audit_env where
  "sample_audit_env =
     \<lparr>ae_rfc3339 = sample_rfc3339, ae_uuid = (\<lambda>c. replicate (unat c) (CHR ''x'')),
      ae_encode = (\<lambda>e. if e = sample_event then Inr ''e'' else Inl ''unsupported''),
      ae_decode = (\<lambda>t. if t = ''e'' then Inr sample_event else Inl ''unsupported''),
      ae_json_extract = (\<lambda>t path.
        if path = ''$.subject'' then Some (ev_subject sample_event)
        else if path = ''$.session_id'' then Some (ev_session_id sample_event)
        else if path = ''$.tool'' then Some (ev_tool sample_event) else None),
      ae_category = (\<lambda>c. Some (category_text c))\<rparr>"

lemma replicate_less: "m < n \<Longrightarrow> replicate m c < replicate n c"
proof (induction m arbitrary: n)
  case 0
  then show ?case by (cases n) simp_all
next
  case (Suc m)
  then show ?case by (cases n) simp_all
qed

lemma replicate_end_less: "a < b \<Longrightarrow> m < n \<Longrightarrow> replicate n a @ [b] < replicate m a @ [b]"
proof (induction m arbitrary: n)
  case 0
  then show ?case by (cases n) simp_all
next
  case (Suc m)
  then show ?case by (cases n) simp_all
qed

lemma sample_rfc3339_mono: "s < t \<Longrightarrow> sample_rfc3339 s < sample_rfc3339 t"
proof (cases "s < 0 \<and> 0 \<le> t")
  case True
  moreover have "CHR ''a'' < CHR ''c''" by code_simp
  ultimately show ?thesis by (cases "nat (- s)") (auto simp: sample_rfc3339_def)
next
  case False
  have ab: "CHR ''a'' < CHR ''b''" by code_simp
  assume "s < t"
  with False consider "t < 0" "nat (- t) < nat (- s)" | "0 \<le> s" "Suc (nat s) < Suc (nat t)" by fastforce
  then show ?thesis
  proof cases
    case 1
    with \<open>s < t\<close> show ?thesis using replicate_end_less [OF ab] by (simp add: sample_rfc3339_def)
  next
    case 2
    with \<open>s < t\<close> show ?thesis
      using replicate_less [OF 2(2)] by (simp add: sample_rfc3339_def del: replicate_Suc)
  qed
qed

lemma category_text_inject: "category_text c = category_text d \<longleftrightarrow> c = d"
  by (cases c; cases d) simp_all

lemma sample_audit_laws: "audit_env_laws sample_audit_env"
  by (auto simp: audit_env_laws_def sample_audit_env_def sample_event_def sample_rfc3339_mono
      category_text_inject word_unat_eq_iff dest: arg_cong [of _ _ length] split: if_splits)

lemma sample_rows_ok: "rows_ok sample_audit_env empty_repository"
  by (simp add: rows_ok_def empty_repository_def)

theorem audit_query_newest_first_witness:
  "\<exists>events. query sample_audit_env AuditQuery_default
     (snd (audit_run sample_audit_env sample_calls empty_repository)) = Inr events \<and>
     length events \<le> 1000"
  using audit_query_newest_first [OF sample_audit_laws sample_rows_ok] by blast

section \<open>Migration\<close>

lemma number_rows_content:
  "map (\<lambda>r. (ar_request_id r, ar_timestamp r, ar_event_json r)) (number_rows n rows) = rows"
  "map ar_id (number_rows n rows) = [n ..< n + length rows]"
  by (induction n rows rule: number_rows.induct) (simp_all add: upt_conv_Cons del: upt_Suc)

text \<open>
  Opening an older log keeps every row in order and gives it a fresh id below the next
  one; opening a current database changes nothing.
\<close>

theorem migrate_preserves:
  "migrate (saved db) = db \<and>
   map (\<lambda>r. (ar_request_id r, ar_timestamp r, ar_event_json r))
     (db_events (migrate (file\<lparr>af_events := Legacy_Events rows\<rparr>))) = rows \<and>
   map ar_id (db_events (migrate (file\<lparr>af_events := Legacy_Events rows\<rparr>)))
     = [1 ..< db_next_id (migrate (file\<lparr>af_events := Legacy_Events rows\<rparr>))]"
  by (simp add: migrate_def saved_def number_rows_content)

end
