(* ===== verification/Grant.thy ===== *)
theory Grant
  imports Sql_Analysis
begin

text \<open>
  \<open>crates/connector-policy/src/grant.rs\<close>: authorization grants, their issue by the control
  side and their verification by the runtime. The Ed25519 scheme, the JCS encoder, SHA-256,
  base64url and hex are libraries: they are the fields of \<open>grant_env\<close>, errors as their
  texts. Keys, signatures and digests are byte strings.
\<close>

definition MAX_GRANT_LIFETIME_SECONDS :: int where
  "MAX_GRANT_LIFETIME_SECONDS = 120"

definition GRANT_REPLAY_KEY_DOMAIN :: string where
  "GRANT_REPLAY_KEY_DOMAIN = ''sql-connector/authorization-grant-replay/v1'' @ [CHR 0x00]"

record AuthorizationClaims =
  gc_subject :: string
  gc_session_id :: string
  gc_connection_id :: ConnectionId
  gc_tool :: string
  gc_arguments_hash :: string
  gc_policy_version :: u64
  gc_max_rows :: u32
  gc_max_bytes :: u64
  gc_max_affected :: u64
  gc_expires_at :: DateTime
  gc_nonce :: string

record AuthorizationGrant =
  gr_claims :: AuthorizationClaims
  gr_signature :: string

record VerifiedAuthorizationGrant =
  vg_replay_key :: string
  vg_expires_at_millis :: int

record grant_env =
  ge_jcs_claims :: "AuthorizationClaims \<Rightarrow> string + string"
  ge_jcs_json :: "json \<Rightarrow> string + string"
  ge_sha256 :: "string \<Rightarrow> string"
  ge_hex_encode :: "string \<Rightarrow> string"
  ge_b64_encode :: "string \<Rightarrow> string"
  ge_b64_decode :: "string \<Rightarrow> string + string"
  ge_signature_from_slice :: "string \<Rightarrow> string + string"
  ge_signature_to_bytes :: "string \<Rightarrow> string"
  ge_sign :: "string \<Rightarrow> string \<Rightarrow> string"
  ge_verify :: "string \<Rightarrow> string \<Rightarrow> string \<Rightarrow> string + unit"
  ge_verifying_key :: "string \<Rightarrow> string"

section \<open>Issuing\<close>

record GrantIssuer =
  gi_signing_key :: string

definition GrantIssuer_new :: "string \<Rightarrow> GrantIssuer" where
  "GrantIssuer_new signing_key = \<lparr>gi_signing_key = signing_key\<rparr>"

definition verifying_key :: "grant_env \<Rightarrow> GrantIssuer \<Rightarrow> string" where
  "verifying_key ge issuer = ge_verifying_key ge (gi_signing_key issuer)"

definition issue ::
  "grant_env \<Rightarrow> GrantIssuer \<Rightarrow> AuthorizationClaims \<Rightarrow> PolicyError + AuthorizationGrant" where
  "issue ge issuer claims =
     bind_res (map_err Serialization (ge_jcs_claims ge claims)) (\<lambda>canonical.
     let signature = ge_sign ge (gi_signing_key issuer) canonical in
     Inr \<lparr>gr_claims = claims,
          gr_signature = ge_b64_encode ge (ge_signature_to_bytes ge signature)\<rparr>)"

section \<open>Verification\<close>

record VerificationContext =
  vc_subject :: string
  vc_session_id :: string
  vc_connection_id :: ConnectionId
  vc_tool :: string
  vc_arguments :: json
  vc_policy_version :: u64
  vc_max_rows :: u32
  vc_max_bytes :: u64
  vc_max_affected :: u64

record GrantVerifier =
  gv_verifying_key :: string

definition GrantVerifier_new :: "string \<Rightarrow> GrantVerifier" where
  "GrantVerifier_new key = \<lparr>gv_verifying_key = key\<rparr>"

definition grant_replay_key :: "grant_env \<Rightarrow> string \<Rightarrow> string \<Rightarrow> string" where
  "grant_replay_key ge key nonce = ge_sha256 ge (GRANT_REPLAY_KEY_DOMAIN @ key @ nonce)"

definition canonical_arguments_hash :: "grant_env \<Rightarrow> json \<Rightarrow> PolicyError + string" where
  "canonical_arguments_hash ge arguments =
     bind_res (map_err Serialization (ge_jcs_json ge arguments)) (\<lambda>canonical.
     Inr (ge_hex_encode ge (ge_sha256 ge canonical)))"

definition verify ::
  "grant_env \<Rightarrow> DateTime \<Rightarrow> GrantVerifier \<Rightarrow> AuthorizationGrant \<Rightarrow> VerificationContext
     \<Rightarrow> PolicyError + VerifiedAuthorizationGrant" where
  "verify ge now verifier grant context =
     (let claims = gr_claims grant in
     bind_res (map_err InvalidGrant (ge_b64_decode ge (gr_signature grant))) (\<lambda>signature_bytes.
     bind_res (map_err InvalidGrant (ge_signature_from_slice ge signature_bytes)) (\<lambda>signature.
     bind_res (map_err Serialization (ge_jcs_claims ge claims)) (\<lambda>canonical.
     bind_res (map_err InvalidGrant
        (ge_verify ge (gv_verifying_key verifier) canonical signature)) (\<lambda>_.
     if gc_expires_at claims \<le> now then Inl Expired
     else if gc_expires_at claims > now + MAX_GRANT_LIFETIME_SECONDS * nanos_per_second then
       Inl (InvalidGrant ''grant expiry exceeds the maximum lifetime'')
     else if gc_subject claims \<noteq> vc_subject context then Inl (GrantMismatch ''subject'')
     else if gc_session_id claims \<noteq> vc_session_id context then Inl (GrantMismatch ''session_id'')
     else if gc_connection_id claims \<noteq> vc_connection_id context then
       Inl (GrantMismatch ''connection_id'')
     else if gc_tool claims \<noteq> vc_tool context then Inl (GrantMismatch ''tool'')
     else if gc_policy_version claims \<noteq> vc_policy_version context then
       Inl (GrantMismatch ''policy_version'')
     else bind_res (canonical_arguments_hash ge (vc_arguments context)) (\<lambda>hash.
     if gc_arguments_hash claims \<noteq> hash then Inl (GrantMismatch ''arguments_hash'')
     else if gc_max_rows claims > vc_max_rows context \<or> gc_max_bytes claims > vc_max_bytes context
        \<or> gc_max_affected claims > vc_max_affected context then Inl (GrantMismatch ''limits'')
     else Inr \<lparr>vg_replay_key = grant_replay_key ge (gv_verifying_key verifier) (gc_nonce claims),
               vg_expires_at_millis = timestamp_millis (gc_expires_at claims)\<rparr>))))))"

section \<open>What verification guarantees\<close>

text \<open>The request a set of claims authorizes: every binding of the context.\<close>

definition claims_bind :: "grant_env \<Rightarrow> AuthorizationClaims \<Rightarrow> VerificationContext \<Rightarrow> bool" where
  "claims_bind ge claims context \<longleftrightarrow>
     gc_subject claims = vc_subject context \<and> gc_session_id claims = vc_session_id context \<and>
     gc_connection_id claims = vc_connection_id context \<and> gc_tool claims = vc_tool context \<and>
     gc_policy_version claims = vc_policy_version context \<and>
     Inr (gc_arguments_hash claims) = canonical_arguments_hash ge (vc_arguments context) \<and>
     gc_max_rows claims \<le> vc_max_rows context \<and> gc_max_bytes claims \<le> vc_max_bytes context \<and>
     gc_max_affected claims \<le> vc_max_affected context"

text \<open>The claims a signature stands for under a verifying key.\<close>

definition signature_accepted ::
  "grant_env \<Rightarrow> string \<Rightarrow> AuthorizationGrant \<Rightarrow> bool" where
  "signature_accepted ge key grant \<longleftrightarrow>
     (\<exists>bytes signature canonical.
        ge_b64_decode ge (gr_signature grant) = Inr bytes \<and>
        ge_signature_from_slice ge bytes = Inr signature \<and>
        ge_jcs_claims ge (gr_claims grant) = Inr canonical \<and>
        ge_verify ge key canonical signature = Inr ())"

definition verified_grant :: "grant_env \<Rightarrow> string \<Rightarrow> AuthorizationClaims \<Rightarrow> VerifiedAuthorizationGrant"
  where
  "verified_grant ge key claims =
     \<lparr>vg_replay_key = grant_replay_key ge key (gc_nonce claims),
      vg_expires_at_millis = timestamp_millis (gc_expires_at claims)\<rparr>"

lemma verify_iff:
  "verify ge now verifier grant context = Inr v \<longleftrightarrow>
     signature_accepted ge (gv_verifying_key verifier) grant \<and>
     now < gc_expires_at (gr_claims grant) \<and>
     gc_expires_at (gr_claims grant) \<le> now + 120 * nanos_per_second \<and>
     claims_bind ge (gr_claims grant) context \<and>
     v = verified_grant ge (gv_verifying_key verifier) (gr_claims grant)"
  by (auto simp: verify_def Let_def res_simps signature_accepted_def claims_bind_def
      verified_grant_def MAX_GRANT_LIFETIME_SECONDS_def not_less not_le split: if_splits)

text \<open>
  Assumptions on the libraries: decoders invert their encoders and a signature made with a
  signing key verifies under its verifying key.
\<close>

definition scheme_laws :: "grant_env \<Rightarrow> bool" where
  "scheme_laws ge \<longleftrightarrow>
     (\<forall>b. ge_b64_decode ge (ge_b64_encode ge b) = Inr b) \<and>
     (\<forall>s. ge_signature_from_slice ge (ge_signature_to_bytes ge s) = Inr s) \<and>
     (\<forall>k m. ge_verify ge (ge_verifying_key ge k) m (ge_sign ge k m) = Inr ())"

lemma issue_accepted:
  assumes "scheme_laws ge" "issue ge issuer claims = Inr grant"
  shows "gr_claims grant = claims \<and> signature_accepted ge (verifying_key ge issuer) grant"
  using assms
  by (auto simp: issue_def Let_def res_simps scheme_laws_def signature_accepted_def
      verifying_key_def)


text \<open>
  A grant that was issued verifies under the issuer's verifying key until it expires,
  for the request its claims bind.
\<close>

theorem issue_verify_roundtrip:
  assumes "scheme_laws ge" "issue ge issuer claims = Inr grant"
    and "now < gc_expires_at claims" "gc_expires_at claims \<le> now + 120 * nanos_per_second"
    and "claims_bind ge claims context"
  shows "verify ge now (GrantVerifier_new (verifying_key ge issuer)) grant context
    = Inr (verified_grant ge (verifying_key ge issuer) claims)"
  using issue_accepted [OF assms(1,2)] assms(3-5)
  by (simp add: verify_iff GrantVerifier_new_def)

text \<open>
  If only messages the issuer signed verify under its key (unforgeability of the
  signature) and distinct claims have distinct canonical encodings, the claims of every
  grant that verifies are claims that were issued.
\<close>

theorem verified_grant_was_issued:
  assumes unforgeable: "\<And>m s. ge_verify ge key m s = Inr () \<Longrightarrow>
      \<exists>c \<in> issued. ge_jcs_claims ge c = Inr m"
    and injective: "\<And>c d m. ge_jcs_claims ge c = Inr m \<Longrightarrow> ge_jcs_claims ge d = Inr m \<Longrightarrow> c = d"
    and "verify ge now (GrantVerifier_new key) grant context = Inr v"
  shows "gr_claims grant \<in> issued"
proof -
  from assms(3) have "signature_accepted ge key grant"
    by (simp add: verify_iff GrantVerifier_new_def)
  then obtain canonical signature where c: "ge_jcs_claims ge (gr_claims grant) = Inr canonical"
    and "ge_verify ge key canonical signature = Inr ()"
    by (auto simp: signature_accepted_def)
  from unforgeable [OF this(2)] obtain d where "d \<in> issued" "ge_jcs_claims ge d = Inr canonical"
    by blast
  with injective [OF c] show ?thesis by simp
qed

section \<open>Sample values\<close>

text \<open>A concrete scheme: the canonical form writes the claims out by a numbering of the
  sample claims, the signature of a message is the message tagged with the key.\<close>

definition sample_claims :: AuthorizationClaims where
  "sample_claims =
     \<lparr>gc_subject = ''local-user'', gc_session_id = ''s1'', gc_connection_id = 7,
      gc_tool = ''data_update'', gc_arguments_hash = ''h'', gc_policy_version = 3,
      gc_max_rows = 10, gc_max_bytes = 100, gc_max_affected = 1,
      gc_expires_at = 60 * nanos_per_second, gc_nonce = ''n''\<rparr>"

definition sample_grant_env :: grant_env where
  "sample_grant_env =
     \<lparr>ge_jcs_claims = (\<lambda>c. if c = sample_claims then Inr ''c'' else Inl ''other claims''),
      ge_jcs_json = (\<lambda>_. Inr ''j''), ge_sha256 = (\<lambda>s. s), ge_hex_encode = (\<lambda>_. ''h''),
      ge_b64_encode = (\<lambda>s. s), ge_b64_decode = Inr, ge_signature_from_slice = Inr,
      ge_signature_to_bytes = (\<lambda>s. s), ge_sign = (\<lambda>k m. k @ m),
      ge_verify = (\<lambda>k m s. if s = k @ m then Inr () else Inl ''bad signature''),
      ge_verifying_key = (\<lambda>k. k)\<rparr>"

definition sample_strict_env :: grant_env where
  "sample_strict_env = sample_grant_env\<lparr>ge_verify :=
     (\<lambda>k m s. if m = ''c'' \<and> s = k @ m then Inr () else Inl ''bad signature'')\<rparr>"

definition sample_context :: VerificationContext where
  "sample_context =
     \<lparr>vc_subject = ''local-user'', vc_session_id = ''s1'', vc_connection_id = 7,
      vc_tool = ''data_update'', vc_arguments = JNull, vc_policy_version = 3,
      vc_max_rows = 10, vc_max_bytes = 100, vc_max_affected = 5\<rparr>"

definition sample_grant :: AuthorizationGrant where
  "sample_grant = \<lparr>gr_claims = sample_claims, gr_signature = ''keyc''\<rparr>"

lemma sample_scheme_laws: "scheme_laws sample_grant_env"
  by (simp add: scheme_laws_def sample_grant_env_def)

lemma sample_bind: "claims_bind sample_grant_env sample_claims sample_context"
  by code_simp

lemma sample_issue: "issue sample_grant_env (GrantIssuer_new ''key'') sample_claims = Inr sample_grant"
  by code_simp

lemma sample_lifetime:
  "0 < gc_expires_at sample_claims" "gc_expires_at sample_claims \<le> 0 + 120 * nanos_per_second"
  by code_simp+

theorem issue_verify_roundtrip_witness:
  "verify sample_grant_env 0
     (GrantVerifier_new (verifying_key sample_grant_env (GrantIssuer_new ''key'')))
     sample_grant sample_context
   = Inr (verified_grant sample_grant_env
       (verifying_key sample_grant_env (GrantIssuer_new ''key'')) sample_claims)"
  by (rule issue_verify_roundtrip
      [OF sample_scheme_laws sample_issue sample_lifetime sample_bind])

lemma sample_strict_verify:
  "verify sample_strict_env 0 (GrantVerifier_new ''key'') sample_grant sample_context
     = Inr (verified_grant sample_strict_env ''key'' sample_claims)"
  by code_simp

lemma sample_strict_laws:
  "ge_verify sample_strict_env k m s = Inr () \<Longrightarrow>
     \<exists>c \<in> {sample_claims}. ge_jcs_claims sample_strict_env c = Inr m"
  "ge_jcs_claims sample_strict_env c = Inr m \<Longrightarrow> ge_jcs_claims sample_strict_env d = Inr m \<Longrightarrow> c = d"
  by (auto simp: sample_strict_env_def sample_grant_env_def split: if_splits)

theorem verified_grant_was_issued_witness: "gr_claims sample_grant \<in> {sample_claims}"
  by (rule verified_grant_was_issued [OF sample_strict_laws sample_strict_verify])

end
