(* ===== verification/Runtime_Programs.thy ===== *)
theory Runtime_Programs
  imports Programs Runtime_Requests Masked_Cursors Registry Profile_Store Audit_Store Grant
begin

text \<open>
  The effects of the runtime. An asynchronous function of \<open>runtime.rs\<close> is a program: a tree
  of calls on the shared state, each call one lock region, one database transaction or one
  connector call, with a continuation for its reply. \<open>perform\<close> is what a call does,
  \<open>run_program\<close> runs one program alone, and \<open>system_run\<close> interleaves the calls of any
  number of programs with each other and with other processes on the same stores. A
  monitor follows the calls and replies along every path of a program.
\<close>

section \<open>Calls and replies\<close>

datatype 'a ConnectorRun =
    Completed 'a
  | TimedOut
  | Cancelled bool

datatype IdempotencyFinish = Finish_Succeeded | Finish_Unknown | Finish_Release

datatype 'c Call =
    C_Reserve string ConnectionId string
  | C_Drop RequestGuard
  | C_Activate RequestGuard 'c
  | C_IsCancelled RequestGuard
  | C_CancelRequests ConnectionId
  | C_InvalidateClients ConnectionId
  | C_ClearCursors ConnectionId
  | C_ResolveCursor string ConnectionId string string "string option"
  | C_ProtectCursor ConnectionId string string "string option" OperationResult
  | C_GetProfile ConnectionId
  | C_GetSecret string
  | C_Now
  | C_Instant
  | C_ConsumeNonce string int
  | C_ReserveIdempotency ConnectionId string string
  | C_FinishIdempotency ConnectionId string string IdempotencyFinish
  | C_RecordAudit AuditEvent
  | C_Execute 'c RequestGuard ConnectorContext ConnectionProfile SecretMaterial DataOperation
  | C_TestConnection 'c RequestGuard ConnectorContext ConnectionProfile SecretMaterial
  | C_DescribeEntity 'c RequestGuard ConnectorContext ConnectionProfile SecretMaterial string
  | C_SearchCatalog 'c RequestGuard ConnectorContext ConnectionProfile SecretMaterial CatalogQuery
  | C_CancelConnector 'c string

datatype Reply =
    R_Unit
  | R_Reserve "RuntimeError + RequestGuard"
  | R_Activate "RuntimeError + unit"
  | R_Bool bool
  | R_Cursor "RuntimeError + string"
  | R_Result OperationResult
  | R_Profile "StoreError + ConnectionProfile"
  | R_Secret "StoreError + SecretMaterial"
  | R_Now DateTime
  | R_Instant Instant
  | R_Nonce "StoreError + GrantNonceConsumption"
  | R_Reservation "StoreError + IdempotencyReservation"
  | R_Stored "StoreError + unit"
  | R_Execute "(ConnectorError + OperationResult) ConnectorRun"
  | R_Test "(ConnectorError + ConnectionInfo) ConnectorRun"
  | R_Describe "(ConnectorError + EntityDescription) ConnectorRun"
  | R_Catalog "(ConnectorError + CatalogPage) ConnectorRun"

text \<open>A reply read at the type of its call. \<open>perform\<close> always gives a reply of that type.\<close>

definition as_guard :: "Reply \<Rightarrow> RuntimeError + RequestGuard" where
  "as_guard r = (case r of R_Reserve x \<Rightarrow> x | _ \<Rightarrow> Inl RT_Timeout)"

definition as_activated :: "Reply \<Rightarrow> RuntimeError + unit" where
  "as_activated r = (case r of R_Activate x \<Rightarrow> x | _ \<Rightarrow> Inl RT_Timeout)"

definition as_bool :: "Reply \<Rightarrow> bool" where
  "as_bool r = (case r of R_Bool b \<Rightarrow> b | _ \<Rightarrow> True)"

definition as_cursor :: "Reply \<Rightarrow> RuntimeError + string" where
  "as_cursor r = (case r of R_Cursor x \<Rightarrow> x | _ \<Rightarrow> Inl RT_Timeout)"

definition as_result :: "OperationResult \<Rightarrow> Reply \<Rightarrow> OperationResult" where
  "as_result given r = (case r of R_Result x \<Rightarrow> x | _ \<Rightarrow> given)"

definition as_profile :: "Reply \<Rightarrow> StoreError + ConnectionProfile" where
  "as_profile r = (case r of R_Profile x \<Rightarrow> x | _ \<Rightarrow> Inl Store_NotFound)"

definition as_secret :: "Reply \<Rightarrow> StoreError + SecretMaterial" where
  "as_secret r = (case r of R_Secret x \<Rightarrow> x | _ \<Rightarrow> Inl Store_NotFound)"

definition as_now :: "Reply \<Rightarrow> DateTime" where
  "as_now r = (case r of R_Now t \<Rightarrow> t | _ \<Rightarrow> 0)"

definition as_instant :: "Reply \<Rightarrow> Instant" where
  "as_instant r = (case r of R_Instant t \<Rightarrow> t | _ \<Rightarrow> 0)"

definition as_nonce :: "Reply \<Rightarrow> StoreError + GrantNonceConsumption" where
  "as_nonce r = (case r of R_Nonce x \<Rightarrow> x | _ \<Rightarrow> Inl Store_NotFound)"

definition as_reservation :: "Reply \<Rightarrow> StoreError + IdempotencyReservation" where
  "as_reservation r = (case r of R_Reservation x \<Rightarrow> x | _ \<Rightarrow> Inl Store_NotFound)"

definition as_execute :: "Reply \<Rightarrow> (ConnectorError + OperationResult) ConnectorRun" where
  "as_execute r = (case r of R_Execute x \<Rightarrow> x | _ \<Rightarrow> TimedOut)"

definition as_test :: "Reply \<Rightarrow> (ConnectorError + ConnectionInfo) ConnectorRun" where
  "as_test r = (case r of R_Test x \<Rightarrow> x | _ \<Rightarrow> TimedOut)"

definition as_describe :: "Reply \<Rightarrow> (ConnectorError + EntityDescription) ConnectorRun" where
  "as_describe r = (case r of R_Describe x \<Rightarrow> x | _ \<Rightarrow> TimedOut)"

definition as_catalog :: "Reply \<Rightarrow> (ConnectorError + CatalogPage) ConnectorRun" where
  "as_catalog r = (case r of R_Catalog x \<Rightarrow> x | _ \<Rightarrow> TimedOut)"

section \<open>Programs\<close>

type_synonym ('c, 'r) Program = "('c Call, Reply, 'r) Prog"

text \<open>The drop of the request guard when its scope is left, by a return or by a panic.\<close>

primrec finally_drop :: "RequestGuard \<Rightarrow> ('c, 'r) Program \<Rightarrow> ('c, 'r) Program" where
  "finally_drop guard (Return r) = Do (C_Drop guard) (\<lambda>_. Return r)"
| "finally_drop guard Panic = Do (C_Drop guard) (\<lambda>_. Panic)"
| "finally_drop guard (Do call k) = Do call (\<lambda>r. finally_drop guard (k r))"

type_synonym 'c Event = "'c Call \<times> Reply"

lemma monitored_finally:
  "monitored step always (\<lambda>s r. \<forall>reply. always (step s (C_Drop guard, reply)) \<and>
     finish (step s (C_Drop guard, reply)) r) p s \<Longrightarrow>
   monitored step always finish (finally_drop guard p) s"
  by (induction p arbitrary: s) auto

section \<open>The catalog search\<close>

text \<open>
  The loop of \<open>search_catalog_with_request_id\<close>. \<open>pages n query\<close> is the connector's answer to its
  \<open>n\<close>-th page request; a connector whose cursors go round in a circle is left to the
  request's timeout, so the loop is a partial function.
\<close>

definition page_limit :: "u32 \<Rightarrow> CatalogEntity list \<Rightarrow> u32" where
  "page_limit requested_limit visible =
     saturating_sub requested_limit
       (if length visible < 2 ^ 32 then word_of_nat (length visible) else requested_limit)"

partial_function (option) catalog_loop ::
  "policy_env \<Rightarrow> size_env \<Rightarrow> ConnectionProfile \<Rightarrow> (nat \<Rightarrow> CatalogQuery \<Rightarrow> ConnectorError + CatalogPage)
     \<Rightarrow> u32 \<Rightarrow> nat \<Rightarrow> CatalogEntity list \<Rightarrow> CatalogQuery \<Rightarrow> (ConnectorError + CatalogPage) option" where
  "catalog_loop env sz profile pages requested_limit n visible_entities page_query =
     (let page_query = page_query\<lparr>cq_limit := page_limit requested_limit visible_entities\<rparr> in
      case pages n page_query of
        Inl e \<Rightarrow> Some (Inl e)
      | Inr page \<Rightarrow>
          let visible_entities = visible_entities @
                filter (\<lambda>entity. metadata_visible env (pr_policy profile) (cat_id entity)) (cp_entities page) in
          if length visible_entities \<ge> unat requested_limit \<or> cp_next_cursor page = None then
            Some (map_res (\<lambda>entities. \<lparr>cp_entities = entities, cp_next_cursor = cp_next_cursor page\<rparr>)
              (enforce_catalog_limits sz profile (take (unat requested_limit) visible_entities)))
          else if cp_next_cursor page = cq_cursor page_query then
            Some (Inl (ConnectorError_new Cat_Protocol
              ''catalog connector returned a cursor that did not advance''))
          else catalog_loop env sz profile pages requested_limit (Suc n) visible_entities
            (page_query\<lparr>cq_cursor := cp_next_cursor page\<rparr>))"

declare catalog_loop.simps [code]

definition catalog_search ::
  "policy_env \<Rightarrow> size_env \<Rightarrow> ConnectionProfile \<Rightarrow> (nat \<Rightarrow> CatalogQuery \<Rightarrow> ConnectorError + CatalogPage)
     \<Rightarrow> CatalogQuery \<Rightarrow> (ConnectorError + CatalogPage) option" where
  "catalog_search env sz profile pages request =
     (if cq_limit request = 0 then
        Some (Inl (ConnectorError_new Cat_InvalidRequest ''catalog limit must be greater than zero''))
      else catalog_loop env sz profile pages (cq_limit request) 0 [] request)"

section \<open>The shared state\<close>

text \<open>
  What a runtime is built with: the registry, the manifests of its connectors, the grant
  verifier, and the third-party functions its parts use. The credential store is a value of
  type \<open>'s\<close> read through \<open>rt_secret\<close>.
\<close>

record ('c, 's) Runtime =
  rt_registry :: "'c ConnectorRegistry"
  rt_manifest :: "'c \<Rightarrow> ConnectorManifest"
  rt_grant_verifier :: "GrantVerifier option"
  rt_secret :: "'s \<Rightarrow> string \<Rightarrow> StoreError + SecretMaterial"
  rt_policy_env :: policy_env
  rt_grant_env :: grant_env
  rt_audit_env :: audit_env
  rt_profile_env :: profile_env
  rt_sizes :: size_env
  rt_operation_json :: "DataOperation \<Rightarrow> string + json"

record ('c, 's) World =
  w_requests :: "'c Requests"
  w_cursors :: MaskedCursorRegistry
  w_profiles :: ProfileRepository
  w_credentials :: 's
  w_audit :: AuditRepository

text \<open>
  What the surroundings contribute to one call: the clocks, random UUIDs, a failing database,
  and what comes of a connector call that is not cancelled beforehand.
\<close>

record Surroundings =
  in_now :: DateTime
  in_instant :: Instant
  in_elapsed_ms :: u64
  in_uuids :: "nat \<Rightarrow> string"
  in_fault :: "StoreError option"
  in_execute :: "(ConnectorError + OperationResult) ConnectorRun"
  in_test :: "(ConnectorError + ConnectionInfo) ConnectorRun"
  in_describe :: "(ConnectorError + EntityDescription) ConnectorRun"
  in_pages :: "(nat \<Rightarrow> CatalogQuery \<Rightarrow> ConnectorError + CatalogPage) ConnectorRun"

definition run_connector_future :: "bool \<Rightarrow> 'a ConnectorRun \<Rightarrow> 'a ConnectorRun" where
  "run_connector_future cancelled outcome = (if cancelled then Cancelled False else outcome)"

definition is_cancelled :: "RequestGuard \<Rightarrow> ('c, 's) World \<Rightarrow> bool" where
  "is_cancelled guard w = rc_cancelled (rq_controls (w_requests w) ! rg_control guard)"

definition on_requests :: "('c Requests \<Rightarrow> 'a \<times> 'c Requests) \<Rightarrow> ('a \<Rightarrow> Reply) \<Rightarrow> ('c, 's) World
     \<Rightarrow> Reply \<times> ('c, 's) World" where
  "on_requests f reply w = (case f (w_requests w) of (x, s) \<Rightarrow> (reply x, w\<lparr>w_requests := s\<rparr>))"

text \<open>The call on the audit database a call of the runtime makes, unless it fails.\<close>

definition audit_event_at :: "Surroundings \<Rightarrow> AuditEvent \<Rightarrow> AuditEvent" where
  "audit_event_at x event = event\<lparr>ev_timestamp := in_now x, ev_elapsed_ms := in_elapsed_ms x\<rparr>"

fun audit_calls :: "Surroundings \<Rightarrow> 'c Call \<Rightarrow> AuditCall list" where
  "audit_calls x (C_ConsumeNonce key expires) = [Call_Consume (in_now x) key expires]"
| "audit_calls x (C_ReserveIdempotency cid key hash) = [Call_Reserve (in_now x) cid key hash]"
| "audit_calls x (C_FinishIdempotency cid key hash finish) =
     [case finish of Finish_Succeeded \<Rightarrow> Call_Succeeded (in_now x) cid key hash
      | Finish_Unknown \<Rightarrow> Call_Unknown (in_now x) cid key hash
      | Finish_Release \<Rightarrow> Call_Release cid key hash]"
| "audit_calls x (C_RecordAudit event) = [Call_Append (audit_event_at x event)]"
| "audit_calls x _ = []"

fun audit_reply :: "AuditReply \<Rightarrow> Reply" where
  "audit_reply (Reply_Consume c) = R_Nonce (Inr c)"
| "audit_reply (Reply_Reserve r) = R_Reservation r"
| "audit_reply (Reply_Unit r) = R_Stored r"
| "audit_reply (Reply_Purge n) = R_Unit"

fun failed_reply :: "StoreError \<Rightarrow> 'c Call \<Rightarrow> Reply" where
  "failed_reply e (C_ConsumeNonce _ _) = R_Nonce (Inl e)"
| "failed_reply e (C_ReserveIdempotency _ _ _) = R_Reservation (Inl e)"
| "failed_reply e _ = R_Stored (Inl e)"

definition made_audit_calls :: "Surroundings \<Rightarrow> 'c Call \<Rightarrow> AuditCall list" where
  "made_audit_calls x call = (if in_fault x = None then audit_calls x call else [])"

definition perform_audit ::
  "('c, 's) Runtime \<Rightarrow> Surroundings \<Rightarrow> 'c Call \<Rightarrow> ('c, 's) World \<Rightarrow> Reply \<times> ('c, 's) World" where
  "perform_audit rt x call w =
     (case in_fault x of
        Some e \<Rightarrow> (failed_reply e call, w)
      | None \<Rightarrow>
          (case audit_run (rt_audit_env rt) (audit_calls x call) (w_audit w) of
             (log, db) \<Rightarrow> (audit_reply (snd (hd log)), w\<lparr>w_audit := db\<rparr>)))"

section \<open>What a call does\<close>

fun perform ::
  "('c, 's) Runtime \<Rightarrow> Surroundings \<Rightarrow> 'c Call \<Rightarrow> ('c, 's) World \<Rightarrow> Reply \<times> ('c, 's) World" where
  "perform rt x (C_Reserve rid cid sid) w = on_requests (reserve_request rid cid sid) R_Reserve w"
| "perform rt x (C_Drop guard) w = (R_Unit, w\<lparr>w_requests := drop_guard guard (w_requests w)\<rparr>)"
| "perform rt x (C_Activate guard connector) w = on_requests (activate_request guard connector) R_Activate w"
| "perform rt x (C_IsCancelled guard) w = (R_Bool (is_cancelled guard w), w)"
| "perform rt x (C_CancelRequests cid) w = on_requests (cancel_connection_requests cid) (\<lambda>_. R_Unit) w"
| "perform rt x (C_InvalidateClients cid) w = (R_Unit, w)"
| "perform rt x (C_ClearCursors cid) w = (R_Unit, w\<lparr>w_cursors := clear_masked_cursors cid (w_cursors w)\<rparr>)"
| "perform rt x (C_ResolveCursor token cid sid tool target) w =
     (case cursor_resolve (in_instant x) token cid sid tool target (w_cursors w) of
        (r, entries) \<Rightarrow> (R_Cursor r, w\<lparr>w_cursors := entries\<rparr>))"
| "perform rt x (C_ProtectCursor cid sid tool target result) w =
     (case protect_masked_cursor (in_instant x) (in_uuids x) cid sid tool target result (w_cursors w) of
        Some (r, entries) \<Rightarrow> (R_Result r, w\<lparr>w_cursors := entries\<rparr>)
      | None \<Rightarrow> (R_Result (result\<lparr>or_next_cursor := None\<rparr>), w))"
| "perform rt x (C_GetProfile cid) w =
     (R_Profile (case in_fault x of Some e \<Rightarrow> Inl e
        | None \<Rightarrow> get_profile (rt_profile_env rt) cid (w_profiles w)), w)"
| "perform rt x (C_GetSecret ref) w =
     (R_Secret (case in_fault x of Some e \<Rightarrow> Inl e | None \<Rightarrow> rt_secret rt (w_credentials w) ref), w)"
| "perform rt x C_Now w = (R_Now (in_now x), w)"
| "perform rt x C_Instant w = (R_Instant (in_instant x), w)"
| "perform rt x (C_ConsumeNonce key expires) w = perform_audit rt x (C_ConsumeNonce key expires) w"
| "perform rt x (C_ReserveIdempotency cid key hash) w =
     perform_audit rt x (C_ReserveIdempotency cid key hash) w"
| "perform rt x (C_FinishIdempotency cid key hash finish) w =
     perform_audit rt x (C_FinishIdempotency cid key hash finish) w"
| "perform rt x (C_RecordAudit event) w = perform_audit rt x (C_RecordAudit event) w"
| "perform rt x (C_Execute connector guard _ _ _ _) w =
     (R_Execute (run_connector_future (is_cancelled guard w) (in_execute x)), w)"
| "perform rt x (C_TestConnection connector guard _ _ _) w =
     (R_Test (run_connector_future (is_cancelled guard w) (in_test x)), w)"
| "perform rt x (C_DescribeEntity connector guard _ _ _ _) w =
     (R_Describe (run_connector_future (is_cancelled guard w) (in_describe x)), w)"
| "perform rt x (C_SearchCatalog connector guard _ profile _ request) w =
     (R_Catalog (run_connector_future (is_cancelled guard w)
       (case in_pages x of
          Completed pages \<Rightarrow>
            (case catalog_search (rt_policy_env rt) (rt_sizes rt) profile pages request of
               Some r \<Rightarrow> Completed r | None \<Rightarrow> TimedOut)
        | TimedOut \<Rightarrow> TimedOut
        | Cancelled dispatched \<Rightarrow> Cancelled dispatched)), w)"
| "perform rt x (C_CancelConnector connector rid) w = (R_Unit, w)"

text \<open>One program alone, in surroundings that give the \<open>n\<close>-th call \<open>x n\<close>.\<close>

primrec run_program ::
  "('c, 's) Runtime \<Rightarrow> (nat \<Rightarrow> Surroundings) \<Rightarrow> ('c, 'r) Program \<Rightarrow> nat \<Rightarrow> ('c, 's) World
     \<Rightarrow> 'r option \<times> 'c Event list \<times> ('c, 's) World" where
  "run_program rt x (Return r) = (\<lambda>n w. (Some r, [], w))"
| "run_program rt x Panic = (\<lambda>n w. (None, [], w))"
| "run_program rt x (Do call k) = (\<lambda>n w.
     (case perform rt (x n) call w of (reply, w) \<Rightarrow>
        (case run_program rt x (k reply) (Suc n) w of (r, es, w) \<Rightarrow> (r, (call, reply) # es, w))))"

section \<open>Interleavings\<close>

text \<open>
  Threads with their histories. A thread was started with arguments \<open>a\<close>, has made the calls
  \<open>es\<close> and has a program left. The threads may belong to several processes that share the
  databases: everything but the audit database may change at any time, which covers the
  state of the process a thread runs in as well as the work of the control plane. The audit
  database is changed by the calls of the threads and by maintenance only. The last
  component is the sequence of all calls on it.
\<close>

fun maintenance :: "AuditCall \<Rightarrow> bool" where
  "maintenance (Call_Append _) = True"
| "maintenance (Call_Purge _ _) = True"
| "maintenance _ = False"

type_synonym ('a, 'c, 'r) Thread = "'a \<times> 'c Event list \<times> ('c, 'r) Program"

inductive system_run ::
  "('c, 's) Runtime \<Rightarrow> ('a \<Rightarrow> ('c, 'r) Program) \<Rightarrow> ('c, 's) World
     \<Rightarrow> ('c, 's) World \<Rightarrow> ('a, 'c, 'r) Thread list \<Rightarrow> AuditCall list \<Rightarrow> bool"
  for rt program w0 where
  sys_init: "system_run rt program w0 w0 [] []"
| sys_start: "system_run rt program w0 w ths cs \<Longrightarrow>
     system_run rt program w0 w (ths @ [(a, [], program a)]) cs"
| sys_call: "system_run rt program w0 w ths cs \<Longrightarrow> i < length ths \<Longrightarrow> ths ! i = (a, es, Do call k) \<Longrightarrow>
     perform rt x call w = (r, w') \<Longrightarrow>
     system_run rt program w0 w' (ths[i := (a, es @ [(call, r)], k r)]) (cs @ made_audit_calls x call)"
| sys_audit: "system_run rt program w0 w ths cs \<Longrightarrow> maintenance c \<Longrightarrow>
     w_audit w' = snd (audit_call (rt_audit_env rt) c (w_audit w)) \<Longrightarrow>
     system_run rt program w0 w' ths (cs @ [c])"
| sys_other: "system_run rt program w0 w ths cs \<Longrightarrow> w_audit w' = w_audit w \<Longrightarrow>
     system_run rt program w0 w' ths cs"

section \<open>Histories\<close>

lemma run_program_path:
  "run_program rt x p n w = (Some r, es, w') \<Longrightarrow> path p es (Return r)"
proof (induction p arbitrary: n w es)
  case (Do call k)
  then show ?case by (auto split: prod.splits intro!: path_cons)
qed (auto intro: path_nil)

lemma system_run_path:
  "system_run rt program w0 w ths cs \<Longrightarrow> (a, es, p) \<in> set ths \<Longrightarrow> path (program a) es p"
proof (induction arbitrary: a es p rule: system_run.induct)
  case (sys_call w ths cs i a' es' call k x r w')
  have "path (program a') (es' @ [(call, r)]) (k r)"
    by (rule path_snoc) (use sys_call in \<open>metis nth_mem\<close>)
  moreover have "(a, es, p) \<in> insert (a', es' @ [(call, r)], k r) (set ths)"
    using sys_call.prems set_update_subset_insert by fastforce
  ultimately show ?case using sys_call.IH by auto
qed (auto intro: path_nil)

text \<open>A program without calls of a kind.\<close>

primrec never :: "('c Call \<Rightarrow> bool) \<Rightarrow> ('c, 'r) Program \<Rightarrow> bool" where
  "never P (Return r) = True"
| "never P Panic = True"
| "never P (Do call k) = (\<not> P call \<and> (\<forall>r. never P (k r)))"

lemma never_monitored:
  assumes "never P p" "always s" "\<And>s call r. always s \<Longrightarrow> \<not> P call \<Longrightarrow> always (step s (call, r))"
  shows "monitored step always (\<lambda>_ _. True) p s"
  using assms(1,2) by (induction p arbitrary: s) (auto intro: assms(3))

lemma never_finally: "never P p \<Longrightarrow> \<not> P (C_Drop guard) \<Longrightarrow> never P (finally_drop guard p)"
  by (induction p) auto

text \<open>Sums over the histories of all threads.\<close>

definition history_total :: "('a \<Rightarrow> 'c Event \<Rightarrow> int) \<Rightarrow> ('a, 'c, 'r) Thread list \<Rightarrow> int" where
  "history_total f ths = sum_list (map (\<lambda>(a, es, _). sum_list (map (f a) es)) ths)"

lemma total_append: "history_total f (ths @ [(a, [], p)]) = history_total f ths"
  by (simp add: history_total_def)

lemma total_call:
  "i < length ths \<Longrightarrow> ths ! i = (a, es, p) \<Longrightarrow>
     history_total f (ths[i := (a, es @ [e], q)]) = history_total f ths + f a e"
proof (induction ths arbitrary: i)
  case (Cons th ths)
  then show ?case by (cases i) (auto simp: history_total_def)
qed simp

lemma total_le:
  "(\<And>a es p. (a, es, p) \<in> set ths \<Longrightarrow> sum_list (map (f a) es) \<le> sum_list (map (g a) es)) \<Longrightarrow>
     history_total f ths \<le> history_total g ths"
  by (induction ths) (fastforce simp: history_total_def intro: add_mono)+

lemma foldl_sum: "foldl (\<lambda>n e. n + f e) (s :: int) es = s + sum_list (map f es)"
  by (induction es arbitrary: s) auto

section \<open>The threads and the audit database\<close>

fun consumed_nonce :: "string \<Rightarrow> int \<Rightarrow> 'c Event \<Rightarrow> int" where
  "consumed_nonce key expires (C_ConsumeNonce key' expires', r) =
     (if key' = key \<and> expires' = expires \<and> as_nonce r = Inr Consumed then 1 else 0)"
| "consumed_nonce key expires _ = 0"

fun reserved_key :: "ConnectionId \<Rightarrow> string \<Rightarrow> 'c Event \<Rightarrow> int" where
  "reserved_key cid key (C_ReserveIdempotency cid' key' _, r) =
     (if cid' = cid \<and> key' = key \<and> as_reservation r = Inr Reserved then 1 else 0)"
| "reserved_key cid key _ = 0"

fun released_key :: "ConnectionId \<Rightarrow> string \<Rightarrow> 'c Event \<Rightarrow> int" where
  "released_key cid key (C_FinishIdempotency cid' key' _ Finish_Release, r) =
     (if cid' = cid \<and> key' = key \<and> r = R_Stored (Inr ()) then 1 else 0)"
| "released_key cid key _ = 0"

lemma audit_run_append:
  "audit_run ae (cs @ cs') db =
     (fst (audit_run ae cs db) @ fst (audit_run ae cs' (snd (audit_run ae cs db))),
      snd (audit_run ae cs' (snd (audit_run ae cs db))))"
  by (induction cs arbitrary: db) (simp_all add: audit_run_Cons)

lemma audit_run_single:
  "audit_run ae [c] db = ([(c, fst (audit_call ae c db))], snd (audit_call ae c db))"
  by (simp add: audit_run_Cons)

lemmas log_counts = consumptions_def count_reserved_def count_released_def

lemma perform_audit_counts:
  fixes rt :: "('c, 's) Runtime"
  assumes "perform rt x call w = (r, w')"
  defines "run \<equiv> audit_run (rt_audit_env rt) (made_audit_calls x call) (w_audit w)"
  shows "w_audit w' = snd run"
    "int (length (consumptions key expires (fst run))) = consumed_nonce key expires (call, r)"
    "int (count_reserved cid key (fst run)) = reserved_key cid key (call, r)"
    "int (count_released cid key (fst run)) = released_key cid key (call, r)"
proof -
  have frame: "w_audit w' = w_audit w" if "audit_calls x call = []"
    using assms(1) that by (cases call) (auto simp: on_requests_def split: prod.splits option.splits)
  show "w_audit w' = snd run"
    using assms(1) frame
    by (cases call) (auto simp: run_def made_audit_calls_def perform_audit_def split: option.splits prod.splits)
  show "int (length (consumptions key expires (fst run))) = consumed_nonce key expires (call, r)"
    using assms(1)
    by (cases call) (auto simp: run_def made_audit_calls_def perform_audit_def log_counts audit_run_single
        as_nonce_def apfst_def map_prod_def split: option.splits prod.splits IdempotencyFinish.splits)
  show "int (count_reserved cid key (fst run)) = reserved_key cid key (call, r)"
    using assms(1)
    by (cases call) (auto simp: run_def made_audit_calls_def perform_audit_def log_counts audit_run_single
        as_reservation_def apfst_def map_prod_def split: option.splits prod.splits IdempotencyFinish.splits)
  show "int (count_released cid key (fst run)) = released_key cid key (call, r)"
    using assms(1)
    by (cases call) (auto simp: run_def made_audit_calls_def perform_audit_def log_counts audit_run_single
        apfst_def map_prod_def split: option.splits prod.splits IdempotencyFinish.splits)
qed

lemma maintenance_counts:
  assumes "maintenance c"
  shows "consumptions key expires (fst (audit_run ae [c] db)) = []"
    "count_reserved cid key (fst (audit_run ae [c] db)) = 0"
    "count_released cid key (fst (audit_run ae [c] db)) = 0"
  using assms by (cases c; simp add: audit_run_single log_counts)+

lemma count_append:
  "consumptions key expires (log @ log') = consumptions key expires log @ consumptions key expires log'"
  "count_reserved cid key (log @ log') = count_reserved cid key log + count_reserved cid key log'"
  "count_released cid key (log @ log') = count_released cid key log + count_released cid key log'"
  by (simp_all add: log_counts)

text \<open>The audit database is where its call sequence leads, and its log agrees with the histories.\<close>

lemma system_run_audit:
  fixes rt :: "('c, 's) Runtime"
  assumes "system_run rt program w0 w ths cs"
  shows "snd (audit_run (rt_audit_env rt) cs (w_audit w0)) = w_audit w \<and>
    int (length (consumptions key expires (fst (audit_run (rt_audit_env rt) cs (w_audit w0)))))
      = history_total (\<lambda>_. consumed_nonce key expires) ths \<and>
    int (count_reserved cid key (fst (audit_run (rt_audit_env rt) cs (w_audit w0))))
      = history_total (\<lambda>_. reserved_key cid key) ths \<and>
    int (count_released cid key (fst (audit_run (rt_audit_env rt) cs (w_audit w0))))
      = history_total (\<lambda>_. released_key cid key) ths"
  using assms
proof (induction rule: system_run.induct)
  case sys_init
  show ?case by (simp add: log_counts history_total_def)
next
  case (sys_start w ths cs a)
  then show ?case by (simp only: total_append)
next
  case (sys_call w ths cs i a es call k x r w')
  note counts = perform_audit_counts [OF sys_call.hyps(4)] and add = total_call [OF sys_call.hyps(2,3)]
  from sys_call.IH show ?case by (simp add: audit_run_append count_append add counts)
next
  case (sys_audit w ths cs c w')
  then show ?case
    by (simp add: audit_run_append count_append maintenance_counts [OF sys_audit.hyps(2)])
      (simp add: audit_run_single)
next
  case (sys_other w ths cs w')
  then show ?case by simp
qed

text \<open>Bounds on a program's own history add up.\<close>

lemma system_total_le:
  assumes "system_run rt program w0 w ths cs"
    and "\<And>a. monitored (\<lambda>n e. n + (g a e - f a e)) (\<lambda>n. n \<ge> 0) (\<lambda>_ _. True) (program a) (0 :: int)"
  shows "history_total f ths \<le> history_total g ths"
proof (rule total_le)
  fix a es p assume "(a, es, p) \<in> set ths"
  then have "path (program a) es p" by (rule system_run_path [OF assms(1)])
  from path_always [OF this assms(2)] have "0 \<le> sum_list (map (\<lambda>e. g a e - f a e) es)"
    by (simp add: foldl_sum)
  also have "\<dots> = sum_list (map (g a) es) - sum_list (map (f a) es)"
    by (induction es) auto
  finally show "sum_list (map (f a) es) \<le> sum_list (map (g a) es)" by simp
qed

end
