(* ===== verification/Runtime_Execute.thy ===== *)
theory Runtime_Execute
  imports Runtime_Programs
begin

text \<open>
  The requests of the runtime as programs: \<open>execute_with_request_id\<close>,
  \<open>test_connection_with_request_id\<close>, \<open>search_catalog_with_request_id\<close>,
  \<open>describe_entity_with_request_id\<close> and what they share (\<open>connector-runtime/src/runtime.rs\<close>),
  call for call and branch for branch.
\<close>

record ExecutionAuthorization =
  ea_subject :: string
  ea_session_id :: string
  ea_tool :: string
  ea_arguments :: json
  ea_grant :: "AuthorizationGrant option"

section \<open>Shared steps\<close>

definition invalidate_connection :: "ConnectionId \<Rightarrow> ('c, 'r) Program \<Rightarrow> ('c, 'r) Program" where
  "invalidate_connection cid rest =
     Do (C_ClearCursors cid) (\<lambda>_. Do (C_CancelRequests cid) (\<lambda>_.
     Do (C_InvalidateClients cid) (\<lambda>_. Do (C_ClearCursors cid) (\<lambda>_. rest))))"

definition load_profile ::
  "ConnectionId \<Rightarrow> (RuntimeError + ConnectionProfile \<Rightarrow> ('c, 'r) Program) \<Rightarrow> ('c, 'r) Program" where
  "load_profile cid k =
     Do (C_GetProfile cid) (\<lambda>reply.
       case as_profile reply of
         Inr profile \<Rightarrow>
           if \<not> pol_enabled (pr_policy profile) then invalidate_connection cid (k (Inr profile))
           else k (Inr profile)
       | Inl e \<Rightarrow>
           if e = Store_NotFound then invalidate_connection cid (k (Inl (RT_Store Store_NotFound)))
           else k (Inl (RT_Store e)))"

text \<open>The time and the elapsed milliseconds of the event are set when the call is made.\<close>

definition record_audit ::
  "string \<Rightarrow> string \<Rightarrow> string \<Rightarrow> ConnectionId \<Rightarrow> string \<Rightarrow> string option \<Rightarrow> string \<Rightarrow> bool \<Rightarrow> u64 \<Rightarrow> u64
     \<Rightarrow> ErrorCategory option \<Rightarrow> ('c, 'r) Program \<Rightarrow> ('c, 'r) Program" where
  "record_audit request_id subject session_id cid tool target policy_decision confirmed returned affected
     error_category rest =
     Do (C_RecordAudit \<lparr>ev_request_id = request_id, ev_timestamp = 0, ev_subject = subject,
       ev_session_id = session_id, ev_connection_id = Some cid, ev_tool = tool, ev_target = target,
       ev_policy_decision = policy_decision, ev_confirmed = confirmed, ev_elapsed_ms = 0,
       ev_returned = returned, ev_affected = affected, ev_error_category = error_category\<rparr>) (\<lambda>_. rest)"

definition connector_context_with_request_id ::
  "string \<Rightarrow> ConnectionPolicy \<Rightarrow> string \<Rightarrow> (ConnectorContext \<Rightarrow> ('c, 'r) Program) \<Rightarrow> ('c, 'r) Program" where
  "connector_context_with_request_id session_id policy request_id k =
     Do C_Instant (\<lambda>reply. k \<lparr>cx_request_id = request_id, cx_session_id = session_id,
       cx_deadline = as_instant reply + uint (pol_timeout_ms policy) * 1000000,
       cx_max_rows = pol_max_rows policy, cx_max_bytes = pol_max_bytes policy\<rparr>)"

definition finish_idempotency ::
  "ConnectionId \<Rightarrow> (string \<times> string) option \<Rightarrow> IdempotencyFinish \<Rightarrow> ('c, 'r) Program \<Rightarrow> ('c, 'r) Program" where
  "finish_idempotency cid idempotency finish rest =
     (case idempotency of
        None \<Rightarrow> rest
      | Some (idempotency_key, operation_hash) \<Rightarrow>
          Do (C_FinishIdempotency cid idempotency_key operation_hash finish) (\<lambda>_. rest))"

fun idempotency_reservation_error :: "IdempotencyReservation \<Rightarrow> ConnectorError option" where
  "idempotency_reservation_error Reserved = None"
| "idempotency_reservation_error KeyConflict =
     Some (with_code ''idempotency_key_conflict'' (ConnectorError_new Cat_Conflict
       ''idempotency key is already bound to a different write request''))"
| "idempotency_reservation_error (Existing Succeeded) =
     Some (with_code ''idempotency_already_succeeded'' (ConnectorError_new Cat_Conflict
       ''a write with this idempotency key already succeeded; it was not executed again''))"
| "idempotency_reservation_error (Existing InFlight) =
     Some (with_code ''idempotency_outcome_pending'' (ConnectorError_new Cat_UnknownOutcome
       ''a write with this idempotency key is in flight or ended before its outcome was persisted; do not retry it''))"
| "idempotency_reservation_error (Existing Unknown) =
     Some (with_code ''idempotency_unknown_outcome'' (ConnectorError_new Cat_UnknownOutcome
       ''the previous write with this idempotency key has an unknown outcome; it was not executed again''))"

definition is_write :: "Action \<Rightarrow> bool" where
  "is_write action \<longleftrightarrow> action \<in> {Action_Insert, Action_Update, Action_Delete, Action_NativeWrite}"

section \<open>Execution\<close>

text \<open>What an execution has established when it goes on: one record for the local variables.\<close>

record 'c Execution =
  ex_connection_id :: ConnectionId
  ex_authorization :: ExecutionAuthorization
  ex_request_id :: string
  ex_guard :: RequestGuard
  ex_profile :: ConnectionProfile
  ex_connector :: 'c
  ex_target :: "string option"
  ex_action :: Action
  ex_decision :: PolicyDecision
  ex_grant :: "VerifiedAuthorizationGrant option"

definition execution_audit ::
  "'c Execution \<Rightarrow> bool \<Rightarrow> u64 \<Rightarrow> u64 \<Rightarrow> ErrorCategory option \<Rightarrow> ('c, 'r) Program \<Rightarrow> ('c, 'r) Program" where
  "execution_audit ex confirmed returned affected error_category rest =
     record_audit (ex_request_id ex) (ea_subject (ex_authorization ex)) (ea_session_id (ex_authorization ex))
       (ex_connection_id ex) (ea_tool (ex_authorization ex)) (ex_target ex) (decision_name (ex_decision ex))
       confirmed returned affected error_category rest"

abbreviation confirmed :: "'c Execution \<Rightarrow> bool" where
  "confirmed ex \<equiv> ex_grant ex \<noteq> None"

text \<open>From the connector's answer to the result: limits, masking, the page cursor and the audit record.\<close>

definition execute_result ::
  "('c, 's) Runtime \<Rightarrow> 'c Execution \<Rightarrow> ConnectorError + OperationResult
     \<Rightarrow> ('c, RuntimeError + OperationResult) Program" where
  "execute_result rt ex answer =
     (case answer of
        Inl error \<Rightarrow>
          execution_audit ex (confirmed ex) 0 0 (Some (runtime_error_category (RT_Connector error)))
            (Return (Inl (RT_Connector error)))
      | Inr result \<Rightarrow>
          (case enforce_result_limits_and_masking (rt_policy_env rt) (rt_sizes rt) (ex_profile ex)
              (ex_target ex) result of
             Inl error \<Rightarrow> Return (Inl error)
           | Inr result \<Rightarrow>
               let record_it = (\<lambda>result. execution_audit ex (confirmed ex) (rm_returned (or_metrics result))
                     (rm_affected (or_metrics result)) None (Return (Inr result))) in
               if pol_egress (pr_policy (ex_profile ex)) = CloudAllowedMasked then
                 Do (C_ProtectCursor (ex_connection_id ex) (ea_session_id (ex_authorization ex))
                     (ea_tool (ex_authorization ex)) (ex_target ex) result)
                   (\<lambda>reply. record_it (as_result result reply))
               else record_it result))"

definition finish_of :: "ConnectorError + OperationResult \<Rightarrow> IdempotencyFinish" where
  "finish_of answer =
     (case answer of
        Inr _ \<Rightarrow> Finish_Succeeded
      | Inl error \<Rightarrow> if ce_category error = Cat_UnknownOutcome then Finish_Unknown else Finish_Release)"

definition execute_outcome ::
  "('c, 's) Runtime \<Rightarrow> 'c Execution \<Rightarrow> (string \<times> string) option
     \<Rightarrow> (ConnectorError + OperationResult) ConnectorRun \<Rightarrow> ('c, RuntimeError + OperationResult) Program" where
  "execute_outcome rt ex idempotency connector_run =
     (let cid = ex_connection_id ex; write = is_write (ex_action ex) in
      case connector_run of
        Completed answer \<Rightarrow>
          finish_idempotency cid idempotency (finish_of answer) (execute_result rt ex answer)
      | TimedOut \<Rightarrow>
          Do (C_CancelConnector (ex_connector ex) (ex_request_id ex)) (\<lambda>_.
          let rest = execution_audit ex (confirmed ex) 0 0
                (Some (if write then Cat_UnknownOutcome else Cat_Timeout))
                (Return (Inl (if write then RT_Connector (ConnectorError_new Cat_UnknownOutcome
                    ''operation timed out after it was sent; the database write outcome is unknown'')
                  else RT_Timeout))) in
          if write then finish_idempotency cid idempotency Finish_Unknown rest else rest)
      | Cancelled dispatched \<Rightarrow>
          let write_outcome_unknown = write \<and> dispatched;
              error = request_cancelled_error write_outcome_unknown in
          finish_idempotency cid idempotency
            (if write_outcome_unknown then Finish_Unknown else Finish_Release)
            (execution_audit ex (confirmed ex) 0 0 (Some (runtime_error_category error)) (Return (Inl error))))"

definition connector_profile :: "string \<Rightarrow> ConnectionProfile \<Rightarrow> ConnectionProfile" where
  "connector_profile tool profile =
     (if tool = ''sql_query'' then profile\<lparr>pr_policy := (pr_policy profile)\<lparr>pol_allow_native_read := True\<rparr>\<rparr>
      else profile)"

definition execute_dispatch ::
  "('c, 's) Runtime \<Rightarrow> 'c Execution \<Rightarrow> ConnectorContext \<Rightarrow> SecretMaterial \<Rightarrow> DataOperation
     \<Rightarrow> (string \<times> string) option \<Rightarrow> ('c, RuntimeError + OperationResult) Program" where
  "execute_dispatch rt ex cx secret operation idempotency =
     Do (C_Execute (ex_connector ex) (ex_guard ex) cx
         (connector_profile (ea_tool (ex_authorization ex)) (ex_profile ex)) secret operation)
       (\<lambda>reply. execute_outcome rt ex idempotency (as_execute reply))"

definition operation_hash :: "('c, 's) Runtime \<Rightarrow> DataOperation \<Rightarrow> RuntimeError + string" where
  "operation_hash rt operation =
     bind_res (map_err RT_Serialization (rt_operation_json rt operation)) (\<lambda>json.
     map_err RT_Policy (canonical_arguments_hash (rt_grant_env rt) json))"

definition execute_idempotent ::
  "('c, 's) Runtime \<Rightarrow> 'c Execution \<Rightarrow> ConnectorContext \<Rightarrow> SecretMaterial \<Rightarrow> DataOperation
     \<Rightarrow> ('c, RuntimeError + OperationResult) Program" where
  "execute_idempotent rt ex cx secret operation =
     (case write_idempotency_key operation of
        None \<Rightarrow> execute_dispatch rt ex cx secret operation None
      | Some idempotency_key \<Rightarrow>
          (case operation_hash rt operation of
             Inl e \<Rightarrow> Return (Inl e)
           | Inr hash \<Rightarrow>
               Do (C_ReserveIdempotency (ex_connection_id ex) idempotency_key hash) (\<lambda>reply.
                 case as_reservation reply of
                   Inl _ \<Rightarrow> Return (Inl (RT_Connector (with_code ''idempotency_store_unavailable''
                     (ConnectorError_new Cat_Internal
                       ''idempotency reservation could not be persisted; the write was not sent''))))
                 | Inr reservation \<Rightarrow>
                     (case idempotency_reservation_error reservation of
                        None \<Rightarrow> execute_dispatch rt ex cx secret operation (Some (idempotency_key, hash))
                      | Some error \<Rightarrow>
                          execution_audit ex (confirmed ex) 0 0 (Some (ce_category error))
                            (Return (Inl (RT_Connector error)))))))"

definition replay_error :: "StoreError + GrantNonceConsumption \<Rightarrow> RuntimeError option" where
  "replay_error consumption =
     (case consumption of
        Inr Consumed \<Rightarrow> None
      | Inr Nonce_Replayed \<Rightarrow> Some (RT_Policy Replayed)
      | Inr Nonce_Expired \<Rightarrow> Some (RT_Policy Expired)
      | Inl _ \<Rightarrow> Some (RT_Connector (with_code ''authorization_replay_store_unavailable''
          (with_phase Phase_Authorization (ConnectorError_new Cat_Internal
            ''authorization replay protection could not be persisted; the write was not sent'')))))"

definition execute_consume ::
  "('c, 's) Runtime \<Rightarrow> 'c Execution \<Rightarrow> ConnectorContext \<Rightarrow> SecretMaterial \<Rightarrow> DataOperation
     \<Rightarrow> ('c, RuntimeError + OperationResult) Program" where
  "execute_consume rt ex cx secret operation =
     (case ex_grant ex of
        None \<Rightarrow> execute_idempotent rt ex cx secret operation
      | Some vg \<Rightarrow>
          Do (C_ConsumeNonce (vg_replay_key vg) (vg_expires_at_millis vg)) (\<lambda>reply.
            case replay_error (as_nonce reply) of
              Some error \<Rightarrow>
                execution_audit ex False 0 0 (Some (runtime_error_category error)) (Return (Inl error))
            | None \<Rightarrow> execute_idempotent rt ex cx secret operation))"

definition execute_activate ::
  "('c, 's) Runtime \<Rightarrow> 'c Execution \<Rightarrow> DataOperation \<Rightarrow> ('c, RuntimeError + OperationResult) Program" where
  "execute_activate rt ex operation =
     Do (C_GetSecret (pr_secret_ref (ex_profile ex))) (\<lambda>reply.
       case as_secret reply of
         Inl e \<Rightarrow> Return (Inl (RT_Store e))
       | Inr secret \<Rightarrow>
           connector_context_with_request_id (ea_session_id (ex_authorization ex))
               (pr_policy (ex_profile ex)) (ex_request_id ex) (\<lambda>cx.
             Do (C_Activate (ex_guard ex) (ex_connector ex)) (\<lambda>reply.
               case as_activated reply of
                 Inl e \<Rightarrow> Return (Inl e)
               | Inr _ \<Rightarrow>
                   Do (C_IsCancelled (ex_guard ex)) (\<lambda>reply.
                     if as_bool reply then
                       execution_audit ex (confirmed ex) 0 0 (Some Cat_Cancelled)
                         (Return (Inl (request_cancelled_error False)))
                     else execute_consume rt ex cx secret operation))))"

definition execute_authorized ::
  "('c, 's) Runtime \<Rightarrow> 'c Execution \<Rightarrow> DataOperation \<Rightarrow> ('c, RuntimeError + OperationResult) Program" where
  "execute_authorized rt ex operation =
     (if pol_egress (pr_policy (ex_profile ex)) = CloudAllowedMasked then
        (case operation_cursor operation of
           None \<Rightarrow> execute_activate rt ex operation
         | Some token \<Rightarrow>
             Do (C_ResolveCursor token (ex_connection_id ex) (ea_session_id (ex_authorization ex))
                 (ea_tool (ex_authorization ex)) (ex_target ex)) (\<lambda>reply.
               case as_cursor reply of
                 Inl error \<Rightarrow>
                   execution_audit ex (confirmed ex) 0 0 (Some Cat_InvalidRequest) (Return (Inl error))
               | Inr connector_cursor \<Rightarrow>
                   execute_activate rt ex (set_operation_cursor connector_cursor operation)))
      else execute_activate rt ex operation)"

definition verification_context ::
  "ConnectionId \<Rightarrow> ConnectionProfile \<Rightarrow> ExecutionAuthorization \<Rightarrow> VerificationContext" where
  "verification_context cid profile authorization =
     \<lparr>vc_subject = ea_subject authorization, vc_session_id = ea_session_id authorization,
      vc_connection_id = cid, vc_tool = ea_tool authorization, vc_arguments = ea_arguments authorization,
      vc_policy_version = pr_policy_version profile, vc_max_rows = pol_max_rows (pr_policy profile),
      vc_max_bytes = pol_max_bytes (pr_policy profile),
      vc_max_affected = pol_max_affected (pr_policy profile)\<rparr>"

text \<open>The decision \<open>Confirm\<close>: the grant is verified at the current time.\<close>

definition execute_confirm ::
  "('c, 's) Runtime \<Rightarrow> 'c Execution \<Rightarrow> DataOperation \<Rightarrow> ('c, RuntimeError + OperationResult) Program" where
  "execute_confirm rt ex operation =
     (let refuse = (\<lambda>error. execution_audit ex False 0 0 (Some Cat_PermissionDenied)
            (Return (Inl (RT_Policy error)))) in
      case (ea_grant (ex_authorization ex), rt_grant_verifier rt) of
        (Some grant, Some verifier) \<Rightarrow>
          Do C_Now (\<lambda>reply.
            case verify (rt_grant_env rt) (as_now reply) verifier grant
                (verification_context (ex_connection_id ex) (ex_profile ex) (ex_authorization ex)) of
              Inr vg \<Rightarrow> execute_authorized rt (ex\<lparr>ex_grant := Some vg\<rparr>) operation
            | Inl error \<Rightarrow> refuse error)
      | _ \<Rightarrow> refuse ConfirmationRequired)"

definition execute_decide ::
  "('c, 's) Runtime \<Rightarrow> 'c Execution \<Rightarrow> DataOperation \<Rightarrow> ('c, RuntimeError + OperationResult) Program" where
  "execute_decide rt ex operation =
     (let policy = pr_policy (ex_profile ex); tool = ea_tool (ex_authorization ex);
          deny = (\<lambda>category error. execution_audit (ex\<lparr>ex_decision := Deny\<rparr>) False 0 0 (Some category)
            (Return (Inl error))) in
      case evaluate_mcp_policy (rt_policy_env rt) policy operation tool of
        Inl error \<Rightarrow> deny (policy_error_category error) (RT_Policy error)
      | Inr Allow \<Rightarrow> execute_authorized rt (ex\<lparr>ex_decision := Allow\<rparr>) operation
      | Inr Deny \<Rightarrow> deny Cat_PermissionDenied
          (RT_Policy (Denied (policy_denial_reason policy (ex_action ex) tool)))
      | Inr Confirm \<Rightarrow> execute_confirm rt (ex\<lparr>ex_decision := Confirm\<rparr>) operation)"

definition execute_reserved ::
  "('c, 's) Runtime \<Rightarrow> ConnectionId \<Rightarrow> DataOperation \<Rightarrow> ExecutionAuthorization \<Rightarrow> string \<Rightarrow> RequestGuard
     \<Rightarrow> ('c, RuntimeError + OperationResult) Program" where
  "execute_reserved rt cid operation authorization request_id guard =
     load_profile cid (\<lambda>loaded.
       case loaded of
         Inl e \<Rightarrow> Return (Inl e)
       | Inr profile \<Rightarrow>
           (case resolve (pr_product profile) (pr_api_mode profile) (rt_registry rt) of
              Inl e \<Rightarrow> Return (Inl e)
            | Inr connector \<Rightarrow>
                (case into_descriptor (rt_manifest rt connector) of
                   None \<Rightarrow> Panic
                 | Some descriptor \<Rightarrow>
                     let ex = \<lparr>ex_connection_id = cid, ex_authorization = authorization,
                           ex_request_id = request_id, ex_guard = guard, ex_profile = profile,
                           ex_connector = connector,
                           ex_target = runtime_operation_target operation (ea_tool authorization),
                           ex_action = classify operation, ex_decision = Deny, ex_grant = None\<rparr> in
                     (case validate_mcp_tool descriptor operation (ea_tool authorization) of
                        Inl error \<Rightarrow>
                          execution_audit ex False 0 0 (Some Cat_InvalidRequest) (Return (Inl error))
                      | Inr _ \<Rightarrow> execute_decide rt ex operation))))"

definition execute_with_request_id ::
  "('c, 's) Runtime \<Rightarrow> string \<Rightarrow> ConnectionId \<Rightarrow> DataOperation \<Rightarrow> ExecutionAuthorization \<Rightarrow> string option
     \<Rightarrow> ('c, RuntimeError + OperationResult) Program" where
  "execute_with_request_id rt uuid cid operation authorization request_id =
     (case validate_optional_request_id request_id of
        Inl e \<Rightarrow> Return (Inl e)
      | Inr _ \<Rightarrow>
          let audit_request_id = (case request_id of Some v \<Rightarrow> v | None \<Rightarrow> uuid) in
          Do (C_Reserve audit_request_id cid (ea_session_id authorization)) (\<lambda>reply.
            case as_guard reply of
              Inl e \<Rightarrow> Return (Inl e)
            | Inr guard \<Rightarrow>
                finally_drop guard (execute_reserved rt cid operation authorization audit_request_id guard)))"

definition execute ::
  "('c, 's) Runtime \<Rightarrow> string \<Rightarrow> ConnectionId \<Rightarrow> DataOperation \<Rightarrow> ExecutionAuthorization
     \<Rightarrow> ('c, RuntimeError + OperationResult) Program" where
  "execute rt uuid cid operation authorization =
     execute_with_request_id rt uuid cid operation authorization None"

section \<open>Connection tests and metadata\<close>

text \<open>What the three metadata requests have established when they go on.\<close>

record 'c MetadataRequest =
  mr_request_id :: string
  mr_subject :: string
  mr_session_id :: string
  mr_connection_id :: ConnectionId
  mr_tool :: string
  mr_target :: "string option"
  mr_guard :: RequestGuard
  mr_profile :: ConnectionProfile
  mr_connector :: 'c
  mr_context :: ConnectorContext

definition metadata_audit ::
  "'c MetadataRequest \<Rightarrow> string \<Rightarrow> u64 \<Rightarrow> ErrorCategory option \<Rightarrow> ('c, 'r) Program \<Rightarrow> ('c, 'r) Program" where
  "metadata_audit m policy_decision returned error_category rest =
     record_audit (mr_request_id m) (mr_subject m) (mr_session_id m) (mr_connection_id m) (mr_tool m)
       (mr_target m) policy_decision False returned 0 error_category rest"

text \<open>The common start: reserve the request, load the profile, find the connector.\<close>

definition metadata_request ::
  "('c, 's) Runtime \<Rightarrow> string \<Rightarrow> ConnectionId \<Rightarrow> string \<Rightarrow> string \<Rightarrow> string \<Rightarrow> string option \<Rightarrow> string option
     \<Rightarrow> ('c MetadataRequest \<Rightarrow> ('c, RuntimeError + 'r) Program) \<Rightarrow> ('c, RuntimeError + 'r) Program" where
  "metadata_request rt uuid cid subject session_id tool target request_id body =
     (case validate_optional_request_id request_id of
        Inl e \<Rightarrow> Return (Inl e)
      | Inr _ \<Rightarrow>
          let rid = (case request_id of Some v \<Rightarrow> v | None \<Rightarrow> uuid) in
          Do (C_Reserve rid cid session_id) (\<lambda>reply.
            case as_guard reply of
              Inl e \<Rightarrow> Return (Inl e)
            | Inr guard \<Rightarrow> finally_drop guard (load_profile cid (\<lambda>loaded.
                case loaded of
                  Inl e \<Rightarrow> Return (Inl e)
                | Inr profile \<Rightarrow>
                    (case resolve (pr_product profile) (pr_api_mode profile) (rt_registry rt) of
                       Inl e \<Rightarrow> Return (Inl e)
                     | Inr connector \<Rightarrow>
                         connector_context_with_request_id session_id (pr_policy profile) rid (\<lambda>cx.
                           body \<lparr>mr_request_id = rid, mr_subject = subject, mr_session_id = session_id,
                             mr_connection_id = cid, mr_tool = tool, mr_target = target, mr_guard = guard,
                             mr_profile = profile, mr_connector = connector, mr_context = cx\<rparr>))))))"

definition metadata_disabled ::
  "'c MetadataRequest \<Rightarrow> ('c, RuntimeError + 'r) Program" where
  "metadata_disabled m = metadata_audit m ''deny'' 0 (Some Cat_PermissionDenied)
     (Return (Inl (RT_Policy (Denied ''connection is disabled''))))"

text \<open>The check that the connector exposes the tool.\<close>

definition metadata_tool ::
  "('c, 's) Runtime \<Rightarrow> Capability \<Rightarrow> 'c MetadataRequest \<Rightarrow> ('c, RuntimeError + 'r) Program
     \<Rightarrow> ('c, RuntimeError + 'r) Program" where
  "metadata_tool rt capability m rest =
     (case into_descriptor (rt_manifest rt (mr_connector m)) of
        None \<Rightarrow> Panic
      | Some descriptor \<Rightarrow>
          (case validate_capability_tool descriptor capability (mr_tool m) of
             Inl error \<Rightarrow> metadata_audit m ''deny'' 0 (Some Cat_InvalidRequest) (Return (Inl error))
           | Inr _ \<Rightarrow> rest))"

definition metadata_activate ::
  "'c MetadataRequest \<Rightarrow> (SecretMaterial \<Rightarrow> ('c, RuntimeError + 'r) Program) \<Rightarrow> ('c, RuntimeError + 'r) Program" where
  "metadata_activate m k =
     Do (C_GetSecret (pr_secret_ref (mr_profile m))) (\<lambda>reply.
       case as_secret reply of
         Inl e \<Rightarrow> Return (Inl (RT_Store e))
       | Inr secret \<Rightarrow>
           Do (C_Activate (mr_guard m) (mr_connector m)) (\<lambda>reply.
             case as_activated reply of
               Inl e \<Rightarrow> Return (Inl e)
             | Inr _ \<Rightarrow> k secret))"

definition metadata_outcome ::
  "'c MetadataRequest \<Rightarrow> (ConnectorError + 'a) ConnectorRun \<Rightarrow> ('a \<Rightarrow> ConnectorError + 'r) \<Rightarrow> ('r \<Rightarrow> u64)
     \<Rightarrow> ('c, RuntimeError + 'r) Program" where
  "metadata_outcome m run check returned =
     (case run of
        TimedOut \<Rightarrow>
          Do (C_CancelConnector (mr_connector m) (mr_request_id m)) (\<lambda>_.
            metadata_audit m ''allow'' 0 (Some Cat_Timeout) (Return (Inl RT_Timeout)))
      | Cancelled _ \<Rightarrow>
          metadata_audit m ''allow'' 0 (Some Cat_Cancelled) (Return (Inl (request_cancelled_error False)))
      | Completed answer \<Rightarrow>
          (case bind_res answer check of
             Inl error \<Rightarrow>
               metadata_audit m ''allow'' 0 (Some (ce_category error)) (Return (Inl (RT_Connector error)))
           | Inr result \<Rightarrow>
               metadata_audit m ''allow'' (returned result) None (Return (Inr result))))"

definition test_connection_with_request_id ::
  "('c, 's) Runtime \<Rightarrow> string \<Rightarrow> ConnectionId \<Rightarrow> string \<Rightarrow> string \<Rightarrow> string option
     \<Rightarrow> ('c, RuntimeError + ConnectionInfo) Program" where
  "test_connection_with_request_id rt uuid cid subject session_id request_id =
     metadata_request rt uuid cid subject session_id ''db_test_connection'' None request_id (\<lambda>m.
       if \<not> pol_enabled (pr_policy (mr_profile m)) then metadata_disabled m
       else metadata_tool rt Cap_TestConnection m (metadata_activate m (\<lambda>secret.
         Do (C_TestConnection (mr_connector m) (mr_guard m) (mr_context m) (mr_profile m) secret) (\<lambda>reply.
           metadata_outcome m (as_test reply)
             (\<lambda>info. bind_res (validate_expected_version (mr_profile m) info) (\<lambda>_. Inr info)) (\<lambda>_. 0)))))"

definition search_catalog_with_request_id ::
  "('c, 's) Runtime \<Rightarrow> string \<Rightarrow> ConnectionId \<Rightarrow> string \<Rightarrow> string \<Rightarrow> CatalogQuery \<Rightarrow> string option
     \<Rightarrow> ('c, RuntimeError + CatalogPage) Program" where
  "search_catalog_with_request_id rt uuid cid subject session_id request request_id =
     metadata_request rt uuid cid subject session_id ''db_search_catalog'' None request_id (\<lambda>m.
       if \<not> pol_enabled (pr_policy (mr_profile m)) then metadata_disabled m
       else metadata_tool rt Cap_Discover m (metadata_activate m (\<lambda>secret.
         Do (C_SearchCatalog (mr_connector m) (mr_guard m) (mr_context m) (mr_profile m) secret
             (request\<lparr>cq_limit := min (min (cq_limit request) (cx_max_rows (mr_context m)))
               (pol_max_rows (pr_policy (mr_profile m)))\<rparr>)) (\<lambda>reply.
           metadata_outcome m (as_catalog reply) Inr
             (\<lambda>page. word_of_nat (length (cp_entities page)))))))"

definition describe_entity_with_request_id ::
  "('c, 's) Runtime \<Rightarrow> string \<Rightarrow> ConnectionId \<Rightarrow> string \<Rightarrow> string \<Rightarrow> string \<Rightarrow> string option
     \<Rightarrow> ('c, RuntimeError + EntityDescription) Program" where
  "describe_entity_with_request_id rt uuid cid subject session_id entity_id request_id =
     metadata_request rt uuid cid subject session_id ''db_describe_entity'' (Some entity_id) request_id (\<lambda>m.
       metadata_tool rt Cap_Describe m
         (if \<not> metadata_visible (rt_policy_env rt) (pr_policy (mr_profile m)) entity_id then
            metadata_audit m ''deny'' 0 (Some Cat_PermissionDenied)
              (Return (Inl (RT_Policy (Denied ''metadata access to this resource is not permitted''))))
          else metadata_activate m (\<lambda>secret.
            Do (C_DescribeEntity (mr_connector m) (mr_guard m) (mr_context m) (mr_profile m) secret entity_id)
              (\<lambda>reply. metadata_outcome m (as_describe reply)
                (\<lambda>description. enforce_description_limits (rt_sizes rt) (mr_profile m)
                  (filter_invisible_relationships (rt_policy_env rt) (pr_policy (mr_profile m)) description))
                (\<lambda>_. 1)))))"

definition test_connection ::
  "('c, 's) Runtime \<Rightarrow> string \<Rightarrow> ConnectionId \<Rightarrow> string \<Rightarrow> string \<Rightarrow> ('c, RuntimeError + ConnectionInfo) Program" where
  "test_connection rt uuid cid subject session_id =
     test_connection_with_request_id rt uuid cid subject session_id None"

definition search_catalog ::
  "('c, 's) Runtime \<Rightarrow> string \<Rightarrow> ConnectionId \<Rightarrow> string \<Rightarrow> string \<Rightarrow> CatalogQuery
     \<Rightarrow> ('c, RuntimeError + CatalogPage) Program" where
  "search_catalog rt uuid cid subject session_id request =
     search_catalog_with_request_id rt uuid cid subject session_id request None"

definition describe_entity ::
  "('c, 's) Runtime \<Rightarrow> string \<Rightarrow> ConnectionId \<Rightarrow> string \<Rightarrow> string \<Rightarrow> string
     \<Rightarrow> ('c, RuntimeError + EntityDescription) Program" where
  "describe_entity rt uuid cid subject session_id entity_id =
     describe_entity_with_request_id rt uuid cid subject session_id entity_id None"

text \<open>Capabilities and listings read the profile store and the registry only.\<close>

definition list_runtime_connections ::
  "profile_env \<Rightarrow> ProfileRepository \<Rightarrow> RuntimeError + SanitizedConnection list" where
  "list_runtime_connections pe db = map_err RT_Store (list_connections pe db)"

definition connector_manifests :: "('c, 's) Runtime \<Rightarrow> ConnectorDescriptor list option" where
  "connector_manifests rt =
     those (map into_descriptor (manifests (rt_manifest rt) (rt_registry rt)))"

definition capabilities ::
  "('c, 's) Runtime \<Rightarrow> ConnectionId \<Rightarrow> ('c, RuntimeError + ConnectionCapabilities) Program" where
  "capabilities rt cid =
     Do (C_GetProfile cid) (\<lambda>reply.
       case as_profile reply of
         Inl e \<Rightarrow>
           if e = Store_NotFound then
             Do (C_InvalidateClients cid) (\<lambda>_. Do (C_ClearCursors cid) (\<lambda>_.
               Return (Inl (RT_Store Store_NotFound))))
           else Return (Inl (RT_Store e))
       | Inr profile \<Rightarrow>
           (case resolve (pr_product profile) (pr_api_mode profile) (rt_registry rt) of
              Inl e \<Rightarrow> Return (Inl e)
            | Inr connector \<Rightarrow>
                (case into_descriptor (rt_manifest rt connector) of
                   None \<Rightarrow> Panic
                 | Some descriptor \<Rightarrow>
                     Return (Inr \<lparr>cc_connector = descriptor, cc_connection = SanitizedConnection_from profile,
                       cc_policy = pr_policy profile, cc_policy_version = pr_policy_version profile,
                       cc_effective_mcp_tools =
                         map (effective_mcp_tool (pr_policy profile)) (ds_mcp_tools descriptor)\<rparr>))))"

end
