(* ===== verification/Credential_Store.thy ===== *)
theory Credential_Store
  imports Store_Error "HOL-Library.Word"
begin

text \<open>
  \<open>crates/connector-store/src/credential.rs\<close>: the \<open>CredentialStore\<close> contract, the
  in-memory store and the SQLite store encrypted with AES-256-GCM. The cipher, the JSON
  codec of a secret and the random nonces are parameters; a nonce is drawn by the caller of
  the model and passed in. The operating-system stores call the platform's key ring.
\<close>

section \<open>The contract\<close>

text \<open>
  What the clients of \<open>trait CredentialStore\<close> rely on. \<open>lawful\<close> says that the libraries
  behave (decoders invert encoders), \<open>fresh_ok\<close> which random values a store accepts.
\<close>

locale credential_store =
  fixes lawful :: "'env \<Rightarrow> bool"
    and fresh_ok :: "'r \<Rightarrow> bool"
    and valid :: "'s \<Rightarrow> bool"
    and put :: "'env \<Rightarrow> 'r \<Rightarrow> string \<Rightarrow> SecretMaterial \<Rightarrow> 's \<Rightarrow> (StoreError + unit) \<times> 's"
    and get :: "'env \<Rightarrow> string \<Rightarrow> 's \<Rightarrow> StoreError + SecretMaterial"
    and del :: "string \<Rightarrow> 's \<Rightarrow> (StoreError + unit) \<times> 's"
  assumes get_put: "lawful env \<Longrightarrow> fresh_ok r \<Longrightarrow> valid s \<Longrightarrow> put env r k x s = (Inr (), s') \<Longrightarrow>
      get env k' s' = (if k' = k then Inr x else get env k' s)"
    and put_fails: "put env r k x s = (Inl e, s') \<Longrightarrow> s' = s"
    and valid_put: "valid s \<Longrightarrow> valid (snd (put env r k x s))"
    and get_del: "valid s \<Longrightarrow> del k s = (Inr (), s') \<Longrightarrow>
      get env k' s' = (if k' = k then Inl Store_NotFound else get env k' s)"
    and del_fails: "del k s = (Inl e, s') \<Longrightarrow> e = Store_NotFound \<and> s' = s \<and> get env k s = Inl Store_NotFound"
    and valid_del: "valid s \<Longrightarrow> valid (snd (del k s))"
begin

text \<open>Replacing a secret and putting the old one back leaves every lookup as it was.\<close>

lemma put_back:
  assumes "lawful env" "fresh_ok r" "fresh_ok r'" "valid s" "get env k s = Inr old"
    and "put env r k new s = (Inr (), s')" "put env r' k old s' = (Inr (), s'')"
  shows "get env k' s'' = get env k' s"
proof -
  have "valid s'" using valid_put [OF assms(4), of env r k new] assms(6) by simp
  with assms show ?thesis by (simp add: get_put)
qed

text \<open>Storing under a new reference and deleting it again leaves every lookup as it was.\<close>

lemma put_del:
  assumes "lawful env" "fresh_ok r" "valid s" "get env k s = Inl Store_NotFound"
    and "put env r k new s = (Inr (), s')"
  shows "get env k' (snd (del k s')) = get env k' s"
proof -
  have v: "valid s'" using valid_put [OF assms(3), of env r k new] assms(5) by simp
  obtain d s'' where d: "del k s' = (d, s'')" by (rule prod.exhaust)
  show ?thesis
  proof (cases d)
    case (Inl e)
    with d del_fails have "get env k s' = Inl Store_NotFound" by blast
    with get_put [OF assms(1-3,5), of k] show ?thesis by simp
  next
    case (Inr u)
    with assms v d show ?thesis by (simp add: get_put get_del)
  qed
qed

end

section \<open>The in-memory store\<close>

record secret_codec =
  sj_encode :: "SecretMaterial \<Rightarrow> string + string"
  sj_decode :: "string \<Rightarrow> string + SecretMaterial"

definition codec_lawful :: "'a secret_codec_scheme \<Rightarrow> bool" where
  "codec_lawful env \<longleftrightarrow> (\<forall>x t. sj_encode env x = Inr t \<longrightarrow> sj_decode env t = Inr x)"

type_synonym InMemoryCredentialStore = "(string, string) hashmap"

definition mem_put ::
  "secret_codec \<Rightarrow> unit \<Rightarrow> string \<Rightarrow> SecretMaterial \<Rightarrow> InMemoryCredentialStore
     \<Rightarrow> (StoreError + unit) \<times> InMemoryCredentialStore" where
  "mem_put env _ reference secret secrets =
     (case sj_encode env secret of
        Inl e \<Rightarrow> (Inl (Store_Serialization e), secrets)
      | Inr encoded \<Rightarrow> (Inr (), hm_insert reference encoded secrets))"

definition mem_get ::
  "secret_codec \<Rightarrow> string \<Rightarrow> InMemoryCredentialStore \<Rightarrow> StoreError + SecretMaterial" where
  "mem_get env reference secrets =
     bind_res (ok_or (hm_get secrets reference) Store_NotFound) (\<lambda>encoded.
     map_err Store_Serialization (sj_decode env encoded))"

definition mem_delete ::
  "string \<Rightarrow> InMemoryCredentialStore \<Rightarrow> (StoreError + unit) \<times> InMemoryCredentialStore" where
  "mem_delete reference secrets =
     (case hm_get secrets reference of
        None \<Rightarrow> (Inl Store_NotFound, hm_remove reference secrets)
      | Some _ \<Rightarrow> (Inr (), hm_remove reference secrets))"

lemma hm_remove_absent: "hm_get m k = None \<Longrightarrow> hm_remove k m = m"
  by (simp add: hm_get_def hm_remove_def map_of_eq_None_iff)

interpretation mem: credential_store codec_lawful "\<lambda>_. True" hm_wf mem_put mem_get mem_delete
proof
  show "hm_wf s \<Longrightarrow> hm_wf (snd (mem_put env r k x s))" for env r k x s
    by (auto simp: mem_put_def hm_wf_insert split: sum.splits)
  show "hm_wf s \<Longrightarrow> hm_wf (snd (mem_delete k s))" for k s
    by (auto simp: mem_delete_def hm_wf_remove split: option.splits)
qed (auto simp: mem_put_def mem_get_def mem_delete_def codec_lawful_def hm_get_insert hm_get_remove
      hm_remove_absent split: sum.splits option.splits)

section \<open>The encrypted SQLite store\<close>

definition SQLITE_ENCRYPTION_VERSION :: int where
  "SQLITE_ENCRYPTION_VERSION = 1"

definition SQLITE_NONCE_BYTES :: nat where
  "SQLITE_NONCE_BYTES = 12"

definition SQLITE_KEY_CHECK_NAME :: string where
  "SQLITE_KEY_CHECK_NAME = ''key-check''"

definition SQLITE_KEY_CHECK_AAD :: string where
  "SQLITE_KEY_CHECK_AAD = ''sql-connector-credential-store-key-check-v1''"

definition SQLITE_KEY_CHECK_PLAINTEXT :: string where
  "SQLITE_KEY_CHECK_PLAINTEXT = ''sql-connector credential key verified''"

text \<open>The cipher under a key: \<open>encrypt key nonce msg aad\<close>, \<open>None\<close> for its error.\<close>

record aead_env = secret_codec +
  ac_encrypt :: "string \<Rightarrow> string \<Rightarrow> string \<Rightarrow> string \<Rightarrow> string option"
  ac_decrypt :: "string \<Rightarrow> string \<Rightarrow> string \<Rightarrow> string \<Rightarrow> string option"

record EncryptedRow =
  er_version :: int
  er_nonce :: string
  er_ciphertext :: string

text \<open>The database file, shared by all namespaces, and a store opened on it.\<close>

record credential_db =
  cd_credentials :: "(string \<times> string, EncryptedRow) hashmap"
  cd_metadata :: "(string, EncryptedRow) hashmap"

record SqliteCredentialStore =
  cs_db :: credential_db
  cs_key :: string
  cs_namespace :: string

definition be_bytes :: "u64 \<Rightarrow> string" where
  "be_bytes w = map (\<lambda>i. char_of (unat (drop_bit (8 * i) w))) [7, 6, 5, 4, 3, 2, 1, 0 :: nat]"

definition associated_data_for :: "string \<Rightarrow> string \<Rightarrow> string" where
  "associated_data_for namespace reference =
     ''sql-connector-credential'' @ be_bytes (word_of_int SQLITE_ENCRYPTION_VERSION)
       @ be_bytes (word_of_nat (length namespace)) @ namespace @ reference"

definition associated_data :: "SqliteCredentialStore \<Rightarrow> string \<Rightarrow> string" where
  "associated_data store reference = associated_data_for (cs_namespace store) reference"

definition key_check_failed :: StoreError where
  "key_check_failed = Store_Credential
     ''credential key verification failed; the key or stored data is invalid''"

definition verify_key_marker :: "aead_env \<Rightarrow> string \<Rightarrow> EncryptedRow \<Rightarrow> StoreError + unit" where
  "verify_key_marker env key marker =
     (if er_version marker \<noteq> SQLITE_ENCRYPTION_VERSION then
        Inl (Store_Credential (''unsupported credential key-check version ''
          @ show_int (er_version marker)))
      else if length (er_nonce marker) \<noteq> SQLITE_NONCE_BYTES then
        Inl (Store_Credential ''stored credential key-check nonce has an invalid length'')
      else case ac_decrypt env key (er_nonce marker) (er_ciphertext marker) SQLITE_KEY_CHECK_AAD of
        None \<Rightarrow> Inl key_check_failed
      | Some plaintext \<Rightarrow>
          if plaintext \<noteq> SQLITE_KEY_CHECK_PLAINTEXT then Inl key_check_failed else Inr ())"

definition verify_existing_credential ::
  "aead_env \<Rightarrow> string \<Rightarrow> (string \<times> string) \<times> EncryptedRow \<Rightarrow> StoreError + unit" where
  "verify_existing_credential env key entry =
     (case entry of ((namespace, reference), row) \<Rightarrow>
      if er_version row \<noteq> SQLITE_ENCRYPTION_VERSION then
        Inl (Store_Credential (''unsupported credential encryption version ''
          @ show_int (er_version row)))
      else if length (er_nonce row) \<noteq> SQLITE_NONCE_BYTES then
        Inl (Store_Credential ''stored credential nonce has an invalid length'')
      else case ac_decrypt env key (er_nonce row) (er_ciphertext row)
          (associated_data_for namespace reference) of
        None \<Rightarrow> Inl key_check_failed
      | Some _ \<Rightarrow> Inr ())"

definition verify_existing_credentials ::
  "aead_env \<Rightarrow> string \<Rightarrow> credential_db \<Rightarrow> StoreError + unit" where
  "verify_existing_credentials env key db =
     map_res (\<lambda>_. ()) (map_results (verify_existing_credential env key) (cd_credentials db))"

definition insert_key_marker ::
  "aead_env \<Rightarrow> string \<Rightarrow> string \<Rightarrow> credential_db \<Rightarrow> StoreError + credential_db" where
  "insert_key_marker env nonce key db =
     (case ac_encrypt env key nonce SQLITE_KEY_CHECK_PLAINTEXT SQLITE_KEY_CHECK_AAD of
        None \<Rightarrow> Inl (Store_Credential ''failed to initialize credential key check'')
      | Some ciphertext \<Rightarrow> Inr (db\<lparr>cd_metadata := hm_insert SQLITE_KEY_CHECK_NAME
          \<lparr>er_version = SQLITE_ENCRYPTION_VERSION, er_nonce = nonce, er_ciphertext = ciphertext\<rparr>
          (cd_metadata db)\<rparr>))"

definition verify_or_initialize_key ::
  "aead_env \<Rightarrow> string \<Rightarrow> string \<Rightarrow> credential_db \<Rightarrow> StoreError + credential_db" where
  "verify_or_initialize_key env nonce key db =
     (case hm_get (cd_metadata db) SQLITE_KEY_CHECK_NAME of
        Some marker \<Rightarrow> bind_res (verify_key_marker env key marker) (\<lambda>_. Inr db)
      | None \<Rightarrow> bind_res (verify_existing_credentials env key db) (\<lambda>_.
          insert_key_marker env nonce key db))"

definition open_store ::
  "aead_env \<Rightarrow> string \<Rightarrow> string \<Rightarrow> string \<Rightarrow> credential_db \<Rightarrow> StoreError + SqliteCredentialStore" where
  "open_store env nonce namespace key db =
     bind_res (verify_or_initialize_key env nonce key db) (\<lambda>db.
     Inr \<lparr>cs_db = db, cs_key = key, cs_namespace = namespace\<rparr>)"

definition sqlite_put ::
  "aead_env \<Rightarrow> string \<Rightarrow> string \<Rightarrow> SecretMaterial \<Rightarrow> SqliteCredentialStore
     \<Rightarrow> (StoreError + unit) \<times> SqliteCredentialStore" where
  "sqlite_put env nonce reference secret store =
     (case sj_encode env secret of
        Inl e \<Rightarrow> (Inl (Store_Serialization e), store)
      | Inr encoded \<Rightarrow>
          case ac_encrypt env (cs_key store) nonce encoded (associated_data store reference) of
            None \<Rightarrow> (Inl (Store_Credential ''failed to encrypt credential''), store)
          | Some ciphertext \<Rightarrow> (Inr (), store\<lparr>cs_db := (cs_db store)\<lparr>cd_credentials :=
              hm_insert (cs_namespace store, reference)
                \<lparr>er_version = SQLITE_ENCRYPTION_VERSION, er_nonce = nonce, er_ciphertext = ciphertext\<rparr>
                (cd_credentials (cs_db store))\<rparr>\<rparr>))"

definition read_row ::
  "aead_env \<Rightarrow> string \<Rightarrow> string \<Rightarrow> EncryptedRow \<Rightarrow> StoreError + SecretMaterial" where
  "read_row env key aad row =
     (if er_version row \<noteq> SQLITE_ENCRYPTION_VERSION then
       Inl (Store_Credential (''unsupported credential encryption version ''
         @ show_int (er_version row)))
     else if length (er_nonce row) \<noteq> SQLITE_NONCE_BYTES then
       Inl (Store_Credential ''stored credential nonce has an invalid length'')
     else bind_res (ok_or (ac_decrypt env key (er_nonce row) (er_ciphertext row) aad)
         (Store_Credential ''credential decryption failed; the key or stored data is invalid''))
       (\<lambda>encoded. map_err Store_Serialization (sj_decode env encoded)))"

definition sqlite_get ::
  "aead_env \<Rightarrow> string \<Rightarrow> SqliteCredentialStore \<Rightarrow> StoreError + SecretMaterial" where
  "sqlite_get env reference store =
     bind_res (ok_or (hm_get (cd_credentials (cs_db store)) (cs_namespace store, reference))
         Store_NotFound)
       (read_row env (cs_key store) (associated_data store reference))"

definition sqlite_delete ::
  "string \<Rightarrow> SqliteCredentialStore \<Rightarrow> (StoreError + unit) \<times> SqliteCredentialStore" where
  "sqlite_delete reference store =
     (let credentials = cd_credentials (cs_db store) in
      if hm_get credentials (cs_namespace store, reference) = None then (Inl Store_NotFound, store)
      else (Inr (), store\<lparr>cs_db := (cs_db store)\<lparr>cd_credentials :=
        hm_remove (cs_namespace store, reference) credentials\<rparr>\<rparr>))"

text \<open>What is assumed of the cipher: decryption inverts encryption.\<close>

definition aead_lawful :: "aead_env \<Rightarrow> bool" where
  "aead_lawful env \<longleftrightarrow> codec_lawful env \<and>
     (\<forall>k n m a c. ac_encrypt env k n m a = Some c \<longrightarrow> ac_decrypt env k n c a = Some m)"

definition sqlite_wf :: "SqliteCredentialStore \<Rightarrow> bool" where
  "sqlite_wf store \<longleftrightarrow> hm_wf (cd_credentials (cs_db store))"

lemma sqlite_get_put:
  assumes "aead_lawful env" "length nonce = SQLITE_NONCE_BYTES"
    and "sqlite_put env nonce reference secret store = (Inr (), store')"
  shows "sqlite_get env r store' = (if r = reference then Inr secret else sqlite_get env r store)"
  using assms
  by (auto simp: sqlite_put_def sqlite_get_def read_row_def associated_data_def aead_lawful_def
      codec_lawful_def hm_get_insert split: sum.splits option.splits)

interpretation sqlite: credential_store aead_lawful "\<lambda>nonce. length nonce = SQLITE_NONCE_BYTES"
  sqlite_wf sqlite_put sqlite_get sqlite_delete
proof
  show "sqlite_wf s \<Longrightarrow> sqlite_wf (snd (sqlite_put env r k x s))" for env r k x s
    by (auto simp: sqlite_put_def sqlite_wf_def hm_wf_insert split: sum.splits option.splits)
  show "sqlite_wf s \<Longrightarrow> sqlite_wf (snd (sqlite_delete k s))" for k s
    by (auto simp: sqlite_delete_def sqlite_wf_def Let_def hm_wf_remove)
  show "aead_lawful env \<Longrightarrow> length r = SQLITE_NONCE_BYTES \<Longrightarrow> sqlite_wf s \<Longrightarrow>
      sqlite_put env r k x s = (Inr (), s') \<Longrightarrow>
      sqlite_get env k' s' = (if k' = k then Inr x else sqlite_get env k' s)" for env r k x s s' k'
    by (rule sqlite_get_put)
  show "sqlite_put env r k x s = (Inl e, s') \<Longrightarrow> s' = s" for env r k x s e s'
    by (auto simp: sqlite_put_def split: sum.splits option.splits)
  show "sqlite_wf s \<Longrightarrow> sqlite_delete k s = (Inr (), s') \<Longrightarrow>
      sqlite_get env k' s' = (if k' = k then Inl Store_NotFound else sqlite_get env k' s)"
    for env k k' s s'
    by (auto simp: sqlite_delete_def sqlite_get_def associated_data_def Let_def hm_get_remove
        split: if_splits)
  show "sqlite_delete k s = (Inl e, s') \<Longrightarrow>
      e = Store_NotFound \<and> s' = s \<and> sqlite_get env k s = Inl Store_NotFound" for env k s e s'
    by (auto simp: sqlite_delete_def sqlite_get_def Let_def split: if_splits)
qed

section \<open>The bytes a ciphertext is bound to\<close>

lemma be_bytes_length [simp]: "length (be_bytes w) = 8"
  by (simp add: be_bytes_def)

lemma char_of_byte:
  assumes "(char_of a :: char) = char_of (b :: nat)"
  shows "take_bit 8 a = take_bit 8 b"
proof -
  from assms have "of_char (char_of a :: char) = (of_char (char_of b :: char) :: nat)" by simp
  then show ?thesis by (simp only: of_char_of take_bit_eq_mod) simp
qed

lemma be_bytes_byte:
  assumes "be_bytes v = be_bytes w" "i < 8" "j < 8"
  shows "bit v (8 * i + j) = bit w (8 * i + j)"
proof -
  from \<open>i < 8\<close> have "i \<in> set [7, 6, 5, 4, 3, 2, 1, 0]" by auto
  with assms(1) have "(char_of (unat (drop_bit (8 * i) v)) :: char) = char_of (unat (drop_bit (8 * i) w))"
    unfolding be_bytes_def map_eq_conv by blast
  from char_of_byte [OF this]
  have "bit (take_bit 8 (unat (drop_bit (8 * i) v))) j = bit (take_bit 8 (unat (drop_bit (8 * i) w))) j"
    by simp
  with \<open>j < 8\<close> show ?thesis
    by (auto simp: bit_take_bit_iff bit_unsigned_iff bit_drop_bit_eq dest: bit_imp_le_length)
qed

lemma be_bytes_inject: "be_bytes v = be_bytes w \<Longrightarrow> v = w"
proof (rule bit_word_eqI)
  fix n
  assume "be_bytes v = be_bytes w" "n < LENGTH(64)"
  with be_bytes_byte [of v w "n div 8" "n mod 8"] show "bit v n = bit w n" by simp
qed

lemma associated_data_for_inject:
  assumes "associated_data_for ns r = associated_data_for ns' r'"
    and "length ns < 2 ^ 64" "length ns' < 2 ^ 64"
  shows "ns = ns' \<and> r = r'"
proof -
  from assms(1) have "be_bytes (word_of_nat (length ns)) @ ns @ r
      = be_bytes (word_of_nat (length ns')) @ ns' @ r'"
    by (simp add: associated_data_for_def)
  then have bytes: "be_bytes (word_of_nat (length ns)) = be_bytes (word_of_nat (length ns'))"
    and rest: "ns @ r = ns' @ r'" by simp_all
  from be_bytes_inject [OF bytes] assms(2,3) have "length ns = length ns'"
    by (simp add: word_of_nat_eq_iff take_bit_eq_mod)
  with rest show ?thesis by simp
qed

text \<open>
  C13: a secret put into the encrypted store is what \<open>get\<close> returns for its reference; other
  references, and the same database opened under another namespace, are not affected.
\<close>

theorem encrypted_put_get:
  assumes "aead_lawful env" "length nonce = SQLITE_NONCE_BYTES" "sqlite_wf store"
    and "sqlite_put env nonce reference secret store = (Inr (), store')"
  shows "sqlite_get env r store' = (if r = reference then Inr secret else sqlite_get env r store) \<and>
    (namespace \<noteq> cs_namespace store \<longrightarrow>
       sqlite_get env r (store'\<lparr>cs_namespace := namespace\<rparr>)
         = sqlite_get env r (store\<lparr>cs_namespace := namespace\<rparr>))"
proof -
  have "hm_get (cd_credentials (cs_db store')) (namespace, r)
      = hm_get (cd_credentials (cs_db store)) (namespace, r)"
    if "namespace \<noteq> cs_namespace store" for r
    using assms(4) that
    by (auto simp: sqlite_put_def hm_get_insert split: sum.splits option.splits)
  moreover have "cs_key store' = cs_key store" "cs_namespace store' = cs_namespace store"
    using assms(4) by (auto simp: sqlite_put_def split: sum.splits option.splits)
  ultimately show ?thesis
    using sqlite.get_put [OF assms(1-4)] by (simp add: sqlite_get_def associated_data_def)
qed

text \<open>
  A row that was encrypted for one namespace and reference is rejected when it is moved to
  another one. The cipher is assumed authentic: what it decrypts under a nonce and
  associated data was encrypted under them.
\<close>

theorem moved_row_rejected:
  assumes authentic: "\<And>k n c a m. ac_decrypt env k n c a = Some m \<Longrightarrow> ac_encrypt env k n m a = Some c"
    and bound: "\<And>k n m a m' a' c. ac_encrypt env k n m a = Some c \<Longrightarrow>
      ac_encrypt env k n m' a' = Some c \<Longrightarrow> a = a'"
    and row: "ac_encrypt env (cs_key store) (er_nonce row) message
        (associated_data_for namespace reference) = Some (er_ciphertext row)"
    and moved: "hm_get (cd_credentials (cs_db store)) (cs_namespace store, r) = Some row"
    and other: "(namespace, reference) \<noteq> (cs_namespace store, r)"
    and lengths: "length namespace < 2 ^ 64" "length (cs_namespace store) < 2 ^ 64"
  shows "\<not> is_ok (sqlite_get env r store)"
proof -
  have "ac_decrypt env (cs_key store) (er_nonce row) (er_ciphertext row) (associated_data store r) = None"
  proof (rule ccontr)
    assume "\<not> ?thesis"
    then obtain m where "ac_encrypt env (cs_key store) (er_nonce row) m (associated_data store r)
        = Some (er_ciphertext row)"
      using authentic by blast
    with bound row have "associated_data_for namespace reference = associated_data_for (cs_namespace store) r"
      by (auto simp: associated_data_def)
    with associated_data_for_inject lengths other show False by blast
  qed
  with moved show ?thesis by (simp add: sqlite_get_def read_row_def)
qed

section \<open>The key check\<close>

datatype credential_op = Op_Put string string SecretMaterial | Op_Del string

fun credential_ops ::
  "aead_env \<Rightarrow> credential_op list \<Rightarrow> SqliteCredentialStore \<Rightarrow> SqliteCredentialStore" where
  "credential_ops env [] store = store"
| "credential_ops env (Op_Put nonce reference secret # ops) store =
     credential_ops env ops (snd (sqlite_put env nonce reference secret store))"
| "credential_ops env (Op_Del reference # ops) store =
     credential_ops env ops (snd (sqlite_delete reference store))"

lemma credential_ops_metadata:
  "cd_metadata (cs_db (credential_ops env ops store)) = cd_metadata (cs_db store)"
  by (induction env ops store rule: credential_ops.induct)
    (auto simp: sqlite_put_def sqlite_delete_def Let_def split: sum.splits option.splits)

lemma verify_key_marker_Inr:
  "verify_key_marker env key marker = Inr () \<longleftrightarrow>
     er_version marker = SQLITE_ENCRYPTION_VERSION \<and> length (er_nonce marker) = SQLITE_NONCE_BYTES \<and>
     ac_decrypt env key (er_nonce marker) (er_ciphertext marker) SQLITE_KEY_CHECK_AAD
       = Some SQLITE_KEY_CHECK_PLAINTEXT"
  by (auto simp: verify_key_marker_def split: option.splits)

text \<open>The marker an opened store has.\<close>

lemma open_store_marker:
  assumes "aead_lawful env" "length nonce = SQLITE_NONCE_BYTES"
    and "open_store env nonce namespace key db = Inr store"
  shows "\<exists>marker. hm_get (cd_metadata (cs_db store)) SQLITE_KEY_CHECK_NAME = Some marker \<and>
    verify_key_marker env key marker = Inr ()"
proof (cases "hm_get (cd_metadata db) SQLITE_KEY_CHECK_NAME")
  case (Some marker)
  with assms(3) show ?thesis
    by (auto simp: open_store_def verify_or_initialize_key_def res_simps)
next
  case None
  let ?marker = "\<lambda>c. \<lparr>er_version = SQLITE_ENCRYPTION_VERSION, er_nonce = nonce, er_ciphertext = c\<rparr>"
  from None assms(3) obtain c where
      c: "ac_encrypt env key nonce SQLITE_KEY_CHECK_PLAINTEXT SQLITE_KEY_CHECK_AAD = Some c"
    and "hm_get (cd_metadata (cs_db store)) SQLITE_KEY_CHECK_NAME = Some (?marker c)"
    by (auto simp: open_store_def verify_or_initialize_key_def insert_key_marker_def res_simps
        hm_get_insert split: option.splits)
  moreover have "verify_key_marker env key (?marker c) = Inr ()"
    using assms(1,2) c by (simp add: verify_key_marker_Inr aead_lawful_def)
  ultimately show ?thesis by blast
qed

text \<open>
  Once a store was opened, whatever is put and deleted, its database opens again under the
  same key for every namespace, and under a key that does not decrypt the key check to its
  plaintext it does not open.
\<close>

theorem reopen_needs_the_key:
  assumes "aead_lawful env" "length nonce = SQLITE_NONCE_BYTES"
    and "open_store env nonce namespace key db = Inr store"
    and wrong: "\<And>n c. ac_decrypt env key n c SQLITE_KEY_CHECK_AAD = Some SQLITE_KEY_CHECK_PLAINTEXT \<Longrightarrow>
      ac_decrypt env wrong_key n c SQLITE_KEY_CHECK_AAD \<noteq> Some SQLITE_KEY_CHECK_PLAINTEXT"
  shows "is_ok (open_store env nonce' namespace' key (cs_db (credential_ops env ops store))) \<and>
    open_store env nonce' namespace' wrong_key (cs_db (credential_ops env ops store))
      = Inl key_check_failed"
proof -
  from open_store_marker [OF assms(1-3)] obtain marker
    where m: "hm_get (cd_metadata (cs_db (credential_ops env ops store))) SQLITE_KEY_CHECK_NAME = Some marker"
      and ok: "verify_key_marker env key marker = Inr ()"
    by (auto simp: credential_ops_metadata)
  have "verify_key_marker env wrong_key marker = Inl key_check_failed"
    using ok wrong [of "er_nonce marker" "er_ciphertext marker"] unfolding verify_key_marker_Inr
    by (auto simp: verify_key_marker_def split: option.splits)
  with m ok show ?thesis by (simp add: open_store_def verify_or_initialize_key_def)
qed

section \<open>Sample values\<close>

text \<open>A cipher that writes key and associated data, each after its length in unary, before
  the message, and one secret with its text.\<close>

definition sample_secret :: SecretMaterial where
  "sample_secret = \<lparr>sm_kind = Auth_ApiKey, sm_fields = [(''api_key'', ''x'')]\<rparr>"

definition sample_aead :: aead_env where
  "sample_aead =
     \<lparr>sj_encode = (\<lambda>s. if s = sample_secret then Inr ''s'' else Inl ''unsupported''),
      sj_decode = (\<lambda>_. Inr sample_secret),
      ac_encrypt = (\<lambda>k n m a. Some (unary k @ unary a @ m)),
      ac_decrypt = (\<lambda>k n c a. let p = unary k @ unary a in
        if take (length p) c = p then Some (drop (length p) c) else None)\<rparr>"

definition sample_nonce :: string where
  "sample_nonce = ''123456789012''"

definition empty_credentials :: credential_db where
  "empty_credentials = \<lparr>cd_credentials = [], cd_metadata = []\<rparr>"

definition sample_store :: SqliteCredentialStore where
  "sample_store = \<lparr>cs_db = empty_credentials, cs_key = ''K'', cs_namespace = ''app''\<rparr>"

lemma sample_aead_lawful: "aead_lawful sample_aead"
  by (simp add: aead_lawful_def codec_lawful_def sample_aead_def Let_def)

lemma sample_store_ok:
  "length sample_nonce = SQLITE_NONCE_BYTES" "sqlite_wf sample_store"
  by (simp_all add: sample_nonce_def SQLITE_NONCE_BYTES_def sqlite_wf_def sample_store_def
      empty_credentials_def)

lemma sample_put:
  "sqlite_put sample_aead sample_nonce ''ref'' sample_secret sample_store =
     (Inr (), snd (sqlite_put sample_aead sample_nonce ''ref'' sample_secret sample_store))"
  by (simp add: sqlite_put_def sample_aead_def sample_secret_def)

theorem encrypted_put_get_witness:
  "sqlite_get sample_aead ''ref''
     (snd (sqlite_put sample_aead sample_nonce ''ref'' sample_secret sample_store)) = Inr sample_secret"
  using encrypted_put_get [OF sample_aead_lawful sample_store_ok sample_put, of "''ref''"] by simp

lemma sample_open:
  "open_store sample_aead sample_nonce ''app'' ''K'' empty_credentials =
     Inr (projr (open_store sample_aead sample_nonce ''app'' ''K'' empty_credentials))"
  by code_simp

lemma sample_wrong_key:
  "ac_decrypt sample_aead ''K'' n c SQLITE_KEY_CHECK_AAD = Some SQLITE_KEY_CHECK_PLAINTEXT \<Longrightarrow>
   ac_decrypt sample_aead ''X'' n c SQLITE_KEY_CHECK_AAD \<noteq> Some SQLITE_KEY_CHECK_PLAINTEXT"
  by (auto simp: sample_aead_def unary_def Let_def split: if_splits)

theorem reopen_needs_the_key_witness:
  "open_store sample_aead sample_nonce ''app'' ''X''
     (cs_db (credential_ops sample_aead [Op_Del ''ref'']
       (projr (open_store sample_aead sample_nonce ''app'' ''K'' empty_credentials))))
   = Inl key_check_failed"
  using reopen_needs_the_key [OF sample_aead_lawful sample_store_ok(1) sample_open sample_wrong_key]
  by blast

definition sample_row :: EncryptedRow where
  "sample_row = \<lparr>er_version = 1, er_nonce = sample_nonce,
     er_ciphertext = unary ''K'' @ unary (associated_data_for ''app'' ''ref'') @ ''s''\<rparr>"

definition moved_store :: SqliteCredentialStore where
  "moved_store = sample_store\<lparr>cs_db := empty_credentials\<lparr>cd_credentials :=
     [((''app'', ''other''), sample_row)]\<rparr>\<rparr>"

lemma sample_aead_authentic:
  "ac_decrypt sample_aead k n c a = Some m \<Longrightarrow> ac_encrypt sample_aead k n m a = Some c"
  "ac_encrypt sample_aead k n m a = Some c \<Longrightarrow> ac_encrypt sample_aead k n m' a' = Some c \<Longrightarrow> a = a'"
proof -
  show "ac_decrypt sample_aead k n c a = Some m \<Longrightarrow> ac_encrypt sample_aead k n m a = Some c"
    by (auto simp: sample_aead_def Let_def simp flip: append_assoc split: if_splits)
      (metis append_take_drop_id)
  show "ac_encrypt sample_aead k n m a = Some c \<Longrightarrow> ac_encrypt sample_aead k n m' a' = Some c \<Longrightarrow> a = a'"
    by (auto simp: sample_aead_def dest!: unary_append_inject)
qed

lemma sample_row_moved:
  "ac_encrypt sample_aead (cs_key moved_store) (er_nonce sample_row) ''s''
     (associated_data_for ''app'' ''ref'') = Some (er_ciphertext sample_row)"
  "hm_get (cd_credentials (cs_db moved_store)) (cs_namespace moved_store, ''other'') = Some sample_row"
  "(''app'', ''ref'') \<noteq> (cs_namespace moved_store, ''other'')"
  "length ''app'' < 2 ^ 64" "length (cs_namespace moved_store) < 2 ^ 64"
  by (simp_all add: moved_store_def sample_store_def sample_row_def hm_get_def sample_aead_def)

theorem moved_row_rejected_witness: "\<not> is_ok (sqlite_get sample_aead ''other'' moved_store)"
  by (rule moved_row_rejected [OF sample_aead_authentic(1) sample_aead_authentic(2) sample_row_moved])

end
