(* ===== verification/Control.thy ===== *)
theory Control
  imports Profile_Store Credential_Store Grant Policy_Engine
begin

text \<open>
  \<open>crates/connector-control/src/lib.rs\<close>: the trusted administration side. Drafts become
  profiles and secrets; \<open>ConnectionManager\<close> keeps the profile repository and the
  credential store in step, undoing the first write when the second fails;
  \<open>ConfirmationService\<close> issues grants for operations the policy wants confirmed;
  \<open>AuthorizationKeyManager\<close> keeps the signing key. The credential store is a trait object,
  so its operations are a record of functions; a write of the profile repository that the
  database itself fails is the argument \<open>fault\<close>, its error text. Fresh ids, nonces and
  keys are arguments.
\<close>

datatype ControlError =
    Control_Store StoreError
  | Control_Policy PolicyError
  | AlreadyExists
  | CredentialReferenceInUse
  | AuthenticationKindMismatch
  | ConnectionIdentityMismatch
  | GrantNotApplicable
  | InvalidGrantLifetime
  | InvalidGrantRequest string
  | InvalidAuthorizationKey string

text \<open>A \<open>Duration\<close> is its number of nanoseconds.\<close>

definition MAX_GRANT_LIFETIME :: int where
  "MAX_GRANT_LIFETIME = 120 * nanos_per_second"

definition AUTHORIZATION_PRIVATE_KEY_FIELD :: string where
  "AUTHORIZATION_PRIVATE_KEY_FIELD = ''ed25519_private_key''"

section \<open>Drafts\<close>

record ConnectionDraft =
  dr_display_name :: string
  dr_product :: Product
  dr_api_mode :: string
  dr_endpoint :: Url
  dr_database :: "string option"
  dr_tags :: "string list"
  dr_auth_kind :: AuthKind
  dr_credentials :: "(string, string) btree option"
  dr_tls :: "TlsConfig option"
  dr_tls_enabled :: "bool option"
  dr_policy :: "ConnectionPolicy option"
  dr_expected_version :: "string option"
  dr_options :: "(string, json) btree"

definition into_profile_and_secret_with ::
  "ConnectionDraft \<Rightarrow> ConnectionId \<Rightarrow> string \<Rightarrow> TlsConfig \<Rightarrow> ConnectionPolicy \<Rightarrow> u64
     \<Rightarrow> ConnectionProfile \<times> SecretMaterial" where
  "into_profile_and_secret_with draft cid secret_ref default_tls default_policy default_policy_version =
     (let tls = (case dr_tls draft of None \<Rightarrow> default_tls | Some t \<Rightarrow> t);
          tls = (case dr_tls_enabled draft of None \<Rightarrow> tls | Some e \<Rightarrow> tls\<lparr>tls_enabled := e\<rparr>) in
      (\<lparr>pr_id = cid, pr_display_name = dr_display_name draft, pr_product = dr_product draft,
        pr_api_mode = dr_api_mode draft, pr_endpoint = dr_endpoint draft,
        pr_database = dr_database draft, pr_tags = dr_tags draft, pr_auth_kind = dr_auth_kind draft,
        pr_secret_ref = secret_ref, pr_tls = tls,
        pr_policy = (case dr_policy draft of None \<Rightarrow> default_policy | Some p \<Rightarrow> p),
        pr_policy_version = default_policy_version, pr_expected_version = dr_expected_version draft,
        pr_options = dr_options draft\<rparr>,
       \<lparr>sm_kind = dr_auth_kind draft,
        sm_fields = (case dr_credentials draft of None \<Rightarrow> [] | Some c \<Rightarrow> c)\<rparr>))"

definition default_tls_config :: "Product \<Rightarrow> string \<Rightarrow> TlsConfig" where
  "default_tls_config product scheme = TlsConfig_default\<lparr>tls_enabled :=
     (if scheme \<in> {''http'', ''couchbase'', ''mongodb'', ''oracle'', ''thrift''} then False
      else if scheme = ''tcp'' \<and> product \<in> {Oracle, HBase} then False
      else True)\<rparr>"

definition into_profile_and_secret ::
  "(ConnectionId \<Rightarrow> string) \<Rightarrow> ConnectionId \<Rightarrow> ConnectionDraft \<Rightarrow> ConnectionProfile \<times> SecretMaterial" where
  "into_profile_and_secret uuid_text cid draft =
     into_profile_and_secret_with draft cid (''connection/'' @ uuid_text cid)
       (default_tls_config (dr_product draft) (url_scheme (dr_endpoint draft)))
       ConnectionPolicy_default 1"

record ConnectionUpdateDraft =
  ud_connection_id :: ConnectionId
  ud_connection :: ConnectionDraft

definition update_into_profile_and_secret ::
  "ConnectionUpdateDraft \<Rightarrow> ConnectionProfile \<Rightarrow> SecretMaterial \<Rightarrow> ConnectionProfile \<times> SecretMaterial" where
  "update_into_profile_and_secret draft existing existing_secret =
     (let reuse_existing_secret = (dr_credentials (ud_connection draft) = None);
          (profile, replacement_secret) = into_profile_and_secret_with (ud_connection draft)
            (pr_id existing) (pr_secret_ref existing) (pr_tls existing) (pr_policy existing)
            (pr_policy_version existing) in
      if reuse_existing_secret then (profile, existing_secret) else (profile, replacement_secret))"

record CredentialRotationDraft =
  rot_connection_id :: ConnectionId
  rot_credentials :: "(string, string) btree"

definition into_secret :: "CredentialRotationDraft \<Rightarrow> ConnectionProfile \<Rightarrow> SecretMaterial" where
  "into_secret draft profile = \<lparr>sm_kind = pr_auth_kind profile, sm_fields = rot_credentials draft\<rparr>"

section \<open>The connection manager\<close>

record ('c, 'r) cred_ops =
  cr_put :: "'r \<Rightarrow> string \<Rightarrow> SecretMaterial \<Rightarrow> 'c \<Rightarrow> (StoreError + unit) \<times> 'c"
  cr_get :: "string \<Rightarrow> 'c \<Rightarrow> StoreError + SecretMaterial"
  cr_del :: "string \<Rightarrow> 'c \<Rightarrow> (StoreError + unit) \<times> 'c"

record 'c ConnectionManager =
  cm_profiles :: ProfileRepository
  cm_credentials :: 'c

type_synonym fault = "string option"

text \<open>Writes of the profile repository that the database may fail, leaving it unchanged.\<close>

definition profiles_upsert ::
  "fault \<Rightarrow> profile_env \<Rightarrow> ConnectionProfile \<Rightarrow> ProfileRepository
     \<Rightarrow> (StoreError + unit) \<times> ProfileRepository" where
  "profiles_upsert fault pe profile db =
     (case upsert pe profile db of
        (Inl e, _) \<Rightarrow> (Inl e, db)
      | (Inr _, db') \<Rightarrow>
          (case fault of None \<Rightarrow> (Inr (), db') | Some e \<Rightarrow> (Inl (Store_Database e), db)))"

definition profiles_delete ::
  "fault \<Rightarrow> ConnectionId \<Rightarrow> ProfileRepository \<Rightarrow> (StoreError + unit) \<times> ProfileRepository" where
  "profiles_delete fault cid db =
     (case fault of Some e \<Rightarrow> (Inl (Store_Database e), db) | None \<Rightarrow> delete_profile cid db)"

definition profiles_notify_changed ::
  "fault \<Rightarrow> ConnectionId \<Rightarrow> ProfileRepository \<Rightarrow> (StoreError + unit) \<times> ProfileRepository" where
  "profiles_notify_changed fault cid db =
     (case fault of Some e \<Rightarrow> (Inl (Store_Database e), db) | None \<Rightarrow> (Inr (), notify_changed cid db))"

definition ensure_auth_kind :: "ConnectionProfile \<Rightarrow> SecretMaterial \<Rightarrow> ControlError + unit" where
  "ensure_auth_kind profile secret =
     (if pr_auth_kind profile \<noteq> sm_kind secret then Inl AuthenticationKindMismatch else Inr ())"

definition next_policy_version :: "u64 \<Rightarrow> u64" where
  "next_policy_version current = current + 1"

definition create_checks ::
  "profile_env \<Rightarrow> ConnectionProfile \<Rightarrow> SecretMaterial \<Rightarrow> ProfileRepository \<Rightarrow> ControlError + unit" where
  "create_checks pe profile secret db =
     bind_res (case get_profile pe (pr_id profile) db of
         Inr _ \<Rightarrow> Inl AlreadyExists
       | Inl Store_NotFound \<Rightarrow> Inr ()
       | Inl error \<Rightarrow> Inl (Control_Store error)) (\<lambda>_.
     bind_res (ensure_auth_kind profile secret) (\<lambda>_.
     bind_res (map_err Control_Store (validate_profile pe profile)) (\<lambda>_.
     bind_res (map_err Control_Store (list_profiles pe db)) (\<lambda>stored.
     if list_ex (\<lambda>p. pr_secret_ref p = pr_secret_ref profile) stored
     then Inl CredentialReferenceInUse else Inr ()))))"

definition create ::
  "('c, 'r) cred_ops \<Rightarrow> profile_env \<Rightarrow> fault \<Rightarrow> 'r \<Rightarrow> ConnectionProfile \<Rightarrow> SecretMaterial
     \<Rightarrow> 'c ConnectionManager \<Rightarrow> (ControlError + SanitizedConnection) \<times> 'c ConnectionManager" where
  "create ops pe fault r profile secret m =
     (case create_checks pe profile secret (cm_profiles m) of
        Inl e \<Rightarrow> (Inl e, m)
      | Inr _ \<Rightarrow>
          (case cr_put ops r (pr_secret_ref profile) secret (cm_credentials m) of
             (Inl e, c) \<Rightarrow> (Inl (Control_Store e), m\<lparr>cm_credentials := c\<rparr>)
           | (Inr _, c) \<Rightarrow>
               (case profiles_upsert fault pe profile (cm_profiles m) of
                  (Inl e, db) \<Rightarrow> (Inl (Control_Store e),
                     m\<lparr>cm_profiles := db, cm_credentials := snd (cr_del ops (pr_secret_ref profile) c)\<rparr>)
                | (Inr _, db) \<Rightarrow> (Inr (SanitizedConnection_from profile),
                     m\<lparr>cm_profiles := db, cm_credentials := c\<rparr>))))"

definition bump_policy_version :: "ConnectionProfile \<Rightarrow> ConnectionProfile \<Rightarrow> ConnectionProfile" where
  "bump_policy_version existing profile = profile\<lparr>pr_policy_version :=
     (if pr_policy profile = pr_policy existing then pr_policy_version existing
      else next_policy_version (pr_policy_version existing))\<rparr>"

text \<open>Storing a profile as the last step of an operation: \<open>upsert\<close> and the answer.\<close>

definition store_profile ::
  "profile_env \<Rightarrow> fault \<Rightarrow> ConnectionProfile \<Rightarrow> 'a \<Rightarrow> 'c ConnectionManager
     \<Rightarrow> (ControlError + 'a) \<times> 'c ConnectionManager" where
  "store_profile pe fault profile answer m =
     (case profiles_upsert fault pe profile (cm_profiles m) of
        (Inl e, db) \<Rightarrow> (Inl (Control_Store e), m\<lparr>cm_profiles := db\<rparr>)
      | (Inr _, db) \<Rightarrow> (Inr answer, m\<lparr>cm_profiles := db\<rparr>))"

definition update_profile ::
  "profile_env \<Rightarrow> fault \<Rightarrow> ConnectionProfile \<Rightarrow> 'c ConnectionManager
     \<Rightarrow> (ControlError + SanitizedConnection) \<times> 'c ConnectionManager" where
  "update_profile pe fault profile m =
     (case get_profile pe (pr_id profile) (cm_profiles m) of
        Inl e \<Rightarrow> (Inl (Control_Store e), m)
      | Inr existing \<Rightarrow>
          if pr_secret_ref profile \<noteq> pr_secret_ref existing
             \<or> pr_auth_kind profile \<noteq> pr_auth_kind existing
          then (Inl AuthenticationKindMismatch, m)
          else
            let updated = bump_policy_version existing profile in
            store_profile pe fault updated (SanitizedConnection_from updated) m)"

definition set_policy ::
  "profile_env \<Rightarrow> fault \<Rightarrow> ConnectionId \<Rightarrow> ConnectionPolicy \<Rightarrow> 'c ConnectionManager
     \<Rightarrow> (ControlError + ConnectionProfile) \<times> 'c ConnectionManager" where
  "set_policy pe fault cid policy m =
     (case get_profile pe cid (cm_profiles m) of
        Inl e \<Rightarrow> (Inl (Control_Store e), m)
      | Inr profile \<Rightarrow>
          let profile = profile\<lparr>pr_policy := policy,
                pr_policy_version := next_policy_version (pr_policy_version profile)\<rparr> in
          store_profile pe fault profile profile m)"

definition set_enabled ::
  "profile_env \<Rightarrow> fault \<Rightarrow> ConnectionId \<Rightarrow> bool \<Rightarrow> 'c ConnectionManager
     \<Rightarrow> (ControlError + ConnectionProfile) \<times> 'c ConnectionManager" where
  "set_enabled pe fault cid enabled m =
     (case get_profile pe cid (cm_profiles m) of
        Inl e \<Rightarrow> (Inl (Control_Store e), m)
      | Inr profile \<Rightarrow>
          if pol_enabled (pr_policy profile) \<noteq> enabled then
            let profile = profile\<lparr>pr_policy := (pr_policy profile)\<lparr>pol_enabled := enabled\<rparr>,
                  pr_policy_version := next_policy_version (pr_policy_version profile)\<rparr> in
            store_profile pe fault profile profile m
          else (Inr profile, m))"

definition find_secret ::
  "('c, 'r) cred_ops \<Rightarrow> string \<Rightarrow> 'c \<Rightarrow> StoreError + SecretMaterial option" where
  "find_secret ops reference c =
     (case cr_get ops reference c of
        Inr secret \<Rightarrow> Inr (Some secret)
      | Inl Store_NotFound \<Rightarrow> Inr None
      | Inl error \<Rightarrow> Inl error)"

definition replace_secret_checks ::
  "('c, 'r) cred_ops \<Rightarrow> profile_env \<Rightarrow> ConnectionId \<Rightarrow> SecretMaterial \<Rightarrow> 'c ConnectionManager
     \<Rightarrow> ControlError + (ConnectionProfile \<times> SecretMaterial option)" where
  "replace_secret_checks ops pe cid secret m =
     bind_res (map_err Control_Store (get_profile pe cid (cm_profiles m))) (\<lambda>profile.
     bind_res (ensure_auth_kind profile secret) (\<lambda>_.
     bind_res (map_err Control_Store (find_secret ops (pr_secret_ref profile) (cm_credentials m)))
       (\<lambda>previous. Inr (profile, previous))))"

definition replace_secret ::
  "('c, 'r) cred_ops \<Rightarrow> profile_env \<Rightarrow> fault \<Rightarrow> 'r \<Rightarrow> 'r \<Rightarrow> ConnectionId \<Rightarrow> SecretMaterial
     \<Rightarrow> 'c ConnectionManager \<Rightarrow> (ControlError + unit) \<times> 'c ConnectionManager" where
  "replace_secret ops pe fault r r' cid secret m =
     (case replace_secret_checks ops pe cid secret m of
        Inl e \<Rightarrow> (Inl e, m)
      | Inr (profile, previous) \<Rightarrow>
          (case cr_put ops r (pr_secret_ref profile) secret (cm_credentials m) of
             (Inl e, c) \<Rightarrow> (Inl (Control_Store e), m\<lparr>cm_credentials := c\<rparr>)
           | (Inr _, c) \<Rightarrow>
               (case profiles_notify_changed fault cid (cm_profiles m) of
                  (Inl e, db) \<Rightarrow> (Inl (Control_Store e), m\<lparr>cm_profiles := db, cm_credentials :=
                     (case previous of
                        Some previous_secret \<Rightarrow> snd (cr_put ops r' (pr_secret_ref profile) previous_secret c)
                      | None \<Rightarrow> snd (cr_del ops (pr_secret_ref profile) c))\<rparr>)
                | (Inr _, db) \<Rightarrow> (Inr (), m\<lparr>cm_profiles := db, cm_credentials := c\<rparr>))))"

definition replace_connection_checks ::
  "('c, 'r) cred_ops \<Rightarrow> profile_env \<Rightarrow> ConnectionProfile \<Rightarrow> SecretMaterial \<Rightarrow> 'c ConnectionManager
     \<Rightarrow> ControlError + (ConnectionProfile \<times> SecretMaterial)" where
  "replace_connection_checks ops pe profile secret m =
     bind_res (map_err Control_Store (get_profile pe (pr_id profile) (cm_profiles m))) (\<lambda>existing.
     if pr_id profile \<noteq> pr_id existing \<or> pr_secret_ref profile \<noteq> pr_secret_ref existing
     then Inl ConnectionIdentityMismatch
     else bind_res (ensure_auth_kind profile secret) (\<lambda>_.
     bind_res (map_err Control_Store (validate_profile pe profile)) (\<lambda>_.
     bind_res (map_err Control_Store (cr_get ops (pr_secret_ref existing) (cm_credentials m)))
       (\<lambda>previous_secret. Inr (existing, previous_secret)))))"

definition replace_connection ::
  "('c, 'r) cred_ops \<Rightarrow> profile_env \<Rightarrow> fault \<Rightarrow> 'r \<Rightarrow> 'r \<Rightarrow> ConnectionProfile \<Rightarrow> SecretMaterial
     \<Rightarrow> 'c ConnectionManager \<Rightarrow> (ControlError + SanitizedConnection) \<times> 'c ConnectionManager" where
  "replace_connection ops pe fault r r' profile secret m =
     (case replace_connection_checks ops pe profile secret m of
        Inl e \<Rightarrow> (Inl e, m)
      | Inr (existing, previous_secret) \<Rightarrow>
          let updated = bump_policy_version existing profile in
          (case cr_put ops r (pr_secret_ref updated) secret (cm_credentials m) of
             (Inl e, c) \<Rightarrow> (Inl (Control_Store e), m\<lparr>cm_credentials := c\<rparr>)
           | (Inr _, c) \<Rightarrow>
               (case profiles_upsert fault pe updated (cm_profiles m) of
                  (Inl e, db) \<Rightarrow> (Inl (Control_Store e), m\<lparr>cm_profiles := db, cm_credentials :=
                     snd (cr_put ops r' (pr_secret_ref existing) previous_secret c)\<rparr>)
                | (Inr _, db) \<Rightarrow> (Inr (SanitizedConnection_from updated),
                     m\<lparr>cm_profiles := db, cm_credentials := c\<rparr>))))"

definition delete_checks ::
  "('c, 'r) cred_ops \<Rightarrow> profile_env \<Rightarrow> ConnectionId \<Rightarrow> 'c ConnectionManager
     \<Rightarrow> StoreError + (ConnectionProfile \<times> SecretMaterial option)" where
  "delete_checks ops pe cid m =
     bind_res (get_profile pe cid (cm_profiles m)) (\<lambda>profile.
     bind_res (find_secret ops (pr_secret_ref profile) (cm_credentials m)) (\<lambda>secret.
     Inr (profile, secret)))"

definition delete_connection ::
  "('c, 'r) cred_ops \<Rightarrow> profile_env \<Rightarrow> fault \<Rightarrow> fault \<Rightarrow> 'r \<Rightarrow> ConnectionId
     \<Rightarrow> 'c ConnectionManager \<Rightarrow> (ControlError + unit) \<times> 'c ConnectionManager" where
  "delete_connection ops pe fault fault' r cid m =
     (case delete_checks ops pe cid m of
        Inl e \<Rightarrow> (Inl (Control_Store e), m)
      | Inr (profile, secret) \<Rightarrow>
          (case profiles_delete fault cid (cm_profiles m) of
             (Inl e, db) \<Rightarrow> (Inl (Control_Store e), m\<lparr>cm_profiles := db\<rparr>)
           | (Inr _, db) \<Rightarrow>
               (case secret of
                  None \<Rightarrow> (Inr (), m\<lparr>cm_profiles := db\<rparr>)
                | Some s \<Rightarrow>
                    (case cr_del ops (pr_secret_ref profile) (cm_credentials m) of
                       (Inr _, c) \<Rightarrow> (Inr (), m\<lparr>cm_profiles := db, cm_credentials := c\<rparr>)
                     | (Inl e, c) \<Rightarrow>
                         (case cr_put ops r (pr_secret_ref profile) s c of
                            (Inr _, c') \<Rightarrow> (Inl (Control_Store e), m\<lparr>cm_credentials := c',
                              cm_profiles := snd (profiles_upsert fault' pe profile db)\<rparr>)
                          | (Inl _, c') \<Rightarrow> (Inl (Control_Store e),
                              m\<lparr>cm_profiles := db, cm_credentials := c'\<rparr>))))))"

section \<open>The control service\<close>

datatype ControlRequest =
    Req_Create ConnectionProfile SecretMaterial
  | Req_UpdateProfile ConnectionProfile
  | Req_SetPolicy ConnectionId ConnectionPolicy
  | Req_SetEnabled ConnectionId bool
  | Req_ReplaceSecret ConnectionId SecretMaterial
  | Req_Delete ConnectionId
  | Req_List
  | Req_GetProfile ConnectionId
  | Req_ListProfiles

datatype ControlResponse =
    Resp_Connection SanitizedConnection
  | Resp_Connections "SanitizedConnection list"
  | Resp_Profile ConnectionProfile
  | Resp_Profiles "ConnectionProfile list"
  | Resp_Acknowledged

text \<open>\<open>fault\<close> fails the first profile write of the request, \<open>fault'\<close> the one that undoes
  a deletion; \<open>r\<close> and \<open>r'\<close> are the random values of the credential writes.\<close>

fun execute_control ::
  "('c, 'r) cred_ops \<Rightarrow> profile_env \<Rightarrow> fault \<Rightarrow> fault \<Rightarrow> 'r \<Rightarrow> 'r \<Rightarrow> ControlRequest
     \<Rightarrow> 'c ConnectionManager \<Rightarrow> (ControlError + ControlResponse) \<times> 'c ConnectionManager" where
  "execute_control ops pe fault fault' r r' (Req_Create profile secret) m =
     apfst (map_res Resp_Connection) (create ops pe fault r profile secret m)"
| "execute_control ops pe fault fault' r r' (Req_UpdateProfile profile) m =
     apfst (map_res Resp_Connection) (update_profile pe fault profile m)"
| "execute_control ops pe fault fault' r r' (Req_SetPolicy cid policy) m =
     apfst (map_res Resp_Profile) (set_policy pe fault cid policy m)"
| "execute_control ops pe fault fault' r r' (Req_SetEnabled cid enabled) m =
     apfst (map_res Resp_Profile) (set_enabled pe fault cid enabled m)"
| "execute_control ops pe fault fault' r r' (Req_ReplaceSecret cid secret) m =
     apfst (map_res (\<lambda>_. Resp_Acknowledged)) (replace_secret ops pe fault r r' cid secret m)"
| "execute_control ops pe fault fault' r r' (Req_Delete cid) m =
     apfst (map_res (\<lambda>_. Resp_Acknowledged)) (delete_connection ops pe fault fault' r cid m)"
| "execute_control ops pe fault fault' r r' Req_List m =
     (map_res Resp_Connections (map_err Control_Store (list_connections pe (cm_profiles m))), m)"
| "execute_control ops pe fault fault' r r' (Req_GetProfile cid) m =
     (map_res Resp_Profile (map_err Control_Store (get_profile pe cid (cm_profiles m))), m)"
| "execute_control ops pe fault fault' r r' Req_ListProfiles m =
     (map_res Resp_Profiles (map_err Control_Store (list_profiles pe (cm_profiles m))), m)"

section \<open>Confirmations\<close>

record AuthorizationRequest =
  aq_req_subject :: string
  aq_req_session_id :: string
  aq_req_tool :: string
  aq_req_arguments :: json
  aq_req_lifetime_seconds :: u64

record ConfirmationRequest =
  cf_subject :: string
  cf_session_id :: string
  cf_connection_id :: ConnectionId
  cf_tool :: string
  cf_arguments :: json
  cf_operation :: DataOperation
  cf_lifetime :: int

definition default_subject :: string where
  "default_subject = ''desktop-user''"

definition default_grant_lifetime_seconds :: u64 where
  "default_grant_lifetime_seconds = 30"

definition confirmation_issue ::
  "policy_env \<Rightarrow> profile_env \<Rightarrow> grant_env \<Rightarrow> DateTime \<Rightarrow> string \<Rightarrow> GrantIssuer \<Rightarrow> ProfileRepository
     \<Rightarrow> ConfirmationRequest \<Rightarrow> ControlError + AuthorizationGrant" where
  "confirmation_issue env pe ge now fresh_nonce issuer db request =
     (if cf_lifetime request = 0 \<or> cf_lifetime request > MAX_GRANT_LIFETIME then Inl InvalidGrantLifetime
      else bind_res (map_err Control_Store (get_profile pe (cf_connection_id request) db)) (\<lambda>profile.
      bind_res (map_err Control_Policy (evaluate env (pr_policy profile) (cf_operation request)))
        (\<lambda>decision.
      if decision \<noteq> Confirm then Inl GrantNotApplicable
      else bind_res (map_err Control_Policy (canonical_arguments_hash ge (cf_arguments request)))
        (\<lambda>arguments_hash.
      map_err Control_Policy (issue ge issuer
        \<lparr>gc_subject = cf_subject request, gc_session_id = cf_session_id request,
         gc_connection_id = cf_connection_id request, gc_tool = cf_tool request,
         gc_arguments_hash = arguments_hash, gc_policy_version = pr_policy_version profile,
         gc_max_rows = pol_max_rows (pr_policy profile),
         gc_max_bytes = pol_max_bytes (pr_policy profile),
         gc_max_affected = pol_max_affected (pr_policy profile),
         gc_expires_at = now + cf_lifetime request, gc_nonce = fresh_nonce\<rparr>)))))"

text \<open>\<open>serde_json::from_value\<close> into \<open>McpOperationArguments<T>\<close>, for each request type.\<close>

record mcp_arguments_env =
  ma_insert :: "json \<Rightarrow> string + (ConnectionId \<times> InsertRequest)"
  ma_update :: "json \<Rightarrow> string + (ConnectionId \<times> UpdateRequest)"
  ma_delete :: "json \<Rightarrow> string + (ConnectionId \<times> DeleteRequest)"
  ma_native :: "json \<Rightarrow> string + (ConnectionId \<times> NativeRequest)"
  ma_time_series :: "json \<Rightarrow> string + (ConnectionId \<times> TimeSeriesWriteRequest)"
  ma_vector_upsert :: "json \<Rightarrow> string + (ConnectionId \<times> VectorUpsertRequest)"

definition parse_operation ::
  "(json \<Rightarrow> string + (ConnectionId \<times> 't)) \<Rightarrow> json \<Rightarrow> ('t \<Rightarrow> DataOperation)
     \<Rightarrow> ControlError + (ConnectionId \<times> DataOperation)" where
  "parse_operation from_value arguments wrap =
     bind_res (map_err InvalidGrantRequest (from_value arguments)) (\<lambda>(connection_id, request).
     Inr (connection_id, wrap request))"

definition confirmed_operation ::
  "mcp_arguments_env \<Rightarrow> string \<Rightarrow> json \<Rightarrow> ControlError + (ConnectionId \<times> DataOperation)" where
  "confirmed_operation ma tool arguments =
     (if tool \<in> {''sql_insert'', ''document_insert'', ''kv_put'', ''search_document_upsert'',
          ''event_ingest'', ''vector_insert''} then parse_operation (ma_insert ma) arguments Op_Insert
      else if tool \<in> {''sql_update'', ''document_update'', ''kv_update'', ''search_document_update''} then
        parse_operation (ma_update ma) arguments Op_Update
      else if tool \<in> {''sql_delete'', ''document_delete'', ''kv_delete'', ''search_document_delete'',
          ''vector_delete''} then parse_operation (ma_delete ma) arguments Op_Delete
      else if tool = ''native_execute'' then parse_operation (ma_native ma) arguments Op_NativeExecute
      else if tool = ''timeseries_write'' then
        parse_operation (ma_time_series ma) arguments Op_TimeSeriesWrite
      else if tool = ''vector_upsert'' then
        parse_operation (ma_vector_upsert ma) arguments Op_VectorUpsert
      else Inl (InvalidGrantRequest (''tool `'' @ tool @ ''` is not a confirmable write tool'')))"

definition issue_mcp ::
  "mcp_arguments_env \<Rightarrow> policy_env \<Rightarrow> profile_env \<Rightarrow> grant_env \<Rightarrow> DateTime \<Rightarrow> string \<Rightarrow> GrantIssuer
     \<Rightarrow> ProfileRepository \<Rightarrow> AuthorizationRequest \<Rightarrow> ControlError + AuthorizationGrant" where
  "issue_mcp ma env pe ge now fresh_nonce issuer db request =
     bind_res (confirmed_operation ma (aq_req_tool request) (aq_req_arguments request))
       (\<lambda>(connection_id, operation).
     confirmation_issue env pe ge now fresh_nonce issuer db
       \<lparr>cf_subject = aq_req_subject request, cf_session_id = aq_req_session_id request,
        cf_connection_id = connection_id, cf_tool = aq_req_tool request,
        cf_arguments = aq_req_arguments request, cf_operation = operation,
        cf_lifetime = uint (aq_req_lifetime_seconds request) * nanos_per_second\<rparr>)"

section \<open>The authorization key\<close>

text \<open>\<open>base64\<close> in its standard alphabet, and the bytes of a signing key.\<close>

record key_env =
  ke_encode :: "string \<Rightarrow> string"
  ke_decode :: "string \<Rightarrow> string + string"

record LocalAuthorizationKey =
  lk_issuer :: GrantIssuer
  lk_created :: bool

definition signing_key_secret :: "key_env \<Rightarrow> string \<Rightarrow> SecretMaterial" where
  "signing_key_secret ke signing_key =
     \<lparr>sm_kind = Auth_ApiKey,
      sm_fields = [(AUTHORIZATION_PRIVATE_KEY_FIELD, ke_encode ke signing_key)]\<rparr>"

definition decode_signing_key :: "key_env \<Rightarrow> SecretMaterial \<Rightarrow> ControlError + GrantIssuer" where
  "decode_signing_key ke secret =
     bind_res (ok_or (bt_get (sm_fields secret) AUTHORIZATION_PRIVATE_KEY_FIELD)
         (InvalidAuthorizationKey ''private key field is missing'')) (\<lambda>encoded.
     bind_res (map_err InvalidAuthorizationKey (ke_decode ke encoded)) (\<lambda>bytes.
     if length bytes \<noteq> 32 then
       Inl (InvalidAuthorizationKey ''private key must contain exactly 32 bytes'')
     else Inr (GrantIssuer_new bytes)))"

definition load_or_create ::
  "('c, 'r) cred_ops \<Rightarrow> key_env \<Rightarrow> 'r \<Rightarrow> string \<Rightarrow> string \<Rightarrow> 'c
     \<Rightarrow> (ControlError + LocalAuthorizationKey) \<times> 'c" where
  "load_or_create ops ke r fresh_key reference c =
     (case cr_get ops reference c of
        Inr secret \<Rightarrow> (map_res (\<lambda>issuer. \<lparr>lk_issuer = issuer, lk_created = False\<rparr>)
          (decode_signing_key ke secret), c)
      | Inl Store_NotFound \<Rightarrow>
          (case cr_put ops r reference (signing_key_secret ke fresh_key) c of
             (Inl e, c') \<Rightarrow> (Inl (Control_Store e), c')
           | (Inr _, c') \<Rightarrow> (Inr \<lparr>lk_issuer = GrantIssuer_new fresh_key, lk_created = True\<rparr>, c'))
      | Inl error \<Rightarrow> (Inl (Control_Store error), c))"

definition public_key_base64 :: "key_env \<Rightarrow> grant_env \<Rightarrow> LocalAuthorizationKey \<Rightarrow> string" where
  "public_key_base64 ke ge key = ke_encode ke (verifying_key ge (lk_issuer key))"

section \<open>Failed requests leave no trace\<close>

lemma profiles_upsert_cases:
  obtains (failed) e where "profiles_upsert fault pe p db = (Inl e, db)"
  | (stored) db' where "profiles_upsert fault pe p db = (Inr (), db')" "upsert pe p db = (Inr (), db')"
proof -
  obtain x db' where "upsert pe p db = (x, db')" by (rule prod.exhaust)
  then show ?thesis using failed stored
    by (cases x; cases fault) (simp_all add: profiles_upsert_def)
qed

lemma profiles_delete_cases:
  obtains (failed) e where "profiles_delete fault cid db = (Inl e, db)"
  | (deleted) db' where "profiles_delete fault cid db = (Inr (), db')" "delete_profile cid db = (Inr (), db')"
  using that by (cases fault; cases "hm_get (pf_profiles db) cid = None")
    (auto simp: profiles_delete_def delete_profile_def)

lemma profiles_notify_cases:
  obtains (failed) e where "profiles_notify_changed fault cid db = (Inl e, db)"
  | (noted) "profiles_notify_changed fault cid db = (Inr (), bump_revision cid db)"
  using that by (cases fault) (auto simp: profiles_notify_changed_def notify_changed_def)

lemma store_profile_Inl: "store_profile pe fault p a m = (Inl e, m') \<Longrightarrow> m' = m"
  by (rule profiles_upsert_cases [of fault pe p "cm_profiles m"]) (auto simp: store_profile_def)

lemma update_profile_Inl: "update_profile pe fault p m = (Inl e, m') \<Longrightarrow> m' = m"
  by (auto simp: update_profile_def Let_def dest: store_profile_Inl split: sum.splits if_splits)

lemma set_policy_Inl: "set_policy pe fault cid policy m = (Inl e, m') \<Longrightarrow> m' = m"
  by (auto simp: set_policy_def Let_def dest: store_profile_Inl split: sum.splits)

lemma set_enabled_Inl: "set_enabled pe fault cid enabled m = (Inl e, m') \<Longrightarrow> m' = m"
  by (auto simp: set_enabled_def Let_def dest: store_profile_Inl split: sum.splits if_splits)

lemma find_secret_Inr:
  "find_secret ops k c = Inr (Some s) \<Longrightarrow> cr_get ops k c = Inr s"
  "find_secret ops k c = Inr None \<Longrightarrow> cr_get ops k c = Inl Store_NotFound"
  by (auto simp: find_secret_def split: sum.splits StoreError.splits)

text \<open>A store's operations as the trait object, and managers no lookup can tell apart.\<close>

definition trait_object ::
  "('r \<Rightarrow> string \<Rightarrow> SecretMaterial \<Rightarrow> 'c \<Rightarrow> (StoreError + unit) \<times> 'c) \<Rightarrow>
   (string \<Rightarrow> 'c \<Rightarrow> StoreError + SecretMaterial) \<Rightarrow>
   (string \<Rightarrow> 'c \<Rightarrow> (StoreError + unit) \<times> 'c) \<Rightarrow> ('c, 'r) cred_ops" where
  "trait_object p g d = \<lparr>cr_put = p, cr_get = g, cr_del = d\<rparr>"

lemma trait_object_simps [simp]:
  "cr_put (trait_object p g d) = p" "cr_get (trait_object p g d) = g" "cr_del (trait_object p g d) = d"
  by (simp_all add: trait_object_def)

definition same_view ::
  "(string \<Rightarrow> 'c \<Rightarrow> StoreError + SecretMaterial) \<Rightarrow> 'c ConnectionManager \<Rightarrow> 'c ConnectionManager \<Rightarrow> bool"
  where
  "same_view g m m' \<longleftrightarrow> cm_profiles m' = cm_profiles m \<and>
     (\<forall>k. g k (cm_credentials m') = g k (cm_credentials m))"

lemma same_view_refl [simp]: "same_view g m m"
  by (simp add: same_view_def)

context credential_store
begin

lemma put_cases:
  obtains (failed) e where "put env r k x s = (Inl e, s)"
  | (stored) s' where "put env r k x s = (Inr (), s')"
proof -
  obtain y s' where eq: "put env r k x s = (y, s')" by (rule prod.exhaust)
  then show ?thesis using failed stored put_fails by (cases y) auto
qed

lemma create_atomic:
  assumes "lawful env" "fresh_ok r" "valid (cm_credentials m)"
    and "get env (pr_secret_ref profile) (cm_credentials m) = Inl Store_NotFound"
    and "create (trait_object (put env) (get env) del) pe fault r profile secret m = (Inl e, m')"
  shows "same_view (get env) m m'"
proof (cases "create_checks pe profile secret (cm_profiles m)")
  case (Inl a)
  with assms(5) show ?thesis by (simp add: create_def)
next
  case checks: (Inr u)
  show ?thesis
  proof (cases rule: put_cases [of env r "pr_secret_ref profile" secret "cm_credentials m"])
    case (failed a)
    with assms(5) checks show ?thesis by (simp add: create_def)
  next
    case (stored c)
    with assms(5) checks have "m' = m\<lparr>cm_credentials := snd (del (pr_secret_ref profile) c)\<rparr>"
      by (cases rule: profiles_upsert_cases [of fault pe profile "cm_profiles m"])
        (simp_all add: create_def)
    then show ?thesis
      using put_del [OF assms(1-4) stored] by (simp add: same_view_def)
  qed
qed

lemma replace_secret_atomic:
  assumes "lawful env" "fresh_ok r" "fresh_ok r'" "valid (cm_credentials m)"
    and again: "\<And>k x s. get env k (cm_credentials m) = Inr x \<Longrightarrow> \<exists>s'. put env r' k x s = (Inr (), s')"
    and res: "replace_secret (trait_object (put env) (get env) del) pe fault r r' cid secret m = (Inl e, m')"
  shows "same_view (get env) m m'"
proof (cases "replace_secret_checks (trait_object (put env) (get env) del) pe cid secret m")
  case (Inl a)
  with res show ?thesis by (simp add: replace_secret_def)
next
  case checks: (Inr pp)
  obtain profile previous where pp: "pp = (profile, previous)" by (cases pp)
  let ?k = "pr_secret_ref profile"
  from checks pp have previous:
    "find_secret (trait_object (put env) (get env) del) ?k (cm_credentials m) = Inr previous"
    by (auto simp: replace_secret_checks_def res_simps)
  show ?thesis
  proof (cases rule: put_cases [of env r ?k secret "cm_credentials m"])
    case (failed a)
    with res checks pp show ?thesis by (simp add: replace_secret_def)
  next
    case (stored c)
    with res checks pp have m': "m' = m\<lparr>cm_credentials := (case previous of
          Some previous_secret \<Rightarrow> snd (put env r' ?k previous_secret c)
        | None \<Rightarrow> snd (del ?k c))\<rparr>"
      by (cases rule: profiles_notify_cases [of fault cid "cm_profiles m"])
        (auto simp: replace_secret_def split: option.splits)
    show ?thesis
    proof (cases previous)
      case None
      with previous have "get env ?k (cm_credentials m) = Inl Store_NotFound"
        by (auto dest: find_secret_Inr)
      with put_del [OF assms(1,2,4) _ stored] m' None show ?thesis
        by (simp add: same_view_def)
    next
      case (Some old)
      with previous have old: "get env ?k (cm_credentials m) = Inr old"
        by (auto dest: find_secret_Inr)
      from again [OF old] obtain c' where "put env r' ?k old c = (Inr (), c')" by blast
      with put_back [OF assms(1-4) old stored] m' Some show ?thesis by (simp add: same_view_def)
    qed
  qed
qed

lemma replace_connection_atomic:
  assumes "lawful env" "fresh_ok r" "fresh_ok r'" "valid (cm_credentials m)"
    and again: "\<And>k x s. get env k (cm_credentials m) = Inr x \<Longrightarrow> \<exists>s'. put env r' k x s = (Inr (), s')"
    and res: "replace_connection (trait_object (put env) (get env) del) pe fault r r' profile secret m
      = (Inl e, m')"
  shows "same_view (get env) m m'"
proof (cases "replace_connection_checks (trait_object (put env) (get env) del) pe profile secret m")
  case (Inl a)
  with res show ?thesis by (simp add: replace_connection_def)
next
  case checks: (Inr pp)
  obtain existing old where pp: "pp = (existing, old)" by (cases pp)
  let ?k = "pr_secret_ref existing"
  from checks pp have old: "get env ?k (cm_credentials m) = Inr old"
    and ref: "pr_secret_ref (bump_policy_version existing profile) = ?k"
    by (auto simp: replace_connection_checks_def res_simps bump_policy_version_def split: if_splits)
  show ?thesis
  proof (cases rule: put_cases [of env r ?k secret "cm_credentials m"])
    case (failed a)
    with res checks pp ref show ?thesis by (simp add: replace_connection_def Let_def)
  next
    case (stored c)
    with res checks pp ref have m': "m' = m\<lparr>cm_credentials := snd (put env r' ?k old c)\<rparr>"
      by (cases rule: profiles_upsert_cases
          [of fault pe "bump_policy_version existing profile" "cm_profiles m"])
        (simp_all add: replace_connection_def Let_def)
    from again [OF old] obtain c' where "put env r' ?k old c = (Inr (), c')" by blast
    with put_back [OF assms(1-4) old stored] m' show ?thesis by (simp add: same_view_def)
  qed
qed

lemma delete_connection_atomic:
  assumes res: "delete_connection (trait_object (put env) (get env) del) pe fault fault' r cid m = (Inl e, m')"
  shows "same_view (get env) m m'"
proof (cases "delete_checks (trait_object (put env) (get env) del) pe cid m")
  case (Inl a)
  with res show ?thesis by (simp add: delete_connection_def)
next
  case checks: (Inr pp)
  obtain profile secret where pp: "pp = (profile, secret)" by (cases pp)
  from checks pp have found:
    "find_secret (trait_object (put env) (get env) del) (pr_secret_ref profile) (cm_credentials m) = Inr secret"
    by (auto simp: delete_checks_def res_simps)
  show ?thesis
  proof (cases rule: profiles_delete_cases [of fault cid "cm_profiles m"])
    case (failed a)
    with res checks pp show ?thesis by (simp add: delete_connection_def)
  next
    case (deleted db)
    with res checks pp obtain s where s: "secret = Some s"
      by (cases secret) (simp_all add: delete_connection_def)
    with found have get: "get env (pr_secret_ref profile) (cm_credentials m) = Inr s"
      by (auto dest: find_secret_Inr)
    obtain y c where d: "del (pr_secret_ref profile) (cm_credentials m) = (y, c)" by (rule prod.exhaust)
    with get del_fails [where env = env] obtain u where "y = Inr u" by (cases y) fastforce+
    with res checks pp deleted s d show ?thesis by (simp add: delete_connection_def)
  qed
qed

lemma execute_control_atomic:
  assumes "lawful env" "fresh_ok r" "fresh_ok r'" "valid (cm_credentials m)"
    and "\<And>k x s. get env k (cm_credentials m) = Inr x \<Longrightarrow> \<exists>s'. put env r' k x s = (Inr (), s')"
    and new: "\<And>p x. request = Req_Create p x \<Longrightarrow>
      get env (pr_secret_ref p) (cm_credentials m) = Inl Store_NotFound"
    and res: "execute_control (trait_object (put env) (get env) del) pe fault fault' r r' request m = (Inl e, m')"
  shows "same_view (get env) m m'"
proof -
  have inl: "\<exists>a. x = (Inl a, m')" if "apfst (map_res f) x = (Inl e, m')" for f :: "'y \<Rightarrow> ControlResponse" and x
    using that by (cases x; cases "fst x") auto
  show ?thesis
  proof (cases request)
    case (Req_Create p x)
    with res inl [of Resp_Connection] create_atomic [OF assms(1,2,4) new] show ?thesis by fastforce
  next
    case (Req_UpdateProfile p)
    with res inl [of Resp_Connection "update_profile pe fault p m"] update_profile_Inl show ?thesis by fastforce
  next
    case (Req_SetPolicy cid p)
    with res inl [of Resp_Profile "set_policy pe fault cid p m"] set_policy_Inl show ?thesis by fastforce
  next
    case (Req_SetEnabled cid b)
    with res inl [of Resp_Profile "set_enabled pe fault cid b m"] set_enabled_Inl show ?thesis by fastforce
  next
    case (Req_ReplaceSecret cid x)
    with res inl [of "\<lambda>_. Resp_Acknowledged"] replace_secret_atomic [OF assms(1-5)] show ?thesis by fastforce
  next
    case (Req_Delete cid)
    with res inl [of "\<lambda>_. Resp_Acknowledged"] delete_connection_atomic show ?thesis by fastforce
  qed (use res in auto)
qed

lemma create_succeeds:
  assumes "lawful env" "fresh_ok r" "valid (cm_credentials m)" "profile_codec pe"
    and res: "create (trait_object (put env) (get env) del) pe fault r profile secret m = (Inr a, m')"
  shows "get_profile pe (pr_id profile) (cm_profiles m') = Inr profile \<and>
    get env (pr_secret_ref profile) (cm_credentials m') = Inr secret \<and>
    pr_auth_kind profile = sm_kind secret \<and>
    (\<forall>k. k \<noteq> pr_secret_ref profile \<longrightarrow> get env k (cm_credentials m') = get env k (cm_credentials m))"
proof -
  from res obtain u where checks: "create_checks pe profile secret (cm_profiles m) = Inr u"
    by (cases "create_checks pe profile secret (cm_profiles m)") (auto simp: create_def)
  then have kind: "pr_auth_kind profile = sm_kind secret"
    by (auto simp: create_checks_def ensure_auth_kind_def res_simps split: if_splits)
  obtain c where c: "put env r (pr_secret_ref profile) secret (cm_credentials m) = (Inr (), c)"
    using res checks
    by (cases rule: put_cases [of env r "pr_secret_ref profile" secret "cm_credentials m"])
      (auto simp: create_def)
  obtain db where db: "upsert pe profile (cm_profiles m) = (Inr (), db)"
    and "m' = m\<lparr>cm_profiles := db, cm_credentials := c\<rparr>"
    using res checks c
    by (cases rule: profiles_upsert_cases [of fault pe profile "cm_profiles m"])
      (auto simp: create_def)
  with get_put [OF assms(1-3) c] kind upsert_get_same [OF assms(4) db] show ?thesis by simp
qed

lemma load_or_create_stable:
  assumes "lawful env" "fresh_ok r" "valid c"
    and "\<And>b. ke_decode ke (ke_encode ke b) = Inr b" "length key = 32"
    and res: "load_or_create (trait_object (put env) (get env) del) ke r key reference c = (Inr k, c')"
  shows "load_or_create (trait_object (put env) (get env) del) ke r' key' reference c'
    = (Inr (k\<lparr>lk_created := False\<rparr>), c')"
proof (cases "get env reference c")
  case (Inr secret)
  with res show ?thesis by (auto simp: load_or_create_def res_simps)
next
  case (Inl e)
  with res have e: "e = Store_NotFound" by (cases e) (auto simp: load_or_create_def)
  show ?thesis
  proof (cases rule: put_cases [of env r reference "signing_key_secret ke key" c])
    case (failed a)
    with res Inl e show ?thesis by (simp add: load_or_create_def)
  next
    case (stored s)
    with get_put [OF assms(1-3) stored] res Inl e assms(4,5) show ?thesis
      by (auto simp: load_or_create_def decode_signing_key_def signing_key_secret_def bt_get_def)
  qed
qed

end

section \<open>Properties of the administration side\<close>

definition sqlite_ops :: "aead_env \<Rightarrow> (SqliteCredentialStore, string) cred_ops" where
  "sqlite_ops env = trait_object (sqlite_put env) (sqlite_get env) sqlite_delete"


text \<open>
  A created connection is stored as given, its secret is found under its reference and of
  the profile's kind, and every other secret is untouched.
\<close>

theorem created_connection_is_stored:
  assumes "aead_lawful env" "length r = SQLITE_NONCE_BYTES" "sqlite_wf (cm_credentials m)"
    and "profile_codec pe"
    and "create (sqlite_ops env) pe fault r profile secret m = (Inr a, m')"
  shows "get_profile pe (pr_id profile) (cm_profiles m') = Inr profile \<and>
    sqlite_get env (pr_secret_ref profile) (cm_credentials m') = Inr secret \<and>
    pr_auth_kind profile = sm_kind secret \<and>
    (\<forall>k. k \<noteq> pr_secret_ref profile \<longrightarrow>
       sqlite_get env k (cm_credentials m') = sqlite_get env k (cm_credentials m))"
  using sqlite.create_succeeds [OF assms(1-4)] assms(5) unfolding sqlite_ops_def by blast

text \<open>
  The signing key is stable: after a call of \<open>load_or_create\<close> succeeded, every later call
  loads the same key and changes nothing.
\<close>

theorem authorization_key_stable:
  assumes "aead_lawful env" "length r = SQLITE_NONCE_BYTES" "sqlite_wf c"
    and "\<And>b. ke_decode ke (ke_encode ke b) = Inr b" "length key = 32"
    and "load_or_create (sqlite_ops env) ke r key reference c = (Inr k, c')"
  shows "load_or_create (sqlite_ops env) ke r' key' reference c' = (Inr (k\<lparr>lk_created := False\<rparr>), c')"
  using sqlite.load_or_create_stable [OF assms(1-5)] assms(6) unfolding sqlite_ops_def by blast

section \<open>Policy versions\<close>

text \<open>Every stored profile is found under its own id.\<close>

definition profiles_keyed :: "profile_env \<Rightarrow> ProfileRepository \<Rightarrow> bool" where
  "profiles_keyed pe db \<longleftrightarrow> (\<forall>cid p. get_profile pe cid db = Inr p \<longrightarrow> pr_id p = cid)"

lemma profiles_keyed_upsert [invariants]:
  "profile_codec pe \<Longrightarrow> profiles_keyed pe db \<Longrightarrow> upsert pe p db = (Inr (), db') \<Longrightarrow> profiles_keyed pe db'"
  by (auto simp: profiles_keyed_def upsert_get_same(1) split: if_splits)

definition version_follows :: "profile_env \<Rightarrow> ProfileRepository \<Rightarrow> ProfileRepository \<Rightarrow> bool" where
  "version_follows pe db db' \<longleftrightarrow> (\<forall>cid p p'. get_profile pe cid db = Inr p \<longrightarrow>
     get_profile pe cid db' = Inr p' \<longrightarrow> pr_policy p' \<noteq> pr_policy p \<longrightarrow>
     pr_policy_version p' = next_policy_version (pr_policy_version p))"

lemma version_follows_refl [simp]: "version_follows pe db db"
  by (simp add: version_follows_def)

text \<open>Storing a profile whose version is derived from the stored one.\<close>

lemma version_follows_upsert:
  assumes "profile_codec pe" "upsert pe p' db = (Inr (), db')" "profiles_keyed pe db"
    and "\<And>p. get_profile pe (pr_id p') db = Inr p \<Longrightarrow> pr_policy p' \<noteq> pr_policy p \<Longrightarrow>
      pr_policy_version p' = next_policy_version (pr_policy_version p)"
  shows "version_follows pe db db' \<and> profiles_keyed pe db'"
  using assms by (auto simp: version_follows_def upsert_get_same(1) profiles_keyed_upsert)

lemma store_profile_version:
  assumes "profile_codec pe" "profiles_keyed pe (cm_profiles m)"
    and "store_profile pe fault p' a m = (x, m')"
    and "\<And>p. get_profile pe (pr_id p') (cm_profiles m) = Inr p \<Longrightarrow> pr_policy p' \<noteq> pr_policy p \<Longrightarrow>
      pr_policy_version p' = next_policy_version (pr_policy_version p)"
  shows "version_follows pe (cm_profiles m) (cm_profiles m') \<and> profiles_keyed pe (cm_profiles m')"
proof (cases rule: profiles_upsert_cases [of fault pe p' "cm_profiles m"])
  case (failed e)
  with assms(2,3) show ?thesis by (auto simp: store_profile_def)
next
  case (stored db')
  with assms(3) have "cm_profiles m' = db'" by (auto simp: store_profile_def)
  with version_follows_upsert [OF assms(1) stored(2) assms(2,4)] show ?thesis by simp
qed

lemma bump_policy_version_simps [simp]:
  "pr_id (bump_policy_version old p) = pr_id p" "pr_policy (bump_policy_version old p) = pr_policy p"
  "pr_policy p \<noteq> pr_policy old \<Longrightarrow>
     pr_policy_version (bump_policy_version old p) = next_policy_version (pr_policy_version old)"
  by (simp_all add: bump_policy_version_def)

lemma update_profile_version:
  assumes "profile_codec pe" "profiles_keyed pe (cm_profiles m)" "update_profile pe fault p m = (x, m')"
  shows "version_follows pe (cm_profiles m) (cm_profiles m') \<and> profiles_keyed pe (cm_profiles m')"
proof (cases "get_profile pe (pr_id p) (cm_profiles m)")
  case (Inr existing)
  show ?thesis
  proof (cases "m' = m")
    case False
    with assms(3) Inr have "store_profile pe fault (bump_policy_version existing p)
        (SanitizedConnection_from (bump_policy_version existing p)) m = (x, m')"
      by (auto simp: update_profile_def Let_def split: if_splits)
    from store_profile_version [OF assms(1,2) this] Inr show ?thesis by simp
  qed (use assms(2) in simp)
qed (use assms in \<open>auto simp: update_profile_def\<close>)

lemma set_policy_version:
  assumes "profile_codec pe" "profiles_keyed pe (cm_profiles m)" "set_policy pe fault cid policy m = (x, m')"
  shows "version_follows pe (cm_profiles m) (cm_profiles m') \<and> profiles_keyed pe (cm_profiles m')"
proof (cases "get_profile pe cid (cm_profiles m)")
  case (Inr p)
  with assms(2) have "pr_id p = cid" by (simp add: profiles_keyed_def)
  with store_profile_version [OF assms(1,2)] assms(3) Inr show ?thesis
    unfolding set_policy_def Let_def by fastforce
qed (use assms in \<open>auto simp: set_policy_def\<close>)

lemma set_enabled_version:
  assumes "profile_codec pe" "profiles_keyed pe (cm_profiles m)" "set_enabled pe fault cid b m = (x, m')"
  shows "version_follows pe (cm_profiles m) (cm_profiles m') \<and> profiles_keyed pe (cm_profiles m')"
proof (cases "get_profile pe cid (cm_profiles m)")
  case (Inr p)
  with assms(2) have pid: "pr_id p = cid" by (simp add: profiles_keyed_def)
  show ?thesis
  proof (cases "pol_enabled (pr_policy p) = b")
    case True
    with Inr assms show ?thesis by (simp add: set_enabled_def)
  next
    case False
    let ?p = "p\<lparr>pr_policy := (pr_policy p)\<lparr>pol_enabled := b\<rparr>,
      pr_policy_version := next_policy_version (pr_policy_version p)\<rparr>"
    from False assms(3) Inr have "store_profile pe fault ?p ?p m = (x, m')"
      by (simp add: set_enabled_def Let_def)
    from store_profile_version [OF assms(1,2) this] Inr pid show ?thesis by simp
  qed
qed (use assms in \<open>auto simp: set_enabled_def\<close>)

lemma get_profile_bump [simp]: "get_profile pe cid (bump_revision c db) = get_profile pe cid db"
  by (simp add: get_profile_def)

lemma replace_secret_version:
  assumes "profiles_keyed pe (cm_profiles m)" "replace_secret ops pe fault r r' cid s m = (x, m')"
  shows "version_follows pe (cm_profiles m) (cm_profiles m') \<and> profiles_keyed pe (cm_profiles m')"
proof -
  from assms(2) consider "cm_profiles m' = cm_profiles m"
    | "cm_profiles m' = bump_revision cid (cm_profiles m)"
    by (cases rule: profiles_notify_cases [of fault cid "cm_profiles m"])
      (auto simp: replace_secret_def split: sum.splits prod.splits)
  then show ?thesis using assms(1)
    by cases (auto simp: version_follows_def profiles_keyed_def)
qed

lemma create_version:
  assumes "profile_codec pe" "profiles_keyed pe (cm_profiles m)"
    and "create ops pe fault r p s m = (x, m')"
  shows "version_follows pe (cm_profiles m) (cm_profiles m') \<and> profiles_keyed pe (cm_profiles m')"
proof (cases "cm_profiles m' = cm_profiles m")
  case False
  with assms(3) obtain u where checks: "create_checks pe p s (cm_profiles m) = Inr u"
    by (cases "create_checks pe p s (cm_profiles m)") (auto simp: create_def)
  then have "\<And>q. get_profile pe (pr_id p) (cm_profiles m) \<noteq> Inr q"
    by (auto simp: create_checks_def res_simps)
  moreover from False assms(3) checks have "upsert pe p (cm_profiles m) = (Inr (), cm_profiles m')"
    by (cases rule: profiles_upsert_cases [of fault pe p "cm_profiles m"])
      (auto simp: create_def split: prod.splits sum.splits)
  ultimately show ?thesis using version_follows_upsert [OF assms(1) _ assms(2)] by blast
qed (use assms(2) in simp)

lemma delete_profile_version:
  assumes "profiles_keyed pe db" "delete_profile cid db = (x, db')"
  shows "version_follows pe db db' \<and> profiles_keyed pe db'"
  using assms
  by (auto simp: version_follows_def profiles_keyed_def delete_profile_def get_profile_def hm_get_remove
      split: if_splits)

lemma delete_connection_version:
  assumes "profile_codec pe" "profiles_keyed pe (cm_profiles m)"
    and "delete_connection ops pe fault fault' r cid m = (x, m')"
  shows "version_follows pe (cm_profiles m) (cm_profiles m') \<and> profiles_keyed pe (cm_profiles m')"
proof (cases "delete_checks ops pe cid m")
  case (Inl e)
  with assms(2,3) show ?thesis by (simp add: delete_connection_def)
next
  case (Inr pp)
  obtain p s where pp: "pp = (p, s)" by (cases pp)
  with Inr have p: "get_profile pe cid (cm_profiles m) = Inr p"
    by (auto simp: delete_checks_def res_simps)
  with assms(2) have pid: "pr_id p = cid" by (simp add: profiles_keyed_def)
  show ?thesis
  proof (cases rule: profiles_delete_cases [of fault cid "cm_profiles m"])
    case (failed e)
    with assms(2,3) Inr pp show ?thesis by (auto simp: delete_connection_def)
  next
    case (deleted db)
    from assms(3) Inr pp deleted have "cm_profiles m' = db \<or>
        cm_profiles m' = snd (profiles_upsert fault' pe p db)"
      by (auto simp: delete_connection_def split: option.splits sum.splits prod.splits)
    then consider "cm_profiles m' = db" | "upsert pe p db = (Inr (), cm_profiles m')"
      by (cases rule: profiles_upsert_cases [of fault' pe p db]) auto
    then show ?thesis
    proof cases
      case 1
      with delete_profile_version [OF assms(2) deleted(2)] show ?thesis by simp
    next
      case 2
      note old = delete_profile_version [OF assms(2) deleted(2)]
      from 2 p pid old show ?thesis
        by (auto simp: version_follows_def upsert_get_same(1) [OF assms(1)]
            profiles_keyed_upsert [OF assms(1)])
    qed
  qed
qed

lemma execute_control_version:
  assumes "profile_codec pe" "profiles_keyed pe (cm_profiles m)"
    and res: "execute_control ops pe fault fault' r r' request m = (x, m')"
  shows "version_follows pe (cm_profiles m) (cm_profiles m') \<and> profiles_keyed pe (cm_profiles m')"
proof -
  have run: "\<exists>a. y = (a, m')" if "apfst f y = (x, m')" for f :: "'y \<Rightarrow> ControlError + ControlResponse" and y
    using that by (cases y) auto
  show ?thesis
  proof (cases request)
    case (Req_Create p s)
    with res run [of _ "create ops pe fault r p s m"] create_version [OF assms(1,2)] show ?thesis by fastforce
  next
    case (Req_UpdateProfile p)
    with res run [of _ "update_profile pe fault p m"] update_profile_version [OF assms(1,2)]
    show ?thesis by fastforce
  next
    case (Req_SetPolicy cid p)
    with res run [of _ "set_policy pe fault cid p m"] set_policy_version [OF assms(1,2)]
    show ?thesis by fastforce
  next
    case (Req_SetEnabled cid b)
    with res run [of _ "set_enabled pe fault cid b m"] set_enabled_version [OF assms(1,2)]
    show ?thesis by fastforce
  next
    case (Req_ReplaceSecret cid s)
    with res run [of _ "replace_secret ops pe fault r r' cid s m"] replace_secret_version [OF assms(2)]
    show ?thesis by fastforce
  next
    case (Req_Delete cid)
    with res run [of _ "delete_connection ops pe fault fault' r cid m"]
      delete_connection_version [OF assms(1,2)] show ?thesis by fastforce
  qed (use res assms(2) in auto)
qed

text \<open>
  Whatever control request runs, and whether it fails or not, a connection whose stored
  policy changed has the next policy version (the successor modulo \<open>2^64\<close>), which differs
  from the old one; profiles stay stored under their own ids.
\<close>

theorem policy_change_moves_version:
  assumes "profile_codec pe" "profiles_keyed pe (cm_profiles m)"
    and "execute_control ops pe fault fault' r r' request m = (x, m')"
    and "get_profile pe cid (cm_profiles m) = Inr p" "get_profile pe cid (cm_profiles m') = Inr p'"
    and "pr_policy p' \<noteq> pr_policy p"
  shows "pr_policy_version p' = pr_policy_version p + 1 \<and> pr_policy_version p' \<noteq> pr_policy_version p \<and>
    profiles_keyed pe (cm_profiles m')"
  using execute_control_version [OF assms(1-3)] assms(4-6)
  by (simp add: version_follows_def next_policy_version_def)

section \<open>Issued confirmations\<close>

lemma confirmation_issue_Inr:
  assumes "confirmation_issue env pe ge now fresh issuer db request = Inr grant"
  shows "\<exists>profile. get_profile pe (cf_connection_id request) db = Inr profile \<and>
    evaluate env (pr_policy profile) (cf_operation request) = Inr Confirm \<and>
    cf_lifetime request \<noteq> 0 \<and> cf_lifetime request \<le> MAX_GRANT_LIFETIME \<and>
    (\<exists>h. canonical_arguments_hash ge (cf_arguments request) = Inr h \<and>
      issue ge issuer
        \<lparr>gc_subject = cf_subject request, gc_session_id = cf_session_id request,
         gc_connection_id = cf_connection_id request, gc_tool = cf_tool request,
         gc_arguments_hash = h, gc_policy_version = pr_policy_version profile,
         gc_max_rows = pol_max_rows (pr_policy profile),
         gc_max_bytes = pol_max_bytes (pr_policy profile),
         gc_max_affected = pol_max_affected (pr_policy profile),
         gc_expires_at = now + cf_lifetime request, gc_nonce = fresh\<rparr> = Inr grant)"
  using assms by (auto simp: confirmation_issue_def res_simps split: if_splits)

text \<open>The context a runtime with the stored profile checks a grant against.\<close>

definition confirmation_context :: "ConfirmationRequest \<Rightarrow> ConnectionProfile \<Rightarrow> VerificationContext" where
  "confirmation_context request profile =
     \<lparr>vc_subject = cf_subject request, vc_session_id = cf_session_id request,
      vc_connection_id = cf_connection_id request, vc_tool = cf_tool request,
      vc_arguments = cf_arguments request, vc_policy_version = pr_policy_version profile,
      vc_max_rows = pol_max_rows (pr_policy profile), vc_max_bytes = pol_max_bytes (pr_policy profile),
      vc_max_affected = pol_max_affected (pr_policy profile)\<rparr>"

text \<open>
  C15: a confirmation is issued only for an operation the stored policy wants confirmed, for at
  most 120 seconds. The grant verifies at every later time before its expiry for the
  request it was issued for, under the stored profile, and once that profile's policy
  version has moved on it does not verify any more.
\<close>

theorem issued_confirmation_verifies:
  assumes "scheme_laws ge"
    and "confirmation_issue env pe ge now fresh issuer db request = Inr grant"
  shows "\<exists>profile. get_profile pe (cf_connection_id request) db = Inr profile \<and>
    evaluate env (pr_policy profile) (cf_operation request) = Inr Confirm \<and>
    gc_expires_at (gr_claims grant) \<le> now + 120 * nanos_per_second \<and>
    (\<forall>t. now \<le> t \<longrightarrow> t < gc_expires_at (gr_claims grant) \<longrightarrow>
       is_ok (verify ge t (GrantVerifier_new (verifying_key ge issuer)) grant
         (confirmation_context request profile))) \<and>
    (\<forall>t verifier context. vc_policy_version context \<noteq> pr_policy_version profile \<longrightarrow>
       \<not> is_ok (verify ge t verifier grant context))"
proof -
  from confirmation_issue_Inr [OF assms(2)] obtain profile h claims
    where profile: "get_profile pe (cf_connection_id request) db = Inr profile"
      "evaluate env (pr_policy profile) (cf_operation request) = Inr Confirm"
      "cf_lifetime request \<le> MAX_GRANT_LIFETIME"
    and h: "canonical_arguments_hash ge (cf_arguments request) = Inr h"
    and claims: "claims = \<lparr>gc_subject = cf_subject request, gc_session_id = cf_session_id request,
         gc_connection_id = cf_connection_id request, gc_tool = cf_tool request,
         gc_arguments_hash = h, gc_policy_version = pr_policy_version profile,
         gc_max_rows = pol_max_rows (pr_policy profile),
         gc_max_bytes = pol_max_bytes (pr_policy profile),
         gc_max_affected = pol_max_affected (pr_policy profile),
         gc_expires_at = now + cf_lifetime request, gc_nonce = fresh\<rparr>"
    and issued: "issue ge issuer claims = Inr grant"
    by blast
  from issue_accepted [OF assms(1) issued] have gc: "gr_claims grant = claims"
    and sig: "signature_accepted ge (verifying_key ge issuer) grant" by auto
  have life: "gc_expires_at claims \<le> now + 120 * nanos_per_second"
    using profile(3) by (simp add: claims MAX_GRANT_LIFETIME_def nanos_per_second_def)
  have bind: "claims_bind ge claims (confirmation_context request profile)"
    using h by (simp add: claims_bind_def claims confirmation_context_def)
  have ok: "is_ok (verify ge t (GrantVerifier_new (verifying_key ge issuer)) grant
      (confirmation_context request profile))" if "now \<le> t" "t < gc_expires_at claims" for t
    using that life sig bind
    by (simp add: is_ok_iff verify_iff gc GrantVerifier_new_def)
  have "gc_policy_version claims = pr_policy_version profile" by (simp add: claims)
  then have stale: "\<not> is_ok (verify ge t verifier grant ctx)"
    if "vc_policy_version ctx \<noteq> pr_policy_version profile" for t verifier ctx
    using that by (auto simp: is_ok_iff verify_iff gc claims_bind_def)
  from profile life ok stale show ?thesis unfolding gc by blast
qed

section \<open>Sample values\<close>

definition sample_disabled :: ConnectionProfile where
  "sample_disabled = sample_profile\<lparr>pr_policy := (pr_policy sample_profile)\<lparr>pol_enabled := False\<rparr>,
     pr_policy_version := 2\<rparr>"

definition sample_ruled :: ConnectionProfile where
  "sample_ruled = sample_profile\<lparr>pr_policy := sample_policy\<rparr>"

text \<open>A codec for the three sample profiles.\<close>

definition sample_codec :: profile_env where
  "sample_codec =
     \<lparr>pe_glob_new = (\<lambda>_. Inr ()),
      pe_encode = (\<lambda>p. if p = sample_profile then Inr ''p'' else if p = sample_disabled then Inr ''d''
        else if p = sample_ruled then Inr ''r'' else Inl ''unsupported''),
      pe_decode = (\<lambda>t. if t = ''p'' then Inr sample_profile else if t = ''d'' then Inr sample_disabled
        else if t = ''r'' then Inr sample_ruled else Inl ''unsupported''),
      pe_product = (\<lambda>_. Inr ''postgre_sql'')\<rparr>"

lemma sample_codec_lawful: "profile_codec sample_codec"
  by (auto simp: profile_codec_def sample_codec_def split: if_splits)

definition sample_manager :: "SqliteCredentialStore ConnectionManager" where
  "sample_manager = \<lparr>cm_profiles = empty_profiles, cm_credentials = sample_store\<rparr>"

definition sample_created :: "SqliteCredentialStore ConnectionManager" where
  "sample_created = snd (create (sqlite_ops sample_aead) sample_codec None sample_nonce
     sample_profile sample_secret sample_manager)"

lemma sample_manager_ok:
  "sqlite_wf (cm_credentials sample_manager)"
  "sqlite_get sample_aead k (cm_credentials sample_manager) = Inl Store_NotFound"
  by (simp_all add: sample_manager_def sample_store_def empty_credentials_def sqlite_get_def
      sqlite_wf_def)

lemma sample_failing_create:
  "execute_control (sqlite_ops sample_aead) sample_codec (Some ''disk full'') None sample_nonce
     sample_nonce (Req_Create sample_profile sample_secret) sample_manager =
   (Inl (Control_Store (Store_Database ''disk full'')),
    snd (execute_control (sqlite_ops sample_aead) sample_codec (Some ''disk full'') None sample_nonce
      sample_nonce (Req_Create sample_profile sample_secret) sample_manager))"
  by code_simp


lemma sample_create:
  "create (sqlite_ops sample_aead) sample_codec None sample_nonce sample_profile sample_secret
     sample_manager = (Inr (SanitizedConnection_from sample_profile), sample_created)"
  unfolding sample_created_def by code_simp

theorem created_connection_is_stored_witness:
  "get_profile sample_codec (pr_id sample_profile) (cm_profiles sample_created) = Inr sample_profile"
  using created_connection_is_stored [OF sample_aead_lawful sample_store_ok(1) sample_manager_ok(1)
      sample_codec_lawful sample_create] by blast

definition sample_key_env :: key_env where
  "sample_key_env = \<lparr>ke_encode = (\<lambda>b. b), ke_decode = Inr\<rparr>"

definition sample_key :: string where
  "sample_key = replicate 32 (CHR ''k'')"

text \<open>A codec for the secret that holds the sample key.\<close>

definition sample_key_aead :: aead_env where
  "sample_key_aead = sample_aead
     \<lparr>sj_encode := (\<lambda>s. if s = signing_key_secret sample_key_env sample_key then Inr ''s''
        else Inl ''unsupported''),
      sj_decode := (\<lambda>_. Inr (signing_key_secret sample_key_env sample_key))\<rparr>"

lemma sample_key_facts:
  "aead_lawful sample_key_aead" "\<And>b. ke_decode sample_key_env (ke_encode sample_key_env b) = Inr b"
  "length sample_key = 32" "sqlite_wf sample_store"
  by (simp_all add: aead_lawful_def codec_lawful_def sample_key_aead_def sample_aead_def Let_def
      sample_key_env_def sample_key_def sample_store_ok)

lemma sample_first_load:
  "load_or_create (sqlite_ops sample_key_aead) sample_key_env sample_nonce sample_key ''auth'' sample_store =
     (Inr \<lparr>lk_issuer = GrantIssuer_new sample_key, lk_created = True\<rparr>,
      snd (load_or_create (sqlite_ops sample_key_aead) sample_key_env sample_nonce sample_key ''auth''
        sample_store))"
  by code_simp

theorem authorization_key_stable_witness:
  "fst (load_or_create (sqlite_ops sample_key_aead) sample_key_env sample_nonce sample_key ''auth''
     (snd (load_or_create (sqlite_ops sample_key_aead) sample_key_env sample_nonce sample_key ''auth''
        sample_store)))
   = Inr \<lparr>lk_issuer = GrantIssuer_new sample_key, lk_created = False\<rparr>"
  by (simp add: authorization_key_stable [OF sample_key_facts(1) sample_store_ok(1)
        sample_key_facts(4) sample_key_facts(2,3) sample_first_load])

lemma sample_created_keyed: "profiles_keyed sample_codec (cm_profiles sample_created)"
proof -
  have "upsert sample_codec sample_profile empty_profiles = (Inr (), cm_profiles sample_created)"
    unfolding sample_created_def by code_simp
  then show ?thesis
    by (rule profiles_keyed_upsert [OF sample_codec_lawful, rotated])
      (simp add: profiles_keyed_def get_profile_def empty_profiles_def)
qed

definition sample_disable :: "(ControlError + ControlResponse) \<times> SqliteCredentialStore ConnectionManager"
  where
  "sample_disable = execute_control (sqlite_ops sample_aead) sample_codec None None sample_nonce
     sample_nonce (Req_SetEnabled 7 False) sample_created"

lemma sample_disable_facts:
  "execute_control (sqlite_ops sample_aead) sample_codec None None sample_nonce
     sample_nonce (Req_SetEnabled 7 False) sample_created = (fst sample_disable, snd sample_disable)"
  "get_profile sample_codec 7 (cm_profiles sample_created) = Inr sample_profile"
  "get_profile sample_codec 7 (cm_profiles (snd sample_disable)) = Inr sample_disabled"
  "pr_policy sample_disabled \<noteq> pr_policy sample_profile"
  by (simp add: sample_disable_def) code_simp+

theorem policy_change_moves_version_witness:
  "pr_policy_version sample_disabled = pr_policy_version sample_profile + 1"
  using policy_change_moves_version [OF sample_codec_lawful sample_created_keyed sample_disable_facts]
  by blast

definition sample_confirm_env :: grant_env where
  "sample_confirm_env = sample_grant_env\<lparr>ge_jcs_claims := (\<lambda>_. Inr ''c'')\<rparr>"

lemma sample_confirm_laws: "scheme_laws sample_confirm_env"
  by (simp add: scheme_laws_def sample_confirm_env_def sample_grant_env_def)

definition sample_confirmation :: ConfirmationRequest where
  "sample_confirmation = \<lparr>cf_subject = ''u'', cf_session_id = ''s'', cf_connection_id = 7,
     cf_tool = ''sql_update'', cf_arguments = JNull, cf_operation = sample_update,
     cf_lifetime = 30 * nanos_per_second\<rparr>"

definition sample_ruled_profiles :: ProfileRepository where
  "sample_ruled_profiles = snd (upsert sample_codec sample_ruled empty_profiles)"

definition sample_issued :: AuthorizationGrant where
  "sample_issued = projr (confirmation_issue sample_env sample_codec sample_confirm_env 0 ''n''
     (GrantIssuer_new ''key'') sample_ruled_profiles sample_confirmation)"

lemma sample_confirmation_issue:
  "confirmation_issue sample_env sample_codec sample_confirm_env 0 ''n''
     (GrantIssuer_new ''key'') sample_ruled_profiles sample_confirmation = Inr sample_issued"
  unfolding sample_issued_def by code_simp

theorem issued_confirmation_verifies_witness:
  "\<exists>profile. is_ok (verify sample_confirm_env 0
     (GrantVerifier_new (verifying_key sample_confirm_env (GrantIssuer_new ''key''))) sample_issued
     (confirmation_context sample_confirmation profile))"
proof -
  have "0 < gc_expires_at (gr_claims sample_issued)" by code_simp
  with issued_confirmation_verifies [OF sample_confirm_laws sample_confirmation_issue]
  show ?thesis by blast
qed

end
