(* ===== verification/Runtime_Safety.thy ===== *)
theory Runtime_Safety
  imports Runtime_Execute Control
begin

text \<open>
  What holds of the executions of the runtime, one alone on every path through its program and
  all together in every interleaving: writes under one grant and with one idempotency key
  are sent at most once, every call of a connector is authorised, every request that was
  reserved is released, and what is recorded in the audit log.
\<close>

section \<open>Dispatches\<close>

text \<open>A connector call that was started: its reply is anything but a cancellation before dispatch.\<close>

fun dispatched :: "'c Event \<Rightarrow> int" where
  "dispatched (C_Execute _ _ _ _ _ _, r) = (if as_execute r = Cancelled False then 0 else 1)"
| "dispatched _ = 0"

definition settles :: "'c Call \<Rightarrow> bool" where
  "settles call = (case call of C_FinishIdempotency _ _ _ _ \<Rightarrow> True | C_CancelConnector _ _ \<Rightarrow> True
     | C_RecordAudit _ \<Rightarrow> True | C_ProtectCursor _ _ _ _ _ \<Rightarrow> True | C_Drop _ \<Rightarrow> True | _ \<Rightarrow> False)"

lemmas execute_audits = execution_audit_def record_audit_def

text \<open>After the connector has answered, only settling calls follow.\<close>

lemma execute_outcome_settles: "never (\<lambda>call. \<not> settles call) (execute_outcome rt ex idempotency run)"
  by (auto simp: execute_outcome_def execute_result_def finish_idempotency_def execute_audits Let_def settles_def
      split: ConnectorRun.splits sum.splits option.splits)

lemma monitored_nonneg:
  assumes "\<And>e. w e \<ge> 0" "n \<ge> 0"
  shows "monitored (\<lambda>n e. n + w e) (\<lambda>n. n \<ge> (0 :: int)) (\<lambda>_ _. True) p n"
  using assms(2) by (induction p arbitrary: n) (auto simp: assms(1))

lemma settles_monitored:
  assumes "never (\<lambda>call. \<not> settles call) p" "n \<ge> (0 :: int)"
    and "\<And>call r. settles call \<Longrightarrow> w (call, r) \<ge> 0"
  shows "monitored (\<lambda>n e. n + w e) (\<lambda>n. n \<ge> 0) (\<lambda>_ _. True) p n"
  using assms(1,2) by (induction p arbitrary: n) (auto intro: add_nonneg_nonneg assms(3))

section \<open>One dispatch per grant\<close>

abbreviation grant_monitor where
  "grant_monitor key expires \<equiv> monitored (\<lambda>n e. n + (consumed_nonce key expires e - dispatched e))
     (\<lambda>n. n \<ge> (0 :: int)) (\<lambda>_ _. True)"

lemma settles_grant_weight: "settles call \<Longrightarrow> consumed_nonce key expires (call, r) - dispatched (call, r) \<ge> 0"
  by (cases call) (auto simp: settles_def)

lemma grant_dispatch: "n \<ge> 1 \<Longrightarrow> grant_monitor key expires (execute_dispatch rt ex cx secret operation idem) n"
  by (auto simp: execute_dispatch_def intro!: settles_monitored [OF execute_outcome_settles] settles_grant_weight)

lemma grant_idempotent: "n \<ge> 1 \<Longrightarrow> grant_monitor key expires (execute_idempotent rt ex cx secret operation) n"
  by (auto simp: execute_idempotent_def execute_audits intro!: grant_dispatch split: option.splits sum.splits)

lemma grant_consume:
  "n \<ge> 0 \<Longrightarrow> ex_grant ex = Some vg \<Longrightarrow>
     grant_monitor (vg_replay_key vg) (vg_expires_at_millis vg) (execute_consume rt ex cx secret operation) n"
  by (auto simp: execute_consume_def execute_audits replay_error_def intro!: grant_idempotent
      split: option.splits sum.splits GrantNonceConsumption.splits)

lemma grant_activate:
  "n \<ge> 0 \<Longrightarrow> ex_grant ex = Some vg \<Longrightarrow>
     grant_monitor (vg_replay_key vg) (vg_expires_at_millis vg) (execute_activate rt ex operation) n"
  by (auto simp: execute_activate_def connector_context_with_request_id_def execute_audits intro!: grant_consume
      split: sum.splits)

lemma grant_authorized:
  "n \<ge> 0 \<Longrightarrow> ex_grant ex = Some vg \<Longrightarrow>
     grant_monitor (vg_replay_key vg) (vg_expires_at_millis vg) (execute_authorized rt ex operation) n"
  by (auto simp: execute_authorized_def execute_audits intro!: grant_activate split: sum.splits option.splits)


lemma grant_authorized_key:
  "n \<ge> 0 \<Longrightarrow> vg_replay_key vg = key \<and> vg_expires_at_millis vg = expires \<Longrightarrow>
     grant_monitor key expires (execute_authorized rt (ex\<lparr>ex_grant := Some vg\<rparr>) operation) n"
  using grant_authorized [of n "ex\<lparr>ex_grant := Some vg\<rparr>" vg] by simp

lemma monitored_finally_always:
  assumes "monitored step always (\<lambda>_ _. True) p s"
    and "\<And>s r. always s \<Longrightarrow> always (step s (C_Drop guard, r))"
  shows "monitored step always (\<lambda>_ _. True) (finally_drop guard p) s"
  using assms(1) by (induction p arbitrary: s) (auto intro: assms(2))

text \<open>What the grant of an authorization is recorded under once it has verified.\<close>

definition grant_key :: "('c, 's) Runtime \<Rightarrow> ExecutionAuthorization \<Rightarrow> (string \<times> int) option" where
  "grant_key rt authorization =
     (case (ea_grant authorization, rt_grant_verifier rt) of
        (Some grant, Some verifier) \<Rightarrow>
          (let vg = verified_grant (rt_grant_env rt) (gv_verifying_key verifier) (gr_claims grant) in
           Some (vg_replay_key vg, vg_expires_at_millis vg))
      | _ \<Rightarrow> None)"

lemma grant_confirm:
  assumes "n \<ge> 0" "grant_key rt (ex_authorization ex) \<in> {None, Some (key, expires)}"
  shows "grant_monitor key expires (execute_confirm rt ex operation) n"
proof -
  have "vg_replay_key vg = key \<and> vg_expires_at_millis vg = expires"
    if "ea_grant (ex_authorization ex) = Some grant" "rt_grant_verifier rt = Some verifier"
      "verify (rt_grant_env rt) now verifier grant cx = Inr vg" for grant verifier now cx vg
    using that assms(2) by (auto simp: grant_key_def Let_def verify_iff)
  then show ?thesis using assms(1)
    by (auto simp: execute_confirm_def execute_audits Let_def split: option.splits sum.splits
        intro!: grant_authorized_key)
qed

lemma writes_are_not_allowed:
  "is_write (classify operation) \<Longrightarrow> evaluate_mcp_policy env policy operation tool \<noteq> Inr Allow"
  using evaluate_mcp_Allow [of env policy operation tool] by (auto simp: is_write_def)

lemma grant_decide:
  assumes "n \<ge> 0" "is_write (classify operation)"
    and "grant_key rt (ex_authorization ex) \<in> {None, Some (key, expires)}"
  shows "grant_monitor key expires (execute_decide rt ex operation) n"
  using assms writes_are_not_allowed [OF assms(2)]
  by (auto simp: execute_decide_def execute_audits Let_def intro!: grant_confirm
      split: sum.splits PolicyDecision.splits)

lemma grant_reserved:
  assumes "n \<ge> 0" "is_write (classify operation)" "grant_key rt authorization \<in> {None, Some (key, expires)}"
  shows "grant_monitor key expires (execute_reserved rt cid operation authorization rid guard) n"
  using assms
  by (auto simp: execute_reserved_def load_profile_def invalidate_connection_def execute_audits Let_def
      intro!: grant_decide split: sum.splits option.splits)

lemma grant_execute:
  assumes "n \<ge> 0" "is_write (classify operation)" "grant_key rt authorization \<in> {None, Some (key, expires)}"
  shows "grant_monitor key expires (execute_with_request_id rt uuid cid operation authorization rid) n"
  using assms by (auto simp: execute_with_request_id_def Let_def split: sum.splits
      intro!: monitored_finally_always grant_reserved)


section \<open>All executions together\<close>

record ExecuteArguments =
  xa_uuid :: string
  xa_connection_id :: ConnectionId
  xa_operation :: DataOperation
  xa_authorization :: ExecutionAuthorization
  xa_request_id :: "string option"

definition execution :: "('c, 's) Runtime \<Rightarrow> ExecuteArguments \<Rightarrow> ('c, RuntimeError + OperationResult) Program" where
  "execution rt a = execute_with_request_id rt (xa_uuid a) (xa_connection_id a) (xa_operation a)
     (xa_authorization a) (xa_request_id a)"

definition uses_grant :: "('c, 's) Runtime \<Rightarrow> string \<Rightarrow> int \<Rightarrow> ExecuteArguments \<Rightarrow> bool" where
  "uses_grant rt key expires a \<longleftrightarrow>
     is_write (classify (xa_operation a)) \<and> grant_key rt (xa_authorization a) = Some (key, expires)"

text \<open>The connector calls made for writes under one grant, over all threads.\<close>

definition grant_dispatches ::
  "('c, 's) Runtime \<Rightarrow> string \<Rightarrow> int \<Rightarrow> (ExecuteArguments, 'c, 'r) Thread list \<Rightarrow> int" where
  "grant_dispatches rt key expires ths =
     history_total (\<lambda>a e. if uses_grant rt key expires a then dispatched e else 0) ths"

lemma consumed_nonce_nonneg: "consumed_nonce key expires e \<ge> 0"
  by (cases "(key, expires, e)" rule: consumed_nonce.cases) simp_all

text \<open>
  C1: however executions interleave, in one process or in several that share the audit
  database, and whatever databases and connectors answer, the writes sent to a connector
  under one confirmation grant are at most one. Assumed is that the clock readings at which
  nonces are consumed do not go back.
\<close>

theorem grant_dispatched_at_most_once:
  assumes "system_run rt (execution rt) w0 w ths cs" "audit_wf (w_audit w0)" "sorted (consume_times cs)"
  shows "grant_dispatches rt key expires ths \<le> 1"
proof -
  have "grant_dispatches rt key expires ths \<le> history_total (\<lambda>_. consumed_nonce key expires) ths"
    unfolding grant_dispatches_def
  proof (rule system_total_le [OF assms(1)])
    fix a
    show "monitored (\<lambda>n e. n + (consumed_nonce key expires e -
        (if uses_grant rt key expires a then dispatched e else 0))) (\<lambda>n. n \<ge> 0) (\<lambda>_ _. True) (execution rt a) 0"
    proof (cases "uses_grant rt key expires a")
      case True
      then show ?thesis unfolding execution_def
        by (simp add: uses_grant_def) (rule grant_execute, simp_all)
    next
      case False
      then show ?thesis by (simp add: monitored_nonneg consumed_nonce_nonneg)
    qed
  qed
  also have "\<dots> = int (length (consumptions key expires
      (fst (audit_run (rt_audit_env rt) cs (w_audit w0)))))"
    using system_run_audit [OF assms(1), of key expires] by simp
  also have "\<dots> \<le> 1" using nonce_at_most_once [OF assms(2,3)] by simp
  finally show ?thesis .
qed

section \<open>One effect per idempotency key\<close>

text \<open>
  A connector call for a write with this key, on this connection, that may have taken effect:
  it was dispatched, and did not come back with a definite error.
\<close>

definition may_have_applied :: "(ConnectorError + OperationResult) ConnectorRun \<Rightarrow> bool" where
  "may_have_applied run =
     (case run of
        Completed (Inr _) \<Rightarrow> True
      | Completed (Inl error) \<Rightarrow> ce_category error = Cat_UnknownOutcome
      | TimedOut \<Rightarrow> True
      | Cancelled sent \<Rightarrow> sent)"

fun applied_key :: "string \<Rightarrow> 'c Event \<Rightarrow> int" where
  "applied_key key (C_Execute _ _ _ _ _ operation, r) =
     (if write_idempotency_key operation = Some key \<and> may_have_applied (as_execute r) then 1 else 0)"
| "applied_key key _ = 0"

text \<open>What a call adds to the reservations a thread holds beyond its applied writes.\<close>

fun key_weight :: "ConnectionId \<Rightarrow> string \<Rightarrow> bool \<Rightarrow> 'c Event \<Rightarrow> int" where
  "key_weight cid key counts (C_ReserveIdempotency cid' key' _, r) =
     (if cid' = cid \<and> key' = key \<and> as_reservation r = Inr Reserved then 1 else 0)"
| "key_weight cid key counts (C_FinishIdempotency cid' key' _ finish, r) =
     (if finish = Finish_Release \<and> cid' = cid \<and> key' = key \<and> r = R_Stored (Inr ()) then - 1 else 0)"
| "key_weight cid key counts (C_Execute _ _ _ _ _ operation, r) =
     (if counts \<and> write_idempotency_key operation = Some key \<and> may_have_applied (as_execute r) then - 1 else 0)"
| "key_weight cid key counts _ = 0"

lemma key_weight_eq:
  "key_weight cid key counts e =
     reserved_key cid key e - (released_key cid key e + (if counts then applied_key key e else 0))"
proof (cases e)
  case (Pair call r)
  then show ?thesis
  proof (cases call)
    case (C_FinishIdempotency c k h finish)
    with Pair show ?thesis by (cases finish) auto
  qed auto
qed

abbreviation key_monitor where
  "key_monitor cid key counts \<equiv>
     monitored (\<lambda>n e. n + key_weight cid key counts e) (\<lambda>n. n \<ge> (0 :: int)) (\<lambda>_ _. True)"

lemma write_key_is_write: "write_idempotency_key operation = Some key \<Longrightarrow> is_write (classify operation)"
  by (cases operation) (auto simp: is_write_def)


lemma set_operation_cursor_write [simp]:
  "write_idempotency_key (set_operation_cursor c operation) = write_idempotency_key operation"
  "classify (set_operation_cursor c operation) = classify operation"
  by (cases operation; simp add: set_operation_cursor_def)+

text \<open>After the connector's answer a reservation is released only when nothing was applied.\<close>

lemma key_result: "n \<ge> 0 \<Longrightarrow> key_monitor cid key counts (execute_result rt ex answer) n"
  by (auto simp: execute_result_def execute_audits Let_def split: sum.splits)

lemma key_outcome_none:
  "n \<ge> 0 \<Longrightarrow> key_monitor cid key counts (execute_outcome rt ex None run) n"
  by (auto simp: execute_outcome_def finish_idempotency_def execute_audits Let_def
      intro!: key_result split: ConnectorRun.splits)

lemma key_outcome_some:
  assumes "n \<ge> (if key' = key \<and> ex_connection_id ex = cid \<and> \<not> may_have_applied run then 1 else 0)"
    and "is_write (ex_action ex)"
  shows "key_monitor cid key counts (execute_outcome rt ex (Some (key', hash)) run) n"
  using assms
  by (auto simp: execute_outcome_def finish_idempotency_def finish_of_def may_have_applied_def execute_audits
      Let_def intro!: key_result split: ConnectorRun.splits sum.splits if_splits)

lemma key_dispatch_none:
  "n \<ge> 0 \<Longrightarrow> write_idempotency_key operation = None \<Longrightarrow>
     key_monitor cid key counts (execute_dispatch rt ex cx secret operation None) n"
  by (auto simp: execute_dispatch_def intro!: key_outcome_none)

lemma key_dispatch_some:
  assumes "n \<ge> (if key' = key \<and> ex_connection_id ex = cid then 1 else 0)"
    and "write_idempotency_key operation = Some key'" "is_write (ex_action ex)"
    and "counts \<Longrightarrow> ex_connection_id ex = cid"
  shows "key_monitor cid key counts (execute_dispatch rt ex cx secret operation (Some (key', hash))) n"
  using assms by (auto simp: execute_dispatch_def intro!: key_outcome_some split: if_splits)

lemma key_idempotent:
  assumes "n \<ge> 0" "ex_action ex = classify operation" "counts \<Longrightarrow> ex_connection_id ex = cid"
  shows "key_monitor cid key counts (execute_idempotent rt ex cx secret operation) n"
proof (cases "write_idempotency_key operation")
  case None
  with assms show ?thesis by (simp add: execute_idempotent_def key_dispatch_none)
next
  case (Some key')
  then have "is_write (ex_action ex)" using assms(2) by (simp add: write_key_is_write)
  with Some assms show ?thesis
    by (auto simp: execute_idempotent_def execute_audits split: sum.splits option.splits
        intro!: key_dispatch_some elim!: idempotency_reservation_error.elims)
qed

lemma key_authorized:
  assumes "n \<ge> 0" "ex_action ex = classify operation" "counts \<Longrightarrow> ex_connection_id ex = cid"
  shows "key_monitor cid key counts (execute_authorized rt ex operation) n"
proof -
  have "key_monitor cid key counts (execute_activate rt ex operation) n"
    if "ex_action ex = classify operation" for operation
    using assms(1,3) that
    by (auto simp: execute_activate_def connector_context_with_request_id_def execute_consume_def execute_audits
        intro!: key_idempotent split: sum.splits option.splits)
  with assms show ?thesis
    by (auto simp: execute_authorized_def execute_audits split: sum.splits option.splits)
qed

lemma key_reserved:
  assumes "n \<ge> 0" "counts \<Longrightarrow> cid' = cid"
  shows "key_monitor cid key counts (execute_reserved rt cid' operation authorization rid guard) n"
proof -
  have "key_monitor cid key counts (execute_decide rt ex operation) n"
    if "ex_action ex = classify operation" "ex_connection_id ex = cid'" for ex
    using assms that
    by (auto simp: execute_decide_def execute_confirm_def execute_audits Let_def intro!: key_authorized
        split: sum.splits option.splits PolicyDecision.splits)
  with assms show ?thesis
    by (auto simp: execute_reserved_def load_profile_def invalidate_connection_def execute_audits Let_def
        split: sum.splits option.splits)
qed

lemma key_execute:
  assumes "n \<ge> 0" "counts \<Longrightarrow> cid' = cid"
  shows "key_monitor cid key counts (execute_with_request_id rt uuid cid' operation authorization rid) n"
  using assms by (auto simp: execute_with_request_id_def Let_def split: sum.splits
      intro!: monitored_finally_always key_reserved)

definition applied_writes :: "ConnectionId \<Rightarrow> string \<Rightarrow> (ExecuteArguments, 'c, 'r) Thread list \<Rightarrow> int" where
  "applied_writes cid key ths =
     history_total (\<lambda>a e. if xa_connection_id a = cid then applied_key key e else 0) ths"

text \<open>
  C2: however executions interleave, over all processes that share the audit database, at
  most one write with a given idempotency key on a connection reaches the database in a way
  that may have taken effect; every other one is refused or came back with a definite
  error. When the key was already held at the start there is none.
\<close>

theorem idempotent_write_applied_at_most_once:
  assumes "system_run rt (execution rt) w0 w ths cs"
  shows "applied_writes cid key ths + int (held (w_audit w0) cid key) \<le> 1"
proof -
  let ?log = "fst (audit_run (rt_audit_env rt) cs (w_audit w0))"
  have "history_total (\<lambda>a e. released_key cid key e + (if xa_connection_id a = cid then applied_key key e else 0)) ths
      \<le> history_total (\<lambda>_. reserved_key cid key) ths"
  proof (rule system_total_le [OF assms(1)])
    fix a
    show "monitored (\<lambda>n e. n + (reserved_key cid key e - (released_key cid key e +
        (if xa_connection_id a = cid then applied_key key e else 0)))) (\<lambda>n. n \<ge> 0) (\<lambda>_ _. True) (execution rt a) 0"
      using key_execute [of 0 "xa_connection_id a = cid" "xa_connection_id a" cid key]
      unfolding execution_def by (simp add: key_weight_eq)
  qed
  moreover have "history_total (\<lambda>a e. released_key cid key e + (if xa_connection_id a = cid then applied_key key e else 0)) ths
      = history_total (\<lambda>_. released_key cid key) ths + applied_writes cid key ths"
    unfolding applied_writes_def history_total_def
    by (induction ths) (auto simp: sum_list_addf)
  moreover have "held (w_audit w) cid key + count_released cid key ?log
      = held (w_audit w0) cid key + count_reserved cid key ?log"
    using held_run [of "rt_audit_env rt" cs "w_audit w0" cid key]
    by (simp only: conjunct1 [OF system_run_audit [OF assms(1)]])
  moreover have "held (w_audit w) cid key \<le> 1" by (simp add: held_def)
  moreover have "int (count_reserved cid key ?log) = history_total (\<lambda>_. reserved_key cid key) ths"
    "int (count_released cid key ?log) = history_total (\<lambda>_. released_key cid key) ths"
    using system_run_audit [OF assms(1), where cid = cid and key = key] by blast+
  ultimately show ?thesis by linarith
qed

section \<open>Every dispatch is authorised\<close>

fun is_execute :: "'c Event \<Rightarrow> bool" where
  "is_execute (C_Execute _ _ _ _ _ _, _) = True"
| "is_execute _ = False"

text \<open>
  The policy of the profile that was loaded allows the operation, or asks for confirmation and
  the grant given verified at the time that was read and its nonce was consumed.
\<close>

definition authorised ::
  "('c, 's) Runtime \<Rightarrow> ConnectionId \<Rightarrow> DataOperation \<Rightarrow> ExecutionAuthorization \<Rightarrow> 'c Event set
     \<Rightarrow> ConnectionProfile \<Rightarrow> bool" where
  "authorised rt cid operation authorization seen profile \<longleftrightarrow>
     evaluate_mcp_policy (rt_policy_env rt) (pr_policy profile) operation (ea_tool authorization) = Inr Allow \<or>
     evaluate_mcp_policy (rt_policy_env rt) (pr_policy profile) operation (ea_tool authorization) = Inr Confirm \<and>
     (\<exists>grant verifier r vg. ea_grant authorization = Some grant \<and> rt_grant_verifier rt = Some verifier \<and>
        (C_Now, r) \<in> seen \<and>
        verify (rt_grant_env rt) (as_now r) verifier grant (verification_context cid profile authorization) = Inr vg \<and>
        (C_ConsumeNonce (vg_replay_key vg) (vg_expires_at_millis vg), R_Nonce (Inr Consumed)) \<in> seen)"

definition dispatch_ok ::
  "('c, 's) Runtime \<Rightarrow> ConnectionId \<Rightarrow> DataOperation \<Rightarrow> ExecutionAuthorization \<Rightarrow> 'c Event set \<Rightarrow> 'c Event \<Rightarrow> bool"
  where
  "dispatch_ok rt cid operation authorization seen e \<longleftrightarrow>
     (case fst e of
        C_Execute connector guard cx profile' secret operation' \<Rightarrow>
          (\<exists>profile. (C_GetProfile cid, R_Profile (Inr profile)) \<in> seen \<and>
             resolve (pr_product profile) (pr_api_mode profile) (rt_registry rt) = Inr connector \<and>
             profile' = connector_profile (ea_tool authorization) profile \<and>
             (C_GetSecret (pr_secret_ref profile), R_Secret (Inr secret)) \<in> seen \<and>
             classify operation' = classify operation \<and>
             authorised rt cid operation authorization seen profile)
      | _ \<Rightarrow> True)"

definition dispatches_ok ::
  "('c, 's) Runtime \<Rightarrow> ConnectionId \<Rightarrow> DataOperation \<Rightarrow> ExecutionAuthorization \<Rightarrow> 'c Event set \<Rightarrow> bool" where
  "dispatches_ok rt cid operation authorization seen \<longleftrightarrow>
     (\<forall>e \<in> seen. dispatch_ok rt cid operation authorization seen e)"

lemma authorised_mono:
  "authorised rt cid operation authorization seen profile \<Longrightarrow> seen \<subseteq> seen' \<Longrightarrow>
     authorised rt cid operation authorization seen' profile"
  unfolding authorised_def by blast

lemma dispatch_ok_mono:
  "dispatch_ok rt cid operation authorization seen e \<Longrightarrow> seen \<subseteq> seen' \<Longrightarrow>
     dispatch_ok rt cid operation authorization seen' e"
  by (auto simp: dispatch_ok_def split: Call.splits) (blast intro: authorised_mono)

lemma dispatch_ok_other: "\<not> is_execute e \<Longrightarrow> dispatch_ok rt cid operation authorization seen e"
  by (cases e) (auto simp: dispatch_ok_def split: Call.splits)

lemma dispatches_ok_insert:
  assumes "dispatches_ok rt cid operation authorization seen" "\<not> is_execute e"
  shows "dispatches_ok rt cid operation authorization (insert e seen)"
  using assms dispatch_ok_mono [OF _ subset_insertI] dispatch_ok_other unfolding dispatches_ok_def by blast

lemma settles_not_execute: "settles call \<Longrightarrow> \<not> is_execute (call, r)"
  by (cases call) (simp_all add: settles_def)

abbreviation dispatch_monitor where
  "dispatch_monitor rt cid operation authorization \<equiv>
     monitored (\<lambda>seen e. insert e seen) (dispatches_ok rt cid operation authorization) (\<lambda>_ _. True)"

lemma dispatch_stage:
  assumes "dispatches_ok rt cid operation authorization seen"
    and "(C_GetProfile cid, R_Profile (Inr (ex_profile ex))) \<in> seen"
    and "(C_GetSecret (pr_secret_ref (ex_profile ex)), R_Secret (Inr secret)) \<in> seen"
    and "resolve (pr_product (ex_profile ex)) (pr_api_mode (ex_profile ex)) (rt_registry rt) = Inr (ex_connector ex)"
    and "ex_authorization ex = authorization" "classify operation' = classify operation"
    and "authorised rt cid operation authorization seen (ex_profile ex)"
  shows "dispatch_monitor rt cid operation authorization (execute_dispatch rt ex cx secret operation' idem) seen"
proof -
  have after: "dispatches_ok rt cid operation authorization (insert (C_Execute (ex_connector ex) (ex_guard ex) cx
      (connector_profile (ea_tool authorization) (ex_profile ex)) secret operation', r) seen)" for r
  proof -
    let ?e = "(C_Execute (ex_connector ex) (ex_guard ex) cx
      (connector_profile (ea_tool authorization) (ex_profile ex)) secret operation', r)"
    have "dispatch_ok rt cid operation authorization (insert ?e seen) ?e"
      using assms authorised_mono [OF assms(7) subset_insertI] by (auto simp: dispatch_ok_def)
    then show ?thesis using assms(1) dispatch_ok_mono [OF _ subset_insertI] unfolding dispatches_ok_def by blast
  qed
  have "dispatch_monitor rt cid operation authorization (execute_outcome rt ex idem run) s"
    if "dispatches_ok rt cid operation authorization s" for run s
    by (rule never_monitored [where always = "dispatches_ok rt cid operation authorization",
          OF execute_outcome_settles that])
      (rule dispatches_ok_insert, assumption, simp add: settles_not_execute)
  with after assms(1) show ?thesis by (simp add: execute_dispatch_def assms(5))
qed


lemma dispatch_idempotent:
  assumes "dispatches_ok rt cid operation authorization seen"
    and "(C_GetProfile cid, R_Profile (Inr (ex_profile ex))) \<in> seen"
    and "(C_GetSecret (pr_secret_ref (ex_profile ex)), R_Secret (Inr secret)) \<in> seen"
    and "resolve (pr_product (ex_profile ex)) (pr_api_mode (ex_profile ex)) (rt_registry rt) = Inr (ex_connector ex)"
    and "ex_authorization ex = authorization" "classify operation' = classify operation"
    and "authorised rt cid operation authorization seen (ex_profile ex)"
  shows "dispatch_monitor rt cid operation authorization (execute_idempotent rt ex cx secret operation') seen"
proof -
  have more: "dispatches_ok rt cid operation authorization (insert e seen)" if "\<not> is_execute e" for e
    by (rule dispatches_ok_insert [OF assms(1) that])
  have "dispatch_monitor rt cid operation authorization (execute_dispatch rt ex cx secret operation' idem) (insert e seen)"
    if "\<not> is_execute e" for idem e
    by (rule dispatch_stage [OF more [OF that]])
      (use assms authorised_mono [OF assms(7) subset_insertI] in simp_all)
  moreover have "dispatches_ok rt cid operation authorization (insert e (insert e' seen))"
    if "\<not> is_execute e" "\<not> is_execute e'" for e e'
    by (rule dispatches_ok_insert [OF more [OF that(2)] that(1)])
  ultimately show ?thesis using dispatch_stage [OF assms] assms(1) more
    by (simp add: execute_idempotent_def execute_audits split: option.splits sum.splits)
qed


text \<open>What an execution knows after loading its profile, and after the decision.\<close>

definition loaded where
  "loaded rt cid operation authorization ex seen \<longleftrightarrow>
     dispatches_ok rt cid operation authorization seen \<and>
     (C_GetProfile cid, R_Profile (Inr (ex_profile ex))) \<in> seen \<and>
     resolve (pr_product (ex_profile ex)) (pr_api_mode (ex_profile ex)) (rt_registry rt) = Inr (ex_connector ex) \<and>
     ex_authorization ex = authorization \<and> ex_connection_id ex = cid"

definition decided where
  "decided rt cid operation authorization ex seen \<longleftrightarrow>
     (let decision = evaluate_mcp_policy (rt_policy_env rt) (pr_policy (ex_profile ex)) operation (ea_tool authorization) in
      decision = Inr Allow \<and> ex_grant ex = None \<or>
      decision = Inr Confirm \<and>
        (\<exists>grant verifier r vg. ea_grant authorization = Some grant \<and> rt_grant_verifier rt = Some verifier \<and>
           (C_Now, r) \<in> seen \<and> ex_grant ex = Some vg \<and>
           verify (rt_grant_env rt) (as_now r) verifier grant
             (verification_context cid (ex_profile ex) authorization) = Inr vg))"

lemma loaded_insert:
  "loaded rt cid operation authorization ex seen \<Longrightarrow> \<not> is_execute e \<Longrightarrow>
     loaded rt cid operation authorization ex (insert e seen)"
  unfolding loaded_def using dispatches_ok_insert by blast

lemma decided_insert:
  "decided rt cid operation authorization ex seen \<Longrightarrow> decided rt cid operation authorization ex (insert e seen)"
  unfolding decided_def Let_def by blast

lemma loaded_ok: "loaded rt cid operation authorization ex seen \<Longrightarrow> dispatches_ok rt cid operation authorization seen"
  by (simp add: loaded_def)

lemmas dispatch_intros = loaded_insert decided_insert

lemma dispatch_idempotent_loaded:
  assumes "loaded rt cid operation authorization ex seen" "classify operation' = classify operation"
    and "(C_GetSecret (pr_secret_ref (ex_profile ex)), R_Secret (Inr secret)) \<in> seen"
    and "authorised rt cid operation authorization seen (ex_profile ex)"
  shows "dispatch_monitor rt cid operation authorization (execute_idempotent rt ex cx secret operation') seen"
  using assms dispatch_idempotent unfolding loaded_def by blast

lemma dispatch_consume:
  assumes "loaded rt cid operation authorization ex seen" "decided rt cid operation authorization ex seen"
    and "classify operation' = classify operation"
    and "(C_GetSecret (pr_secret_ref (ex_profile ex)), R_Secret (Inr secret)) \<in> seen"
  shows "dispatch_monitor rt cid operation authorization (execute_consume rt ex cx secret operation') seen"
proof (cases "ex_grant ex")
  case None
  then have "authorised rt cid operation authorization seen (ex_profile ex)"
    using assms(2) by (auto simp: decided_def authorised_def Let_def)
  with None assms show ?thesis
    by (simp add: execute_consume_def dispatch_idempotent_loaded)
next
  case (Some vg)
  let ?call = "C_ConsumeNonce (vg_replay_key vg) (vg_expires_at_millis vg)"
  have consumed: "as_nonce r = Inr Consumed \<Longrightarrow> r = R_Nonce (Inr Consumed)" for r
    by (auto simp: as_nonce_def split: Reply.splits)
  have "authorised rt cid operation authorization (insert (?call, R_Nonce (Inr Consumed)) seen) (ex_profile ex)"
    using assms(2) Some by (auto simp: decided_def authorised_def Let_def)
  then have "dispatch_monitor rt cid operation authorization (execute_idempotent rt ex cx secret operation')
      (insert (?call, R_Nonce (Inr Consumed)) seen)"
    using assms by (intro dispatch_idempotent_loaded loaded_insert) simp_all
  then show ?thesis using Some loaded_ok [OF assms(1)]
    by (auto simp: execute_consume_def execute_audits replay_error_def dest!: consumed
        intro!: dispatches_ok_insert split: sum.splits GrantNonceConsumption.splits)
qed


lemma dispatch_activate:
  assumes "loaded rt cid operation authorization ex seen" "decided rt cid operation authorization ex seen"
    and "classify operation' = classify operation"
  shows "dispatch_monitor rt cid operation authorization (execute_activate rt ex operation') seen"
proof -
  have secret: "as_secret r = Inr secret \<Longrightarrow> r = R_Secret (Inr secret)" for r secret
    by (auto simp: as_secret_def split: Reply.splits)
  show ?thesis using assms
    by (auto simp: execute_activate_def connector_context_with_request_id_def execute_audits
        dest!: secret
        intro!: dispatch_consume dispatch_intros loaded_ok split: sum.splits)
qed

lemma dispatch_authorized:
  assumes "loaded rt cid operation authorization ex seen" "decided rt cid operation authorization ex seen"
  shows "dispatch_monitor rt cid operation authorization (execute_authorized rt ex operation) seen"
  using assms
  by (auto simp: execute_authorized_def execute_audits
      intro!: dispatch_activate dispatch_intros loaded_ok split: sum.splits option.splits)


lemma dispatch_decide:
  assumes "loaded rt cid operation authorization ex seen" "ex_grant ex = None"
  shows "dispatch_monitor rt cid operation authorization (execute_decide rt ex operation) seen"
proof -
  have upd: "loaded rt cid operation authorization (ex\<lparr>ex_decision := d\<rparr>) s = loaded rt cid operation authorization ex s"
    "loaded rt cid operation authorization (ex\<lparr>ex_decision := d, ex_grant := g\<rparr>) s
       = loaded rt cid operation authorization ex s" for d g s
    by (simp_all add: loaded_def)
  note ok = loaded_ok [OF assms(1)]
  have auth: "ex_authorization ex = authorization" "ex_connection_id ex = cid" using assms(1) by (simp_all add: loaded_def)
  show ?thesis
  proof (cases "evaluate_mcp_policy (rt_policy_env rt) (pr_policy (ex_profile ex)) operation (ea_tool authorization)")
    case (Inl error)
    with ok show ?thesis by (auto simp: execute_decide_def execute_audits auth intro!: dispatches_ok_insert)
  next
    case (Inr decision)
    show ?thesis
    proof (cases decision)
      case Allow
      with Inr assms have "decided rt cid operation authorization (ex\<lparr>ex_decision := Allow\<rparr>) seen"
        by (simp add: decided_def)
      with Inr Allow assms show ?thesis by (simp add: execute_decide_def auth dispatch_authorized upd)
    next
      case Confirm
      have "dispatch_monitor rt cid operation authorization
          (execute_authorized rt (ex\<lparr>ex_decision := Confirm, ex_grant := Some vg\<rparr>) operation) (insert (C_Now, r) seen)"
        if "ea_grant authorization = Some grant" "rt_grant_verifier rt = Some verifier"
          "verify (rt_grant_env rt) (as_now r) verifier grant
             (verification_context cid (ex_profile ex) authorization) = Inr vg" for grant verifier r vg
        using assms(1) that Inr Confirm
        by (intro dispatch_authorized) (auto simp: upd decided_def intro!: loaded_insert)
      with Inr Confirm ok assms(1) show ?thesis
        by (auto simp: execute_decide_def execute_confirm_def execute_audits auth Let_def
            intro!: dispatches_ok_insert split: option.splits sum.splits)
    next
      case Deny
      with Inr ok show ?thesis
        by (auto simp: execute_decide_def execute_audits auth Let_def intro!: dispatches_ok_insert)
    qed
  qed
qed

lemma dispatch_reserved:
  assumes "dispatches_ok rt cid operation authorization seen"
  shows "dispatch_monitor rt cid operation authorization
    (execute_reserved rt cid operation authorization rid guard) seen"
proof -
  have profile: "as_profile r = Inr profile \<Longrightarrow> r = R_Profile (Inr profile)" for r profile
    by (auto simp: as_profile_def split: Reply.splits)
  show ?thesis using assms
    by (auto simp: execute_reserved_def load_profile_def invalidate_connection_def execute_audits Let_def
        dest!: profile intro!: dispatch_decide dispatches_ok_insert simp: loaded_def split: sum.splits option.splits)
qed

lemma dispatch_execute:
  "dispatch_monitor rt cid operation authorization
     (execute_with_request_id rt uuid cid operation authorization rid) {}"
  by (auto simp: execute_with_request_id_def Let_def dispatches_ok_def [of _ _ _ _ "{}"] split: sum.splits
      intro!: monitored_finally_always dispatch_reserved dispatches_ok_insert)

lemma foldl_insert: "foldl (\<lambda>seen e. insert e seen) S es = S \<union> set es"
  by (induction es arbitrary: S) auto


section \<open>Every reserved request is released\<close>

definition touches_guard :: "'c Call \<Rightarrow> bool" where
  "touches_guard call = (case call of C_Reserve _ _ _ \<Rightarrow> True | C_Drop _ \<Rightarrow> True | _ \<Rightarrow> False)"

text \<open>The guards a history holds.\<close>

fun guard_step :: "RequestGuard list \<Rightarrow> 'c Event \<Rightarrow> RequestGuard list" where
  "guard_step gs (C_Reserve _ _ _, r) = (case as_guard r of Inr guard \<Rightarrow> guard # gs | Inl _ \<Rightarrow> gs)"
| "guard_step gs (C_Drop guard, r) = remove1 guard gs"
| "guard_step gs _ = gs"

definition guards_held :: "'c Event list \<Rightarrow> RequestGuard list" where
  "guards_held es = foldl guard_step [] es"

abbreviation guard_monitor where
  "guard_monitor \<equiv> monitored guard_step (\<lambda>gs. length gs < 2) (\<lambda>gs _. gs = [])"

lemma guard_step_other: "\<not> touches_guard call \<Longrightarrow> guard_step gs (call, r) = gs"
  by (cases call) (simp_all add: touches_guard_def)

lemma guard_finally:
  "never touches_guard p \<Longrightarrow> guard_monitor (finally_drop guard p) [guard]"
  by (induction p) (simp_all add: guard_step_other)

lemma execute_reserved_no_guard: "never touches_guard (execute_reserved rt cid operation authorization rid guard)"
proof -
  note stages = execute_decide_def execute_confirm_def execute_authorized_def execute_activate_def
    execute_consume_def execute_idempotent_def execute_dispatch_def connector_context_with_request_id_def
  have outcome: "never touches_guard (execute_outcome rt ex idem run)" for ex idem run
    by (auto simp: execute_outcome_def execute_result_def finish_idempotency_def execute_audits Let_def
        touches_guard_def split: ConnectorRun.splits sum.splits option.splits)
  have idempotent: "never touches_guard (execute_idempotent rt ex cx secret operation)" for ex cx secret operation
    by (auto simp: execute_idempotent_def execute_dispatch_def execute_audits touches_guard_def outcome
        split: sum.splits option.splits)
  have activate: "never touches_guard (execute_activate rt ex operation)" for ex operation
    by (auto simp: execute_activate_def execute_consume_def connector_context_with_request_id_def execute_audits
        touches_guard_def idempotent split: sum.splits option.splits)
  have "never touches_guard (execute_decide rt ex operation)" for ex operation
    by (auto simp: execute_decide_def execute_confirm_def execute_authorized_def execute_audits touches_guard_def
        activate Let_def split: sum.splits option.splits PolicyDecision.splits)
  then show ?thesis
    by (auto simp: execute_reserved_def load_profile_def invalidate_connection_def execute_audits touches_guard_def
        Let_def split: sum.splits option.splits)
qed

lemma execute_guards: "guard_monitor (execute_with_request_id rt uuid cid operation authorization rid) []"
  by (auto simp: execute_with_request_id_def Let_def split: sum.splits
      intro!: guard_finally execute_reserved_no_guard)

lemma metadata_guards:
  assumes "\<And>m. never touches_guard (body m)"
  shows "guard_monitor (metadata_request rt uuid cid subject sid tool target rid body) []"
  using assms
  by (auto simp: metadata_request_def load_profile_def invalidate_connection_def
      connector_context_with_request_id_def touches_guard_def Let_def split: sum.splits intro!: guard_finally)

lemma metadata_stages_no_guard:
  "never touches_guard rest \<Longrightarrow> never touches_guard (metadata_tool rt capability m rest)"
  "(\<And>secret. never touches_guard (k secret)) \<Longrightarrow> never touches_guard (metadata_activate m k)"
  "never touches_guard (metadata_outcome m run check returned)"
  "never touches_guard (metadata_disabled m)"
  by (auto simp: metadata_tool_def metadata_activate_def metadata_outcome_def metadata_disabled_def
      metadata_audit_def record_audit_def touches_guard_def split: option.splits sum.splits ConnectorRun.splits)

lemma metadata_requests_guards:
  "guard_monitor (test_connection_with_request_id rt uuid cid subject sid rid) []"
  "guard_monitor (search_catalog_with_request_id rt uuid cid subject sid request rid) []"
  "guard_monitor (describe_entity_with_request_id rt uuid cid subject sid entity rid) []"
  by (auto simp: test_connection_with_request_id_def search_catalog_with_request_id_def
      describe_entity_with_request_id_def touches_guard_def metadata_audit_def record_audit_def
      intro!: metadata_guards metadata_stages_no_guard)

definition released :: "('c, 'r) Program \<Rightarrow> bool" where
  "released p \<longleftrightarrow> (\<forall>es q. path p es q \<longrightarrow> length (guards_held es) < 2 \<and>
     ((q = Panic \<or> (\<exists>r. q = Return r)) \<longrightarrow> guards_held es = []))"

lemma guard_monitor_released: "guard_monitor p [] \<Longrightarrow> released p"
  unfolding released_def guards_held_def
  using monitored_path [of p _ _ guard_step] path_always [of p _ _ guard_step] by fastforce


section \<open>The audit log\<close>

fun audit_step ::
  "AuditEvent list \<times> (ConnectorError + OperationResult) ConnectorRun list \<Rightarrow> 'c Event
     \<Rightarrow> AuditEvent list \<times> (ConnectorError + OperationResult) ConnectorRun list" where
  "audit_step (events, answers) (C_RecordAudit event, _) = (events @ [event], answers)"
| "audit_step (events, answers) (C_Execute _ _ _ _ _ _, r) = (events, answers @ [as_execute r])"
| "audit_step (events, answers) _ = (events, answers)"

text \<open>The events recorded and the connector's answers on a history.\<close>

definition audit_view :: "'c Event list \<Rightarrow> AuditEvent list \<times> (ConnectorError + OperationResult) ConnectorRun list" where
  "audit_view es = foldl audit_step ([], []) es"

definition describes :: "ConnectionId \<Rightarrow> ExecutionAuthorization \<Rightarrow> AuditEvent \<Rightarrow> bool" where
  "describes cid authorization event \<longleftrightarrow>
     ev_subject event = ea_subject authorization \<and> ev_session_id event = ea_session_id authorization \<and>
     ev_connection_id event = Some cid \<and> ev_tool event = ea_tool authorization"

definition audit_finish ::
  "ConnectionId \<Rightarrow> ExecutionAuthorization
     \<Rightarrow> AuditEvent list \<times> (ConnectorError + OperationResult) ConnectorRun list
     \<Rightarrow> RuntimeError + OperationResult \<Rightarrow> bool" where
  "audit_finish cid authorization view r =
     (case view of
        ([], answers) \<Rightarrow> \<not> is_ok r \<and> (answers = [] \<or> (\<exists>result. answers = [Completed (Inr result)]))
      | ([event], _) \<Rightarrow> describes cid authorization event \<and> (ev_error_category event = None \<longleftrightarrow> is_ok r) \<and>
          (case r of Inr result \<Rightarrow> ev_returned event = rm_returned (or_metrics result) \<and>
             ev_affected event = rm_affected (or_metrics result) | Inl _ \<Rightarrow> True)
      | _ \<Rightarrow> False)"

definition audit_ends where
  "audit_ends cid authorization view r = (case r of None \<Rightarrow> True | Some r \<Rightarrow> audit_finish cid authorization view r)"

lemma audit_ends_simps [simp]:
  "audit_ends cid authorization view None" "audit_ends cid authorization view (Some r) = audit_finish cid authorization view r"
  by (simp_all add: audit_ends_def)

abbreviation audit_monitor where
  "audit_monitor cid authorization \<equiv> monitored audit_step (\<lambda>_. True) (audit_ends cid authorization)"

definition about_execution :: "ConnectionId \<Rightarrow> ExecutionAuthorization \<Rightarrow> 'c Execution \<Rightarrow> bool" where
  "about_execution cid authorization ex \<longleftrightarrow> ex_connection_id ex = cid \<and> ex_authorization ex = authorization"

lemma audit_last:
  "about_execution cid authorization ex \<Longrightarrow> (category = None \<longleftrightarrow> is_ok r) \<Longrightarrow>
     (case r of Inr result \<Rightarrow> returned = rm_returned (or_metrics result) \<and> affected = rm_affected (or_metrics result)
      | Inl _ \<Rightarrow> True) \<Longrightarrow>
     audit_monitor cid authorization (execution_audit ex c returned affected category (Return r)) ([], answers)"
  by (simp add: execute_audits audit_finish_def describes_def about_execution_def split: sum.splits)

lemma audit_result:
  "about_execution cid authorization ex \<Longrightarrow>
     audit_monitor cid authorization (execute_result rt ex answer) ([], [Completed answer])"
  by (auto simp: execute_result_def Let_def audit_finish_def intro!: audit_last split: sum.splits)

lemma audit_outcome:
  "about_execution cid authorization ex \<Longrightarrow>
     audit_monitor cid authorization (execute_outcome rt ex idem run) ([], [run])"
  by (auto simp: execute_outcome_def finish_idempotency_def Let_def intro!: audit_result audit_last
      split: ConnectorRun.splits option.splits)

lemma audit_idempotent:
  "about_execution cid authorization ex \<Longrightarrow>
     audit_monitor cid authorization (execute_idempotent rt ex cx secret operation) ([], [])"
  by (auto simp: execute_idempotent_def execute_dispatch_def audit_finish_def intro!: audit_outcome audit_last
      split: sum.splits option.splits)

lemma audit_authorized:
  assumes "about_execution cid authorization ex"
  shows "audit_monitor cid authorization (execute_authorized rt ex operation) ([], [])"
proof -
  have "audit_monitor cid authorization (execute_activate rt ex operation) ([], [])" for operation
    using assms
    by (auto simp: execute_activate_def connector_context_with_request_id_def execute_consume_def audit_finish_def
        intro!: audit_idempotent audit_last split: sum.splits option.splits)
  then show ?thesis using assms
    by (auto simp: execute_authorized_def intro!: audit_last split: sum.splits option.splits)
qed

lemma audit_reserved:
  "audit_monitor cid authorization (execute_reserved rt cid operation authorization rid guard) ([], [])"
proof -
  have upd: "about_execution cid authorization (ex\<lparr>ex_decision := d\<rparr>) = about_execution cid authorization ex"
    "about_execution cid authorization (ex\<lparr>ex_decision := d, ex_grant := g\<rparr>) = about_execution cid authorization ex"
    for ex :: "'a Execution" and d g
    by (simp_all add: about_execution_def)
  have "audit_monitor cid authorization (execute_decide rt ex operation) ([], [])"
    if "about_execution cid authorization ex" for ex
    using that
    by (auto simp: execute_decide_def execute_confirm_def Let_def upd intro!: audit_authorized audit_last
        split: sum.splits option.splits PolicyDecision.splits)
  then show ?thesis
    by (auto simp: execute_reserved_def load_profile_def invalidate_connection_def Let_def audit_finish_def
        about_execution_def intro!: audit_last split: sum.splits option.splits)
qed

lemma audit_finally:
  "audit_monitor cid authorization p view \<Longrightarrow> audit_monitor cid authorization (finally_drop guard p) view"
proof (induction p arbitrary: view)
  case (Return r)
  then show ?case by (cases view) simp
qed auto

lemma audit_execute:
  "audit_monitor cid authorization (execute_with_request_id rt uuid cid operation authorization rid) ([], [])"
  by (auto simp: execute_with_request_id_def Let_def audit_finish_def intro!: audit_finally audit_reserved
      split: sum.splits)


section \<open>A sample execution\<close>

text \<open>
  The confirmed update of the control plane's example: the grant issued there, a runtime with
  one PostgreSQL connector, and a connector that does not answer in time.
\<close>

lemma run_program_system:
  "run_program rt (\<lambda>_. x) p n w = (Some r, es, w') \<Longrightarrow>
     system_run rt program w0 w (ths @ [(a, es0, p)]) cs \<Longrightarrow>
     system_run rt program w0 w' (ths @ [(a, es0 @ es, Return r)])
       (cs @ concat (map (made_audit_calls x \<circ> fst) es))"
proof (induction p arbitrary: n w es es0 cs)
  case (Do call k)
  obtain reply w1 where step: "perform rt x call w = (reply, w1)" by fastforce
  obtain es1 where rest: "run_program rt (\<lambda>_. x) (k reply) (Suc n) w1 = (Some r, es1, w')"
    and es: "es = (call, reply) # es1"
    using Do.prems(1) step by (auto split: prod.splits)
  have "system_run rt program w0 w1 (ths @ [(a, es0 @ [(call, reply)], k reply)]) (cs @ made_audit_calls x call)"
    using sys_call [OF Do.prems(2), of "length ths" a es0 call k x reply w1] step by simp
  from Do.IH [OF _ rest this] show ?case by (simp add: es)
qed auto

definition sample_runtime :: "(nat, unit) Runtime" where
  "sample_runtime =
     \<lparr>rt_registry = snd (register (\<lambda>_. pg_manifest) 0 ConnectorRegistry_new), rt_manifest = (\<lambda>_. pg_manifest),
      rt_grant_verifier = Some (GrantVerifier_new ''key''), rt_secret = (\<lambda>_ _. Inr pg_secret),
      rt_policy_env = sample_env, rt_grant_env = sample_confirm_env, rt_audit_env = sample_audit_env,
      rt_profile_env = sample_codec, rt_sizes = sample_sizes, rt_operation_json = (\<lambda>_. Inr JNull)\<rparr>"

definition sample_world :: "(nat, unit) World" where
  "sample_world = \<lparr>w_requests = Requests_new, w_cursors = [], w_profiles = sample_ruled_profiles,
     w_credentials = (), w_audit = empty_repository\<rparr>"

definition sample_surroundings :: Surroundings where
  "sample_surroundings = \<lparr>in_now = 0, in_instant = 0, in_elapsed_ms = 1, in_uuids = (\<lambda>_. []), in_fault = None,
     in_execute = TimedOut, in_test = TimedOut, in_describe = TimedOut, in_pages = TimedOut\<rparr>"

definition sample_authorization :: ExecutionAuthorization where
  "sample_authorization = \<lparr>ea_subject = ''u'', ea_session_id = ''s'', ea_tool = ''sql_update'',
     ea_arguments = JNull, ea_grant = Some sample_issued\<rparr>"

definition sample_arguments :: ExecuteArguments where
  "sample_arguments = \<lparr>xa_uuid = ''id'', xa_connection_id = 7, xa_operation = sample_update,
     xa_authorization = sample_authorization, xa_request_id = None\<rparr>"

definition sample_outcome :: "(RuntimeError + OperationResult) option \<times> nat Event list \<times> (nat, unit) World" where
  "sample_outcome =
     run_program sample_runtime (\<lambda>_. sample_surroundings) (execution sample_runtime sample_arguments) 0 sample_world"

definition sample_events :: "nat Event list" where
  "sample_events = fst (snd sample_outcome)"

definition sample_answer :: "RuntimeError + OperationResult" where
  "sample_answer = the (fst sample_outcome)"

definition sample_threads :: "(ExecuteArguments, nat, RuntimeError + OperationResult) Thread list" where
  "sample_threads = [(sample_arguments, sample_events, Return sample_answer)]"

definition sample_audit_calls :: "AuditCall list" where
  "sample_audit_calls = concat (map (made_audit_calls sample_surroundings \<circ> fst) sample_events)"

lemma sample_returns:
  "run_program sample_runtime (\<lambda>_. sample_surroundings) (execution sample_runtime sample_arguments) 0 sample_world
     = (Some sample_answer, sample_events, snd (snd sample_outcome))"
proof -
  have "fst sample_outcome \<noteq> None" by code_simp
  then show ?thesis
    by (cases "fst sample_outcome") (simp_all add: sample_answer_def sample_events_def sample_outcome_def prod_eq_iff)
qed

lemma sample_system_run:
  "system_run sample_runtime (execution sample_runtime) sample_world (snd (snd sample_outcome)) sample_threads
     sample_audit_calls"
proof -
  have "system_run sample_runtime (execution sample_runtime) sample_world sample_world
      ([] @ [(sample_arguments, [], execution sample_runtime sample_arguments)]) []"
    by (rule sys_start [OF sys_init])
  from run_program_system [OF sample_returns this] show ?thesis
    by (simp add: sample_threads_def sample_audit_calls_def)
qed

lemma sample_path: "path (execution sample_runtime sample_arguments) sample_events (Return sample_answer)"
  by (rule run_program_path [OF sample_returns])

lemma sample_consumes_sorted: "sorted (consume_times sample_audit_calls)"
  unfolding sample_audit_calls_def sample_events_def sample_outcome_def by code_simp

lemma sample_audit_wf: "audit_wf (w_audit sample_world)"
  by (simp add: sample_world_def)

lemma sample_applied: "applied_writes 7 ''k1'' sample_threads = 1"
  unfolding sample_threads_def sample_events_def sample_outcome_def by code_simp

lemma sample_executes: "filter is_execute sample_events \<noteq> []"
  unfolding sample_events_def sample_outcome_def by code_simp

lemma sample_records: "length (fst (audit_view sample_events)) = 1"
  unfolding sample_events_def sample_outcome_def by code_simp

lemma sample_grants:
  "grant_dispatches sample_runtime (grant_replay_key sample_confirm_env ''key'' ''n'') 30000 sample_threads = 1"
  unfolding sample_threads_def sample_events_def sample_outcome_def by code_simp

theorem grant_dispatched_at_most_once_witness:
  "grant_dispatches sample_runtime (grant_replay_key sample_confirm_env ''key'' ''n'') 30000 sample_threads = 1 \<and>
   grant_dispatches sample_runtime (grant_replay_key sample_confirm_env ''key'' ''n'') 30000 sample_threads \<le> 1"
  using sample_grants grant_dispatched_at_most_once [OF sample_system_run sample_audit_wf sample_consumes_sorted] by blast

theorem idempotent_write_applied_at_most_once_witness:
  "applied_writes 7 ''k1'' sample_threads = 1 \<and>
   applied_writes 7 ''k1'' sample_threads + int (held (w_audit sample_world) 7 ''k1'') \<le> 1"
  using sample_applied idempotent_write_applied_at_most_once [OF sample_system_run] by blast



end
