(* ===== verification/Ipc.thy ===== *)
theory Ipc
  imports Capability Programs
begin

text \<open>
  The worker protocol (\<open>connector-ipc\<close>): length-prefixed frames (\<open>frame.rs\<close>), envelopes and
  messages (\<open>message.rs\<close>), and the client side of one worker process with its map of pending
  calls (\<open>client.rs\<close>). Protobuf and CBOR encodings come from \<open>prost\<close> and \<open>ciborium\<close> and are
  components of the \<open>ipc_env\<close> record; \<open>ipc_laws\<close> states that decoding undoes encoding.
\<close>

section \<open>Errors\<close>

datatype IpcError =
    Ipc_Io string
  | Ipc_Protobuf string
  | Ipc_Serialization string
  | Ipc_Protocol string
  | Ipc_WorkerExited
  | Ipc_WorkerUnavailable string

fun ipc_error_text :: "IpcError \<Rightarrow> string" where
  "ipc_error_text (Ipc_Io e) = ''I/O error: '' @ e"
| "ipc_error_text (Ipc_Protobuf e) = ''protobuf error: '' @ e"
| "ipc_error_text (Ipc_Serialization e) = ''serialization error: '' @ e"
| "ipc_error_text (Ipc_Protocol e) = ''worker protocol error: '' @ e"
| "ipc_error_text Ipc_WorkerExited = ''worker process ended unexpectedly''"
| "ipc_error_text (Ipc_WorkerUnavailable e) = ''worker unavailable: '' @ e"

section \<open>Messages\<close>

definition PROTOCOL_VERSION :: u32 where
  "PROTOCOL_VERSION = 4"

definition MAX_FRAME_BYTES :: u32 where
  "MAX_FRAME_BYTES = 64 * 1024 * 1024"

record Envelope =
  en_protocol_version :: u32
  en_request_id :: string
  en_kind :: u32
  en_payload :: string

datatype MessageKind = Kind_Unspecified | Kind_Request | Kind_Response | Kind_Error

fun kind_number :: "MessageKind \<Rightarrow> u32" where
  "kind_number Kind_Unspecified = 0"
| "kind_number Kind_Request = 1"
| "kind_number Kind_Response = 2"
| "kind_number Kind_Error = 3"

text \<open>\<open>MessageKind::try_from(kind).unwrap_or(Unspecified)\<close>.\<close>

definition message_kind :: "u32 \<Rightarrow> MessageKind" where
  "message_kind k =
     (if k = 1 then Kind_Request else if k = 2 then Kind_Response else if k = 3 then Kind_Error
      else Kind_Unspecified)"

record PackManifest =
  pm_pack_id :: string
  pm_pack_version :: string
  pm_protocol_version :: u32
  pm_connectors :: "ConnectorManifest list"

record WireContext =
  wx_request_id :: string
  wx_session_id :: string
  wx_deadline_unix_ms :: "64 word"
  wx_max_rows :: u32
  wx_max_bytes :: u64

text \<open>
  The deadline on the wire: what is left of it on the monotonic clock, added to the wall
  clock, in whole milliseconds and at most \<open>i64::MAX\<close>.
\<close>

definition from_context :: "Instant \<Rightarrow> DateTime \<Rightarrow> ConnectorContext \<Rightarrow> WireContext" where
  "from_context instant now cx =
     (let remaining = max 0 (cx_deadline cx - instant);
          deadline = max 0 (now + remaining) div 1000000;
          deadline_unix_ms = (if deadline < 2 ^ 63 then word_of_int deadline else 2 ^ 63 - 1) in
      \<lparr>wx_request_id = cx_request_id cx, wx_session_id = cx_session_id cx,
       wx_deadline_unix_ms = deadline_unix_ms, wx_max_rows = cx_max_rows cx,
       wx_max_bytes = cx_max_bytes cx\<rparr>)"

datatype ConnectorCall =
    Call_GetPackManifest
  | Call_TestConnection WireContext ConnectionProfile SecretMaterial
  | Call_SearchCatalog WireContext ConnectionProfile SecretMaterial CatalogQuery
  | Call_DescribeEntity WireContext ConnectionProfile SecretMaterial string
  | Call_Execute WireContext ConnectionProfile SecretMaterial DataOperation
  | Call_Cancel string
  | Call_InvalidateConnection ConnectionId
  | Call_Shutdown

datatype ConnectorReply =
    Reply_PackManifest PackManifest
  | Reply_ConnectionInfo ConnectionInfo
  | Reply_Catalog CatalogPage
  | Reply_Entity EntityDescription
  | Reply_Operation OperationResult
  | Reply_Acknowledged
  | Reply_Error ConnectorError

record ipc_env =
  ie_encode :: "Envelope \<Rightarrow> string"
  ie_decode :: "string \<Rightarrow> string + Envelope"
  ie_call_cbor :: "ConnectorCall \<Rightarrow> string + string"
  ie_cbor_call :: "string \<Rightarrow> string + ConnectorCall"
  ie_reply_cbor :: "ConnectorReply \<Rightarrow> string + string"
  ie_cbor_reply :: "string \<Rightarrow> string + ConnectorReply"
  ie_early_eof :: string

definition ipc_laws :: "ipc_env \<Rightarrow> bool" where
  "ipc_laws env \<longleftrightarrow> (\<forall>e. ie_decode env (ie_encode env e) = Inr e) \<and>
     (\<forall>c bytes. ie_call_cbor env c = Inr bytes \<longrightarrow> ie_cbor_call env bytes = Inr c) \<and>
     (\<forall>r bytes. ie_reply_cbor env r = Inr bytes \<longrightarrow> ie_cbor_reply env bytes = Inr r)"

definition envelope_of ::
  "MessageKind \<Rightarrow> ('a \<Rightarrow> string + string) \<Rightarrow> string \<Rightarrow> 'a \<Rightarrow> IpcError + Envelope" where
  "envelope_of kind cbor request_id payload =
     bind_res (map_err Ipc_Serialization (cbor payload)) (\<lambda>encoded.
       Inr \<lparr>en_protocol_version = PROTOCOL_VERSION, en_request_id = request_id,
            en_kind = kind_number kind, en_payload = encoded\<rparr>)"

definition Envelope_request :: "ipc_env \<Rightarrow> string \<Rightarrow> ConnectorCall \<Rightarrow> IpcError + Envelope" where
  "Envelope_request env = envelope_of Kind_Request (ie_call_cbor env)"

definition Envelope_response :: "ipc_env \<Rightarrow> string \<Rightarrow> ConnectorReply \<Rightarrow> IpcError + Envelope" where
  "Envelope_response env = envelope_of Kind_Response (ie_reply_cbor env)"

definition decode_payload :: "(string \<Rightarrow> string + 'a) \<Rightarrow> Envelope \<Rightarrow> IpcError + 'a" where
  "decode_payload from_cbor e =
     (if en_protocol_version e \<noteq> PROTOCOL_VERSION then
        Inl (Ipc_Protocol (''unsupported protocol version '' @ show_word (en_protocol_version e) @
          '', expected '' @ show_word PROTOCOL_VERSION))
      else map_err Ipc_Serialization (from_cbor (en_payload e)))"

section \<open>Frames\<close>

definition u32_be :: "u32 \<Rightarrow> string" where
  "u32_be w = map (\<lambda>i. char_of (unat (drop_bit (8 * i) w))) [3, 2, 1, 0 :: nat]"

definition be_u32 :: "string \<Rightarrow> u32" where
  "be_u32 bytes = foldl (\<lambda>acc c. acc * 256 + word_of_nat (of_char c)) 0 bytes"

text \<open>
  A frame written to a byte stream. \<open>fault = Some (e, n)\<close>: the stream fails with error
  \<open>e\<close> after \<open>n\<close> bytes of the frame.
\<close>

definition write_envelope ::
  "ipc_env \<Rightarrow> (string \<times> nat) option \<Rightarrow> Envelope \<Rightarrow> string \<Rightarrow> (IpcError + unit) \<times> string" where
  "write_envelope env fault envelope out =
     (let encoded = ie_encode env envelope in
      if \<not> length encoded < 2 ^ 32 then (Inl (Ipc_Protocol ''worker frame exceeds u32 length''), out)
      else if word_of_nat (length encoded) > MAX_FRAME_BYTES then
        (Inl (Ipc_Protocol (''worker frame exceeds '' @ show_word MAX_FRAME_BYTES @ '' byte limit'')), out)
      else
        let frame = u32_be (word_of_nat (length encoded)) @ encoded in
        (case fault of
           Some (e, n) \<Rightarrow> (Inl (Ipc_Io e), out @ take n frame)
         | None \<Rightarrow> (Inr (), out @ frame)))"

text \<open>
  A frame read from the bytes a stream gives before it ends. \<open>broken = Some e\<close>: it ends with
  the I/O error \<open>e\<close> and not with an end of file.
\<close>

definition read_envelope ::
  "ipc_env \<Rightarrow> string option \<Rightarrow> string \<Rightarrow> (IpcError + Envelope option) \<times> string" where
  "read_envelope env broken input =
     (if length input < 4 then
        (case broken of Some e \<Rightarrow> (Inl (Ipc_Io e), []) | None \<Rightarrow> (Inr None, []))
      else
        let n = be_u32 (take 4 input); rest = drop 4 input in
        if n > MAX_FRAME_BYTES then
          (Inl (Ipc_Protocol (''worker frame length '' @ show_word n @ '' exceeds '' @
             show_word MAX_FRAME_BYTES @ '' byte limit'')), rest)
        else if length rest < unat n then
          (Inl (Ipc_Io (case broken of Some e \<Rightarrow> e | None \<Rightarrow> ie_early_eof env)), [])
        else
          (case ie_decode env (take (unat n) rest) of
             Inl e \<Rightarrow> (Inl (Ipc_Protobuf e), drop (unat n) rest)
           | Inr envelope \<Rightarrow> (Inr (Some envelope), drop (unat n) rest)))"

text \<open>The loop of a reader: envelopes until the stream ends, and the error it ends with.\<close>

lemma read_envelope_shorter:
  "read_envelope env broken input = (Inr (Some e), rest) \<Longrightarrow> length rest < length input"
  by (auto simp: read_envelope_def Let_def split: if_splits option.splits sum.splits)

function read_envelopes :: "ipc_env \<Rightarrow> string option \<Rightarrow> string \<Rightarrow> Envelope list \<times> IpcError option" where
  "read_envelopes env broken input =
     (case read_envelope env broken input of
        (Inl e, _) \<Rightarrow> ([], Some e)
      | (Inr None, _) \<Rightarrow> ([], None)
      | (Inr (Some envelope), rest) \<Rightarrow>
          (case read_envelopes env broken rest of (es, r) \<Rightarrow> (envelope # es, r)))"
  by pat_completeness auto
termination by (relation "measure (\<lambda>(_, _, input). length input)") (auto dest: read_envelope_shorter [OF sym])

declare read_envelopes.simps [simp del]

fun write_envelopes :: "ipc_env \<Rightarrow> Envelope list \<Rightarrow> string \<Rightarrow> (IpcError + unit) \<times> string" where
  "write_envelopes env [] out = (Inr (), out)"
| "write_envelopes env (e # es) out =
     (case write_envelope env None e out of
        (Inl x, out) \<Rightarrow> (Inl x, out)
      | (Inr _, out) \<Rightarrow> write_envelopes env es out)"

lemma u32_be_length [simp]: "length (u32_be w) = 4"
  by (simp add: u32_be_def)

lemma base_256_digits:
  assumes "n < (4294967296 :: nat)"
  shows "((n div 16777216 mod 256 * 256 + n div 65536 mod 256) * 256 + n div 256 mod 256) * 256 + n mod 256 = n"
proof -
  have "n div 16777216 < 256" using assms by (simp add: less_mult_imp_div_less)
  then have "n div 16777216 mod 256 * 256 + n div 65536 mod 256 = n div 65536"
    using div_mult_mod_eq [of "n div 65536" 256] by (simp add: div_mult2_eq [symmetric])
  moreover have "n div 65536 * 256 + n div 256 mod 256 = n div 256"
    using div_mult_mod_eq [of "n div 256" 256] by (simp add: div_mult2_eq [symmetric])
  ultimately show ?thesis by simp
qed

lemma of_char_char_of: "(of_char (char_of n :: char) :: nat) = n mod 256"
  by (simp add: of_char_of)

lemma be_u32_be [simp]: "be_u32 (u32_be w) = w"
proof -
  let ?n = "unat w"
  have digits: "unat (drop_bit (8 * i) w) = ?n div 2 ^ (8 * i)" for i
    by (subst unat_drop_bit_eq) (simp add: drop_bit_eq_div)
  have "be_u32 (u32_be w) = word_of_nat
      (((?n div 16777216 mod 256 * 256 + ?n div 65536 mod 256) * 256 + ?n div 256 mod 256) * 256 + ?n mod 256)"
    by (simp add: be_u32_def u32_be_def digits of_char_char_of)
  also have "\<dots> = word_of_nat ?n"
    by (subst base_256_digits) (use unsigned_less [of w] in simp_all)
  finally show ?thesis by simp
qed


lemma frame_limit: "n < 4294967296 \<Longrightarrow> MAX_FRAME_BYTES < word_of_nat n \<longleftrightarrow> 67108864 < n"
  by (simp add: MAX_FRAME_BYTES_def word_less_nat_alt unat_of_nat)

lemma write_envelope_Inr:
  "write_envelope env None e out = (Inr u, out') \<longleftrightarrow>
     length (ie_encode env e) \<le> 67108864 \<and>
     out' = out @ u32_be (word_of_nat (length (ie_encode env e))) @ ie_encode env e"
  by (cases "length (ie_encode env e) < 4294967296") (auto simp: write_envelope_def Let_def frame_limit)

lemma read_written:
  assumes "ipc_laws env" "write_envelope env None e [] = (Inr (), frame)"
  shows "read_envelope env broken (frame @ rest) = (Inr (Some e), rest)"
proof -
  let ?bytes = "ie_encode env e"
  have frame: "frame = u32_be (word_of_nat (length ?bytes)) @ ?bytes" "length ?bytes \<le> 67108864"
    using assms(2) by (simp_all add: write_envelope_Inr)
  then have n: "unat (word_of_nat (length ?bytes) :: u32) = length ?bytes" by (simp add: unat_of_nat)
  have "\<not> MAX_FRAME_BYTES < word_of_nat (length ?bytes)" using frame(2) by (simp add: frame_limit)
  then show ?thesis using assms(1) n by (simp add: read_envelope_def frame(1) Let_def ipc_laws_def)
qed

lemma write_envelope_append:
  "write_envelope env None e out = (Inr (), out') \<longleftrightarrow>
     (\<exists>frame. write_envelope env None e [] = (Inr (), frame) \<and> out' = out @ frame)"
  by (auto simp: write_envelope_Inr)

lemma write_envelopes_read:
  "ipc_laws env \<Longrightarrow> write_envelopes env es out = (Inr (), out') \<Longrightarrow>
     \<exists>frames. out' = out @ frames \<and> read_envelopes env None frames = (es, None)"
proof (induction es arbitrary: out)
  case Nil
  then show ?case by (subst read_envelopes.simps) (simp add: read_envelope_def)
next
  case (Cons e es)
  from Cons.prems(2) obtain out1 where out1: "write_envelope env None e out = (Inr (), out1)"
    "write_envelopes env es out1 = (Inr (), out')" by (auto split: prod.splits sum.splits)
  from Cons.IH [OF Cons.prems(1) out1(2)] obtain frames where frames:
    "out' = out1 @ frames" "read_envelopes env None frames = (es, None)" by blast
  obtain frame where frame: "write_envelope env None e [] = (Inr (), frame)" "out1 = out @ frame"
    using out1(1) write_envelope_append by blast
  have "read_envelopes env None (frame @ frames) = (e # es, None)"
    by (subst read_envelopes.simps) (simp add: read_written [OF Cons.prems(1) frame(1)] frames(2))
  then show ?case using frames(1) frame(2) by auto
qed


text \<open>A frame that is cut short is not read: the stream seems to end, or breaks.\<close>

lemma read_cut:
  assumes "write_envelope env None e [] = (Inr (), frame)" "n < length frame"
  shows "\<exists>r. read_envelope env None (take n frame) = (r, []) \<and> (\<forall>x. r \<noteq> Inr (Some x))"
proof -
  let ?bytes = "ie_encode env e"
  have frame: "frame = u32_be (word_of_nat (length ?bytes)) @ ?bytes" "length ?bytes \<le> 67108864"
    using assms(1) by (simp_all add: write_envelope_Inr)
  then have size: "unat (word_of_nat (length ?bytes) :: u32) = length ?bytes" by (simp add: unat_of_nat)
  show ?thesis
  proof (cases "n < 4")
    case True
    then show ?thesis using assms(2) by (simp add: read_envelope_def)
  next
    case False
    then have "take 4 (take n frame) = u32_be (word_of_nat (length ?bytes))" by (simp add: frame(1))
    moreover have "\<not> MAX_FRAME_BYTES < word_of_nat (length ?bytes)" using frame(2) by (simp add: frame_limit)
    moreover have "n - 4 < length ?bytes" using assms(2) False by (simp add: frame(1))
    ultimately show ?thesis using False size by (simp add: read_envelope_def frame(1) Let_def)
  qed
qed

lemma write_envelopes_cut:
  "ipc_laws env \<Longrightarrow> write_envelopes env es out = (Inr (), out @ frames) \<Longrightarrow>
     \<exists>k. fst (read_envelopes env None (take n frames)) = take k es"
proof (induction es arbitrary: out frames n)
  case Nil
  then show ?case by (subst read_envelopes.simps) (simp add: read_envelope_def)
next
  case (Cons e es)
  from Cons.prems(2) obtain out1 where out1: "write_envelope env None e out = (Inr (), out1)"
    "write_envelopes env es out1 = (Inr (), out @ frames)" by (auto split: prod.splits sum.splits)
  obtain frame where frame: "write_envelope env None e [] = (Inr (), frame)" "out1 = out @ frame"
    using out1(1) write_envelope_append by blast
  obtain rest where rest: "frames = frame @ rest"
    using write_envelopes_read [OF Cons.prems(1) out1(2)] by (auto simp: frame(2))
  show ?case
  proof (cases "n < length frame")
    case True
    then obtain r where "read_envelope env None (take n frames) = (r, [])" "\<And>x. r \<noteq> Inr (Some x)"
      using read_cut [OF frame(1) True] by (auto simp: rest)
    then have "fst (read_envelopes env None (take n frames)) = take 0 (e # es)"
      by (subst read_envelopes.simps) (auto split: sum.splits option.splits)
    then show ?thesis by blast
  next
    case False
    obtain k where k: "fst (read_envelopes env None (take (n - length frame) rest)) = take k es"
      using Cons.IH [OF Cons.prems(1), of out1 rest] out1(2) by (auto simp: frame(2) rest)
    have "fst (read_envelopes env None (take n frames)) = take (Suc k) (e # es)"
      using False by (subst read_envelopes.simps)
        (simp add: rest read_written [OF Cons.prems(1) frame(1)] k split_beta)
    then show ?thesis by blast
  qed
qed

text \<open>
  C26: the frames of one direction of the worker protocol. What was written as a sequence of envelopes is read
  as the same sequence followed by the end of the stream; a stream cut at any byte gives
  a prefix of the sequence and never an envelope that was not sent; and an envelope is
  refused by the writer exactly when its encoding has more than 64 MiB.
\<close>

theorem frames_roundtrip:
  assumes "ipc_laws env" "write_envelopes env es [] = (Inr (), bytes)"
  shows "read_envelopes env None bytes = (es, None) \<and>
    (\<exists>k. fst (read_envelopes env None (take n bytes)) = take k es) \<and>
    (isl (fst (write_envelope env None e bytes)) \<longleftrightarrow> length (ie_encode env e) > 64 * 1024 * 1024)"
proof -
  have "fst (write_envelope env None e bytes) = Inr () \<longleftrightarrow> length (ie_encode env e) \<le> 67108864"
    using write_envelope_Inr [of env e bytes] by (metis fst_conv prod.collapse)
  then have "isl (fst (write_envelope env None e bytes)) \<longleftrightarrow> length (ie_encode env e) > 64 * 1024 * 1024"
    by (cases "fst (write_envelope env None e bytes)") auto
  then show ?thesis
    using write_envelopes_read [OF assms] write_envelopes_cut [OF assms(1), of es "[]" bytes n] assms(2) by simp
qed

section \<open>The pending calls of a client\<close>

text \<open>The one-shot channel of a call: empty, with its reply, or with its sender gone.\<close>

datatype Slot = Slot_Waiting | Slot_Sent "IpcError + ConnectorReply" | Slot_Closed

record Client =
  cl_pending :: "(string, nat) hashmap"
  cl_slots :: "Slot list"

definition Client_new :: Client where
  "Client_new = \<lparr>cl_pending = [], cl_slots = []\<rparr>"

definition pending_insert :: "string \<Rightarrow> Client \<Rightarrow> (IpcError + nat) \<times> Client" where
  "pending_insert request_id c =
     (if request_id = [] then (Inl (Ipc_Protocol ''worker request id must not be empty''), c)
      else if hm_get (cl_pending c) request_id \<noteq> None then
        (Inl (Ipc_Protocol (''worker request id '' @ request_id @ '' is already active'')), c)
      else (Inr (length (cl_slots c)),
        \<lparr>cl_pending = hm_insert request_id (length (cl_slots c)) (cl_pending c),
         cl_slots = cl_slots c @ [Slot_Waiting]\<rparr>))"

definition put_slot :: "nat \<Rightarrow> Slot \<Rightarrow> Client \<Rightarrow> Client" where
  "put_slot k slot c =
     (if cl_slots c ! k = Slot_Waiting then c\<lparr>cl_slots := (cl_slots c)[k := slot]\<rparr> else c)"

text \<open>The drop of an armed \<open>PendingRequestGuard\<close>: the sender under its id is dropped.\<close>

definition pending_drop :: "string \<Rightarrow> Client \<Rightarrow> Client" where
  "pending_drop request_id c =
     (case hm_get (cl_pending c) request_id of
        None \<Rightarrow> c
      | Some k \<Rightarrow> put_slot k Slot_Closed (c\<lparr>cl_pending := hm_remove request_id (cl_pending c)\<rparr>))"

fun kind_debug :: "MessageKind \<Rightarrow> string" where
  "kind_debug Kind_Unspecified = ''Unspecified''"
| "kind_debug Kind_Request = ''Request''"
| "kind_debug Kind_Response = ''Response''"
| "kind_debug Kind_Error = ''Error''"

definition response_result :: "ipc_env \<Rightarrow> Envelope \<Rightarrow> IpcError + ConnectorReply" where
  "response_result env response =
     (let kind = message_kind (en_kind response) in
      if kind \<in> {Kind_Response, Kind_Error} then decode_payload (ie_cbor_reply env) response
      else Inl (Ipc_Protocol (''unexpected worker response kind '' @ kind_debug kind)))"

text \<open>One turn of the loop in \<open>read_responses\<close>.\<close>

definition read_response :: "ipc_env \<Rightarrow> Envelope \<Rightarrow> Client \<Rightarrow> Client" where
  "read_response env response c =
     (case hm_get (cl_pending c) (en_request_id response) of
        None \<Rightarrow> c
      | Some k \<Rightarrow> put_slot k (Slot_Sent (response_result env response))
          (c\<lparr>cl_pending := hm_remove (en_request_id response) (cl_pending c)\<rparr>))"

definition fail_pending :: "string \<Rightarrow> Client \<Rightarrow> Client" where
  "fail_pending reason c =
     foldr (\<lambda>(_, k). put_slot k (Slot_Sent (Inl (Ipc_WorkerUnavailable reason))))
       (cl_pending c) (c\<lparr>cl_pending := []\<rparr>)"

text \<open>What \<open>read_responses\<close> does when the stream ends.\<close>

definition end_of_responses :: "IpcError option \<Rightarrow> Client \<Rightarrow> Client" where
  "end_of_responses stream_error c =
     fail_pending (case stream_error of
         Some e \<Rightarrow> ''worker response stream failed: '' @ ipc_error_text e
       | None \<Rightarrow> ''worker process ended unexpectedly'') c"

definition read_responses :: "ipc_env \<Rightarrow> string option \<Rightarrow> string \<Rightarrow> Client \<Rightarrow> Client" where
  "read_responses env broken input c =
     (case read_envelopes env broken input of
        (responses, stream_error) \<Rightarrow>
          end_of_responses stream_error (fold (read_response env) responses c))"

text \<open>\<open>receiver.await\<close>: the value is there, or the call still waits (\<open>None\<close>).\<close>

definition receive :: "nat \<Rightarrow> Client \<Rightarrow> (IpcError + ConnectorReply) option" where
  "receive k c =
     (case cl_slots c ! k of
        Slot_Waiting \<Rightarrow> None
      | Slot_Sent r \<Rightarrow> Some r
      | Slot_Closed \<Rightarrow> Some (Inl Ipc_WorkerExited))"

text \<open>
  The calls on one client. A call is registered, then its frame is written, then it waits;
  it may be abandoned at any point (a timeout or a cancellation drops the future, and with
  it the guard). \<open>cm_log\<close> records the responses read so far, each with the number of calls
  registered before it.
\<close>

datatype CallPhase = Cp_Registered | Cp_Waiting | Cp_Returned "IpcError + ConnectorReply" | Cp_Abandoned

record ClientCall =
  cc_request_id :: string
  cc_slot :: nat
  cc_phase :: CallPhase

record ClientMachine =
  cm_client :: Client
  cm_calls :: "ClientCall list"
  cm_reading :: bool
  cm_log :: "(nat \<times> Envelope) list"

definition call_phase :: "nat \<Rightarrow> CallPhase \<Rightarrow> ClientMachine \<Rightarrow> ClientMachine" where
  "call_phase i phase m = m\<lparr>cm_calls := (cm_calls m)[i := (cm_calls m ! i)\<lparr>cc_phase := phase\<rparr>]\<rparr>"

definition live :: "ClientCall \<Rightarrow> bool" where
  "live call \<longleftrightarrow> cc_phase call \<in> {Cp_Registered, Cp_Waiting}"

inductive client_step :: "ipc_env \<Rightarrow> ClientMachine \<Rightarrow> ClientMachine \<Rightarrow> bool" for env where
  call_start: "pending_insert rid (cm_client m) = (Inr k, c) \<Longrightarrow>
     client_step env m (m\<lparr>cm_client := c,
       cm_calls := cm_calls m @ [\<lparr>cc_request_id = rid, cc_slot = k, cc_phase = Cp_Registered\<rparr>]\<rparr>)"
| call_sent: "i < length (cm_calls m) \<Longrightarrow> cc_phase (cm_calls m ! i) = Cp_Registered \<Longrightarrow>
     client_step env m (call_phase i Cp_Waiting m)"
| call_failed: "i < length (cm_calls m) \<Longrightarrow> cc_phase (cm_calls m ! i) = Cp_Registered \<Longrightarrow>
     client_step env m (call_phase i (Cp_Returned (Inl e))
       (m\<lparr>cm_client := pending_drop (cc_request_id (cm_calls m ! i)) (cm_client m)\<rparr>))"
| call_received: "i < length (cm_calls m) \<Longrightarrow> cc_phase (cm_calls m ! i) = Cp_Waiting \<Longrightarrow>
     receive (cc_slot (cm_calls m ! i)) (cm_client m) = Some r \<Longrightarrow>
     client_step env m (call_phase i (Cp_Returned r) m)"
| call_abandoned: "i < length (cm_calls m) \<Longrightarrow> live (cm_calls m ! i) \<Longrightarrow>
     client_step env m (call_phase i Cp_Abandoned
       (m\<lparr>cm_client := pending_drop (cc_request_id (cm_calls m ! i)) (cm_client m)\<rparr>))"
| response_read: "cm_reading m \<Longrightarrow>
     client_step env m (m\<lparr>cm_client := read_response env response (cm_client m),
       cm_log := (length (cl_slots (cm_client m)), response) # cm_log m\<rparr>)"
| response_end: "cm_reading m \<Longrightarrow>
     client_step env m (m\<lparr>cm_client := end_of_responses stream_error (cm_client m), cm_reading := False\<rparr>)"

definition ClientMachine_new :: ClientMachine where
  "ClientMachine_new = \<lparr>cm_client = Client_new, cm_calls = [], cm_reading = True, cm_log = []\<rparr>"

definition client_reachable :: "ipc_env \<Rightarrow> ClientMachine \<Rightarrow> bool" where
  "client_reachable env m \<longleftrightarrow> (client_step env)\<^sup>*\<^sup>* ClientMachine_new m"

text \<open>The reply in a slot came in a response with the id of the call, after it was registered.\<close>

definition own_reply :: "ipc_env \<Rightarrow> (nat \<times> Envelope) list \<Rightarrow> ClientCall \<Rightarrow> IpcError + ConnectorReply \<Rightarrow> bool" where
  "own_reply env log call r \<longleftrightarrow>
     (\<forall>reply. r = Inr reply \<longrightarrow> (\<exists>(n, response) \<in> set log. cc_slot call < n \<and>
        en_request_id response = cc_request_id call \<and> response_result env response = Inr reply))"

definition call_ok :: "ipc_env \<Rightarrow> ClientMachine \<Rightarrow> ClientCall \<Rightarrow> bool" where
  "call_ok env m call \<longleftrightarrow>
     cc_slot call < length (cl_slots (cm_client m)) \<and>
     (\<forall>rid. hm_get (cl_pending (cm_client m)) rid = Some (cc_slot call) \<longrightarrow> rid = cc_request_id call) \<and>
     (live call \<and> cl_slots (cm_client m) ! cc_slot call = Slot_Waiting \<longrightarrow>
        hm_get (cl_pending (cm_client m)) (cc_request_id call) = Some (cc_slot call)) \<and>
     (\<forall>r. cl_slots (cm_client m) ! cc_slot call = Slot_Sent r \<longrightarrow> own_reply env (cm_log m) call r) \<and>
     (\<forall>r. cc_phase call = Cp_Returned r \<longrightarrow> own_reply env (cm_log m) call r)"

definition pending_ok :: "Client \<Rightarrow> bool" where
  "pending_ok c \<longleftrightarrow> hm_wf (cl_pending c) \<and>
     (\<forall>rid k. hm_get (cl_pending c) rid = Some k \<longrightarrow> k < length (cl_slots c) \<and>
        cl_slots c ! k = Slot_Waiting \<and> (\<forall>rid'. hm_get (cl_pending c) rid' = Some k \<longrightarrow> rid' = rid))"

definition client_inv :: "ipc_env \<Rightarrow> ClientMachine \<Rightarrow> bool" where
  "client_inv env m \<longleftrightarrow> pending_ok (cm_client m) \<and> list_all (call_ok env m) (cm_calls m)"

lemma put_slot_simps [simp]:
  "cl_pending (put_slot k v c) = cl_pending c"
  "length (cl_slots (put_slot k v c)) = length (cl_slots c)"
  by (simp_all add: put_slot_def)

lemma put_slot_nth:
  "k < length (cl_slots c) \<Longrightarrow> cl_slots (put_slot k v c) ! j =
     (if j = k \<and> cl_slots c ! k = Slot_Waiting then v else cl_slots c ! j)"
  by (simp add: put_slot_def)

lemma own_reply_mono: "own_reply env log call r \<Longrightarrow> set log \<subseteq> set log' \<Longrightarrow> own_reply env log' call r"
  unfolding own_reply_def by blast

lemma own_reply_phase [simp]: "own_reply env log (call\<lparr>cc_phase := phase\<rparr>) r = own_reply env log call r"
  by (simp add: own_reply_def)

lemma own_reply_error [simp]: "own_reply env log call (Inl e)"
  by (simp add: own_reply_def)

lemma call_ok_waiting:
  "call_ok env m call \<Longrightarrow> live call \<Longrightarrow> cl_slots (cm_client m) ! cc_slot call = Slot_Waiting \<Longrightarrow>
     hm_get (cl_pending (cm_client m)) (cc_request_id call) = Some (cc_slot call)"
  unfolding call_ok_def by blast

text \<open>Taking an entry out of the map and settling its slot, by a response or by a drop.\<close>

definition settle :: "string \<Rightarrow> nat \<Rightarrow> Slot \<Rightarrow> Client \<Rightarrow> Client" where
  "settle rid k v c = put_slot k v (c\<lparr>cl_pending := hm_remove rid (cl_pending c)\<rparr>)"

lemma settle_simps:
  assumes "pending_ok c" "hm_get (cl_pending c) rid = Some k"
  shows "hm_get (cl_pending (settle rid k v c)) rid' = (if rid' = rid then None else hm_get (cl_pending c) rid')"
    "length (cl_slots (settle rid k v c)) = length (cl_slots c)"
    "cl_slots (settle rid k v c) ! j = (if j = k then v else cl_slots c ! j)"
    "hm_wf (cl_pending (settle rid k v c))"
  using assms by (auto simp: settle_def put_slot_nth hm_get_remove pending_ok_def hm_wf_remove)

lemma settle_pending_ok:
  assumes "pending_ok c" "hm_get (cl_pending c) rid = Some k"
  shows "pending_ok (settle rid k v c)"
proof -
  have "hm_get (cl_pending c) rid' \<noteq> Some k" if "rid' \<noteq> rid" for rid'
    using assms that by (auto simp: pending_ok_def)
  then show ?thesis
    using assms by (auto simp: pending_ok_def [of "settle rid k v c"] settle_simps [OF assms] pending_ok_def
        split: if_splits)
qed

lemma settle_call_ok:
  assumes "pending_ok (cm_client m)" "hm_get (cl_pending (cm_client m)) rid = Some k" "call_ok env m call"
    and "v \<noteq> Slot_Waiting" "set (cm_log m) \<subseteq> set log"
    and "\<And>r. v = Slot_Sent r \<Longrightarrow> cc_slot call = k \<Longrightarrow> own_reply env log call r"
  shows "call_ok env (m\<lparr>cm_client := settle rid k v (cm_client m), cm_log := log\<rparr>) call"
proof (cases "cc_slot call = k")
  case True
  then have "rid' = rid" if "hm_get (cl_pending (cm_client m)) rid' = Some (cc_slot call)" for rid'
    using assms(1,2) that by (auto simp: pending_ok_def)
  moreover have "cc_slot call < length (cl_slots (cm_client m))" "cc_phase call = Cp_Returned r \<Longrightarrow> own_reply env log call r" for r
    using assms(3) own_reply_mono [OF _ assms(5)] by (auto simp: call_ok_def)
  ultimately show ?thesis
    using True assms(4,6) by (auto simp: call_ok_def settle_simps [OF assms(1,2)])
next
  case False
  then have "live call \<Longrightarrow> cl_slots (cm_client m) ! cc_slot call = Slot_Waiting \<Longrightarrow> cc_request_id call \<noteq> rid"
    using call_ok_waiting [OF assms(3)] assms(2) by auto
  moreover have "own_reply env log call r"
    if "cl_slots (cm_client m) ! cc_slot call = Slot_Sent r \<or> cc_phase call = Cp_Returned r" for r
    using assms(3) that own_reply_mono [OF _ assms(5)] unfolding call_ok_def by blast
  ultimately show ?thesis
    using False assms(3) by (simp add: call_ok_def settle_simps [OF assms(1,2)])
qed

lemma settle_inv:
  assumes "client_inv env m" "hm_get (cl_pending (cm_client m)) rid = Some k"
    and "v \<noteq> Slot_Waiting" "set (cm_log m) \<subseteq> set log"
    and "\<And>call r. call_ok env m call \<Longrightarrow> v = Slot_Sent r \<Longrightarrow> cc_slot call = k \<Longrightarrow> own_reply env log call r"
  shows "client_inv env (m\<lparr>cm_client := settle rid k v (cm_client m), cm_log := log\<rparr>)"
  using assms settle_call_ok [of m rid k env _ v log]
  by (auto simp: client_inv_def settle_pending_ok list_all_iff)

lemma call_phase_inv:
  assumes "client_inv env m" "i < length (cm_calls m)"
    and "live (cm_calls m ! i) \<or> \<not> live ((cm_calls m ! i)\<lparr>cc_phase := phase\<rparr>)"
    and "\<And>r. phase = Cp_Returned r \<Longrightarrow> own_reply env (cm_log m) (cm_calls m ! i) r"
  shows "client_inv env (call_phase i phase m)"
proof -
  let ?call = "(cm_calls m ! i)\<lparr>cc_phase := phase\<rparr>"
  have same: "call_ok env (call_phase i phase m) call = call_ok env m call" for call
    by (simp add: call_ok_def call_phase_def)
  have "call_ok env m (cm_calls m ! i)" using assms(1,2) by (simp add: client_inv_def list_all_length)
  then have "call_ok env m ?call" using assms(3,4) by (auto simp: call_ok_def)
  then show ?thesis
    using assms(1) set_update_subset_insert [of "cm_calls m" i ?call]
    by (auto simp: client_inv_def list_all_iff same) (auto simp: call_phase_def)
qed

lemma pending_drop_inv:
  assumes "client_inv env m"
  shows "client_inv env (m\<lparr>cm_client := pending_drop rid (cm_client m)\<rparr>)"
proof (cases "hm_get (cl_pending (cm_client m)) rid")
  case None
  then show ?thesis using assms by (simp add: pending_drop_def)
next
  case (Some k)
  have "client_inv env (m\<lparr>cm_client := settle rid k Slot_Closed (cm_client m), cm_log := cm_log m\<rparr>)"
    by (rule settle_inv [OF assms Some]) simp_all
  then show ?thesis by (simp add: pending_drop_def Some settle_def)
qed

lemma read_response_inv:
  assumes "client_inv env m"
  shows "client_inv env (m\<lparr>cm_client := read_response env response (cm_client m),
    cm_log := (length (cl_slots (cm_client m)), response) # cm_log m\<rparr>)" (is "client_inv env (m\<lparr>cm_client := _, cm_log := ?log\<rparr>)")
proof (cases "hm_get (cl_pending (cm_client m)) (en_request_id response)")
  case None
  have "call_ok env (m\<lparr>cm_log := ?log\<rparr>) call" if "call_ok env m call" for call
    using that own_reply_mono [of env "cm_log m" call _ ?log] by (auto simp: call_ok_def)
  then show ?thesis using assms None by (simp add: read_response_def client_inv_def list_all_iff)
next
  case (Some k)
  have "client_inv env (m\<lparr>cm_client := settle (en_request_id response) k
      (Slot_Sent (response_result env response)) (cm_client m), cm_log := ?log\<rparr>)"
  proof (rule settle_inv [OF assms Some])
    fix call r
    assume "call_ok env m call" "Slot_Sent (response_result env response) = Slot_Sent r" "cc_slot call = k"
    then show "own_reply env ?log call r" using Some by (auto simp: call_ok_def own_reply_def)
  qed auto
  then show ?thesis by (simp add: read_response_def Some settle_def)
qed


lemma put_slots:
  "\<forall>(_, k) \<in> set ps. k < length (cl_slots c) \<Longrightarrow>
     cl_pending (foldr (\<lambda>(_, k). put_slot k v) ps c) = cl_pending c \<and>
     length (cl_slots (foldr (\<lambda>(_, k). put_slot k v) ps c)) = length (cl_slots c) \<and>
     (v \<noteq> Slot_Waiting \<longrightarrow> cl_slots (foldr (\<lambda>(_, k). put_slot k v) ps c) ! j =
       (if j \<in> snd ` set ps \<and> cl_slots c ! j = Slot_Waiting then v else cl_slots c ! j))"
  by (induction ps) (force simp: put_slot_nth)+

lemma fail_pending_simps:
  assumes "pending_ok c"
  shows "cl_pending (fail_pending reason c) = []"
    "length (cl_slots (fail_pending reason c)) = length (cl_slots c)"
    "cl_slots (fail_pending reason c) ! j =
       (if (\<exists>rid. hm_get (cl_pending c) rid = Some j) then Slot_Sent (Inl (Ipc_WorkerUnavailable reason))
        else cl_slots c ! j)"
proof -
  have wf: "hm_wf (cl_pending c)" using assms by (simp add: pending_ok_def)
  have bound: "\<forall>(_, k) \<in> set (cl_pending c). k < length (cl_slots (c\<lparr>cl_pending := []\<rparr>))"
    using assms hm_get_set [OF wf] by (auto simp: pending_ok_def)
  have "j \<in> snd ` set (cl_pending c) \<longleftrightarrow> (\<exists>rid. hm_get (cl_pending c) rid = Some j)"
    by (force simp: hm_get_set [OF wf])
  moreover have "cl_slots c ! j = Slot_Waiting" if "\<exists>rid. hm_get (cl_pending c) rid = Some j"
    using that assms by (auto simp: pending_ok_def)
  ultimately show "cl_pending (fail_pending reason c) = []"
    "length (cl_slots (fail_pending reason c)) = length (cl_slots c)"
    "cl_slots (fail_pending reason c) ! j =
       (if (\<exists>rid. hm_get (cl_pending c) rid = Some j) then Slot_Sent (Inl (Ipc_WorkerUnavailable reason))
        else cl_slots c ! j)"
    unfolding fail_pending_def using put_slots [OF bound] by simp_all
qed

lemma fail_pending_inv:
  assumes "client_inv env m"
  shows "client_inv env (m\<lparr>cm_client := fail_pending reason (cm_client m)\<rparr>)"
proof -
  have ok: "pending_ok (cm_client m)" using assms by (simp add: client_inv_def)
  have "call_ok env (m\<lparr>cm_client := fail_pending reason (cm_client m)\<rparr>) call" if c: "call_ok env m call" for call
    using c call_ok_waiting [OF c] by (auto simp: call_ok_def fail_pending_simps [OF ok])
  then show ?thesis using assms
    by (simp add: client_inv_def list_all_iff pending_ok_def [of "fail_pending _ _"] fail_pending_simps [OF ok])
qed

lemma pending_insert_inv:
  assumes "client_inv env m" "pending_insert rid (cm_client m) = (Inr k, c)"
  shows "client_inv env (m\<lparr>cm_client := c,
    cm_calls := cm_calls m @ [\<lparr>cc_request_id = rid, cc_slot = k, cc_phase = Cp_Registered\<rparr>]\<rparr>)"
    (is "client_inv env ?m")
proof -
  let ?c = "cm_client m" and ?k = "length (cl_slots (cm_client m))"
  have ok: "pending_ok ?c" using assms(1) by (simp add: client_inv_def)
  have new: "hm_get (cl_pending ?c) rid = None" "k = ?k"
    "c = \<lparr>cl_pending = hm_insert rid ?k (cl_pending ?c), cl_slots = cl_slots ?c @ [Slot_Waiting]\<rparr>"
    using assms(2) by (auto simp: pending_insert_def split: if_splits)
  have old: "hm_get (cl_pending ?c) r = Some j \<Longrightarrow> j < ?k" for r j using ok by (auto simp: pending_ok_def)
  have "j < Suc ?k \<and> (cl_slots ?c @ [Slot_Waiting]) ! j = Slot_Waiting \<and>
      (\<forall>r'. hm_get (cl_pending c) r' = Some j \<longrightarrow> r' = r)" if j: "hm_get (cl_pending c) r = Some j" for r j
  proof (cases "r = rid")
    case True
    then show ?thesis using j old by (auto simp: new(3) hm_get_insert)
  next
    case False
    then have "hm_get (cl_pending ?c) r = Some j" using j by (simp add: new(3) hm_get_insert)
    moreover from this have "j < ?k" by (rule old)
    ultimately show ?thesis using ok by (auto simp: pending_ok_def new(3) hm_get_insert nth_append intro: less_SucI)
  qed
  then have "pending_ok c" using ok by (auto simp: pending_ok_def new(3) hm_wf_insert)
  moreover have "call_ok env ?m call" if c: "call_ok env m call" for call
  proof -
    have slot: "cc_slot call < ?k" using c by (simp add: call_ok_def)
    have "r = cc_request_id call" if "hm_get (cl_pending c) r = Some (cc_slot call)" for r
      using that c slot by (cases "r = rid") (simp_all add: call_ok_def new(3) hm_get_insert)
    moreover have "hm_get (cl_pending c) (cc_request_id call) = Some (cc_slot call)"
      if "live call" "cl_slots ?c ! cc_slot call = Slot_Waiting"
      using call_ok_waiting [OF c that] new(1) by (auto simp: new(3) hm_get_insert)
    moreover have "own_reply env (cm_log m) call r"
      if "cl_slots ?c ! cc_slot call = Slot_Sent r \<or> cc_phase call = Cp_Returned r" for r
      using c that unfolding call_ok_def by blast
    ultimately show ?thesis using slot by (simp add: call_ok_def new(3) nth_append)
  qed
  moreover have "call_ok env ?m \<lparr>cc_request_id = rid, cc_slot = k, cc_phase = Cp_Registered\<rparr>"
    using old by (auto simp: call_ok_def new(2,3) hm_get_insert)
  ultimately show ?thesis using assms(1) by (simp add: client_inv_def list_all_iff)
qed

lemma client_step_inv: "client_step env m m' \<Longrightarrow> client_inv env m \<Longrightarrow> client_inv env m'"
proof (induction rule: client_step.induct)
  case (call_failed i m e)
  show ?case by (rule call_phase_inv [OF pending_drop_inv]) (use call_failed in \<open>simp_all add: live_def\<close>)
next
  case (call_received i m r)
  have "call_ok env m (cm_calls m ! i)" using call_received by (simp add: client_inv_def list_all_length)
  then have "own_reply env (cm_log m) (cm_calls m ! i) r"
    using call_received.hyps(3) by (auto simp: receive_def call_ok_def split: Slot.splits)
  then show ?case by (intro call_phase_inv) (use call_received in \<open>simp_all add: live_def\<close>)
next
  case (call_abandoned i m)
  show ?case by (rule call_phase_inv [OF pending_drop_inv]) (use call_abandoned in \<open>simp_all add: live_def\<close>)
next
  case (response_end m stream_error)
  have "client_inv env (m\<lparr>cm_client := end_of_responses stream_error (cm_client m)\<rparr>)"
    using fail_pending_inv [OF response_end.prems] by (simp add: end_of_responses_def)
  then show ?case by (simp add: client_inv_def call_ok_def list_all_iff)
qed (auto intro: pending_insert_inv call_phase_inv read_response_inv simp: live_def)

lemma client_reachable_inv: "client_reachable env m \<Longrightarrow> client_inv env m"
  unfolding client_reachable_def
proof (induction rule: rtranclp_induct)
  case base
  show ?case by (simp add: client_inv_def pending_ok_def ClientMachine_new_def Client_new_def)
qed (rule client_step_inv)

text \<open>
  C25: the calls on one worker. However registrations, writes, responses and abandoned calls
  interleave, a call that returns a reply returns one the worker sent under its own id
  after the call was registered, at the current protocol version. No two calls that still
  wait share an id; and a call that still waits is answered by the next response
  under its id, and by the end of the response stream.
\<close>

theorem client_calls_get_their_own_reply:
  assumes "client_reachable env m" "i < length (cm_calls m)"
  defines "call \<equiv> cm_calls m ! i"
  defines "waits \<equiv> (\<lambda>call. live call \<and> receive (cc_slot call) (cm_client m) = None)"
  shows "(\<forall>reply. cc_phase call = Cp_Returned (Inr reply) \<longrightarrow>
       (\<exists>(n, response) \<in> set (cm_log m). cc_slot call < n \<and> en_request_id response = cc_request_id call \<and>
          en_protocol_version response = PROTOCOL_VERSION \<and>
          ie_cbor_reply env (en_payload response) = Inr reply)) \<and>
    (waits call \<longrightarrow>
       (\<forall>j < length (cm_calls m). waits (cm_calls m ! j) \<longrightarrow>
          cc_request_id (cm_calls m ! j) = cc_request_id call \<longrightarrow> cc_slot (cm_calls m ! j) = cc_slot call) \<and>
       (\<forall>response. en_request_id response = cc_request_id call \<longrightarrow>
          receive (cc_slot call) (read_response env response (cm_client m)) = Some (response_result env response)) \<and>
       (\<forall>e. \<exists>reason. receive (cc_slot call) (end_of_responses e (cm_client m))
          = Some (Inl (Ipc_WorkerUnavailable reason))))"
proof -
  have inv: "client_inv env m" by (rule client_reachable_inv [OF assms(1)])
  then have ok: "pending_ok (cm_client m)" by (simp add: client_inv_def)
  have calls: "call_ok env m (cm_calls m ! j)" if "j < length (cm_calls m)" for j
    using inv that by (simp add: client_inv_def list_all_length)
  have wait: "hm_get (cl_pending (cm_client m)) (cc_request_id (cm_calls m ! j)) = Some (cc_slot (cm_calls m ! j))"
    if "j < length (cm_calls m)" "waits (cm_calls m ! j)" for j
    using call_ok_waiting [OF calls [OF that(1)]] that(2)
    by (simp add: waits_def receive_def split: Slot.splits)
  have "own_reply env (cm_log m) call (Inr reply)" if "cc_phase call = Cp_Returned (Inr reply)" for reply
    using calls [OF assms(2)] that by (simp add: call_ok_def call_def)
  moreover have "response_result env response = Inr reply \<Longrightarrow> en_protocol_version response = PROTOCOL_VERSION \<and>
      ie_cbor_reply env (en_payload response) = Inr reply" for response reply
    by (auto simp: response_result_def Let_def decode_payload_def res_simps split: if_splits sum.splits)
  ultimately have own: "\<forall>reply. cc_phase call = Cp_Returned (Inr reply) \<longrightarrow>
       (\<exists>(n, response) \<in> set (cm_log m). cc_slot call < n \<and> en_request_id response = cc_request_id call \<and>
          en_protocol_version response = PROTOCOL_VERSION \<and> ie_cbor_reply env (en_payload response) = Inr reply)"
    unfolding own_reply_def by fast
  show ?thesis
  proof (intro conjI own impI allI)
    assume w: "waits call"
    then have p: "hm_get (cl_pending (cm_client m)) (cc_request_id call) = Some (cc_slot call)"
      using wait [OF assms(2)] by (simp add: call_def)
    fix j assume "j < length (cm_calls m)" "waits (cm_calls m ! j)"
      "cc_request_id (cm_calls m ! j) = cc_request_id call"
    with wait p show "cc_slot (cm_calls m ! j) = cc_slot call" by force
  next
    fix response :: Envelope
    assume w: "waits call" "en_request_id response = cc_request_id call"
    then have p: "hm_get (cl_pending (cm_client m)) (en_request_id response) = Some (cc_slot call)"
      using wait [OF assms(2)] by (simp add: call_def)
    show "receive (cc_slot call) (read_response env response (cm_client m)) = Some (response_result env response)"
      using settle_simps(3) [OF ok p, of "Slot_Sent (response_result env response)" "cc_slot call"]
      by (simp add: read_response_def p receive_def settle_def)
  next
    fix e assume "waits call"
    then have p: "\<exists>rid. hm_get (cl_pending (cm_client m)) rid = Some (cc_slot call)"
      using wait [OF assms(2)] by (auto simp: call_def)
    then show "\<exists>reason. receive (cc_slot call) (end_of_responses e (cm_client m))
        = Some (Inl (Ipc_WorkerUnavailable reason))"
      by (simp add: end_of_responses_def receive_def fail_pending_simps [OF ok])
  qed
qed


section \<open>A sample codec\<close>

text \<open>Envelopes with each field after its length in unary, and one call and one reply.\<close>

definition sample_ipc_env :: "ConnectorCall \<Rightarrow> ConnectorReply \<Rightarrow> ipc_env" where
  "sample_ipc_env call reply =
     \<lparr>ie_encode = (\<lambda>e. unary (u32_be (en_protocol_version e)) @ unary (u32_be (en_kind e)) @
        unary (en_request_id e) @ en_payload e),
      ie_decode = (\<lambda>bytes.
        let (version, bytes) = split_unary bytes; (kind, bytes) = split_unary bytes;
            (request_id, payload) = split_unary bytes in
        Inr \<lparr>en_protocol_version = be_u32 version, en_request_id = request_id, en_kind = be_u32 kind,
             en_payload = payload\<rparr>),
      ie_call_cbor = (\<lambda>c. if c = call then Inr ''c'' else Inl ''unsupported''),
      ie_cbor_call = (\<lambda>_. Inr call),
      ie_reply_cbor = (\<lambda>r. if r = reply then Inr ''r'' else Inl ''unsupported''),
      ie_cbor_reply = (\<lambda>_. Inr reply), ie_early_eof = ''early eof''\<rparr>"

lemma sample_ipc_laws: "ipc_laws (sample_ipc_env call reply)"
  by (auto simp: ipc_laws_def sample_ipc_env_def Let_def split: if_splits)

definition sample_envelope :: Envelope where
  "sample_envelope = \<lparr>en_protocol_version = 4, en_request_id = ''r1'', en_kind = 2, en_payload = ''r''\<rparr>"

abbreviation sample_ipc :: ipc_env where
  "sample_ipc \<equiv> sample_ipc_env Call_GetPackManifest Reply_Acknowledged"

theorem frames_roundtrip_witness:
  "\<exists>bytes. write_envelopes sample_ipc [sample_envelope] [] = (Inr (), bytes) \<and>
     read_envelopes sample_ipc None bytes = ([sample_envelope], None)"
proof -
  have "length (ie_encode sample_ipc sample_envelope) \<le> 67108864"
    by (simp add: sample_ipc_env_def sample_envelope_def unary_def)
  then obtain bytes where "write_envelope sample_ipc None sample_envelope [] = (Inr (), bytes)"
    using write_envelope_Inr by blast
  then have bytes: "write_envelopes sample_ipc [sample_envelope] [] = (Inr (), bytes)" by simp
  with frames_roundtrip [OF sample_ipc_laws bytes] show ?thesis by blast
qed

definition sample_client_start :: ClientMachine where
  "sample_client_start = ClientMachine_new\<lparr>cm_client := \<lparr>cl_pending = [(''r1'', 0)], cl_slots = [Slot_Waiting]\<rparr>,
     cm_calls := [\<lparr>cc_request_id = ''r1'', cc_slot = 0, cc_phase = Cp_Registered\<rparr>]\<rparr>"

definition sample_client_end :: ClientMachine where
  "sample_client_end = \<lparr>cm_client = \<lparr>cl_pending = [], cl_slots = [Slot_Sent (Inr Reply_Acknowledged)]\<rparr>,
     cm_calls = [\<lparr>cc_request_id = ''r1'', cc_slot = 0, cc_phase = Cp_Returned (Inr Reply_Acknowledged)\<rparr>],
     cm_reading = True, cm_log = [(1, sample_envelope)]\<rparr>"

lemma sample_client_reachable: "client_reachable sample_ipc sample_client_end"
proof -
  let ?step = "client_step sample_ipc"
  have "?step ClientMachine_new sample_client_start"
    using call_start [of "''r1''" ClientMachine_new 0 "cm_client sample_client_start" sample_ipc]
    by (simp add: sample_client_start_def ClientMachine_new_def Client_new_def pending_insert_def hm_insert_def)
  moreover have "?step sample_client_start (call_phase 0 Cp_Waiting sample_client_start)"
    by (rule call_sent) (simp_all add: sample_client_start_def)
  moreover have "?step (call_phase 0 Cp_Waiting sample_client_start) (call_phase 0 Cp_Waiting sample_client_end)"
    using response_read [of "call_phase 0 Cp_Waiting sample_client_start" sample_ipc sample_envelope]
    by (simp add: sample_client_start_def sample_client_end_def call_phase_def ClientMachine_new_def
        read_response_def hm_get_def hm_remove_def put_slot_def response_result_def message_kind_def
        sample_envelope_def decode_payload_def PROTOCOL_VERSION_def sample_ipc_env_def map_err_def)
  moreover have "?step (call_phase 0 Cp_Waiting sample_client_end) sample_client_end"
    using call_received [of 0 "call_phase 0 Cp_Waiting sample_client_end" "Inr Reply_Acknowledged" sample_ipc]
    by (simp add: sample_client_end_def call_phase_def receive_def)
  ultimately show ?thesis
    unfolding client_reachable_def by (meson rtranclp.rtrancl_into_rtrancl rtranclp.rtrancl_refl)
qed

theorem client_calls_get_their_own_reply_witness:
  "\<exists>(n, response) \<in> set (cm_log sample_client_end). en_request_id response = ''r1'' \<and>
     ie_cbor_reply sample_ipc (en_payload response) = Inr Reply_Acknowledged"
  using client_calls_get_their_own_reply [OF sample_client_reachable, of 0]
  by (auto simp: sample_client_end_def)

end
