(* ===== verification/Ipc_Supervisor.thy ===== *)
theory Ipc_Supervisor
  imports Ipc Policy_Engine
begin

text \<open>
  The supervisor of a connector worker (\<open>connector-ipc/src/supervisor.rs\<close>) and the connector
  proxy built on it (\<open>connector.rs\<close>). A call of the supervisor is a program: its lock regions,
  the calls on a worker client and the recovery are the calls of the program, and
  \<open>sv_perform\<close> says what each does to the shared state. A client is a value of type \<open>'k\<close>;
  what it answers, and what a freshly spawned worker answers to the handshake, is given
  by the surroundings of a call.
\<close>

section \<open>Tombstones of cancelled requests\<close>

definition CANCEL_TOMBSTONE_TTL :: int where
  "CANCEL_TOMBSTONE_TTL = 5 * 60 * nanos_per_second"

definition CANCEL_TOMBSTONE_CAPACITY :: nat where
  "CANCEL_TOMBSTONE_CAPACITY = 4096"

type_synonym CancellationTombstones = "(string, Instant) hashmap"

definition tombstones_prune :: "Instant \<Rightarrow> CancellationTombstones \<Rightarrow> CancellationTombstones" where
  "tombstones_prune now t = hm_retain (\<lambda>_ expires_at. expires_at > now) t"

definition tombstones_make_room :: "CancellationTombstones \<Rightarrow> CancellationTombstones" where
  "tombstones_make_room t =
     (if length t \<ge> CANCEL_TOMBSTONE_CAPACITY then
        (case min_by_key (\<lambda>(_, expires_at). expires_at) t of
           Some (oldest, _) \<Rightarrow> hm_remove oldest t
         | None \<Rightarrow> t)
      else t)"

definition tombstones_record :: "string \<Rightarrow> Instant \<Rightarrow> CancellationTombstones \<Rightarrow> CancellationTombstones" where
  "tombstones_record request_id now t =
     (let t = tombstones_prune now t;
          t = (if hm_get t request_id = None then tombstones_make_room t else t) in
      hm_insert request_id (now + CANCEL_TOMBSTONE_TTL) t)"

definition tombstones_contains ::
  "string \<Rightarrow> Instant \<Rightarrow> CancellationTombstones \<Rightarrow> bool \<times> CancellationTombstones" where
  "tombstones_contains request_id now t =
     (let t = tombstones_prune now t in (hm_get t request_id \<noteq> None, t))"

lemma tombstones_full:
  assumes "CANCEL_TOMBSTONE_CAPACITY \<le> length t"
  shows "\<exists>rid e. (rid, e) \<in> set t \<and> (\<forall>(rid', e') \<in> set t. e \<le> e') \<and>
    tombstones_make_room t = hm_remove rid t"
proof -
  have "t \<noteq> []" using assms by (auto simp: CANCEL_TOMBSTONE_CAPACITY_def)
  then obtain rid e where m: "min_by_key (\<lambda>(_, e). e) t = Some (rid, e)"
    "(rid, e) \<in> set t" "\<forall>(_, e') \<in> set t. e \<le> e'"
    by (rule min_by_key_entry [of t "\<lambda>e. e"])
  then have "tombstones_make_room t = hm_remove rid t" using assms by (simp add: tombstones_make_room_def)
  with m(2,3) show ?thesis by blast
qed

interpretation tombstones: expiring_table "\<lambda>e. e" CANCEL_TOMBSTONE_CAPACITY tombstones_prune tombstones_make_room
proof
  show "0 < CANCEL_TOMBSTONE_CAPACITY" by (simp add: CANCEL_TOMBSTONE_CAPACITY_def)
qed (simp_all add: tombstones_prune_def tombstones_full, simp add: tombstones_make_room_def)

section \<open>Decisions of the supervisor\<close>

definition restartable :: "IpcError \<Rightarrow> bool" where
  "restartable e \<longleftrightarrow>
     (case e of Ipc_Io _ \<Rightarrow> True | Ipc_WorkerExited \<Rightarrow> True | Ipc_WorkerUnavailable _ \<Rightarrow> True | _ \<Rightarrow> False)"

fun operation_is_write :: "DataOperation \<Rightarrow> bool" where
  "operation_is_write (Op_Insert _) = True"
| "operation_is_write (Op_Update _) = True"
| "operation_is_write (Op_Delete _) = True"
| "operation_is_write (Op_NativeExecute _) = True"
| "operation_is_write (Op_VectorUpsert _) = True"
| "operation_is_write (Op_TimeSeriesWrite _) = True"
| "operation_is_write _ = False"

fun safe_to_retry :: "ConnectorCall \<Rightarrow> bool" where
  "safe_to_retry (Call_Execute _ _ _ operation) = (\<not> operation_is_write operation)"
| "safe_to_retry Call_Shutdown = False"
| "safe_to_retry _ = True"

fun is_data_call :: "ConnectorCall \<Rightarrow> bool" where
  "is_data_call (Call_TestConnection _ _ _) = True"
| "is_data_call (Call_SearchCatalog _ _ _ _) = True"
| "is_data_call (Call_DescribeEntity _ _ _ _) = True"
| "is_data_call (Call_Execute _ _ _ _) = True"
| "is_data_call _ = False"

definition cancelled_before_dispatch_reply :: ConnectorReply where
  "cancelled_before_dispatch_reply =
     Reply_Error (ConnectorError_new Cat_Cancelled ''request was cancelled before connector dispatch'')"

definition cancellation_barrier ::
  "string \<Rightarrow> ConnectorCall \<Rightarrow> Instant \<Rightarrow> CancellationTombstones
     \<Rightarrow> ConnectorReply option \<times> CancellationTombstones" where
  "cancellation_barrier request_id call now t =
     (if is_data_call call then
        (case tombstones_contains request_id now t of
           (True, t) \<Rightarrow> (Some cancelled_before_dispatch_reply, t)
         | (False, t) \<Rightarrow> (None, t))
      else (None, t))"

section \<open>A worker and its state\<close>

fun category_debug :: "ErrorCategory \<Rightarrow> string" where
  "category_debug Cat_InvalidRequest = ''InvalidRequest''"
| "category_debug Cat_Authentication = ''Authentication''"
| "category_debug Cat_PermissionDenied = ''PermissionDenied''"
| "category_debug Cat_NotFound = ''NotFound''"
| "category_debug Cat_Conflict = ''Conflict''"
| "category_debug Cat_Unsupported = ''Unsupported''"
| "category_debug Cat_RateLimited = ''RateLimited''"
| "category_debug Cat_Timeout = ''Timeout''"
| "category_debug Cat_Cancelled = ''Cancelled''"
| "category_debug Cat_Unavailable = ''Unavailable''"
| "category_debug Cat_Protocol = ''Protocol''"
| "category_debug Cat_UnknownOutcome = ''UnknownOutcome''"
| "category_debug Cat_Internal = ''Internal''"

definition connector_error_text :: "ConnectorError \<Rightarrow> string" where
  "connector_error_text e = category_debug (ce_category e) @ '': '' @ ce_message e"

text \<open>
  The handshake with a spawned worker. \<open>spawned\<close> is what \<open>WorkerClient::spawn\<close> gives, with the
  answer to the manifest request; \<open>None\<close> when five seconds pass first.
\<close>

type_synonym 'k Spawned = "IpcError + 'k \<times> (IpcError + ConnectorReply) option"

definition launch :: "string \<Rightarrow> 'k Spawned \<Rightarrow> IpcError + 'k \<times> PackManifest" where
  "launch pack_id spawned =
     bind_res spawned (\<lambda>(client, answer).
     bind_res (case answer of
         None \<Rightarrow> Inl (Ipc_WorkerUnavailable (pack_id @ '' worker manifest handshake timed out''))
       | Some r \<Rightarrow> r) (\<lambda>reply.
     bind_res (case reply of
         Reply_PackManifest manifest \<Rightarrow> Inr manifest
       | Reply_Error e \<Rightarrow> Inl (Ipc_Protocol (pack_id @ '' worker rejected its manifest request: '' @
           connector_error_text e))
       | _ \<Rightarrow> Inl (Ipc_Protocol (pack_id @ '' worker returned an unexpected manifest reply''))) (\<lambda>manifest.
     if pm_pack_id manifest \<noteq> pack_id \<or> pm_protocol_version manifest \<noteq> PROTOCOL_VERSION then
       Inl (Ipc_Protocol (pack_id @ '' worker returned incompatible pack metadata''))
     else Inr (client, manifest))))"

record 'k WorkerState =
  ws_generation :: u64
  ws_client :: 'k
  ws_stopping :: bool
  ws_cancellations :: CancellationTombstones

record 'k WorkerSupervisor =
  sv_pack_id :: string
  sv_manifest :: PackManifest
  sv_state :: "'k WorkerState"

definition start :: "string \<Rightarrow> 'k Spawned \<Rightarrow> IpcError + 'k WorkerSupervisor" where
  "start pack_id spawned =
     map_res (\<lambda>(client, manifest).
       \<lparr>sv_pack_id = pack_id, sv_manifest = manifest,
        sv_state = \<lparr>ws_generation = 0, ws_client = client, ws_stopping = False, ws_cancellations = []\<rparr>\<rparr>)
       (launch pack_id spawned)"

text \<open>The part \<open>recover\<close> and \<open>restart\<close> share: a new worker with the same connectors takes over.\<close>

definition replace_worker ::
  "string \<Rightarrow> PackManifest \<Rightarrow> 'k Spawned \<Rightarrow> 'k WorkerState \<Rightarrow> (IpcError + 'k) \<times> 'k WorkerState" where
  "replace_worker pack_id manifest spawned s =
     (case launch pack_id spawned of
        Inl e \<Rightarrow> (Inl e, s)
      | Inr (client, manifest') \<Rightarrow>
          if pm_connectors manifest' \<noteq> pm_connectors manifest then
            (Inl (Ipc_Protocol (''restarted '' @ pack_id @
               '' worker returned a different connector manifest'')), s)
          else (Inr client, s\<lparr>ws_generation := saturating_add (ws_generation s) 1, ws_client := client\<rparr>))"

definition recover ::
  "string \<Rightarrow> PackManifest \<Rightarrow> u64 \<Rightarrow> 'k Spawned \<Rightarrow> 'k WorkerState \<Rightarrow> (IpcError + 'k) \<times> 'k WorkerState" where
  "recover pack_id manifest failed_generation spawned s =
     (if ws_stopping s then (Inl Ipc_WorkerExited, s)
      else if ws_generation s \<noteq> failed_generation then (Inr (ws_client s), s)
      else replace_worker pack_id manifest spawned s)"

definition restart ::
  "string \<Rightarrow> PackManifest \<Rightarrow> IpcError + unit \<Rightarrow> 'k Spawned \<Rightarrow> 'k WorkerState
     \<Rightarrow> (IpcError + unit) \<times> 'k WorkerState" where
  "restart pack_id manifest terminated spawned s =
     (if ws_stopping s then (Inl Ipc_WorkerExited, s)
      else case terminated of
        Inl e \<Rightarrow> (Inl e, s)
      | Inr _ \<Rightarrow> (case replace_worker pack_id manifest spawned s of (r, s) \<Rightarrow> (map_res (\<lambda>_. ()) r, s)))"

definition shutdown :: "'k WorkerState \<Rightarrow> 'k \<times> 'k WorkerState" where
  "shutdown s = (ws_client s, s\<lparr>ws_stopping := True\<rparr>)"

text \<open>What \<open>WorkerClient::shutdown\<close> makes of the answer to its call.\<close>

definition client_shutdown :: "IpcError + ConnectorReply \<Rightarrow> IpcError + unit" where
  "client_shutdown answer =
     bind_res answer (\<lambda>reply.
       if reply \<noteq> Reply_Acknowledged then
         Inl (Ipc_Protocol ''worker returned an unexpected shutdown response'')
       else Inr ())"

section \<open>A call of the supervisor\<close>

datatype 'k SvCall =
    Sv_Enter string ConnectorCall
  | Sv_Client 'k string ConnectorCall
  | Sv_Recover u64
  | Sv_Retry string ConnectorCall

datatype 'k SvReply =
    Svr_Stopped
  | Svr_Cancelled ConnectorReply
  | Svr_Entered 'k u64
  | Svr_Result "IpcError + ConnectorReply"
  | Svr_Recovered "IpcError + 'k"
  | Svr_Retry "ConnectorReply option"

text \<open>A reply read at the type of its call. \<open>sv_perform\<close> always gives a reply of that type.\<close>

definition sv_result :: "'k SvReply \<Rightarrow> IpcError + ConnectorReply" where
  "sv_result r = (case r of Svr_Result x \<Rightarrow> x | _ \<Rightarrow> Inl Ipc_WorkerExited)"

definition sv_recovered :: "'k SvReply \<Rightarrow> IpcError + 'k" where
  "sv_recovered r = (case r of Svr_Recovered x \<Rightarrow> x | _ \<Rightarrow> Inl Ipc_WorkerExited)"

definition sv_retry :: "'k SvReply \<Rightarrow> ConnectorReply option" where
  "sv_retry r = (case r of Svr_Retry x \<Rightarrow> x | _ \<Rightarrow> Some cancelled_before_dispatch_reply)"

type_synonym ('k, 'r) SvProgram = "('k SvCall, 'k SvReply, 'r) Prog"

definition retry_call ::
  "string \<Rightarrow> ConnectorCall \<Rightarrow> IpcError + 'k \<Rightarrow> ('k, IpcError + ConnectorReply) SvProgram" where
  "retry_call request_id call recovered =
     Do (Sv_Retry request_id call) (\<lambda>retry.
       case sv_retry retry of
         Some reply \<Rightarrow> Return (Inr reply)
       | None \<Rightarrow>
           (case recovered of
              Inl e \<Rightarrow> Return (Inl e)
            | Inr client \<Rightarrow> Do (Sv_Client client request_id call) (\<lambda>reply. Return (sv_result reply))))"

definition recover_call ::
  "string \<Rightarrow> ConnectorCall \<Rightarrow> u64 \<Rightarrow> IpcError \<Rightarrow> ('k, IpcError + ConnectorReply) SvProgram" where
  "recover_call request_id call generation error =
     (if \<not> restartable error \<or> call = Call_Shutdown then Return (Inl error)
      else Do (Sv_Recover generation) (\<lambda>recovered.
        if \<not> safe_to_retry call then Return (Inl error)
        else retry_call request_id call (sv_recovered recovered)))"

definition supervisor_call ::
  "string \<Rightarrow> ConnectorCall \<Rightarrow> ('k, IpcError + ConnectorReply) SvProgram" where
  "supervisor_call request_id call =
     Do (Sv_Enter request_id call) (\<lambda>entered.
       case entered of
         Svr_Cancelled reply \<Rightarrow> Return (Inr reply)
       | Svr_Entered client generation \<Rightarrow>
           Do (Sv_Client client request_id call) (\<lambda>reply.
             case sv_result reply of
               Inr result \<Rightarrow> Return (Inr result)
             | Inl error \<Rightarrow> recover_call request_id call generation error)
       | _ \<Rightarrow> Return (Inl Ipc_WorkerExited))"

text \<open>What the surroundings contribute: the clock, the client's answer, a spawned worker.\<close>

record 'k SvSurroundings =
  sx_recorded :: Instant
  sx_now :: Instant
  sx_result :: "IpcError + ConnectorReply"
  sx_spawned :: "'k Spawned"

fun record_cancel :: "Instant \<Rightarrow> ConnectorCall \<Rightarrow> CancellationTombstones \<Rightarrow> CancellationTombstones" where
  "record_cancel now (Call_Cancel target) t = tombstones_record target now t"
| "record_cancel now _ t = t"

fun sv_perform ::
  "string \<Rightarrow> PackManifest \<Rightarrow> 'k SvSurroundings \<Rightarrow> 'k SvCall \<Rightarrow> 'k WorkerState \<Rightarrow> 'k SvReply \<times> 'k WorkerState" where
  "sv_perform pack_id manifest x (Sv_Enter request_id call) s =
     (if ws_stopping s then (Svr_Stopped, s)
      else
        case cancellation_barrier request_id call (sx_now x)
          (record_cancel (sx_recorded x) call (ws_cancellations s)) of
          (Some reply, t) \<Rightarrow> (Svr_Cancelled reply, s\<lparr>ws_cancellations := t\<rparr>)
        | (None, t) \<Rightarrow> (Svr_Entered (ws_client s) (ws_generation s), s\<lparr>ws_cancellations := t\<rparr>))"
| "sv_perform pack_id manifest x (Sv_Client client request_id call) s = (Svr_Result (sx_result x), s)"
| "sv_perform pack_id manifest x (Sv_Recover generation) s =
     (case recover pack_id manifest generation (sx_spawned x) s of (r, s) \<Rightarrow> (Svr_Recovered r, s))"
| "sv_perform pack_id manifest x (Sv_Retry request_id call) s =
     (case cancellation_barrier request_id call (sx_now x) (ws_cancellations s) of
        (r, t) \<Rightarrow> (Svr_Retry r, s\<lparr>ws_cancellations := t\<rparr>))"


section \<open>A write is sent once\<close>

fun is_sent :: "'k SvCall \<times> 'k SvReply \<Rightarrow> bool" where
  "is_sent (Sv_Client _ _ _, _) = True"
| "is_sent _ = False"

definition sent_step ::
  "('k SvCall \<times> 'k SvReply) list \<Rightarrow> 'k SvCall \<times> 'k SvReply \<Rightarrow> ('k SvCall \<times> 'k SvReply) list" where
  "sent_step sent e = (if is_sent e then sent @ [e] else sent)"

lemma foldl_sent_step: "foldl sent_step sent es = sent @ filter is_sent es"
  by (induction es arbitrary: sent) (auto simp: sent_step_def)

definition sent_ok :: "string \<Rightarrow> ConnectorCall \<Rightarrow> ('k SvCall \<times> 'k SvReply) list \<Rightarrow> bool" where
  "sent_ok request_id call sent \<longleftrightarrow>
     length sent \<le> (if safe_to_retry call then 2 else 1) \<and>
     list_all (\<lambda>(q, _). \<exists>k. q = Sv_Client k request_id call) sent \<and>
     (length sent = 2 \<longrightarrow> (\<exists>e. sv_result (snd (hd sent)) = Inl e \<and> restartable e))"

lemma retry_call_sent:
  assumes "safe_to_retry call" "sv_result r = Inl e" "restartable e"
  shows "monitored sent_step (sent_ok rid call) (\<lambda>_ _. True) (retry_call rid call recovered)
    [(Sv_Client k rid call, r)]"
  using assms by (simp add: retry_call_def sent_ok_def sent_step_def split: option.splits sum.splits)

lemma sent_ok_first [simp]: "sent_ok rid call []" "sent_ok rid call [(Sv_Client k rid call, r)]"
  by (simp_all add: sent_ok_def)

lemma recover_call_sent:
  assumes "sv_result r = Inl e"
  shows "monitored sent_step (sent_ok rid call) (\<lambda>_ _. True) (recover_call rid call generation e)
    [(Sv_Client k rid call, r)]"
  using retry_call_sent [of call r e rid] assms
  by (simp add: recover_call_def sent_step_def [of _ "(Sv_Recover _, _)"])

lemma supervisor_call_sent:
  "monitored sent_step (sent_ok rid call) (\<lambda>_ _. True) (supervisor_call rid call) []"
  by (simp add: recover_call_sent supervisor_call_def sent_step_def [of _ "(Sv_Enter _ _, _)"]
      sent_step_def [of _ "(Sv_Client _ _ _, _)"] split: SvReply.splits sum.splits)

text \<open>
  Whatever the worker and the supervisor answer, a call of the supervisor sends its own
  call only, at most twice, and a second time only after the first ended with an I/O error or
  the end of the worker; a write and a shutdown are sent at most once.
\<close>

theorem interrupted_write_not_resent:
  assumes "path (supervisor_call request_id call) es p"
  defines "sent \<equiv> filter is_sent es"
  shows "length sent \<le> (if safe_to_retry call then 2 else 1) \<and>
    list_all (\<lambda>(q, _). \<exists>k. q = Sv_Client k request_id call) sent \<and>
    (length sent = 2 \<longrightarrow> (\<exists>e. sv_result (snd (hd sent)) = Inl e \<and> restartable e))"
  using path_always [OF assms(1) supervisor_call_sent] by (simp add: foldl_sent_step sent_ok_def sent_def)

section \<open>The connector proxy\<close>

definition ipc_error :: "IpcError \<Rightarrow> bool \<Rightarrow> ConnectorError" where
  "ipc_error e write =
     (let unavailable = (case e of Ipc_Io _ \<Rightarrow> True | Ipc_WorkerExited \<Rightarrow> True | Ipc_WorkerUnavailable _ \<Rightarrow> True
            | _ \<Rightarrow> False);
          outcome_unknown = (write \<and> (case e of Ipc_Serialization _ \<Rightarrow> False | _ \<Rightarrow> True)) in
      with_retryable (unavailable \<and> \<not> outcome_unknown)
        (ConnectorError_new
          (if outcome_unknown then Cat_UnknownOutcome else if unavailable then Cat_Unavailable else Cat_Protocol)
          (''connector worker IPC failed: '' @ ipc_error_text e)))"

definition proxy_answer :: "bool \<Rightarrow> IpcError + ConnectorReply \<Rightarrow> ConnectorError + ConnectorReply" where
  "proxy_answer write answer =
     (case answer of
        Inr (Reply_Error e) \<Rightarrow> Inl e
      | Inr reply \<Rightarrow> Inr reply
      | Inl e \<Rightarrow> Inl (ipc_error e write))"

definition proxy_call ::
  "string \<Rightarrow> ConnectorCall \<Rightarrow> bool \<Rightarrow> (ConnectorReply \<Rightarrow> ConnectorError + 'a)
     \<Rightarrow> ('k SvCall, 'k SvReply, ConnectorError + 'a) Prog" where
  "proxy_call request_id call write expected =
     map_return (\<lambda>answer. bind_res (proxy_answer write answer) expected) (supervisor_call request_id call)"

definition unexpected_reply :: "ConnectorManifest \<Rightarrow> string \<Rightarrow> ConnectorError" where
  "unexpected_reply manifest expected =
     ConnectorError_new Cat_Protocol (''connector worker for '' @ mf_id manifest @
       '' returned an unexpected reply; expected '' @ expected)"

definition proxy_test_connection ::
  "ConnectorManifest \<Rightarrow> WireContext \<Rightarrow> ConnectionProfile \<Rightarrow> SecretMaterial
     \<Rightarrow> ('k SvCall, 'k SvReply, ConnectorError + ConnectionInfo) Prog" where
  "proxy_test_connection manifest wire profile secret =
     proxy_call (wx_request_id wire) (Call_TestConnection wire profile secret) False
       (\<lambda>reply. case reply of Reply_ConnectionInfo info \<Rightarrow> Inr info
          | _ \<Rightarrow> Inl (unexpected_reply manifest ''connection_info''))"

definition proxy_search_catalog_page ::
  "ConnectorManifest \<Rightarrow> WireContext \<Rightarrow> ConnectionProfile \<Rightarrow> SecretMaterial \<Rightarrow> CatalogQuery
     \<Rightarrow> ('k SvCall, 'k SvReply, ConnectorError + CatalogPage) Prog" where
  "proxy_search_catalog_page manifest wire profile secret request =
     proxy_call (wx_request_id wire) (Call_SearchCatalog wire profile secret request) False
       (\<lambda>reply. case reply of Reply_Catalog page \<Rightarrow> Inr page
          | _ \<Rightarrow> Inl (unexpected_reply manifest ''catalog''))"

definition proxy_search_catalog ::
  "ConnectorManifest \<Rightarrow> WireContext \<Rightarrow> ConnectionProfile \<Rightarrow> SecretMaterial \<Rightarrow> CatalogQuery
     \<Rightarrow> ('k SvCall, 'k SvReply, ConnectorError + CatalogEntity list) Prog" where
  "proxy_search_catalog manifest wire profile secret request =
     map_return (map_res cp_entities) (proxy_search_catalog_page manifest wire profile secret request)"

definition proxy_describe_entity ::
  "ConnectorManifest \<Rightarrow> WireContext \<Rightarrow> ConnectionProfile \<Rightarrow> SecretMaterial \<Rightarrow> string
     \<Rightarrow> ('k SvCall, 'k SvReply, ConnectorError + EntityDescription) Prog" where
  "proxy_describe_entity manifest wire profile secret entity_id =
     proxy_call (wx_request_id wire) (Call_DescribeEntity wire profile secret entity_id) False
       (\<lambda>reply. case reply of Reply_Entity entity \<Rightarrow> Inr entity
          | _ \<Rightarrow> Inl (unexpected_reply manifest ''entity''))"

definition proxy_execute ::
  "ConnectorManifest \<Rightarrow> WireContext \<Rightarrow> ConnectionProfile \<Rightarrow> SecretMaterial \<Rightarrow> DataOperation
     \<Rightarrow> ('k SvCall, 'k SvReply, ConnectorError + OperationResult) Prog" where
  "proxy_execute manifest wire profile secret operation =
     proxy_call (wx_request_id wire) (Call_Execute wire profile secret operation) (operation_is_write operation)
       (\<lambda>reply. case reply of Reply_Operation result \<Rightarrow> Inr result
          | _ \<Rightarrow> Inl (unexpected_reply manifest ''operation''))"

text \<open>
  The answer to a cancellation: what the call gave within 750 milliseconds, and whether a
  restart of the worker is scheduled.
\<close>

definition proxy_cancel ::
  "ConnectorManifest \<Rightarrow> (IpcError + ConnectorReply) option \<Rightarrow> (ConnectorError + unit) \<times> bool" where
  "proxy_cancel manifest answer =
     (case answer of
        Some r \<Rightarrow>
          (bind_res (proxy_answer False r) (\<lambda>reply.
             if reply = Reply_Acknowledged then Inr ()
             else Inl (unexpected_reply manifest ''acknowledged'')), False)
      | None \<Rightarrow>
          (Inl (with_retryable True (ConnectorError_new Cat_Unavailable
             ''connector worker did not acknowledge cancellation; restart scheduled'')), True))"

text \<open>Whether an invalidation is sent, and whether its outcome schedules a restart.\<close>

definition proxy_invalidate_connection ::
  "bool \<Rightarrow> bool \<Rightarrow> ConnectionId \<Rightarrow> (IpcError + ConnectorReply) option \<Rightarrow> ConnectorCall option \<times> bool" where
  "proxy_invalidate_connection handles_invalidation in_runtime connection_id answer =
     (if \<not> handles_invalidation \<or> \<not> in_runtime then (None, False)
      else (Some (Call_InvalidateConnection connection_id), answer = None))"

section \<open>A write through the proxy\<close>

definition sv_possible :: "('k SvCall \<times> 'k SvReply) list \<Rightarrow> bool" where
  "sv_possible es \<longleftrightarrow>
     (\<forall>(q, r) \<in> set es. \<exists>pack_id manifest x s. fst (sv_perform pack_id manifest x q s) = r)"

lemma barrier_reply:
  "cancellation_barrier rid call now t = (Some reply, t') \<Longrightarrow> reply = cancelled_before_dispatch_reply"
  by (auto simp: cancellation_barrier_def split: if_splits prod.splits bool.splits)

lemma sv_possible_enter:
  "sv_possible es \<Longrightarrow> (Sv_Enter rid call, Svr_Cancelled reply) \<in> set es \<Longrightarrow> reply = cancelled_before_dispatch_reply"
  by (fastforce simp: sv_possible_def split: if_splits prod.splits option.splits dest: barrier_reply)

lemma write_call_cases:
  assumes "path (supervisor_call rid call) es (Return answer)" "\<not> safe_to_retry call"
  obtains (stopped) "filter is_sent es = []" "answer = Inl Ipc_WorkerExited"
  | (cancelled) reply where "filter is_sent es = []" "(Sv_Enter rid call, Svr_Cancelled reply) \<in> set es" "answer = Inr reply"
  | (sent) k r where "filter is_sent es = [(Sv_Client k rid call, r)]" "answer = sv_result r"
proof -
  obtain entered es1 where es: "es = (Sv_Enter rid call, entered) # es1"
    using assms(1) by (auto simp: supervisor_call_def path_Do)
  show thesis
  proof (cases entered)
    case (Svr_Entered k generation)
    then obtain r es2 where es1: "es1 = (Sv_Client k rid call, r) # es2"
      and rest: "path (case sv_result r of Inr result \<Rightarrow> Return (Inr result)
        | Inl error \<Rightarrow> recover_call rid call generation error) es2 (Return answer)"
      using assms(1) by (auto simp: supervisor_call_def es path_Do)
    have "filter is_sent es2 = [] \<and> answer = sv_result r"
      using rest assms(2)
      by (auto simp: path_Return path_Do recover_call_def split: sum.splits if_splits)
    then show thesis by (intro sent [of k r]) (simp_all add: es es1)
  qed (use assms(1) es in \<open>auto simp: supervisor_call_def path_Do path_Return intro: stopped cancelled\<close>)
qed



section \<open>The cancellation barrier\<close>

text \<open>What happens to the state of a supervisor: steps of its calls, restarts and the shutdown.\<close>

datatype 'k SvOp =
    Su_Call "'k SvSurroundings" "'k SvCall"
  | Su_Restart "IpcError + unit" "'k Spawned"
  | Su_Shutdown

fun su_step :: "string \<Rightarrow> PackManifest \<Rightarrow> 'k SvOp \<Rightarrow> 'k WorkerState \<Rightarrow> 'k WorkerState" where
  "su_step pack_id manifest (Su_Call x q) s = snd (sv_perform pack_id manifest x q s)"
| "su_step pack_id manifest (Su_Restart terminated spawned) s = snd (restart pack_id manifest terminated spawned s)"
| "su_step pack_id manifest Su_Shutdown s = snd (shutdown s)"

definition su_run :: "string \<Rightarrow> PackManifest \<Rightarrow> 'k SvOp list \<Rightarrow> 'k WorkerState \<Rightarrow> 'k WorkerState" where
  "su_run pack_id manifest = fold (su_step pack_id manifest)"

fun cancels_since :: "Instant \<Rightarrow> 'k SvOp \<Rightarrow> string set" where
  "cancels_since t (Su_Call x (Sv_Enter _ (Call_Cancel target))) = (if sx_recorded x \<ge> t then {target} else {})"
| "cancels_since t _ = {}"

fun op_between :: "Instant \<Rightarrow> Instant \<Rightarrow> 'k SvOp \<Rightarrow> bool" where
  "op_between t deadline (Su_Call x _) = (t \<le> sx_recorded x \<and> sx_recorded x < deadline \<and> sx_now x < deadline)"
| "op_between t deadline _ = True"

text \<open>The tombstones that expire no earlier than \<open>deadline\<close> are those of the requests in \<open>R\<close>.\<close>

definition tombs_ok :: "Instant \<Rightarrow> string set \<Rightarrow> CancellationTombstones \<Rightarrow> bool" where
  "tombs_ok deadline R t \<longleftrightarrow> hm_wf t \<and> (\<forall>rid e. hm_get t rid = Some e \<longrightarrow> deadline \<le> e \<longrightarrow> rid \<in> R)"

definition tomb_held :: "Instant \<Rightarrow> string \<Rightarrow> CancellationTombstones \<Rightarrow> bool" where
  "tomb_held deadline target t \<longleftrightarrow> (\<exists>e \<ge> deadline. hm_get t target = Some e)"

lemma tombs_ok_prune: "tombs_ok d R t \<Longrightarrow> tombs_ok d R (tombstones_prune now t)"
  by (auto simp: tombs_ok_def tombstones.prune_wf tombstones.prune_get split: option.splits if_splits)

lemma tomb_held_prune:
  "hm_wf t \<Longrightarrow> tomb_held d target t \<Longrightarrow> now < d \<Longrightarrow> tomb_held d target (tombstones_prune now t)"
  by (auto simp: tomb_held_def tombstones.prune_get)

lemma tombs_ok_record:
  assumes "tombs_ok (t0 + CANCEL_TOMBSTONE_TTL) R t"
  shows "tombs_ok (t0 + CANCEL_TOMBSTONE_TTL) (R \<union> (if now \<ge> t0 then {rid} else {})) (tombstones_record rid now t)"
proof -
  let ?t = "tombstones_prune now t"
  define room where "room = (if hm_get ?t rid = None then tombstones_make_room ?t else ?t)"
  have p: "tombs_ok (t0 + CANCEL_TOMBSTONE_TTL) R ?t" by (rule tombs_ok_prune [OF assms])
  then have wf: "hm_wf room" by (simp add: room_def tombs_ok_def tombstones.make_room_wf)
  have "hm_get room r = Some e \<Longrightarrow> hm_get ?t r = Some e" for r e
    using tombstones.make_room_subset [of ?t] p by (auto simp: room_def tombs_ok_def split: if_splits)
  then have "r \<in> R" if "hm_get room r = Some e" "t0 + CANCEL_TOMBSTONE_TTL \<le> e" for r e
    using p that unfolding tombs_ok_def by blast
  moreover have "tombstones_record rid now t = hm_insert rid (now + CANCEL_TOMBSTONE_TTL) room"
    by (simp add: tombstones_record_def room_def Let_def)
  ultimately show ?thesis using wf by (auto simp: tombs_ok_def hm_wf_insert hm_get_insert)
qed

lemma tombs_held_room:
  assumes "tombs_ok d R t" "finite R" "card R < CANCEL_TOMBSTONE_CAPACITY" "tomb_held d target t"
  shows "tomb_held d target (tombstones_make_room t)"
proof -
  obtain e where e: "hm_get t target = Some e" "d \<le> e" using assms(4) by (auto simp: tomb_held_def)
  have wf: "hm_wf t" using assms(1) by (simp add: tombs_ok_def)
  have "\<not> (CANCEL_TOMBSTONE_CAPACITY \<le> length t \<and> (\<forall>(rid, e') \<in> set t. e \<le> e'))"
  proof
    assume full: "CANCEL_TOMBSTONE_CAPACITY \<le> length t \<and> (\<forall>(rid, e') \<in> set t. e \<le> e')"
    have "set (map fst t) \<subseteq> R"
      using full e(2) assms(1) wf by (force simp: tombs_ok_def hm_get_set)
    then have "card (set (map fst t)) \<le> card R" by (rule card_mono [OF assms(2)])
    moreover have "card (set (map fst t)) = length t" using wf by (simp add: hm_wf_def distinct_card del: set_map)
    ultimately show False using full assms(3) by simp
  qed
  then show ?thesis using tombstones.make_room_get [OF wf e(1)] e(2) by (auto simp: tomb_held_def)
qed

lemma tomb_held_record:
  assumes "tombs_ok d R t" "finite R" "card R < CANCEL_TOMBSTONE_CAPACITY"
    and "tomb_held d target t" "now < d" "rid = target \<longrightarrow> d \<le> now + CANCEL_TOMBSTONE_TTL"
  shows "tomb_held d target (tombstones_record rid now t)"
proof -
  let ?t = "tombstones_prune now t"
  have "tomb_held d target ?t" using tomb_held_prune assms(1,4,5) by (simp add: tombs_ok_def)
  moreover from this have "tomb_held d target (tombstones_make_room ?t)"
    by (rule tombs_held_room [OF tombs_ok_prune [OF assms(1)] assms(2,3)])
  ultimately show ?thesis using assms(6) by (auto simp: tombstones_record_def Let_def tomb_held_def hm_get_insert)
qed


lemma barrier_tombs:
  "tombs_ok d R t \<Longrightarrow> tombs_ok d R (snd (cancellation_barrier rid call now t))"
  by (auto simp: cancellation_barrier_def tombstones_contains_def Let_def tombs_ok_prune split: prod.splits bool.splits)

lemma barrier_held:
  "hm_wf t \<Longrightarrow> tomb_held d target t \<Longrightarrow> now < d \<Longrightarrow> tomb_held d target (snd (cancellation_barrier rid call now t))"
  by (auto simp: cancellation_barrier_def tombstones_contains_def Let_def tomb_held_prune split: prod.splits bool.splits)

lemma barrier_stops:
  assumes "hm_wf t" "tomb_held d target t" "now < d" "is_data_call call"
  shows "fst (cancellation_barrier target call now t) = Some cancelled_before_dispatch_reply"
proof -
  have "hm_get (tombstones_prune now t) target \<noteq> None"
    using tomb_held_prune [OF assms(1-3)] by (auto simp: tomb_held_def)
  then show ?thesis using assms(4) by (simp add: cancellation_barrier_def tombstones_contains_def Let_def)
qed

lemma replace_worker_tombs [simp]:
  "ws_cancellations (snd (replace_worker pack_id manifest spawned s)) = ws_cancellations s"
  "ws_stopping (snd (replace_worker pack_id manifest spawned s)) = ws_stopping s"
  by (simp_all add: replace_worker_def split: sum.splits prod.splits)

lemma su_step_tombs_cases:
  "ws_cancellations (su_step pack_id manifest op s) = ws_cancellations s \<or>
   (\<exists>x rid call. op = Su_Call x (Sv_Enter rid call) \<and> ws_cancellations (su_step pack_id manifest op s) =
      snd (cancellation_barrier rid call (sx_now x) (record_cancel (sx_recorded x) call (ws_cancellations s)))) \<or>
   (\<exists>x rid call. op = Su_Call x (Sv_Retry rid call) \<and> ws_cancellations (su_step pack_id manifest op s) =
      snd (cancellation_barrier rid call (sx_now x) (ws_cancellations s)))"
proof (cases op)
  case (Su_Call x q)
  show ?thesis
  proof (cases q)
    case (Sv_Recover generation)
    then show ?thesis by (simp add: Su_Call recover_def split_beta)
  qed (auto simp: Su_Call split: prod.splits option.splits if_splits)
qed (auto simp: restart_def shutdown_def split_beta split: sum.splits)


lemma record_cancel_tombs:
  assumes "tombs_ok (t0 + CANCEL_TOMBSTONE_TTL) R t"
  shows "tombs_ok (t0 + CANCEL_TOMBSTONE_TTL) (R \<union> cancels_since t0 (Su_Call x (Sv_Enter rid call)))
    (record_cancel (sx_recorded x) call t)"
  using assms tombs_ok_record [OF assms] by (cases call) auto

lemma tombs_ok_mono: "tombs_ok d R t \<Longrightarrow> R \<subseteq> R' \<Longrightarrow> tombs_ok d R' t"
  by (auto simp: tombs_ok_def)

lemma su_step_tombs:
  assumes "tombs_ok (t0 + CANCEL_TOMBSTONE_TTL) R (ws_cancellations s)"
  shows "tombs_ok (t0 + CANCEL_TOMBSTONE_TTL) (R \<union> cancels_since t0 op)
    (ws_cancellations (su_step pack_id manifest op s))"
  using su_step_tombs_cases [of pack_id manifest op s]
proof (elim disjE exE conjE)
  fix x rid call
  assume "op = Su_Call x (Sv_Enter rid call)" and eq: "ws_cancellations (su_step pack_id manifest op s) =
    snd (cancellation_barrier rid call (sx_now x) (record_cancel (sx_recorded x) call (ws_cancellations s)))"
  then show ?thesis unfolding eq by (auto intro!: barrier_tombs record_cancel_tombs [OF assms])
qed (auto intro: tombs_ok_mono [OF assms] barrier_tombs [OF tombs_ok_mono [OF assms]])

lemma su_run_tombs:
  "tombs_ok (t0 + CANCEL_TOMBSTONE_TTL) R (ws_cancellations s) \<Longrightarrow>
     tombs_ok (t0 + CANCEL_TOMBSTONE_TTL) (R \<union> \<Union> (set (map (cancels_since t0) ops)))
       (ws_cancellations (su_run pack_id manifest ops s))"
proof (induction ops arbitrary: s R)
  case (Cons op ops)
  from Cons.IH [OF su_step_tombs [OF Cons.prems, of op pack_id manifest]]
  show ?case by (simp add: su_run_def Un_assoc)
qed (simp add: su_run_def)

lemma su_step_held:
  assumes "tombs_ok (t0 + CANCEL_TOMBSTONE_TTL) R (ws_cancellations s)" "finite R" "card R < CANCEL_TOMBSTONE_CAPACITY"
    and "tomb_held (t0 + CANCEL_TOMBSTONE_TTL) target (ws_cancellations s)"
    and "op_between t0 (t0 + CANCEL_TOMBSTONE_TTL) op"
  shows "tomb_held (t0 + CANCEL_TOMBSTONE_TTL) target (ws_cancellations (su_step pack_id manifest op s))"
  using su_step_tombs_cases [of pack_id manifest op s]
proof (elim disjE exE conjE)
  fix x rid call
  assume op: "op = Su_Call x (Sv_Enter rid call)" and eq: "ws_cancellations (su_step pack_id manifest op s) =
    snd (cancellation_barrier rid call (sx_now x) (record_cancel (sx_recorded x) call (ws_cancellations s)))"
  have "tomb_held (t0 + CANCEL_TOMBSTONE_TTL) target (record_cancel (sx_recorded x) call (ws_cancellations s))"
    using assms op by (cases call) (auto intro!: tomb_held_record [OF assms(1-4)])
  then show ?thesis unfolding eq
    using record_cancel_tombs [OF assms(1), of x rid call] assms(5) op
    by (intro barrier_held) (simp_all add: tombs_ok_def)
qed (use assms in \<open>auto intro!: barrier_held simp: tombs_ok_def\<close>)

lemma su_run_held:
  assumes "tombs_ok (t0 + CANCEL_TOMBSTONE_TTL) R (ws_cancellations s)"
    and "tomb_held (t0 + CANCEL_TOMBSTONE_TTL) target (ws_cancellations s)"
    and "finite (R \<union> \<Union> (set (map (cancels_since t0) ops)))"
    and "card (R \<union> \<Union> (set (map (cancels_since t0) ops))) < CANCEL_TOMBSTONE_CAPACITY"
    and "list_all (op_between t0 (t0 + CANCEL_TOMBSTONE_TTL)) ops"
  shows "tomb_held (t0 + CANCEL_TOMBSTONE_TTL) target (ws_cancellations (su_run pack_id manifest ops s))"
  using assms
proof (induction ops arbitrary: s R)
  case (Cons op ops)
  have fin: "finite R" using Cons.prems(3) by simp
  have "card R \<le> card (R \<union> \<Union> (set (map (cancels_since t0) (op # ops))))"
    by (rule card_mono [OF Cons.prems(3)]) blast
  then have card: "card R < CANCEL_TOMBSTONE_CAPACITY" using Cons.prems(4) by simp
  have "tomb_held (t0 + CANCEL_TOMBSTONE_TTL) target (ws_cancellations (su_step pack_id manifest op s))"
    by (rule su_step_held [OF Cons.prems(1) fin card Cons.prems(2)]) (use Cons.prems(5) in simp)
  from Cons.IH [OF su_step_tombs [OF Cons.prems(1)] this] Cons.prems(3-5)
  show ?case by (simp add: su_run_def Un_assoc)
qed (simp add: su_run_def)

lemma finite_cancels_since [simp]: "finite (cancels_since t op)"
  by (cases "(t, op)" rule: cancels_since.cases) simp_all

text \<open>
  C24: once the supervisor has taken a cancellation of a request, then for five minutes
  neither a call with that id nor the retry of one after a worker was lost gets past
  it, through any number of restarts, as long as fewer than 4096 different requests are
  cancelled from then on.
\<close>

theorem cancelled_request_not_dispatched:
  fixes before after :: "'k SvOp list" and x y :: "'k SvSurroundings" and rid target :: string
  assumes "ws_cancellations fresh = []" "\<not> ws_stopping (su_run pack_id manifest before fresh)"
  defines "ops \<equiv> before @ [Su_Call x (Sv_Enter rid (Call_Cancel target))] @ after"
  defines "deadline \<equiv> sx_recorded x + CANCEL_TOMBSTONE_TTL"
  assumes "list_all (op_between (sx_recorded x) deadline) after"
    and "card (\<Union> (set (map (cancels_since (sx_recorded x)) ops))) < CANCEL_TOMBSTONE_CAPACITY"
    and "is_data_call call" "sx_now y < deadline"
  shows "fst (sv_perform pack_id manifest y (Sv_Enter target call) (su_run pack_id manifest ops fresh))
      \<in> {Svr_Stopped, Svr_Cancelled cancelled_before_dispatch_reply} \<and>
    fst (sv_perform pack_id manifest y (Sv_Retry target call) (su_run pack_id manifest ops fresh))
      = Svr_Retry (Some cancelled_before_dispatch_reply)"
proof -
  let ?t0 = "sx_recorded x" and ?cancel = "Su_Call x (Sv_Enter rid (Call_Cancel target))"
  let ?s1 = "su_run pack_id manifest before fresh" and ?s2 = "su_run pack_id manifest (before @ [?cancel]) fresh"
  let ?R2 = "\<Union> (set (map (cancels_since ?t0) (before @ [?cancel])))"
  have empty: "tombs_ok (?t0 + CANCEL_TOMBSTONE_TTL) {} (ws_cancellations fresh)"
    by (simp add: assms(1) tombs_ok_def)
  have ok2: "tombs_ok (?t0 + CANCEL_TOMBSTONE_TTL) ?R2 (ws_cancellations ?s2)"
    using su_run_tombs [OF empty, of "before @ [?cancel]" pack_id manifest] by simp
  have "ws_cancellations ?s2 = tombstones_record target ?t0 (ws_cancellations ?s1)"
    using assms(2) by (simp add: su_run_def cancellation_barrier_def)
  then have held2: "tomb_held (?t0 + CANCEL_TOMBSTONE_TTL) target (ws_cancellations ?s2)"
    by (simp add: tombstones_record_def Let_def tomb_held_def hm_get_insert)
  have run: "su_run pack_id manifest ops fresh = su_run pack_id manifest after ?s2"
    by (simp add: ops_def su_run_def)
  have sets: "?R2 \<union> \<Union> (set (map (cancels_since ?t0) after)) = \<Union> (set (map (cancels_since ?t0) ops))"
    by (simp add: ops_def Un_assoc)
  have held: "tomb_held deadline target (ws_cancellations (su_run pack_id manifest ops fresh))"
    unfolding run deadline_def
    by (rule su_run_held [OF ok2 held2]) (use assms(5,6) sets in \<open>simp_all add: deadline_def\<close>)
  have "hm_wf (ws_cancellations (su_run pack_id manifest ops fresh))"
    using su_run_tombs [OF empty, of ops pack_id manifest] by (simp add: tombs_ok_def)
  from barrier_stops [OF this held assms(8,7)] assms(7) show ?thesis
    by (cases call) (auto split: prod.splits option.splits)
qed


section \<open>A sample supervisor\<close>

text \<open>A write whose worker is lost: the worker is replaced and the write is not sent again.\<close>

definition sample_wire :: WireContext where
  "sample_wire = \<lparr>wx_request_id = ''r1'', wx_session_id = ''s'', wx_deadline_unix_ms = 1000, wx_max_rows = 10,
     wx_max_bytes = 1000\<rparr>"

definition sample_write :: ConnectorCall where
  "sample_write = Call_Execute sample_wire pg_profile pg_secret sample_update"

definition sample_pack :: PackManifest where
  "sample_pack = \<lparr>pm_pack_id = ''sql'', pm_pack_version = ''1'', pm_protocol_version = 4, pm_connectors = [pg_manifest]\<rparr>"

definition sample_worker :: "nat WorkerState" where
  "sample_worker = \<lparr>ws_generation = 0, ws_client = 0, ws_stopping = False, ws_cancellations = []\<rparr>"

definition sample_sv_surroundings :: "nat SvSurroundings" where
  "sample_sv_surroundings = \<lparr>sx_recorded = 0, sx_now = 1, sx_result = Inl Ipc_WorkerExited,
     sx_spawned = Inr (1, Some (Inr (Reply_PackManifest sample_pack)))\<rparr>"

definition sample_sv_events :: "(nat SvCall \<times> nat SvReply) list" where
  "sample_sv_events =
     [(Sv_Enter ''r1'' sample_write, Svr_Entered 0 0),
      (Sv_Client 0 ''r1'' sample_write, Svr_Result (Inl Ipc_WorkerExited)),
      (Sv_Recover 0, Svr_Recovered (Inr 1))]"

lemma sample_sv_performed:
  "list_all (\<lambda>(q, r). fst (sv_perform ''sql'' sample_pack sample_sv_surroundings q sample_worker) = r) sample_sv_events"
  unfolding sample_sv_events_def by code_simp

lemma sample_sv_possible: "sv_possible sample_sv_events"
  using sample_sv_performed unfolding sv_possible_def list_all_iff by fast

lemma sample_sv_path:
  "path (supervisor_call ''r1'' sample_write) sample_sv_events (Return (Inl Ipc_WorkerExited))"
  by (simp add: supervisor_call_def recover_call_def sample_sv_events_def path_Do path_Return sv_result_def
      restartable_def sample_write_def sample_update_def)

theorem interrupted_write_not_resent_witness:
  "length (filter is_sent sample_sv_events) = 1 \<and> \<not> safe_to_retry sample_write \<and>
   length (filter is_sent sample_sv_events) \<le> 1"
  using interrupted_write_not_resent [OF sample_sv_path]
  by (simp add: sample_sv_events_def sample_write_def sample_update_def)

lemma sample_proxy_path:
  "path (proxy_execute pg_manifest sample_wire pg_profile pg_secret sample_update) sample_sv_events
     (Return (Inl (ipc_error Ipc_WorkerExited True)))"
  unfolding proxy_execute_def proxy_call_def path_map_return
  by (rule exI [of _ "Return (Inl Ipc_WorkerExited)"])
    (use sample_sv_path in \<open>simp add: sample_write_def sample_wire_def sample_update_def proxy_answer_def res_simps\<close>)


theorem cancelled_request_not_dispatched_witness:
  "fst (sv_perform ''sql'' sample_pack sample_sv_surroundings (Sv_Retry ''r1'' sample_write)
     (su_run ''sql'' sample_pack [Su_Call sample_sv_surroundings (Sv_Enter ''c1'' (Call_Cancel ''r1''))] sample_worker))
   = Svr_Retry (Some cancelled_before_dispatch_reply)"
  using cancelled_request_not_dispatched [where fresh = sample_worker and pack_id = "''sql''" and manifest = sample_pack
      and before = "[]" and after = "[]" and x = sample_sv_surroundings and y = sample_sv_surroundings
      and rid = "''c1''" and target = "''r1''" and call = sample_write]
  by (simp add: sample_worker_def su_run_def sample_sv_surroundings_def CANCEL_TOMBSTONE_TTL_def
      CANCEL_TOMBSTONE_CAPACITY_def nanos_per_second_def sample_write_def)

end
