(* ===== verification/Worker.thy ===== *)
theory Worker
  imports Ipc_Supervisor Registry
begin

text \<open>
  The worker process of a connector pack (\<open>apps/sql-connector/src/worker.rs\<close>): the life cycle of
  its data calls with the tombstones of cancelled ones, the dispatch of a call to a registered
  connector, and the loop that reads requests and runs each in a task of its own. A
  cancellation token is an index into a list of flags. The connectors are values of
  type \<open>'c\<close>, and what they answer is given by a \<open>connector_ops\<close> record.
\<close>

section \<open>The life cycle of data calls\<close>

definition MAX_CONCURRENT_DATA_CALLS :: nat where
  "MAX_CONCURRENT_DATA_CALLS = 32"

definition MAX_CANCEL_TOMBSTONES :: nat where
  "MAX_CANCEL_TOMBSTONES = 4096"

definition WORKER_TOMBSTONE_TTL :: int where
  "WORKER_TOMBSTONE_TTL = 5 * 60 * nanos_per_second"

record ActiveRequestState =
  ar_connection_id :: ConnectionId
  ar_cancellation :: nat

record RequestLifecycle =
  lc_active :: "(string, ActiveRequestState) hashmap"
  lc_cancelled :: "(string, Instant) hashmap"
  lc_cancelled_order :: "(string \<times> Instant) list"
  lc_tokens :: "bool list"

definition RequestLifecycle_new :: RequestLifecycle where
  "RequestLifecycle_new = \<lparr>lc_active = [], lc_cancelled = [], lc_cancelled_order = [], lc_tokens = []\<rparr>"

record ActiveDataRequest =
  ad_request_id :: string
  ad_cancellation :: nat
  ad_write :: bool

datatype BeginDataCallError = AlreadyActive | BeginCancelled

text \<open>The loop of \<open>prune_cancelled\<close> over the queue; \<open>saturating_duration_since\<close> is cut off at zero.\<close>

fun prune_queue ::
  "Instant \<Rightarrow> (string \<times> Instant) list \<Rightarrow> (string, Instant) hashmap
     \<Rightarrow> (string \<times> Instant) list \<times> (string, Instant) hashmap" where
  "prune_queue now [] cancelled = ([], cancelled)"
| "prune_queue now ((request_id, created) # order) cancelled =
     (if max 0 (now - created) \<ge> WORKER_TOMBSTONE_TTL then prune_queue now order (hm_remove request_id cancelled)
      else ((request_id, created) # order, cancelled))"

definition prune_cancelled :: "Instant \<Rightarrow> RequestLifecycle \<Rightarrow> RequestLifecycle" where
  "prune_cancelled now s =
     (case prune_queue now (lc_cancelled_order s) (lc_cancelled s) of
        (order, cancelled) \<Rightarrow> s\<lparr>lc_cancelled_order := order, lc_cancelled := cancelled\<rparr>)"

text \<open>The loop of \<open>insert_cancelled\<close> that drops the oldest tombstones.\<close>

fun shrink_queue ::
  "(string \<times> Instant) list \<Rightarrow> (string, Instant) hashmap
     \<Rightarrow> (string \<times> Instant) list \<times> (string, Instant) hashmap" where
  "shrink_queue [] cancelled = ([], cancelled)"
| "shrink_queue ((oldest_request_id, created) # order) cancelled =
     (if length cancelled \<ge> MAX_CANCEL_TOMBSTONES then shrink_queue order (hm_remove oldest_request_id cancelled)
      else ((oldest_request_id, created) # order, cancelled))"

definition insert_cancelled :: "string \<Rightarrow> Instant \<Rightarrow> RequestLifecycle \<Rightarrow> RequestLifecycle" where
  "insert_cancelled request_id created s =
     (if hm_get (lc_cancelled s) request_id \<noteq> None then s
      else
        case shrink_queue (lc_cancelled_order s) (lc_cancelled s) of
          (order, cancelled) \<Rightarrow>
            s\<lparr>lc_cancelled := hm_insert request_id created cancelled,
              lc_cancelled_order := order @ [(request_id, created)]\<rparr>)"

definition lc_begin ::
  "Instant \<Rightarrow> string \<Rightarrow> ConnectionId \<Rightarrow> bool \<Rightarrow> RequestLifecycle
     \<Rightarrow> (BeginDataCallError + ActiveDataRequest) \<times> RequestLifecycle" where
  "lc_begin now request_id connection_id write s =
     (let s = prune_cancelled now s in
      if hm_get (lc_active s) request_id \<noteq> None then (Inl AlreadyActive, s)
      else if hm_get (lc_cancelled s) request_id \<noteq> None then (Inl BeginCancelled, s)
      else
        let token = length (lc_tokens s) in
        (Inr \<lparr>ad_request_id = request_id, ad_cancellation = token, ad_write = write\<rparr>,
         s\<lparr>lc_tokens := lc_tokens s @ [False],
           lc_active := hm_insert request_id
             \<lparr>ar_connection_id = connection_id, ar_cancellation = token\<rparr> (lc_active s)\<rparr>))"

definition cancel_token :: "nat \<Rightarrow> RequestLifecycle \<Rightarrow> RequestLifecycle" where
  "cancel_token token s = s\<lparr>lc_tokens := (lc_tokens s)[token := True]\<rparr>"

definition lc_cancel :: "Instant \<Rightarrow> string \<Rightarrow> RequestLifecycle \<Rightarrow> RequestLifecycle" where
  "lc_cancel now request_id s =
     (let s = prune_cancelled now s in
      case hm_get (lc_active s) request_id of
        Some active \<Rightarrow> cancel_token (ar_cancellation active) s
      | None \<Rightarrow> insert_cancelled request_id now s)"

definition lc_cancel_connection :: "ConnectionId \<Rightarrow> RequestLifecycle \<Rightarrow> RequestLifecycle" where
  "lc_cancel_connection connection_id s =
     foldr (\<lambda>(_, active) s. if ar_connection_id active = connection_id
         then cancel_token (ar_cancellation active) s else s) (lc_active s) s"

definition lc_finish :: "Instant \<Rightarrow> string \<Rightarrow> nat \<Rightarrow> RequestLifecycle \<Rightarrow> RequestLifecycle" where
  "lc_finish now request_id cancellation s =
     (let removed = hm_get (lc_active s) request_id;
          s = s\<lparr>lc_active := hm_remove request_id (lc_active s)\<rparr> in
      if removed \<noteq> None \<and> lc_tokens s ! cancellation
      then insert_cancelled request_id now (prune_cancelled now s) else s)"

section \<open>Requests\<close>

fun worker_operation_is_write :: "DataOperation \<Rightarrow> bool" where
  "worker_operation_is_write (Op_Insert _) = True"
| "worker_operation_is_write (Op_Update _) = True"
| "worker_operation_is_write (Op_Delete _) = True"
| "worker_operation_is_write (Op_NativeExecute _) = True"
| "worker_operation_is_write (Op_VectorUpsert _) = True"
| "worker_operation_is_write (Op_TimeSeriesWrite _) = True"
| "worker_operation_is_write _ = False"

fun data_call_metadata :: "ConnectorCall \<Rightarrow> (ConnectionId \<times> bool) option" where
  "data_call_metadata (Call_TestConnection _ profile _) = Some (pr_id profile, False)"
| "data_call_metadata (Call_SearchCatalog _ profile _ _) = Some (pr_id profile, False)"
| "data_call_metadata (Call_DescribeEntity _ profile _ _) = Some (pr_id profile, False)"
| "data_call_metadata (Call_Execute _ profile _ operation) =
     Some (pr_id profile, worker_operation_is_write operation)"
| "data_call_metadata _ = None"

definition worker_busy_error :: ConnectorReply where
  "worker_busy_error =
     Reply_Error (with_code ''busy'' (with_retryable True
       (ConnectorError_new Cat_RateLimited ''connector worker is busy'')))"

fun begin_data_call_error :: "BeginDataCallError \<Rightarrow> ConnectorReply" where
  "begin_data_call_error AlreadyActive =
     Reply_Error (ConnectorError_new Cat_Conflict ''a request with this request_id is already running'')"
| "begin_data_call_error BeginCancelled =
     Reply_Error (ConnectorError_new Cat_Cancelled ''request cancelled before dispatch'')"

definition cancellation_reply :: "bool \<Rightarrow> ConnectorReply" where
  "cancellation_reply write_may_have_started =
     Reply_Error (if write_may_have_started then ConnectorError_new Cat_UnknownOutcome
         ''write cancellation requested; the server outcome is unknown''
       else ConnectorError_new Cat_Cancelled ''request cancelled'')"

definition protocol_error :: "string \<Rightarrow> ConnectorReply" where
  "protocol_error message = Reply_Error (ConnectorError_new Cat_Protocol message)"

text \<open>The wire deadline against the worker's clocks; \<open>checked_sub\<close> fails outside of \<open>i64\<close>.\<close>

definition context_from_wire ::
  "DateTime \<Rightarrow> Instant \<Rightarrow> string \<Rightarrow> WireContext \<Rightarrow> ConnectorError + ConnectorContext" where
  "context_from_wire now instant envelope_request_id wire =
     (if wx_request_id wire \<noteq> envelope_request_id then
        Inl (ConnectorError_new Cat_Protocol ''wire context request id does not match its envelope'')
      else if wx_session_id wire = [] \<or> wx_max_rows wire = 0 \<or> wx_max_bytes wire = 0 then
        Inl (ConnectorError_new Cat_InvalidRequest ''worker context requires a session id and non-zero limits'')
      else
        let remaining_ms = sint (wx_deadline_unix_ms wire) - timestamp_millis now;
            expired = Inl (ConnectorError_new Cat_Timeout ''worker request deadline has expired'') in
        if \<not> (- (2 ^ 63) \<le> remaining_ms \<and> remaining_ms < 2 ^ 63) then expired
        else if remaining_ms \<le> 0 then expired
        else Inr \<lparr>cx_request_id = wx_request_id wire, cx_session_id = wx_session_id wire,
          cx_deadline = instant + remaining_ms * 1000000, cx_max_rows = wx_max_rows wire,
          cx_max_bytes = wx_max_bytes wire\<rparr>)"

fun product_debug :: "Product \<Rightarrow> string" where
  "product_debug PostgreSql = ''PostgreSql''" | "product_debug MySql = ''MySql''"
| "product_debug Oracle = ''Oracle''" | "product_debug SqlServer = ''SqlServer''"
| "product_debug MongoDb = ''MongoDb''" | "product_debug Couchbase = ''Couchbase''"
| "product_debug Cassandra = ''Cassandra''" | "product_debug HBase = ''HBase''"
| "product_debug InfluxDb = ''InfluxDb''" | "product_debug Prometheus = ''Prometheus''"
| "product_debug Elasticsearch = ''Elasticsearch''" | "product_debug OpenSearch = ''OpenSearch''"
| "product_debug Splunk = ''Splunk''" | "product_debug Pinecone = ''Pinecone''"
| "product_debug Milvus = ''Milvus''" | "product_debug Qdrant = ''Qdrant''"
| "product_debug Weaviate = ''Weaviate''" | "product_debug CockroachDb = ''CockroachDb''"
| "product_debug TiDb = ''TiDb''" | "product_debug YugabyteDb = ''YugabyteDb''"
| "product_debug OceanBase = ''OceanBase''"

text \<open>The text of the only error \<open>resolve\<close> has.\<close>

definition connector_not_found_text :: "Product \<Rightarrow> string \<Rightarrow> string" where
  "connector_not_found_text product api_mode =
     ''no connector is registered for '' @ product_debug product @ ''/'' @ api_mode"

definition prepare ::
  "DateTime \<Rightarrow> Instant \<Rightarrow> 'c ConnectorRegistry \<Rightarrow> string \<Rightarrow> WireContext \<Rightarrow> ConnectionProfile \<Rightarrow> SecretMaterial
     \<Rightarrow> ConnectorError + 'c \<times> ConnectorContext" where
  "prepare now instant registry envelope_request_id wire profile secret =
     (if pr_auth_kind profile \<noteq> sm_kind secret then
        Inl (ConnectorError_new Cat_Authentication ''worker secret kind does not match the profile'')
      else
        bind_res (context_from_wire now instant envelope_request_id wire) (\<lambda>cx.
        bind_res (map_err (\<lambda>_. ConnectorError_new Cat_Unavailable
              (connector_not_found_text (pr_product profile) (pr_api_mode profile)))
            (resolve (pr_product profile) (pr_api_mode profile) registry)) (\<lambda>connector.
        Inr (connector, cx))))"

record 'c connector_ops =
  co_test_connection ::
    "'c \<Rightarrow> ConnectorContext \<Rightarrow> ConnectionProfile \<Rightarrow> SecretMaterial \<Rightarrow> ConnectorError + ConnectionInfo"
  co_search_catalog_page ::
    "'c \<Rightarrow> ConnectorContext \<Rightarrow> ConnectionProfile \<Rightarrow> SecretMaterial \<Rightarrow> CatalogQuery \<Rightarrow> ConnectorError + CatalogPage"
  co_describe_entity ::
    "'c \<Rightarrow> ConnectorContext \<Rightarrow> ConnectionProfile \<Rightarrow> SecretMaterial \<Rightarrow> string \<Rightarrow> ConnectorError + EntityDescription"
  co_execute ::
    "'c \<Rightarrow> ConnectorContext \<Rightarrow> ConnectionProfile \<Rightarrow> SecretMaterial \<Rightarrow> DataOperation \<Rightarrow> ConnectorError + OperationResult"
  co_cancel :: "'c \<Rightarrow> string \<Rightarrow> ConnectorError + unit"

record 'c worker_env =
  we_ops :: "'c connector_ops"
  we_manifest :: "'c \<Rightarrow> ConnectorManifest"
  we_version :: string
  we_ipc :: ipc_env

definition reply_of :: "ConnectorError + ConnectorReply \<Rightarrow> ConnectorReply" where
  "reply_of result = (case result of Inr reply \<Rightarrow> reply | Inl e \<Rightarrow> Reply_Error e)"

fun first_error :: "(ConnectorError + unit) list \<Rightarrow> ConnectorError option" where
  "first_error [] = None"
| "first_error (Inl e # rest) = Some e"
| "first_error (Inr _ # rest) = first_error rest"

text \<open>\<open>None\<close> is the panic for \<open>Shutdown\<close>, which the loop handles itself.\<close>

fun dispatch ::
  "'c worker_env \<Rightarrow> DateTime \<Rightarrow> Instant \<Rightarrow> string \<Rightarrow> string \<Rightarrow> 'c ConnectorRegistry \<Rightarrow> ConnectorCall
     \<Rightarrow> ConnectorReply option" where
  "dispatch env now instant pack_id rid registry Call_GetPackManifest =
     Some (Reply_PackManifest \<lparr>pm_pack_id = pack_id, pm_pack_version = we_version env,
       pm_protocol_version = PROTOCOL_VERSION, pm_connectors = manifests (we_manifest env) registry\<rparr>)"
| "dispatch env now instant pack_id rid registry (Call_TestConnection wire profile secret) =
     Some (reply_of (bind_res (prepare now instant registry rid wire profile secret) (\<lambda>(connector, cx).
       map_res Reply_ConnectionInfo (co_test_connection (we_ops env) connector cx profile secret))))"
| "dispatch env now instant pack_id rid registry (Call_SearchCatalog wire profile secret request) =
     Some (reply_of (bind_res (prepare now instant registry rid wire profile secret) (\<lambda>(connector, cx).
       map_res Reply_Catalog (co_search_catalog_page (we_ops env) connector cx profile secret request))))"
| "dispatch env now instant pack_id rid registry (Call_DescribeEntity wire profile secret entity_id) =
     Some (reply_of (bind_res (prepare now instant registry rid wire profile secret) (\<lambda>(connector, cx).
       map_res Reply_Entity (co_describe_entity (we_ops env) connector cx profile secret entity_id))))"
| "dispatch env now instant pack_id rid registry (Call_Execute wire profile secret operation) =
     Some (reply_of (bind_res (prepare now instant registry rid wire profile secret) (\<lambda>(connector, cx).
       map_res Reply_Operation (co_execute (we_ops env) connector cx profile secret operation))))"
| "dispatch env now instant pack_id rid registry (Call_Cancel request_id) =
     Some (case first_error (map (\<lambda>connector. co_cancel (we_ops env) connector request_id) (registry_all registry)) of
         None \<Rightarrow> Reply_Acknowledged | Some e \<Rightarrow> Reply_Error e)"
| "dispatch env now instant pack_id rid registry (Call_InvalidateConnection connection_id) =
     Some Reply_Acknowledged"
| "dispatch env now instant pack_id rid registry Call_Shutdown = None"

text \<open>A trailing run of dots and semicolons is taken off the message.\<close>

definition trim_end_marks :: "string \<Rightarrow> string" where
  "trim_end_marks message = rev (dropWhile (\<lambda>c. c \<in> {CHR ''.'', CHR '';''}) (rev message))"

definition normalize_cancelled_write :: "ConnectorReply \<Rightarrow> bool \<Rightarrow> ConnectorReply" where
  "normalize_cancelled_write reply write =
     (case reply of
        Reply_Error e \<Rightarrow>
          if write \<and> ce_category e = Cat_Cancelled then
            Reply_Error (e\<lparr>ce_category := Cat_UnknownOutcome,
              ce_message := trim_end_marks (ce_message e) @ ''; the write outcome is unknown'',
              ce_retryable := False\<rparr>)
          else reply
      | _ \<Rightarrow> reply)"

text \<open>
  The race of a data call against its cancellation: it was cancelled before the call was
  started, or while the connector worked on it, or the connector came first.
\<close>

datatype Race = Cancelled_First | Cancelled_During | Connector_First

definition dispatch_data :: "Race \<Rightarrow> bool \<Rightarrow> ConnectorReply option \<Rightarrow> ConnectorReply option" where
  "dispatch_data race write dispatched =
     (case race of
        Cancelled_First \<Rightarrow> Some (cancellation_reply False)
      | Cancelled_During \<Rightarrow> Some (cancellation_reply write)
      | Connector_First \<Rightarrow> map_option (\<lambda>reply. normalize_cancelled_write reply write) dispatched)"

definition write_reply ::
  "ipc_env \<Rightarrow> (string \<times> nat) option \<Rightarrow> string \<Rightarrow> ConnectorReply \<Rightarrow> string \<Rightarrow> (IpcError + unit) \<times> string" where
  "write_reply env fault request_id reply out =
     (case Envelope_response env request_id reply of
        Inl e \<Rightarrow> (Inl e, out)
      | Inr envelope \<Rightarrow> write_envelope env fault envelope out)"

end
