(* ===== verification/Worker_Cancellation.thy ===== *)
theory Worker_Cancellation
  imports Worker
begin

text \<open>
  What cancellation does in a worker: the queue of tombstones and its map agree, a running
  request has none, and from a cancellation on the request is blocked, by its cancelled token
  while it runs and by its tombstone afterwards.
\<close>

section \<open>The tombstone queue\<close>

lemma hm_remove_set: "set (hm_remove k m) = {(k', v) \<in> set m. k' \<noteq> k}"
  by (auto simp: hm_remove_def AList.delete_eq)

lemma hm_insert_new: "hm_get m k = None \<Longrightarrow> hm_insert k v m = m @ [(k, v)]"
  by (induction m) (auto simp: hm_get_def hm_insert_def split: if_splits)

definition queue_ok :: "(string \<times> Instant) list \<Rightarrow> (string, Instant) hashmap \<Rightarrow> bool" where
  "queue_ok order cancelled \<longleftrightarrow> hm_wf cancelled \<and> distinct (map fst order) \<and> set cancelled = set order"

lemma queue_ok_length: "queue_ok order cancelled \<Longrightarrow> length cancelled = length order"
  by (metis queue_ok_def hm_wf_def distinct_map distinct_card)

lemma queue_ok_pop:
  assumes "queue_ok ((rid, created) # order) cancelled"
  shows "queue_ok order (hm_remove rid cancelled)"
proof -
  have "rid \<notin> fst ` set order" using assms by (simp add: queue_ok_def)
  then show ?thesis using assms by (force simp: queue_ok_def hm_remove_set hm_wf_remove)
qed

lemma queue_ok_get: "queue_ok order cancelled \<Longrightarrow> hm_get cancelled rid = Some c \<longleftrightarrow> (rid, c) \<in> set order"
  by (simp add: queue_ok_def hm_get_set)

lemma queue_ok_None: "queue_ok order cancelled \<Longrightarrow> hm_get cancelled rid = None \<longleftrightarrow> rid \<notin> fst ` set order"
  by (simp add: queue_ok_def hm_get_def map_of_eq_None_iff)

text \<open>Both loops take entries off the front: the expired ones, and those that make it too long.\<close>

lemma prune_queue_drops:
  "queue_ok order cancelled \<Longrightarrow> \<exists>n. fst (prune_queue now order cancelled) = drop n order \<and>
     (\<forall>(_, created) \<in> set (take n order). now - created \<ge> WORKER_TOMBSTONE_TTL) \<and>
     queue_ok (fst (prune_queue now order cancelled)) (snd (prune_queue now order cancelled))"
proof (induction now order cancelled rule: prune_queue.induct)
  case (2 now rid created order cancelled)
  show ?case
  proof (cases "max 0 (now - created) \<ge> WORKER_TOMBSTONE_TTL")
    case True
    then have exp: "now - created \<ge> WORKER_TOMBSTONE_TTL"
      by (simp add: WORKER_TOMBSTONE_TTL_def nanos_per_second_def)
    from "2.IH" [OF True queue_ok_pop [OF "2.prems"]] obtain n where
      "fst (prune_queue now order (hm_remove rid cancelled)) = drop n order"
      "\<forall>(_, created) \<in> set (take n order). now - created \<ge> WORKER_TOMBSTONE_TTL"
      "queue_ok (fst (prune_queue now order (hm_remove rid cancelled)))
        (snd (prune_queue now order (hm_remove rid cancelled)))" by blast
    then show ?thesis using True exp by (intro exI [of _ "Suc n"]) simp
  next
    case False
    then show ?thesis using "2.prems" by (intro exI [of _ 0]) simp
  qed
qed (intro exI [of _ 0], simp)

lemma shrink_queue_drops:
  "queue_ok order cancelled \<Longrightarrow> \<exists>n. fst (shrink_queue order cancelled) = drop n order \<and>
     (\<forall>i < n. MAX_CANCEL_TOMBSTONES \<le> length (drop i order)) \<and>
     length (drop n order) < MAX_CANCEL_TOMBSTONES \<and>
     queue_ok (fst (shrink_queue order cancelled)) (snd (shrink_queue order cancelled))"
proof (induction order cancelled rule: shrink_queue.induct)
  case (2 rid created order cancelled)
  show ?case
  proof (cases "MAX_CANCEL_TOMBSTONES \<le> length cancelled")
    case True
    then have full: "MAX_CANCEL_TOMBSTONES \<le> length ((rid, created) # order)"
      using queue_ok_length [OF "2.prems"] by simp
    from "2.IH" [OF True queue_ok_pop [OF "2.prems"]] obtain n where n:
      "fst (shrink_queue order (hm_remove rid cancelled)) = drop n order"
      "\<forall>i < n. MAX_CANCEL_TOMBSTONES \<le> length (drop i order)" "length (drop n order) < MAX_CANCEL_TOMBSTONES"
      "queue_ok (fst (shrink_queue order (hm_remove rid cancelled)))
        (snd (shrink_queue order (hm_remove rid cancelled)))" by blast
    have "\<forall>i < Suc n. MAX_CANCEL_TOMBSTONES \<le> length (drop i ((rid, created) # order))"
    proof (intro allI impI)
      fix i assume "i < Suc n"
      then show "MAX_CANCEL_TOMBSTONES \<le> length (drop i ((rid, created) # order))"
        using full n(2) by (cases i) simp_all
    qed
    then show ?thesis using True n by (intro exI [of _ "Suc n"]) simp
  next
    case False
    then show ?thesis using "2.prems" queue_ok_length [OF "2.prems"] by (intro exI [of _ 0]) simp
  qed
qed (intro exI [of _ 0], simp add: MAX_CANCEL_TOMBSTONES_def)

section \<open>The invariant of the life cycle\<close>

definition active_ok :: "RequestLifecycle \<Rightarrow> bool" where
  "active_ok s \<longleftrightarrow> hm_wf (lc_active s) \<and>
     (\<forall>rid a. hm_get (lc_active s) rid = Some a \<longrightarrow> ar_cancellation a < length (lc_tokens s))"

definition lc_ok :: "RequestLifecycle \<Rightarrow> bool" where
  "lc_ok s \<longleftrightarrow> active_ok s \<and> queue_ok (lc_cancelled_order s) (lc_cancelled s) \<and>
     length (lc_cancelled s) \<le> MAX_CANCEL_TOMBSTONES"

lemma lc_ok_None: "lc_ok s \<Longrightarrow> hm_get (lc_cancelled s) rid = None \<longleftrightarrow> rid \<notin> fst ` set (lc_cancelled_order s)"
  unfolding lc_ok_def using queue_ok_None by blast

lemma lc_ok_new: "lc_ok RequestLifecycle_new"
  by (simp add: lc_ok_def active_ok_def queue_ok_def RequestLifecycle_new_def)

lemma prune_cancelled_same [simp]:
  "lc_active (prune_cancelled now s) = lc_active s" "lc_tokens (prune_cancelled now s) = lc_tokens s"
  by (simp_all add: prune_cancelled_def split_beta)

lemma insert_cancelled_same [simp]:
  "lc_active (insert_cancelled rid created s) = lc_active s"
  "lc_tokens (insert_cancelled rid created s) = lc_tokens s"
  by (simp_all add: insert_cancelled_def split_beta)

lemma prune_cancelled_drops:
  assumes "lc_ok s"
  obtains n where "lc_cancelled_order (prune_cancelled now s) = drop n (lc_cancelled_order s)"
    "\<forall>(_, created) \<in> set (take n (lc_cancelled_order s)). now - created \<ge> WORKER_TOMBSTONE_TTL"
    "lc_ok (prune_cancelled now s)"
proof -
  have q: "queue_ok (lc_cancelled_order s) (lc_cancelled s)" using assms by (simp add: lc_ok_def)
  obtain n where n: "fst (prune_queue now (lc_cancelled_order s) (lc_cancelled s)) = drop n (lc_cancelled_order s)"
    "\<forall>(_, created) \<in> set (take n (lc_cancelled_order s)). now - created \<ge> WORKER_TOMBSTONE_TTL"
    "queue_ok (fst (prune_queue now (lc_cancelled_order s) (lc_cancelled s)))
       (snd (prune_queue now (lc_cancelled_order s) (lc_cancelled s)))"
    using prune_queue_drops [OF q] by blast
  have "length (lc_cancelled_order s) \<le> MAX_CANCEL_TOMBSTONES"
    using assms queue_ok_length [OF q] by (simp add: lc_ok_def)
  then have "length (drop n (lc_cancelled_order s)) \<le> MAX_CANCEL_TOMBSTONES" by simp
  with n show thesis using that [of n] assms queue_ok_length [OF n(3)]
    by (simp add: prune_cancelled_def split_beta lc_ok_def active_ok_def)
qed

lemma insert_cancelled_drops:
  assumes "lc_ok s" "hm_get (lc_cancelled s) rid = None"
  obtains n where "lc_cancelled_order (insert_cancelled rid created s) = drop n (lc_cancelled_order s) @ [(rid, created)]"
    "\<forall>i < n. MAX_CANCEL_TOMBSTONES \<le> length (drop i (lc_cancelled_order s))"
    "lc_ok (insert_cancelled rid created s)"
proof -
  let ?o = "lc_cancelled_order s" and ?q = "shrink_queue (lc_cancelled_order s) (lc_cancelled s)"
  have q: "queue_ok ?o (lc_cancelled s)" using assms by (simp add: lc_ok_def)
  obtain n where n: "fst ?q = drop n ?o" "\<forall>i < n. MAX_CANCEL_TOMBSTONES \<le> length (drop i ?o)"
    "length (drop n ?o) < MAX_CANCEL_TOMBSTONES" "queue_ok (fst ?q) (snd ?q)"
    using shrink_queue_drops [OF q] by blast
  have "rid \<notin> fst ` set ?o" using queue_ok_None [OF q] assms(2) by blast
  then have new: "rid \<notin> fst ` set (fst ?q)" using set_drop_subset [of n ?o] by (auto simp: n(1))
  then have none: "hm_get (snd ?q) rid = None" using queue_ok_None [OF n(4)] by blast
  have "set (hm_insert rid created (snd ?q)) = insert (rid, created) (set (snd ?q))"
    by (simp add: hm_insert_new [OF none])
  then have "queue_ok (fst ?q @ [(rid, created)]) (hm_insert rid created (snd ?q))"
    using n(4) new by (auto simp: queue_ok_def hm_wf_insert)
  moreover have "length (hm_insert rid created (snd ?q)) \<le> MAX_CANCEL_TOMBSTONES"
    using n(1,3) none queue_ok_length [OF n(4)] by (simp add: hm_length_insert_new)
  ultimately show thesis using that [of n] assms n(1,2)
    by (simp add: insert_cancelled_def split_beta lc_ok_def active_ok_def)
qed


text \<open>A step of the life cycle, with the guards of the running data calls.\<close>

datatype LcOp =
    Lc_Begin Instant string ConnectionId bool
  | Lc_Cancel Instant string
  | Lc_CancelConnection ConnectionId
  | Lc_Drop Instant string

type_synonym Lifecycle = "RequestLifecycle \<times> ActiveDataRequest list"

fun lc_apply :: "LcOp \<Rightarrow> Lifecycle \<Rightarrow> Lifecycle" where
  "lc_apply (Lc_Begin now rid cid write) (s, gs) =
     (case lc_begin now rid cid write s of
        (Inr g, s) \<Rightarrow> (s, gs @ [g])
      | (Inl _, s) \<Rightarrow> (s, gs))"
| "lc_apply (Lc_Cancel now rid) (s, gs) = (lc_cancel now rid s, gs)"
| "lc_apply (Lc_CancelConnection cid) (s, gs) = (lc_cancel_connection cid s, gs)"
| "lc_apply (Lc_Drop now rid) (s, gs) =
     (case find (\<lambda>g. ad_request_id g = rid) gs of
        None \<Rightarrow> (s, gs)
      | Some g \<Rightarrow> (lc_finish now rid (ad_cancellation g) s, filter (\<lambda>g. ad_request_id g \<noteq> rid) gs))"

definition guards_ok :: "RequestLifecycle \<Rightarrow> ActiveDataRequest list \<Rightarrow> bool" where
  "guards_ok s gs \<longleftrightarrow> distinct (map ad_request_id gs) \<and>
     (\<forall>rid k. (\<exists>a. hm_get (lc_active s) rid = Some a \<and> ar_cancellation a = k) \<longleftrightarrow>
        (\<exists>g \<in> set gs. ad_request_id g = rid \<and> ad_cancellation g = k))"

text \<open>A running request has no tombstone.\<close>

definition exclusive :: "RequestLifecycle \<Rightarrow> bool" where
  "exclusive s \<longleftrightarrow> (\<forall>rid. hm_get (lc_active s) rid \<noteq> None \<longrightarrow> rid \<notin> fst ` set (lc_cancelled_order s))"

definition lifecycle_ok :: "Lifecycle \<Rightarrow> bool" where
  "lifecycle_ok l \<longleftrightarrow> lc_ok (fst l) \<and> exclusive (fst l) \<and> guards_ok (fst l) (snd l)"

lemma guards_ok_running:
  "guards_ok s gs \<Longrightarrow> g \<in> set gs \<Longrightarrow>
     \<exists>a. hm_get (lc_active s) (ad_request_id g) = Some a \<and> ar_cancellation a = ad_cancellation g"
  unfolding guards_ok_def by blast

lemma guards_ok_active:
  "guards_ok s gs \<Longrightarrow> lc_active s' = lc_active s \<Longrightarrow> guards_ok s' gs"
  by (simp add: guards_ok_def)

lemma insert_cancelled_ok: "lc_ok s \<Longrightarrow> lc_ok (insert_cancelled rid created s)"
  by (cases "hm_get (lc_cancelled s) rid = None") (auto elim: insert_cancelled_drops simp: insert_cancelled_def)

lemma prune_cancelled_ok: "lc_ok s \<Longrightarrow> lc_ok (prune_cancelled now s)"
  by (auto elim: prune_cancelled_drops)

lemma prune_cancelled_subset:
  assumes "lc_ok s"
  shows "fst ` set (lc_cancelled_order (prune_cancelled now s)) \<subseteq> fst ` set (lc_cancelled_order s)"
proof -
  obtain n where "lc_cancelled_order (prune_cancelled now s) = drop n (lc_cancelled_order s)"
    by (rule prune_cancelled_drops [OF assms])
  then show ?thesis by (simp add: image_mono set_drop_subset)
qed

lemma prune_exclusive: "lc_ok s \<Longrightarrow> exclusive s \<Longrightarrow> exclusive (prune_cancelled now s)"
  using prune_cancelled_subset [of s now] unfolding exclusive_def prune_cancelled_same by blast

lemma insert_exclusive:
  assumes "lc_ok s" "exclusive s" "hm_get (lc_active s) rid = None"
  shows "exclusive (insert_cancelled rid created s)"
proof (cases "hm_get (lc_cancelled s) rid = None")
  case True
  obtain n where n: "lc_cancelled_order (insert_cancelled rid created s) = drop n (lc_cancelled_order s) @ [(rid, created)]"
    by (rule insert_cancelled_drops [OF assms(1) True])
  have "fst ` set (drop n (lc_cancelled_order s)) \<subseteq> fst ` set (lc_cancelled_order s)"
    by (intro image_mono set_drop_subset)
  then show ?thesis using assms(2,3) by (auto simp: exclusive_def n)
qed (use assms in \<open>simp add: insert_cancelled_def\<close>)

lemma cancel_token_same [simp]:
  "lc_active (cancel_token k s) = lc_active s" "length (lc_tokens (cancel_token k s)) = length (lc_tokens s)"
  "lc_cancelled (cancel_token k s) = lc_cancelled s" "lc_cancelled_order (cancel_token k s) = lc_cancelled_order s"
  by (simp_all add: cancel_token_def)

lemma cancel_token_ok: "lc_ok s \<Longrightarrow> lc_ok (cancel_token k s)"
  by (simp add: lc_ok_def active_ok_def)

lemma cancel_token_mono: "lc_tokens s ! k \<Longrightarrow> k < length (lc_tokens s) \<Longrightarrow> lc_tokens (cancel_token k' s) ! k"
  by (cases "k' = k") (simp_all add: cancel_token_def)

text \<open>What cancelling a connection leaves alone, and what it does to the tokens.\<close>

lemma cancel_tokens_fold:
  "let s' = foldr (\<lambda>(_, active) s. if ar_connection_id active = cid then cancel_token (ar_cancellation active) s else s) as s
   in lc_active s' = lc_active s \<and> lc_cancelled s' = lc_cancelled s \<and> lc_cancelled_order s' = lc_cancelled_order s \<and>
     length (lc_tokens s') = length (lc_tokens s) \<and>
     (\<forall>k < length (lc_tokens s). lc_tokens s ! k \<longrightarrow> lc_tokens s' ! k)"
  by (induction as) (auto simp: Let_def cancel_token_mono)

lemmas cancel_connection_same = cancel_tokens_fold [of cid "lc_active s" s for cid s, unfolded lc_cancel_connection_def [symmetric] Let_def]

lemma cancel_connection_ok: "lc_ok s \<Longrightarrow> lc_ok (lc_cancel_connection cid s)"
  using cancel_connection_same [of cid s] by (simp add: lc_ok_def active_ok_def)

lemma lc_cancel_ok: "lc_ok s \<Longrightarrow> lc_ok (lc_cancel now rid s) \<and> lc_active (lc_cancel now rid s) = lc_active s"
  by (simp add: lc_cancel_def Let_def prune_cancelled_ok cancel_token_ok insert_cancelled_ok split: option.splits)

lemma active_remove_ok: "lc_ok s \<Longrightarrow> lc_ok (s\<lparr>lc_active := hm_remove rid (lc_active s)\<rparr>)"
  by (auto simp: lc_ok_def active_ok_def hm_wf_remove hm_get_remove)

lemma lc_finish_ok:
  "lc_ok s \<Longrightarrow> lc_ok (lc_finish now rid k s) \<and> lc_active (lc_finish now rid k s) = hm_remove rid (lc_active s)"
  by (simp add: lc_finish_def Let_def active_remove_ok prune_cancelled_ok insert_cancelled_ok)


lemma lc_cancel_exclusive:
  assumes "lc_ok s" "exclusive s"
  shows "exclusive (lc_cancel now rid s)"
proof -
  have "exclusive (prune_cancelled now s)" by (rule prune_exclusive [OF assms])
  moreover have "lc_ok (prune_cancelled now s)" by (rule prune_cancelled_ok [OF assms(1)])
  ultimately show ?thesis using insert_exclusive [of "prune_cancelled now s" rid now]
    by (simp add: lc_cancel_def Let_def exclusive_def split: option.splits)
qed

lemma lc_finish_exclusive:
  assumes "lc_ok s" "exclusive s"
  shows "exclusive (lc_finish now rid k s)"
proof -
  let ?s = "s\<lparr>lc_active := hm_remove rid (lc_active s)\<rparr>"
  have ok: "lc_ok ?s" "exclusive ?s"
    using active_remove_ok [OF assms(1)] assms(2) by (auto simp: exclusive_def hm_get_remove)
  have "exclusive (insert_cancelled rid now (prune_cancelled now ?s))"
    by (rule insert_exclusive [OF prune_cancelled_ok [OF ok(1)] prune_exclusive [OF ok]]) (simp add: hm_get_remove)
  then show ?thesis using ok(2) by (simp add: lc_finish_def Let_def)
qed

lemma lc_begin_ok:
  assumes "lifecycle_ok (s, gs)"
  shows "lifecycle_ok (lc_apply (Lc_Begin now rid cid w) (s, gs))"
proof -
  let ?s = "prune_cancelled now s"
  have ok: "lc_ok ?s" "exclusive ?s"
    using assms prune_cancelled_ok prune_exclusive by (simp_all add: lifecycle_ok_def)
  have g: "guards_ok ?s gs" using assms by (auto simp: lifecycle_ok_def intro: guards_ok_active)
  show ?thesis
  proof (cases "hm_get (lc_active ?s) rid = None \<and> hm_get (lc_cancelled ?s) rid = None")
    case True
    let ?k = "length (lc_tokens ?s)"
    let ?s' = "?s\<lparr>lc_tokens := lc_tokens ?s @ [False], lc_active := hm_insert rid
      \<lparr>ar_connection_id = cid, ar_cancellation = ?k\<rparr> (lc_active ?s)\<rparr>"
    have new: "rid \<notin> ad_request_id ` set gs" using guards_ok_running [OF g] True by fastforce
    have "rid \<notin> fst ` set (lc_cancelled_order ?s)"
      using True ok(1) queue_ok_None [of "lc_cancelled_order ?s" "lc_cancelled ?s" rid] by (simp add: lc_ok_def)
    then have "exclusive ?s'" using ok(2) by (auto simp: exclusive_def hm_get_insert)
    moreover have "lc_ok ?s'" using ok(1) by (auto simp: lc_ok_def active_ok_def hm_wf_insert hm_get_insert less_Suc_eq)
    moreover have "guards_ok ?s' (gs @ [\<lparr>ad_request_id = rid, ad_cancellation = ?k, ad_write = w\<rparr>])"
      using g new by (auto simp: guards_ok_def hm_get_insert)
    ultimately show ?thesis using True by (simp add: lc_begin_def Let_def lifecycle_ok_def)
  next
    case False
    then show ?thesis using ok g by (auto simp: lc_begin_def Let_def lifecycle_ok_def)
  qed
qed

lemma lc_drop_ok:
  assumes "lifecycle_ok (s, gs)"
  shows "lifecycle_ok (lc_apply (Lc_Drop now rid) (s, gs))"
proof (cases "find (\<lambda>g. ad_request_id g = rid) gs")
  case None
  then show ?thesis using assms by simp
next
  case (Some g)
  have ok: "lc_ok s" "exclusive s" "guards_ok s gs" using assms by (simp_all add: lifecycle_ok_def)
  have "guards_ok (lc_finish now rid (ad_cancellation g) s) (filter (\<lambda>g. ad_request_id g \<noteq> rid) gs)"
    using ok(3) lc_finish_ok [OF ok(1), of now rid "ad_cancellation g"]
    by (auto simp: guards_ok_def hm_get_remove distinct_map_filter)
  then show ?thesis using lc_finish_ok [OF ok(1)] lc_finish_exclusive [OF ok(1,2)] Some
    by (simp add: lifecycle_ok_def)
qed

lemma lc_apply_ok: "lifecycle_ok l \<Longrightarrow> lifecycle_ok (lc_apply op l)"
proof (cases "(op, l)" rule: lc_apply.cases)
  case (2 now rid s gs)
  assume "lifecycle_ok l"
  then show ?thesis using 2 lc_cancel_ok [of s now rid] lc_cancel_exclusive
    by (auto simp: lifecycle_ok_def intro: guards_ok_active)
next
  case (3 cid s gs)
  assume "lifecycle_ok l"
  then show ?thesis using 3 cancel_connection_ok [of s cid] cancel_connection_same [of cid s]
    by (auto simp: lifecycle_ok_def exclusive_def intro: guards_ok_active)
qed (auto simp del: lc_apply.simps intro: lc_begin_ok lc_drop_ok)

definition lc_run :: "LcOp list \<Rightarrow> Lifecycle \<Rightarrow> Lifecycle" where
  "lc_run = fold lc_apply"

lemma lc_run_ok: "lifecycle_ok l \<Longrightarrow> lifecycle_ok (lc_run ops l)"
  unfolding lc_run_def by (induction ops arbitrary: l) (simp_all add: lc_apply_ok)

section \<open>A cancellation sticks\<close>

text \<open>
  The request \<open>rid\<close> cannot be begun: it runs with its token cancelled, or has a tombstone made
  at time \<open>t\<close> or later, after which only those of the requests in \<open>R\<close> were made.
\<close>

definition entombed :: "Instant \<Rightarrow> string \<Rightarrow> string set \<Rightarrow> (string \<times> Instant) list \<Rightarrow> bool" where
  "entombed t rid R order \<longleftrightarrow>
     (\<exists>older c newer. order = older @ (rid, c) # newer \<and> t \<le> c \<and> fst ` set newer \<subseteq> R)"

definition blocked :: "Instant \<Rightarrow> string \<Rightarrow> string set \<Rightarrow> RequestLifecycle \<Rightarrow> bool" where
  "blocked t rid R s \<longleftrightarrow>
     (\<exists>a. hm_get (lc_active s) rid = Some a \<and> lc_tokens s ! ar_cancellation a) \<or>
     entombed t rid R (lc_cancelled_order s)"

lemma entombed_drop:
  assumes "order = older @ (rid, c) # newer" "t \<le> c" "fst ` set newer \<subseteq> R" "n \<le> length older"
  shows "entombed t rid R (drop n order)"
  unfolding entombed_def using assms by (intro exI [of _ "drop n older"]) auto

lemma entombed_prune:
  assumes "lc_ok s" "entombed t rid R (lc_cancelled_order s)" "now < t + WORKER_TOMBSTONE_TTL"
  shows "entombed t rid R (lc_cancelled_order (prune_cancelled now s))"
proof -
  obtain older c newer where o: "lc_cancelled_order s = older @ (rid, c) # newer" "t \<le> c" "fst ` set newer \<subseteq> R"
    using assms(2) by (auto simp: entombed_def)
  obtain n where n: "lc_cancelled_order (prune_cancelled now s) = drop n (lc_cancelled_order s)"
    "\<forall>(_, created) \<in> set (take n (lc_cancelled_order s)). now - created \<ge> WORKER_TOMBSTONE_TTL"
    by (rule prune_cancelled_drops [OF assms(1)])
  have "n \<le> length older"
  proof (rule ccontr)
    assume "\<not> n \<le> length older"
    then have "(rid, c) \<in> set (take n (lc_cancelled_order s))" by (cases "n - length older") (simp_all add: o(1))
    then show False using n(2) o(2) assms(3) by force
  qed
  then show ?thesis unfolding n(1) by (rule entombed_drop [OF o])
qed

lemma entombed_insert:
  assumes "lc_ok s" "entombed t rid R (lc_cancelled_order s)" "rid \<in> R" "finite R" "card R < MAX_CANCEL_TOMBSTONES"
    and "rid' \<in> R"
  shows "entombed t rid R (lc_cancelled_order (insert_cancelled rid' created s))"
proof (cases "hm_get (lc_cancelled s) rid' = None")
  case True
  obtain older c newer where o: "lc_cancelled_order s = older @ (rid, c) # newer" "t \<le> c" "fst ` set newer \<subseteq> R"
    using assms(2) by (auto simp: entombed_def)
  obtain n where n: "lc_cancelled_order (insert_cancelled rid' created s) = drop n (lc_cancelled_order s) @ [(rid', created)]"
    "\<forall>i < n. MAX_CANCEL_TOMBSTONES \<le> length (drop i (lc_cancelled_order s))"
    by (rule insert_cancelled_drops [OF assms(1) True])
  have dist: "distinct (map fst ((rid, c) # newer))"
    using assms(1) by (simp add: lc_ok_def queue_ok_def o(1))
  have "n \<le> length older"
  proof (rule ccontr)
    assume "\<not> n \<le> length older"
    then have "MAX_CANCEL_TOMBSTONES \<le> length ((rid, c) # newer)"
      using n(2) [rule_format, of "length older"] by (simp add: o(1))
    also have "\<dots> = card (set (map fst ((rid, c) # newer)))" using distinct_card [OF dist] by simp
    also have "\<dots> \<le> card R" by (rule card_mono [OF assms(4)]) (use o(3) assms(3) in auto)
    finally show False using assms(5) by simp
  qed
  then have "drop n (lc_cancelled_order s) @ [(rid', created)] = drop n older @ (rid, c) # (newer @ [(rid', created)])"
    by (simp add: o(1))
  then show ?thesis unfolding n(1) entombed_def using o(2,3) assms(6)
    by (intro exI [of _ "drop n older"] exI [of _ c] exI [of _ "newer @ [(rid', created)]"]) auto
next
  case False
  then show ?thesis using assms(2) by (simp add: insert_cancelled_def)
qed

lemma entombed_new:
  assumes "lc_ok s" "hm_get (lc_cancelled s) rid = None" "t \<le> created"
  shows "entombed t rid R (lc_cancelled_order (insert_cancelled rid created s))"
proof -
  obtain n where n: "lc_cancelled_order (insert_cancelled rid created s) = drop n (lc_cancelled_order s) @ [(rid, created)]"
    by (rule insert_cancelled_drops [OF assms(1,2)])
  show ?thesis unfolding n entombed_def using assms(3)
    by (intro exI [of _ "drop n (lc_cancelled_order s)"] exI [of _ created] exI [of _ "[]"]) simp
qed

fun lc_op_ids :: "LcOp \<Rightarrow> string set" where
  "lc_op_ids (Lc_Cancel _ rid) = {rid}"
| "lc_op_ids (Lc_Drop _ rid) = {rid}"
| "lc_op_ids _ = {}"

fun lc_op_between :: "Instant \<Rightarrow> Instant \<Rightarrow> LcOp \<Rightarrow> bool" where
  "lc_op_between t deadline (Lc_Begin now _ _ _) = (t \<le> now \<and> now < deadline)"
| "lc_op_between t deadline (Lc_Cancel now _) = (t \<le> now \<and> now < deadline)"
| "lc_op_between t deadline (Lc_CancelConnection _) = True"
| "lc_op_between t deadline (Lc_Drop now _) = (t \<le> now \<and> now < deadline)"

lemma blocked_prune:
  "lc_ok s \<Longrightarrow> blocked t rid R s \<Longrightarrow> now < t + WORKER_TOMBSTONE_TTL \<Longrightarrow> blocked t rid R (prune_cancelled now s)"
  by (auto simp: blocked_def entombed_prune)

lemma blocked_begin:
  assumes "lc_ok s" "blocked t rid R s" "now < t + WORKER_TOMBSTONE_TTL"
  shows "\<exists>e. lc_begin now rid cid write s = (Inl e, prune_cancelled now s)"
proof -
  let ?s = "prune_cancelled now s"
  have ok: "queue_ok (lc_cancelled_order ?s) (lc_cancelled ?s)"
    using prune_cancelled_ok [OF assms(1)] by (simp add: lc_ok_def)
  from blocked_prune [OF assms] have "hm_get (lc_active ?s) rid \<noteq> None \<or> rid \<in> fst ` set (lc_cancelled_order ?s)"
    by (auto simp: blocked_def entombed_def)
  then show ?thesis using queue_ok_None [OF ok, of rid] by (auto simp: lc_begin_def Let_def)
qed

lemma blocked_drop:
  assumes "lifecycle_ok (s, gs)" "blocked t rid R s" "rid \<in> R" "finite R" "card R < MAX_CANCEL_TOMBSTONES"
    and "rid' \<in> R" "t \<le> now" "now < t + WORKER_TOMBSTONE_TTL"
  shows "blocked t rid R (fst (lc_apply (Lc_Drop now rid') (s, gs)))"
proof (cases "find (\<lambda>g. ad_request_id g = rid') gs")
  case None
  then show ?thesis using assms(2) by simp
next
  case (Some g)
  let ?s = "s\<lparr>lc_active := hm_remove rid' (lc_active s)\<rparr>" and ?k = "ad_cancellation g"
  have ok: "lc_ok s" "exclusive s" "guards_ok s gs" using assms(1) by (simp_all add: lifecycle_ok_def)
  have "g \<in> set gs" "ad_request_id g = rid'" using Some by (auto simp: find_Some_iff)
  then obtain a where a: "hm_get (lc_active s) rid' = Some a" "ar_cancellation a = ?k"
    using guards_ok_running [OF ok(3)] by blast
  have s: "lc_ok ?s" "lc_ok (prune_cancelled now ?s)"
    using active_remove_ok [OF ok(1)] prune_cancelled_ok by blast+
  have tomb: "entombed t rid R (lc_cancelled_order (lc_finish now rid' ?k s))"
    if "entombed t rid R (lc_cancelled_order s)"
    using that entombed_insert [OF s(2) entombed_prune [OF s(1) _ assms(8)] assms(3-6), of now] a
    by (simp add: lc_finish_def Let_def)
  show ?thesis
  proof (cases "entombed t rid R (lc_cancelled_order s)")
    case True
    then show ?thesis using tomb Some by (simp add: blocked_def)
  next
    case False
    then obtain b where b: "hm_get (lc_active s) rid = Some b" "lc_tokens s ! ar_cancellation b"
      using assms(2) by (auto simp: blocked_def)
    show ?thesis
    proof (cases "rid' = rid")
      case True
      have "rid \<notin> fst ` set (lc_cancelled_order s)" using ok(2) b(1) by (auto simp: exclusive_def)
      then have "rid \<notin> fst ` set (lc_cancelled_order (prune_cancelled now ?s))"
        using prune_cancelled_subset [OF s(1), of now] by auto
      then have "hm_get (lc_cancelled (prune_cancelled now ?s)) rid = None"
        by (simp add: lc_ok_None [OF s(2)])
      from entombed_new [OF s(2) this assms(7)] show ?thesis
        using True a b Some by (simp add: blocked_def lc_finish_def Let_def)
    next
      case False
      then have "hm_get (lc_active (lc_finish now rid' ?k s)) rid = Some b"
        "lc_tokens (lc_finish now rid' ?k s) = lc_tokens s"
        using b(1) by (simp_all add: lc_finish_def Let_def hm_get_remove)
      then show ?thesis using b(2) Some by (simp add: blocked_def)
    qed
  qed
qed

lemma blocked_step:
  assumes "lifecycle_ok (s, gs)" "blocked t rid R s" "rid \<in> R" "finite R" "card R < MAX_CANCEL_TOMBSTONES"
    and "lc_op_ids op \<subseteq> R" "lc_op_between t (t + WORKER_TOMBSTONE_TTL) op"
  shows "blocked t rid R (fst (lc_apply op (s, gs)))"
proof -
  have ok: "lc_ok s" using assms(1) by (simp add: lifecycle_ok_def)
  have tok: "ar_cancellation a < length (lc_tokens s)" if "hm_get (lc_active s) rid = Some a" for a
    using ok that by (auto simp: lc_ok_def active_ok_def)
  note pruned = blocked_prune [OF ok assms(2)]
  show ?thesis
  proof (cases op)
    case (Lc_Begin now rid' cid w)
    then have now: "now < t + WORKER_TOMBSTONE_TTL" using assms(7) by simp
    show ?thesis
    proof (cases "rid' = rid")
      case True
      then show ?thesis
        using blocked_begin [OF ok assms(2) now, of cid w] pruned [OF now] by (auto simp: Lc_Begin)
    next
      case False
      then show ?thesis using pruned [OF now] tok
        by (auto simp: Lc_Begin lc_begin_def Let_def blocked_def hm_get_insert nth_append)
    qed
  next
    case (Lc_Cancel now rid')
    then have now: "now < t + WORKER_TOMBSTONE_TTL" and R: "rid' \<in> R" using assms(6,7) by simp_all
    show ?thesis using pruned [OF now] tok R entombed_insert [OF prune_cancelled_ok [OF ok] _ assms(3-5)]
      by (auto simp: Lc_Cancel lc_cancel_def Let_def blocked_def cancel_token_mono split: option.splits)
  next
    case (Lc_CancelConnection cid)
    then show ?thesis using assms(2) tok cancel_connection_same [of cid s] by (auto simp: blocked_def)
  next
    case (Lc_Drop now rid')
    then show ?thesis using blocked_drop [OF assms(1-5)] assms(6,7) by simp
  qed
qed

lemma blocked_run:
  assumes "lifecycle_ok l" "blocked t rid R (fst l)" "rid \<in> R" "finite R" "card R < MAX_CANCEL_TOMBSTONES"
    and "\<Union> (set (map lc_op_ids ops)) \<subseteq> R" "list_all (lc_op_between t (t + WORKER_TOMBSTONE_TTL)) ops"
  shows "blocked t rid R (fst (lc_run ops l))"
  using assms
proof (induction ops arbitrary: l)
  case (Cons op ops)
  have "blocked t rid R (fst (lc_apply op l))"
    using blocked_step [of "fst l" "snd l" t rid R op] Cons.prems by simp
  from Cons.IH [OF lc_apply_ok [OF Cons.prems(1)] this Cons.prems(3-5)] Cons.prems(6,7)
  show ?case by (simp add: lc_run_def)
qed (simp add: lc_run_def)

lemma lifecycle_new: "lifecycle_ok (RequestLifecycle_new, [])"
  using lc_ok_new by (simp add: lifecycle_ok_def exclusive_def guards_ok_def RequestLifecycle_new_def hm_get_def)

lemma lc_op_ids_finite: "finite (lc_op_ids op)"
  by (cases op) simp_all

lemma cancel_blocks:
  assumes "lifecycle_ok (s, gs)" "hm_get (lc_cancelled s) rid = None"
  shows "blocked t rid R (fst (lc_apply (Lc_Cancel t rid) (s, gs)))"
proof -
  let ?s = "prune_cancelled t s"
  have ok: "lc_ok s" "lc_ok ?s" using assms(1) by (simp_all add: lifecycle_ok_def prune_cancelled_ok)
  have "rid \<notin> fst ` set (lc_cancelled_order s)" using assms(2) by (simp add: lc_ok_None [OF ok(1)])
  then have "rid \<notin> fst ` set (lc_cancelled_order ?s)" using prune_cancelled_subset [OF ok(1), of t] by blast
  then have none: "hm_get (lc_cancelled ?s) rid = None" by (simp add: lc_ok_None [OF ok(2)])
  show ?thesis
  proof (cases "hm_get (lc_active s) rid")
    case None
    then show ?thesis using entombed_new [OF ok(2) none order_refl]
      by (simp add: lc_cancel_def Let_def blocked_def)
  next
    case (Some a)
    then have "ar_cancellation a < length (lc_tokens s)" using ok(1) by (auto simp: lc_ok_def active_ok_def)
    then show ?thesis using Some by (simp add: lc_cancel_def Let_def blocked_def cancel_token_def)
  qed
qed

lemma blocked_token:
  assumes "blocked t rid R s" "exclusive s" "hm_get (lc_active s) rid = Some a"
  shows "lc_tokens s ! ar_cancellation a"
proof -
  have "rid \<notin> fst ` set (lc_cancelled_order s)" using assms(2,3) by (auto simp: exclusive_def)
  then show ?thesis using assms(1,3) by (auto simp: blocked_def entombed_def)
qed

text \<open>
  Cancellation in the worker. Once it has processed the cancellation of a request that has
  no tombstone yet, a call with that id that is running has its token cancelled, and for five minutes no call with
  that id begins, before or after the running one ends, as long as fewer than 4096
  requests are cancelled or end meanwhile. The worker keeps at most 4096 tombstones.
\<close>

theorem worker_cancellation_sticks:
  fixes before after :: "LcOp list" and t :: Instant and rid :: string
  defines "b \<equiv> lc_run before (RequestLifecycle_new, [])"
  defines "l \<equiv> lc_run (before @ [Lc_Cancel t rid] @ after) (RequestLifecycle_new, [])"
  assumes "hm_get (lc_cancelled (fst b)) rid = None"
    and "list_all (lc_op_between t (t + WORKER_TOMBSTONE_TTL)) after" "now < t + WORKER_TOMBSTONE_TTL"
    and "card (insert rid (\<Union> (set (map lc_op_ids after)))) < MAX_CANCEL_TOMBSTONES"
  shows "isl (fst (lc_begin now rid cid w (fst l))) \<and>
    list_all (\<lambda>g. ad_request_id g = rid \<longrightarrow> lc_tokens (fst l) ! ad_cancellation g) (snd l) \<and>
    length (lc_cancelled (fst l)) \<le> MAX_CANCEL_TOMBSTONES"
proof -
  let ?R = "insert rid (\<Union> (set (map lc_op_ids after)))"
  have b: "lifecycle_ok b" unfolding b_def by (rule lc_run_ok) (rule lifecycle_new)
  have l: "l = lc_run after (lc_apply (Lc_Cancel t rid) b)" by (simp add: l_def b_def lc_run_def)
  have fin: "finite ?R" by (auto intro: lc_op_ids_finite)
  have bl: "blocked t rid ?R (fst l)" unfolding l
  proof (rule blocked_run [OF lc_apply_ok [OF b]])
    show "blocked t rid ?R (fst (lc_apply (Lc_Cancel t rid) b))"
      using cancel_blocks [of "fst b" "snd b"] b assms(3) by simp
  qed (use fin assms in auto)
  have ok: "lifecycle_ok l" unfolding l by (intro lc_run_ok lc_apply_ok b)
  then have lok: "lc_ok (fst l)" "guards_ok (fst l) (snd l)" "exclusive (fst l)" by (simp_all add: lifecycle_ok_def)
  have "isl (fst (lc_begin now rid cid w (fst l)))"
    using blocked_begin [OF lok(1) bl assms(5), of cid w] by auto
  moreover have "lc_tokens (fst l) ! ad_cancellation g" if "g \<in> set (snd l)" "ad_request_id g = rid" for g
    using blocked_token [OF bl lok(3)] guards_ok_running [OF lok(2) that(1)] that(2) by auto
  ultimately show ?thesis using lok(1) by (simp add: list_all_iff lc_ok_def)
qed

text \<open>A running request is cancelled, another is cancelled and begun, and the first one ends.\<close>

theorem worker_cancellation_sticks_witness:
  "let l = lc_run ([Lc_Begin 0 ''r1'' 7 True] @ [Lc_Cancel 1 ''r1''] @
       [Lc_Cancel 2 ''r2'', Lc_Begin 3 ''r3'' 7 False, Lc_Drop 4 ''r1''])
       (RequestLifecycle_new, []) in
   isl (fst (lc_begin 5 ''r1'' 7 True (fst l))) \<and> length (snd l) = 1"
proof -
  let ?before = "[Lc_Begin 0 ''r1'' 7 True]"
  let ?after = "[Lc_Cancel 2 ''r2'', Lc_Begin 3 ''r3'' 7 False, Lc_Drop 4 ''r1'']"
  have none: "hm_get (lc_cancelled (fst (lc_run ?before (RequestLifecycle_new, [])))) ''r1'' = None"
    by code_simp
  have ttl: "list_all (lc_op_between 1 (1 + WORKER_TOMBSTONE_TTL)) ?after" "5 < 1 + WORKER_TOMBSTONE_TTL"
    by code_simp+
  have ids: "card (insert ''r1'' (\<Union> (set (map lc_op_ids ?after)))) < MAX_CANCEL_TOMBSTONES"
    by (simp add: MAX_CANCEL_TOMBSTONES_def)
  have "length (snd (lc_run (?before @ [Lc_Cancel 1 ''r1''] @ ?after) (RequestLifecycle_new, []))) = 1"
    by code_simp
  then show ?thesis
    using worker_cancellation_sticks [OF none ttl ids, of 7 True] by (simp add: Let_def)
qed

end
