(* ===== verification/Worker_Loop.thy ===== *)
theory Worker_Loop
  imports Worker_Cancellation "HOL-Library.Multiset"
begin

text \<open>
  The loop of the worker process (\<open>run_with_io\<close> of \<open>apps/sql-connector/src/worker.rs\<close>) and the
  tasks it spawns, as a machine whose events are an envelope read from the input, the end of
  the input, and the steps of one task. A step that the state does not allow changes nothing.
  A reply is written under the lock of the output and so in one step. The field \<open>wl_sent\<close> only
  records what was written. What the connectors answer may differ from call to call: an
  answer brings its own \<open>connector_ops\<close>.
\<close>

section \<open>The machine\<close>

text \<open>The flag of a reply that is to be written says whether the call was handed to a connector.\<close>

datatype TaskPhase = Tp_Spawned | Tp_Running | Tp_Replying ConnectorReply bool

record Task =
  tk_request_id :: string
  tk_call :: ConnectorCall
  tk_active :: "ActiveDataRequest option"
  tk_phase :: TaskPhase

datatype TaskResult = Task_Ok | Task_Failed IpcError | Task_Panicked

datatype WorkerFailure =
    Fail_PackId
  | Fail_Read IpcError
  | Fail_Write IpcError
  | Fail_Panic

record 'c WorkerLoop =
  wl_pack_id :: string
  wl_registry :: "'c ConnectorRegistry"
  wl_lifecycle :: RequestLifecycle
  wl_tasks :: "Task list"
  wl_done :: "TaskResult list"
  wl_out :: string
  wl_sent :: "(string \<times> ConnectorReply) list"
  wl_result :: "(WorkerFailure + unit) option"

definition run_with_io :: "string \<Rightarrow> 'c ConnectorRegistry \<Rightarrow> 'c WorkerLoop" where
  "run_with_io pack_id registry =
     \<lparr>wl_pack_id = pack_id, wl_registry = registry, wl_lifecycle = RequestLifecycle_new, wl_tasks = [],
      wl_done = [], wl_out = [], wl_sent = [],
      wl_result = (if trim pack_id = [] then Some (Inl Fail_PackId) else None)\<rparr>"

text \<open>Leaving the loop drops the set of tasks, which aborts those still running.\<close>

definition leave :: "WorkerFailure + unit \<Rightarrow> 'c WorkerLoop \<Rightarrow> 'c WorkerLoop" where
  "leave result w = w\<lparr>wl_tasks := [], wl_done := [], wl_result := Some result\<rparr>"

definition send_reply ::
  "'c worker_env \<Rightarrow> (string \<times> nat) option \<Rightarrow> string \<Rightarrow> ConnectorReply \<Rightarrow> 'c WorkerLoop \<Rightarrow> 'c WorkerLoop" where
  "send_reply env fault request_id reply w =
     (case write_reply (we_ipc env) fault request_id reply (wl_out w) of
        (Inl e, out) \<Rightarrow> leave (Inl (Fail_Write e)) (w\<lparr>wl_out := out\<rparr>)
      | (Inr _, out) \<Rightarrow> w\<lparr>wl_out := out, wl_sent := wl_sent w @ [(request_id, reply)]\<rparr>)"

fun first_failure :: "TaskResult list \<Rightarrow> WorkerFailure option" where
  "first_failure [] = None"
| "first_failure (Task_Ok # rest) = first_failure rest"
| "first_failure (Task_Failed e # rest) = Some (Fail_Write e)"
| "first_failure (Task_Panicked # rest) = Some Fail_Panic"

text \<open>The rest of the loop after \<open>abort_tasks\<close>: a task that had failed before it was aborted ends it.\<close>

definition abort_tasks :: "'c WorkerLoop \<Rightarrow> ('c WorkerLoop \<Rightarrow> 'c WorkerLoop) \<Rightarrow> 'c WorkerLoop" where
  "abort_tasks w continue =
     (case first_failure (wl_done w) of
        Some f \<Rightarrow> leave (Inl f) w
      | None \<Rightarrow> continue (w\<lparr>wl_tasks := [], wl_done := []\<rparr>))"

definition permits_used :: "'c WorkerLoop \<Rightarrow> nat" where
  "permits_used w = length (filter (\<lambda>t. tk_active t \<noteq> None) (wl_tasks w))"

definition spawn_task :: "string \<Rightarrow> ConnectorCall \<Rightarrow> ActiveDataRequest option \<Rightarrow> 'c WorkerLoop \<Rightarrow> 'c WorkerLoop" where
  "spawn_task request_id call active w =
     w\<lparr>wl_tasks := wl_tasks w @ [\<lparr>tk_request_id = request_id, tk_call = call, tk_active = active,
        tk_phase = Tp_Spawned\<rparr>]\<rparr>"

fun record_cancellation :: "Instant \<Rightarrow> ConnectorCall \<Rightarrow> RequestLifecycle \<Rightarrow> RequestLifecycle" where
  "record_cancellation now (Call_Cancel request_id) s = lc_cancel now request_id s"
| "record_cancellation now (Call_InvalidateConnection connection_id) s = lc_cancel_connection connection_id s"
| "record_cancellation now _ s = s"

text \<open>One round of the loop, for the envelope that was read.\<close>

definition serve_call ::
  "'c worker_env \<Rightarrow> Instant \<Rightarrow> (string \<times> nat) option \<Rightarrow> string \<Rightarrow> ConnectorCall \<Rightarrow> 'c WorkerLoop \<Rightarrow> 'c WorkerLoop" where
  "serve_call env now fault request_id call w =
     (let s = record_cancellation now call (wl_lifecycle w) in
      case data_call_metadata call of
        None \<Rightarrow> spawn_task request_id call None (w\<lparr>wl_lifecycle := s\<rparr>)
      | Some (connection_id, write) \<Rightarrow>
          (case lc_begin now request_id connection_id write s of
             (Inl e, s) \<Rightarrow> send_reply env fault request_id (begin_data_call_error e) (w\<lparr>wl_lifecycle := s\<rparr>)
           | (Inr active, s) \<Rightarrow>
               if permits_used w \<ge> MAX_CONCURRENT_DATA_CALLS then
                 send_reply env fault request_id worker_busy_error
                   (w\<lparr>wl_lifecycle := lc_finish now request_id (ad_cancellation active) s\<rparr>)
               else spawn_task request_id call (Some active) (w\<lparr>wl_lifecycle := s\<rparr>)))"

definition acknowledge_shutdown ::
  "'c worker_env \<Rightarrow> (string \<times> nat) option \<Rightarrow> string \<Rightarrow> 'c WorkerLoop \<Rightarrow> 'c WorkerLoop" where
  "acknowledge_shutdown env fault request_id w =
     (let w = send_reply env fault request_id Reply_Acknowledged w in
      if wl_result w = None then leave (Inr ()) w else w)"

definition serve_envelope ::
  "'c worker_env \<Rightarrow> Instant \<Rightarrow> (string \<times> nat) option \<Rightarrow> Envelope \<Rightarrow> 'c WorkerLoop \<Rightarrow> 'c WorkerLoop" where
  "serve_envelope env now fault envelope w =
     (case first_failure (wl_done w) of
        Some f \<Rightarrow> leave (Inl f) w
      | None \<Rightarrow>
          let w = w\<lparr>wl_done := []\<rparr>; request_id = en_request_id envelope in
          if message_kind (en_kind envelope) \<noteq> Kind_Request then
            send_reply env fault request_id (protocol_error ''worker accepts request envelopes only'') w
          else
            (case decode_payload (ie_cbor_call (we_ipc env)) envelope of
               Inl e \<Rightarrow> send_reply env fault request_id
                 (protocol_error (''invalid worker request: '' @ ipc_error_text e)) w
             | Inr call \<Rightarrow>
                 if call = Call_Shutdown then abort_tasks w (acknowledge_shutdown env fault request_id)
                 else serve_call env now fault request_id call w))"

text \<open>The input ended, or could not be read.\<close>

definition serve_end :: "IpcError option \<Rightarrow> 'c WorkerLoop \<Rightarrow> 'c WorkerLoop" where
  "serve_end broken w =
     (case broken of
        Some e \<Rightarrow> leave (Inl (Fail_Read e)) w
      | None \<Rightarrow> abort_tasks w (leave (Inr ())))"

section \<open>Tasks\<close>

text \<open>The guard of a data call is dropped once its reply is known, the permit after it was written.\<close>

definition drop_active :: "Instant \<Rightarrow> Task \<Rightarrow> RequestLifecycle \<Rightarrow> RequestLifecycle" where
  "drop_active now t s =
     (case tk_active t of None \<Rightarrow> s | Some g \<Rightarrow> lc_finish now (ad_request_id g) (ad_cancellation g) s)"

definition put_task :: "nat \<Rightarrow> Task \<Rightarrow> 'c WorkerLoop \<Rightarrow> 'c WorkerLoop" where
  "put_task i t w = w\<lparr>wl_tasks := (wl_tasks w)[i := t]\<rparr>"

definition reply_task :: "Instant \<Rightarrow> nat \<Rightarrow> Task \<Rightarrow> ConnectorReply \<Rightarrow> bool \<Rightarrow> 'c WorkerLoop \<Rightarrow> 'c WorkerLoop" where
  "reply_task now i t reply called w =
     put_task i (t\<lparr>tk_phase := Tp_Replying reply called\<rparr>) (w\<lparr>wl_lifecycle := drop_active now t (wl_lifecycle w)\<rparr>)"

definition end_task :: "nat \<Rightarrow> TaskResult \<Rightarrow> 'c WorkerLoop \<Rightarrow> 'c WorkerLoop" where
  "end_task i result w =
     w\<lparr>wl_tasks := take i (wl_tasks w) @ drop (Suc i) (wl_tasks w), wl_done := wl_done w @ [result]\<rparr>"

definition task_cancelled :: "Task \<Rightarrow> 'c WorkerLoop \<Rightarrow> bool" where
  "task_cancelled t w =
     (case tk_active t of None \<Rightarrow> False | Some g \<Rightarrow> lc_tokens (wl_lifecycle w) ! ad_cancellation g)"

definition task_writes :: "Task \<Rightarrow> bool" where
  "task_writes t = (case tk_active t of None \<Rightarrow> False | Some g \<Rightarrow> ad_write g)"

text \<open>The first check of \<open>dispatch_data\<close>; a control call has none.\<close>

definition task_start :: "Instant \<Rightarrow> nat \<Rightarrow> 'c WorkerLoop \<Rightarrow> 'c WorkerLoop" where
  "task_start now i w =
     (let t = wl_tasks w ! i in
      if tk_phase t = Tp_Spawned then
        if task_cancelled t w then
          (case dispatch_data Cancelled_First (task_writes t) None of
             Some reply \<Rightarrow> reply_task now i t reply False w
           | None \<Rightarrow> w)
        else put_task i (t\<lparr>tk_phase := Tp_Running\<rparr>) w
      else w)"

text \<open>The cancellation comes first while the connector works.\<close>

definition task_interrupt :: "Instant \<Rightarrow> nat \<Rightarrow> 'c WorkerLoop \<Rightarrow> 'c WorkerLoop" where
  "task_interrupt now i w =
     (let t = wl_tasks w ! i in
      if tk_phase t = Tp_Running \<and> task_cancelled t w then
        (case dispatch_data Cancelled_During (task_writes t) None of
           Some reply \<Rightarrow> reply_task now i t reply True w
         | None \<Rightarrow> w)
      else w)"

definition task_panic :: "Instant \<Rightarrow> nat \<Rightarrow> 'c WorkerLoop \<Rightarrow> 'c WorkerLoop" where
  "task_panic now i w =
     (let t = wl_tasks w ! i in
      if tk_phase t = Tp_Running then
        end_task i Task_Panicked (w\<lparr>wl_lifecycle := drop_active now t (wl_lifecycle w)\<rparr>)
      else w)"

text \<open>The connector's answer; a control call is not normalised.\<close>

definition task_answer ::
  "'c worker_env \<Rightarrow> 'c connector_ops \<Rightarrow> DateTime \<Rightarrow> Instant \<Rightarrow> nat \<Rightarrow> 'c WorkerLoop \<Rightarrow> 'c WorkerLoop" where
  "task_answer env ops now instant i w =
     (let t = wl_tasks w ! i;
          answer = dispatch (env\<lparr>we_ops := ops\<rparr>) now instant (wl_pack_id w) (tk_request_id t) (wl_registry w)
            (tk_call t) in
      if tk_phase t = Tp_Running then
        (case (if tk_active t = None then answer else dispatch_data Connector_First (task_writes t) answer) of
           Some reply \<Rightarrow> reply_task instant i t reply True w
         | None \<Rightarrow> task_panic instant i w)
      else w)"

definition task_write :: "'c worker_env \<Rightarrow> (string \<times> nat) option \<Rightarrow> nat \<Rightarrow> 'c WorkerLoop \<Rightarrow> 'c WorkerLoop" where
  "task_write env fault i w =
     (let t = wl_tasks w ! i in
      case tk_phase t of
        Tp_Replying reply _ \<Rightarrow>
          (case write_reply (we_ipc env) fault (tk_request_id t) reply (wl_out w) of
             (Inl e, out) \<Rightarrow> end_task i (Task_Failed e) (w\<lparr>wl_out := out\<rparr>)
           | (Inr _, out) \<Rightarrow> end_task i Task_Ok
               (w\<lparr>wl_out := out, wl_sent := wl_sent w @ [(tk_request_id t, reply)]\<rparr>))
      | _ \<Rightarrow> w)"

section \<open>Runs\<close>

datatype 'c WorkerEvent =
    Ev_Envelope Instant "(string \<times> nat) option" Envelope
  | Ev_End "IpcError option"
  | Ev_Start Instant nat
  | Ev_Interrupt Instant nat
  | Ev_Panic Instant nat
  | Ev_Answer "'c connector_ops" DateTime Instant nat
  | Ev_Write "(string \<times> nat) option" nat

fun event_task :: "'c WorkerEvent \<Rightarrow> nat option" where
  "event_task (Ev_Start _ i) = Some i"
| "event_task (Ev_Interrupt _ i) = Some i"
| "event_task (Ev_Panic _ i) = Some i"
| "event_task (Ev_Answer _ _ _ i) = Some i"
| "event_task (Ev_Write _ i) = Some i"
| "event_task _ = None"

fun worker_event :: "'c worker_env \<Rightarrow> 'c WorkerEvent \<Rightarrow> 'c WorkerLoop \<Rightarrow> 'c WorkerLoop" where
  "worker_event env (Ev_Envelope now fault envelope) w = serve_envelope env now fault envelope w"
| "worker_event env (Ev_End broken) w = serve_end broken w"
| "worker_event env (Ev_Start now i) w = task_start now i w"
| "worker_event env (Ev_Interrupt now i) w = task_interrupt now i w"
| "worker_event env (Ev_Panic now i) w = task_panic now i w"
| "worker_event env (Ev_Answer ops now instant i) w = task_answer env ops now instant i w"
| "worker_event env (Ev_Write fault i) w = task_write env fault i w"

definition worker_step :: "'c worker_env \<Rightarrow> 'c WorkerEvent \<Rightarrow> 'c WorkerLoop \<Rightarrow> 'c WorkerLoop" where
  "worker_step env ev w =
     (if wl_result w \<noteq> None \<or> (case event_task ev of None \<Rightarrow> False | Some i \<Rightarrow> length (wl_tasks w) \<le> i) then w
      else worker_event env ev w)"

definition worker_run :: "'c worker_env \<Rightarrow> 'c WorkerEvent list \<Rightarrow> 'c WorkerLoop \<Rightarrow> 'c WorkerLoop" where
  "worker_run env = fold (worker_step env)"

section \<open>Replies\<close>

lemma write_envelopes_snoc:
  "write_envelopes env (es @ [e]) out = (Inr (), out') \<longleftrightarrow>
     (\<exists>mid. write_envelopes env es out = (Inr (), mid) \<and> write_envelope env None e mid = (Inr (), out'))"
  by (induction es arbitrary: out) (auto split: prod.splits sum.splits)

lemma write_reply_Inr:
  "write_reply env fault rid reply out = (Inr u, out') \<longleftrightarrow>
     fault = None \<and> (\<exists>e. Envelope_response env rid reply = Inr e \<and> write_envelope env None e out = (Inr (), out'))"
  by (auto simp: write_reply_def write_envelope_def Let_def split: sum.splits option.splits if_splits)

definition delivered :: "'c worker_env \<Rightarrow> 'c WorkerLoop \<Rightarrow> bool" where
  "delivered env w \<longleftrightarrow>
     (\<exists>es. list_all2 (\<lambda>(rid, reply) e. Envelope_response (we_ipc env) rid reply = Inr e) (wl_sent w) es \<and>
        write_envelopes (we_ipc env) es [] = (Inr (), wl_out w))"

lemma delivered_write:
  assumes "delivered env w" "write_reply (we_ipc env) fault rid reply (wl_out w) = (Inr u, out)"
    and "wl_sent w' = wl_sent w @ [(rid, reply)]" "wl_out w' = out"
  shows "delivered env w'"
proof -
  obtain es where es: "list_all2 (\<lambda>(rid, reply) e. Envelope_response (we_ipc env) rid reply = Inr e) (wl_sent w) es"
    "write_envelopes (we_ipc env) es [] = (Inr (), wl_out w)" using assms(1) by (auto simp: delivered_def)
  obtain e where "Envelope_response (we_ipc env) rid reply = Inr e"
    "write_envelope (we_ipc env) None e (wl_out w) = (Inr (), out)" using assms(2) by (auto simp: write_reply_Inr)
  then show ?thesis unfolding delivered_def assms(3,4) using es
    by (intro exI [of _ "es @ [e]"]) (auto simp: write_envelopes_snoc list_all2_appendI)
qed

lemma delivered_same: "delivered env w \<Longrightarrow> wl_sent w' = wl_sent w \<Longrightarrow> wl_out w' = wl_out w \<Longrightarrow> delivered env w'"
  by (simp add: delivered_def)

lemma leave_result [simp]: "wl_result (leave r w) = Some r"
  by (simp add: leave_def)

text \<open>A reply that the loop itself wrote.\<close>

lemma send_reply_serving:
  assumes "wl_result (send_reply env fault rid reply w) = None"
  obtains out where "send_reply env fault rid reply w = w\<lparr>wl_out := out, wl_sent := wl_sent w @ [(rid, reply)]\<rparr>"
    "write_reply (we_ipc env) fault rid reply (wl_out w) = (Inr (), out)"
  using assms by (auto simp: send_reply_def split: prod.splits sum.splits)

lemma shutdown_leaves: "wl_result (abort_tasks w (acknowledge_shutdown env fault rid)) = None \<longleftrightarrow> False"
  by (simp add: abort_tasks_def acknowledge_shutdown_def Let_def split: option.splits)

lemma first_failure_append [simp]:
  "first_failure (rs @ [r]) = None \<longleftrightarrow> first_failure rs = None \<and> r = Task_Ok"
proof (induction rs rule: first_failure.induct)
  case 1 show ?case by (cases r) simp_all
qed simp_all

section \<open>Every request is answered once\<close>

fun served_id :: "'c WorkerEvent \<Rightarrow> string list" where
  "served_id (Ev_Envelope _ _ envelope) = [en_request_id envelope]"
| "served_id _ = []"

definition account :: "'c worker_env \<Rightarrow> string list \<Rightarrow> 'c WorkerLoop \<Rightarrow> bool" where
  "account env ids w \<longleftrightarrow> (wl_result w = None \<and> first_failure (wl_done w) = None \<longrightarrow>
     delivered env w \<and> mset ids = mset (map fst (wl_sent w)) + mset (map tk_request_id (wl_tasks w)))"

lemma account_send:
  assumes "account env ids w" "wl_result w = None" "first_failure (wl_done w) = None"
    and "w' = w\<lparr>wl_done := [], wl_lifecycle := s\<rparr>"
  shows "account env (ids @ [rid]) (send_reply env fault rid reply w')"
  unfolding account_def
proof (intro impI, elim conjE)
  assume "wl_result (send_reply env fault rid reply w') = None"
  then obtain out where out: "send_reply env fault rid reply w' = w'\<lparr>wl_out := out, wl_sent := wl_sent w' @ [(rid, reply)]\<rparr>"
    "write_reply (we_ipc env) fault rid reply (wl_out w') = (Inr (), out)" by (rule send_reply_serving)
  have "delivered env w'" using assms by (auto simp: account_def intro: delivered_same)
  then have "delivered env (w'\<lparr>wl_out := out, wl_sent := wl_sent w' @ [(rid, reply)]\<rparr>)"
    using delivered_write [OF _ out(2)] by simp
  then show "delivered env (send_reply env fault rid reply w') \<and> mset (ids @ [rid]) =
      mset (map fst (wl_sent (send_reply env fault rid reply w'))) +
      mset (map tk_request_id (wl_tasks (send_reply env fault rid reply w')))"
    unfolding out(1) using assms by (simp add: account_def)
qed

lemma account_spawn:
  assumes "account env ids w" "wl_result w = None" "first_failure (wl_done w) = None"
  shows "account env (ids @ [rid]) (spawn_task rid call active (w\<lparr>wl_done := [], wl_lifecycle := s\<rparr>))"
  using assms by (auto simp: account_def spawn_task_def intro: delivered_same)

lemma account_serve:
  assumes "account env ids w" "wl_result w = None"
  shows "account env (ids @ [en_request_id e]) (serve_envelope env now fault e w)"
proof (cases "first_failure (wl_done w)")
  case (Some f)
  then show ?thesis by (simp add: serve_envelope_def account_def)
next
  case None
  note send = account_send [OF assms None]
  note spawn = account_spawn [OF assms None]
  have send0: "account env (ids @ [rid]) (send_reply env fault rid reply (w\<lparr>wl_done := []\<rparr>))" for rid reply
    by (rule send [where s = "wl_lifecycle w"]) simp
  have call: "account env (ids @ [rid]) (serve_call env now fault rid call (w\<lparr>wl_done := []\<rparr>))" for rid call
    unfolding serve_call_def Let_def
    by (auto intro!: send spawn split: option.splits prod.splits sum.splits)
  have stop: "account env ids' (abort_tasks w' (acknowledge_shutdown env fault rid))" for ids' w' rid
    by (simp add: account_def shutdown_leaves)
  show ?thesis unfolding serve_envelope_def None option.case
    by (auto simp: Let_def [of "w\<lparr>wl_done := []\<rparr>"] Let_def [of "en_request_id e"] intro!: send0 call stop split: sum.splits)
qed

lemma put_task_ids:
  "i < length ts \<Longrightarrow> tk_request_id t = tk_request_id (ts ! i) \<Longrightarrow> map tk_request_id (ts[i := t]) = map tk_request_id ts"
  by (simp add: map_update list_update_same_conv)

lemma end_task_ids:
  "i < length ts \<Longrightarrow> mset (map tk_request_id ts) =
     add_mset (tk_request_id (ts ! i)) (mset (map tk_request_id (take i ts @ drop (Suc i) ts)))"
  by (subst (1) id_take_nth_drop [of i]) simp_all

lemma account_put:
  assumes "account env ids w" "i < length (wl_tasks w)" "tk_request_id t = tk_request_id (wl_tasks w ! i)"
  shows "account env ids (put_task i t (w\<lparr>wl_lifecycle := s\<rparr>))"
  using assms put_task_ids [OF assms(2,3)]
  by (auto simp: account_def put_task_def simp flip: mset_map simp del: mset_map intro: delivered_same)

lemma account_put0:
  assumes "account env ids w" "i < length (wl_tasks w)" "tk_request_id t = tk_request_id (wl_tasks w ! i)"
  shows "account env ids (put_task i t w)"
  using account_put [OF assms, of "wl_lifecycle w"] by simp

lemma account_reply:
  assumes "account env ids w" "i < length (wl_tasks w)"
  shows "account env ids (reply_task now i (wl_tasks w ! i) reply called w)"
  unfolding reply_task_def by (rule account_put [OF assms]) simp

lemma account_panic: "account env ids (task_panic now i w)" if "account env ids w"
  using that by (auto simp: account_def task_panic_def Let_def end_task_def)

lemma account_answer:
  assumes "account env ids w" "i < length (wl_tasks w)"
  shows "account env ids (task_answer env ops now instant i w)"
  using account_reply [OF assms] account_panic [OF assms(1)] assms(1)
  by (auto simp: task_answer_def Let_def split: option.split)

lemma account_write:
  assumes "account env ids w" "i < length (wl_tasks w)"
  shows "account env ids (task_write env fault i w)"
proof (cases "tk_phase (wl_tasks w ! i)")
  case (Tp_Replying reply called)
  let ?t = "wl_tasks w ! i"
  obtain r out where r: "write_reply (we_ipc env) fault (tk_request_id ?t) reply (wl_out w) = (r, out)"
    by (cases "write_reply (we_ipc env) fault (tk_request_id ?t) reply (wl_out w)")
  show ?thesis
  proof (cases r)
    case (Inl e)
    then show ?thesis using r by (simp add: task_write_def Tp_Replying account_def end_task_def)
  next
    case (Inr u)
    have "delivered env w \<Longrightarrow> delivered env (task_write env fault i w)"
      using delivered_write [OF _ r [unfolded Inr]] r by (simp add: task_write_def Tp_Replying Inr end_task_def)
    then show ?thesis using assms(1) r end_task_ids [OF assms(2)]
      by (simp add: account_def task_write_def Tp_Replying end_task_def Inr del: mset_map)
  qed
qed (use assms in \<open>simp_all add: task_write_def\<close>)

lemma account_step:
  assumes "account env ids w"
  shows "account env (ids @ served_id ev) (worker_step env ev w)"
proof (cases "wl_result w = None")
  case False
  then show ?thesis by (auto simp: worker_step_def account_def)
next
  case True
  show ?thesis
  proof (cases ev)
    case (Ev_End broken)
    then show ?thesis using True
      by (auto simp: worker_step_def account_def serve_end_def abort_tasks_def split: option.splits)
  qed (use True assms in \<open>auto simp: worker_step_def account_serve task_start_def task_interrupt_def Let_def
      split: option.split intro!: account_put0 account_reply account_panic account_answer account_write\<close>)
qed

lemma account_run: "account env ids w \<Longrightarrow> account env (ids @ concat (map served_id evs)) (worker_run env evs w)"
proof (induction evs arbitrary: ids w)
  case (Cons ev evs)
  from Cons.IH [OF account_step [OF Cons.prems]] show ?case by (simp add: worker_run_def)
qed (simp add: worker_run_def)

text \<open>
  C23: the worker answers every request once. While it serves and no task has failed, the
  envelopes it has read are those it has answered and those its tasks work on, each as often as
  it was read, and its output is readable: one response for each answer, in order.
\<close>

theorem worker_answers_each_request_once:
  fixes env :: "'c worker_env" and events :: "'c WorkerEvent list" and pack_id :: string
    and registry :: "'c ConnectorRegistry"
  defines "w \<equiv> worker_run env events (run_with_io pack_id registry)"
  assumes "ipc_laws (we_ipc env)" "wl_result w = None" "list_all (\<lambda>r. r = Task_Ok) (wl_done w)"
  shows "mset (concat (map served_id events)) = mset (map fst (wl_sent w)) + mset (map tk_request_id (wl_tasks w)) \<and>
    (\<exists>responses. read_envelopes (we_ipc env) None (wl_out w) = (responses, None) \<and>
       list_all2 (\<lambda>(rid, reply) response. Envelope_response (we_ipc env) rid reply = Inr response)
         (wl_sent w) responses)"
proof -
  have "account env [] (run_with_io pack_id registry)"
    by (simp add: account_def run_with_io_def delivered_def)
  from account_run [OF this, of events] have acc: "account env (concat (map served_id events)) w" by (simp add: w_def)
  moreover have "first_failure rs = None" if "list_all (\<lambda>r. r = Task_Ok) rs" for rs
    using that by (induction rs) auto
  ultimately have "delivered env w" and ids: "mset (concat (map served_id events)) =
      mset (map fst (wl_sent w)) + mset (map tk_request_id (wl_tasks w))"
    using assms(3,4) by (simp_all add: account_def)
  then obtain es where "list_all2 (\<lambda>(rid, reply) e. Envelope_response (we_ipc env) rid reply = Inr e) (wl_sent w) es"
    "write_envelopes (we_ipc env) es [] = (Inr (), wl_out w)" by (auto simp: delivered_def)
  with write_envelopes_read [OF assms(2)] ids show ?thesis by fastforce
qed

section \<open>Data calls\<close>

definition guard_of :: "Task \<Rightarrow> ActiveDataRequest list" where
  "guard_of t =
     (case (tk_active t, tk_phase t) of
        (None, _) \<Rightarrow> []
      | (_, Tp_Replying _ _) \<Rightarrow> []
      | (Some g, _) \<Rightarrow> [g])"

definition guards :: "Task list \<Rightarrow> ActiveDataRequest list" where
  "guards ts = concat (map guard_of ts)"

text \<open>The answer that tells the caller that the request had no effect.\<close>

definition says_cancelled :: "ConnectorReply \<Rightarrow> bool" where
  "says_cancelled reply = (case reply of Reply_Error e \<Rightarrow> ce_category e = Cat_Cancelled | _ \<Rightarrow> False)"

definition task_ok :: "Task \<Rightarrow> bool" where
  "task_ok t \<longleftrightarrow> tk_call t \<noteq> Call_Shutdown \<and>
     map_option snd (data_call_metadata (tk_call t)) = map_option ad_write (tk_active t) \<and>
     (\<forall>g. tk_active t = Some g \<longrightarrow> ad_request_id g = tk_request_id t) \<and>
     (\<forall>reply. tk_phase t = Tp_Replying reply True \<and> task_writes t \<longrightarrow> \<not> says_cancelled reply)"

definition loop_ok :: "'c WorkerLoop \<Rightarrow> bool" where
  "loop_ok w \<longleftrightarrow> lifecycle_ok (wl_lifecycle w, guards (wl_tasks w)) \<and> list_all task_ok (wl_tasks w) \<and>
     permits_used w \<le> MAX_CONCURRENT_DATA_CALLS"

lemma guards_split:
  "i < length ts \<Longrightarrow> guards (ts[i := t]) = guards (take i ts) @ guard_of t @ guards (drop (Suc i) ts)"
  "i < length ts \<Longrightarrow> guards ts = guards (take i ts) @ guard_of (ts ! i) @ guards (drop (Suc i) ts)"
  by (simp_all add: guards_def upd_conv_take_nth_drop)
    (metis concat_append concat.simps(2) id_take_nth_drop list.simps(9) map_append)

text \<open>Dropping the guard of a task is dropping it in the life cycle.\<close>

lemma lifecycle_drop:
  assumes "lifecycle_ok (s, gs @ g # gs')"
  shows "lifecycle_ok (lc_finish now (ad_request_id g) (ad_cancellation g) s, gs @ gs')"
proof -
  have dist: "distinct (map ad_request_id (gs @ g # gs'))"
    using assms by (simp add: lifecycle_ok_def guards_ok_def)
  then have "ad_request_id g \<notin> ad_request_id ` (set gs \<union> set gs')" by (simp add: image_Un)
  then have others: "\<forall>h \<in> set gs \<union> set gs'. ad_request_id h \<noteq> ad_request_id g" by (metis imageI)
  then have "find (\<lambda>h. ad_request_id h = ad_request_id g) (gs @ g # gs') = Some g"
    by (induction gs) auto
  moreover have "filter (\<lambda>h. ad_request_id h \<noteq> ad_request_id g) (gs @ g # gs') = gs @ gs'"
    using others by (simp add: filter_id_conv)
  ultimately show ?thesis using lc_drop_ok [OF assms, of now "ad_request_id g"] by simp
qed

lemma drop_active_ok:
  assumes "lifecycle_ok (s, gs @ guard_of t @ gs')" "\<And>reply called. tk_phase t \<noteq> Tp_Replying reply called"
  shows "lifecycle_ok (drop_active now t s, gs @ gs')"
proof (cases "tk_active t")
  case (Some g)
  then have "guard_of t = [g]" using assms(2) by (simp add: guard_of_def split: TaskPhase.splits)
  then show ?thesis using lifecycle_drop assms(1) Some by (simp add: drop_active_def)
qed (use assms in \<open>simp add: drop_active_def guard_of_def\<close>)

lemma permits_put: "i < length ts \<Longrightarrow> tk_active t = tk_active (ts ! i) \<Longrightarrow>
    length (filter (\<lambda>t. tk_active t \<noteq> None) (ts[i := t])) = length (filter (\<lambda>t. tk_active t \<noteq> None) ts)"
  by (subst (2) id_take_nth_drop [of i]) (simp_all add: upd_conv_take_nth_drop)

lemma task_ok_nth: "loop_ok w \<Longrightarrow> i < length (wl_tasks w) \<Longrightarrow> task_ok (wl_tasks w ! i)"
  by (simp add: loop_ok_def list_all_length)

lemma list_all_update: "list_all P xs \<Longrightarrow> P x \<Longrightarrow> list_all P (xs[i := x])"
  by (auto simp: list_all_iff dest: set_update_subset_insert [THEN subsetD])

lemma loop_ok_running:
  assumes "loop_ok w" "i < length (wl_tasks w)" "tk_phase (wl_tasks w ! i) = Tp_Spawned"
  shows "loop_ok (put_task i ((wl_tasks w ! i)\<lparr>tk_phase := Tp_Running\<rparr>) w)"
proof -
  let ?t = "wl_tasks w ! i"
  have "guard_of (?t\<lparr>tk_phase := Tp_Running\<rparr>) = guard_of ?t" using assms(3) by (simp add: guard_of_def split: option.splits)
  then have "guards ((wl_tasks w)[i := ?t\<lparr>tk_phase := Tp_Running\<rparr>]) = guards (wl_tasks w)"
    using guards_split [OF assms(2)] by simp
  moreover have "task_ok (?t\<lparr>tk_phase := Tp_Running\<rparr>)" using task_ok_nth [OF assms(1,2)]
    by (simp add: task_ok_def)
  ultimately show ?thesis using assms(1) permits_put [OF assms(2), of "?t\<lparr>tk_phase := Tp_Running\<rparr>"]
    by (simp add: loop_ok_def put_task_def permits_used_def list_all_update)
qed

lemma loop_ok_reply:
  assumes "loop_ok w" "i < length (wl_tasks w)" "tk_phase (wl_tasks w ! i) = Tp_Spawned \<or> tk_phase (wl_tasks w ! i) = Tp_Running"
    and "called \<Longrightarrow> task_writes (wl_tasks w ! i) \<Longrightarrow> \<not> says_cancelled reply"
  shows "loop_ok (reply_task now i (wl_tasks w ! i) reply called w)"
proof -
  let ?t = "wl_tasks w ! i"
  let ?t' = "?t\<lparr>tk_phase := Tp_Replying reply called\<rparr>"
  have "lifecycle_ok (drop_active now ?t (wl_lifecycle w), guards (take i (wl_tasks w)) @ guards (drop (Suc i) (wl_tasks w)))"
    using assms(1,3) guards_split(2) [OF assms(2)] by (intro drop_active_ok) (auto simp: loop_ok_def)
  moreover have "guard_of ?t' = []" by (simp add: guard_of_def split: option.splits)
  moreover have "task_ok ?t'" using task_ok_nth [OF assms(1,2)] assms(4) by (simp add: task_ok_def task_writes_def)
  ultimately show ?thesis using assms(1) permits_put [OF assms(2), of ?t']
    by (simp add: loop_ok_def reply_task_def put_task_def permits_used_def guards_split(1) [OF assms(2)] list_all_update)
qed

lemma permits_end:
  "length (filter (\<lambda>t. tk_active t \<noteq> None) (take i ts @ drop (Suc i) ts)) \<le> length (filter (\<lambda>t. tk_active t \<noteq> None) ts)"
proof (cases "i < length ts")
  case True
  then show ?thesis by (subst (5) id_take_nth_drop [of i]) simp_all
qed simp

lemma list_all_end: "list_all P ts \<Longrightarrow> list_all P (take i ts @ drop (Suc i) ts)"
  by (auto simp: list_all_iff dest: in_set_takeD in_set_dropD)

lemma loop_ok_end:
  assumes "loop_ok w" "lifecycle_ok (wl_lifecycle w', guards (take i (wl_tasks w)) @ guards (drop (Suc i) (wl_tasks w)))"
    and "wl_tasks w' = wl_tasks w"
  shows "loop_ok (end_task i result w')"
  using assms permits_end [of i "wl_tasks w"] list_all_end [of task_ok "wl_tasks w" i]
  by (simp add: loop_ok_def end_task_def permits_used_def guards_def)

lemma loop_ok_panic:
  assumes "loop_ok w" "i < length (wl_tasks w)"
  shows "loop_ok (task_panic now i w)"
proof (cases "tk_phase (wl_tasks w ! i) = Tp_Running")
  case True
  have "lifecycle_ok (drop_active now (wl_tasks w ! i) (wl_lifecycle w),
      guards (take i (wl_tasks w)) @ guards (drop (Suc i) (wl_tasks w)))"
    using assms(1) True guards_split(2) [OF assms(2)] by (intro drop_active_ok) (auto simp: loop_ok_def)
  then show ?thesis using True loop_ok_end [OF assms(1), of "w\<lparr>wl_lifecycle := drop_active now (wl_tasks w ! i) (wl_lifecycle w)\<rparr>" i]
    by (simp add: task_panic_def)
qed (use assms in \<open>simp add: task_panic_def\<close>)

lemma loop_ok_write:
  assumes "loop_ok w" "i < length (wl_tasks w)"
  shows "loop_ok (task_write env fault i w)"
proof (cases "tk_phase (wl_tasks w ! i)")
  case (Tp_Replying reply called)
  then have "guard_of (wl_tasks w ! i) = []" by (simp add: guard_of_def split: option.splits)
  then have "lifecycle_ok (wl_lifecycle w, guards (take i (wl_tasks w)) @ guards (drop (Suc i) (wl_tasks w)))"
    using assms(1) guards_split(2) [OF assms(2)] by (simp add: loop_ok_def)
  then show ?thesis
    by (auto simp: task_write_def Tp_Replying Let_def split: prod.split sum.split intro!: loop_ok_end [OF assms(1)])
qed (use assms in \<open>simp_all add: task_write_def\<close>)

text \<open>What an interrupted or answered write is told.\<close>

lemma normalized_write: "\<not> says_cancelled (normalize_cancelled_write reply True)"
  by (auto simp: says_cancelled_def normalize_cancelled_write_def split: ConnectorReply.splits)

lemma interrupted_write: "\<not> says_cancelled (cancellation_reply True)"
  by (simp add: says_cancelled_def cancellation_reply_def ConnectorError_new_def)

lemma loop_ok_interrupt:
  assumes "loop_ok w" "i < length (wl_tasks w)"
  shows "loop_ok (task_interrupt now i w)"
  using assms interrupted_write
  by (auto simp: task_interrupt_def Let_def dispatch_data_def intro!: loop_ok_reply)

lemma loop_ok_start:
  assumes "loop_ok w" "i < length (wl_tasks w)"
  shows "loop_ok (task_start now i w)"
  using assms by (auto simp: task_start_def Let_def dispatch_data_def intro!: loop_ok_reply loop_ok_running)

lemma loop_ok_answer:
  assumes "loop_ok w" "i < length (wl_tasks w)"
  shows "loop_ok (task_answer env ops now instant i w)"
  using assms normalized_write
  by (auto simp: task_answer_def Let_def dispatch_data_def task_writes_def intro!: loop_ok_reply loop_ok_panic split: option.splits)

section \<open>The loop keeps its invariant\<close>

lemma record_cancellation_ok:
  assumes "lifecycle_ok (s, gs)"
  shows "lifecycle_ok (record_cancellation now call s, gs)"
proof (cases call)
  case (Call_Cancel rid)
  then show ?thesis using lc_apply_ok [OF assms, of "Lc_Cancel now rid"] by simp
next
  case (Call_InvalidateConnection cid)
  then show ?thesis using lc_apply_ok [OF assms, of "Lc_CancelConnection cid"] by simp
qed (use assms in simp_all)

lemma loop_ok_send:
  assumes "loop_ok w" "wl_result (send_reply env fault rid reply w) = None"
  shows "loop_ok (send_reply env fault rid reply w)"
  using assms by (elim send_reply_serving) (simp add: loop_ok_def permits_used_def)

lemma loop_ok_spawn_control:
  assumes "loop_ok w" "data_call_metadata call = None" "call \<noteq> Call_Shutdown"
  shows "loop_ok (spawn_task rid call None w)"
  using assms by (simp add: loop_ok_def spawn_task_def permits_used_def guards_def guard_of_def task_ok_def task_writes_def)

lemma begin_cases:
  assumes "lifecycle_ok (s, gs)"
  obtains (refused) e s' where "lc_begin now rid cid wr s = (Inl e, s')" "lifecycle_ok (s', gs)"
  | (begun) g s' where "lc_begin now rid cid wr s = (Inr g, s')" "lifecycle_ok (s', gs @ [g])"
      "ad_request_id g = rid" "ad_write g = wr"
proof -
  note ok = lc_begin_ok [OF assms, of now rid cid wr]
  show thesis
  proof (cases "lc_begin now rid cid wr s")
    case (Pair r s')
    then show thesis
    proof (cases r)
      case (Inl e)
      then show ?thesis using refused ok Pair by simp
    next
      case (Inr g)
      moreover from this Pair have "ad_request_id g = rid" "ad_write g = wr"
        by (auto simp: lc_begin_def Let_def split: if_splits)
      ultimately show ?thesis using begun ok Pair by simp
    qed
  qed
qed

lemma loop_ok_call:
  assumes "loop_ok w" "call \<noteq> Call_Shutdown" "wl_result (serve_call env now fault rid call w) = None"
  shows "loop_ok (serve_call env now fault rid call w)"
proof -
  let ?s = "record_cancellation now call (wl_lifecycle w)"
  have s: "lifecycle_ok (?s, guards (wl_tasks w))"
    using assms(1) record_cancellation_ok by (simp add: loop_ok_def)
  have tasks: "list_all task_ok (wl_tasks w)" "permits_used w \<le> MAX_CONCURRENT_DATA_CALLS"
    using assms(1) by (simp_all add: loop_ok_def)
  have w: "loop_ok (w\<lparr>wl_lifecycle := s'\<rparr>)" if "lifecycle_ok (s', guards (wl_tasks w))" for s'
    using tasks that by (simp add: loop_ok_def permits_used_def)
  show ?thesis
  proof (cases "data_call_metadata call")
    case None
    then show ?thesis using loop_ok_spawn_control [OF w [OF s] None assms(2)] by (simp add: serve_call_def)
  next
    case (Some m)
    then obtain cid wr where m: "data_call_metadata call = Some (cid, wr)" by (cases m) simp
    show ?thesis
    proof (rule begin_cases [OF s, of now rid cid wr])
      fix e s' assume b: "lc_begin now rid cid wr ?s = (Inl e, s')" "lifecycle_ok (s', guards (wl_tasks w))"
      then show ?thesis using loop_ok_send [OF w] assms(3) m by (simp add: serve_call_def)
    next
      fix g s' assume b: "lc_begin now rid cid wr ?s = (Inr g, s')" "lifecycle_ok (s', guards (wl_tasks w) @ [g])"
        "ad_request_id g = rid" "ad_write g = wr"
      have "lifecycle_ok (lc_finish now rid (ad_cancellation g) s', guards (wl_tasks w))"
        using lifecycle_drop [of s' "guards (wl_tasks w)" g "[]" now] b by simp
      from loop_ok_send [OF w [OF this]] show ?thesis using assms(3) m b tasks
        by (auto simp: serve_call_def loop_ok_def permits_used_def spawn_task_def guards_def guard_of_def task_ok_def task_writes_def)
    qed
  qed
qed

lemma loop_ok_serve:
  assumes "loop_ok w" "wl_result (serve_envelope env now fault e w) = None"
  shows "loop_ok (serve_envelope env now fault e w)"
proof -
  have w: "loop_ok (w\<lparr>wl_done := []\<rparr>)" using assms(1) by (simp add: loop_ok_def permits_used_def)
  from assms(2) show ?thesis
    unfolding serve_envelope_def Let_def [of "w\<lparr>wl_done := []\<rparr>"] Let_def [of "en_request_id e"]
    using loop_ok_send [OF w] loop_ok_call [OF w] by (auto simp: shutdown_leaves split: option.splits sum.splits if_splits)
qed

lemma loop_ok_step:
  assumes "wl_result w = None \<Longrightarrow> loop_ok w" "wl_result (worker_step env ev w) = None"
  shows "loop_ok (worker_step env ev w)"
proof -
  have serving: "wl_result w = None" using assms(2) by (auto simp: worker_step_def split: if_splits)
  note ok = assms(1) [OF this]
  show ?thesis
  proof (cases ev)
    case (Ev_Envelope now fault e)
    then show ?thesis using loop_ok_serve [OF ok] assms(2) serving by (simp add: worker_step_def)
  next
    case (Ev_End broken)
    then show ?thesis using assms(2) serving
      by (auto simp: worker_step_def serve_end_def abort_tasks_def split: option.splits)
  qed (use ok serving in \<open>simp_all add: worker_step_def loop_ok_start loop_ok_interrupt loop_ok_panic loop_ok_answer loop_ok_write\<close>)
qed

lemma loop_ok_run:
  assumes "wl_result (worker_run env evs (run_with_io pack_id registry)) = None"
  shows "loop_ok (worker_run env evs (run_with_io pack_id registry))"
  using assms
proof (induction evs rule: rev_induct)
  case Nil
  show ?case using lifecycle_new
    by (simp add: worker_run_def run_with_io_def loop_ok_def guards_def permits_used_def)
next
  case (snoc ev evs)
  then show ?case using loop_ok_step [of "worker_run env evs (run_with_io pack_id registry)" env ev]
    by (simp add: worker_run_def)
qed

lemma worker_operation_is_write: "worker_operation_is_write operation = operation_is_write operation"
  by (cases operation) simp_all

text \<open>The worker, the supervisor and the policy agree on which operations write.\<close>

lemma operation_is_write_classify:
  "operation_is_write operation \<longleftrightarrow> classify operation \<in> {Action_Insert, Action_Update, Action_Delete, Action_NativeWrite}"
  by (cases operation) simp_all

text \<open>
  C22: the data calls of a worker. However its tasks and its loop interleave, a serving
  worker has no more than 32 of them, no two of them that wait for a connector have the same
  request id, every one is in the life cycle under its id, so that a cancellation of
  that id reaches it, and a write that was handed to a connector is never answered
  as cancelled: the caller is told that its outcome is unknown.
\<close>

theorem worker_data_calls:
  fixes env :: "'c worker_env" and events :: "'c WorkerEvent list" and pack_id :: string
    and registry :: "'c ConnectorRegistry"
  defines "w \<equiv> worker_run env events (run_with_io pack_id registry)"
  assumes "wl_result w = None"
  shows "length (filter (\<lambda>t. data_call_metadata (tk_call t) \<noteq> None) (wl_tasks w)) \<le> MAX_CONCURRENT_DATA_CALLS \<and>
    distinct (map ad_request_id (guards (wl_tasks w))) \<and>
    (\<forall>t g. t \<in> set (wl_tasks w) \<and> g \<in> set (guard_of t) \<longrightarrow> ad_request_id g = tk_request_id t \<and>
       (\<exists>a. hm_get (lc_active (wl_lifecycle w)) (tk_request_id t) = Some a \<and> ar_cancellation a = ad_cancellation g)) \<and>
    (\<forall>t wire profile secret operation reply. t \<in> set (wl_tasks w) \<and> tk_call t = Call_Execute wire profile secret operation \<and>
       operation_is_write operation \<and> tk_phase t = Tp_Replying reply True \<longrightarrow> \<not> says_cancelled reply)"
proof -
  have ok: "loop_ok w" unfolding w_def by (rule loop_ok_run) (use assms(2) in \<open>simp add: w_def\<close>)
  have tasks: "task_ok t" if "t \<in> set (wl_tasks w)" for t using ok that by (simp add: loop_ok_def list_all_iff)
  have data: "data_call_metadata (tk_call t) \<noteq> None \<longleftrightarrow> tk_active t \<noteq> None" if "t \<in> set (wl_tasks w)" for t
    using tasks [OF that] unfolding task_ok_def by (metis map_option_is_None)
  have n: "length (filter (\<lambda>t. data_call_metadata (tk_call t) \<noteq> None) (wl_tasks w)) \<le> MAX_CONCURRENT_DATA_CALLS"
    using ok data by (simp add: loop_ok_def permits_used_def cong: filter_cong)
  have g: "guards_ok (wl_lifecycle w) (guards (wl_tasks w))" using ok by (simp add: loop_ok_def lifecycle_ok_def)
  have held: "ad_request_id g = tk_request_id t \<and>
      (\<exists>a. hm_get (lc_active (wl_lifecycle w)) (tk_request_id t) = Some a \<and> ar_cancellation a = ad_cancellation g)"
    if "t \<in> set (wl_tasks w)" "g \<in> set (guard_of t)" for t g
  proof -
    have "tk_active t = Some g" using that(2) by (cases "tk_phase t") (auto simp: guard_of_def split: option.splits)
    then have "ad_request_id g = tk_request_id t" using tasks [OF that(1)] by (simp add: task_ok_def)
    moreover have "g \<in> set (guards (wl_tasks w))" using that by (auto simp: guards_def)
    ultimately show ?thesis using guards_ok_running [OF g] by metis
  qed
  have "\<not> says_cancelled reply" if "t \<in> set (wl_tasks w)" "tk_call t = Call_Execute wire profile secret operation"
    "operation_is_write operation" "tk_phase t = Tp_Replying reply True" for t wire profile secret operation reply
    using tasks [OF that(1)] that(2-4)
    by (auto simp: task_ok_def task_writes_def worker_operation_is_write split: option.splits)
  with n held g show ?thesis by (auto simp: guards_ok_def)
qed

section \<open>A sample worker\<close>

text \<open>A write that its connector reports as cancelled.\<close>

definition sample_connector :: "unit connector_ops" where
  "sample_connector =
     (let unsupported = ConnectorError_new Cat_Unsupported ''no'' in
      \<lparr>co_test_connection = (\<lambda>_ _ _ _. Inl unsupported), co_search_catalog_page = (\<lambda>_ _ _ _ _. Inl unsupported),
       co_describe_entity = (\<lambda>_ _ _ _ _. Inl unsupported),
       co_execute = (\<lambda>_ _ _ _ _. Inl (ConnectorError_new Cat_Cancelled ''stopped.'')), co_cancel = (\<lambda>_ _. Inr ())\<rparr>)"

definition sample_unknown :: ConnectorReply where
  "sample_unknown =
     Reply_Error ((ConnectorError_new Cat_Cancelled ''stopped; the write outcome is unknown'')\<lparr>
       ce_category := Cat_UnknownOutcome, ce_retryable := False\<rparr>)"

definition sample_worker_env :: "unit worker_env" where
  "sample_worker_env = \<lparr>we_ops = sample_connector, we_manifest = (\<lambda>_. pg_manifest), we_version = ''1'',
     we_ipc = sample_ipc_env sample_write sample_unknown\<rparr>"

definition sample_registry :: "unit ConnectorRegistry" where
  "sample_registry = snd (register (\<lambda>_. pg_manifest) () ConnectorRegistry_new)"

definition sample_worker_events :: "unit WorkerEvent list" where
  "sample_worker_events =
     [Ev_Envelope 0 None \<lparr>en_protocol_version = 4, en_request_id = ''r1'', en_kind = 1, en_payload = ''c''\<rparr>,
      Ev_Start 1 0, Ev_Answer sample_connector 0 2 0]"

abbreviation sample_loop :: "unit WorkerEvent list \<Rightarrow> unit WorkerLoop" where
  "sample_loop events \<equiv> worker_run sample_worker_env events (run_with_io ''sql'' sample_registry)"

lemma sample_loop_replying:
  "map tk_phase (wl_tasks (sample_loop sample_worker_events)) = [Tp_Replying sample_unknown True]"
  "map tk_request_id (wl_tasks (sample_loop sample_worker_events)) = [''r1'']"
  "map tk_call (wl_tasks (sample_loop sample_worker_events)) = [sample_write]"
  "wl_result (sample_loop sample_worker_events) = None"
  "wl_done (sample_loop sample_worker_events) = []" "wl_out (sample_loop sample_worker_events) = []"
  "wl_sent (sample_loop sample_worker_events) = []"
  by code_simp+

theorem worker_data_calls_witness:
  "\<not> says_cancelled sample_unknown \<and> length (wl_tasks (sample_loop sample_worker_events)) = 1"
  using worker_data_calls [OF sample_loop_replying(4)] sample_loop_replying
  by (auto simp: map_eq_Cons_conv sample_write_def sample_update_def)

lemma sample_unknown_written:
  "\<exists>out. write_reply (we_ipc sample_worker_env) None ''r1'' sample_unknown [] = (Inr (), out)"
proof -
  let ?e = "\<lparr>en_protocol_version = 4, en_request_id = ''r1'', en_kind = 2, en_payload = ''r''\<rparr>"
  let ?env = "sample_ipc_env sample_write sample_unknown"
  have "Envelope_response ?env ''r1'' sample_unknown = Inr ?e"
    by (simp add: Envelope_response_def envelope_of_def sample_ipc_env_def PROTOCOL_VERSION_def res_simps)
  moreover have "length (ie_encode ?env ?e) \<le> 67108864" by (simp add: sample_ipc_env_def unary_def)
  ultimately show ?thesis by (simp add: sample_worker_env_def write_reply_Inr write_envelope_Inr)
qed

theorem worker_answers_each_request_once_witness:
  "\<exists>response. wl_sent (sample_loop (sample_worker_events @ [Ev_Write None 0])) = [(''r1'', sample_unknown)] \<and>
     read_envelopes (we_ipc sample_worker_env) None (wl_out (sample_loop (sample_worker_events @ [Ev_Write None 0])))
       = ([response], None)"
proof -
  let ?w = "sample_loop (sample_worker_events @ [Ev_Write None 0])"
  obtain t where t: "wl_tasks (sample_loop sample_worker_events) = [t]" "tk_phase t = Tp_Replying sample_unknown True"
    "tk_request_id t = ''r1''" using sample_loop_replying(1,2) by (auto simp: map_eq_Cons_conv)
  obtain out where out: "write_reply (we_ipc sample_worker_env) None ''r1'' sample_unknown [] = (Inr (), out)"
    using sample_unknown_written by blast
  have w: "?w = end_task 0 Task_Ok ((sample_loop sample_worker_events)\<lparr>wl_out := out, wl_sent := [(''r1'', sample_unknown)]\<rparr>)"
    using t out sample_loop_replying by (simp add: worker_run_def worker_step_def task_write_def)
  have laws: "ipc_laws (we_ipc sample_worker_env)" by (simp add: sample_worker_env_def sample_ipc_laws)
  have "wl_result ?w = None" "list_all (\<lambda>r. r = Task_Ok) (wl_done ?w)" "wl_sent ?w = [(''r1'', sample_unknown)]"
    using sample_loop_replying by (simp_all add: w end_task_def)
  with worker_answers_each_request_once [OF laws this(1,2)] show ?thesis
    by (auto simp: list_all2_Cons1)
qed

end
