(* ===== verification/Sql_Builder.thy ===== *)
theory Sql_Builder
  imports Runtime_Rules
begin

text \<open>
  The SQL text of the relational adapters (\<open>crates/connectors-sql/src/common.rs\<close>): limits,
  identifier quoting, filters, the four structured statements, native statements, paging and the
  truncation of results. Values reach a statement as parameters only. The parser of
  native statements, base64 and JSON are parameters; strings are their UTF-8 bytes.
\<close>

section \<open>Errors and limits\<close>

datatype SqlFamily = Fam_PostgreSql | Fam_PostgreSqlCompatible | Fam_MySql | Fam_Oracle | Fam_SqlServer

record BuiltQuery =
  bq_sql :: string
  bq_parameters :: "DbValue list"
  bq_row_limit :: "nat option"
  bq_base_offset :: "u64 option"

definition invalid :: "string \<Rightarrow> ConnectorError" where
  "invalid message = ConnectorError_new Cat_InvalidRequest message"

definition unsupported :: "string \<Rightarrow> ConnectorError" where
  "unsupported message = ConnectorError_new Cat_Unsupported message"

definition required_secret :: "SecretMaterial \<Rightarrow> string \<Rightarrow> ConnectorError + string" where
  "required_secret secret name =
     (case bt_get (sm_fields secret) name of
        Some value \<Rightarrow> if value \<noteq> [] then Inr value
          else Inl (ConnectorError_new Cat_Authentication (''credential field `'' @ name @ ''` is required''))
      | None \<Rightarrow> Inl (ConnectorError_new Cat_Authentication (''credential field `'' @ name @ ''` is required'')))"

text \<open>Durations in nanoseconds.\<close>

definition effective_timeout ::
  "Instant \<Rightarrow> ConnectorContext \<Rightarrow> ConnectionProfile \<Rightarrow> u64 option \<Rightarrow> ConnectorError + int" where
  "effective_timeout now cx profile requested_ms =
     (if cx_deadline cx < now then Inl (ConnectorError_new Cat_Timeout ''request deadline exceeded'')
      else
        let remaining = cx_deadline cx - now;
            configured = uint (max (pol_timeout_ms (pr_policy profile)) 1) * 1000000;
            requested = uint (max (case requested_ms of Some ms \<Rightarrow> ms | None \<Rightarrow> - 1) 1) * 1000000 in
        Inr (min (min remaining configured) requested))"

definition effective_row_limit :: "ConnectorContext \<Rightarrow> ConnectionProfile \<Rightarrow> u32 \<Rightarrow> ConnectorError + u32" where
  "effective_row_limit cx profile requested =
     (if requested = 0 then Inl (invalid ''limit must be greater than zero'')
      else Inr (min (min requested (cx_max_rows cx)) (pol_max_rows (pr_policy profile))))"

definition effective_write_limit :: "ConnectionProfile \<Rightarrow> u64 \<Rightarrow> ConnectorError + u64" where
  "effective_write_limit profile requested =
     (if requested = 0 then Inl (invalid ''max_affected must be greater than zero'')
      else Inr (min requested (pol_max_affected (pr_policy profile))))"

definition validate_auth :: "ConnectionProfile \<Rightarrow> SecretMaterial \<Rightarrow> ConnectorError + unit" where
  "validate_auth profile secret =
     (if pr_auth_kind profile \<noteq> sm_kind secret then
        Inl (ConnectorError_new Cat_Authentication ''credential kind does not match the saved connection profile'')
      else Inr ())"

definition validate_tls :: "ConnectionProfile \<Rightarrow> ConnectorError + unit" where
  "validate_tls profile =
     (if tls_enabled (pr_tls profile) \<and> \<not> tls_verify_server_certificate (pr_tls profile) then
        Inl (invalid ''TLS server certificate verification cannot be disabled'')
      else Inr ())"

section \<open>Identifiers and placeholders\<close>

text \<open>\<open>str::replace\<close> of one character by two of it.\<close>

definition double_char :: "char \<Rightarrow> string \<Rightarrow> string" where
  "double_char q s = concat (map (\<lambda>c. if c = q then [q, q] else [c]) s)"

definition quote_identifier :: "SqlFamily \<Rightarrow> string \<Rightarrow> ConnectorError + string" where
  "quote_identifier family identifier =
     (if identifier = [] \<or> length identifier > 256 \<or> list_ex is_control (utf8_chars identifier) then
        Inl (invalid ''SQL identifier is empty, too long, or contains control characters'')
      else Inr (case family of
          Fam_MySql \<Rightarrow> [CHR 0x60] @ double_char (CHR 0x60) identifier @ [CHR 0x60]
        | Fam_SqlServer \<Rightarrow> ''['' @ double_char (CHR '']'') identifier @ '']''
        | _ \<Rightarrow> [CHR 0x22] @ double_char (CHR 0x22) identifier @ [CHR 0x22]))"

definition qualified_name :: "SqlFamily \<Rightarrow> string \<Rightarrow> ConnectorError + string" where
  "qualified_name family resource =
     (let parts = split_on (CHR ''.'') resource in
      if parts = [] \<or> length parts > 3 \<or> list_ex (\<lambda>part. part = []) parts then
        Inl (invalid ''SQL resource must contain one to three non-empty identifier components'')
      else map_res (join ''.'') (map_results (quote_identifier family) parts))"

definition placeholder :: "SqlFamily \<Rightarrow> nat \<Rightarrow> string" where
  "placeholder family index =
     (case family of
        Fam_MySql \<Rightarrow> ''?''
      | Fam_Oracle \<Rightarrow> '':'' @ show_nat index
      | Fam_SqlServer \<Rightarrow> ''@P'' @ show_nat index
      | _ \<Rightarrow> ''$'' @ show_nat index)"

section \<open>Filters\<close>

definition comparison ::
  "SqlFamily \<Rightarrow> string \<Rightarrow> string \<Rightarrow> DbValue \<Rightarrow> DbValue list \<Rightarrow> ConnectorError + string \<times> DbValue list" where
  "comparison family field operator value parameters =
     bind_res (quote_identifier family field) (\<lambda>field.
       if value = DbNull then
         if operator = ''='' then Inr (field @ '' IS NULL'', parameters)
         else if operator = ''<>'' then Inr (field @ '' IS NOT NULL'', parameters)
         else Inl (invalid ''NULL only supports equality and inequality filters'')
       else
         let parameters = parameters @ [value] in
         Inr (field @ '' '' @ operator @ '' '' @ placeholder family (length parameters), parameters))"

text \<open>The loop that pushes the values of an \<open>IN\<close> filter.\<close>

fun push_values :: "SqlFamily \<Rightarrow> DbValue list \<Rightarrow> DbValue list \<Rightarrow> string list \<times> DbValue list" where
  "push_values family [] parameters = ([], parameters)"
| "push_values family (value # values) parameters =
     (let parameters = parameters @ [value]; name = placeholder family (length parameters) in
      case push_values family values parameters of (names, parameters) \<Rightarrow> (name # names, parameters))"

fun compile_filter :: "SqlFamily \<Rightarrow> Filter \<Rightarrow> DbValue list \<Rightarrow> ConnectorError + string \<times> DbValue list"
and compile_filters ::
  "SqlFamily \<Rightarrow> Filter list \<Rightarrow> DbValue list \<Rightarrow> ConnectorError + string list \<times> DbValue list" where
  "compile_filter family (F_Eq field value) parameters = comparison family field ''='' value parameters"
| "compile_filter family (F_Ne field value) parameters = comparison family field ''<>'' value parameters"
| "compile_filter family (F_Lt field value) parameters = comparison family field ''<'' value parameters"
| "compile_filter family (F_Lte field value) parameters = comparison family field ''<='' value parameters"
| "compile_filter family (F_Gt field value) parameters = comparison family field ''>'' value parameters"
| "compile_filter family (F_Gte field value) parameters = comparison family field ''>='' value parameters"
| "compile_filter family (F_Contains field value) parameters =
     (case value of
        DbString value \<Rightarrow> comparison family field ''LIKE'' (DbString (''%'' @ value @ ''%'')) parameters
      | _ \<Rightarrow> Inl (invalid ''contains filters require a string value''))"
| "compile_filter family (F_In field values) parameters =
     (if values = [] then Inl (invalid ''IN filters require at least one value'')
      else if list_ex (\<lambda>value. value = DbNull) values then
        Inl (invalid ''NULL is not accepted inside an IN filter'')
      else
        bind_res (quote_identifier family field) (\<lambda>field.
          case push_values family values parameters of
            (placeholders, parameters) \<Rightarrow> Inr (field @ '' IN ('' @ join '', '' placeholders @ '')'', parameters)))"
| "compile_filter family (F_And filters) parameters =
     (if filters = [] then Inl (invalid ''logical filters cannot be empty'')
      else bind_res (compile_filters family filters parameters) (\<lambda>(clauses, parameters).
        Inr (''('' @ join '' AND '' clauses @ '')'', parameters)))"
| "compile_filter family (F_Or filters) parameters =
     (if filters = [] then Inl (invalid ''logical filters cannot be empty'')
      else bind_res (compile_filters family filters parameters) (\<lambda>(clauses, parameters).
        Inr (''('' @ join '' OR '' clauses @ '')'', parameters)))"
| "compile_filter family (F_Not child) parameters =
     bind_res (compile_filter family child parameters) (\<lambda>(clause, parameters).
       Inr (''NOT ('' @ clause @ '')'', parameters))"
| "compile_filters family [] parameters = Inr ([], parameters)"
| "compile_filters family (child # filters) parameters =
     bind_res (compile_filter family child parameters) (\<lambda>(clause, parameters).
     bind_res (compile_filters family filters parameters) (\<lambda>(clauses, parameters).
       Inr (clause # clauses, parameters)))"

section \<open>Cursors and pages\<close>

record cursor_env =
  cu_b64_encode :: "string \<Rightarrow> string"
  cu_b64_decode :: "string \<Rightarrow> string option"
  cu_to_json :: "u64 \<Rightarrow> string + string"
  cu_from_json :: "string \<Rightarrow> u64 option"

definition decode_offset :: "cursor_env \<Rightarrow> string option \<Rightarrow> ConnectorError + u64" where
  "decode_offset env cursor =
     (case cursor of
        None \<Rightarrow> Inr 0
      | Some cursor \<Rightarrow>
          bind_res (ok_or (cu_b64_decode env cursor) (invalid ''cursor is not valid base64url'')) (\<lambda>bytes.
          ok_or (cu_from_json env bytes) (invalid ''cursor payload is invalid'')))"

definition encode_offset :: "cursor_env \<Rightarrow> u64 \<Rightarrow> ConnectorError + string" where
  "encode_offset env offset =
     map_res (cu_b64_encode env)
       (map_err (\<lambda>e. invalid (''could not encode cursor: '' @ e)) (cu_to_json env offset))"

text \<open>\<open>checked_add\<close> on unsigned words.\<close>

definition checked_add :: "'a::len word \<Rightarrow> 'a word \<Rightarrow> 'a word option" where
  "checked_add a b = (if uint a + uint b < 2 ^ LENGTH('a) then Some (a + b) else None)"

definition catalog_page ::
  "cursor_env \<Rightarrow> ConnectorContext \<Rightarrow> ConnectionProfile \<Rightarrow> CatalogQuery \<Rightarrow> CatalogEntity list
     \<Rightarrow> ConnectorError + CatalogPage" where
  "catalog_page env cx profile q entities =
     bind_res (effective_row_limit cx profile (cq_limit q)) (\<lambda>limit.
       let has_more = length entities > unat limit; entities = take (unat limit) entities in
       bind_res
         (if has_more then
            bind_res (decode_offset env (cq_cursor q)) (\<lambda>offset.
            bind_res (ok_or (checked_add offset (word_of_nat (length entities)))
                (invalid ''catalog cursor offset is too large'')) (\<lambda>next_offset.
            map_res Some (encode_offset env next_offset)))
          else Inr None)
         (\<lambda>next_cursor. Inr \<lparr>cp_entities = entities, cp_next_cursor = next_cursor\<rparr>))"

definition catalog_fetch_inputs ::
  "ConnectorContext \<Rightarrow> ConnectionProfile \<Rightarrow> CatalogQuery
     \<Rightarrow> ConnectorError + ConnectorContext \<times> ConnectionProfile \<times> CatalogQuery" where
  "catalog_fetch_inputs cx profile q =
     bind_res (effective_row_limit cx profile (cq_limit q)) (\<lambda>output_limit.
     bind_res (ok_or (checked_add output_limit 1) (invalid ''catalog limit is too large'')) (\<lambda>fetch_limit.
     Inr (cx\<lparr>cx_max_rows := max (cx_max_rows cx) fetch_limit\<rparr>,
       profile\<lparr>pr_policy := (pr_policy profile)\<lparr>pol_max_rows :=
         max (pol_max_rows (pr_policy profile)) fetch_limit\<rparr>\<rparr>,
       q\<lparr>cq_limit := fetch_limit\<rparr>)))"

section \<open>Statements\<close>

definition direction_text :: "SortDirection \<Rightarrow> string" where
  "direction_text direction = (case direction of Asc \<Rightarrow> ''ASC'' | Desc \<Rightarrow> ''DESC'')"

definition compile_sort :: "SqlFamily \<Rightarrow> QueryOptions \<Rightarrow> ConnectorError + string" where
  "compile_sort family options =
     (if qo_sort options = [] then Inr []
      else bind_res (map_results (\<lambda>sort. map_res (\<lambda>field. field @ '' '' @ direction_text (sf_direction sort))
          (quote_identifier family (sf_field sort))) (qo_sort options)) (\<lambda>fields.
        Inr ('' ORDER BY '' @ join '', '' fields)))"

definition build_read ::
  "cursor_env \<Rightarrow> SqlFamily \<Rightarrow> ConnectorContext \<Rightarrow> ConnectionProfile \<Rightarrow> ReadRequest \<Rightarrow> ConnectorError + BuiltQuery" where
  "build_read env family cx profile request =
     bind_res (effective_row_limit cx profile (qo_limit (rd_options request))) (\<lambda>limit.
     bind_res (decode_offset env (qo_cursor (rd_options request))) (\<lambda>offset.
     bind_res (if rd_fields request = [] then Inr ''*''
         else map_res (join '', '') (map_results (quote_identifier family) (rd_fields request))) (\<lambda>columns.
     bind_res (case rd_filter request of
           None \<Rightarrow> Inr ([], [])
         | Some f \<Rightarrow> map_res (\<lambda>(text, parameters). ('' WHERE '' @ text, parameters)) (compile_filter family f []))
       (\<lambda>(where_text, parameters).
     bind_res (compile_sort family (rd_options request)) (\<lambda>sort.
       let fetch = saturating_add (ucast limit :: u64) 1;
           rows = '' OFFSET '' @ show_word offset @ '' ROWS FETCH NEXT '' @ show_word fetch @ '' ROWS ONLY'';
           pagination = (case family of
               Fam_Oracle \<Rightarrow> rows
             | Fam_SqlServer \<Rightarrow> (if sort = [] then '' ORDER BY (SELECT NULL)'' else sort) @ rows
             | _ \<Rightarrow> '' LIMIT '' @ show_word fetch @ '' OFFSET '' @ show_word offset);
           sort = (if family = Fam_SqlServer then [] else sort) in
       bind_res (qualified_name family (rd_target request)) (\<lambda>target.
       Inr \<lparr>bq_sql = ''SELECT '' @ columns @ '' FROM '' @ target @ where_text @ sort @ pagination,
         bq_parameters = parameters, bq_row_limit = Some (unat limit), bq_base_offset = Some offset\<rparr>))))))"

text \<open>The loops over the records of an insert; \<open>record[column]\<close> panics for a missing column.\<close>

fun insert_row :: "SqlFamily \<Rightarrow> DbRecord \<Rightarrow> string list \<Rightarrow> DbValue list \<Rightarrow> (string list \<times> DbValue list) option" where
  "insert_row family r [] parameters = Some ([], parameters)"
| "insert_row family r (column # columns) parameters =
     (case bt_get r column of
        None \<Rightarrow> None
      | Some value \<Rightarrow>
          let parameters = parameters @ [value]; name = placeholder family (length parameters) in
          map_option (\<lambda>(row, parameters). (name # row, parameters)) (insert_row family r columns parameters))"

fun insert_rows :: "SqlFamily \<Rightarrow> DbRecord list \<Rightarrow> string list \<Rightarrow> DbValue list \<Rightarrow> (string list \<times> DbValue list) option" where
  "insert_rows family [] columns parameters = Some ([], parameters)"
| "insert_rows family (r # records) columns parameters =
     (case insert_row family r columns parameters of
        None \<Rightarrow> None
      | Some (row, parameters) \<Rightarrow>
          map_option (\<lambda>(rows, parameters). ((''('' @ join '', '' row @ '')'') # rows, parameters))
            (insert_rows family records columns parameters))"

text \<open>\<open>None\<close> is the panic; \<open>insert_total\<close> below shows that it does not happen.\<close>

definition build_insert ::
  "SqlFamily \<Rightarrow> ConnectionProfile \<Rightarrow> InsertRequest \<Rightarrow> (ConnectorError + BuiltQuery) option" where
  "build_insert family profile request =
     (if ins_records request = [] then Some (Inl (invalid ''insert requires at least one record''))
      else if length (ins_records request) > unat (pol_max_affected (pr_policy profile)) then
        Some (Inl (invalid ''insert record count exceeds max_affected''))
      else
        let columns = map fst (hd (ins_records request)) in
        if columns = [] then Some (Inl (invalid ''insert records cannot be empty''))
        else if list_ex (\<lambda>r. map fst r \<noteq> columns) (ins_records request) then
          Some (Inl (invalid ''all insert records must contain the same ordered fields''))
        else
          map_option (\<lambda>(rows, parameters).
            bind_res (map_res (join '', '') (map_results (quote_identifier family) columns)) (\<lambda>columns.
            bind_res (qualified_name family (ins_target request)) (\<lambda>target.
            Inr \<lparr>bq_sql =
                (if family = Fam_Oracle \<and> length rows > 1 then
                   ''INSERT ALL '' @ join '' '' (map (\<lambda>row. ''INTO '' @ target @ '' ('' @ columns @ '') VALUES '' @ row) rows)
                     @ '' SELECT 1 FROM DUAL''
                 else ''INSERT INTO '' @ target @ '' ('' @ columns @ '') VALUES '' @ join '', '' rows),
              bq_parameters = parameters, bq_row_limit = None, bq_base_offset = None\<rparr>)))
            (insert_rows family (ins_records request) columns []))"

fun assignments :: "SqlFamily \<Rightarrow> DbRecord \<Rightarrow> DbValue list \<Rightarrow> ConnectorError + string list \<times> DbValue list" where
  "assignments family [] parameters = Inr ([], parameters)"
| "assignments family ((field, value) # changes) parameters =
     (let parameters = parameters @ [value] in
      bind_res (quote_identifier family field) (\<lambda>field.
        let text = field @ '' = '' @ placeholder family (length parameters) in
        map_res (\<lambda>(texts, parameters). (text # texts, parameters)) (assignments family changes parameters)))"

definition build_update :: "SqlFamily \<Rightarrow> ConnectionProfile \<Rightarrow> UpdateRequest \<Rightarrow> ConnectorError + BuiltQuery" where
  "build_update family profile request =
     (if upd_changes request = [] then Inl (invalid ''update changes cannot be empty'')
      else
        bind_res (effective_write_limit profile (upd_max_affected request)) (\<lambda>limit.
        bind_res (qualified_name family (upd_target request)) (\<lambda>target.
        bind_res (assignments family (upd_changes request) []) (\<lambda>(texts, parameters).
        bind_res (compile_filter family (upd_filter request) parameters) (\<lambda>(condition, parameters).
          let set_text = join '', '' texts in
          Inr \<lparr>bq_sql =
              (case family of
                 Fam_PostgreSql \<Rightarrow> ''UPDATE '' @ target @ '' SET '' @ set_text @ '' WHERE ctid IN (SELECT ctid FROM ''
                   @ target @ '' WHERE '' @ condition @ '' LIMIT '' @ show_word limit @ '')''
               | Fam_MySql \<Rightarrow> ''UPDATE '' @ target @ '' SET '' @ set_text @ '' WHERE '' @ condition @ '' LIMIT ''
                   @ show_word limit
               | Fam_SqlServer \<Rightarrow> ''UPDATE TOP ('' @ show_word limit @ '') '' @ target @ '' SET '' @ set_text
                   @ '' WHERE '' @ condition
               | _ \<Rightarrow> ''UPDATE '' @ target @ '' SET '' @ set_text @ '' WHERE '' @ condition),
            bq_parameters = parameters, bq_row_limit = None, bq_base_offset = None\<rparr>)))))"

definition build_delete :: "SqlFamily \<Rightarrow> ConnectionProfile \<Rightarrow> DeleteRequest \<Rightarrow> ConnectorError + BuiltQuery" where
  "build_delete family profile request =
     bind_res (effective_write_limit profile (del_max_affected request)) (\<lambda>limit.
     bind_res (qualified_name family (del_target request)) (\<lambda>target.
     bind_res (compile_filter family (del_filter request) []) (\<lambda>(condition, parameters).
       Inr \<lparr>bq_sql =
           (case family of
              Fam_PostgreSql \<Rightarrow> ''DELETE FROM '' @ target @ '' WHERE ctid IN (SELECT ctid FROM '' @ target @ '' WHERE ''
                @ condition @ '' LIMIT '' @ show_word limit @ '')''
            | Fam_MySql \<Rightarrow> ''DELETE FROM '' @ target @ '' WHERE '' @ condition @ '' LIMIT '' @ show_word limit
            | Fam_SqlServer \<Rightarrow> ''DELETE TOP ('' @ show_word limit @ '') FROM '' @ target @ '' WHERE '' @ condition
            | _ \<Rightarrow> ''DELETE FROM '' @ target @ '' WHERE '' @ condition),
         bq_parameters = parameters, bq_row_limit = None, bq_base_offset = None\<rparr>)))"

section \<open>Native statements\<close>

datatype NativeStatement = Ns_Query Query | Ns_Insert | Ns_Update | Ns_Delete | Ns_Other

definition family_dialect :: "SqlFamily \<Rightarrow> Dialect" where
  "family_dialect family =
     (case family of Fam_MySql \<Rightarrow> MySqlDialect | Fam_Oracle \<Rightarrow> GenericDialect | Fam_SqlServer \<Rightarrow> MsSqlDialect
      | _ \<Rightarrow> PostgreSqlDialect)"

fun body_is_read :: "SetExpr \<Rightarrow> bool" where
  "body_is_read (SE_Select has_into _) = (\<not> has_into)"
| "body_is_read (SE_Query _) = True"
| "body_is_read (SE_SetOperation _ _) = True"
| "body_is_read SE_Values = True"
| "body_is_read SE_Table = True"
| "body_is_read _ = False"

text \<open>The visitor only looks at queries, and breaks at the first whose body is not a read.\<close>

definition query_is_read_only :: "Query \<Rightarrow> bool" where
  "query_is_read_only q =
     list_all (\<lambda>callback. case callback of PreVisitQuery q \<Rightarrow> body_is_read (q_body q) | _ \<Rightarrow> True) (visit_query q)"

definition parse_native ::
  "(Dialect \<Rightarrow> string \<Rightarrow> string + NativeStatement list) \<Rightarrow> SqlFamily \<Rightarrow> string \<Rightarrow> bool \<Rightarrow> ConnectorError + string" where
  "parse_native parse_sql family statement write =
     (let statement = trim statement in
      if statement = [] \<or> length statement > 1048576 then Inl (invalid ''native SQL is empty or exceeds 1 MiB'')
      else if CHR '';'' \<in> set statement then
        Inl (invalid ''native SQL must contain exactly one statement without a semicolon'')
      else
        bind_res (map_err (\<lambda>e. invalid (''native SQL could not be parsed: '' @ e))
            (parse_sql (family_dialect family) statement)) (\<lambda>statements.
          if length statements \<noteq> 1 then Inl (invalid ''native SQL must contain exactly one statement'')
          else
            let is_query = (case hd statements of Ns_Query q \<Rightarrow> query_is_read_only q | _ \<Rightarrow> False);
                is_write = (hd statements \<in> {Ns_Insert, Ns_Update, Ns_Delete}) in
            if (\<not> write \<and> \<not> is_query) \<or> (write \<and> \<not> is_write) then
              Inl (unsupported (if write
                then ''native execute accepts INSERT, UPDATE, or DELETE only; DDL and administration are disabled''
                else ''native query accepts a SELECT/WITH query only''))
            else Inr statement))"

section \<open>Truncation of results\<close>

text \<open>One round of the loop: the cursor, the counts and the size for the rows kept so far.\<close>

definition measured ::
  "cursor_env \<Rightarrow> size_env \<Rightarrow> bool \<Rightarrow> u64 option \<Rightarrow> OperationResult \<Rightarrow> ConnectorError + OperationResult \<times> nat" where
  "measured env sz truncated base_offset r =
     bind_res
       (if truncated then
          (case base_offset of
             None \<Rightarrow> Inr None
           | Some offset \<Rightarrow> map_res Some
               (encode_offset env (saturating_add offset (word_of_nat (length (or_records r))))))
        else Inr None) (\<lambda>next_cursor.
     bind_res (map_err (\<lambda>e. invalid (''could not serialize result rows: '' @ e)) (sz_records sz (or_records r)))
       (\<lambda>bytes.
       let r = r\<lparr>or_truncated := truncated, or_next_cursor := next_cursor,
             or_metrics := (or_metrics r)\<lparr>rm_returned := word_of_nat (length (or_records r)),
               rm_bytes := Some (word_of_nat bytes)\<rparr>\<rparr> in
       map_res (\<lambda>n. (r, n)) (map_err (\<lambda>e. invalid (''could not serialize result: '' @ e)) (sz_result sz r))))"

function fit_rows ::
  "cursor_env \<Rightarrow> size_env \<Rightarrow> u64 \<Rightarrow> bool \<Rightarrow> u64 option \<Rightarrow> OperationResult \<Rightarrow> ConnectorError + OperationResult" where
  "fit_rows env sz max_bytes truncated base_offset r =
     bind_res (measured env sz truncated base_offset r) (\<lambda>(r', n).
       if n \<le> unat max_bytes then Inr r'
       else if length (or_records r) \<le> 1 then
         Inl (with_code ''result_too_large'' (invalid (if or_records r = []
           then ''result metadata exceeds the connection byte limit''
           else ''first result row exceeds the connection byte limit'')))
       else fit_rows env sz max_bytes True base_offset (r'\<lparr>or_records := butlast (or_records r)\<rparr>))"
  by pat_completeness auto
termination
  by (relation "measure (\<lambda>(_, _, _, _, _, r). length (or_records r))") auto

declare fit_rows.simps [simp del]

definition truncate_records ::
  "cursor_env \<Rightarrow> size_env \<Rightarrow> OperationResult \<Rightarrow> nat \<Rightarrow> u64 \<Rightarrow> bool \<Rightarrow> u64 option \<Rightarrow> ConnectorError + OperationResult" where
  "truncate_records env sz r row_limit max_bytes source_truncated base_offset =
     (let records = take row_limit (or_records r);
          truncated = (source_truncated \<or> length records < length (or_records r)) in
      fit_rows env sz max_bytes truncated base_offset (r\<lparr>or_records := records\<rparr>))"

end
