(* ===== verification/Sql_Text.thy ===== *)
theory Sql_Text
  imports Sql_Builder
begin

text \<open>
  What a database reads in the statements of \<open>Sql_Builder\<close>. A text is taken apart into words,
  operators, punctuation and quoted identifiers; anything else, such as a string literal, a
  comment or a semicolon, is refused. The condition of a statement is parsed back into a filter,
  its placeholders standing for the parameters.
\<close>

section \<open>Lexing\<close>

datatype Piece = P_Space | P_Word string | P_Sym char | P_Op string | P_Quoted string

definition open_quote :: "SqlFamily \<Rightarrow> char" where
  "open_quote family = (case family of Fam_MySql \<Rightarrow> CHR 0x60 | Fam_SqlServer \<Rightarrow> CHR ''['' | _ \<Rightarrow> CHR 0x22)"

definition close_quote :: "SqlFamily \<Rightarrow> char" where
  "close_quote family = (case family of Fam_MySql \<Rightarrow> CHR 0x60 | Fam_SqlServer \<Rightarrow> CHR '']'' | _ \<Rightarrow> CHR 0x22)"

definition word_char :: "char \<Rightarrow> bool" where
  "word_char c \<longleftrightarrow> is_ascii_alphanumeric c \<or> c \<in> set ''_$:@?*''"

definition op_char :: "char \<Rightarrow> bool" where
  "op_char c \<longleftrightarrow> c \<in> set ''=<>''"

definition sym_char :: "char \<Rightarrow> bool" where
  "sym_char c \<longleftrightarrow> c \<in> set ''(),.''"

text \<open>Up to the closing quote; a doubled one stands for itself.\<close>

fun read_quoted :: "char \<Rightarrow> string \<Rightarrow> (string \<times> string) option" where
  "read_quoted q [] = None"
| "read_quoted q [c] = (if c = q then Some ([], []) else None)"
| "read_quoted q (c # d # s) =
     (if c \<noteq> q then map_option (\<lambda>(name, rest). (c # name, rest)) (read_quoted q (d # s))
      else if d = q then map_option (\<lambda>(name, rest). (q # name, rest)) (read_quoted q s)
      else Some ([], d # s))"

lemma read_quoted_shorter: "read_quoted q s = Some (name, rest) \<Longrightarrow> length rest < length s"
  by (induction q s arbitrary: name rule: read_quoted.induct) (fastforce split: if_splits)+

function lex_sql :: "SqlFamily \<Rightarrow> string \<Rightarrow> Piece list option" where
  "lex_sql family [] = Some []"
| "lex_sql family (c # s) =
     (if c = CHR '' '' then lex_sql family s
      else if c = open_quote family then
        (case read_quoted (close_quote family) s of
           None \<Rightarrow> None
         | Some (name, rest) \<Rightarrow> map_option ((#) (P_Quoted name)) (lex_sql family rest))
      else if sym_char c then map_option ((#) (P_Sym c)) (lex_sql family s)
      else if op_char c then
        map_option ((#) (P_Op (c # takeWhile op_char s))) (lex_sql family (dropWhile op_char s))
      else if word_char c then
        map_option ((#) (P_Word (c # takeWhile word_char s))) (lex_sql family (dropWhile word_char s))
      else None)"
  by pat_completeness auto
termination
  by (relation "measure (length \<circ> snd)")
    (auto simp: le_imp_less_Suc length_dropWhile_le dest: read_quoted_shorter)

text \<open>The text of pieces.\<close>

fun piece_text :: "SqlFamily \<Rightarrow> Piece \<Rightarrow> string" where
  "piece_text family P_Space = '' ''"
| "piece_text family (P_Word w) = w"
| "piece_text family (P_Sym c) = [c]"
| "piece_text family (P_Op s) = s"
| "piece_text family (P_Quoted name) = [open_quote family] @ double_char (close_quote family) name @ [close_quote family]"

definition render :: "SqlFamily \<Rightarrow> Piece list \<Rightarrow> string" where
  "render family ps = concat (map (piece_text family) ps)"

lemma render_simps [simp]:
  "render family [] = []" "render family (p # ps) = piece_text family p @ render family ps"
  "render family (ps @ qs) = render family ps @ render family qs"
  by (simp_all add: render_def)

text \<open>Two pieces of the same class that touch would be read as one.\<close>

fun piece_class :: "Piece \<Rightarrow> nat" where
  "piece_class P_Space = 0" | "piece_class (P_Sym _) = 0" | "piece_class (P_Word _) = 1"
| "piece_class (P_Op _) = 2" | "piece_class (P_Quoted _) = 3"

fun piece_ok :: "Piece \<Rightarrow> bool" where
  "piece_ok (P_Word w) = (w \<noteq> [] \<and> list_all word_char w)"
| "piece_ok (P_Op s) = (s \<noteq> [] \<and> list_all op_char s)"
| "piece_ok (P_Sym c) = sym_char c"
| "piece_ok _ = True"

fun separated :: "Piece list \<Rightarrow> bool" where
  "separated [] = True"
| "separated [p] = piece_ok p"
| "separated (p # q # ps) = (piece_ok p \<and> (piece_class p = 0 \<or> piece_class p \<noteq> piece_class q) \<and> separated (q # ps))"

definition tokens :: "Piece list \<Rightarrow> Piece list" where
  "tokens ps = filter (\<lambda>p. p \<noteq> P_Space) ps"

lemma tokens_simps [simp]:
  "tokens [] = []" "tokens (P_Space # ps) = tokens ps" "p \<noteq> P_Space \<Longrightarrow> tokens (p # ps) = p # tokens ps"
  "tokens (ps @ qs) = tokens ps @ tokens qs"
  by (simp_all add: tokens_def)

lemma char_classes:
  "word_char c \<Longrightarrow> \<not> op_char c \<and> \<not> sym_char c \<and> c \<noteq> CHR '' '' \<and> c \<noteq> open_quote family \<and> c \<noteq> close_quote family"
  "op_char c \<Longrightarrow> \<not> word_char c \<and> \<not> sym_char c \<and> c \<noteq> CHR '' '' \<and> c \<noteq> open_quote family \<and> c \<noteq> close_quote family"
  "sym_char c \<Longrightarrow> \<not> word_char c \<and> \<not> op_char c \<and> c \<noteq> CHR '' '' \<and> c \<noteq> open_quote family \<and> c \<noteq> close_quote family"
  "\<not> word_char (CHR '' '')" "\<not> op_char (CHR '' '')" "\<not> sym_char (CHR '' '')"
  "CHR '' '' \<noteq> open_quote family" "CHR '' '' \<noteq> close_quote family"
  "\<not> word_char (open_quote family)" "\<not> op_char (open_quote family)"
  by (cases family; auto simp: word_char_def op_char_def sym_char_def open_quote_def close_quote_def
      is_ascii_alphanumeric_def is_ascii_alphabetic_def is_ascii_digit_def ascii_upper_char_def ascii_lower_char_def byte_def)+

text \<open>The first character of the text of pieces.\<close>

definition starts :: "(char \<Rightarrow> bool) \<Rightarrow> string \<Rightarrow> bool" where
  "starts P s \<longleftrightarrow> s \<noteq> [] \<and> P (hd s)"

lemma read_quoted_double:
  assumes "\<not> starts (\<lambda>c. c = q) rest"
  shows "read_quoted q (double_char q name @ q # rest) = Some (name, rest)"
proof (induction name)
  case Nil
  then show ?case using assms by (cases rest) (simp_all add: double_char_def starts_def)
next
  case (Cons c name)
  obtain d s where ds: "double_char q name @ q # rest = d # s"
    by (cases "double_char q name @ q # rest") simp_all
  have "double_char q (c # name) = (if c = q then [q, q] else [c]) @ double_char q name"
    by (simp add: double_char_def)
  then show ?case using Cons ds by auto
qed

lemma takeWhile_run:
  "list_all P w \<Longrightarrow> \<not> starts P rest \<Longrightarrow> takeWhile P (w @ rest) = w \<and> dropWhile P (w @ rest) = rest"
  by (induction w) (cases rest, auto simp: starts_def)+

lemma starts_render:
  assumes "separated (p # ps)" "piece_class p \<noteq> 0"
  shows "piece_class p = 1 \<Longrightarrow> \<not> starts word_char (render family ps)"
    and "piece_class p = 2 \<Longrightarrow> \<not> starts op_char (render family ps)"
    and "piece_class p = 3 \<Longrightarrow> \<not> starts (\<lambda>c. c = close_quote family) (render family ps)"
proof -
  have "\<not> starts word_char (render family ps) \<or> piece_class p \<noteq> 1"
    "\<not> starts op_char (render family ps) \<or> piece_class p \<noteq> 2"
    "\<not> starts (\<lambda>c. c = close_quote family) (render family ps) \<or> piece_class p \<noteq> 3"
  proof (atomize (full), cases ps)
    case (Cons q qs)
    then have q: "piece_ok q" "piece_class p \<noteq> piece_class q" using assms by (cases qs; auto)+
    note chars = char_classes
    show "(\<not> starts word_char (render family ps) \<or> piece_class p \<noteq> 1) \<and>
      (\<not> starts op_char (render family ps) \<or> piece_class p \<noteq> 2) \<and>
      (\<not> starts (\<lambda>c. c = close_quote family) (render family ps) \<or> piece_class p \<noteq> 3)"
    proof (cases q)
      case (P_Word w)
      then obtain c v where "w = c # v" "word_char c" using q(1) by (cases w) auto
      then show ?thesis using q(2) chars(1) by (auto simp: Cons P_Word starts_def)
    next
      case (P_Op w)
      then obtain c v where "w = c # v" "op_char c" using q(1) by (cases w) auto
      then show ?thesis using q(2) chars(2) by (auto simp: Cons P_Op starts_def)
    next
      case P_Space
      then show ?thesis using chars(4,5,8) by (simp add: Cons starts_def)
    next
      case (P_Sym c)
      then show ?thesis using q(1) chars(3) [of c family] by (simp add: Cons starts_def)
    next
      case (P_Quoted name)
      then show ?thesis using q(2) chars(9,10) by (simp add: Cons starts_def)
    qed
  qed (simp add: starts_def)
  then show "piece_class p = 1 \<Longrightarrow> \<not> starts word_char (render family ps)"
    "piece_class p = 2 \<Longrightarrow> \<not> starts op_char (render family ps)"
    "piece_class p = 3 \<Longrightarrow> \<not> starts (\<lambda>c. c = close_quote family) (render family ps)" by auto
qed

lemma separated_tl: "separated (p # ps) \<Longrightarrow> piece_ok p \<and> separated ps"
  by (cases ps) simp_all

lemma lex_render: "separated ps \<Longrightarrow> lex_sql family (render family ps) = Some (tokens ps)"
proof (induction ps)
  case (Cons p ps)
  note chars = char_classes
  have ok: "piece_ok p" "separated ps" using separated_tl [OF Cons.prems] by simp_all
  note IH = Cons.IH [OF ok(2)]
  note next_piece = starts_render [OF Cons.prems, of family]
  show ?case
  proof (cases p)
    case P_Space
    then show ?thesis using IH by simp
  next
    case (P_Sym c)
    then show ?thesis using IH ok(1) chars(3) [of c] by simp
  next
    case (P_Word w)
    then obtain c v where w: "w = c # v" "word_char c" "list_all word_char v" using ok(1) by (cases w) auto
    have "\<not> starts word_char (render family ps)" using next_piece(1) P_Word by simp
    from takeWhile_run [OF w(3) this] show ?thesis using IH w chars(1) [OF w(2)] by (simp add: P_Word)
  next
    case (P_Op w)
    then obtain c v where w: "w = c # v" "op_char c" "list_all op_char v" using ok(1) by (cases w) auto
    have "\<not> starts op_char (render family ps)" using next_piece(2) P_Op by simp
    from takeWhile_run [OF w(3) this] show ?thesis using IH w chars(2) [OF w(2)] by (simp add: P_Op)
  next
    case (P_Quoted name)
    have "\<not> starts (\<lambda>c. c = close_quote family) (render family ps)" using next_piece(3) P_Quoted by simp
    from read_quoted_double [OF this] show ?thesis using IH chars(7) [of family, symmetric] by (simp add: P_Quoted)
  qed
qed simp

section \<open>Conditions\<close>

text \<open>The number that a text of digits stands for.\<close>

definition digits_nat :: "string \<Rightarrow> nat" where
  "digits_nat s = foldl (\<lambda>n c. 10 * n + (byte c - 48)) 0 s"

lemma digits_show: "digits_nat (show_nat n) = n"
proof (induction n rule: less_induct)
  case (less n)
  show ?case
  proof (cases "n < 10")
    case True
    then show ?thesis by (subst show_nat.simps) (simp add: digits_nat_def byte_def)
  next
    case False
    then have "digits_nat (show_nat (n div 10)) = n div 10" using less by simp
    then show ?thesis using False
      by (subst show_nat.simps) (simp add: digits_nat_def byte_def)
  qed
qed

lemma show_nat_digits: "show_nat n \<noteq> [] \<and> list_all is_ascii_digit (show_nat n)"
proof (induction n rule: less_induct)
  case (less n)
  have "is_ascii_digit (char_of (48 + d))" if "d < 10" for d :: nat using that by (simp add: is_ascii_digit_def byte_def)
  then show ?case using less [of "n div 10"] by (subst (1 2) show_nat.simps) auto
qed

text \<open>The parameter that a placeholder names, when \<open>used\<close> were named before it.\<close>

definition named_parameter :: "SqlFamily \<Rightarrow> nat \<Rightarrow> string \<Rightarrow> nat option" where
  "named_parameter family used name =
     (case family of
        Fam_MySql \<Rightarrow> if name = ''?'' then Some (Suc used) else None
      | Fam_Oracle \<Rightarrow> map_option digits_nat (strip_prefix name '':'')
      | Fam_SqlServer \<Rightarrow> map_option digits_nat (strip_prefix name ''@P'')
      | _ \<Rightarrow> map_option digits_nat (strip_prefix name ''$''))"

definition parameter :: "SqlFamily \<Rightarrow> DbValue list \<Rightarrow> nat \<Rightarrow> string \<Rightarrow> DbValue option" where
  "parameter family params used name =
     (case named_parameter family used name of
        Some (Suc i) \<Rightarrow> if i < length params then Some (params ! i) else None
      | _ \<Rightarrow> None)"

definition compared :: "string \<Rightarrow> string \<Rightarrow> DbValue \<Rightarrow> Filter option" where
  "compared name operator value =
     (if operator = ''='' then Some (F_Eq name value) else if operator = ''<>'' then Some (F_Ne name value)
      else if operator = ''<'' then Some (F_Lt name value) else if operator = ''<='' then Some (F_Lte name value)
      else if operator = ''>'' then Some (F_Gt name value) else if operator = ''>='' then Some (F_Gte name value)
      else None)"

text \<open>A \<open>LIKE\<close> pattern that was made from a contained text.\<close>

definition contained_text :: "DbValue \<Rightarrow> string option" where
  "contained_text value =
     (case value of
        DbString s \<Rightarrow> if length s \<ge> 2 \<and> hd s = CHR ''%'' \<and> last s = CHR ''%'' then Some (butlast (tl s)) else None
      | _ \<Rightarrow> None)"

fun parse_values :: "SqlFamily \<Rightarrow> DbValue list \<Rightarrow> nat \<Rightarrow> Piece list \<Rightarrow> (DbValue list \<times> nat \<times> Piece list) option" where
  "parse_values family params used (P_Word name # P_Sym c # ts) =
     (case parameter family params used name of
        None \<Rightarrow> None
      | Some value \<Rightarrow>
          if c = CHR '','' then
            map_option (\<lambda>(values, used, ts). (value # values, used, ts)) (parse_values family params (Suc used) ts)
          else if c = CHR '')'' then Some ([value], Suc used, ts)
          else None)"
| "parse_values family params used _ = None"

fun parse_simple :: "SqlFamily \<Rightarrow> DbValue list \<Rightarrow> nat \<Rightarrow> Piece list \<Rightarrow> (Filter \<times> nat \<times> Piece list) option" where
  "parse_simple family params used (P_Quoted name # P_Op operator # P_Word p # ts) =
     (case parameter family params used p of
        None \<Rightarrow> None
      | Some value \<Rightarrow> map_option (\<lambda>f. (f, Suc used, ts)) (compared name operator value))"
| "parse_simple family params used (P_Quoted name # P_Word w # P_Word p # ts) =
     (if w = ''LIKE'' then
        (case Option.bind (parameter family params used p) contained_text of
           None \<Rightarrow> None
         | Some text \<Rightarrow> Some (F_Contains name (DbString text), Suc used, ts))
      else if w = ''IS'' \<and> p = ''NULL'' then Some (F_Eq name DbNull, used, ts)
      else if w = ''IS'' \<and> p = ''NOT'' \<and> ts \<noteq> [] \<and> hd ts = P_Word ''NULL'' then Some (F_Ne name DbNull, used, tl ts)
      else None)"
| "parse_simple family params used (P_Quoted name # P_Word w # P_Sym c # ts) =
     (if w = ''IN'' \<and> c = CHR ''('' then
        map_option (\<lambda>(values, used, ts). (F_In name values, used, ts)) (parse_values family params used ts)
      else None)"
| "parse_simple family params used _ = None"

text \<open>
  A condition: a simple one, a negated or a parenthesised one, where the first connective decides
  how the parts in the parentheses are combined. The fuel bounds the depth and the length.
\<close>

fun parse_condition ::
  "SqlFamily \<Rightarrow> DbValue list \<Rightarrow> nat \<Rightarrow> nat \<Rightarrow> Piece list \<Rightarrow> (Filter \<times> nat \<times> Piece list) option"
and parse_parts ::
  "SqlFamily \<Rightarrow> DbValue list \<Rightarrow> nat \<Rightarrow> string \<Rightarrow> nat \<Rightarrow> Piece list \<Rightarrow> (Filter list \<times> nat \<times> Piece list) option" where
  "parse_condition family params 0 used ts = None"
| "parse_condition family params (Suc fuel) used ts =
     (if ts \<noteq> [] \<and> hd ts = P_Sym (CHR ''('') then
        (case parse_condition family params fuel used (tl ts) of
           None \<Rightarrow> None
         | Some (f, used, ts) \<Rightarrow>
             let w = (case ts of P_Word w # _ \<Rightarrow> w | _ \<Rightarrow> ''AND'') in
             (case parse_parts family params fuel w used ts of
                Some (fs, used, P_Sym c # ts) \<Rightarrow>
                  if c \<noteq> CHR '')'' then None
                  else if w = ''AND'' then Some (F_And (f # fs), used, ts)
                  else if w = ''OR'' then Some (F_Or (f # fs), used, ts)
                  else None
              | _ \<Rightarrow> None))
      else if length ts \<ge> 2 \<and> take 2 ts = [P_Word ''NOT'', P_Sym (CHR ''('')] then
        (case parse_condition family params fuel used (drop 2 ts) of
           Some (f, used, P_Sym c # ts) \<Rightarrow> if c = CHR '')'' then Some (F_Not f, used, ts) else None
         | _ \<Rightarrow> None)
      else parse_simple family params used ts)"
| "parse_parts family params 0 w used ts = None"
| "parse_parts family params (Suc fuel) w used ts =
     (if ts \<noteq> [] \<and> hd ts = P_Word w then
        (case parse_condition family params fuel used (tl ts) of
           None \<Rightarrow> None
         | Some (f, used, ts) \<Rightarrow>
             map_option (\<lambda>(fs, used, ts). (f # fs, used, ts)) (parse_parts family params fuel w used ts))
      else Some ([], used, ts))"

text \<open>A parenthesised single condition is read as a conjunction.\<close>

fun canonical :: "Filter \<Rightarrow> Filter" where
  "canonical (F_And fs) = F_And (map canonical fs)"
| "canonical (F_Or [f]) = F_And [canonical f]"
| "canonical (F_Or fs) = F_Or (map canonical fs)"
| "canonical (F_Not f) = F_Not (canonical f)"
| "canonical f = f"

section \<open>Texts as pieces\<close>

lemma separated_Cons:
  "separated (p # ps) \<longleftrightarrow> piece_ok p \<and> separated ps \<and>
     (ps = [] \<or> piece_class p = 0 \<or> piece_class p \<noteq> piece_class (hd ps))"
  by (cases ps) auto

lemma separated_append:
  "separated (ps @ qs) \<longleftrightarrow> separated ps \<and> separated qs \<and>
     (ps = [] \<or> qs = [] \<or> piece_class (last ps) = 0 \<or> piece_class (last ps) \<noteq> piece_class (hd qs))"
  by (induction ps) (auto simp: separated_Cons)

text \<open>Spaces and punctuation separate whatever is around them.\<close>

lemma separated_simps:
  "separated (P_Space # ps) \<longleftrightarrow> separated ps" "separated (P_Sym c # ps) \<longleftrightarrow> sym_char c \<and> separated ps"
  "separated (ps @ P_Space # qs) \<longleftrightarrow> separated ps \<and> separated qs"
  "separated (ps @ P_Sym c # qs) \<longleftrightarrow> separated ps \<and> sym_char c \<and> separated qs"
  "separated (p # P_Space # ps) \<longleftrightarrow> piece_ok p \<and> separated ps"
  "separated (p # P_Sym c # ps) \<longleftrightarrow> piece_ok p \<and> sym_char c \<and> separated ps"
  by (auto simp: separated_append separated_Cons)

fun join_pieces :: "Piece list \<Rightarrow> Piece list list \<Rightarrow> Piece list" where
  "join_pieces sep [] = []"
| "join_pieces sep [ps] = ps"
| "join_pieces sep (ps # qs # pss) = ps @ sep @ join_pieces sep (qs # pss)"

lemma render_join: "render family (join_pieces sep pss) = join (render family sep) (map (render family) pss)"
  by (induction sep pss rule: join_pieces.induct) simp_all

definition neutral :: "Piece list \<Rightarrow> bool" where
  "neutral sep \<longleftrightarrow> sep \<noteq> [] \<and> separated sep \<and> piece_class (hd sep) = 0 \<and> piece_class (last sep) = 0"

lemma separated_join: "neutral sep \<Longrightarrow> list_all separated pss \<Longrightarrow> separated (join_pieces sep pss)"
  by (induction sep pss rule: join_pieces.induct) (auto simp: separated_append neutral_def)

abbreviation comma :: "Piece list" where
  "comma \<equiv> [P_Sym (CHR '',''), P_Space]"

lemma sym_chars [simp]: "sym_char (CHR '','')" "sym_char (CHR ''('')" "sym_char (CHR '')'')" "sym_char (CHR ''.'')"
  by (simp_all add: sym_char_def)

lemma neutral_separators [simp]:
  "neutral comma" "neutral [P_Space]" "neutral [P_Sym (CHR ''.'')]"
  "piece_ok (P_Word w) \<Longrightarrow> neutral [P_Space, P_Word w, P_Space]"
  by (simp_all add: neutral_def)

lemma render_comma [simp]: "render family comma = '', ''"
  by simp

lemma quote_identifier_piece: "quote_identifier family name = Inr text \<Longrightarrow> text = render family [P_Quoted name]"
  by (cases family) (auto simp: quote_identifier_def open_quote_def close_quote_def split: if_splits)

lemma word_char_simps:
  "is_ascii_digit c \<Longrightarrow> word_char c" "word_char (CHR ''$'')" "word_char (CHR '':'')" "word_char (CHR ''@'')"
  "word_char (CHR ''?'')" "word_char (CHR ''P'')"
  by (simp_all add: word_char_def is_ascii_alphanumeric_def is_ascii_alphabetic_def ascii_upper_char_def byte_def)

lemma digits_word: "piece_ok (P_Word (show_nat n))"
  using show_nat_digits [of n] by (auto simp: list_all_iff word_char_simps(1))

lemma placeholder_word: "piece_ok (P_Word (placeholder family n))"
  using digits_word [of n] word_char_simps(2-6) by (cases family) (auto simp: placeholder_def)

lemma parameter_placeholder:
  "used < length params \<Longrightarrow> parameter family params used (placeholder family (Suc used)) = Some (params ! used)"
  by (cases family) (auto simp: parameter_def named_parameter_def placeholder_def strip_prefix_def starts_with_def digits_show)

text \<open>A condition compiled into a text with more parameters, and what is parsed back.\<close>

definition reads_as ::
  "SqlFamily \<Rightarrow> DbValue list \<Rightarrow> DbValue list \<Rightarrow> Piece list \<Rightarrow> Filter \<Rightarrow> bool" where
  "reads_as family ps ps' pieces f \<longleftrightarrow> separated pieces \<and> (\<exists>extra. ps' = ps @ extra) \<and>
     (\<forall>later rest fuel. length (tokens pieces) \<le> fuel \<longrightarrow>
        parse_condition family (ps' @ later) fuel (length ps) (tokens pieces @ rest)
          = Some (canonical f, length ps', rest))"

definition is_simple :: "Filter \<Rightarrow> bool" where
  "is_simple f = (case f of F_And _ \<Rightarrow> False | F_Or _ \<Rightarrow> False | F_Not _ \<Rightarrow> False | _ \<Rightarrow> True)"

lemma canonical_simple: "is_simple f \<Longrightarrow> canonical f = f"
  by (cases f) (simp_all add: is_simple_def)

text \<open>A simple condition begins with its field, so it is parsed as such.\<close>

lemma reads_simple:
  assumes "separated pieces" "tokens pieces = P_Quoted name # ts" "ps' = ps @ extra" "is_simple f"
    and "\<And>later rest. parse_simple family (ps' @ later) (length ps) (tokens pieces @ rest) = Some (f, length ps', rest)"
  shows "reads_as family ps ps' pieces f"
  unfolding reads_as_def
proof (intro conjI allI impI)
  fix later rest fuel assume "length (tokens pieces) \<le> fuel"
  then obtain n where "fuel = Suc n" using assms(2) by (cases fuel) simp_all
  then show "parse_condition family (ps' @ later) fuel (length ps) (tokens pieces @ rest) = Some (canonical f, length ps', rest)"
    using assms(5) [of later rest] assms(2) canonical_simple [OF assms(4)] by simp
qed (use assms in auto)

lemma comparison_reads:
  assumes "comparison family field operator value ps = Inr (text, ps')"
    and "piece_ok piece" "piece_class piece \<in> {1, 2}" "piece_text family piece = operator"
    and "value \<noteq> DbNull \<Longrightarrow> is_simple f \<and> (\<forall>params rest. length ps < length params \<and> params ! length ps = value \<longrightarrow>
      parse_simple family params (length ps) (P_Quoted field # piece # P_Word (placeholder family (Suc (length ps))) # rest)
        = Some (f, Suc (length ps), rest))"
    and "value = DbNull \<Longrightarrow> f = (if operator = ''='' then F_Eq field DbNull else F_Ne field DbNull)"
  shows "\<exists>pieces. text = render family pieces \<and> reads_as family ps ps' pieces f"
proof (cases "value = DbNull")
  case True
  let ?eq = "[P_Quoted field, P_Space, P_Word ''IS'', P_Space, P_Word ''NULL'']"
  let ?ne = "[P_Quoted field, P_Space, P_Word ''IS'', P_Space, P_Word ''NOT'', P_Space, P_Word ''NULL'']"
  have words: "piece_ok (P_Word ''IS'')" "piece_ok (P_Word ''NULL'')" "piece_ok (P_Word ''NOT'')"
    by code_simp+
  have "reads_as family ps ps ?eq (F_Eq field DbNull)"
    by (rule reads_simple [of _ field _ _ _ "[]"]) (use words in \<open>auto simp: separated_Cons is_simple_def\<close>)
  moreover have "reads_as family ps ps ?ne (F_Ne field DbNull)"
    by (rule reads_simple [of _ field _ _ _ "[]"]) (use words in \<open>auto simp: separated_Cons is_simple_def\<close>)
  moreover have "text = render family (if operator = ''='' then ?eq else ?ne) \<and> ps' = ps"
    using assms(1) True by (auto simp: comparison_def res_simps dest!: quote_identifier_piece split: if_splits)
  ultimately show ?thesis using assms(6) [OF True]
    by (intro exI [of _ "if operator = ''='' then ?eq else ?ne"]) (cases "operator = ''=''"; simp)
next
  case False
  let ?w = "P_Word (placeholder family (Suc (length ps)))"
  let ?p = "[P_Quoted field, P_Space, piece, P_Space, ?w]"
  have p: "piece \<noteq> P_Space" using assms(3) by (cases piece) auto
  have "text = render family ?p" "ps' = ps @ [value]"
    using assms(1,4) False by (auto simp: comparison_def res_simps Let_def dest!: quote_identifier_piece)
  moreover have "reads_as family ps (ps @ [value]) ?p f"
    by (rule reads_simple [of _ field _ _ _ "[value]"])
      (use assms(2,5) False p placeholder_word in \<open>auto simp: separated_Cons\<close>)
  ultimately show ?thesis by blast
qed

lemma op_words: "piece_ok (P_Op ''='')" "piece_ok (P_Op ''<>'')" "piece_ok (P_Op ''<'')" "piece_ok (P_Op ''<='')"
  "piece_ok (P_Op ''>'')" "piece_ok (P_Op ''>='')" "piece_ok (P_Word ''LIKE'')" "piece_ok (P_Word ''IN'')"
  "piece_ok (P_Word ''AND'')" "piece_ok (P_Word ''OR'')" "piece_ok (P_Word ''NOT'')"
  by code_simp+

lemma operator_reads:
  assumes "comparison family field operator value ps = Inr (text, ps')" "piece_ok (P_Op operator)"
    and "compared field operator value = Some f" "is_simple f"
  shows "\<exists>pieces. text = render family pieces \<and> reads_as family ps ps' pieces f"
proof (rule comparison_reads [OF assms(1), of "P_Op operator"])
  show "is_simple f \<and> (\<forall>params rest. length ps < length params \<and> params ! length ps = value \<longrightarrow>
      parse_simple family params (length ps)
        (P_Quoted field # P_Op operator # P_Word (placeholder family (Suc (length ps))) # rest)
      = Some (f, Suc (length ps), rest))" using assms(3,4) by (auto simp: parameter_placeholder)
  assume "value = DbNull"
  then show "f = (if operator = ''='' then F_Eq field DbNull else F_Ne field DbNull)"
    using assms(1,3) by (auto simp: comparison_def compared_def res_simps split: if_splits)
qed (use assms(2) in simp_all)

lemma contains_reads:
  assumes "comparison family field ''LIKE'' (DbString (''%'' @ v @ ''%'')) ps = Inr (text, ps')"
  shows "\<exists>pieces. text = render family pieces \<and> reads_as family ps ps' pieces (F_Contains field (DbString v))"
  by (rule comparison_reads [OF assms, of "P_Word ''LIKE''"])
    (use op_words(7) in \<open>auto simp: parameter_placeholder contained_text_def is_simple_def butlast_append\<close>)

lemma upt_Cons: "[Suc a ..< Suc a + Suc n] = Suc a # [Suc (Suc a) ..< Suc (Suc a) + n]"
  by (simp add: upt_conv_Cons del: upt_Suc)

lemma push_values_placeholders:
  "push_values family vs ps = (map (placeholder family) [Suc (length ps) ..< Suc (length ps) + length vs], ps @ vs)"
proof (induction vs arbitrary: ps)
  case (Cons v vs)
  have "[Suc (length ps) ..< Suc (length ps) + length (v # vs)]
      = Suc (length ps) # [Suc (Suc (length ps)) ..< Suc (Suc (length ps)) + length vs]"
    using upt_Cons by simp
  then show ?case using Cons.IH [of "ps @ [v]"] by (simp add: Let_def del: upt_Suc)
qed simp

lemma parse_values_reads:
  "vs \<noteq> [] \<Longrightarrow> take (length vs) (drop k params) = vs \<Longrightarrow>
     parse_values family params k
       (tokens (join_pieces comma (map (\<lambda>n. [P_Word (placeholder family n)]) [Suc k ..< Suc k + length vs]))
         @ P_Sym (CHR '')'') # rest)
     = Some (vs, k + length vs, rest)"
proof (induction vs arbitrary: k)
  case (Cons v vs)
  obtain ds where ds: "drop k params = v # ds" "take (length vs) ds = vs"
    using Cons.prems(2) by (cases "drop k params") auto
  then have "k < length params" by (metis drop_all not_le list.distinct(1))
  then have p: "parameter family params k (placeholder family (Suc k)) = Some v"
    using parameter_placeholder nth_via_drop [OF ds(1)] by simp
  have "drop (Suc k) params = ds" using ds(1) by (metis drop_Suc tl_drop list.sel(3))
  then have IH: "vs \<noteq> [] \<Longrightarrow> parse_values family params (Suc k)
       (tokens (join_pieces comma (map (\<lambda>n. [P_Word (placeholder family n)]) [Suc (Suc k) ..< Suc (Suc k) + length vs]))
         @ P_Sym (CHR '')'') # rest) = Some (vs, Suc k + length vs, rest)"
    using Cons.IH [of "Suc k"] ds(2) by simp
  show ?case
  proof (cases vs)
    case Nil
    then show ?thesis using p by simp
  next
    case (Cons w ws)
    then show ?thesis using IH p upt_Cons [of k "length vs"] upt_Cons [of "Suc k" "length ws"] by (simp del: upt_Suc)
  qed
qed simp

lemma in_reads:
  assumes "quote_identifier family field = Inr q" "vs \<noteq> []" "push_values family vs ps = (names, ps')"
  shows "\<exists>pieces. q @ '' IN ('' @ join '', '' names @ '')'' = render family pieces \<and>
    reads_as family ps ps' pieces (F_In field vs)"
proof -
  let ?ns = "map (\<lambda>n. [P_Word (placeholder family n)]) [Suc (length ps) ..< Suc (length ps) + length vs]"
  let ?p = "[P_Quoted field, P_Space, P_Word ''IN'', P_Space, P_Sym (CHR ''('')] @ join_pieces comma ?ns @ [P_Sym (CHR '')'')]"
  have names: "names = map (placeholder family) [Suc (length ps) ..< Suc (length ps) + length vs]" "ps' = ps @ vs"
    using assms(3) by (simp_all add: push_values_placeholders)
  have "list_all separated ?ns" using placeholder_word by (simp add: list_all_iff)
  then have sep: "separated (join_pieces comma ?ns)" by (intro separated_join) simp_all
  have "map (render family) ?ns = names" by (simp add: names)
  then have "q @ '' IN ('' @ join '', '' names @ '')'' = render family ?p"
    using quote_identifier_piece [OF assms(1)] render_join [of family comma ?ns] by simp
  moreover have "reads_as family ps (ps @ vs) ?p (F_In field vs)"
    by (rule reads_simple [of _ field _ _ _ vs])
      (use sep op_words(8) assms(2) parse_values_reads [of vs "length ps"] in
        \<open>auto simp: separated_simps separated_Cons is_simple_def simp del: upt_Suc\<close>)
  ultimately show ?thesis using names by blast
qed

text \<open>Conditions in parentheses.\<close>

definition parts_read_as ::
  "SqlFamily \<Rightarrow> DbValue list \<Rightarrow> DbValue list \<Rightarrow> Piece list list \<Rightarrow> Filter list \<Rightarrow> bool" where
  "parts_read_as family ps ps' parts fs \<longleftrightarrow> list_all separated parts \<and> length parts = length fs \<and> (\<exists>extra. ps' = ps @ extra) \<and>
     (\<forall>later rest fuel w. length (concat (map (\<lambda>p. P_Word w # tokens p) parts)) < fuel \<longrightarrow>
        parse_parts family (ps' @ later) fuel w (length ps)
          (concat (map (\<lambda>p. P_Word w # tokens p) parts) @ P_Sym (CHR '')'') # rest)
        = Some (map canonical fs, length ps', P_Sym (CHR '')'') # rest))"

lemma parts_read_Nil: "parts_read_as family ps ps [] []"
  unfolding parts_read_as_def
proof (intro conjI allI impI)
  fix later rest fuel w assume "length (concat (map (\<lambda>p. P_Word w # tokens p) [])) < fuel"
  then obtain n where "fuel = Suc n" by (cases fuel) simp_all
  then show "parse_parts family (ps @ later) fuel w (length ps)
      (concat (map (\<lambda>p. P_Word w # tokens p) []) @ P_Sym (CHR '')'') # rest)
      = Some (map canonical [], length ps, P_Sym (CHR '')'') # rest)" by simp
qed simp_all

lemma parts_read_Cons:
  assumes "reads_as family ps mid p f" "parts_read_as family mid ps' parts fs"
  shows "parts_read_as family ps ps' (p # parts) (f # fs)"
  unfolding parts_read_as_def
proof (intro conjI allI impI)
  fix later rest fuel w assume n: "length (concat (map (\<lambda>p. P_Word w # tokens p) (p # parts))) < fuel"
  then obtain n where fuel: "fuel = Suc n" by (cases fuel) simp_all
  obtain extra where extra: "ps' = mid @ extra" using assms(2) by (auto simp: parts_read_as_def)
  have "parse_condition family (ps' @ later) n (length ps) (tokens p @ ts) = Some (canonical f, length mid, ts)" for ts
    using assms(1) n fuel by (simp add: reads_as_def extra)
  moreover have "parse_parts family (ps' @ later) n w (length mid)
      (concat (map (\<lambda>p. P_Word w # tokens p) parts) @ P_Sym (CHR '')'') # rest)
      = Some (map canonical fs, length ps', P_Sym (CHR '')'') # rest)"
    using assms(2) n fuel by (simp add: parts_read_as_def)
  ultimately show "parse_parts family (ps' @ later) fuel w (length ps)
      (concat (map (\<lambda>p. P_Word w # tokens p) (p # parts)) @ P_Sym (CHR '')'') # rest)
      = Some (map canonical (f # fs), length ps', P_Sym (CHR '')'') # rest)" by (simp add: fuel)
qed (use assms in \<open>auto simp: reads_as_def parts_read_as_def\<close>)

lemma tokens_join_words:
  "tokens (join_pieces [P_Space, P_Word w, P_Space] (p # parts)) = tokens p @ concat (map (\<lambda>p. P_Word w # tokens p) parts)"
  by (induction parts arbitrary: p) simp_all

lemma group_reads:
  assumes "reads_as family ps mid p f" "parts_read_as family mid ps' parts fs" "w = ''AND'' \<or> w = ''OR''"
  defines "g \<equiv> (if w = ''AND'' then F_And (f # fs) else F_Or (f # fs))"
  shows "reads_as family ps ps'
    ([P_Sym (CHR ''('')] @ join_pieces [P_Space, P_Word w, P_Space] (p # parts) @ [P_Sym (CHR '')'')]) g"
    (is "reads_as family ps ps' ?pieces g")
  unfolding reads_as_def
proof (intro conjI allI impI)
  have "piece_ok (P_Word w)" using assms(3) op_words by auto
  then have "separated (join_pieces [P_Space, P_Word w, P_Space] (p # parts))"
    using assms(1,2) by (intro separated_join) (auto simp: reads_as_def parts_read_as_def)
  then show "separated ?pieces" by (simp add: separated_simps)
  show "\<exists>extra. ps' = ps @ extra" using assms(1,2) by (auto simp: reads_as_def parts_read_as_def)
  fix later rest fuel assume n: "length (tokens ?pieces) \<le> fuel"
  let ?parts = "concat (map (\<lambda>p. P_Word w # tokens p) parts)"
  have toks: "tokens ?pieces = P_Sym (CHR ''('') # tokens p @ ?parts @ [P_Sym (CHR '')'')]"
    by (simp add: tokens_join_words)
  then obtain n where fuel: "fuel = Suc n" using n by (cases fuel) simp_all
  have len: "length (tokens p) \<le> n" "length ?parts < n" using n fuel unfolding toks by simp_all
  obtain extra where extra: "ps' = mid @ extra" using assms(2) by (auto simp: parts_read_as_def)
  have cond: "parse_condition family (ps' @ later) n (length ps) (tokens p @ ts) = Some (canonical f, length mid, ts)" for ts
    using assms(1) len(1) by (simp add: reads_as_def extra)
  have parts: "parse_parts family (ps' @ later) n v (length mid)
      (concat (map (\<lambda>p. P_Word v # tokens p) parts) @ P_Sym (CHR '')'') # rest)
      = Some (map canonical fs, length ps', P_Sym (CHR '')'') # rest)" if "v = w \<or> parts = []" for v
    using assms(2) len(2) that by (auto simp: parts_read_as_def)
  show "parse_condition family (ps' @ later) fuel (length ps) (tokens ?pieces @ rest) = Some (canonical g, length ps', rest)"
  proof (cases parts)
    case Nil
    then have "fs = []" using assms(2) by (simp add: parts_read_as_def)
    then show ?thesis unfolding toks using cond parts [of "''AND''"] Nil assms(3) by (auto simp: fuel g_def)
  next
    case (Cons q qs)
    then obtain f' fs' where fs: "fs = f' # fs'" using assms(2) by (cases fs) (auto simp: parts_read_as_def)
    show ?thesis unfolding toks using cond parts [of w] assms(3) by (auto simp: fuel g_def fs Cons)
  qed
qed

lemma not_reads:
  assumes "reads_as family ps ps' p f"
  shows "reads_as family ps ps' ([P_Word ''NOT'', P_Space, P_Sym (CHR ''('')] @ p @ [P_Sym (CHR '')'')]) (F_Not f)"
  unfolding reads_as_def
proof (intro conjI allI impI)
  show "separated ([P_Word ''NOT'', P_Space, P_Sym (CHR ''('')] @ p @ [P_Sym (CHR '')'')])"
    using assms op_words(11) by (auto simp: reads_as_def separated_simps separated_Cons)
  show "\<exists>extra. ps' = ps @ extra" using assms by (simp add: reads_as_def)
  fix later rest fuel
  assume "length (tokens ([P_Word ''NOT'', P_Space, P_Sym (CHR ''('')] @ p @ [P_Sym (CHR '')'')])) \<le> fuel"
  then obtain n where "fuel = Suc n" "length (tokens p) \<le> n" by (cases fuel) auto
  then show "parse_condition family (ps' @ later) fuel (length ps)
      (tokens ([P_Word ''NOT'', P_Space, P_Sym (CHR ''('')] @ p @ [P_Sym (CHR '')'')]) @ rest)
      = Some (canonical (F_Not f), length ps', rest)"
    using assms by (simp add: reads_as_def)
qed

text \<open>The conditions of a list, each with the parameters the earlier ones left.\<close>

inductive each_reads ::
  "SqlFamily \<Rightarrow> DbValue list \<Rightarrow> DbValue list \<Rightarrow> Piece list list \<Rightarrow> Filter list \<Rightarrow> bool" for family where
  each_Nil: "each_reads family ps ps [] []"
| each_Cons: "reads_as family ps mid p f \<Longrightarrow> each_reads family mid ps' parts fs \<Longrightarrow>
    each_reads family ps ps' (p # parts) (f # fs)"

inductive_cases each_reads_Cons: "each_reads family ps ps' parts (f # fs)"

lemma each_reads_parts: "each_reads family ps ps' parts fs \<Longrightarrow> parts_read_as family ps ps' parts fs"
  by (induction rule: each_reads.induct) (auto intro: parts_read_Nil parts_read_Cons)

lemma group_filter_reads:
  assumes "each_reads family ps ps' parts fs" "fs \<noteq> []" "w = ''AND'' \<or> w = ''OR''"
  shows "\<exists>pieces. ''('' @ join ('' '' @ w @ '' '') (map (render family) parts) @ '')'' = render family pieces \<and>
    reads_as family ps ps' pieces (if w = ''AND'' then F_And fs else F_Or fs)"
proof -
  obtain f gs where fs: "fs = f # gs" using assms(2) by (cases fs) auto
  obtain p qs mid where p: "parts = p # qs" "reads_as family ps mid p f" "each_reads family mid ps' qs gs"
    using assms(1) unfolding fs by (rule each_reads_Cons)
  let ?p = "[P_Sym (CHR ''('')] @ join_pieces [P_Space, P_Word w, P_Space] (p # qs) @ [P_Sym (CHR '')'')]"
  have "''('' @ join ('' '' @ w @ '' '') (map (render family) parts) @ '')'' = render family ?p"
    using render_join [of family "[P_Space, P_Word w, P_Space]" "p # qs"] by (simp add: p(1))
  moreover have "reads_as family ps ps' ?p (if w = ''AND'' then F_And fs else F_Or fs)"
    unfolding fs by (rule group_reads [OF p(2) each_reads_parts [OF p(3)] assms(3)])
  ultimately show ?thesis by blast
qed

lemma compile_filter_reads:
  "compile_filter family f ps = Inr (t, ps') \<Longrightarrow>
     \<exists>pieces. t = render family pieces \<and> reads_as family ps ps' pieces f"
  "compile_filters family fs ps = Inr (ts, ps') \<Longrightarrow>
     \<exists>parts. ts = map (render family) parts \<and> each_reads family ps ps' parts fs"
proof (induction family f ps and family fs ps arbitrary: t ps' and ts ps'
    rule: compile_filter_compile_filters.induct)
  case (7 family field v ps)
  then obtain u where "v = DbString u" by (cases v) auto
  then show ?case using contains_reads 7 by simp
next
  case (8 family field vs ps)
  obtain names qs where "push_values family vs ps = (names, qs)" by (cases "push_values family vs ps")
  then show ?case using 8 in_reads [of family field _ vs ps names qs] by (auto simp: res_simps split: if_splits)
next
  case (9 family fs ps)
  then obtain clauses where c: "fs \<noteq> []" "compile_filters family fs ps = Inr (clauses, ps')"
    "t = ''('' @ join '' AND '' clauses @ '')''" by (auto simp: res_simps split: if_splits)
  from "9.IH" [OF c(1,2)] group_filter_reads [OF _ c(1), where w = "''AND''"] show ?case by (auto simp: c(3))
next
  case (10 family fs ps)
  then obtain clauses where c: "fs \<noteq> []" "compile_filters family fs ps = Inr (clauses, ps')"
    "t = ''('' @ join '' OR '' clauses @ '')''" by (auto simp: res_simps split: if_splits)
  from "10.IH" [OF c(1,2)] group_filter_reads [OF _ c(1), where w = "''OR''"] show ?case by (auto simp: c(3))
next
  case (11 family f ps)
  then obtain clause where c: "compile_filter family f ps = Inr (clause, ps')" "t = ''NOT ('' @ clause @ '')''"
    by (auto simp: res_simps)
  from "11.IH" [OF c(1)] obtain p where p: "clause = render family p" "reads_as family ps ps' p f" by blast
  have "t = render family ([P_Word ''NOT'', P_Space, P_Sym (CHR ''('')] @ p @ [P_Sym (CHR '')'')])"
    by (simp add: c(2) p(1))
  then show ?case using not_reads [OF p(2)] by blast
next
  case (12 family ps)
  then show ?case using each_Nil by auto
next
  case (13 family f fs ps)
  then obtain clause mid clauses where c: "compile_filter family f ps = Inr (clause, mid)"
    "compile_filters family fs mid = Inr (clauses, ps')" "ts = clause # clauses" by (auto simp: res_simps)
  from "13.IH"(1) [OF c(1)] obtain p where p: "clause = render family p" "reads_as family ps mid p f" by blast
  from "13.IH"(2) [OF c(1) refl c(2)] obtain parts where
    "clauses = map (render family) parts" "each_reads family mid ps' parts fs" by blast
  then have "ts = map (render family) (p # parts)" "each_reads family ps ps' (p # parts) (f # fs)"
    using each_Cons [OF p(2)] by (simp_all add: c(3) p(1))
  then show ?case by blast
qed (use op_words operator_reads in \<open>auto simp: compared_def is_simple_def\<close>)

section \<open>Statements\<close>

text \<open>What a statement should be: the tokens of its parts.\<close>

definition name_pieces :: "string \<Rightarrow> Piece list" where
  "name_pieces resource = join_pieces [P_Sym (CHR ''.'')] (map (\<lambda>part. [P_Quoted part]) (split_on (CHR ''.'') resource))"

definition list_pieces :: "string list \<Rightarrow> Piece list" where
  "list_pieces names = join_pieces comma (map (\<lambda>name. [P_Quoted name]) names)"

definition sort_pieces :: "SortField list \<Rightarrow> Piece list" where
  "sort_pieces sorts = [P_Word ''ORDER'', P_Space, P_Word ''BY'', P_Space] @
     join_pieces comma (map (\<lambda>f. [P_Quoted (sf_field f), P_Space, P_Word (direction_text (sf_direction f))]) sorts)"

definition words :: "string list \<Rightarrow> Piece list" where
  "words ws = join_pieces [P_Space] (map (\<lambda>w. [P_Word w]) ws)"

definition page_pieces :: "SqlFamily \<Rightarrow> u64 \<Rightarrow> u64 \<Rightarrow> SortField list \<Rightarrow> Piece list" where
  "page_pieces family fetch offset sorts =
     (let rows = words [''OFFSET'', show_word offset, ''ROWS'', ''FETCH'', ''NEXT'', show_word fetch, ''ROWS'', ''ONLY''];
          order = (if sorts = [] then [] else sort_pieces sorts @ [P_Space]) in
      case family of
        Fam_Oracle \<Rightarrow> order @ rows
      | Fam_SqlServer \<Rightarrow>
          (if sorts = [] then words [''ORDER'', ''BY''] @ [P_Space, P_Sym (CHR ''('')] @ words [''SELECT'', ''NULL'']
             @ [P_Sym (CHR '')''), P_Space] else order) @ rows
      | _ \<Rightarrow> order @ words [''LIMIT'', show_word fetch, ''OFFSET'', show_word offset])"

text \<open>A condition that is parsed, after \<open>used\<close> parameters, into the filter, using all that are left.\<close>

definition condition_is :: "SqlFamily \<Rightarrow> DbValue list \<Rightarrow> nat \<Rightarrow> Piece list \<Rightarrow> Filter \<Rightarrow> bool" where
  "condition_is family params used ts f \<longleftrightarrow>
     parse_condition family params (length ts) used ts = Some (canonical f, length params, [])"

lemma reads_as_condition: "reads_as family ps ps' pieces f \<Longrightarrow> condition_is family ps' (length ps) (tokens pieces) f"
  unfolding reads_as_def condition_is_def by (metis append.right_neutral order_refl)

lemma map_results_quote:
  "map_results (quote_identifier family) names = Inr texts \<Longrightarrow> texts = map (\<lambda>name. render family [P_Quoted name]) names"
  unfolding map_results_Inr_iff by (induction rule: list_all2_induct) (auto dest: quote_identifier_piece)

lemma separated_quoted: "neutral sep \<Longrightarrow> separated (join_pieces sep (map (\<lambda>name. [P_Quoted name]) names))"
  by (intro separated_join) (simp_all add: list_all_iff)

lemma join_quoted:
  "map_results (quote_identifier family) names = Inr texts \<Longrightarrow>
     join (render family sep) texts = render family (join_pieces sep (map (\<lambda>name. [P_Quoted name]) names))"
  using map_results_quote [of family names texts] by (simp add: render_join comp_def)

lemma qualified_name_pieces:
  "qualified_name family resource = Inr t \<Longrightarrow> t = render family (name_pieces resource)"
  using join_quoted [of family "split_on (CHR ''.'') resource" _ "[P_Sym (CHR ''.'')]"]
  by (auto simp: qualified_name_def name_pieces_def Let_def res_simps split: if_splits)

lemma name_pieces_separated: "separated (name_pieces resource)"
  unfolding name_pieces_def by (rule separated_quoted) simp

lemma list_pieces_text: "map_results (quote_identifier family) names = Inr texts \<Longrightarrow> join '', '' texts = render family (list_pieces names)"
  using join_quoted [of family names texts comma] by (simp add: list_pieces_def)

lemma list_pieces_separated: "separated (list_pieces names)"
  unfolding list_pieces_def by (rule separated_quoted) simp

lemma words_separated: "list_all (\<lambda>w. piece_ok (P_Word w)) ws \<Longrightarrow> separated (words ws)"
  unfolding words_def by (intro separated_join) (auto simp: list_all_iff)

lemma words_text: "render family (words ws) = join '' '' ws"
  using render_join [of family "[P_Space]" "map (\<lambda>w. [P_Word w]) ws"] by (simp add: words_def comp_def)

lemma show_word_ok: "piece_ok (P_Word (show_word w))"
  unfolding show_word_def by (rule digits_word)

lemma sort_pieces_text:
  assumes "compile_sort family options = Inr t" "qo_sort options \<noteq> []"
  shows "t = '' '' @ render family (sort_pieces (qo_sort options))"
proof -
  let ?one = "\<lambda>f. [P_Quoted (sf_field f), P_Space, P_Word (direction_text (sf_direction f))]"
  obtain fields where fields: "map_results (\<lambda>sorts. map_res (\<lambda>field. field @ '' '' @ direction_text (sf_direction sorts))
      (quote_identifier family (sf_field sorts))) (qo_sort options) = Inr fields" "t = '' ORDER BY '' @ join '', '' fields"
    using assms by (auto simp: compile_sort_def res_simps)
  from fields(1) have "fields = map (\<lambda>f. render family (?one f)) (qo_sort options)"
    unfolding map_results_Inr_iff
    by (induction rule: list_all2_induct) (auto simp: res_simps dest!: quote_identifier_piece)
  then show ?thesis using render_join [of family comma "map ?one (qo_sort options)"]
    by (simp add: fields(2) sort_pieces_def comp_def)
qed

lemma statement_words: "piece_ok (P_Word ''ORDER'')" "piece_ok (P_Word ''BY'')" "piece_ok (P_Word ''ASC'')" "piece_ok (P_Word ''DESC'')"
  "piece_ok (P_Word ''SELECT'')" "piece_ok (P_Word ''NULL'')" "piece_ok (P_Word ''LIMIT'')" "piece_ok (P_Word ''OFFSET'')"
  "piece_ok (P_Word ''ROWS'')" "piece_ok (P_Word ''FETCH'')" "piece_ok (P_Word ''NEXT'')" "piece_ok (P_Word ''ONLY'')"
  "piece_ok (P_Word ''FROM'')" "piece_ok (P_Word ''WHERE'')" "piece_ok (P_Word ''*'')" "piece_ok (P_Word ''UPDATE'')"
  "piece_ok (P_Word ''SET'')" "piece_ok (P_Word ''DELETE'')" "piece_ok (P_Word ''TOP'')" "piece_ok (P_Word ''ctid'')"
  "piece_ok (P_Word ''IN'')" "piece_ok (P_Word ''INSERT'')" "piece_ok (P_Word ''INTO'')" "piece_ok (P_Word ''VALUES'')"
  "piece_ok (P_Word ''ALL'')" "piece_ok (P_Word ''1'')" "piece_ok (P_Word ''DUAL'')"
  by code_simp+

lemma piece_ok_plain: "piece_ok P_Space" "piece_ok (P_Quoted name)"
  by simp_all

lemma sort_pieces_separated: "separated (sort_pieces sorts)"
proof -
  have "separated (join_pieces comma (map (\<lambda>f. [P_Quoted (sf_field f), P_Space, P_Word (direction_text (sf_direction f))]) sorts))"
    using statement_words(3,4)
    by (intro separated_join) (auto simp: list_all_iff separated_simps direction_text_def split: SortDirection.splits)
  then show ?thesis using statement_words(1,2) by (simp add: sort_pieces_def separated_simps piece_ok_plain del: piece_ok.simps(1))
qed

lemma page_pieces_separated: "separated (page_pieces family fetch offset sorts)"
proof -
  note ok = statement_words show_word_ok
  have "separated (words [''OFFSET'', show_word offset, ''ROWS'', ''FETCH'', ''NEXT'', show_word fetch, ''ROWS'', ''ONLY''])"
    "separated (words [''LIMIT'', show_word fetch, ''OFFSET'', show_word offset])"
    "separated (words [''ORDER'', ''BY''])" "separated (words [''SELECT'', ''NULL''])"
    by (intro words_separated; simp add: ok del: piece_ok.simps(1))+
  then show ?thesis using sort_pieces_separated [of sorts]
    by (cases family) (simp_all add: page_pieces_def Let_def separated_simps)
qed

lemma fetch_one_more: "saturating_add (ucast (limit :: u32) :: u64) 1 = ucast limit + 1"
proof -
  have "uint (ucast limit :: u64) = uint limit" by (simp add: uint_up_ucast is_up)
  moreover have "uint limit < 2 ^ 32" using uint_lt2p [of limit] by simp
  ultimately have "uint (ucast limit + 1 :: u64) = uint limit + 1" by (simp add: uint_word_ariths)
  then show ?thesis using \<open>uint (ucast limit :: u64) = uint limit\<close> by (simp add: saturating_add_def word_less_def)
qed

lemma page_text:
  assumes "compile_sort family options = Inr t"
  shows "(if family = Fam_SqlServer then [] else t) @
      (case family of
         Fam_Oracle \<Rightarrow> '' OFFSET '' @ show_word offset @ '' ROWS FETCH NEXT '' @ show_word fetch @ '' ROWS ONLY''
       | Fam_SqlServer \<Rightarrow> (if t = [] then '' ORDER BY (SELECT NULL)'' else t) @
           '' OFFSET '' @ show_word offset @ '' ROWS FETCH NEXT '' @ show_word fetch @ '' ROWS ONLY''
       | _ \<Rightarrow> '' LIMIT '' @ show_word fetch @ '' OFFSET '' @ show_word offset)
    = '' '' @ render family (page_pieces family fetch offset (qo_sort options))"
proof (cases "qo_sort options = []")
  case True
  then have "t = []" using assms by (simp add: compile_sort_def)
  then show ?thesis using True by (cases family) (simp_all add: page_pieces_def Let_def words_text)
next
  case False
  then have "t = '' '' @ render family (sort_pieces (qo_sort options))" by (rule sort_pieces_text [OF assms])
  then show ?thesis using False by (cases family) (simp_all add: page_pieces_def Let_def words_text)
qed

definition read_pieces :: "SqlFamily \<Rightarrow> u64 \<Rightarrow> u64 \<Rightarrow> ReadRequest \<Rightarrow> Piece list \<Rightarrow> Piece list" where
  "read_pieces family fetch offset request condition =
     [P_Word ''SELECT'', P_Space] @
     (if rd_fields request = [] then [P_Word ''*''] else list_pieces (rd_fields request)) @
     [P_Space, P_Word ''FROM'', P_Space] @ name_pieces (rd_target request) @ [P_Space] @
     (if rd_filter request = None then [] else [P_Word ''WHERE'', P_Space] @ condition @ [P_Space]) @
     page_pieces family fetch offset (qo_sort (rd_options request))"

text \<open>
  C35: the text of a structured read. The database reads a \<open>SELECT\<close> of the requested fields from the
  requested resource, names appearing as quoted identifiers only, in the requested order and of
  one row more than the limit, which is the least of the requested one and those
  of the context and the policy. Its condition, with the placeholders standing for the
  parameters, is the requested filter, and no other text of the caller is in the statement.
\<close>

theorem read_statement_as_requested:
  assumes "build_read env family cx profile request = Inr q"
  shows "\<exists>limit offset condition.
    limit = min (min (qo_limit (rd_options request)) (cx_max_rows cx)) (pol_max_rows (pr_policy profile)) \<and>
    bq_row_limit q = Some (unat limit) \<and> bq_base_offset q = Some offset \<and>
    lex_sql family (bq_sql q) = Some (tokens (read_pieces family (ucast limit + 1) offset request condition)) \<and>
    (case rd_filter request of
       None \<Rightarrow> bq_parameters q = []
     | Some f \<Rightarrow> condition_is family (bq_parameters q) 0 (tokens condition) f)"
proof -
  let ?options = "rd_options request"
  obtain limit offset columns where start: "effective_row_limit cx profile (qo_limit ?options) = Inr limit"
    "decode_offset env (qo_cursor ?options) = Inr offset"
    "(if rd_fields request = [] then Inr ''*'' else map_res (join '', '') (map_results (quote_identifier family) (rd_fields request)))
       = Inr columns"
    using assms by (auto simp: build_read_def res_simps)
  obtain wt ps where wt: "(case rd_filter request of None \<Rightarrow> Inr ([], [])
         | Some f \<Rightarrow> map_res (\<lambda>(t, parameters). ('' WHERE '' @ t, parameters)) (compile_filter family f [])) = Inr (wt, ps)"
    using assms start by (auto simp: build_read_def res_simps)
  obtain t target where t: "compile_sort family ?options = Inr t" "qualified_name family (rd_target request) = Inr target"
    using assms start wt by (auto simp: build_read_def res_simps Let_def)
  let ?fetch = "saturating_add (ucast limit :: u64) 1"
  have "(Inr q :: ConnectorError + BuiltQuery) = Inr \<lparr>bq_sql = ''SELECT '' @ columns @ '' FROM '' @ target @ wt @
        (if family = Fam_SqlServer then [] else t) @
        (case family of
           Fam_Oracle \<Rightarrow> '' OFFSET '' @ show_word offset @ '' ROWS FETCH NEXT '' @ show_word ?fetch @ '' ROWS ONLY''
         | Fam_SqlServer \<Rightarrow> (if t = [] then '' ORDER BY (SELECT NULL)'' else t) @
             '' OFFSET '' @ show_word offset @ '' ROWS FETCH NEXT '' @ show_word ?fetch @ '' ROWS ONLY''
         | _ \<Rightarrow> '' LIMIT '' @ show_word ?fetch @ '' OFFSET '' @ show_word offset),
      bq_parameters = ps, bq_row_limit = Some (unat limit), bq_base_offset = Some offset\<rparr>"
    unfolding assms [symmetric] build_read_def start bind_res_simps wt prod.case t Let_def ..
  then have sql: "bq_sql q = ''SELECT '' @ columns @ '' FROM '' @ target @ wt @ '' '' @
      render family (page_pieces family (ucast limit + 1) offset (qo_sort ?options))"
    and q: "bq_parameters q = ps" "bq_row_limit q = Some (unat limit)" "bq_base_offset q = Some offset"
    unfolding page_text [OF t(1)] fetch_one_more by simp_all
  obtain condition where c: "wt = render family (if rd_filter request = None then []
      else [P_Space, P_Word ''WHERE'', P_Space] @ condition)" "separated condition"
    "case rd_filter request of None \<Rightarrow> ps = [] | Some f \<Rightarrow> condition_is family ps 0 (tokens condition) f"
  proof (cases "rd_filter request")
    case None
    then show thesis using that [of "[]"] wt by simp
  next
    case (Some f)
    then obtain u where u: "compile_filter family f [] = Inr (u, ps)" "wt = '' WHERE '' @ u" using wt by (auto simp: res_simps)
    from compile_filter_reads(1) [OF u(1)] obtain p where "u = render family p" "reads_as family [] ps p f" by blast
    then show thesis using that [of p] Some u(2) reads_as_condition [of family "[]" ps p f] by (simp add: reads_as_def)
  qed
  let ?p = "read_pieces family (ucast limit + 1) offset request condition"
  have columns: "columns = render family (if rd_fields request = [] then [P_Word ''*''] else list_pieces (rd_fields request))"
    using start(3) by (auto simp: res_simps list_pieces_text split: if_splits)
  have "bq_sql q = render family ?p"
    using sql c(1) columns qualified_name_pieces [OF t(2)] by (auto simp: read_pieces_def)
  moreover have "separated ?p"
    using statement_words(5,13,14,15) c(2) list_pieces_separated name_pieces_separated page_pieces_separated
    by (auto simp: read_pieces_def separated_simps separated_append separated_Cons simp del: piece_ok.simps(1))
  ultimately have "lex_sql family (bq_sql q) = Some (tokens ?p)" by (simp add: lex_render)
  moreover have "limit = min (min (qo_limit ?options) (cx_max_rows cx)) (pol_max_rows (pr_policy profile))"
    using start(1) by (auto simp: effective_row_limit_def split: if_splits)
  ultimately show ?thesis using q c(3) by (intro exI [of _ limit] exI [of _ offset] exI [of _ condition])
      (auto split: option.splits)
qed

section \<open>Writes\<close>

fun assignment_pieces :: "SqlFamily \<Rightarrow> nat \<Rightarrow> string list \<Rightarrow> Piece list list" where
  "assignment_pieces family k [] = []"
| "assignment_pieces family k (field # names) =
     [P_Quoted field, P_Space, P_Op ''='', P_Space, P_Word (placeholder family (Suc k))] #
     assignment_pieces family (Suc k) names"

lemma assignments_text:
  "assignments family changes ps = Inr (ts, ps') \<Longrightarrow>
     ts = map (render family) (assignment_pieces family (length ps) (map fst changes)) \<and> ps' = ps @ map snd changes"
proof (induction family changes ps arbitrary: ts ps' rule: assignments.induct)
  case (2 family field v changes ps)
  obtain q ts' where q: "quote_identifier family field = Inr q" "assignments family changes (ps @ [v]) = Inr (ts', ps')"
    "ts = (q @ '' = '' @ placeholder family (Suc (length ps))) # ts'"
    using "2.prems" by (auto simp: Let_def res_simps)
  show ?case using "2.IH" [OF refl q(1) refl q(2)] quote_identifier_piece [OF q(1)] by (simp add: q(3))
qed simp

lemma assignment_pieces_separated: "list_all separated (assignment_pieces family k names)"
  using op_words(1) placeholder_word
  by (induction family k names rule: assignment_pieces.induct) (auto simp: separated_simps separated_Cons simp del: piece_ok.simps(1,2))

text \<open>A write: what precedes its condition and what follows it.\<close>

definition set_pieces :: "SqlFamily \<Rightarrow> DbRecord \<Rightarrow> Piece list" where
  "set_pieces family changes =
     [P_Word ''SET'', P_Space] @ join_pieces comma (assignment_pieces family 0 (map fst changes)) @ [P_Space]"

definition bounded_pieces ::
  "SqlFamily \<Rightarrow> u64 \<Rightarrow> Piece list \<Rightarrow> Piece list \<Rightarrow> Piece list \<Rightarrow> Piece list \<Rightarrow> Piece list" where
  "bounded_pieces family limit verb target changes condition =
     (let n = P_Word (show_word limit); condition = [P_Word ''WHERE'', P_Space] @ condition in
      case family of
        Fam_PostgreSql \<Rightarrow> verb @ target @ [P_Space] @ changes @ [P_Word ''WHERE'', P_Space, P_Word ''ctid'', P_Space,
          P_Word ''IN'', P_Space, P_Sym (CHR ''(''), P_Word ''SELECT'', P_Space, P_Word ''ctid'', P_Space, P_Word ''FROM'',
          P_Space] @ target @ [P_Space] @ condition @ [P_Space, P_Word ''LIMIT'', P_Space, n, P_Sym (CHR '')'')]
      | Fam_MySql \<Rightarrow> verb @ target @ [P_Space] @ changes @ condition @ [P_Space, P_Word ''LIMIT'', P_Space, n]
      | Fam_SqlServer \<Rightarrow> [hd verb, P_Space, P_Word ''TOP'', P_Space, P_Sym (CHR ''(''), n, P_Sym (CHR '')''), P_Space]
          @ tl (tl verb) @ target @ [P_Space] @ changes @ condition
      | _ \<Rightarrow> verb @ target @ [P_Space] @ changes @ condition)"

definition update_pieces :: "SqlFamily \<Rightarrow> u64 \<Rightarrow> UpdateRequest \<Rightarrow> Piece list \<Rightarrow> Piece list" where
  "update_pieces family limit request condition =
     bounded_pieces family limit [P_Word ''UPDATE'', P_Space] (name_pieces (upd_target request))
       (set_pieces family (upd_changes request)) condition"

definition delete_pieces :: "SqlFamily \<Rightarrow> u64 \<Rightarrow> DeleteRequest \<Rightarrow> Piece list \<Rightarrow> Piece list" where
  "delete_pieces family limit request condition =
     bounded_pieces family limit [P_Word ''DELETE'', P_Space, P_Word ''FROM'', P_Space] (name_pieces (del_target request))
       [] condition"

lemma bounded_pieces_separated:
  assumes "verb = [P_Word ''UPDATE'', P_Space] \<or> verb = [P_Word ''DELETE'', P_Space, P_Word ''FROM'', P_Space]"
    and "separated target" "separated condition"
    and "changes = [] \<or> (\<exists>ps. changes = ps @ [P_Space] \<and> separated ps)"
  shows "separated (bounded_pieces family limit verb target changes condition)"
  using assms statement_words show_word_ok [of limit]
  by (cases family; elim disjE exE conjE)
    (simp_all add: bounded_pieces_def Let_def separated_simps separated_Cons piece_ok_plain del: piece_ok.simps(1))

text \<open>
  C36: the text of an update. The database reads an \<open>UPDATE\<close> of the requested resource that
  sets the requested fields to the first parameters, in order, with the requested filter as
  its condition over the others. On PostgreSQL, MySQL and SQL Server it is limited to the lesser of
  the requested maximum and the policy's; the other families have no such clause.
\<close>

theorem update_statement_as_requested:
  assumes "build_update family profile request = Inr q"
  shows "\<exists>condition. upd_changes request \<noteq> [] \<and> upd_max_affected request \<noteq> 0 \<and>
    lex_sql family (bq_sql q) = Some (tokens (update_pieces family
      (min (upd_max_affected request) (pol_max_affected (pr_policy profile))) request condition)) \<and>
    take (length (upd_changes request)) (bq_parameters q) = map snd (upd_changes request) \<and>
    condition_is family (bq_parameters q) (length (upd_changes request)) (tokens condition) (upd_filter request)"
proof -
  let ?limit = "min (upd_max_affected request) (pol_max_affected (pr_policy profile))"
  obtain target ts ps wt ps' where start: "upd_changes request \<noteq> []"
    "effective_write_limit profile (upd_max_affected request) = Inr ?limit" "upd_max_affected request \<noteq> 0"
    "qualified_name family (upd_target request) = Inr target" "assignments family (upd_changes request) [] = Inr (ts, ps)"
    "compile_filter family (upd_filter request) ps = Inr (wt, ps')"
    using assms by (auto simp: build_update_def res_simps effective_write_limit_def split: if_splits)
  obtain p where p: "wt = render family p" "reads_as family ps ps' p (upd_filter request)"
    using compile_filter_reads(1) [OF start(6)] by blast
  have sets: "ts = map (render family) (assignment_pieces family 0 (map fst (upd_changes request)))"
    "ps = map snd (upd_changes request)" using assignments_text [OF start(5)] by simp_all
  have set_text: "join '', '' ts = render family (join_pieces comma (assignment_pieces family 0 (map fst (upd_changes request))))"
    using render_join [of family comma] by (simp add: sets(1))
  have params: "bq_parameters q = ps'" using assms start by (auto simp: build_update_def Let_def)
  let ?p = "update_pieces family ?limit request p"
  have "bq_sql q = render family ?p"
    using assms start p(1) set_text qualified_name_pieces [OF start(4)]
    by (cases family) (auto simp: build_update_def Let_def update_pieces_def bounded_pieces_def set_pieces_def)
  moreover have "separated ?p"
    using p(2) separated_join [OF neutral_separators(1) assignment_pieces_separated] statement_words(17)
    unfolding update_pieces_def
    by (intro bounded_pieces_separated name_pieces_separated)
      (auto simp: reads_as_def set_pieces_def separated_simps simp del: piece_ok.simps(1))
  ultimately have "lex_sql family (bq_sql q) = Some (tokens ?p)" by (simp add: lex_render)
  moreover have "take (length (upd_changes request)) ps' = map snd (upd_changes request)"
    using p(2) sets(2) by (auto simp: reads_as_def)
  moreover have "condition_is family ps' (length (upd_changes request)) (tokens p) (upd_filter request)"
    using reads_as_condition [OF p(2)] sets(2) by simp
  ultimately show ?thesis using start(1,3) params by auto
qed

theorem delete_statement_as_requested:
  assumes "build_delete family profile request = Inr q"
  shows "\<exists>condition. del_max_affected request \<noteq> 0 \<and>
    lex_sql family (bq_sql q) = Some (tokens (delete_pieces family
      (min (del_max_affected request) (pol_max_affected (pr_policy profile))) request condition)) \<and>
    condition_is family (bq_parameters q) 0 (tokens condition) (del_filter request)"
proof -
  let ?limit = "min (del_max_affected request) (pol_max_affected (pr_policy profile))"
  obtain target wt ps where start:
    "effective_write_limit profile (del_max_affected request) = Inr ?limit" "del_max_affected request \<noteq> 0"
    "qualified_name family (del_target request) = Inr target" "compile_filter family (del_filter request) [] = Inr (wt, ps)"
    using assms by (auto simp: build_delete_def res_simps effective_write_limit_def split: if_splits)
  obtain p where p: "wt = render family p" "reads_as family [] ps p (del_filter request)"
    using compile_filter_reads(1) [OF start(4)] by blast
  have params: "bq_parameters q = ps" using assms start by (auto simp: build_delete_def Let_def)
  let ?p = "delete_pieces family ?limit request p"
  have "bq_sql q = render family ?p"
    using assms start p(1) qualified_name_pieces [OF start(3)]
    by (cases family) (auto simp: build_delete_def Let_def delete_pieces_def bounded_pieces_def)
  moreover have "separated ?p" using p(2) unfolding delete_pieces_def
    by (intro bounded_pieces_separated name_pieces_separated) (auto simp: reads_as_def)
  ultimately have "lex_sql family (bq_sql q) = Some (tokens ?p)" by (simp add: lex_render)
  then show ?thesis using start(2) params reads_as_condition [OF p(2)] by auto
qed

section \<open>Inserts\<close>

definition row_pieces :: "SqlFamily \<Rightarrow> nat \<Rightarrow> nat \<Rightarrow> Piece list" where
  "row_pieces family k columns =
     [P_Sym (CHR ''('')] @
     join_pieces comma (map (\<lambda>n. [P_Word (placeholder family n)]) [Suc k ..< Suc k + columns]) @
     [P_Sym (CHR '')'')]"

fun rows_pieces :: "SqlFamily \<Rightarrow> nat \<Rightarrow> nat \<Rightarrow> nat \<Rightarrow> Piece list list" where
  "rows_pieces family k columns 0 = []"
| "rows_pieces family k columns (Suc rows) = row_pieces family k columns # rows_pieces family (k + columns) columns rows"

definition into_pieces :: "InsertRequest \<Rightarrow> Piece list" where
  "into_pieces request =
     [P_Word ''INTO'', P_Space] @ name_pieces (ins_target request) @ [P_Space, P_Sym (CHR ''('')] @
     list_pieces (map fst (hd (ins_records request))) @ [P_Sym (CHR '')''), P_Space, P_Word ''VALUES'', P_Space]"

definition insert_pieces :: "SqlFamily \<Rightarrow> InsertRequest \<Rightarrow> Piece list" where
  "insert_pieces family request =
     (let rows = rows_pieces family 0 (length (map fst (hd (ins_records request)))) (length (ins_records request)) in
      if family = Fam_Oracle \<and> length rows > 1 then
        [P_Word ''INSERT'', P_Space, P_Word ''ALL'', P_Space] @ join_pieces [P_Space] (map (\<lambda>row. into_pieces request @ row) rows) @
        [P_Space, P_Word ''SELECT'', P_Space, P_Word ''1'', P_Space, P_Word ''FROM'', P_Space, P_Word ''DUAL'']
      else [P_Word ''INSERT'', P_Space] @ into_pieces request @ join_pieces comma rows)"

lemma row_pieces_separated: "separated (row_pieces family k columns)"
proof -
  have "separated (join_pieces comma (map (\<lambda>n. [P_Word (placeholder family n)]) [Suc k ..< Suc k + columns]))"
    using placeholder_word by (intro separated_join) (simp_all add: list_all_iff del: piece_ok.simps(1) upt_Suc)
  then show ?thesis by (simp add: row_pieces_def separated_simps del: upt_Suc)
qed

lemma rows_pieces_separated: "list_all separated (rows_pieces family k columns rows)"
  by (induction rows arbitrary: k) (simp_all add: row_pieces_separated)

lemma rows_pieces_length [simp]: "length (rows_pieces family k columns rows) = rows"
  by (induction rows arbitrary: k) simp_all

lemma insert_row_values:
  "list_all2 (\<lambda>column v. bt_get r column = Some v) columns vs \<Longrightarrow>
     insert_row family r columns ps = Some (map (placeholder family) [Suc (length ps) ..< Suc (length ps) + length columns], ps @ vs)"
proof (induction columns arbitrary: ps vs)
  case (Cons column columns)
  then obtain v ws where v: "bt_get r column = Some v" "list_all2 (\<lambda>column v. bt_get r column = Some v) columns ws" "vs = v # ws"
    by (auto simp: list_all2_Cons1)
  have "[Suc (length ps) ..< Suc (length ps) + length (column # columns)]
      = Suc (length ps) # [Suc (Suc (length ps)) ..< Suc (Suc (length ps)) + length columns]"
    using upt_Cons by simp
  then show ?case using Cons.IH [OF v(2), of "ps @ [v]"] v by (simp add: Let_def del: upt_Suc)
qed simp

lemma record_values: "bt_wf r \<Longrightarrow> list_all2 (\<lambda>column v. bt_get r column = Some v) (map fst r) (map snd r)"
  by (auto simp: list_all2_conv_all_nth bt_get_def bt_wf_def strict_sorted_iff)

lemma insert_rows_values:
  "list_all bt_wf records \<Longrightarrow> list_all (\<lambda>r. map fst r = columns) records \<Longrightarrow>
     insert_rows family records columns ps =
       Some (map (render family) (rows_pieces family (length ps) (length columns) (length records)),
         ps @ concat (map (map snd) records))"
proof (induction records arbitrary: ps)
  case (Cons r records)
  have wf: "bt_wf r" and keys: "map fst r = columns" using Cons.prems by simp_all
  have row: "insert_row family r columns ps = Some (map (placeholder family) [Suc (length ps) ..< Suc (length ps) + length columns], ps @ map snd r)"
    using insert_row_values [OF record_values [OF wf, unfolded keys]] .
  have len: "length (map snd r) = length columns" using Cons.prems by (auto simp: list_all_iff)
  have "''('' @ join '', '' (map (placeholder family) [Suc (length ps) ..< Suc (length ps) + length columns]) @ '')''
      = render family (row_pieces family (length ps) (length columns))"
    using render_join [of family comma "map (\<lambda>n. [P_Word (placeholder family n)]) [Suc (length ps) ..< Suc (length ps) + length columns]"]
    by (simp add: row_pieces_def comp_def del: upt_Suc)
  then show ?case using row Cons.IH [of "ps @ map snd r"] Cons.prems len by (simp del: upt_Suc)
qed simp

lemma insert_text:
  assumes "columns = render family (list_pieces (map fst (hd (ins_records request))))"
    and "target = render family (name_pieces (ins_target request))"
  defines "rows \<equiv> map (render family) (rows_pieces family 0 (length (map fst (hd (ins_records request)))) (length (ins_records request)))"
  shows "(if family = Fam_Oracle \<and> length rows > 1 then
       ''INSERT ALL '' @ join '' '' (map (\<lambda>row. ''INTO '' @ target @ '' ('' @ columns @ '') VALUES '' @ row) rows) @ '' SELECT 1 FROM DUAL''
     else ''INSERT INTO '' @ target @ '' ('' @ columns @ '') VALUES '' @ join '', '' rows)
    = render family (insert_pieces family request)"
  using assms(1,2) by (simp add: insert_pieces_def into_pieces_def Let_def rows_def render_join comp_def)

lemma insert_pieces_separated: "separated (insert_pieces family request)"
proof -
  let ?columns = "map fst (hd (ins_records request))"
  let ?rows = "rows_pieces family 0 (length ?columns) (length (ins_records request))"
  note ok = statement_words piece_ok_plain
  have into: "separated (into_pieces request @ ps)" if "separated ps" for ps
    using that ok name_pieces_separated list_pieces_separated
    by (simp add: into_pieces_def separated_simps separated_Cons del: piece_ok.simps(1))
  have "list_all (\<lambda>row. separated (into_pieces request @ row)) ?rows"
    using rows_pieces_separated by (rule list.pred_mono_strong) (rule into)
  then have "separated (join_pieces [P_Space] (map (\<lambda>row. into_pieces request @ row) ?rows))"
    by (intro separated_join neutral_separators(2)) (simp only: list.pred_map comp_def)
  moreover have "separated (into_pieces request @ join_pieces comma ?rows)"
    by (intro into separated_join neutral_separators(1) rows_pieces_separated)
  ultimately show ?thesis using ok
    by (auto simp: insert_pieces_def Let_def separated_simps separated_Cons simp del: piece_ok.simps(1) length_map)
qed

lemma map_res_eq_Inl: "map_res f r = Inl e \<longleftrightarrow> r = Inl e"
  by (cases r) auto

lemma map_results_Inl: "map_results f xs = Inl e \<Longrightarrow> \<exists>x \<in> set xs. f x = Inl e"
  by (induction xs) (auto simp: bind_res_eq_Inl)

lemma names_refused:
  "map_results (quote_identifier family) names = Inl e \<Longrightarrow> ce_category e = Cat_InvalidRequest"
  "qualified_name family resource = Inl e \<Longrightarrow> ce_category e = Cat_InvalidRequest"
  by (auto simp: qualified_name_def Let_def map_res_eq_Inl quote_identifier_def invalid_def
      dest!: map_results_Inl split: if_splits)

text \<open>
  The text of an insert. It never panics; when it succeeds there are between one and
  \<open>max_affected\<close> records that all have the fields of the first, the database reads an \<open>INSERT\<close> of one
  row of placeholders per record under the quoted fields, and the parameters are
  the values of the records, in order.
\<close>

theorem insert_statement_as_requested:
  assumes "list_all bt_wf (ins_records request)"
  shows "\<exists>r. build_insert family profile request = Some r \<and>
    (case r of
       Inl e \<Rightarrow> ce_category e = Cat_InvalidRequest
     | Inr q \<Rightarrow> 0 < length (ins_records request) \<and>
         length (ins_records request) \<le> unat (pol_max_affected (pr_policy profile)) \<and>
         list_all (\<lambda>record. map fst record = map fst (hd (ins_records request))) (ins_records request) \<and>
         lex_sql family (bq_sql q) = Some (tokens (insert_pieces family request)) \<and>
         bq_parameters q = concat (map (map snd) (ins_records request)))"
proof -
  let ?records = "ins_records request" and ?columns = "map fst (hd (ins_records request))"
  let ?rows = "rows_pieces family 0 (length ?columns) (length ?records)"
  show ?thesis
  proof (cases "?records = [] \<or> length ?records > unat (pol_max_affected (pr_policy profile)) \<or> ?columns = [] \<or>
      list_ex (\<lambda>r. map fst r \<noteq> ?columns) ?records")
    case True
    then show ?thesis by (auto simp: build_insert_def Let_def invalid_def)
  next
    case False
    then have ok: "?records \<noteq> []" "\<not> length ?records > unat (pol_max_affected (pr_policy profile))" "?columns \<noteq> []"
      "\<not> list_ex (\<lambda>r. map fst r \<noteq> ?columns) ?records" by blast+
    have same: "list_all (\<lambda>r. map fst r = ?columns) ?records" using ok(4) unfolding list_ex_iff list_all_iff by blast
    note rows = insert_rows_values [OF assms same, of family "[]"]
    let ?build = "bind_res (map_res (join '', '') (map_results (quote_identifier family) ?columns)) (\<lambda>columns.
        bind_res (qualified_name family (ins_target request)) (\<lambda>target.
        Inr \<lparr>bq_sql =
            (if family = Fam_Oracle \<and> length (map (render family) ?rows) > 1 then
               ''INSERT ALL '' @ join '' '' (map (\<lambda>row. ''INTO '' @ target @ '' ('' @ columns @ '') VALUES '' @ row)
                 (map (render family) ?rows)) @ '' SELECT 1 FROM DUAL''
             else ''INSERT INTO '' @ target @ '' ('' @ columns @ '') VALUES '' @ join '', '' (map (render family) ?rows)),
          bq_parameters = concat (map (map snd) ?records), bq_row_limit = None, bq_base_offset = None\<rparr>))"
    have build: "build_insert family profile request = Some ?build"
      using ok rows by (simp add: build_insert_def Let_def del: length_map)
    show ?thesis
    proof (cases ?build)
      case (Inl e)
      then have "ce_category e = Cat_InvalidRequest"
        using names_refused(1) [of family ?columns] names_refused(2) [of family "ins_target request"]
        by (auto simp: bind_res_eq_Inl map_res_eq_Inl)
      then show ?thesis using build Inl by simp
    next
      case (Inr q)
      then obtain cs target where parts: "map_results (quote_identifier family) ?columns = Inr cs"
        "qualified_name family (ins_target request) = Inr target" by (auto simp: res_simps)
      have cs: "join '', '' cs = render family (list_pieces ?columns)" by (rule list_pieces_text [OF parts(1)])
      have "bq_sql q = render family (insert_pieces family request)"
        using Inr parts unfolding insert_text [OF cs qualified_name_pieces [OF parts(2)], symmetric] by auto
      moreover have "separated (insert_pieces family request)" by (rule insert_pieces_separated)
      ultimately have "lex_sql family (bq_sql q) = Some (tokens (insert_pieces family request))"
        by (simp add: lex_render)
      then show ?thesis using build Inr ok same by (auto simp: res_simps)
    qed
  qed
qed

section \<open>Samples\<close>

definition sample_cursors :: cursor_env where
  "sample_cursors = \<lparr>cu_b64_encode = id, cu_b64_decode = Some, cu_to_json = (\<lambda>n. Inr (show_word n)),
     cu_from_json = (\<lambda>s. Some (word_of_nat (digits_nat s)))\<rparr>"

definition sample_cx :: ConnectorContext where
  "sample_cx = \<lparr>cx_request_id = ''r1'', cx_session_id = ''s'', cx_deadline = 1000, cx_max_rows = 5, cx_max_bytes = 1000\<rparr>"

text \<open>A filter whose field contains a quote and whose value looks like SQL.\<close>

definition sample_filter :: Filter where
  "sample_filter = F_Or [F_Eq [CHR ''a'', CHR 0x22] (DbString ''x OR 1=1''), F_Not (F_In ''b'' [DbBool True, DbBool False]),
     F_Contains ''c'' (DbString ''d''), F_Ne ''e'' DbNull]"

definition sample_sql_read :: ReadRequest where
  "sample_sql_read = \<lparr>rd_target = ''public.users'', rd_fields = [''id''], rd_filter = Some sample_filter,
     rd_options = QueryOptions_default\<lparr>qo_sort := [\<lparr>sf_field = ''id'', sf_direction = Desc\<rparr>]\<rparr>\<rparr>"

definition sample_sql_update :: UpdateRequest where
  "sample_sql_update = \<lparr>upd_target = ''users'', upd_filter = sample_filter, upd_changes = [(''n'', DbBool True)],
     upd_max_affected = 3, upd_idempotency_key = None\<rparr>"

definition sample_sql_insert :: InsertRequest where
  "sample_sql_insert = \<lparr>ins_target = ''users'', ins_records = [[(''n'', DbBool True)], [(''n'', DbBool False)]],
     ins_idempotency_key = None\<rparr>"

lemma sample_built:
  "is_ok (build_read sample_cursors Fam_PostgreSql sample_cx pg_profile sample_sql_read)"
  "is_ok (build_update Fam_MySql pg_profile sample_sql_update)"
  "is_ok (the (build_insert Fam_Oracle pg_profile sample_sql_insert))"
  by code_simp+

theorem read_statement_as_requested_witness:
  "\<exists>q condition. build_read sample_cursors Fam_PostgreSql sample_cx pg_profile sample_sql_read = Inr q \<and>
     bq_row_limit q = Some 5 \<and> condition_is Fam_PostgreSql (bq_parameters q) 0 (tokens condition) sample_filter"
proof -
  obtain q where q: "build_read sample_cursors Fam_PostgreSql sample_cx pg_profile sample_sql_read = Inr q"
    using sample_built(1) by (auto simp: is_ok_iff)
  have "min (min (qo_limit (rd_options sample_sql_read)) (cx_max_rows sample_cx)) (pol_max_rows (pr_policy pg_profile)) = 5"
    by code_simp
  then show ?thesis using read_statement_as_requested [OF q] q by (auto simp: sample_sql_read_def)
qed

theorem update_statement_as_requested_witness:
  "\<exists>q condition. build_update Fam_MySql pg_profile sample_sql_update = Inr q \<and>
     hd (bq_parameters q) = DbBool True \<and> condition_is Fam_MySql (bq_parameters q) 1 (tokens condition) sample_filter"
proof -
  obtain q where q: "build_update Fam_MySql pg_profile sample_sql_update = Inr q"
    using sample_built(2) by (auto simp: is_ok_iff)
  then show ?thesis using update_statement_as_requested [OF q]
    by (cases "bq_parameters q") (auto simp: sample_sql_update_def)
qed

theorem insert_statement_as_requested_witness:
  "\<exists>q. build_insert Fam_Oracle pg_profile sample_sql_insert = Some (Inr q) \<and>
     bq_parameters q = [DbBool True, DbBool False]"
proof -
  have wf: "list_all bt_wf (ins_records sample_sql_insert)" by (simp add: sample_sql_insert_def bt_wf_def)
  show ?thesis using insert_statement_as_requested [OF wf, of Fam_Oracle pg_profile] sample_built(3)
    by (auto simp: is_ok_iff sample_sql_insert_def)
qed

end
