(* ===== verification/Postgres.thy ===== *)
theory Postgres
  imports Sql_Text Programs
begin

text \<open>
  The adapter for PostgreSQL, CockroachDB and YugabyteDB
  (\<open>crates/connectors-sql/src/postgres.rs\<close>), with the cancellation of its requests
  (\<open>cancellation.rs\<close>). Requests are programs over the calls of the driver; an error of the driver is
  a record of what the adapter asks it. Pools, TLS and the binary encoding of parameters are left to the
  driver, except for decimals.
\<close>

section \<open>Cancellation (cancellation.rs)\<close>

record CancellationRegistry =
  cr_active :: "(string, nat) hashmap"
  cr_tokens :: "bool list"

definition CancellationRegistry_default :: CancellationRegistry where
  "CancellationRegistry_default = \<lparr>cr_active = [], cr_tokens = []\<rparr>"

text \<open>Entering \<open>run\<close>: the token of the request, or a conflict.\<close>

definition registry_enter :: "string \<Rightarrow> CancellationRegistry \<Rightarrow> (ConnectorError + nat) \<times> CancellationRegistry" where
  "registry_enter request_id s =
     (case hm_get (cr_active s) request_id of
        Some _ \<Rightarrow> (Inl (ConnectorError_new Cat_Conflict ''a request with this request_id is already running''), s)
      | None \<Rightarrow> (Inr (length (cr_tokens s)),
          s\<lparr>cr_active := hm_insert request_id (length (cr_tokens s)) (cr_active s), cr_tokens := cr_tokens s @ [False]\<rparr>))"

definition registry_leave :: "string \<Rightarrow> CancellationRegistry \<Rightarrow> CancellationRegistry" where
  "registry_leave request_id s = s\<lparr>cr_active := hm_remove request_id (cr_active s)\<rparr>"

definition registry_cancel :: "string \<Rightarrow> CancellationRegistry \<Rightarrow> CancellationRegistry" where
  "registry_cancel request_id s =
     (case hm_get (cr_active s) request_id of
        Some token \<Rightarrow> s\<lparr>cr_tokens := (cr_tokens s)[token := True]\<rparr>
      | None \<Rightarrow> s)"

definition interrupted_error :: "bool \<Rightarrow> bool \<Rightarrow> ConnectorError" where
  "interrupted_error write cancelled =
     (if write then
        ConnectorError_new Cat_UnknownOutcome
          (if cancelled then ''write cancellation requested; the server outcome is unknown''
           else ''write deadline exceeded; the server outcome is unknown'')
      else if cancelled then ConnectorError_new Cat_Cancelled ''request cancelled''
      else with_retryable True (ConnectorError_new Cat_Timeout ''request deadline exceeded''))"

definition classify_operation_error :: "bool \<Rightarrow> ConnectorError \<Rightarrow> ConnectorError" where
  "classify_operation_error write e =
     (if write \<and> ce_category e \<in> {Cat_Timeout, Cat_Unavailable, Cat_Internal} then
        e\<lparr>ce_category := Cat_UnknownOutcome, ce_message := ce_message e @ ''; the write outcome is unknown'',
          ce_retryable := False\<rparr>
      else e)"

text \<open>How the wait for the spawned task ended.\<close>

datatype 'a TaskEnd = Ended "ConnectorError + 'a" | Crashed string | Was_Cancelled | Past_Deadline

definition run_ended :: "bool \<Rightarrow> 'a TaskEnd \<Rightarrow> ConnectorError + 'a" where
  "run_ended write ended =
     map_err (classify_operation_error write)
       (case ended of
          Ended result \<Rightarrow> result
        | Crashed text \<Rightarrow> Inl (ConnectorError_new Cat_Internal (''connector task failed: '' @ text))
        | Was_Cancelled \<Rightarrow> Inl (interrupted_error write True)
        | Past_Deadline \<Rightarrow> Inl (interrupted_error write False))"

section \<open>Profiles and servers\<close>

datatype PostgresFlavor = Flavor_PostgreSql | Flavor_CockroachDb | Flavor_YugabyteYsql

definition flavor_name :: "PostgresFlavor \<Rightarrow> string" where
  "flavor_name flavor =
     (case flavor of Flavor_PostgreSql \<Rightarrow> ''PostgreSQL'' | Flavor_CockroachDb \<Rightarrow> ''CockroachDB''
      | Flavor_YugabyteYsql \<Rightarrow> ''YugabyteDB'')"

definition flavor_id :: "PostgresFlavor \<Rightarrow> string" where
  "flavor_id flavor =
     (case flavor of Flavor_PostgreSql \<Rightarrow> ''postgresql-pgwire'' | Flavor_CockroachDb \<Rightarrow> ''cockroachdb-pgwire''
      | Flavor_YugabyteYsql \<Rightarrow> ''yugabytedb-ysql'')"

definition flavor_api_mode :: "PostgresFlavor \<Rightarrow> string" where
  "flavor_api_mode flavor = (case flavor of Flavor_YugabyteYsql \<Rightarrow> ''ysql'' | _ \<Rightarrow> ''postgresql'')"

definition eq_ignore_ascii_case :: "string \<Rightarrow> string \<Rightarrow> bool" where
  "eq_ignore_ascii_case a b \<longleftrightarrow> to_ascii_lowercase a = to_ascii_lowercase b"

definition pg_validate_profile :: "PostgresFlavor \<Rightarrow> ConnectionProfile \<Rightarrow> ConnectorError + unit" where
  "pg_validate_profile flavor profile =
     (let mode = pr_api_mode profile;
          matches = (case flavor of
              Flavor_PostgreSql \<Rightarrow> pr_product profile = PostgreSql \<and> mode \<in> {''postgresql'', ''postgres'', ''pgwire''}
            | Flavor_CockroachDb \<Rightarrow> pr_product profile = CockroachDb \<and> mode \<in> {''postgresql'', ''pgwire''}
            | Flavor_YugabyteYsql \<Rightarrow> pr_product profile = YugabyteDb \<and> mode \<in> {''ysql'', ''postgresql'', ''pgwire''}) in
      if \<not> matches then
        Inl (invalid (''profile product/api_mode does not match connector `'' @ flavor_id flavor @ ''`''))
      else
        bind_res (validate_tls profile) (\<lambda>_.
          if pr_auth_kind profile = Auth_ClientCertificate \<and>
             (\<not> tls_enabled (pr_tls profile) \<or> tls_client_certificate_ref (pr_tls profile) = None) then
            Inl (invalid ''PostgreSQL client-certificate authentication requires TLS and tls.client_certificate_ref'')
          else
            (case tls_server_name (pr_tls profile) of
               None \<Rightarrow> Inr ()
             | Some server_name \<Rightarrow>
                 bind_res (ok_or (url_host (pr_endpoint profile)) (invalid ''PostgreSQL endpoint must include a host''))
                   (\<lambda>host. if \<not> eq_ignore_ascii_case server_name host then
                       Inl (unsupported ''the PostgreSQL driver requires tls.server_name to match the endpoint host'')
                     else Inr ()))))"

definition verify_server_flavor :: "PostgresFlavor \<Rightarrow> string \<Rightarrow> ConnectorError + unit" where
  "verify_server_flavor flavor version =
     (let version = to_ascii_lowercase version;
          detected = (if str_contains version ''cockroachdb'' then Some Flavor_CockroachDb
            else if str_contains version ''yugabyte'' \<or> str_contains version ''-yb-'' then Some Flavor_YugabyteYsql
            else None);
          mismatch = (\<lambda>message. Inl (with_code ''product_mismatch'' (ConnectorError_new Cat_Protocol message))) in
      case (flavor, detected) of
        (Flavor_PostgreSql, None) \<Rightarrow> Inr ()
      | (Flavor_CockroachDb, Some Flavor_CockroachDb) \<Rightarrow> Inr ()
      | (Flavor_YugabyteYsql, Some Flavor_YugabyteYsql) \<Rightarrow> Inr ()
      | (_, Some product) \<Rightarrow>
          mismatch (''the endpoint identifies itself as '' @ flavor_name product @ '', not '' @ flavor_name flavor)
      | _ \<Rightarrow> mismatch (''the endpoint does not identify itself as '' @ flavor_name flavor))"

definition structured_write_family :: "PostgresFlavor \<Rightarrow> SqlFamily" where
  "structured_write_family flavor = (if flavor = Flavor_PostgreSql then Fam_PostgreSql else Fam_PostgreSqlCompatible)"

definition split_pg_entity :: "string \<Rightarrow> ConnectorError + string \<times> string" where
  "split_pg_entity entity_id =
     (case split_on (CHR ''.'') entity_id of
        [table] \<Rightarrow> if table \<noteq> [] then Inr (''public'', table)
          else Inl (invalid ''PostgreSQL entity must use `schema.table`'')
      | [schema, table] \<Rightarrow> if schema \<noteq> [] \<and> table \<noteq> [] then Inr (schema, table)
          else Inl (invalid ''PostgreSQL entity must use `schema.table`'')
      | _ \<Rightarrow> Inl (invalid ''PostgreSQL entity must use `schema.table`''))"

definition validate_native_language :: "string \<Rightarrow> ConnectorError + unit" where
  "validate_native_language language =
     (if list_ex (eq_ignore_ascii_case language) [''sql'', ''postgresql'', ''pgsql''] then Inr ()
      else Inl (unsupported ''PostgreSQL native requests require language `sql`, `postgresql`, or `pgsql`''))"

section \<open>Errors of the driver\<close>

record PgError =
  pge_tls :: bool
  pge_closed :: bool
  pge_code :: "string option"
  pge_io :: bool

definition map_pg_error :: "PgError \<Rightarrow> bool \<Rightarrow> ConnectorError" where
  "map_pg_error e write =
     (let unavailable = (if write then Cat_UnknownOutcome else Cat_Unavailable) in
      if pge_tls e then with_phase Phase_Tls (ConnectorError_new unavailable ''PostgreSQL TLS handshake failed'')
      else if pge_closed e then
        with_retryable (\<not> write) (with_phase Phase_Network
          (ConnectorError_new unavailable ''PostgreSQL connection closed while processing the request''))
      else
        (case pge_code e of
           None \<Rightarrow>
             if pge_io e then with_retryable (\<not> write) (with_phase Phase_Network
               (ConnectorError_new unavailable ''PostgreSQL network request failed''))
             else ConnectorError_new (if write then Cat_UnknownOutcome else Cat_Protocol)
               ''PostgreSQL driver rejected the request''
         | Some code \<Rightarrow>
             let category =
                 (if code = ''28P01'' \<or> starts_with code ''28'' then Cat_Authentication
                  else if code = ''42501'' then Cat_PermissionDenied
                  else if starts_with code ''23'' \<or> starts_with code ''40'' then Cat_Conflict
                  else if code = ''57014'' then Cat_Cancelled
                  else if starts_with code ''08'' then unavailable
                  else if starts_with code ''42'' \<or> starts_with code ''22'' then Cat_InvalidRequest
                  else Cat_Protocol) in
             with_retryable (starts_with code ''08'' \<and> \<not> write)
               (with_code code (ConnectorError_new category (''PostgreSQL request failed with SQLSTATE '' @ code)))))"

section \<open>Requests\<close>

text \<open>
  The calls of the driver. A statement runs in the open transaction if there is one, and is
  committed at once otherwise. Rows are the records that \<open>json_to_record\<close> gives, or its error.
\<close>

datatype PgCall =
    Pg_Connect int
  | Pg_Begin bool
  | Pg_Query string "DbValue list"
  | Pg_Execute string "DbValue list"
  | Pg_Commit
  | Pg_Rollback
  | Pg_Elapsed

datatype PgReply =
    Pgr_Connected "ConnectorError + unit"
  | Pgr_Done "PgError + unit"
  | Pgr_Rows "PgError + (ConnectorError + DbRecord list)"
  | Pgr_Affected "PgError + u64"
  | Pgr_Elapsed u64

type_synonym 'a PgProgram = "(PgCall, PgReply, ConnectorError + 'a) Prog"

definition as_connected :: "PgReply \<Rightarrow> ConnectorError + unit" where
  "as_connected r = (case r of Pgr_Connected x \<Rightarrow> x | _ \<Rightarrow> Inr ())"

definition as_done :: "PgReply \<Rightarrow> PgError + unit" where
  "as_done r = (case r of Pgr_Done x \<Rightarrow> x | _ \<Rightarrow> Inr ())"

definition as_rows :: "PgReply \<Rightarrow> PgError + (ConnectorError + DbRecord list)" where
  "as_rows r = (case r of Pgr_Rows x \<Rightarrow> x | _ \<Rightarrow> Inr (Inr []))"

definition as_affected :: "PgReply \<Rightarrow> PgError + u64" where
  "as_affected r = (case r of Pgr_Affected x \<Rightarrow> x | _ \<Rightarrow> Inr 0)"

definition as_elapsed :: "PgReply \<Rightarrow> u64" where
  "as_elapsed r = (case r of Pgr_Elapsed ms \<Rightarrow> ms | _ \<Rightarrow> 0)"

record pg_env =
  pg_cursors :: cursor_env
  pg_sizes :: size_env
  pg_parse :: "Dialect \<Rightarrow> string \<Rightarrow> string + NativeStatement list"

definition read_result :: "pg_env \<Rightarrow> ConnectorContext \<Rightarrow> u64 \<Rightarrow> DbRecord list \<Rightarrow> OperationResult" where
  "read_result env cx elapsed records =
     \<lparr>or_request_id = cx_request_id cx, or_records = records, or_next_cursor = None, or_truncated = False,
      or_warnings = [],
      or_metrics = ResultMetrics_default\<lparr>rm_elapsed_ms := elapsed, rm_returned := word_of_nat (length records),
        rm_bytes := (case sz_records (pg_sizes env) records of Inr n \<Rightarrow> Some (word_of_nat n) | Inl _ \<Rightarrow> None)\<rparr>,
      or_outcome = Outcome_NotApplicable\<rparr>"

definition write_result :: "ConnectorContext \<Rightarrow> u64 \<Rightarrow> u64 \<Rightarrow> OperationResult" where
  "write_result cx elapsed affected =
     \<lparr>or_request_id = cx_request_id cx, or_records = [], or_next_cursor = None, or_truncated = False,
      or_warnings = [], or_metrics = ResultMetrics_default\<lparr>rm_elapsed_ms := elapsed, rm_affected := affected\<rparr>,
      or_outcome = Outcome_Succeeded\<rparr>"

definition wrapped_query :: "string \<Rightarrow> string" where
  "wrapped_query sql =
     ''SELECT to_jsonb('' @ [CHR 0x22] @ ''__mcp_row'' @ [CHR 0x22] @ '') FROM ('' @ sql @ '') AS '' @ [CHR 0x22] @
     ''__mcp_row'' @ [CHR 0x22]"

definition query_built ::
  "pg_env \<Rightarrow> ConnectorContext \<Rightarrow> BuiltQuery \<Rightarrow> (ConnectorError + OperationResult \<Rightarrow> OperationResult PgProgram)
     \<Rightarrow> OperationResult PgProgram" where
  "query_built env cx built continue =
     Do (Pg_Query (wrapped_query (bq_sql built)) (bq_parameters built)) (\<lambda>r.
       case as_rows r of
         Inl e \<Rightarrow> continue (Inl (map_pg_error e False))
       | Inr (Inl e) \<Rightarrow> continue (Inl e)
       | Inr (Inr records) \<Rightarrow> Do Pg_Elapsed (\<lambda>t.
           let row_limit = (case bq_row_limit built of Some n \<Rightarrow> n | None \<Rightarrow> unat (cx_max_rows cx)) in
           continue (truncate_records (pg_cursors env) (pg_sizes env) (read_result env cx (as_elapsed t) records)
             row_limit (cx_max_bytes cx) False (bq_base_offset built))))"

definition named_parameters_error :: string where
  "named_parameters_error =
     ''PostgreSQL native SQL accepts positional_parameters with $1 placeholders; named parameters are not rewritten''"

definition native_built :: "string \<Rightarrow> NativeRequest \<Rightarrow> u32 \<Rightarrow> BuiltQuery" where
  "native_built statement request limit =
     \<lparr>bq_sql = ''SELECT * FROM ('' @ statement @ '') AS '' @ [CHR 0x22] @ ''__mcp_native'' @ [CHR 0x22] @ '' LIMIT '' @
        show_word (ucast limit + 1 :: u64),
      bq_parameters = nat_positional_parameters request, bq_row_limit = Some (unat limit), bq_base_offset = None\<rparr>"

definition native_query :: "pg_env \<Rightarrow> ConnectorContext \<Rightarrow> ConnectionProfile \<Rightarrow> NativeRequest \<Rightarrow> OperationResult PgProgram" where
  "native_query env cx profile request =
     (case bind_res (validate_native_language (nat_language request)) (\<lambda>_.
          if nat_parameters request \<noteq> [] then Inl (invalid named_parameters_error)
          else
            bind_res (parse_native (pg_parse env) Fam_PostgreSql (nat_statement request) False) (\<lambda>statement.
            bind_res (effective_row_limit cx profile (max (cx_max_rows cx) 1)) (\<lambda>limit. Inr (statement, limit)))) of
        Inl e \<Rightarrow> Return (Inl e)
      | Inr (statement, limit) \<Rightarrow>
          Do (Pg_Begin True) (\<lambda>r.
            case as_done r of
              Inl e \<Rightarrow> Return (Inl (map_pg_error e False))
            | Inr _ \<Rightarrow> query_built env cx (native_built statement request limit) (\<lambda>result.
                case result of
                  Inr result \<Rightarrow> Do Pg_Commit (\<lambda>r.
                    case as_done r of
                      Inl e \<Rightarrow> Return (Inl (map_pg_error e False))
                    | Inr _ \<Rightarrow> Return (Inr result))
                | Inl e \<Rightarrow> Do Pg_Rollback (\<lambda>_. Return (Inl e)))))"

definition execute_built :: "ConnectorContext \<Rightarrow> BuiltQuery \<Rightarrow> OperationResult PgProgram" where
  "execute_built cx built =
     Do (Pg_Execute (bq_sql built) (bq_parameters built)) (\<lambda>r.
       case as_affected r of
         Inl e \<Rightarrow> Return (Inl (map_pg_error e True))
       | Inr affected \<Rightarrow> Do Pg_Elapsed (\<lambda>t. Return (Inr (write_result cx (as_elapsed t) affected))))"

definition execute_transactionally ::
  "ConnectorContext \<Rightarrow> string \<Rightarrow> DbValue list \<Rightarrow> u64 \<Rightarrow> OperationResult PgProgram" where
  "execute_transactionally cx statement parameters limit =
     Do (Pg_Begin False) (\<lambda>r.
       case as_done r of
         Inl e \<Rightarrow> Return (Inl (map_pg_error e True))
       | Inr _ \<Rightarrow> Do (Pg_Execute statement parameters) (\<lambda>r.
           case as_affected r of
             Inl e \<Rightarrow> Return (Inl (map_pg_error e True))
           | Inr affected \<Rightarrow>
               if affected > limit then
                 Do Pg_Rollback (\<lambda>r.
                   case as_done r of
                     Inl e \<Rightarrow> Return (Inl (map_pg_error e True))
                   | Inr _ \<Rightarrow> Return (Inl (ConnectorError_new Cat_PermissionDenied
                       ''SQL write exceeded max_affected and was rolled back'')))
               else
                 Do Pg_Commit (\<lambda>r.
                   case as_done r of
                     Inl e \<Rightarrow> Return (Inl (map_pg_error e True))
                   | Inr _ \<Rightarrow> Do Pg_Elapsed (\<lambda>t. Return (Inr (write_result cx (as_elapsed t) affected))))))"

definition native_execute :: "pg_env \<Rightarrow> ConnectorContext \<Rightarrow> ConnectionProfile \<Rightarrow> NativeRequest \<Rightarrow> OperationResult PgProgram" where
  "native_execute env cx profile request =
     (case bind_res (validate_native_language (nat_language request)) (\<lambda>_.
          if nat_parameters request \<noteq> [] then Inl (invalid named_parameters_error)
          else
            bind_res (parse_native (pg_parse env) Fam_PostgreSql (nat_statement request) True) (\<lambda>statement.
            bind_res (ok_or (nat_max_affected request) (invalid ''native execute requires max_affected'')) (\<lambda>requested.
            bind_res (effective_write_limit profile requested) (\<lambda>limit. Inr (statement, limit))))) of
        Inl e \<Rightarrow> Return (Inl e)
      | Inr (statement, limit) \<Rightarrow> execute_transactionally cx statement (nat_positional_parameters request) limit)"

text \<open>An update or a delete: bounded in its text on PostgreSQL, by a transaction elsewhere.\<close>

definition execute_bounded ::
  "PostgresFlavor \<Rightarrow> ConnectorContext \<Rightarrow> ConnectorError + u64 \<Rightarrow> ConnectorError + BuiltQuery \<Rightarrow> OperationResult PgProgram" where
  "execute_bounded flavor cx limit built =
     (case bind_res limit (\<lambda>limit. map_res (Pair limit) built) of
        Inl e \<Rightarrow> Return (Inl e)
      | Inr (limit, built) \<Rightarrow>
          if flavor = Flavor_PostgreSql then execute_built cx built
          else execute_transactionally cx (bq_sql built) (bq_parameters built) limit)"

definition execute_operation ::
  "pg_env \<Rightarrow> PostgresFlavor \<Rightarrow> ConnectorContext \<Rightarrow> ConnectionProfile \<Rightarrow> DataOperation \<Rightarrow> OperationResult PgProgram" where
  "execute_operation env flavor cx profile operation =
     (case operation of
        Op_Read request \<Rightarrow>
          (case build_read (pg_cursors env) Fam_PostgreSql cx profile request of
             Inl e \<Rightarrow> Return (Inl e)
           | Inr built \<Rightarrow> query_built env cx built Return)
      | Op_Insert request \<Rightarrow>
          (case build_insert Fam_PostgreSql profile request of
             None \<Rightarrow> Panic
           | Some (Inl e) \<Rightarrow> Return (Inl e)
           | Some (Inr built) \<Rightarrow> execute_built cx built)
      | Op_Update request \<Rightarrow>
          execute_bounded flavor cx (effective_write_limit profile (upd_max_affected request))
            (build_update (structured_write_family flavor) profile request)
      | Op_Delete request \<Rightarrow>
          execute_bounded flavor cx (effective_write_limit profile (del_max_affected request))
            (build_delete (structured_write_family flavor) profile request)
      | Op_NativeQuery request \<Rightarrow>
          if \<not> pol_allow_native_read (pr_policy profile) then
            Return (Inl (ConnectorError_new Cat_PermissionDenied ''native reads are disabled by connection policy''))
          else native_query env cx profile request
      | Op_NativeExecute request \<Rightarrow>
          if \<not> pol_allow_native_write (pr_policy profile) then
            Return (Inl (ConnectorError_new Cat_PermissionDenied ''native writes are disabled by connection policy''))
          else native_execute env cx profile request
      | _ \<Rightarrow> Return (Inl (unsupported
          (''operation is not supported by the '' @ flavor_name flavor @ '' SQL connector''))))"

definition execute_inner ::
  "pg_env \<Rightarrow> Instant \<Rightarrow> PostgresFlavor \<Rightarrow> ConnectorContext \<Rightarrow> ConnectionProfile \<Rightarrow> DataOperation
     \<Rightarrow> OperationResult PgProgram" where
  "execute_inner env now flavor cx profile operation =
     (case effective_timeout now cx profile
         (case operation of Op_Read request \<Rightarrow> qo_timeout_ms (rd_options request) | _ \<Rightarrow> None) of
        Inl e \<Rightarrow> Return (Inl e)
      | Inr timeout \<Rightarrow> Do (Pg_Connect timeout) (\<lambda>r.
          case as_connected r of
            Inl e \<Rightarrow> Return (Inl e)
          | Inr _ \<Rightarrow> execute_operation env flavor cx profile operation))"

fun pg_is_write :: "DataOperation \<Rightarrow> bool" where
  "pg_is_write (Op_Insert _) = True"
| "pg_is_write (Op_Update _) = True"
| "pg_is_write (Op_Delete _) = True"
| "pg_is_write (Op_NativeExecute _) = True"
| "pg_is_write _ = False"

text \<open>
  The \<open>execute\<close> of the adapter: the checks, the spawned request, and what its end is
  reported as. The caller of \<open>run\<close> sees \<open>Ended\<close> with the result of the request, or one
  of the other ends at some point of it.
\<close>

definition pg_execute_checks :: "PostgresFlavor \<Rightarrow> ConnectionProfile \<Rightarrow> SecretMaterial \<Rightarrow> ConnectorError + unit" where
  "pg_execute_checks flavor profile secret =
     bind_res (pg_validate_profile flavor profile) (\<lambda>_. validate_auth profile secret)"

section \<open>What a request does to the database\<close>

fun is_execute :: "PgCall \<Rightarrow> bool" where
  "is_execute (Pg_Execute _ _) = True"
| "is_execute _ = False"

text \<open>Statements that are committed at once: their text bounds what they change.\<close>

definition bounded_statement :: "PostgresFlavor \<Rightarrow> ConnectionProfile \<Rightarrow> DataOperation \<Rightarrow> string \<Rightarrow> DbValue list \<Rightarrow> bool" where
  "bounded_statement flavor profile operation sql params =
     (case operation of
        Op_Insert request \<Rightarrow> (case build_insert Fam_PostgreSql profile request of
            Some (Inr built) \<Rightarrow> sql = bq_sql built \<and> params = bq_parameters built | _ \<Rightarrow> False)
      | Op_Update request \<Rightarrow> flavor = Flavor_PostgreSql \<and> (case build_update Fam_PostgreSql profile request of
            Inr built \<Rightarrow> sql = bq_sql built \<and> params = bq_parameters built | _ \<Rightarrow> False)
      | Op_Delete request \<Rightarrow> flavor = Flavor_PostgreSql \<and> (case build_delete Fam_PostgreSql profile request of
            Inr built \<Rightarrow> sql = bq_sql built \<and> params = bq_parameters built | _ \<Rightarrow> False)
      | _ \<Rightarrow> False)"

text \<open>
  What the events of a write must be: nothing, or one bounded statement, or a transaction with one
  statement that is committed only when it changed no more than \<open>limit\<close> rows.
\<close>

definition write_events :: "(string \<Rightarrow> DbValue list \<Rightarrow> bool) \<Rightarrow> u64 \<Rightarrow> (PgCall \<times> PgReply) list \<Rightarrow> bool" where
  "write_events bounded limit es \<longleftrightarrow>
     (let calls = map fst es in
      calls = [] \<or>
      (\<exists>sql ps. bounded sql ps \<and> (calls = [Pg_Execute sql ps] \<or> calls = [Pg_Execute sql ps, Pg_Elapsed])) \<or>
      calls = [Pg_Begin False] \<or>
      (\<exists>sql ps. calls = [Pg_Begin False, Pg_Execute sql ps] \<or> calls = [Pg_Begin False, Pg_Execute sql ps, Pg_Rollback] \<or>
         ((calls = [Pg_Begin False, Pg_Execute sql ps, Pg_Commit] \<or>
           calls = [Pg_Begin False, Pg_Execute sql ps, Pg_Commit, Pg_Elapsed]) \<and>
          (\<exists>affected. as_affected (snd (es ! 1)) = Inr affected \<and> affected \<le> limit))))"

lemma write_events_Nil [simp]: "write_events bounded limit []"
  by (simp add: write_events_def)

lemma execute_built_events:
  assumes "bounded (bq_sql built) (bq_parameters built)"
  shows "all_paths (write_events bounded limit) (\<lambda>_ _. True) (execute_built cx built) []"
  using assms by (simp add: execute_built_def write_events_def split: sum.split)

lemma execute_transactionally_events:
  assumes "limit \<le> limit'"
  shows "all_paths (write_events bounded limit') (\<lambda>_ _. True) (execute_transactionally cx statement ps limit) []"
  using assms by (auto simp: execute_transactionally_def write_events_def not_less split: sum.split)

lemma effective_write_limit_le: "effective_write_limit profile n = Inr limit \<Longrightarrow> limit \<le> pol_max_affected (pr_policy profile)"
  by (auto simp: effective_write_limit_def split: if_splits)

lemma execute_bounded_events:
  assumes "\<And>built. built' = Inr built \<Longrightarrow> flavor = Flavor_PostgreSql \<Longrightarrow> bounded (bq_sql built) (bq_parameters built)"
    and "\<And>limit. limit' = Inr limit \<Longrightarrow> limit \<le> most"
  shows "all_paths (write_events bounded most) (\<lambda>_ _. True) (execute_bounded flavor cx limit' built') []"
  using assms execute_built_events [of bounded _ most cx] execute_transactionally_events [of _ most bounded cx]
  by (cases limit'; cases built') (auto simp: execute_bounded_def write_events_def)

text \<open>The events of a read: no statement but queries, a native one in a read-only transaction.\<close>

definition read_events :: "bool \<Rightarrow> (PgCall \<times> PgReply) list \<Rightarrow> bool" where
  "read_events native es \<longleftrightarrow>
     (\<forall>(call, _) \<in> set es. \<not> is_execute call \<and> call \<noteq> Pg_Begin False) \<and>
     (native \<longrightarrow> es = [] \<or> fst (hd es) = Pg_Begin True)"

lemma query_built_events:
  assumes "\<And>es result. read_events native es \<Longrightarrow> es \<noteq> [] \<Longrightarrow> all_paths (read_events native) (\<lambda>_ _. True) (continue result) es"
    and "read_events native es" "native \<Longrightarrow> es \<noteq> []"
  shows "all_paths (read_events native) (\<lambda>_ _. True) (query_built env cx built continue) es"
proof -
  have more: "read_events native (es @ [(Pg_Query sql ps, r)])" "read_events native (es @ [(Pg_Query sql ps, r), (Pg_Elapsed, t)])"
    for sql ps r t using assms(2,3) by (auto simp: read_events_def)
  show ?thesis using assms(1,2) more by (auto simp: query_built_def Let_def split: sum.split)
qed

lemma native_query_events: "all_paths (read_events True) (\<lambda>_ _. True) (native_query env cx profile request) []"
proof -
  have finish: "all_paths (read_events True) (\<lambda>_ _. True) (case result of
      Inr result \<Rightarrow> Do Pg_Commit (\<lambda>r. case as_done r of Inl e \<Rightarrow> Return (Inl (map_pg_error e False)) | Inr _ \<Rightarrow> Return (Inr result))
    | Inl e \<Rightarrow> Do Pg_Rollback (\<lambda>_. Return (Inl e))) es"
    if "read_events True es" "es \<noteq> []" for result :: "ConnectorError + OperationResult" and es
    using that by (auto simp: read_events_def split: sum.split)
  show ?thesis unfolding native_query_def
    by (auto simp: read_events_def split: sum.split intro!: query_built_events [OF finish])
qed

definition request_events :: "PostgresFlavor \<Rightarrow> ConnectionProfile \<Rightarrow> DataOperation \<Rightarrow> (PgCall \<times> PgReply) list \<Rightarrow> bool" where
  "request_events flavor profile operation es \<longleftrightarrow>
     (if pg_is_write operation
      then write_events (bounded_statement flavor profile operation) (pol_max_affected (pr_policy profile)) es
      else read_events (\<exists>request. operation = Op_NativeQuery request) es)"

lemma execute_operation_events:
  "all_paths (request_events flavor profile operation) (\<lambda>_ _. True) (execute_operation env flavor cx profile operation) []"
proof (cases operation)
  case (Op_Read request)
  have reads: "request_events flavor profile (Op_Read request) = read_events False"
    by (simp add: fun_eq_iff request_events_def)
  show ?thesis unfolding execute_operation_def Op_Read reads
    by (auto intro!: query_built_events split: sum.split) (simp_all add: read_events_def)
next
  case (Op_Insert request)
  have "all_paths (write_events (bounded_statement flavor profile operation) (pol_max_affected (pr_policy profile))) (\<lambda>_ _. True)
      (execute_built cx built) []" if "build_insert Fam_PostgreSql profile request = Some (Inr built)" for built
    by (rule execute_built_events) (use that Op_Insert in \<open>simp add: bounded_statement_def\<close>)
  then show ?thesis unfolding execute_operation_def Op_Insert request_events_def
    by (auto split: option.split sum.split)
next
  case (Op_Update request)
  then show ?thesis unfolding execute_operation_def request_events_def
    by (auto intro!: execute_bounded_events simp: bounded_statement_def structured_write_family_def
        dest: effective_write_limit_le)
next
  case (Op_Delete request)
  then show ?thesis unfolding execute_operation_def request_events_def
    by (auto intro!: execute_bounded_events simp: bounded_statement_def structured_write_family_def
        dest: effective_write_limit_le)
next
  case (Op_NativeQuery request)
  have reads: "request_events flavor profile (Op_NativeQuery request) = read_events True"
    by (simp add: fun_eq_iff request_events_def)
  show ?thesis unfolding execute_operation_def Op_NativeQuery reads
    using native_query_events [of env cx profile request] by (auto simp: read_events_def)
next
  case (Op_NativeExecute request)
  have "all_paths (write_events bounded (pol_max_affected (pr_policy profile))) (\<lambda>_ _. True) (native_execute env cx profile request) []"
    for bounded
    by (auto simp: native_execute_def write_events_def res_simps intro!: execute_transactionally_events
        dest: effective_write_limit_le split: sum.split)
  moreover have "request_events flavor profile (Op_NativeExecute request) = write_events
      (bounded_statement flavor profile (Op_NativeExecute request)) (pol_max_affected (pr_policy profile))"
    by (simp add: fun_eq_iff request_events_def)
  ultimately show ?thesis by (simp add: execute_operation_def Op_NativeExecute)
qed (simp_all add: execute_operation_def request_events_def read_events_def)


section \<open>What a write is reported as\<close>

text \<open>The server itself refused the statement or the commit: the driver passes on its SQLSTATE.\<close>

definition refused_error :: "PgError \<Rightarrow> bool" where
  "refused_error e \<longleftrightarrow> \<not> pge_tls e \<and> \<not> pge_closed e \<and>
     (case pge_code e of Some code \<Rightarrow> \<not> starts_with code ''08'' | None \<Rightarrow> False)"

definition refused :: "PgError + 'a \<Rightarrow> bool" where
  "refused reply = (case reply of Inl e \<Rightarrow> refused_error e | Inr _ \<Rightarrow> False)"

lemma refused_simps [simp]: "refused (Inl e) = refused_error e" "refused (Inr x) = False"
  by (simp_all add: refused_def)

lemma map_pg_error_unknown: "refused_error e \<or> ce_category (map_pg_error e True) = Cat_UnknownOutcome"
  by (cases "pge_code e") (auto simp: refused_error_def map_pg_error_def Let_def starts_with_def split: if_splits)

lemma classify_unknown: "ce_category e = Cat_UnknownOutcome \<Longrightarrow> ce_category (classify_operation_error True e) = Cat_UnknownOutcome"
  by (simp add: classify_operation_error_def)

definition reported :: "(PgCall \<times> PgReply) list \<Rightarrow> ConnectorError + OperationResult \<Rightarrow> bool" where
  "reported es r =
     (case r of
        Inr result \<Rightarrow> or_outcome result = Outcome_Succeeded \<and>
          (\<exists>sql ps reply. (Pg_Execute sql ps, reply) \<in> set es \<and> as_affected reply = Inr (rm_affected (or_metrics result))) \<and>
          (Pg_Begin False \<in> fst ` set es \<longrightarrow> (\<exists>reply. (Pg_Commit, reply) \<in> set es \<and> as_done reply = Inr ()))
      | Inl e \<Rightarrow> ce_category (classify_operation_error True e) = Cat_UnknownOutcome \<or>
          list_all (\<lambda>(call, _). \<not> is_execute call) es \<or>
          list_ex (\<lambda>(call, reply). case call of
              Pg_Execute _ _ \<Rightarrow> refused (as_affected reply) | Pg_Commit \<Rightarrow> refused (as_done reply)
            | Pg_Rollback \<Rightarrow> True | _ \<Rightarrow> False) es)"

lemma execute_built_reported: "all_paths (\<lambda>_. True) reported (execute_built cx built) []"
  using map_pg_error_unknown classify_unknown
  by (auto simp: execute_built_def reported_def write_result_def split: sum.split)

lemma execute_transactionally_reported:
  "all_paths (\<lambda>_. True) reported (execute_transactionally cx statement ps limit) []"
  using map_pg_error_unknown classify_unknown
  by (auto simp: execute_transactionally_def reported_def write_result_def split: sum.split)

lemma execute_operation_reported:
  "pg_is_write operation \<Longrightarrow> all_paths (\<lambda>_. True) reported (execute_operation env flavor cx profile operation) []"
proof (cases operation)
  case (Op_Insert request)
  then show ?thesis using execute_built_reported
    by (auto simp: execute_operation_def reported_def split: option.split sum.split)
qed (use execute_built_reported execute_transactionally_reported in
    \<open>auto simp: execute_operation_def execute_bounded_def native_execute_def reported_def split: sum.split\<close>)


text \<open>
  SQLSTATE 40003, with which CockroachDB reports a commit whose result is ambiguous, is a refusal like
  the others of its class: the write is reported as a conflict.
\<close>

lemma ambiguous_commit_is_conflict:
  "ce_category (map_pg_error \<lparr>pge_tls = False, pge_closed = False, pge_code = Some ''40003'', pge_io = False\<rparr> True) = Cat_Conflict"
  by code_simp

text \<open>A bounded update on CockroachDB that is committed.\<close>

definition sample_pg_env :: pg_env where
  "sample_pg_env = \<lparr>pg_cursors = sample_cursors, pg_sizes = \<lparr>sz_records = (\<lambda>rs. Inr (length rs)), sz_result = (\<lambda>r. Inr (length (or_records r))),
       sz_entities = (\<lambda>es. Inr (length es)), sz_description = (\<lambda>_. Inr 1)\<rparr>,
     pg_parse = (\<lambda>_ _. Inr [])\<rparr>"

definition sample_pg_update :: "OperationResult PgProgram" where
  "sample_pg_update = execute_inner sample_pg_env 0 Flavor_CockroachDb sample_cx pg_profile (Op_Update sample_sql_update)"

lemma sample_pg_path:
  "\<exists>es elapsed. path sample_pg_update es (Return (Inr (write_result sample_cx elapsed 2))) \<and> length es = 5"
proof -
  have "is_ok (build_update Fam_PostgreSqlCompatible pg_profile sample_sql_update)" 
    "is_ok (effective_timeout 0 sample_cx pg_profile None)" by code_simp+
  then obtain q t where q: "build_update Fam_PostgreSqlCompatible pg_profile sample_sql_update = Inr q"
    "effective_timeout 0 sample_cx pg_profile None = Inr t" by (auto simp: is_ok_iff)
  have l: "effective_write_limit pg_profile (upd_max_affected sample_sql_update) = Inr (upd_max_affected sample_sql_update)"
    "upd_max_affected sample_sql_update \<ge> 2" by code_simp+
  define es where "es = [(Pg_Connect t, Pgr_Connected (Inr ())), (Pg_Begin False, Pgr_Done (Inr ())),
      (Pg_Execute (bq_sql q) (bq_parameters q), Pgr_Affected (Inr 2)), (Pg_Commit, Pgr_Done (Inr ())), (Pg_Elapsed, Pgr_Elapsed 9)]"
  have "path sample_pg_update es (Return (Inr (write_result sample_cx 9 2)))"
    unfolding sample_pg_update_def es_def
    by (auto simp: execute_inner_def q execute_operation_def structured_write_family_def execute_bounded_def l execute_transactionally_def
      path_Do path_Return as_connected_def as_done_def as_affected_def as_elapsed_def not_less)
  moreover have "length es = 5" by (simp add: es_def)
  ultimately show ?thesis by metis
qed



end
