(* ===== verification/Postgres_Numeric.thy ===== *)
theory Postgres_Numeric
  imports Postgres Complex_Main
begin

text \<open>
  The binary form of a decimal parameter (\<open>encode_pg_numeric\<close> of
  \<open>crates/connectors-sql/src/postgres.rs\<close>): digits to the base 10000, the weight of the first, a sign and
  the number of decimal places. The fields are the 16-bit words that are written.
\<close>

record PgNumeric =
  pn_ndigits :: "16 word"
  pn_weight :: "16 word"
  pn_sign :: "16 word"
  pn_dscale :: "16 word"
  pn_digits :: "16 word list"

fun chunks4 :: "string \<Rightarrow> string list" where
  "chunks4 (a # b # c # d # s) = [a, b, c, d] # chunks4 s"
| "chunks4 _ = []"

definition signed_decimal :: "string \<Rightarrow> bool \<times> string" where
  "signed_decimal value =
     (case strip_prefix value ''-'' of
        Some magnitude \<Rightarrow> (True, magnitude)
      | None \<Rightarrow> (False, case strip_prefix value ''+'' of Some magnitude \<Rightarrow> magnitude | None \<Rightarrow> value))"

definition decimal_parts :: "string \<Rightarrow> (string \<times> string) option" where
  "decimal_parts magnitude =
     (let parts = split_on (CHR ''.'') magnitude; integer = hd parts;
          fraction = (case tl parts of [] \<Rightarrow> [] | part # _ \<Rightarrow> part) in
      if length parts > 2 \<or> integer = [] \<or> \<not> list_all is_ascii_digit integer \<or> \<not> list_all is_ascii_digit fraction \<or>
         length fraction > 32767 then None
      else Some (integer, fraction))"

definition padding4 :: "string \<Rightarrow> nat" where
  "padding4 s = (4 - length s mod 4) mod 4"

definition grouped_digits :: "string \<Rightarrow> string \<Rightarrow> nat list" where
  "grouped_digits integer fraction =
     map digits_nat (chunks4 (replicate (padding4 integer) (CHR ''0'') @ integer @ fraction @
       replicate (padding4 fraction) (CHR ''0'')))"

text \<open>\<open>i16\<close>: conversions that fail, and a subtraction that saturates.\<close>

definition try_i16 :: "nat \<Rightarrow> int option" where
  "try_i16 n = (if n \<le> 32767 then Some (int n) else None)"

definition saturating_sub_i16 :: "int \<Rightarrow> int \<Rightarrow> int" where
  "saturating_sub_i16 a b = min 32767 (max (- 32768) (a - b))"

definition trim_zeros :: "nat list \<Rightarrow> nat list" where
  "trim_zeros digits = rev (dropWhile (\<lambda>d. d = 0) (rev digits))"

definition encode_pg_numeric :: "string \<Rightarrow> PgNumeric option" where
  "encode_pg_numeric value =
     (case signed_decimal value of (negative, magnitude) \<Rightarrow>
      Option.bind (decimal_parts magnitude) (\<lambda>(integer, fraction).
        let all_digits = grouped_digits integer fraction;
            first_nonzero = length (takeWhile (\<lambda>d. d = 0) all_digits) in
        Option.bind (try_i16 ((padding4 integer + length integer) div 4)) (\<lambda>groups.
          let weight = saturating_sub_i16 groups 1 in
          Option.bind
            (if first_nonzero < length all_digits then
               map_option (\<lambda>n. (drop first_nonzero all_digits, saturating_sub_i16 weight n)) (try_i16 first_nonzero)
             else Some ([], weight)) (\<lambda>(digits, weight).
          let digits = trim_zeros digits; weight = (if digits = [] then 0 else weight) in
          Option.bind (try_i16 (length digits)) (\<lambda>_.
          Some \<lparr>pn_ndigits = word_of_nat (length digits), pn_weight = word_of_int weight, pn_sign = (if negative \<and> digits \<noteq> [] then 0x4000 else 0),
            pn_dscale = word_of_nat (length fraction), pn_digits = map word_of_nat digits\<rparr>)))))"

section \<open>Values\<close>

text \<open>What the server reads, and what the text stands for.\<close>

definition numeric_value :: "PgNumeric \<Rightarrow> rat" where
  "numeric_value n =
     (if pn_sign n = 0x4000 then - 1 else 1) *
     (\<Sum>i < length (pn_digits n). of_nat (unat (pn_digits n ! i)) * 10000 powi (sint (pn_weight n) - int i))"

definition decimal_value :: "string \<Rightarrow> rat option" where
  "decimal_value value =
     (case signed_decimal value of (negative, magnitude) \<Rightarrow>
      map_option (\<lambda>(integer, fraction).
        (if negative then - 1 else 1) * of_nat (digits_nat (integer @ fraction)) / 10 ^ length fraction)
        (decimal_parts magnitude))"

definition base_value :: "nat list \<Rightarrow> nat" where
  "base_value ds = foldl (\<lambda>n d. 10000 * n + d) 0 ds"

lemma foldl_digits: "foldl (\<lambda>n c. 10 * n + (byte c - 48)) k s = k * 10 ^ length s + digits_nat s"
proof (induction s rule: rev_induct)
  case (snoc c s)
  then show ?case by (simp add: digits_nat_def algebra_simps)
qed (simp add: digits_nat_def)

lemma digits_append: "digits_nat (s @ t) = digits_nat s * 10 ^ length t + digits_nat t"
  using foldl_digits [of "digits_nat s" t] by (simp add: digits_nat_def)

lemma digits_zeros: "digits_nat (replicate n (CHR ''0'')) = 0"
  by (induction n) (simp_all add: digits_nat_def byte_def)

lemma base_snoc: "base_value (ds @ [d]) = 10000 * base_value ds + d"
  by (simp add: base_value_def)

lemma base_append: "base_value (ds @ es) = base_value ds * 10000 ^ length es + base_value es"
proof (induction es rule: rev_induct)
  case (snoc e es)
  have "base_value (ds @ es @ [e]) = 10000 * base_value (ds @ es) + e" using base_snoc [of "ds @ es"] by simp
  then show ?case using snoc by (simp add: base_snoc algebra_simps)
qed (simp add: base_value_def)

lemma base_zeros: "base_value (replicate n 0) = 0"
  by (induction n) (simp_all add: base_value_def)

lemma chunks4_length: "length (chunks4 s) = length s div 4"
  by (induction s rule: chunks4.induct) (auto simp: div_add_self2)

lemma base_chunks: "length s mod 4 = 0 \<Longrightarrow> base_value (map digits_nat (chunks4 s)) = digits_nat s"
proof (induction s rule: chunks4.induct)
  case (1 a b c d s)
  have "length s mod 4 = 0" using "1.prems" by simp
  moreover have "base_value (digits_nat [a, b, c, d] # ds) = digits_nat [a, b, c, d] * 10000 ^ length ds + base_value ds" for ds
    using base_append [of "[digits_nat [a, b, c, d]]" ds] by (simp add: base_value_def)
  moreover have "(10 :: nat) ^ length s = 10000 ^ length (chunks4 s)"
  proof -
    have "length s = 4 * length (chunks4 s)" using calculation(1) unfolding chunks4_length by presburger
    then have "(10 :: nat) ^ length s = (10 ^ 4) ^ length (chunks4 s)" by (metis power_mult)
    then show ?thesis by simp
  qed
  ultimately show ?case
    using 1 digits_append [of "[a, b, c, d]" s] by simp
qed (simp_all add: base_value_def digits_nat_def)

lemma sum_base:
  "(\<Sum>i < length ds. of_nat (ds ! i) * 10000 powi (w - int i)) = (of_nat (base_value ds) * 10000 powi (w - int (length ds) + 1) :: rat)"
proof (induction ds rule: rev_induct)
  case (snoc d ds)
  have "(10000 :: rat) powi (w - int (length ds) + 1) = 10000 powi (w - int (length ds)) * 10000"
    by (simp add: power_int_add)
  moreover have "(\<Sum>i < length ds. of_nat ((ds @ [d]) ! i) * 10000 powi (w - int i))
      = (\<Sum>i < length ds. of_nat (ds ! i) * (10000 :: rat) powi (w - int i))"
    by (intro sum.cong) (simp_all add: nth_append)
  ultimately show ?case using snoc by (simp add: base_snoc algebra_simps)
qed (simp add: base_value_def)

text \<open>Digits between zeros.\<close>

lemma trim_split:
  obtains z t where "ds = replicate z 0 @ trim_zeros (dropWhile (\<lambda>d. d = 0) ds) @ replicate t 0"
    "z = length (takeWhile (\<lambda>d. d = 0) ds)"
    "length ds = z + length (trim_zeros (dropWhile (\<lambda>d. d = 0) ds)) + t"
proof -
  have zeros: "xs = replicate (length xs) 0" if "\<forall>x \<in> set xs. x = (0 :: nat)" for xs
    using that by (induction xs) auto
  let ?e = "dropWhile (\<lambda>d. d = 0) ds" and ?z = "takeWhile (\<lambda>d. d = 0) ds"
  let ?t = "rev (takeWhile (\<lambda>d. d = 0) (rev ?e))"
  have "?e = trim_zeros ?e @ ?t"
    unfolding trim_zeros_def by (metis rev_append rev_rev_ident takeWhile_dropWhile_id)
  moreover have "?z = replicate (length ?z) 0" by (rule zeros) (auto dest: set_takeWhileD)
  moreover have "?t = replicate (length ?t) 0" by (rule zeros) (auto dest: set_takeWhileD)
  ultimately have "ds = replicate (length ?z) 0 @ trim_zeros ?e @ replicate (length ?t) 0"
    by (metis takeWhile_dropWhile_id)
  then show thesis using that [of "length ?z" "length ?t"] by (metis add.assoc length_append length_replicate)
qed

lemma padding4_mod: "(padding4 s + length s) mod 4 = 0"
proof -
  have "length s mod 4 = 0 \<or> length s mod 4 = 1 \<or> length s mod 4 = 2 \<or> length s mod 4 = 3" by linarith
  moreover have "(padding4 s + length s) mod 4 = (padding4 s + length s mod 4) mod 4" by (simp add: mod_simps)
  ultimately show ?thesis unfolding padding4_def by auto
qed

lemma grouped_digits_base:
  "base_value (grouped_digits integer fraction) = digits_nat (integer @ fraction) * 10 ^ padding4 fraction"
  "length (grouped_digits integer fraction)
     = (padding4 integer + length integer) div 4 + (padding4 fraction + length fraction) div 4"
proof -
  let ?s = "replicate (padding4 integer) (CHR ''0'') @ integer @ fraction @ replicate (padding4 fraction) (CHR ''0'')"
  have mods: "4 dvd padding4 integer + length integer" "4 dvd padding4 fraction + length fraction"
    using padding4_mod by (auto simp: dvd_eq_mod_eq_0)
  have len: "length ?s = (padding4 integer + length integer) + (padding4 fraction + length fraction)" by simp
  have "length ?s mod 4 = 0" unfolding len using mods by (simp add: dvd_eq_mod_eq_0 [symmetric])
  then have "base_value (grouped_digits integer fraction) = digits_nat ?s"
    unfolding grouped_digits_def by (rule base_chunks)
  also have "\<dots> = digits_nat (integer @ fraction) * 10 ^ padding4 fraction"
    using digits_append [of "replicate (padding4 integer) (CHR ''0'')" "(integer @ fraction) @ replicate (padding4 fraction) (CHR ''0'')"]
      digits_append [of "integer @ fraction"] by (simp add: digits_zeros)
  finally show "base_value (grouped_digits integer fraction) = digits_nat (integer @ fraction) * 10 ^ padding4 fraction" .
  show "length (grouped_digits integer fraction)
     = (padding4 integer + length integer) div 4 + (padding4 fraction + length fraction) div 4"
    unfolding grouped_digits_def length_map chunks4_length len using mods by (simp add: div_plus_div_distrib_dvd_left)
qed

lemma chunks4_size: "c \<in> set (chunks4 s) \<Longrightarrow> length c = 4 \<and> set c \<subseteq> set s"
  by (induction s rule: chunks4.induct) auto

lemma digits_bound: "list_all is_ascii_digit s \<Longrightarrow> digits_nat s < 10 ^ length s"
proof (induction s rule: rev_induct)
  case (snoc c s)
  then have "byte c - 48 \<le> 9" "digits_nat s < 10 ^ length s" by (auto simp: is_ascii_digit_def)
  then show ?case using digits_append [of s "[c]"] by (simp add: digits_nat_def)
qed (simp add: digits_nat_def)

lemma grouped_digits_small:
  assumes "list_all is_ascii_digit integer" "list_all is_ascii_digit fraction" "d \<in> set (grouped_digits integer fraction)"
  shows "d < 10000"
proof -
  let ?s = "replicate (padding4 integer) (CHR ''0'') @ integer @ fraction @ replicate (padding4 fraction) (CHR ''0'')"
  obtain c where c: "c \<in> set (chunks4 ?s)" "d = digits_nat c" using assms(3) unfolding grouped_digits_def by auto
  have "list_all is_ascii_digit ?s" using assms(1,2) by (auto simp: list_all_iff is_ascii_digit_def byte_def)
  then have "list_all is_ascii_digit c" using chunks4_size [OF c(1)] by (auto simp: list_all_iff)
  then show ?thesis using digits_bound [of c] chunks4_size [OF c(1)] c(2) by simp
qed

lemma decimal_parts_digits:
  assumes "decimal_parts m = Some (integer, fraction)"
  shows "integer \<noteq> []" "list_all is_ascii_digit integer" "list_all is_ascii_digit fraction" "length fraction \<le> 32767"
  using assms by (auto simp: decimal_parts_def Let_def split: if_splits)

lemma trim_zeros_ends:
  assumes "trim_zeros (dropWhile (\<lambda>d. d = 0) ds) \<noteq> []"
  shows "hd (trim_zeros (dropWhile (\<lambda>d. d = 0) ds)) \<noteq> 0" "last (trim_zeros (dropWhile (\<lambda>d. d = 0) ds)) \<noteq> 0"
proof -
  let ?e = "dropWhile (\<lambda>d. d = 0) ds"
  let ?b = "dropWhile (\<lambda>d. d = 0) (rev ?e)"
  have e: "?e \<noteq> []" using assms unfolding trim_zeros_def by (cases ?e) simp_all
  have b: "?b \<noteq> []" using assms unfolding trim_zeros_def rev_is_Nil_conv .
  then have "hd (rev ?b) = last ?b" by (simp add: hd_rev)
  moreover have "last ?b = last (rev ?e)" using b by (metis last_appendR takeWhile_dropWhile_id)
  ultimately have "hd (rev ?b) = hd ?e" using e by (simp add: last_rev)
  then show "hd (trim_zeros ?e) \<noteq> 0" using hd_dropWhile [OF e] by (simp add: trim_zeros_def)
  show "last (trim_zeros ?e) \<noteq> 0" using hd_dropWhile [OF b] b by (simp add: trim_zeros_def last_rev)
qed

text \<open>The shape of an encoding that is produced.\<close>

lemma encode_pg_numericE:
  assumes "encode_pg_numeric value = Some n"
  obtains negative m integer fraction ds w where "signed_decimal value = (negative, m)"
    "decimal_parts m = Some (integer, fraction)"
    "ds = trim_zeros (dropWhile (\<lambda>d. d = 0) (grouped_digits integer fraction))"
    "length ds \<le> 32767"
    "w = (if ds = [] then 0 else int ((padding4 integer + length integer) div 4) - 1
       - int (length (takeWhile (\<lambda>d. d = 0) (grouped_digits integer fraction))))" "- 32768 \<le> w" "w \<le> 32767"
    "n = \<lparr>pn_ndigits = word_of_nat (length ds), pn_weight = word_of_int w,
       pn_sign = (if negative \<and> ds \<noteq> [] then 0x4000 else 0), pn_dscale = word_of_nat (length fraction), pn_digits = map word_of_nat ds\<rparr>"
proof -
  obtain negative m where sm: "signed_decimal value = (negative, m)" by fastforce
  obtain integer fraction where parts: "decimal_parts m = Some (integer, fraction)"
    using assms sm unfolding encode_pg_numeric_def by (auto split: Option.bind_splits)
  let ?g = "grouped_digits integer fraction" and ?groups = "(padding4 integer + length integer) div 4"
  let ?first = "length (takeWhile (\<lambda>d. d = 0) ?g)" and ?ds = "trim_zeros (dropWhile (\<lambda>d. d = 0) ?g)"
  have "?groups \<ge> 1" using decimal_parts_digits(1) [OF parts] padding4_mod [of integer]
    by (cases "padding4 integer + length integer < 4") auto
  moreover have "?groups \<le> 32767"
    using assms by (simp add: encode_pg_numeric_def sm parts try_i16_def Let_def split: if_splits)
  ultimately have groups: "try_i16 ?groups = Some (int ?groups)" "saturating_sub_i16 (int ?groups) 1 = int ?groups - 1"
    "1 \<le> ?groups" "?groups \<le> 32767"
    by (auto simp: try_i16_def saturating_sub_i16_def)
  have drop: "drop ?first ?g = dropWhile (\<lambda>d. d = 0) ?g" by (simp add: dropWhile_eq_drop)
  show thesis
  proof (cases "?first < length ?g")
    case True
    then have first: "try_i16 ?first = Some (int ?first)" "?first \<le> 32767" "length ?ds \<le> 32767"
      using assms by (simp_all add: encode_pg_numeric_def sm parts Let_def groups drop try_i16_def split: if_splits)
    then have sat: "saturating_sub_i16 (int ?groups - 1) (int ?first) = int ?groups - 1 - int ?first"
      using groups(3,4) by (simp add: saturating_sub_i16_def)
    show thesis
      by (rule that [OF sm parts refl first(3) refl])
        (use assms first groups sat in \<open>auto simp: encode_pg_numeric_def sm parts Let_def drop try_i16_def True\<close>)
  next
    case False
    then have "dropWhile (\<lambda>d. d = 0) ?g = []" by (metis drop drop_all not_less)
    then have empty: "?ds = []" unfolding trim_zeros_def by (simp only: rev.simps dropWhile.simps)
    have "trim_zeros [] = []" by (simp add: trim_zeros_def)
    then have n: "n = \<lparr>pn_ndigits = word_of_nat (length []), pn_weight = word_of_int 0, pn_sign = (if negative \<and> [] \<noteq> ([] :: nat list) then 0x4000 else 0),
        pn_dscale = word_of_nat (length fraction), pn_digits = map word_of_nat []\<rparr>"
      using assms by (simp add: encode_pg_numeric_def sm parts Let_def groups(1) False try_i16_def split: if_splits)
    show thesis by (rule that [OF sm parts empty [symmetric] _ _ _ _ n]) simp_all
  qed
qed

lemma encode_pg_numeric_parts:
  assumes "encode_pg_numeric value = Some n"
  shows "decimal_value value = Some (numeric_value n)"
    and "unat (pn_ndigits n) = length (pn_digits n)"
    and "\<forall>d \<in> set (pn_digits n). d < 10000"
    and "pn_digits n \<noteq> [] \<Longrightarrow> hd (pn_digits n) \<noteq> 0 \<and> last (pn_digits n) \<noteq> 0"
    and "\<exists>integer fraction. decimal_parts (snd (signed_decimal value)) = Some (integer, fraction)
      \<and> unat (pn_dscale n) = length fraction"
proof -
  obtain negative m integer fraction ds w where e: "signed_decimal value = (negative, m)"
    "decimal_parts m = Some (integer, fraction)"
    "ds = trim_zeros (dropWhile (\<lambda>d. d = 0) (grouped_digits integer fraction))"
    "length ds \<le> 32767"
    "w = (if ds = [] then 0 else int ((padding4 integer + length integer) div 4) - 1
       - int (length (takeWhile (\<lambda>d. d = 0) (grouped_digits integer fraction))))" "- 32768 \<le> w" "w \<le> 32767"
    "n = \<lparr>pn_ndigits = word_of_nat (length ds), pn_weight = word_of_int w,
       pn_sign = (if negative \<and> ds \<noteq> [] then 0x4000 else 0), pn_dscale = word_of_nat (length fraction), pn_digits = map word_of_nat ds\<rparr>"
    by (rule encode_pg_numericE [OF assms])
  note parts = decimal_parts_digits [OF e(2)]
  show "unat (pn_ndigits n) = length (pn_digits n)" using e(4) by (simp add: e(8) unat_of_nat)
  show "\<exists>integer fraction. decimal_parts (snd (signed_decimal value)) = Some (integer, fraction)
      \<and> unat (pn_dscale n) = length fraction" using parts(4) by (simp add: e(1,2,8) unat_of_nat)
  have "set ds \<subseteq> set (grouped_digits integer fraction)"
    unfolding e(3) trim_zeros_def by (auto dest!: set_dropWhileD)
  then have small: "d < 10000" if "d \<in> set ds" for d using grouped_digits_small [OF parts(2,3)] that by auto
  then have word: "unat (word_of_nat d :: 16 word) = d" if "d \<in> set ds" for d
    using small [OF that] by (simp add: unat_of_nat)
  show "\<forall>d \<in> set (pn_digits n). d < 10000"
    using small word by (auto simp: e(8) word_less_nat_alt)
  show "hd (pn_digits n) \<noteq> 0 \<and> last (pn_digits n) \<noteq> 0" if "pn_digits n \<noteq> []"
  proof -
    have ne: "ds \<noteq> []" using that by (simp add: e(8))
    then have "hd ds \<noteq> 0" "last ds \<noteq> 0" using trim_zeros_ends e(3) by auto
    then show ?thesis using ne word [of "hd ds"] word [of "last ds"] by (auto simp: e(8) hd_map last_map)
  qed
  obtain z t where split: "grouped_digits integer fraction = replicate z 0 @ ds @ replicate t 0"
    "z = length (takeWhile (\<lambda>d. d = 0) (grouped_digits integer fraction))"
    "length (grouped_digits integer fraction) = z + length ds + t"
    using trim_split [of "grouped_digits integer fraction"] e(3) by metis
  let ?fg = "(padding4 fraction + length fraction) div 4" and ?D = "digits_nat (integer @ fraction)"
  have fg: "padding4 fraction + length fraction = 4 * ?fg" using padding4_mod [of fraction] by presburger
  have "base_value ds * 10000 ^ t = ?D * 10 ^ padding4 fraction"
    using grouped_digits_base(1) [of integer fraction] by (simp add: split(1) base_append base_zeros)
  then have scaled: "of_nat (base_value ds) * (10000 :: rat) ^ t = of_nat ?D * 10 ^ padding4 fraction"
    by (metis of_nat_mult of_nat_numeral of_nat_power)
  have "(10 :: rat) ^ padding4 fraction * 10 ^ length fraction = 10000 ^ ?fg"
    using arg_cong [OF fg, of "\<lambda>k. (10 :: rat) ^ k"] by (simp only: power_add power_mult) simp
  then have frac: "of_nat ?D / (10 :: rat) ^ length fraction = of_nat (base_value ds) * 10000 ^ t / 10000 ^ ?fg"
    unfolding scaled by (simp add: field_simps)
  have weight: "sint (pn_weight n) = w" using e(6,7) by (simp add: e(8) signed_take_bit_int_eq_self sint_sbintrunc')
  have mapped: "(\<Sum>i < length (pn_digits n). of_nat (unat (pn_digits n ! i)) * (10000 :: rat) powi (w - int i))
      = (\<Sum>i < length ds. of_nat (ds ! i) * 10000 powi (w - int i))"
    by (intro sum.cong) (simp_all add: e(8) word)
  have "w - int (length ds) + 1 = int t - int ?fg" if "ds \<noteq> []"
    using that e(5) split(2,3) grouped_digits_base(2) [of integer fraction] by simp
  then have "numeric_value n = (if negative then - 1 else 1) * (of_nat (base_value ds) * 10000 ^ t / 10000 ^ ?fg)"
    unfolding numeric_value_def weight mapped sum_base
    by (cases "ds = []") (simp_all add: e(8) base_value_def power_int_diff)
  then show "decimal_value value = Some (numeric_value n)"
    unfolding decimal_value_def e(1) by (simp add: e(2) frac [symmetric])
qed

text \<open>
  C37: A decimal parameter that is sent is the number its text says: the digits to the base 10000 with the
  weight and sign the server reads denote exactly the decimal value of the text, no 16-bit field wraps, the number of
  decimal places of the text is kept, and the digits are below 10000 with no zero group at either end.
\<close>

theorem numeric_parameter_exact:
  assumes "encode_pg_numeric value = Some n"
  shows "decimal_value value = Some (numeric_value n) \<and> unat (pn_ndigits n) = length (pn_digits n)
    \<and> (\<forall>d \<in> set (pn_digits n). d < 10000) \<and> (pn_digits n \<noteq> [] \<longrightarrow> hd (pn_digits n) \<noteq> 0 \<and> last (pn_digits n) \<noteq> 0)
    \<and> (\<exists>integer fraction. decimal_parts (snd (signed_decimal value)) = Some (integer, fraction)
         \<and> unat (pn_dscale n) = length fraction)"
  using encode_pg_numeric_parts [OF assms] by blast

theorem numeric_parameter_exact_witness:
  "encode_pg_numeric ''-12345.678'' = Some \<lparr>pn_ndigits = 3, pn_weight = 1, pn_sign = 0x4000, pn_dscale = 3, pn_digits = [1, 2345, 6780]\<rparr>
   \<and> numeric_value \<lparr>pn_ndigits = 3, pn_weight = 1, pn_sign = 0x4000, pn_dscale = 3, pn_digits = [1, 2345, 6780]\<rparr> = - 12345678 / 1000"
proof -
  have parts: "signed_decimal ''-12345.678'' = (True, ''12345.678'')"
    "decimal_parts ''12345.678'' = Some (''12345'', ''678'')" by code_simp+
  have digits: "digits_nat ''12345678'' = 12345678" by (simp add: digits_nat_def byte_def)
  have zeros: "replicate 3 (CHR ''0'') = ''000''" by code_simp
  have groups: "padding4 ''12345'' = 3" "padding4 ''678'' = 1"
    "grouped_digits ''12345'' ''678'' = [1, 2345, 6780]"
    by (simp_all add: padding4_def grouped_digits_def digits_nat_def byte_def zeros)
  have "encode_pg_numeric ''-12345.678'' = Some \<lparr>pn_ndigits = 3, pn_weight = 1, pn_sign = 0x4000, pn_dscale = 3, pn_digits = [1, 2345, 6780]\<rparr>"
    by (simp add: encode_pg_numeric_def parts groups Let_def try_i16_def saturating_sub_i16_def trim_zeros_def)
  moreover have "decimal_value ''-12345.678'' = Some (- 12345678 / 1000)"
    by (simp add: decimal_value_def parts digits)
  ultimately show ?thesis using numeric_parameter_exact by fastforce
qed

end
