(* ===== verification/Pools.thy ===== *)
theory Pools
  imports Core_Types
begin

text \<open>
  The connection pools an adapter keeps (\<open>connect\<close> and \<open>invalidate_connection\<close> of
  \<open>crates/connectors-sql/src/postgres.rs\<close>): a cache from the identity of a connection to its pool. Building a
  pool is a parameter. The cache may drop entries at any time.
\<close>

type_synonym ('d, 'p) pools = "(ConnectionId \<times> 'd, 'p) hashmap"

definition pool_for ::
  "(ConnectionCacheIdentity \<Rightarrow> 'd option) \<Rightarrow> (ConnectionProfile \<Rightarrow> SecretMaterial \<Rightarrow> ConnectorError + 'p)
     \<Rightarrow> ConnectionProfile \<Rightarrow> SecretMaterial \<Rightarrow> ('d, 'p) pools \<Rightarrow> (ConnectorError + 'p) \<times> ('d, 'p) pools" where
  "pool_for digest build profile secret pools =
     (case connection_cache_key digest profile secret of
        Inl e \<Rightarrow> (Inl e, pools)
      | Inr key \<Rightarrow>
          (case hm_get pools key of
             Some pool \<Rightarrow> (Inr pool, pools)
           | None \<Rightarrow>
               (case build profile secret of
                  Inl e \<Rightarrow> (Inl e, pools)
                | Inr pool \<Rightarrow>
                    (Inr pool, hm_insert key pool (hm_retain (\<lambda>k _. \<not> (fst k = fst key \<and> k \<noteq> key)) pools)))))"

definition pools_invalidate_connection :: "ConnectionId \<Rightarrow> ('d, 'p) pools \<Rightarrow> ('d, 'p) pools" where
  "pools_invalidate_connection connection_id pools = hm_retain (\<lambda>k _. fst k \<noteq> connection_id) pools"

text \<open>The states of the cache. \<open>pools_evict\<close> is its capacity and idle time.\<close>

inductive pools_reachable ::
  "(ConnectionCacheIdentity \<Rightarrow> 'd option) \<Rightarrow> (ConnectionProfile \<Rightarrow> SecretMaterial \<Rightarrow> ConnectorError + 'p)
     \<Rightarrow> ('d, 'p) pools \<Rightarrow> bool"
  for digest build where
  pools_empty: "pools_reachable digest build []"
| pools_connect: "pools_reachable digest build pools \<Longrightarrow> pools_reachable digest build (snd (pool_for digest build profile secret pools))"
| pools_invalidate: "pools_reachable digest build pools \<Longrightarrow> pools_reachable digest build (pools_invalidate_connection connection_id pools)"
| pools_evict: "pools_reachable digest build pools \<Longrightarrow> pools_reachable digest build (hm_retain keep pools)"

definition built_pool :: "(ConnectionCacheIdentity \<Rightarrow> 'd option) \<Rightarrow> (ConnectionProfile \<Rightarrow> SecretMaterial \<Rightarrow> ConnectorError + 'p)
     \<Rightarrow> ConnectionId \<times> 'd \<Rightarrow> 'p \<Rightarrow> bool" where
  "built_pool digest build key pool \<longleftrightarrow>
     (\<exists>profile secret. connection_cache_key digest profile secret = Inr key \<and> build profile secret = Inr pool)"

lemma pool_for_cases:
  obtains (unchanged) e where "pool_for digest build profile secret pools = (Inl e, pools)"
  | (cached) key pool where "connection_cache_key digest profile secret = Inr key" "hm_get pools key = Some pool"
      "pool_for digest build profile secret pools = (Inr pool, pools)"
  | (made) key pool where "connection_cache_key digest profile secret = Inr key" "build profile secret = Inr pool"
      "pool_for digest build profile secret pools =
        (Inr pool, hm_insert key pool (hm_retain (\<lambda>k _. \<not> (fst k = fst key \<and> k \<noteq> key)) pools))"
proof (cases "connection_cache_key digest profile secret")
  case (Inr key)
  then show thesis using cached made unchanged
    by (cases "hm_get pools key"; cases "build profile secret") (auto simp: pool_for_def)
qed (auto simp: pool_for_def intro: unchanged)

text \<open>Every pool of the cache was built for its key, and a connection has at most one.\<close>

definition one_per_connection :: "('d, 'p) pools \<Rightarrow> bool" where
  "one_per_connection pools \<longleftrightarrow>
     (\<forall>k k' p p'. hm_get pools k = Some p \<longrightarrow> hm_get pools k' = Some p' \<longrightarrow> fst k = fst k' \<longrightarrow> k = k')"

definition pools_inv :: "(ConnectionCacheIdentity \<Rightarrow> 'd option) \<Rightarrow> (ConnectionProfile \<Rightarrow> SecretMaterial \<Rightarrow> ConnectorError + 'p)
     \<Rightarrow> ('d, 'p) pools \<Rightarrow> bool" where
  "pools_inv digest build pools \<longleftrightarrow> hm_wf pools \<and> one_per_connection pools \<and>
     (\<forall>key pool. hm_get pools key = Some pool \<longrightarrow> built_pool digest build key pool)"

lemma pools_inv_retain:
  assumes "pools_inv digest build pools"
  shows "pools_inv digest build (hm_retain keep pools)"
proof -
  have "hm_get (hm_retain keep pools) k = Some p \<Longrightarrow> hm_get pools k = Some p" for k p
    using assms by (auto simp: pools_inv_def hm_get_retain split: option.splits if_splits)
  then show ?thesis using assms hm_wf_retain unfolding pools_inv_def one_per_connection_def by blast
qed

lemma pools_reachable_inv: "pools_reachable digest build pools \<Longrightarrow> pools_inv digest build pools"
proof (induction rule: pools_reachable.induct)
  case pools_empty
  then show ?case by (simp add: pools_inv_def one_per_connection_def)
next
  case (pools_connect pools profile secret)
  have built: "built_pool digest build key pool" if "hm_get pools key = Some pool" for key pool
    using pools_connect.IH that unfolding pools_inv_def by blast
  have one: "one_per_connection pools" and wf: "hm_wf pools" using pools_connect.IH unfolding pools_inv_def by blast+
  show ?case
  proof (cases digest build profile secret pools rule: pool_for_cases)
    case (made key pool)
    have new: "built_pool digest build key pool" using made(1,2) by (auto simp: built_pool_def)
    define kept where "kept = hm_retain (\<lambda>k _. \<not> (fst k = fst key \<and> k \<noteq> key)) pools"
    have get: "hm_get kept k = Some p \<longleftrightarrow> hm_get pools k = Some p \<and> \<not> (fst k = fst key \<and> k \<noteq> key)" for k p
      using wf by (auto simp: kept_def hm_get_retain split: option.splits)
    have "k = k'" if "hm_get (hm_insert key pool kept) k = Some p" "hm_get (hm_insert key pool kept) k' = Some p'" "fst k = fst k'"
      for k k' p p'
      using that one [unfolded one_per_connection_def, rule_format, of k p k' p']
      unfolding hm_get_insert by (cases "k = key"; cases "k' = key") (simp_all add: get)
    then have "one_per_connection (hm_insert key pool kept)" unfolding one_per_connection_def by blast
    moreover have "built_pool digest build k p" if "hm_get (hm_insert key pool kept) k = Some p" for k p
      using that new built [of k p] unfolding hm_get_insert by (cases "k = key") (simp_all add: get)
    ultimately show ?thesis using wf unfolding made(3) kept_def [symmetric] snd_conv pools_inv_def by (simp add: invariants kept_def)
  qed (use pools_connect.IH in simp_all)
next
  case (pools_invalidate pools connection_id)
  then show ?case unfolding pools_invalidate_connection_def by (intro pools_inv_retain)
next
  case (pools_evict pools keep)
  then show ?case by (intro pools_inv_retain)
qed

text \<open>A digest with no two identities of the same value.\<close>

definition collision_free :: "(ConnectionCacheIdentity \<Rightarrow> 'd option) \<Rightarrow> bool" where
  "collision_free digest \<longleftrightarrow> (\<forall>i j d. digest i = Some d \<longrightarrow> digest j = Some d \<longrightarrow> i = j)"

text \<open>An adapter whose pools depend on nothing but the identity of the connection.\<close>

locale pool_builder =
  fixes build :: "ConnectionProfile \<Rightarrow> SecretMaterial \<Rightarrow> ConnectorError + 'p"
  assumes build_identity: "cache_identity profile secret = cache_identity profile' secret' \<Longrightarrow> build profile secret = build profile' secret'"
begin

lemma pool_is_own:
  assumes "pools_reachable digest build pools" "collision_free digest"
    "pool_for digest build profile secret pools = (Inr pool, pools')"
  shows "build profile secret = Inr pool"
proof (cases digest build profile secret pools rule: pool_for_cases)
  case (cached key pool')
  then have "hm_get pools key = Some pool" using assms(3) by simp
  then have "built_pool digest build key pool" using pools_reachable_inv [OF assms(1)] unfolding pools_inv_def by blast
  then obtain profile' secret' where "connection_cache_key digest profile' secret' = Inr key" "build profile' secret' = Inr pool"
    by (auto simp: built_pool_def)
  moreover from this cached(1) have "cache_identity profile secret = cache_identity profile' secret'"
    using assms(2) by (auto simp: connection_cache_key_def collision_free_def res_simps)
  ultimately show ?thesis using build_identity by metis
qed (use assms(3) in auto)

end

end
