(* ===== verification/Postgres_Connect.thy ===== *)
theory Postgres_Connect
  imports Postgres Pools
begin

text \<open>
  How the PostgreSQL adapter connects (\<open>crates/connectors-sql/src/postgres.rs\<close>): the configuration of the driver
  from the profile and its secret, the check that a connection string points at the endpoint of the profile,
  the TLS material, and the pools. The configuration is the record of what the adapter sets and reads.
\<close>

section \<open>Definitions\<close>

datatype PgHost = Host_Tcp string | Host_Unix string

record PgConfig =
  pc_hosts :: "PgHost list"
  pc_hostaddrs :: "string list"
  pc_ports :: "u16 list"
  pc_user :: "string option"
  pc_password :: "string option"
  pc_dbname :: "string option"
  pc_application_name :: "string option"
  pc_ssl_require :: bool
  pc_connect_timeout :: "u64 option"

record PgTls =
  pt_ca :: "string list"
  pt_client :: "(string list \<times> string) option"

record PgPool =
  pp_config :: PgConfig
  pp_tls :: "PgTls option"
  pp_max_size :: nat

text \<open>
  Other crates: \<open>Url::port\<close>, \<open>Config::from_str\<close>, the PEM and certificate functions of \<open>rustls\<close>, and
  \<open>Pool::build\<close>. An \<open>Inl\<close> is the text of an error.
\<close>

record connect_env =
  ce_port :: "Url \<Rightarrow> u16 option"
  ce_parse_config :: "string \<Rightarrow> PgConfig option"
  ce_certs :: "string \<Rightarrow> string + string list"
  ce_add_root :: "string \<Rightarrow> string + unit"
  ce_versions :: "string + unit"
  ce_private_key :: "string \<Rightarrow> string + string option"
  ce_client_auth :: "string list \<Rightarrow> string \<Rightarrow> string + unit"
  ce_pool :: "PgConfig \<Rightarrow> string + unit"

definition trim_brackets :: "string \<Rightarrow> string" where
  "trim_brackets s =
     (let bracket = (\<lambda>c. c = CHR ''['' \<or> c = CHR '']'') in rev (dropWhile bracket (rev (dropWhile bracket s))))"

definition same_host :: "string \<Rightarrow> string \<Rightarrow> bool" where
  "same_host left right = eq_ignore_ascii_case (trim_brackets left) (trim_brackets right)"

definition endpoint_port :: "connect_env \<Rightarrow> ConnectionProfile \<Rightarrow> u16" where
  "endpoint_port env profile = (case ce_port env (pr_endpoint profile) of Some port \<Rightarrow> port | None \<Rightarrow> 5432)"

definition validate_connection_string_target :: "connect_env \<Rightarrow> ConnectionProfile \<Rightarrow> PgConfig \<Rightarrow> ConnectorError + unit" where
  "validate_connection_string_target env profile config =
     bind_res (ok_or (url_host (pr_endpoint profile)) (invalid ''PostgreSQL endpoint must include a host'')) (\<lambda>expected_host.
     bind_res (case pc_hosts config of
         [Host_Tcp host] \<Rightarrow>
           if same_host host expected_host then Inr ()
           else Inl (invalid ''PostgreSQL connection string host does not match the profile endpoint'')
       | _ \<Rightarrow> Inl (invalid
           ''PostgreSQL connection string must contain exactly one TCP host matching the profile endpoint'')) (\<lambda>_.
     bind_res (if pc_hostaddrs config \<noteq> [] then Inl (invalid
         ''PostgreSQL connection string hostaddr is not allowed because it can bypass the profile endpoint'')
       else Inr ()) (\<lambda>_.
     bind_res (case pc_ports config of
         [] \<Rightarrow> Inr 5432
       | [port] \<Rightarrow> Inr port
       | _ \<Rightarrow> Inl (invalid ''PostgreSQL connection string must contain at most one port'')) (\<lambda>port.
     if port \<noteq> endpoint_port env profile then
       Inl (invalid ''PostgreSQL connection string port does not match the profile endpoint'')
     else if pc_dbname config \<noteq> pr_database profile then
       Inl (invalid ''PostgreSQL connection string database does not match profile.database'')
     else Inr ()))))"

definition PgConfig_new :: PgConfig where
  "PgConfig_new = \<lparr>pc_hosts = [], pc_hostaddrs = [], pc_ports = [], pc_user = None, pc_password = None, pc_dbname = None,
     pc_application_name = None, pc_ssl_require = False, pc_connect_timeout = None\<rparr>"

definition build_config :: "connect_env \<Rightarrow> ConnectionProfile \<Rightarrow> SecretMaterial \<Rightarrow> ConnectorError + PgConfig" where
  "build_config env profile secret =
     bind_res
       (if sm_kind secret = Auth_ConnectionString then
          bind_res (required_secret secret ''connection_string'') (\<lambda>text.
          bind_res (ok_or (ce_parse_config env text) (invalid ''PostgreSQL connection string is invalid'')) (\<lambda>config.
          bind_res (validate_connection_string_target env profile config) (\<lambda>_. Inr config)))
        else if sm_kind secret = Auth_UsernamePassword \<or> sm_kind secret = Auth_ClientCertificate then
          bind_res (ok_or (url_host (pr_endpoint profile)) (invalid ''PostgreSQL endpoint must include a host'')) (\<lambda>host.
          bind_res (required_secret secret ''username'') (\<lambda>user.
          bind_res (if sm_kind secret = Auth_UsernamePassword then map_res Some (required_secret secret ''password'')
              else Inr None) (\<lambda>password.
          Inr (PgConfig_new\<lparr>pc_hosts := [Host_Tcp host], pc_ports := [endpoint_port env profile], pc_user := Some user,
            pc_password := password, pc_dbname := pr_database profile\<rparr>))))
        else Inl (unsupported
          ''PostgreSQL supports username/password, connection string, or client-certificate authentication''))
       (\<lambda>config. Inr (config\<lparr>pc_application_name := Some ''sql-connector'', pc_ssl_require := tls_enabled (pr_tls profile)\<rparr>))"

definition nonempty_field :: "SecretMaterial \<Rightarrow> string \<Rightarrow> string option" where
  "nonempty_field secret name =
     (case bt_get (sm_fields secret) name of Some value \<Rightarrow> if value = [] then None else Some value | None \<Rightarrow> None)"

fun find_map :: "('a \<Rightarrow> 'b option) \<Rightarrow> 'a list \<Rightarrow> 'b option" where
  "find_map f [] = None"
| "find_map f (x # xs) = (case f x of Some y \<Rightarrow> Some y | None \<Rightarrow> find_map f xs)"

definition tls_secret_value :: "SecretMaterial \<Rightarrow> string option \<Rightarrow> string list \<Rightarrow> string option" where
  "tls_secret_value secret reference fallbacks =
     (case Option.bind reference (nonempty_field secret) of
        Some value \<Rightarrow> Some value
      | None \<Rightarrow> find_map (nonempty_field secret) fallbacks)"

definition missing_tls_secret :: "string \<Rightarrow> ConnectorError" where
  "missing_tls_secret name =
     ConnectorError_new Cat_Authentication (''PostgreSQL TLS credential field '' @ name @ '' is required'')"

definition parse_certificates :: "connect_env \<Rightarrow> string \<Rightarrow> string \<Rightarrow> ConnectorError + string list" where
  "parse_certificates env what pem =
     bind_res (map_err (\<lambda>e. invalid (''could not parse PostgreSQL '' @ what @ '': '' @ e)) (ce_certs env pem)) (\<lambda>certificates.
       if certificates = [] then Inl (invalid (''PostgreSQL '' @ what @ '' credential contains no certificates''))
       else Inr certificates)"

definition build_tls_config :: "connect_env \<Rightarrow> ConnectionProfile \<Rightarrow> SecretMaterial \<Rightarrow> ConnectorError + PgTls" where
  "build_tls_config env profile secret =
     bind_res
       (case tls_ca_certificate_ref (pr_tls profile) of
          None \<Rightarrow> Inr []
        | Some reference \<Rightarrow>
            bind_res (ok_or (tls_secret_value secret (Some reference) [''ca_certificate_pem''])
                (missing_tls_secret ''the field referenced by tls.ca_certificate_ref or ca_certificate_pem'')) (\<lambda>ca_pem.
            bind_res (parse_certificates env ''CA certificate'' ca_pem) (\<lambda>certificates.
            bind_res (map_results (\<lambda>certificate. map_err (\<lambda>e. invalid (''invalid PostgreSQL CA certificate: '' @ e))
                (ce_add_root env certificate)) certificates) (\<lambda>_. Inr certificates)))) (\<lambda>ca.
     bind_res (map_err (\<lambda>e. invalid (''could not configure PostgreSQL TLS versions: '' @ e)) (ce_versions env)) (\<lambda>_.
       case tls_client_certificate_ref (pr_tls profile) of
         None \<Rightarrow> Inr \<lparr>pt_ca = ca, pt_client = None\<rparr>
       | Some reference \<Rightarrow>
           bind_res (ok_or (tls_secret_value secret (Some reference) [''client_certificate_pem''])
               (missing_tls_secret ''the field referenced by tls.client_certificate_ref or client_certificate_pem''))
             (\<lambda>certificate_pem.
           bind_res (ok_or (tls_secret_value secret None [''client_private_key_pem'', ''private_key_pem''])
               (missing_tls_secret ''client_private_key_pem or private_key_pem'')) (\<lambda>private_key_pem.
           bind_res (parse_certificates env ''client certificate'' certificate_pem) (\<lambda>certificates.
           bind_res (map_err (\<lambda>e. invalid (''could not parse PostgreSQL client key: '' @ e))
               (ce_private_key env private_key_pem)) (\<lambda>key.
           bind_res (ok_or key (invalid ''PostgreSQL private key credential contains no private key'')) (\<lambda>key.
           bind_res (map_err (\<lambda>e. invalid (''invalid PostgreSQL client identity: '' @ e))
               (ce_client_auth env certificates key)) (\<lambda>_.
           Inr \<lparr>pt_ca = ca, pt_client = Some (certificates, key)\<rparr>))))))))"

definition CONNECTION_POOL_SIZE :: nat where
  "CONNECTION_POOL_SIZE = 4"

definition build_pool :: "connect_env \<Rightarrow> ConnectionProfile \<Rightarrow> SecretMaterial \<Rightarrow> ConnectorError + PgPool" where
  "build_pool env profile secret =
     bind_res (build_config env profile secret) (\<lambda>config.
       let config = config\<lparr>pc_connect_timeout := Some (pol_timeout_ms (pr_policy profile))\<rparr> in
       bind_res (if tls_enabled (pr_tls profile) then map_res Some (build_tls_config env profile secret) else Inr None) (\<lambda>tls.
       bind_res (map_err (\<lambda>e. ConnectorError_new Cat_Internal (''could not create PostgreSQL connection pool: '' @ e))
           (ce_pool env config)) (\<lambda>_.
       Inr \<lparr>pp_config = config, pp_tls = tls, pp_max_size = CONNECTION_POOL_SIZE\<rparr>)))"

text \<open>What waiting for a connection of the pool gives.\<close>

datatype PoolError = Pool_Backend PgError | Pool_Timeout | Pool_Closed | Pool_NoRuntime | Pool_PostCreateHook

definition map_pg_pool_error :: "PoolError \<Rightarrow> ConnectorError" where
  "map_pg_pool_error e =
     (case e of
        Pool_Backend e \<Rightarrow> map_pg_error e False
      | Pool_Timeout \<Rightarrow> ConnectorError_new Cat_Timeout ''PostgreSQL connection timed out''
      | Pool_Closed \<Rightarrow> with_retryable True (ConnectorError_new Cat_Unavailable ''PostgreSQL connection pool is unavailable'')
      | _ \<Rightarrow> ConnectorError_new Cat_Internal ''PostgreSQL connection pool failed'')"

text \<open>\<open>connect\<close>: \<open>None\<close> when the wait ran into the timeout.\<close>

definition connect_from ::
  "(ConnectionCacheIdentity \<Rightarrow> 'd option) \<Rightarrow> connect_env \<Rightarrow> ConnectionProfile \<Rightarrow> SecretMaterial
     \<Rightarrow> (PgPool \<Rightarrow> (PoolError + unit) option) \<Rightarrow> ('d, PgPool) pools \<Rightarrow> (ConnectorError + PgPool) \<times> ('d, PgPool) pools" where
  "connect_from digest env profile secret wait pools =
     (case pool_for digest (build_pool env) profile secret pools of
        (Inl e, pools) \<Rightarrow> (Inl e, pools)
      | (Inr pool, pools) \<Rightarrow>
          (case wait pool of
             None \<Rightarrow> Inl (ConnectorError_new Cat_Timeout ''PostgreSQL connection timed out'')
           | Some (Inl e) \<Rightarrow> Inl (map_pg_pool_error e)
           | Some (Inr _) \<Rightarrow> Inr pool, pools))"

definition flavor_manifest :: "PostgresFlavor \<Rightarrow> ConnectorManifest" where
  "flavor_manifest flavor =
     (let (mid, display_name, product, api_mode, limitations) =
        (case flavor of
           Flavor_PostgreSql \<Rightarrow> (''postgresql-pgwire'', ''PostgreSQL'', PostgreSql, ''postgresql'',
             [''native SQL must be one SELECT/WITH or one INSERT/UPDATE/DELETE statement without a semicolon'',
              ''structured update/delete use PostgreSQL ctid to enforce max_affected''])
         | Flavor_CockroachDb \<Rightarrow> (''cockroachdb-pgwire'', ''CockroachDB'', CockroachDb, ''postgresql'',
             [''uses CockroachDB'' @ [CHR 39] @ ''s PostgreSQL wire compatibility; PostgreSQL-only SQL is not implied'',
              ''structured update/delete use a transaction and roll back when the affected count exceeds max_affected''])
         | Flavor_YugabyteYsql \<Rightarrow> (''yugabytedb-ysql'', ''YugabyteDB YSQL'', YugabyteDb, ''ysql'',
             [''uses YugabyteDB YSQL'' @ [CHR 39] @ ''s PostgreSQL wire compatibility; YCQL is a separate connector'',
              ''structured update/delete use a transaction and roll back when the affected count exceeds max_affected''])) in
      \<lparr>mf_id = mid, mf_display_name = display_name, mf_product = product, mf_api_mode = api_mode,
       mf_driver = ''tokio-postgres'', mf_driver_version = ''0.7.15'', mf_status = Experimental,
       mf_capabilities = [Cap_TestConnection, Cap_Discover, Cap_Describe, Cap_Read, Cap_Insert,
         Cap_Update, Cap_Delete, Cap_NativeQuery, Cap_NativeExecute],
       mf_auth_kinds = [Auth_UsernamePassword, Auth_ConnectionString, Auth_ClientCertificate],
       mf_limitations = limitations\<rparr>)"

text \<open>\<open>validate_connection_input\<close> of the adapter; \<open>None\<close> would be a panic of \<open>into_descriptor\<close>.\<close>

definition pg_validate_connection_input ::
  "(json \<Rightarrow> string) \<Rightarrow> connect_env \<Rightarrow> PostgresFlavor \<Rightarrow> ConnectionProfile \<Rightarrow> SecretMaterial
     \<Rightarrow> (ConnectorError + unit) option" where
  "pg_validate_connection_input to_str env flavor profile secret =
     map_option (\<lambda>descriptor.
       bind_res (validate_connection_input to_str descriptor profile secret) (\<lambda>_.
       bind_res (pg_validate_profile flavor profile) (\<lambda>_.
       bind_res (validate_auth profile secret) (\<lambda>_.
       bind_res (build_config env profile secret) (\<lambda>_.
       if tls_enabled (pr_tls profile) then map_res (\<lambda>_. ()) (build_tls_config env profile secret) else Inr ())))))
       (into_descriptor (flavor_manifest flavor))"

lemma flavor_manifest_describable: "into_descriptor (flavor_manifest flavor) \<noteq> None"
  by (cases flavor; simp only:; code_simp)

section \<open>Where connections go\<close>

definition effective_port :: "PgConfig \<Rightarrow> u16" where
  "effective_port config = (case pc_ports config of [] \<Rightarrow> 5432 | port # _ \<Rightarrow> port)"

definition points_at :: "connect_env \<Rightarrow> ConnectionProfile \<Rightarrow> PgConfig \<Rightarrow> bool" where
  "points_at env profile config \<longleftrightarrow>
     (\<exists>host expected. pc_hosts config = [Host_Tcp host] \<and> url_host (pr_endpoint profile) = Some expected \<and> same_host host expected) \<and>
     effective_port config = endpoint_port env profile \<and> length (pc_ports config) \<le> 1 \<and>
     pc_dbname config = pr_database profile"

lemma connection_string_target:
  assumes "validate_connection_string_target env profile config = Inr ()"
  shows "points_at env profile config \<and> pc_hostaddrs config = []"
proof -
  obtain expected where expected: "url_host (pr_endpoint profile) = Some expected"
    using assms by (auto simp: validate_connection_string_target_def res_simps)
  obtain host where host: "pc_hosts config = [Host_Tcp host]" "same_host host expected"
    using assms expected
    by (cases "pc_hosts config"; cases "hd (pc_hosts config)"; cases "tl (pc_hosts config)")
      (auto simp: validate_connection_string_target_def split: if_splits)
  show ?thesis
  proof (cases "pc_ports config")
    case Nil
    then show ?thesis using assms expected host
      by (auto simp: validate_connection_string_target_def points_at_def effective_port_def split: if_splits)
  next
    case (Cons port ports)
    then show ?thesis using assms expected host
      by (cases ports) (auto simp: validate_connection_string_target_def points_at_def effective_port_def split: if_splits)
  qed
qed

lemma same_host_refl: "same_host h h"
  by (simp add: same_host_def eq_ignore_ascii_case_def)

lemma build_config_target:
  assumes "build_config env profile secret = Inr config"
  shows "points_at env profile config \<and> pc_hostaddrs config = [] \<and> pc_ssl_require config = tls_enabled (pr_tls profile)"
  using assms connection_string_target [of env profile]
  by (auto simp: build_config_def points_at_def effective_port_def PgConfig_new_def same_host_refl res_simps split: if_splits)

lemma build_config_identity:
  assumes "cache_identity profile secret = cache_identity profile' secret'"
  shows "build_config env profile secret = build_config env profile' secret'"
    and "build_tls_config env profile secret = build_tls_config env profile' secret'"
    and "build_pool env profile secret = build_pool env profile' secret'"
proof -
  have same: "pr_endpoint profile = pr_endpoint profile'" "pr_database profile = pr_database profile'"
    "pr_tls profile = pr_tls profile'" "secret = secret'"
    "pol_timeout_ms (pr_policy profile) = pol_timeout_ms (pr_policy profile')"
    using assms by (simp_all add: cache_identity_def)
  show config: "build_config env profile secret = build_config env profile' secret'"
    unfolding build_config_def validate_connection_string_target_def endpoint_port_def same ..
  show tls: "build_tls_config env profile secret = build_tls_config env profile' secret'"
    unfolding build_tls_config_def same ..
  show "build_pool env profile secret = build_pool env profile' secret'"
    unfolding build_pool_def same config [unfolded same(4)] tls [unfolded same(4)] ..
qed

interpretation pg_pools: pool_builder "build_pool env" for env
  by unfold_locales (rule build_config_identity(3))


definition sample_connect_env :: connect_env where
  "sample_connect_env = \<lparr>ce_port = (\<lambda>_. Some 5432),
     ce_parse_config = (\<lambda>text. Some (PgConfig_new\<lparr>pc_hosts := [Host_Tcp text], pc_dbname := pr_database pg_profile\<rparr>)),
     ce_certs = (\<lambda>pem. Inr [pem]), ce_add_root = (\<lambda>_. Inr ()), ce_versions = Inr (), ce_private_key = (\<lambda>pem. Inr (Some pem)),
     ce_client_auth = (\<lambda>_ _. Inr ()), ce_pool = (\<lambda>_. Inr ())\<rparr>"

lemma sample_collision_free: "collision_free Some"
  by (simp add: collision_free_def)


end
