(* ===== verification/Paging.thy ===== *)
theory Paging
  imports Programs
begin

text \<open>
  Results that come in pages: what a client gets that passes the cursor of each page to the next
  request. An adapter promises where a page starts and that one with a cursor is not empty.
\<close>

text \<open>A program run against a server that answers each call on its own.\<close>

primrec perform :: "('q \<Rightarrow> 'p) \<Rightarrow> ('q, 'p, 'r) Prog \<Rightarrow> 'r option" where
  "perform answer (Return r) = Some r"
| "perform answer Panic = None"
| "perform answer (Do call k) = perform answer (k (answer call))"

lemma perform_path: "perform answer p = Some r \<Longrightarrow> \<exists>es. path p es (Return r) \<and> list_all (\<lambda>(call, reply). reply = answer call) es"
proof (induction p)
  case (Do call k)
  then obtain es where "path (k (answer call)) es (Return r)" "list_all (\<lambda>(call, reply). reply = answer call) es"
    by auto
  then have "path (Do call k) ((call, answer call) # es) (Return r)"
    "list_all (\<lambda>(call, reply). reply = answer call) ((call, answer call) # es)" by (auto intro: path_cons)
  then show ?case by metis
qed (auto intro: path_nil exI [of _ "[]"])

text \<open>
  All pages from a cursor on. A page is an error, or rows and the next cursor; \<open>None\<close> is a client that
  never comes to an end.
\<close>

partial_function (option) follow ::
  "('c option \<Rightarrow> 'e + 'a list \<times> 'c option) \<Rightarrow> 'c option \<Rightarrow> ('e + 'a list) option" where
  "follow page cursor =
     (case page cursor of
        Inl e \<Rightarrow> Some (Inl e)
      | Inr (rows, next) \<Rightarrow>
          (case next of
             None \<Rightarrow> Some (Inr rows)
           | Some c \<Rightarrow> Option.bind (follow page (Some c)) (\<lambda>rest. Some (map_res ((@) rows) rest))))"

text \<open>
  What \<open>page\<close> promises for the requests that are \<open>valid\<close>: \<open>starts e k cursor\<close> says
  that the cursor stands before row \<open>k\<close> of \<open>rows e\<close>.
\<close>

locale pager =
  fixes valid :: "'e \<Rightarrow> bool"
    and rows :: "'e \<Rightarrow> 'a list"
    and starts :: "'e \<Rightarrow> nat \<Rightarrow> 'c option \<Rightarrow> bool"
    and page :: "'e \<Rightarrow> 'c option \<Rightarrow> 'x + 'a list \<times> 'c option"
  assumes first_page: "valid e \<Longrightarrow> starts e 0 None"
    and page_rows: "valid e \<Longrightarrow> starts e k cursor \<Longrightarrow> k \<le> length (rows e) \<Longrightarrow>
      \<exists>n. k + n \<le> length (rows e) \<and>
        (if k + n = length (rows e) then page e cursor = Inr (drop k (rows e), None)
         else 0 < n \<and> (\<exists>c. page e cursor = Inr (take n (drop k (rows e)), Some c) \<and> starts e (k + n) (Some c)))"
begin

lemma follow_from:
  assumes "valid e" "starts e k cursor" "k \<le> length (rows e)"
  shows "follow (page e) cursor = Some (Inr (drop k (rows e)))"
  using assms(2,3)
proof (induction "length (rows e) - k" arbitrary: k cursor rule: less_induct)
  case less
  obtain n where n: "k + n \<le> length (rows e)"
    "if k + n = length (rows e) then page e cursor = Inr (drop k (rows e), None)
     else 0 < n \<and> (\<exists>c. page e cursor = Inr (take n (drop k (rows e)), Some c) \<and> starts e (k + n) (Some c))"
    using page_rows [OF assms(1) less.prems] by blast
  show ?case
  proof (cases "k + n = length (rows e)")
    case True
    then show ?thesis using n(2) by (subst follow.simps) simp
  next
    case False
    then obtain c where c: "0 < n" "page e cursor = Inr (take n (drop k (rows e)), Some c)" "starts e (k + n) (Some c)"
      using n(2) by auto
    have "follow (page e) (Some c) = Some (Inr (drop (k + n) (rows e)))"
      using less.hyps [of "k + n" "Some c"] c n(1) False by simp
    moreover have "take n (drop k (rows e)) @ drop (k + n) (rows e) = drop k (rows e)"
      by (metis add.commute append_take_drop_id drop_drop)
    ultimately show ?thesis using c(2) by (subst follow.simps) simp
  qed
qed

lemma follow_all: "valid e \<Longrightarrow> follow (page e) None = Some (Inr (rows e))"
  using follow_from [OF _ first_page] by simp

end

end
