(* ===== verification/Postgres_Catalog.thy ===== *)
theory Postgres_Catalog
  imports Postgres Paging
begin

text \<open>
  The metadata requests of the PostgreSQL adapter (\<open>crates/connectors-sql/src/postgres.rs\<close>): the connection test,
  the search of the catalog and the description of a table, with the assembly of its keys and
  indexes (\<open>relational_metadata.rs\<close>). Each query of the catalog is a call of its own; the rows it answers
  are the columns the adapter reads.
\<close>

section \<open>Relational metadata (relational\_metadata.rs)\<close>

record NamedColumns =
  nc_name :: string
  nc_columns :: "string list"

record ForeignKeyMetadata =
  fk_name :: string
  fk_columns :: "string list"
  fk_referenced_entity :: string
  fk_referenced_columns :: "string list"

record IndexMetadata =
  ix_name :: string
  ix_columns :: "string list"
  ix_unique :: bool

record RelationalMetadata =
  rmd_primary_key :: "NamedColumns option"
  rmd_foreign_keys :: "ForeignKeyMetadata list"
  rmd_unique_constraints :: "NamedColumns list"
  rmd_indexes :: "IndexMetadata list"

text \<open>\<open>DbRecord::from\<close> of an array of entries.\<close>

definition record_of :: "(string \<times> DbValue) list \<Rightarrow> DbRecord" where
  "record_of entries = foldl (\<lambda>m (k, v). bt_insert k v m) [] entries"

definition string_array :: "string list \<Rightarrow> DbValue" where
  "string_array values = DbArray (map DbString values)"

definition named_columns_value :: "NamedColumns \<Rightarrow> DbValue" where
  "named_columns_value key =
     DbDocument (record_of [(''name'', DbString (nc_name key)), (''columns'', string_array (nc_columns key))])"

definition foreign_key_value :: "ForeignKeyMetadata \<Rightarrow> DbValue" where
  "foreign_key_value key =
     DbDocument (record_of [(''name'', DbString (fk_name key)), (''columns'', string_array (fk_columns key)),
       (''referenced_entity'', DbString (fk_referenced_entity key)),
       (''referenced_columns'', string_array (fk_referenced_columns key))])"

definition index_value :: "IndexMetadata \<Rightarrow> DbValue" where
  "index_value index =
     DbDocument (record_of [(''name'', DbString (ix_name index)), (''columns'', string_array (ix_columns index)),
       (''unique'', DbBool (ix_unique index))])"

definition into_record :: "RelationalMetadata \<Rightarrow> DbRecord" where
  "into_record m =
     record_of [(''primary_key'', case rmd_primary_key m of None \<Rightarrow> DbNull | Some key \<Rightarrow> named_columns_value key),
       (''foreign_keys'', DbArray (map foreign_key_value (rmd_foreign_keys m))),
       (''unique_constraints'', DbArray (map named_columns_value (rmd_unique_constraints m))),
       (''indexes'', DbArray (map index_value (rmd_indexes m)))]"

section \<open>Assembly from the rows of the catalog\<close>

text \<open>Ordinals are \<open>i64\<close>.\<close>

record PostgresConstraintColumn =
  pcc_constraint_type :: string
  pcc_name :: string
  pcc_column :: string
  pcc_ordinal :: "64 word"

record PostgresForeignKeyColumn =
  pfk_name :: string
  pfk_column :: string
  pfk_ordinal :: "64 word"
  pfk_referenced_schema :: string
  pfk_referenced_table :: string
  pfk_referenced_column :: string

record PostgresIndexColumn =
  pix_name :: string
  pix_column :: string
  pix_unique :: bool
  pix_ordinal :: "64 word"

text \<open>\<open>entry(k).or_insert_with(d)\<close>, updated in place.\<close>

definition bt_entry :: "'k::linorder \<Rightarrow> 'v \<Rightarrow> ('v \<Rightarrow> 'v) \<Rightarrow> ('k, 'v) btree \<Rightarrow> ('k, 'v) btree" where
  "bt_entry k d f m = bt_insert k (f (case bt_get m k of Some v \<Rightarrow> v | None \<Rightarrow> d)) m"

definition ordered_names :: "(64 word \<times> string) list \<Rightarrow> string list" where
  "ordered_names columns = map snd (sort_key (\<lambda>c. sint (fst c)) columns)"

definition group_constraints ::
  "PostgresConstraintColumn list \<Rightarrow> (string, (64 word \<times> string) list) btree \<times> (string, (64 word \<times> string) list) btree" where
  "group_constraints constraints =
     foldl (\<lambda>(primary_keys, unique_constraints) column.
       let push = bt_entry (pcc_name column) [] (\<lambda>v. v @ [(pcc_ordinal column, pcc_column column)]) in
       if pcc_constraint_type column = ''PRIMARY KEY'' then (push primary_keys, unique_constraints)
       else (primary_keys, push unique_constraints)) ([], []) constraints"

definition group_foreign_keys ::
  "PostgresForeignKeyColumn list \<Rightarrow> (string, string \<times> (64 word \<times> string \<times> string) list) btree" where
  "group_foreign_keys foreign_keys =
     foldl (\<lambda>m column.
       bt_entry (pfk_name column) (pfk_referenced_schema column @ ''.'' @ pfk_referenced_table column, [])
         (\<lambda>(entity, v). (entity, v @ [(pfk_ordinal column, pfk_column column, pfk_referenced_column column)])) m)
       [] foreign_keys"

definition group_indexes :: "PostgresIndexColumn list \<Rightarrow> (string, bool \<times> (64 word \<times> string) list) btree" where
  "group_indexes indexes =
     foldl (\<lambda>m column.
       bt_entry (pix_name column) (pix_unique column, [])
         (\<lambda>(unique, v). (unique, v @ [(pix_ordinal column, pix_column column)])) m) [] indexes"

definition assemble_postgres_metadata ::
  "PostgresConstraintColumn list \<Rightarrow> PostgresForeignKeyColumn list \<Rightarrow> PostgresIndexColumn list \<Rightarrow> RelationalMetadata" where
  "assemble_postgres_metadata constraints foreign_keys indexes =
     (let (primary_keys, unique_constraints) = group_constraints constraints;
          named = (\<lambda>(name, columns). \<lparr>nc_name = name, nc_columns = ordered_names columns\<rparr>) in
      \<lparr>rmd_primary_key = (case primary_keys of [] \<Rightarrow> None | key # _ \<Rightarrow> Some (named key)),
       rmd_foreign_keys = map (\<lambda>(name, entity, columns).
           let columns = sort_key (\<lambda>(ordinal, _). sint ordinal) columns in
           \<lparr>fk_name = name, fk_columns = map (\<lambda>(_, column, _). column) columns, fk_referenced_entity = entity,
            fk_referenced_columns = map (\<lambda>(_, _, referenced). referenced) columns\<rparr>) (group_foreign_keys foreign_keys),
       rmd_unique_constraints = map named unique_constraints,
       rmd_indexes = map (\<lambda>(name, unique, columns).
           \<lparr>ix_name = name, ix_columns = ordered_names columns, ix_unique = unique\<rparr>) (group_indexes indexes)\<rparr>)"

section \<open>Requests\<close>

record PgColumnRow =
  col_name :: string
  col_data_type :: string
  col_is_nullable :: string
  col_ordinal :: "64 word"
  col_comment :: "string option"
  col_table_comment :: "string option"
  col_table_type :: string

datatype MetaCall =
    Meta_Connect int
  | Meta_Version
  | Meta_Tables "string option" "string option" "64 word" "64 word"
  | Meta_Columns string string
  | Meta_Constraints string string
  | Meta_ForeignKeys string string
  | Meta_Indexes string string

datatype MetaReply =
    Mr_Connected "ConnectorError + unit"
  | Mr_Version "PgError + string"
  | Mr_Tables "PgError + (string \<times> string \<times> string) list"
  | Mr_Columns "PgError + PgColumnRow list"
  | Mr_Constraints "PgError + PostgresConstraintColumn list"
  | Mr_ForeignKeys "PgError + PostgresForeignKeyColumn list"
  | Mr_Indexes "PgError + PostgresIndexColumn list"

type_synonym 'a MetaProgram = "(MetaCall, MetaReply, ConnectorError + 'a) Prog"

fun mr_connected :: "MetaReply \<Rightarrow> ConnectorError + unit" where
  "mr_connected (Mr_Connected x) = x"
| "mr_connected _ = Inr ()"

fun mr_version :: "MetaReply \<Rightarrow> PgError + string" where
  "mr_version (Mr_Version x) = x"
| "mr_version _ = Inr []"

fun mr_tables :: "MetaReply \<Rightarrow> PgError + (string \<times> string \<times> string) list" where
  "mr_tables (Mr_Tables x) = x"
| "mr_tables _ = Inr []"

fun mr_columns :: "MetaReply \<Rightarrow> PgError + PgColumnRow list" where
  "mr_columns (Mr_Columns x) = x"
| "mr_columns _ = Inr []"

fun mr_constraints :: "MetaReply \<Rightarrow> PgError + PostgresConstraintColumn list" where
  "mr_constraints (Mr_Constraints x) = x"
| "mr_constraints _ = Inr []"

fun mr_foreign_keys :: "MetaReply \<Rightarrow> PgError + PostgresForeignKeyColumn list" where
  "mr_foreign_keys (Mr_ForeignKeys x) = x"
| "mr_foreign_keys _ = Inr []"

fun mr_indexes :: "MetaReply \<Rightarrow> PgError + PostgresIndexColumn list" where
  "mr_indexes (Mr_Indexes x) = x"
| "mr_indexes _ = Inr []"

text \<open>The checks and the connection that every request starts with, and a query with its error.\<close>

definition meta_connect ::
  "Instant \<Rightarrow> PostgresFlavor \<Rightarrow> ConnectorContext \<Rightarrow> ConnectionProfile \<Rightarrow> 'a MetaProgram \<Rightarrow> 'a MetaProgram" where
  "meta_connect now flavor cx profile k =
     (case effective_timeout now cx profile None of
        Inl e \<Rightarrow> Return (Inl e)
      | Inr timeout \<Rightarrow> Do (Meta_Connect timeout) (\<lambda>r.
          case mr_connected r of Inl e \<Rightarrow> Return (Inl e) | Inr _ \<Rightarrow> k))"

definition meta_query :: "MetaCall \<Rightarrow> (MetaReply \<Rightarrow> PgError + 'r) \<Rightarrow> ('r \<Rightarrow> 'a MetaProgram) \<Rightarrow> 'a MetaProgram" where
  "meta_query call reply k =
     Do call (\<lambda>r. case reply r of Inl e \<Rightarrow> Return (Inl (map_pg_error e False)) | Inr rows \<Rightarrow> k rows)"

definition pg_test_connection ::
  "Instant \<Rightarrow> PostgresFlavor \<Rightarrow> ConnectorContext \<Rightarrow> ConnectionProfile \<Rightarrow> SecretMaterial \<Rightarrow> ConnectionInfo MetaProgram" where
  "pg_test_connection now flavor cx profile secret =
     (case pg_execute_checks flavor profile secret of
        Inl e \<Rightarrow> Return (Inl e)
      | Inr _ \<Rightarrow> meta_connect now flavor cx profile (meta_query Meta_Version mr_version (\<lambda>version.
          Return (map_res (\<lambda>_. \<lparr>ci_product_name = flavor_name flavor, ci_product_version = Some version,
            ci_api_mode = flavor_api_mode flavor, ci_server_identity = None, ci_warnings = []\<rparr>)
            (verify_server_flavor flavor version)))))"

definition table_entity :: "string \<times> string \<times> string \<Rightarrow> CatalogEntity" where
  "table_entity row =
     (case row of (namespace, name, kind) \<Rightarrow>
      \<lparr>cat_id = namespace @ ''.'' @ name, cat_namespace = Some namespace, cat_name = name,
       cat_kind = to_ascii_lowercase kind, cat_comment = None\<rparr>)"

definition pg_search_catalog ::
  "cursor_env \<Rightarrow> Instant \<Rightarrow> PostgresFlavor \<Rightarrow> ConnectorContext \<Rightarrow> ConnectionProfile \<Rightarrow> SecretMaterial \<Rightarrow> CatalogQuery
     \<Rightarrow> CatalogEntity list MetaProgram" where
  "pg_search_catalog env now flavor cx profile secret q =
     (case pg_execute_checks flavor profile secret of
        Inl e \<Rightarrow> Return (Inl e)
      | Inr _ \<Rightarrow>
          if cq_limit q = 0 then Return (Inl (invalid ''catalog limit must be greater than zero''))
          else meta_connect now flavor cx profile
            (let limit = min (min (cq_limit q) (cx_max_rows cx)) (pol_max_rows (pr_policy profile));
                 pattern = map_option (\<lambda>value. ''%'' @ value @ ''%'') (cq_pattern q) in
             case bind_res (decode_offset env (cq_cursor q)) (\<lambda>offset.
                 if uint offset < 2 ^ 63 then Inr offset else Inl (invalid ''catalog cursor offset is too large'')) of
               Inl e \<Rightarrow> Return (Inl e)
             | Inr offset \<Rightarrow> meta_query (Meta_Tables (cq_namespace q) pattern (ucast limit) offset) mr_tables (\<lambda>rows.
                 Return (Inr (map table_entity rows)))))"

definition pg_search_catalog_page ::
  "cursor_env \<Rightarrow> Instant \<Rightarrow> PostgresFlavor \<Rightarrow> ConnectorContext \<Rightarrow> ConnectionProfile \<Rightarrow> SecretMaterial \<Rightarrow> CatalogQuery
     \<Rightarrow> CatalogPage MetaProgram" where
  "pg_search_catalog_page env now flavor cx profile secret q =
     (case catalog_fetch_inputs cx profile q of
        Inl e \<Rightarrow> Return (Inl e)
      | Inr (fetch_cx, fetch_profile, fetch_query) \<Rightarrow>
          map_return (\<lambda>r. bind_res r (catalog_page env cx profile q))
            (pg_search_catalog env now flavor fetch_cx fetch_profile secret fetch_query))"

definition column_record :: "PgColumnRow \<Rightarrow> DbRecord" where
  "column_record row =
     record_of [(''name'', DbString (col_name row)), (''type'', DbString (col_data_type row)),
       (''nullable'', DbBool (col_is_nullable row = ''YES'')), (''ordinal'', DbInt64 (col_ordinal row)),
       (''comment'', case col_comment row of None \<Rightarrow> DbNull | Some comment \<Rightarrow> DbString comment)]"

definition pg_describe_entity ::
  "Instant \<Rightarrow> PostgresFlavor \<Rightarrow> ConnectorContext \<Rightarrow> ConnectionProfile \<Rightarrow> SecretMaterial \<Rightarrow> string
     \<Rightarrow> EntityDescription MetaProgram" where
  "pg_describe_entity now flavor cx profile secret entity_id =
     (case bind_res (pg_execute_checks flavor profile secret) (\<lambda>_. split_pg_entity entity_id) of
        Inl e \<Rightarrow> Return (Inl e)
      | Inr (schema, table) \<Rightarrow> meta_connect now flavor cx profile
          (meta_query (Meta_Columns schema table) mr_columns (\<lambda>rows.
             case rows of
               [] \<Rightarrow> Return (Inl (ConnectorError_new Cat_NotFound ''SQL entity was not found''))
             | first # _ \<Rightarrow>
                 meta_query (Meta_Constraints schema table) mr_constraints (\<lambda>constraints.
                 meta_query (Meta_ForeignKeys schema table) mr_foreign_keys (\<lambda>foreign_keys.
                 meta_query (Meta_Indexes schema table) mr_indexes (\<lambda>indexes.
                 Return (Inr
                   \<lparr>ed_entity = \<lparr>cat_id = schema @ ''.'' @ table, cat_namespace = Some schema, cat_name = table,
                      cat_kind = to_ascii_lowercase (col_table_type first), cat_comment = col_table_comment first\<rparr>,
                    ed_fields = map column_record rows,
                    ed_metadata = into_record (assemble_postgres_metadata constraints foreign_keys indexes),
                    ed_truncated = False, ed_warnings = []\<rparr>)))))))"

section \<open>The keys of a table\<close>

lemma insort_key_map: "insort_key f (g x) (map g xs) = map g (insort_key (\<lambda>x. f (g x)) x xs)"
  by (induction xs) simp_all

lemma sort_key_map: "sort_key f (map g xs) = map g (sort_key (\<lambda>x. f (g x)) xs)"
  by (induction xs) (simp_all add: insort_key_map)

lemma bt_entry_get:
  "bt_get (bt_entry k d f m) k' = (if k' = k then Some (f (case bt_get m k of Some v \<Rightarrow> v | None \<Rightarrow> d)) else bt_get m k')"
  by (simp add: bt_entry_def bt_get_insert)

lemma bt_entry_wf: "bt_wf m \<Longrightarrow> bt_wf (bt_entry k d f m)"
  by (simp add: bt_entry_def bt_wf_insert)

lemma bt_wf_get: "bt_wf m \<Longrightarrow> (k, v) \<in> set m \<longleftrightarrow> bt_get m k = Some v"
  by (auto simp: bt_wf_def bt_get_def strict_sorted_iff intro: map_of_SomeD)

text \<open>
  Rows grouped under their name: each row pushes itself onto the entry of its name, and an entry has the \<open>shape\<close> of
  the rows with that name, in the order they come.
\<close>

locale row_groups =
  fixes grp :: "'x list \<Rightarrow> ('k::linorder, 'g) btree"
    and name :: "'x \<Rightarrow> 'k"
    and start :: "'x \<Rightarrow> 'g"
    and push :: "'x \<Rightarrow> 'g \<Rightarrow> 'g"
    and shape :: "'x list \<Rightarrow> 'g"
  assumes grp_snoc: "grp (xs @ [x]) = bt_entry (name x) (start x) (push x) (grp xs)"
    and grp_Nil: "grp [] = []"
    and push_start: "push x (start x) = shape [x]"
    and push_shape: "xs \<noteq> [] \<Longrightarrow> push x (shape xs) = shape (xs @ [x])"
begin

lemma groups_wf: "bt_wf (grp xs)"
  by (induction xs rule: rev_induct) (simp_all add: grp_snoc grp_Nil bt_entry_wf)

lemma groups_get:
  "bt_get (grp xs) k = (if filter (\<lambda>x. name x = k) xs = [] then None else Some (shape (filter (\<lambda>x. name x = k) xs)))"
proof (induction xs rule: rev_induct)
  case (snoc x xs)
  then show ?case
    using push_start [of x] push_shape [of "filter (\<lambda>y. name y = k) xs" x] by (auto simp: grp_snoc bt_entry_get split: if_splits)
qed (simp add: grp_Nil)

lemma groups_entry:
  "(k, v) \<in> set (grp xs) \<Longrightarrow> filter (\<lambda>x. name x = k) xs \<noteq> [] \<and> v = shape (filter (\<lambda>x. name x = k) xs)"
  unfolding bt_wf_get [OF groups_wf] groups_get by (auto split: if_splits)

lemma groups_names: "sorted_wrt (<) (map fst (grp xs))" "set (map fst (grp xs)) = name ` set xs"
proof -
  show "sorted_wrt (<) (map fst (grp xs))" using groups_wf by (simp add: bt_wf_def)
  have "k \<in> fst ` set (grp xs) \<longleftrightarrow> (\<exists>v. bt_get (grp xs) k = Some v)" for k
    unfolding bt_wf_get [OF groups_wf, symmetric] by force
  then have "k \<in> fst ` set (grp xs) \<longleftrightarrow> k \<in> name ` set xs" for k
    by (auto simp: groups_get filter_empty_conv image_iff)
  then show "set (map fst (grp xs)) = name ` set xs" by auto
qed

text \<open>The groups in closed form: the names in order, each with the shape of its rows.\<close>

lemma groups_closed: "grp xs = map (\<lambda>k. (k, shape (filter (\<lambda>x. name x = k) xs))) (sorted_list_of_set (name ` set xs))"
proof -
  have "sorted_wrt (<) (sorted_list_of_set (name ` set xs))" "set (sorted_list_of_set (name ` set xs)) = name ` set xs"
    by simp_all
  then have names: "map fst (grp xs) = sorted_list_of_set (name ` set xs)"
    using groups_names by (intro strict_sorted_equal) simp_all
  have "grp xs = map (\<lambda>k. (k, shape (filter (\<lambda>x. name x = k) xs))) (map fst (grp xs))"
    using groups_entry [of _ _ xs] by (intro nth_equalityI) (auto simp: prod_eq_iff in_set_conv_nth)
  then show ?thesis unfolding names .
qed

end

text \<open>The constraints of one kind.\<close>

definition group_names :: "PostgresConstraintColumn list \<Rightarrow> (string, (64 word \<times> string) list) btree" where
  "group_names rows =
     foldl (\<lambda>m column. bt_entry (pcc_name column) [] (\<lambda>v. v @ [(pcc_ordinal column, pcc_column column)]) m) [] rows"

definition is_primary :: "PostgresConstraintColumn \<Rightarrow> bool" where
  "is_primary row \<longleftrightarrow> pcc_constraint_type row = ''PRIMARY KEY''"

lemma group_constraints_split:
  "group_constraints rows = (group_names (filter is_primary rows), group_names (filter (\<lambda>r. \<not> is_primary r) rows))"
  by (induction rows rule: rev_induct) (simp_all add: group_constraints_def group_names_def is_primary_def Let_def)

interpretation named: row_groups group_names pcc_name "\<lambda>_. []" "\<lambda>r v. v @ [(pcc_ordinal r, pcc_column r)]"
  "map (\<lambda>r. (pcc_ordinal r, pcc_column r))"
  by unfold_locales (simp_all add: group_names_def)

interpretation fks: row_groups group_foreign_keys pfk_name
  "\<lambda>r. (pfk_referenced_schema r @ ''.'' @ pfk_referenced_table r, [])"
  "\<lambda>r (entity, v). (entity, v @ [(pfk_ordinal r, pfk_column r, pfk_referenced_column r)])"
  "\<lambda>rows. (pfk_referenced_schema (hd rows) @ ''.'' @ pfk_referenced_table (hd rows),
     map (\<lambda>r. (pfk_ordinal r, pfk_column r, pfk_referenced_column r)) rows)"
  by unfold_locales (simp_all add: group_foreign_keys_def)

interpretation ixs: row_groups group_indexes pix_name "\<lambda>r. (pix_unique r, [])"
  "\<lambda>r (unique, v). (unique, v @ [(pix_ordinal r, pix_column r)])"
  "\<lambda>rows. (pix_unique (hd rows), map (\<lambda>r. (pix_ordinal r, pix_column r)) rows)"
  by unfold_locales (simp_all add: group_indexes_def)

text \<open>The rows with a name, by ordinal.\<close>

definition rows_of :: "('x \<Rightarrow> string) \<Rightarrow> ('x \<Rightarrow> 64 word) \<Rightarrow> 'x list \<Rightarrow> string \<Rightarrow> 'x list" where
  "rows_of name ordinal rows k = sort_key (\<lambda>r. sint (ordinal r)) (filter (\<lambda>r. name r = k) rows)"

lemma ordered_columns:
  "ordered_names (map (\<lambda>r. (ordinal r, column r)) (filter (\<lambda>r. name r = k) rows)) = map column (rows_of name ordinal rows k)"
  by (simp add: ordered_names_def rows_of_def sort_key_map)

definition named_key :: "string \<times> (64 word \<times> string) list \<Rightarrow> NamedColumns" where
  "named_key = (\<lambda>(name, columns). \<lparr>nc_name = name, nc_columns = ordered_names columns\<rparr>)"

text \<open>Named columns as the catalog has them.\<close>

definition keys_described :: "PostgresConstraintColumn list \<Rightarrow> NamedColumns list \<Rightarrow> bool" where
  "keys_described rows keys \<longleftrightarrow>
     sorted_wrt (<) (map nc_name keys) \<and> set (map nc_name keys) = pcc_name ` set rows \<and>
     (\<forall>key \<in> set keys. nc_columns key = map pcc_column (rows_of pcc_name pcc_ordinal rows (nc_name key)))"

lemma named_keys_described: "keys_described rows (map named_key (group_names rows))"
proof -
  have names: "map nc_name (map named_key m) = map fst m" for m
    by (induction m) (auto simp: named_key_def)
  have "nc_columns key = map pcc_column (rows_of pcc_name pcc_ordinal rows (nc_name key))"
    if "key \<in> set (map named_key (group_names rows))" for key
  proof -
    obtain k v where kv: "(k, v) \<in> set (group_names rows)" "key = \<lparr>nc_name = k, nc_columns = ordered_names v\<rparr>"
      using \<open>key \<in> set (map named_key (group_names rows))\<close> by (auto simp: named_key_def)
    then show ?thesis using conjunct2 [OF named.groups_entry [OF kv(1)]] by (simp add: ordered_columns)
  qed
  then show ?thesis unfolding keys_described_def names using named.groups_names by blast
qed

definition foreign_keys_described :: "PostgresForeignKeyColumn list \<Rightarrow> ForeignKeyMetadata list \<Rightarrow> bool" where
  "foreign_keys_described rows keys \<longleftrightarrow>
     sorted_wrt (<) (map fk_name keys) \<and> set (map fk_name keys) = pfk_name ` set rows \<and>
     (\<forall>key \<in> set keys. let own = rows_of pfk_name pfk_ordinal rows (fk_name key) in
        fk_columns key = map pfk_column own \<and> fk_referenced_columns key = map pfk_referenced_column own \<and>
        (\<exists>row \<in> set own. fk_referenced_entity key = pfk_referenced_schema row @ ''.'' @ pfk_referenced_table row))"

definition indexes_described :: "PostgresIndexColumn list \<Rightarrow> IndexMetadata list \<Rightarrow> bool" where
  "indexes_described rows indexes \<longleftrightarrow>
     sorted_wrt (<) (map ix_name indexes) \<and> set (map ix_name indexes) = pix_name ` set rows \<and>
     (\<forall>index \<in> set indexes. let own = rows_of pix_name pix_ordinal rows (ix_name index) in
        ix_columns index = map pix_column own \<and> (\<exists>row \<in> set own. ix_unique index = pix_unique row))"

definition foreign_key :: "string \<times> string \<times> (64 word \<times> string \<times> string) list \<Rightarrow> ForeignKeyMetadata" where
  "foreign_key = (\<lambda>(name, entity, columns).
     let columns = sort_key (\<lambda>(ordinal, _). sint ordinal) columns in
     \<lparr>fk_name = name, fk_columns = map (\<lambda>(_, column, _). column) columns, fk_referenced_entity = entity,
      fk_referenced_columns = map (\<lambda>(_, _, referenced). referenced) columns\<rparr>)"

lemma foreign_keys_assembled: "foreign_keys_described rows (map foreign_key (group_foreign_keys rows))"
proof -
  have names: "map fk_name (map foreign_key m) = map fst m" for m
    by (induction m) (auto simp: foreign_key_def Let_def)
  have "let own = rows_of pfk_name pfk_ordinal rows (fk_name key) in
      fk_columns key = map pfk_column own \<and> fk_referenced_columns key = map pfk_referenced_column own \<and>
      (\<exists>row \<in> set own. fk_referenced_entity key = pfk_referenced_schema row @ ''.'' @ pfk_referenced_table row)"
    if "key \<in> set (map foreign_key (group_foreign_keys rows))" for key
  proof -
    obtain k entity columns where kv: "(k, entity, columns) \<in> set (group_foreign_keys rows)" "key = foreign_key (k, entity, columns)"
      using \<open>key \<in> set (map foreign_key (group_foreign_keys rows))\<close> by auto
    have own: "filter (\<lambda>x. pfk_name x = k) rows \<noteq> []"
      "entity = pfk_referenced_schema (hd (filter (\<lambda>x. pfk_name x = k) rows)) @ ''.'' @ pfk_referenced_table (hd (filter (\<lambda>x. pfk_name x = k) rows))"
      "columns = map (\<lambda>r. (pfk_ordinal r, pfk_column r, pfk_referenced_column r)) (filter (\<lambda>x. pfk_name x = k) rows)"
      using fks.groups_entry [OF kv(1)] by simp_all
    have "hd (filter (\<lambda>x. pfk_name x = k) rows) \<in> set (rows_of pfk_name pfk_ordinal rows k)"
      using hd_in_set [OF own(1)] by (simp add: rows_of_def)
    then show ?thesis unfolding kv(2) own(2,3)
      by (auto simp: foreign_key_def Let_def sort_key_map rows_of_def o_def)
  qed
  then show ?thesis unfolding foreign_keys_described_def names using fks.groups_names by blast
qed

definition table_index :: "string \<times> bool \<times> (64 word \<times> string) list \<Rightarrow> IndexMetadata" where
  "table_index = (\<lambda>(name, unique, columns). \<lparr>ix_name = name, ix_columns = ordered_names columns, ix_unique = unique\<rparr>)"

lemma indexes_assembled: "indexes_described rows (map table_index (group_indexes rows))"
proof -
  have names: "map ix_name (map table_index m) = map fst m" for m
    by (induction m) (auto simp: table_index_def)
  have "let own = rows_of pix_name pix_ordinal rows (ix_name index) in
      ix_columns index = map pix_column own \<and> (\<exists>row \<in> set own. ix_unique index = pix_unique row)"
    if "index \<in> set (map table_index (group_indexes rows))" for index
  proof -
    obtain k unique columns where kv: "(k, unique, columns) \<in> set (group_indexes rows)" "index = table_index (k, unique, columns)"
      using \<open>index \<in> set (map table_index (group_indexes rows))\<close> by auto
    have own: "filter (\<lambda>x. pix_name x = k) rows \<noteq> []" "unique = pix_unique (hd (filter (\<lambda>x. pix_name x = k) rows))"
      "columns = map (\<lambda>r. (pix_ordinal r, pix_column r)) (filter (\<lambda>x. pix_name x = k) rows)"
      using ixs.groups_entry [OF kv(1)] by simp_all
    have "hd (filter (\<lambda>x. pix_name x = k) rows) \<in> set (rows_of pix_name pix_ordinal rows k)"
      using hd_in_set [OF own(1)] by (simp add: rows_of_def)
    then show ?thesis unfolding kv(2) own(2,3) by (auto simp: table_index_def ordered_columns)
  qed
  then show ?thesis unfolding indexes_described_def names using ixs.groups_names by blast
qed

text \<open>
  The keys and indexes a description shows are those of the catalog. Each name that occurs in the rows appears exactly once, sorted
  by name; its columns are the rows of that name in the order of their ordinals, also when the catalog
  answers them in another order, and the columns a foreign key refers to are aligned with its own. The
  primary key is the first by name of those the rows have, and none exactly when they have none.
\<close>

theorem described_keys_as_catalog:
  "let m = assemble_postgres_metadata constraints foreign_keys indexes in
    (\<exists>keys. keys_described (filter is_primary constraints) keys \<and>
      rmd_primary_key m = (case keys of [] \<Rightarrow> None | key # _ \<Rightarrow> Some key)) \<and>
    keys_described (filter (\<lambda>r. \<not> is_primary r) constraints) (rmd_unique_constraints m) \<and>
    foreign_keys_described foreign_keys (rmd_foreign_keys m) \<and> indexes_described indexes (rmd_indexes m)"
  unfolding Let_def
proof (intro conjI exI)
  let ?m = "assemble_postgres_metadata constraints foreign_keys indexes"
  have m: "?m = \<lparr>rmd_primary_key =
        (case map named_key (group_names (filter is_primary constraints)) of [] \<Rightarrow> None | key # _ \<Rightarrow> Some key),
      rmd_foreign_keys = map foreign_key (group_foreign_keys foreign_keys),
      rmd_unique_constraints = map named_key (group_names (filter (\<lambda>r. \<not> is_primary r) constraints)),
      rmd_indexes = map table_index (group_indexes indexes)\<rparr>"
    unfolding assemble_postgres_metadata_def group_constraints_split
    by (simp add: named_key_def foreign_key_def table_index_def Let_def split: list.split)
  show "keys_described (filter is_primary constraints) (map named_key (group_names (filter is_primary constraints)))"
    by (rule named_keys_described)
  show "rmd_primary_key ?m = (case map named_key (group_names (filter is_primary constraints)) of [] \<Rightarrow> None | key # _ \<Rightarrow> Some key)"
    by (simp add: m)
  show "keys_described (filter (\<lambda>r. \<not> is_primary r) constraints) (rmd_unique_constraints ?m)"
    using named_keys_described by (simp add: m)
  show "foreign_keys_described foreign_keys (rmd_foreign_keys ?m)" using foreign_keys_assembled by (simp add: m)
  show "indexes_described indexes (rmd_indexes ?m)" using indexes_assembled by (simp add: m)
qed

section \<open>The shape of a description\<close>

datatype Schema =
    Sc_Null
  | Sc_Bool
  | Sc_Int
  | Sc_String
  | Sc_Array Schema
  | Sc_Document "(string \<times> Schema) list"
  | Sc_Either Schema Schema

fun has_schema :: "Schema \<Rightarrow> DbValue \<Rightarrow> bool" and has_fields :: "(string \<times> Schema) list \<Rightarrow> DbRecord \<Rightarrow> bool" where
  "has_schema Sc_Null v = (v = DbNull)"
| "has_schema Sc_Bool v = (case v of DbBool _ \<Rightarrow> True | _ \<Rightarrow> False)"
| "has_schema Sc_Int v = (case v of DbInt64 _ \<Rightarrow> True | _ \<Rightarrow> False)"
| "has_schema Sc_String v = (case v of DbString _ \<Rightarrow> True | _ \<Rightarrow> False)"
| "has_schema (Sc_Array s) v = (case v of DbArray vs \<Rightarrow> list_all (has_schema s) vs | _ \<Rightarrow> False)"
| "has_schema (Sc_Document fs) v = (case v of DbDocument r \<Rightarrow> has_fields fs r | _ \<Rightarrow> False)"
| "has_schema (Sc_Either s t) v = (has_schema s v \<or> has_schema t v)"
| "has_fields [] r = (r = [])"
| "has_fields ((k, s) # fs) r = (case r of [] \<Rightarrow> False | (k', v) # r \<Rightarrow> k' = k \<and> has_schema s v \<and> has_fields fs r)"

definition key_schema :: "(string \<times> Schema) list" where
  "key_schema = [(''columns'', Sc_Array Sc_String), (''name'', Sc_String)]"

definition metadata_schema :: "(string \<times> Schema) list" where
  "metadata_schema =
     [(''foreign_keys'', Sc_Array (Sc_Document [(''columns'', Sc_Array Sc_String), (''name'', Sc_String),
        (''referenced_columns'', Sc_Array Sc_String), (''referenced_entity'', Sc_String)])),
      (''indexes'', Sc_Array (Sc_Document [(''columns'', Sc_Array Sc_String), (''name'', Sc_String), (''unique'', Sc_Bool)])),
      (''primary_key'', Sc_Either Sc_Null (Sc_Document key_schema)),
      (''unique_constraints'', Sc_Array (Sc_Document key_schema))]"

definition field_schema :: "(string \<times> Schema) list" where
  "field_schema = [(''comment'', Sc_Either Sc_Null Sc_String), (''name'', Sc_String), (''nullable'', Sc_Bool),
     (''ordinal'', Sc_Int), (''type'', Sc_String)]"

lemma string_array_schema: "has_schema (Sc_Array Sc_String) (string_array values)"
  by (simp add: string_array_def list_all_iff)

lemma into_record_schema: "has_fields metadata_schema (into_record m)"
  using string_array_schema
  by (auto simp: into_record_def metadata_schema_def key_schema_def record_of_def named_columns_value_def foreign_key_value_def
      index_value_def list_all_iff split: option.split)

lemma column_record_schema: "has_fields field_schema (column_record row)"
  by (simp add: column_record_def field_schema_def record_of_def split: option.split)


definition sample_meta :: "MetaCall \<Rightarrow> MetaReply" where
  "sample_meta call =
     (case call of
        Meta_Columns _ _ \<Rightarrow> Mr_Columns (Inr [\<lparr>col_name = ''id'', col_data_type = ''bigint'', col_is_nullable = ''NO'', col_ordinal = 1,
          col_comment = None, col_table_comment = Some ''users'', col_table_type = ''BASE TABLE''\<rparr>])
      | Meta_Constraints _ _ \<Rightarrow> Mr_Constraints (Inr [\<lparr>pcc_constraint_type = ''PRIMARY KEY'', pcc_name = ''pk'', pcc_column = ''id'', pcc_ordinal = 1\<rparr>])
      | _ \<Rightarrow> Mr_Connected (Inr ()))"


end
