(* ===== verification/Sql_Paging.thy ===== *)
theory Sql_Paging
  imports Sql_Builder Paging
begin

text \<open>
  Pages of the relational adapters (\<open>crates/connectors-sql/src/common.rs\<close>: cursors, \<open>catalog_fetch_inputs\<close>, \<open>catalog_page\<close> and
  \<open>truncate_records\<close>). What an adapter has to promise of its search and of its reads for the pages to be complete is stated
  once, as a locale each; the adapters interpret them.
\<close>

section \<open>Cursors\<close>

text \<open>What the adapters rely on: base64 and JSON decode what they encoded.\<close>

definition cursors_ok :: "cursor_env \<Rightarrow> bool" where
  "cursors_ok env \<longleftrightarrow>
     (\<forall>n. \<exists>json. cu_to_json env n = Inr json \<and> cu_from_json env json = Some n) \<and>
     (\<forall>bytes. cu_b64_decode env (cu_b64_encode env bytes) = Some bytes)"

definition cursor_at :: "cursor_env \<Rightarrow> nat \<Rightarrow> string option \<Rightarrow> bool" where
  "cursor_at env k cursor \<longleftrightarrow> decode_offset env cursor = Inr (word_of_nat k)"

lemma cursor_at_None: "cursor_at env 0 None"
  by (simp add: cursor_at_def decode_offset_def)

lemma encode_offset_ok:
  assumes "cursors_ok env"
  obtains c where "encode_offset env n = Inr c" "decode_offset env (Some c) = Inr n"
proof -
  obtain json where "cu_to_json env n = Inr json" "cu_from_json env json = Some n"
    using assms by (auto simp: cursors_ok_def)
  then show thesis using that assms by (auto simp: encode_offset_def decode_offset_def cursors_ok_def)
qed

lemma unat_sum:
  assumes "k + n < 2 ^ 64"
  shows "unat (word_of_nat k :: u64) = k" "unat (word_of_nat n :: u64) = n"
    "uint (word_of_nat k :: u64) + uint (word_of_nat n :: u64) < 2 ^ 64"
    "(word_of_nat k :: u64) + word_of_nat n = word_of_nat (k + n)"
proof -
  show k: "unat (word_of_nat k :: u64) = k" and n: "unat (word_of_nat n :: u64) = n"
    using assms by (simp_all add: unat_of_nat)
  have "uint (word_of_nat k :: u64) = int k" "uint (word_of_nat n :: u64) = int n"
    unfolding uint_nat k n by simp_all
  then show "uint (word_of_nat k :: u64) + uint (word_of_nat n :: u64) < 2 ^ 64"
    using assms [folded of_nat_less_iff [where 'a = int]] by simp
qed simp

lemma increment:
  fixes n :: u32
  assumes "unat n < 2 ^ 32 - 1"
  shows "uint n + uint (1 :: u32) < 2 ^ 32" "unat (n + 1) = Suc (unat n)" "n + 1 \<noteq> 0"
proof -
  show u: "unat (n + 1) = Suc (unat n)"
    using assms unat_word_ariths(1) [of n 1] by simp
  show "n + 1 \<noteq> 0" using u by (metis nat.distinct(1) unat_0)
  have "unat n < 4294967295" using assms by simp
  then have "int (unat n) < 4294967295" by linarith
  then show "uint n + uint (1 :: u32) < 2 ^ 32" by simp
qed

lemma unat_widen: "unat (ucast (n :: u32) :: u64) = unat n"
proof -
  have "unat n < 2 ^ 32" using unsigned_less [where ?'a = nat, of n] by simp
  then show ?thesis by (simp add: unsigned_ucast_eq take_bit_nat_eq_self)
qed

lemma perform_map_return: "perform answer (map_return f p) = map_option f (perform answer p)"
  by (induction p) simp_all

section \<open>Searches of the catalog\<close>

definition catalog_rows :: "ConnectorContext \<Rightarrow> ConnectionProfile \<Rightarrow> CatalogQuery \<Rightarrow> u32" where
  "catalog_rows cx profile q = min (min (cq_limit q) (cx_max_rows cx)) (pol_max_rows (pr_policy profile))"

text \<open>
  An adapter whose \<open>search\<close> gives as many rows from the cursor on as the three limits allow. The entities come
  from the same list for all pages.
\<close>

locale catalog_adapter =
  fixes valid :: "'e \<Rightarrow> bool"
    and cursors :: "'e \<Rightarrow> cursor_env"
    and cx :: "'e \<Rightarrow> ConnectorContext"
    and profile :: "'e \<Rightarrow> ConnectionProfile"
    and request :: "'e \<Rightarrow> CatalogQuery"
    and rows :: "'e \<Rightarrow> CatalogEntity list"
    and search :: "'e \<Rightarrow> ConnectorContext \<Rightarrow> ConnectionProfile \<Rightarrow> CatalogQuery \<Rightarrow> (ConnectorError + CatalogEntity list) option"
    and page :: "'e \<Rightarrow> string option \<Rightarrow> ConnectorError option + CatalogEntity list \<times> string option"
  assumes valid_ok: "valid e \<Longrightarrow> cursors_ok (cursors e) \<and> 0 < catalog_rows (cx e) (profile e) (request e) \<and>
      unat (catalog_rows (cx e) (profile e) (request e)) < 2 ^ 32 - 1 \<and> length (rows e) < 2 ^ 63"
    and search_rows: "valid e \<Longrightarrow> cursor_at (cursors e) k cursor \<Longrightarrow> k \<le> length (rows e) \<Longrightarrow> n \<noteq> 0 \<Longrightarrow> n \<le> m \<Longrightarrow> n \<le> m' \<Longrightarrow>
      search e (cx e\<lparr>cx_max_rows := m\<rparr>) (profile e\<lparr>pr_policy := (pr_policy (profile e))\<lparr>pol_max_rows := m'\<rparr>\<rparr>)
        (request e\<lparr>cq_cursor := cursor, cq_limit := n\<rparr>) = Some (Inr (take (unat n) (drop k (rows e))))"
    and page_search: "catalog_fetch_inputs (cx e) (profile e) (request e\<lparr>cq_cursor := cursor\<rparr>) = Inr (cx', profile', request') \<Longrightarrow>
      search e cx' profile' request' = Some (Inr entities) \<Longrightarrow>
      page e cursor = (case catalog_page (cursors e) (cx e) (profile e) (request e\<lparr>cq_cursor := cursor\<rparr>) entities of
        Inl error \<Rightarrow> Inl (Some error) | Inr page \<Rightarrow> Inr (cp_entities page, cp_next_cursor page))"
begin

lemma page_fetched:
  assumes "valid e" "cursor_at (cursors e) k cursor" "k \<le> length (rows e)"
  shows "page e cursor = (case catalog_page (cursors e) (cx e) (profile e) (request e\<lparr>cq_cursor := cursor\<rparr>)
      (take (Suc (unat (catalog_rows (cx e) (profile e) (request e)))) (drop k (rows e))) of
        Inl error \<Rightarrow> Inl (Some error) | Inr page \<Rightarrow> Inr (cp_entities page, cp_next_cursor page))"
proof -
  let ?L = "catalog_rows (cx e) (profile e) (request e)"
  have limit: "cq_limit (request e) \<noteq> 0" "unat ?L < 2 ^ 32 - 1"
    using conjunct1 [OF conjunct2 [OF valid_ok [OF assms(1)]]] conjunct1 [OF conjunct2 [OF conjunct2 [OF valid_ok [OF assms(1)]]]]
    by (auto simp: catalog_rows_def)
  note fetch = increment [OF limit(2)]
  have inputs: "catalog_fetch_inputs (cx e) (profile e) (request e\<lparr>cq_cursor := cursor\<rparr>) =
      Inr (cx e\<lparr>cx_max_rows := max (cx_max_rows (cx e)) (?L + 1)\<rparr>,
        profile e\<lparr>pr_policy := (pr_policy (profile e))\<lparr>pol_max_rows := max (pol_max_rows (pr_policy (profile e))) (?L + 1)\<rparr>\<rparr>,
        request e\<lparr>cq_cursor := cursor, cq_limit := ?L + 1\<rparr>)"
    using limit(1) fetch(1)
    by (simp add: catalog_fetch_inputs_def effective_row_limit_def checked_add_def catalog_rows_def [symmetric])
  show ?thesis
    using page_search [OF inputs search_rows [OF assms fetch(3) max.cobounded2 max.cobounded2]] by (simp only: fetch(2))
qed

lemma page_cut:
  assumes "valid e" "cursor_at (cursors e) k cursor" "k \<le> length (rows e)"
  shows "\<exists>n. k + n \<le> length (rows e) \<and>
    (if k + n = length (rows e) then page e cursor = Inr (drop k (rows e), None)
     else 0 < n \<and> (\<exists>c. page e cursor = Inr (take n (drop k (rows e)), Some c) \<and> cursor_at (cursors e) (k + n) (Some c)))"
proof -
  let ?l = "catalog_rows (cx e) (profile e) (request e)"
  let ?L = "unat ?l"
  have limit: "0 < ?L" "cq_limit (request e) \<noteq> 0" "length (rows e) < 2 ^ 63" "cursors_ok (cursors e)"
    using valid_ok [OF assms(1)] by (auto simp: catalog_rows_def word_less_nat_alt)
  have effective: "effective_row_limit (cx e) (profile e) (cq_limit (request e)) = Inr ?l"
    using limit(2) by (simp add: effective_row_limit_def catalog_rows_def)
  note page = page_fetched [OF assms]
  show ?thesis
  proof (cases "length (rows e) - k \<le> ?L")
    case True
    then have "page e cursor = Inr (drop k (rows e), None)"
      unfolding page catalog_page_def by (simp add: effective Let_def)
    then show ?thesis using assms(3) by (intro exI [of _ "length (rows e) - k"]) simp
  next
    case False
    have sum: "k + ?L < 2 ^ 64" using False limit(3) by simp
    obtain c where c: "encode_offset (cursors e) (word_of_nat (k + ?L)) = Inr c"
      "decode_offset (cursors e) (Some c) = Inr (word_of_nat (k + ?L))"
      by (rule encode_offset_ok [OF limit(4)])
    have "page e cursor = Inr (take ?L (drop k (rows e)), Some c)"
      using False assms(2) c(1) unat_sum(3,4) [OF sum] unfolding page catalog_page_def
      by (simp add: effective Let_def cursor_at_def checked_add_def min_def)
    then show ?thesis using False limit(1) c(2) by (intro exI [of _ ?L]) (auto simp: cursor_at_def)
  qed
qed

end

text \<open>The promise of a search gives the promise of pages.\<close>

sublocale catalog_adapter \<subseteq> catalog_pages: pager valid rows "\<lambda>e. cursor_at (cursors e)" page
  by unfold_locales (use cursor_at_None page_cut in auto)

section \<open>Structured reads\<close>

text \<open>Sizes that are always known and that one row never exceeds.\<close>

definition sizes_ok :: "size_env \<Rightarrow> u64 \<Rightarrow> bool" where
  "sizes_ok sz max_bytes \<longleftrightarrow>
     (\<forall>records. is_ok (sz_records sz records)) \<and>
     (\<forall>r. \<exists>n. sz_result sz r = Inr n \<and> (length (or_records r) \<le> 1 \<longrightarrow> n \<le> unat max_bytes))"

lemma measured_ok:
  assumes "cursors_ok env" "sizes_ok sz max_bytes"
  shows "\<exists>r' n. measured env sz truncated (Some offset) r = Inr (r', n) \<and> or_records r' = or_records r \<and>
    (length (or_records r) \<le> 1 \<longrightarrow> n \<le> unat max_bytes) \<and>
    (if truncated then \<exists>c. or_next_cursor r' = Some c \<and>
       decode_offset env (Some c) = Inr (saturating_add offset (word_of_nat (length (or_records r))))
     else or_next_cursor r' = None)"
proof -
  obtain c where c: "encode_offset env (saturating_add offset (word_of_nat (length (or_records r)))) = Inr c"
    "decode_offset env (Some c) = Inr (saturating_add offset (word_of_nat (length (or_records r))))"
    by (rule encode_offset_ok [OF assms(1)])
  obtain bytes where bytes: "sz_records sz (or_records r) = Inr bytes"
    using assms(2) by (auto simp: sizes_ok_def is_ok_iff)
  let ?r = "r\<lparr>or_truncated := truncated, or_next_cursor := (if truncated then Some c else None),
      or_metrics := (or_metrics r)\<lparr>rm_returned := word_of_nat (length (or_records r)), rm_bytes := Some (word_of_nat bytes)\<rparr>\<rparr>"
  obtain n where n: "sz_result sz ?r = Inr n" "length (or_records ?r) \<le> 1 \<longrightarrow> n \<le> unat max_bytes"
    using assms(2) unfolding sizes_ok_def by blast
  have "measured env sz truncated (Some offset) r = Inr (?r, n)"
    using c(1) bytes n(1) by (cases truncated) (simp_all add: measured_def)
  then show ?thesis using n(2) c(2) by (intro exI [of _ ?r] exI [of _ n]) auto
qed

text \<open>What the loop over the size keeps: a prefix with at least one row, and a cursor after it when it is not all.\<close>

lemma fit_rows_ok:
  assumes "cursors_ok env" "sizes_ok sz max_bytes"
  shows "\<exists>r' m. fit_rows env sz max_bytes truncated (Some offset) r = Inr r' \<and> or_records r' = take m (or_records r) \<and>
    m \<le> length (or_records r) \<and> (or_records r = [] \<or> 0 < m) \<and>
    (if truncated \<or> m < length (or_records r) then \<exists>c. or_next_cursor r' = Some c \<and>
       decode_offset env (Some c) = Inr (saturating_add offset (word_of_nat m))
     else or_next_cursor r' = None)"
proof (induction "length (or_records r)" arbitrary: truncated r rule: less_induct)
  case less
  obtain r1 n where m: "measured env sz truncated (Some offset) r = Inr (r1, n)" "or_records r1 = or_records r"
    "length (or_records r) \<le> 1 \<longrightarrow> n \<le> unat max_bytes"
    "if truncated then \<exists>c. or_next_cursor r1 = Some c \<and>
       decode_offset env (Some c) = Inr (saturating_add offset (word_of_nat (length (or_records r))))
     else or_next_cursor r1 = None"
    using measured_ok [OF assms] by blast
  show ?case
  proof (cases "n \<le> unat max_bytes")
    case True
    then have "fit_rows env sz max_bytes truncated (Some offset) r = Inr r1"
      by (subst fit_rows.simps) (simp add: m(1))
    then show ?thesis using m(2,4) by (intro exI [of _ r1] exI [of _ "length (or_records r)"]) auto
  next
    case False
    let ?next = "r1\<lparr>or_records := butlast (or_records r)\<rparr>"
    have long: "\<not> length (or_records r) \<le> 1" using False m(3) by blast
    then have step: "fit_rows env sz max_bytes truncated (Some offset) r = fit_rows env sz max_bytes True (Some offset) ?next"
      using False by (subst fit_rows.simps) (simp add: m(1))
    obtain r' k where k: "fit_rows env sz max_bytes True (Some offset) ?next = Inr r'" "or_records r' = take k (or_records ?next)"
      "k \<le> length (or_records ?next)" "or_records ?next = [] \<or> 0 < k"
      "\<exists>c. or_next_cursor r' = Some c \<and> decode_offset env (Some c) = Inr (saturating_add offset (word_of_nat k))"
    proof -
      have "length (or_records ?next) < length (or_records r)" using long by simp
      from less [OF this, of True] show thesis using that by (simp only: simp_thms if_True) blast
    qed
    have "or_records r' = take k (or_records r)" using k(2,3) by (simp add: butlast_conv_take min.absorb1)
    moreover have "0 < k" "k < length (or_records r)" using k(3,4) long by (auto simp: butlast_conv_take)
    ultimately show ?thesis using k(1,5) step by (intro exI [of _ r'] exI [of _ k]) auto
  qed
qed

text \<open>An adapter whose result is cut by \<open>truncate_records\<close> from one row more than the limit, from the cursor on.\<close>

locale read_adapter =
  fixes valid :: "'e \<Rightarrow> bool"
    and cursors :: "'e \<Rightarrow> cursor_env"
    and sizes :: "'e \<Rightarrow> size_env"
    and max_bytes :: "'e \<Rightarrow> u64"
    and row_limit :: "'e \<Rightarrow> nat"
    and rows :: "'e \<Rightarrow> DbRecord list"
    and page :: "'e \<Rightarrow> string option \<Rightarrow> ConnectorError option + DbRecord list \<times> string option"
  assumes valid_ok: "valid e \<Longrightarrow> cursors_ok (cursors e) \<and> sizes_ok (sizes e) (max_bytes e) \<and> 0 < row_limit e \<and> length (rows e) < 2 ^ 64"
    and page_truncated: "valid e \<Longrightarrow> cursor_at (cursors e) k cursor \<Longrightarrow> k \<le> length (rows e) \<Longrightarrow>
      \<exists>result. page e cursor = (case truncate_records (cursors e) (sizes e) result (row_limit e) (max_bytes e) False (Some (word_of_nat k)) of
          Inl error \<Rightarrow> Inl (Some error) | Inr result \<Rightarrow> Inr (or_records result, or_next_cursor result)) \<and>
        or_records result = take (Suc (row_limit e)) (drop k (rows e))"
begin

lemma page_cut:
  assumes "valid e" "cursor_at (cursors e) k cursor" "k \<le> length (rows e)"
  shows "\<exists>n. k + n \<le> length (rows e) \<and>
    (if k + n = length (rows e) then page e cursor = Inr (drop k (rows e), None)
     else 0 < n \<and> (\<exists>c. page e cursor = Inr (take n (drop k (rows e)), Some c) \<and> cursor_at (cursors e) (k + n) (Some c)))"
proof -
  let ?L = "row_limit e" and ?env = "cursors e" and ?rest = "drop k (rows e)"
  obtain result where result: "page e cursor = (case truncate_records ?env (sizes e) result ?L (max_bytes e) False (Some (word_of_nat k)) of
        Inl error \<Rightarrow> Inl (Some error) | Inr result \<Rightarrow> Inr (or_records result, or_next_cursor result))"
    "or_records result = take (Suc ?L) ?rest"
    using page_truncated [OF assms] by blast
  have ok: "cursors_ok ?env" "sizes_ok (sizes e) (max_bytes e)" "0 < ?L" "length (rows e) < 2 ^ 64"
    using valid_ok [OF assms(1)] by auto
  let ?cut = "result\<lparr>or_records := take ?L ?rest\<rparr>" and ?truncated = "?L < length ?rest"
  have cut: "truncate_records ?env (sizes e) result ?L (max_bytes e) False (Some (word_of_nat k))
      = fit_rows ?env (sizes e) (max_bytes e) ?truncated (Some (word_of_nat k)) ?cut"
    by (simp add: truncate_records_def result(2) min_def)
  obtain r' m where m: "fit_rows ?env (sizes e) (max_bytes e) ?truncated (Some (word_of_nat k)) ?cut = Inr r'"
    "or_records r' = take m (or_records ?cut)" "m \<le> length (or_records ?cut)" "or_records ?cut = [] \<or> 0 < m"
    "if ?truncated \<or> m < length (or_records ?cut) then \<exists>c. or_next_cursor r' = Some c \<and>
       decode_offset ?env (Some c) = Inr (saturating_add (word_of_nat k) (word_of_nat m)) else or_next_cursor r' = None"
    using fit_rows_ok [OF ok(1,2)] by blast
  have le: "m \<le> ?L" "k + m \<le> length (rows e)" using m(3) assms(3) by auto
  have page: "page e cursor = Inr (take m ?rest, or_next_cursor r')"
    unfolding result(1) cut m(1) using m(2) le(1) by (simp add: min_def)
  show ?thesis
  proof (cases "k + m = length (rows e)")
    case True
    then have "\<not> ?truncated" "\<not> m < length (or_records ?cut)" using le(1) by auto
    then have "or_next_cursor r' = None" using m(5) by presburger
    then show ?thesis using True page by (intro exI [of _ m]) simp
  next
    case False
    then have cond: "?truncated \<or> m < length (or_records ?cut)" and "or_records ?cut \<noteq> []" using le ok(3) by auto
    then obtain c where c: "or_next_cursor r' = Some c" "0 < m"
      "decode_offset ?env (Some c) = Inr (saturating_add (word_of_nat k) (word_of_nat m))"
      using m(4) m(5) [unfolded if_P [OF cond]] by blast
    have "k + m < 2 ^ 64" using le(2) ok(4) by simp
    then have "saturating_add (word_of_nat k :: u64) (word_of_nat m) = word_of_nat (k + m)"
      using unat_sum(1,4) [of k m] unat_sum(1) [of "k + m" 0] by (simp add: saturating_add_def word_less_nat_alt del: of_nat_add)
    then show ?thesis using False page c le(2) by (intro exI [of _ m]) (simp add: cursor_at_def)
  qed
qed

end

sublocale read_adapter \<subseteq> read_pages: pager valid rows "\<lambda>e. cursor_at (cursors e)" page
  by unfold_locales (use cursor_at_None page_cut in auto)

section \<open>The limit and offset of a read\<close>

definition read_at :: "ReadRequest \<Rightarrow> string option \<Rightarrow> ReadRequest" where
  "read_at request cursor = request\<lparr>rd_options := (rd_options request)\<lparr>qo_cursor := cursor\<rparr>\<rparr>"

definition read_rows :: "ConnectorContext \<Rightarrow> ConnectionProfile \<Rightarrow> ReadRequest \<Rightarrow> u32" where
  "read_rows cx profile request = min (min (qo_limit (rd_options request)) (cx_max_rows cx)) (pol_max_rows (pr_policy profile))"

lemma read_at_built:
  assumes "is_ok (build_read env family cx profile (read_at request None))" "decode_offset env cursor = Inr offset"
  obtains q where "build_read env family cx profile (read_at request cursor) = Inr q"
    "bq_row_limit q = Some (unat (read_rows cx profile request))" "bq_base_offset q = Some offset"
proof -
  let ?columns = "if rd_fields request = [] then Inr ''*'' else map_res (join '', '') (map_results (quote_identifier family) (rd_fields request))"
  let ?where = "case rd_filter request of None \<Rightarrow> Inr ([], [])
    | Some f \<Rightarrow> map_res (\<lambda>(text, parameters). ('' WHERE '' @ text, parameters)) (compile_filter family f [])"
  have same: "rd_fields (read_at request c) = rd_fields request" "rd_filter (read_at request c) = rd_filter request"
    "rd_target (read_at request c) = rd_target request" "qo_limit (rd_options (read_at request c)) = qo_limit (rd_options request)"
    "qo_cursor (rd_options (read_at request c)) = c"
    "compile_sort family (rd_options (read_at request c)) = compile_sort family (rd_options request)" for c
    by (simp_all add: read_at_def compile_sort_def)
  obtain limit columns where_text parameters sort target where
    "effective_row_limit cx profile (qo_limit (rd_options request)) = Inr limit" "?columns = Inr columns" "?where = Inr (where_text, parameters)"
    "compile_sort family (rd_options request) = Inr sort" "qualified_name family (rd_target request) = Inr target"
    using assms(1) unfolding is_ok_iff build_read_def Let_def same by (auto simp only: res_simps split_paired_Ex prod.case)
  moreover have "limit = read_rows cx profile request"
    using calculation(1) by (simp add: effective_row_limit_def read_rows_def split: if_splits)
  ultimately show thesis using that assms(2)
    by (simp only: build_read_def Let_def same bind_res_simps prod.case BuiltQuery.simps)
qed

end
