(* ===== verification/Postgres_Paging.thy ===== *)
theory Postgres_Paging
  imports Postgres_Catalog Sql_Paging
begin

text \<open>
  The pages of the PostgreSQL adapter, as a client sees them that follows the cursors: of a catalog search
  (\<open>catalog_adapter\<close>) and of a structured read (\<open>read_adapter\<close>).
\<close>

section \<open>Pages of the catalog\<close>

record catalog_paging =
  cpg_env :: cursor_env
  cpg_now :: Instant
  cpg_flavor :: PostgresFlavor
  cpg_cx :: ConnectorContext
  cpg_profile :: ConnectionProfile
  cpg_secret :: SecretMaterial
  cpg_query :: CatalogQuery
  cpg_answer :: "MetaCall \<Rightarrow> MetaReply"
  cpg_tables :: "(string \<times> string \<times> string) list"

abbreviation catalog_limit :: "catalog_paging \<Rightarrow> u32" where
  "catalog_limit e \<equiv> catalog_rows (cpg_cx e) (cpg_profile e) (cpg_query e)"

text \<open>
  A request the adapter accepts, with a limit above zero and below the greatest \<open>u32\<close>, on a server that
  answers \<open>LIMIT\<close> and \<open>OFFSET\<close> from the same sorted list of tables.
\<close>

definition catalog_valid :: "catalog_paging \<Rightarrow> bool" where
  "catalog_valid e \<longleftrightarrow>
     cursors_ok (cpg_env e) \<and> is_ok (pg_execute_checks (cpg_flavor e) (cpg_profile e) (cpg_secret e)) \<and>
     is_ok (effective_timeout (cpg_now e) (cpg_cx e) (cpg_profile e) None) \<and>
     0 < catalog_limit e \<and> unat (catalog_limit e) < 2 ^ 32 - 1 \<and> length (cpg_tables e) < 2 ^ 63 \<and>
     (\<forall>timeout. mr_connected (cpg_answer e (Meta_Connect timeout)) = Inr ()) \<and>
     (\<forall>pattern limit offset. mr_tables (cpg_answer e (Meta_Tables (cq_namespace (cpg_query e)) pattern limit offset))
        = Inr (take (unat limit) (drop (unat offset) (cpg_tables e))))"

definition catalog_page_at :: "catalog_paging \<Rightarrow> string option \<Rightarrow> ConnectorError option + CatalogEntity list \<times> string option" where
  "catalog_page_at e cursor =
     (case perform (cpg_answer e) (pg_search_catalog_page (cpg_env e) (cpg_now e) (cpg_flavor e) (cpg_cx e) (cpg_profile e)
         (cpg_secret e) (cpg_query e\<lparr>cq_cursor := cursor\<rparr>)) of
        None \<Rightarrow> Inl None
      | Some (Inl error) \<Rightarrow> Inl (Some error)
      | Some (Inr page) \<Rightarrow> Inr (cp_entities page, cp_next_cursor page))"

text \<open>The search of the catalog against the answers of the server.\<close>

definition catalog_searched ::
  "catalog_paging \<Rightarrow> ConnectorContext \<Rightarrow> ConnectionProfile \<Rightarrow> CatalogQuery \<Rightarrow> (ConnectorError + CatalogEntity list) option" where
  "catalog_searched e cx profile q =
     perform (cpg_answer e) (pg_search_catalog (cpg_env e) (cpg_now e) (cpg_flavor e) cx profile (cpg_secret e) q)"

lemma checks_policy: "pg_execute_checks flavor (profile\<lparr>pr_policy := policy\<rparr>) secret = pg_execute_checks flavor profile secret"
proof -
  have same: "pr_product (profile\<lparr>pr_policy := policy\<rparr>) = pr_product profile"
    "pr_api_mode (profile\<lparr>pr_policy := policy\<rparr>) = pr_api_mode profile"
    "pr_tls (profile\<lparr>pr_policy := policy\<rparr>) = pr_tls profile"
    "pr_endpoint (profile\<lparr>pr_policy := policy\<rparr>) = pr_endpoint profile"
    "pr_auth_kind (profile\<lparr>pr_policy := policy\<rparr>) = pr_auth_kind profile" by simp_all
  show ?thesis unfolding pg_execute_checks_def pg_validate_profile_def validate_auth_def validate_tls_def same ..
qed

lemma catalog_searched_rows:
  assumes "catalog_valid e" "cursor_at (cpg_env e) k cursor" "k \<le> length (map table_entity (cpg_tables e))" "n \<noteq> 0" "n \<le> m" "n \<le> m'"
  shows "catalog_searched e (cpg_cx e\<lparr>cx_max_rows := m\<rparr>)
      (cpg_profile e\<lparr>pr_policy := (pr_policy (cpg_profile e))\<lparr>pol_max_rows := m'\<rparr>\<rparr>) (cpg_query e\<lparr>cq_cursor := cursor, cq_limit := n\<rparr>)
    = Some (Inr (take (unat n) (drop k (map table_entity (cpg_tables e)))))"
proof -
  let ?cx = "cpg_cx e\<lparr>cx_max_rows := m\<rparr>" and ?profile = "cpg_profile e\<lparr>pr_policy := (pr_policy (cpg_profile e))\<lparr>pol_max_rows := m'\<rparr>\<rparr>"
  obtain timeout where "effective_timeout (cpg_now e) (cpg_cx e) (cpg_profile e) None = Inr timeout"
    and checks: "pg_execute_checks (cpg_flavor e) (cpg_profile e) (cpg_secret e) = Inr ()"
    using assms(1) by (auto simp: catalog_valid_def is_ok_iff)
  then have "effective_timeout (cpg_now e) ?cx ?profile None = Inr timeout"
    by (simp add: effective_timeout_def split: if_splits)
  moreover have "pg_execute_checks (cpg_flavor e) ?profile (cpg_secret e) = Inr ()"
    using checks by (simp add: checks_policy)
  moreover have k: "k < 2 ^ 63" using assms(1,3) by (simp add: catalog_valid_def)
  then have u: "unat (word_of_nat k :: u64) = k" by (simp add: unat_of_nat)
  moreover have "uint (word_of_nat k :: u64) < 2 ^ 63" unfolding uint_nat u using k by simp
  moreover have "min (min n m) m' = n" using assms(5,6) by simp
  ultimately show ?thesis using assms(1,2,4)
    by (simp add: catalog_searched_def pg_search_catalog_def meta_connect_def meta_query_def catalog_valid_def cursor_at_def unat_widen take_map drop_map)
qed

lemma catalog_page_searched:
  assumes "catalog_fetch_inputs (cpg_cx e) (cpg_profile e) (cpg_query e\<lparr>cq_cursor := cursor\<rparr>) = Inr (cx, profile, request)"
    and "catalog_searched e cx profile request = Some (Inr entities)"
  shows "catalog_page_at e cursor = (case catalog_page (cpg_env e) (cpg_cx e) (cpg_profile e) (cpg_query e\<lparr>cq_cursor := cursor\<rparr>) entities of
      Inl error \<Rightarrow> Inl (Some error) | Inr page \<Rightarrow> Inr (cp_entities page, cp_next_cursor page))"
  using assms(2) unfolding catalog_page_at_def pg_search_catalog_page_def assms(1)
  by (simp add: perform_map_return catalog_searched_def)

interpretation tables: catalog_adapter catalog_valid cpg_env cpg_cx cpg_profile cpg_query "\<lambda>e. map table_entity (cpg_tables e)"
  catalog_searched catalog_page_at
  by unfold_locales (use catalog_searched_rows catalog_page_searched in \<open>auto simp: catalog_valid_def\<close>)

text \<open>
  The pages of a catalog search. A client that passes the cursor of each page on comes to an end, and it has then seen every
  table the server has, exactly once and in the server's order, for every limit above zero; on no page does the
  adapter answer an error or lose the row that tells it whether there is more.
\<close>

theorem catalog_pages_complete:
  "catalog_valid e \<Longrightarrow> follow (catalog_page_at e) None = Some (Inr (map table_entity (cpg_tables e)))"
  by (rule tables.catalog_pages.follow_all)

section \<open>Pages of a read\<close>

record read_paging =
  rpg_env :: pg_env
  rpg_now :: Instant
  rpg_flavor :: PostgresFlavor
  rpg_cx :: ConnectorContext
  rpg_profile :: ConnectionProfile
  rpg_request :: ReadRequest
  rpg_answer :: "PgCall \<Rightarrow> PgReply"
  rpg_rows :: "DbRecord list"

abbreviation read_request_at :: "read_paging \<Rightarrow> string option \<Rightarrow> ReadRequest" where
  "read_request_at e cursor \<equiv> read_at (rpg_request e) cursor"

definition read_built_at :: "read_paging \<Rightarrow> string option \<Rightarrow> ConnectorError + BuiltQuery" where
  "read_built_at e cursor =
     build_read (pg_cursors (rpg_env e)) Fam_PostgreSql (rpg_cx e) (rpg_profile e) (read_request_at e cursor)"

abbreviation read_limit :: "read_paging \<Rightarrow> u32" where
  "read_limit e \<equiv> read_rows (rpg_cx e) (rpg_profile e) (rpg_request e)"

text \<open>
  A read the adapter accepts, with a limit above zero, on a server that answers the built statement with one row more than the
  limit from the offset on, out of the same list of rows.
\<close>

definition read_valid :: "read_paging \<Rightarrow> bool" where
  "read_valid e \<longleftrightarrow>
     cursors_ok (pg_cursors (rpg_env e)) \<and> sizes_ok (pg_sizes (rpg_env e)) (cx_max_bytes (rpg_cx e)) \<and>
     is_ok (read_built_at e None) \<and>
     is_ok (effective_timeout (rpg_now e) (rpg_cx e) (rpg_profile e) (qo_timeout_ms (rd_options (rpg_request e)))) \<and>
     0 < read_limit e \<and> length (rpg_rows e) < 2 ^ 64 \<and>
     (\<forall>timeout. as_connected (rpg_answer e (Pg_Connect timeout)) = Inr ()) \<and>
     (\<forall>cursor q limit offset. read_built_at e cursor = Inr q \<longrightarrow> bq_row_limit q = Some limit \<longrightarrow> bq_base_offset q = Some offset \<longrightarrow>
        as_rows (rpg_answer e (Pg_Query (wrapped_query (bq_sql q)) (bq_parameters q)))
          = Inr (Inr (take (Suc limit) (drop (unat offset) (rpg_rows e)))))"

definition read_page_at :: "read_paging \<Rightarrow> string option \<Rightarrow> ConnectorError option + DbRecord list \<times> string option" where
  "read_page_at e cursor =
     (case perform (rpg_answer e) (execute_inner (rpg_env e) (rpg_now e) (rpg_flavor e) (rpg_cx e) (rpg_profile e)
         (Op_Read (read_request_at e cursor))) of
        None \<Rightarrow> Inl None
      | Some (Inl error) \<Rightarrow> Inl (Some error)
      | Some (Inr result) \<Rightarrow> Inr (or_records result, or_next_cursor result))"

lemma read_performed:
  assumes "read_valid e" "cursor_at (pg_cursors (rpg_env e)) k cursor" "k \<le> length (rpg_rows e)"
  shows "\<exists>result. read_page_at e cursor = (case truncate_records (pg_cursors (rpg_env e)) (pg_sizes (rpg_env e)) result
      (unat (read_limit e)) (cx_max_bytes (rpg_cx e)) False (Some (word_of_nat k)) of
        Inl error \<Rightarrow> Inl (Some error) | Inr result \<Rightarrow> Inr (or_records result, or_next_cursor result)) \<and>
    or_records result = take (Suc (unat (read_limit e))) (drop k (rpg_rows e))"
proof -
  have valid: "is_ok (read_built_at e None)" "as_connected (rpg_answer e (Pg_Connect timeout)) = Inr ()"
    "length (rpg_rows e) < 2 ^ 64" for timeout
    using assms(1) by (simp_all add: read_valid_def)
  have k: "unat (word_of_nat k :: u64) = k" using valid(3) assms(3) by (simp add: unat_of_nat)
  obtain q where q: "read_built_at e cursor = Inr q" "bq_row_limit q = Some (unat (read_limit e))" "bq_base_offset q = Some (word_of_nat k)"
    using read_at_built [OF valid(1) [unfolded read_built_at_def]] assms(2) unfolding cursor_at_def read_built_at_def by blast
  have rows: "as_rows (rpg_answer e (Pg_Query (wrapped_query (bq_sql q)) (bq_parameters q)))
      = Inr (Inr (take (Suc (unat (read_limit e))) (drop k (rpg_rows e))))"
    using assms(1) q k unfolding read_valid_def by metis
  obtain timeout where timeout: "effective_timeout (rpg_now e) (rpg_cx e) (rpg_profile e) (qo_timeout_ms (rd_options (rpg_request e))) = Inr timeout"
    using assms(1) by (auto simp: read_valid_def is_ok_iff)
  have timeout': "effective_timeout (rpg_now e) (rpg_cx e) (rpg_profile e) (qo_timeout_ms (rd_options (read_request_at e cursor))) = Inr timeout"
    using timeout by (simp add: read_at_def)
  show ?thesis
    unfolding read_page_at_def execute_inner_def
    by (intro exI [of _ "read_result (rpg_env e) (rpg_cx e) (as_elapsed (rpg_answer e Pg_Elapsed)) (take (Suc (unat (read_limit e))) (drop k (rpg_rows e)))"])
      (simp add: timeout' valid(2) execute_operation_def q(1) [unfolded read_built_at_def] query_built_def rows q(2,3) read_result_def
        split: sum.split)
qed

interpretation reads: read_adapter read_valid "\<lambda>e. pg_cursors (rpg_env e)" "\<lambda>e. pg_sizes (rpg_env e)" "\<lambda>e. cx_max_bytes (rpg_cx e)"
  "\<lambda>e. unat (read_limit e)" rpg_rows read_page_at
  by unfold_locales (use read_performed in \<open>auto simp: read_valid_def word_less_nat_alt\<close>)


section \<open>Examples\<close>

definition sample_tables :: "(string \<times> string \<times> string) list" where
  "sample_tables = [(''public'', ''a'', ''BASE TABLE''), (''public'', ''b'', ''VIEW''), (''public'', ''c'', ''BASE TABLE'')]"

definition sample_catalog :: catalog_paging where
  "sample_catalog = \<lparr>cpg_env = sample_cursors, cpg_now = 0, cpg_flavor = Flavor_PostgreSql, cpg_cx = sample_cx,
     cpg_profile = pg_profile, cpg_secret = pg_secret,
     cpg_query = \<lparr>cq_pattern = None, cq_namespace = None, cq_limit = 2, cq_cursor = None\<rparr>,
     cpg_answer = (\<lambda>call. case call of
         Meta_Tables _ _ limit offset \<Rightarrow> Mr_Tables (Inr (take (unat limit) (drop (unat offset) sample_tables)))
       | _ \<Rightarrow> Mr_Connected (Inr ())),
     cpg_tables = sample_tables\<rparr>"

lemma sample_cursors_ok: "cursors_ok sample_cursors"
  by (simp add: cursors_ok_def sample_cursors_def show_word_def digits_show)

lemma sample_catalog_valid: "catalog_valid sample_catalog"
proof -
  have "is_ok (pg_execute_checks Flavor_PostgreSql pg_profile pg_secret)" "is_ok (effective_timeout 0 sample_cx pg_profile None)"
    by code_simp+
  moreover have "catalog_limit sample_catalog = 2" by code_simp
  ultimately show ?thesis unfolding catalog_valid_def
    by (simp add: sample_catalog_def sample_cursors_ok) (simp add: sample_tables_def)
qed

theorem catalog_pages_complete_witness:
  "catalog_valid sample_catalog \<and> follow (catalog_page_at sample_catalog) None = Some (Inr (map table_entity sample_tables))"
  using catalog_pages_complete [OF sample_catalog_valid] sample_catalog_valid by (simp add: sample_catalog_def)

text \<open>A server that reads the offset at the end of the statement.\<close>

definition sample_offset :: "string \<Rightarrow> nat" where
  "sample_offset sql = digits_nat (rev (takeWhile is_ascii_digit (rev (take (length sql - 16) sql))))"

definition sample_rows :: "DbRecord list" where
  "sample_rows = map (\<lambda>n. [(''id'', DbInt64 (word_of_nat n))]) [0..<12]"

definition sample_read_paging :: read_paging where
  "sample_read_paging = \<lparr>rpg_env = sample_pg_env, rpg_now = 0, rpg_flavor = Flavor_PostgreSql, rpg_cx = sample_cx,
     rpg_profile = pg_profile, rpg_request = sample_sql_read,
     rpg_answer = (\<lambda>call. case call of
         Pg_Query sql _ \<Rightarrow> Pgr_Rows (Inr (Inr (take 6 (drop (sample_offset sql) sample_rows))))
       | _ \<Rightarrow> Pgr_Connected (Inr ())),
     rpg_rows = sample_rows\<rparr>"

lemma read_text_end:
  assumes "build_read env Fam_PostgreSql cx profile request = Inr q"
  obtains before offset where "bq_sql q = before @ '' OFFSET '' @ show_word offset" "bq_base_offset q = Some offset"
    "bq_row_limit q = Some (unat (min (min (qo_limit (rd_options request)) (cx_max_rows cx)) (pol_max_rows (pr_policy profile))))"
  using assms that
  by (auto simp: build_read_def res_simps effective_row_limit_def Let_def split: if_splits prod.splits)

lemma sample_offset_read: "sample_offset (wrapped_query (before @ '' OFFSET '' @ show_word (n :: u64))) = unat n"
proof -
  let ?sql = "wrapped_query (before @ '' OFFSET '' @ show_word n)"
  have strip: "length b = 16 \<Longrightarrow> take (length (a @ b) - 16) (a @ b) = a" for a b :: string by simp
  have form: "?sql = ((''SELECT to_jsonb('' @ [CHR 0x22] @ ''__mcp_row'' @ [CHR 0x22] @ '') FROM ('' @ before @ '' OFFSET '') @ show_word n) @
      ('') AS '' @ [CHR 0x22] @ ''__mcp_row'' @ [CHR 0x22])" by (simp add: wrapped_query_def)
  have "take (length ?sql - 16) ?sql = (''SELECT to_jsonb('' @ [CHR 0x22] @ ''__mcp_row'' @ [CHR 0x22] @ '') FROM ('' @ before @ '' OFFSET '') @ show_word n"
    unfolding form by (rule strip) simp
  moreover have "takeWhile is_ascii_digit (rev (show_word n) @ CHR '' '' # rest) = rev (show_word n)" for rest
    using show_nat_digits [of "unat n"] by (subst takeWhile_append2) (auto simp: list_all_iff show_word_def is_ascii_digit_def byte_def)
  ultimately show ?thesis by (simp add: sample_offset_def) (simp add: show_word_def digits_show)
qed

lemma sample_read_valid: "read_valid sample_read_paging"
proof -
  have "is_ok (read_built_at sample_read_paging None)" using sample_built(1)
    by (simp add: read_built_at_def read_at_def sample_read_paging_def sample_pg_env_def sample_sql_read_def QueryOptions_default_def)
  moreover have "is_ok (effective_timeout 0 sample_cx pg_profile (qo_timeout_ms (rd_options sample_sql_read)))" "0 < read_limit sample_read_paging"
    by code_simp+
  moreover have "as_rows (rpg_answer sample_read_paging (Pg_Query (wrapped_query (bq_sql q)) (bq_parameters q)))
      = Inr (Inr (take (Suc limit) (drop (unat offset) sample_rows)))"
    if q: "read_built_at sample_read_paging cursor = Inr q" "bq_row_limit q = Some limit" "bq_base_offset q = Some offset"
    for cursor q limit offset
  proof -
    obtain before where b: "bq_sql q = before @ '' OFFSET '' @ show_word offset"
      "bq_row_limit q = Some (unat (min (min (qo_limit (rd_options (read_request_at sample_read_paging cursor))) (cx_max_rows sample_cx)) (pol_max_rows (pr_policy pg_profile))))"
      using read_text_end [OF q(1) [unfolded read_built_at_def]] q(3) by (auto simp: sample_read_paging_def)
    have "qo_limit (rd_options (read_request_at sample_read_paging cursor)) = qo_limit (rd_options sample_sql_read)"
      by (simp add: read_at_def sample_read_paging_def)
    moreover have "min (min (qo_limit (rd_options sample_sql_read)) (cx_max_rows sample_cx)) (pol_max_rows (pr_policy pg_profile)) = 5"
      by code_simp
    ultimately have "limit = 5" using b(2) q(2) by simp
    then show ?thesis using sample_offset_read [of before offset] by (simp add: sample_read_paging_def as_rows_def b(1))
  qed
  ultimately show ?thesis unfolding read_valid_def
    by (simp add: sample_read_paging_def sample_pg_env_def sample_cursors_ok sizes_ok_def as_connected_def)
      (auto simp: sample_rows_def sample_cx_def)
qed


end
