(* ===== verification/Mysql.thy ===== *)
theory Mysql
  imports Postgres_Connect Paging
begin

text \<open>
  The adapter for MySQL, TiDB and OceanBase (\<open>crates/connectors-sql/src/mysql.rs\<close>): profile checks, connection options
  and pools, values, requests and the classification of errors. It differs from the adapter for PostgreSQL in its
  driver, in how writes are limited, and in what an error of the server means. Dates, JSON, base64 and the PEM format are
  other crates and parameters of the model.
\<close>

section \<open>Profiles and servers\<close>

datatype MySqlFlavor = Flavor_MySql | Flavor_TiDb | Flavor_OceanBaseMySql

definition mysql_flavor_name :: "MySqlFlavor \<Rightarrow> string" where
  "mysql_flavor_name flavor =
     (case flavor of Flavor_MySql \<Rightarrow> ''MySQL'' | Flavor_TiDb \<Rightarrow> ''TiDB'' | Flavor_OceanBaseMySql \<Rightarrow> ''OceanBase'')"

definition mysql_api_mode :: "MySqlFlavor \<Rightarrow> string" where
  "mysql_api_mode flavor = (case flavor of Flavor_OceanBaseMySql \<Rightarrow> ''oceanbase_mysql'' | _ \<Rightarrow> ''mysql'')"

definition mysql_manifest :: "MySqlFlavor \<Rightarrow> ConnectorManifest" where
  "mysql_manifest flavor =
     (let (mid, display_name, product, limitations) =
        (case flavor of
           Flavor_MySql \<Rightarrow> (''mysql-protocol'', ''MySQL'', MySql,
             [''native SQL must be one SELECT/WITH or one INSERT/UPDATE/DELETE statement without a semicolon'',
              ''prepared-statement values use MySQL'' @ [CHR 39] @ ''s binary protocol''])
         | Flavor_TiDb \<Rightarrow> (''tidb-mysql'', ''TiDB'', TiDb,
             [''uses TiDB'' @ [CHR 39] @ ''s MySQL protocol compatibility; unsupported MySQL features are not implied'',
              ''transactional max_affected enforcement follows the target TiDB transaction semantics''])
         | Flavor_OceanBaseMySql \<Rightarrow> (''oceanbase-mysql'', ''OceanBase (MySQL mode)'', OceanBase,
             [''supports OceanBase MySQL mode only; Oracle mode is not routed to this adapter'',
              ''uses MySQL protocol compatibility and does not imply every MySQL extension''])) in
      \<lparr>mf_id = mid, mf_display_name = display_name, mf_product = product,
       mf_api_mode = (if flavor = Flavor_OceanBaseMySql then ''oceanbase_mysql'' else ''mysql''),
       mf_driver = ''mysql_async'', mf_driver_version = ''0.36.1'', mf_status = Experimental,
       mf_capabilities = [Cap_TestConnection, Cap_Discover, Cap_Describe, Cap_Read, Cap_Insert,
         Cap_Update, Cap_Delete, Cap_NativeQuery, Cap_NativeExecute],
       mf_auth_kinds = [Auth_UsernamePassword, Auth_ConnectionString, Auth_ClientCertificate],
       mf_limitations = limitations\<rparr>)"

definition mysql_validate_profile :: "MySqlFlavor \<Rightarrow> ConnectionProfile \<Rightarrow> ConnectorError + unit" where
  "mysql_validate_profile flavor profile =
     (let mode = pr_api_mode profile;
          matches = (case flavor of
              Flavor_MySql \<Rightarrow> pr_product profile = MySql \<and> mode \<in> {''mysql'', ''mysql_protocol''}
            | Flavor_TiDb \<Rightarrow> pr_product profile = TiDb \<and> mode \<in> {''mysql'', ''mysql_protocol''}
            | Flavor_OceanBaseMySql \<Rightarrow> pr_product profile = OceanBase \<and> mode \<in> {''mysql'', ''oceanbase_mysql'', ''mysql_protocol''}) in
      if \<not> matches then
        Inl (invalid (''profile product/api_mode does not match connector `'' @ mf_id (mysql_manifest flavor) @ ''`''))
      else
        bind_res (validate_tls profile) (\<lambda>_.
          if pr_auth_kind profile = Auth_ClientCertificate \<and>
             (\<not> tls_enabled (pr_tls profile) \<or> tls_client_certificate_ref (pr_tls profile) = None) then
            Inl (invalid ''MySQL client-certificate authentication requires TLS and tls.client_certificate_ref'')
          else Inr ()))"

definition mysql_verify_server_flavor :: "MySqlFlavor \<Rightarrow> string \<Rightarrow> ConnectorError + unit" where
  "mysql_verify_server_flavor flavor version =
     (let version = to_ascii_lowercase version;
          detected = (if str_contains version ''tidb'' then Some ''TiDB''
            else if str_contains version ''oceanbase'' then Some ''OceanBase''
            else if str_contains version ''mariadb'' then Some ''MariaDB'' else None);
          mismatch = (\<lambda>message. Inl (with_code ''product_mismatch'' (ConnectorError_new Cat_Protocol message))) in
      if (flavor, detected) \<in> {(Flavor_MySql, None), (Flavor_TiDb, Some ''TiDB''), (Flavor_OceanBaseMySql, Some ''OceanBase'')} then Inr ()
      else
        (case detected of
           Some product \<Rightarrow> mismatch (''the endpoint identifies itself as '' @ product @ '', not '' @ mysql_flavor_name flavor)
         | None \<Rightarrow> mismatch (''the endpoint does not identify itself as '' @ mysql_flavor_name flavor)))"

definition split_mysql_entity :: "string \<Rightarrow> string option \<Rightarrow> ConnectorError + string \<times> string" where
  "split_mysql_entity entity_id default_database =
     (let refused = Inl (invalid ''MySQL entity must use `database.table`'') in
      case split_on (CHR ''.'') entity_id of
        [table] \<Rightarrow> if table \<noteq> [] then
            (case default_database of
               Some database \<Rightarrow> if database \<noteq> [] then Inr (database, table) else refused
             | None \<Rightarrow> refused)
          else refused
      | [database, table] \<Rightarrow> if database \<noteq> [] \<and> table \<noteq> [] then Inr (database, table) else refused
      | _ \<Rightarrow> refused)"

definition mysql_validate_native_language :: "string \<Rightarrow> ConnectorError + unit" where
  "mysql_validate_native_language language =
     (if list_ex (eq_ignore_ascii_case language) [''sql'', ''mysql''] then Inr ()
      else Inl (unsupported ''MySQL native requests require language `sql` or `mysql`''))"

section \<open>Connections\<close>

record MySsl =
  ms_accept_invalid_certs :: bool
  ms_skip_domain_validation :: bool
  ms_root_certs :: "string list"
  ms_hostname_override :: "string option"
  ms_client_identity :: "(string \<times> string) option"

record MyOpts =
  mo_host :: string
  mo_port :: u16
  mo_user :: "string option"
  mo_pass :: "string option"
  mo_db :: "string option"
  mo_prefer_socket :: bool
  mo_socket :: "string option"
  mo_init :: "string list"
  mo_setup :: "string list"
  mo_ssl :: "MySsl option"
  mo_pool_max :: nat

text \<open>
  Other crates: \<open>Url::port\<close>, \<open>Opts::from_url\<close> and the defaults of \<open>mysql_async\<close>; decoding a PEM document into its
  label and contents, the RSA key inside a PKCS\#8 document (\<open>None\<close> when it is not one), and encoding a PKCS\#1 document.
\<close>

record mysql_connect_env =
  mce_port :: "Url \<Rightarrow> u16 option"
  mce_from_url :: "string \<Rightarrow> MyOpts option"
  mce_default :: MyOpts
  mce_from_pem :: "string \<Rightarrow> (string \<times> string) option"
  mce_pkcs8_rsa :: "string \<Rightarrow> string option"
  mce_to_pem :: "string \<Rightarrow> string option"

definition mysql_port :: "mysql_connect_env \<Rightarrow> ConnectionProfile \<Rightarrow> u16" where
  "mysql_port env profile = (case mce_port env (pr_endpoint profile) of Some port \<Rightarrow> port | None \<Rightarrow> 3306)"

definition mysql_connection_string_target :: "mysql_connect_env \<Rightarrow> ConnectionProfile \<Rightarrow> MyOpts \<Rightarrow> ConnectorError + unit" where
  "mysql_connection_string_target env profile opts =
     bind_res (ok_or (url_host (pr_endpoint profile)) (invalid ''MySQL endpoint must include a host'')) (\<lambda>expected_host.
       if \<not> eq_ignore_ascii_case (mo_host opts) expected_host then
         Inl (invalid ''MySQL connection string host does not match the profile endpoint'')
       else if mo_port opts \<noteq> mysql_port env profile then
         Inl (invalid ''MySQL connection string port does not match the profile endpoint'')
       else if mo_db opts \<noteq> pr_database profile then
         Inl (invalid ''MySQL connection string database does not match profile.database'')
       else if mo_socket opts \<noteq> None then
         Inl (invalid ''MySQL connection string socket is not allowed because it can bypass the profile endpoint'')
       else if mo_init opts \<noteq> [] \<or> mo_setup opts \<noteq> [] then
         Inl (invalid ''MySQL connection string init/setup statements are not allowed'')
       else Inr ())"

definition mysql_missing_tls_secret :: "string \<Rightarrow> ConnectorError" where
  "mysql_missing_tls_secret name =
     ConnectorError_new Cat_Authentication (''MySQL TLS credential field '' @ name @ '' is required'')"

definition invalid_mysql_client_private_key :: ConnectorError where
  "invalid_mysql_client_private_key =
     with_code ''invalid_client_private_key'' (with_phase Phase_Tls (ConnectorError_new Cat_InvalidRequest
       ''MySQL client private key must be an unencrypted RSA key in PKCS#1 or PKCS#8 PEM format''))"

text \<open>A trailing NUL or ASCII white space is cut before the PEM document is read.\<close>

definition trim_key_end :: "string \<Rightarrow> string" where
  "trim_key_end s = rev (dropWhile (\<lambda>c. byte c \<in> {0, 9, 10, 12, 13, 32}) (rev s))"

definition normalize_mysql_client_private_key :: "mysql_connect_env \<Rightarrow> string \<Rightarrow> ConnectorError + string" where
  "normalize_mysql_client_private_key env private_key_pem =
     ok_or (Option.bind (mce_from_pem env (trim_key_end private_key_pem)) (\<lambda>(label, document).
       Option.bind
         (if label = ''RSA PRIVATE KEY'' then Some document
          else if label = ''PRIVATE KEY'' then mce_pkcs8_rsa env document else None)
         (mce_to_pem env))) invalid_mysql_client_private_key"

definition mysql_ssl :: "mysql_connect_env \<Rightarrow> ConnectionProfile \<Rightarrow> SecretMaterial \<Rightarrow> ConnectorError + MySsl" where
  "mysql_ssl env profile secret =
     bind_res
       (case tls_ca_certificate_ref (pr_tls profile) of
          None \<Rightarrow> Inr []
        | Some reference \<Rightarrow> map_res (\<lambda>pem. [pem]) (ok_or (tls_secret_value secret (Some reference) [''ca_certificate_pem''])
            (mysql_missing_tls_secret ''the field referenced by tls.ca_certificate_ref or ca_certificate_pem''))) (\<lambda>roots.
     bind_res
       (case tls_client_certificate_ref (pr_tls profile) of
          None \<Rightarrow> Inr None
        | Some reference \<Rightarrow>
            bind_res (ok_or (tls_secret_value secret (Some reference) [''client_certificate_pem''])
                (mysql_missing_tls_secret ''the field referenced by tls.client_certificate_ref or client_certificate_pem''))
              (\<lambda>certificate.
            bind_res (ok_or (tls_secret_value secret None [''client_private_key_pem'', ''private_key_pem''])
                (mysql_missing_tls_secret ''client_private_key_pem or private_key_pem'')) (\<lambda>key.
            map_res (\<lambda>key. Some (certificate, key)) (normalize_mysql_client_private_key env key)))) (\<lambda>identity.
     Inr \<lparr>ms_accept_invalid_certs = False, ms_skip_domain_validation = False, ms_root_certs = roots,
       ms_hostname_override = tls_server_name (pr_tls profile), ms_client_identity = identity\<rparr>))"

text \<open>The options before TLS and the pool: the \<open>match\<close> at the start of \<open>build_options\<close>.\<close>

definition mysql_base_options :: "mysql_connect_env \<Rightarrow> ConnectionProfile \<Rightarrow> SecretMaterial \<Rightarrow> ConnectorError + MyOpts" where
  "mysql_base_options env profile secret =
     (if sm_kind secret = Auth_ConnectionString then
        bind_res (required_secret secret ''connection_string'') (\<lambda>url.
        bind_res (ok_or (mce_from_url env url) (invalid ''MySQL connection string is invalid'')) (\<lambda>opts.
        bind_res (mysql_connection_string_target env profile opts) (\<lambda>_. Inr opts)))
      else if sm_kind secret = Auth_UsernamePassword \<or> sm_kind secret = Auth_ClientCertificate then
        bind_res (ok_or (url_host (pr_endpoint profile)) (invalid ''MySQL endpoint must include a host'')) (\<lambda>host.
        bind_res (required_secret secret ''username'') (\<lambda>user.
        bind_res (if sm_kind secret = Auth_UsernamePassword then map_res Some (required_secret secret ''password'')
            else Inr (mo_pass (mce_default env))) (\<lambda>pass.
        let opts = (mce_default env)\<lparr>mo_host := host, mo_port := mysql_port env profile, mo_prefer_socket := False,
              mo_user := Some user, mo_pass := pass\<rparr> in
        Inr (case pr_database profile of Some database \<Rightarrow> opts\<lparr>mo_db := Some database\<rparr> | None \<Rightarrow> opts))))
      else Inl (unsupported
        ''MySQL supports username/password, connection string, or client-certificate authentication''))"

definition build_options :: "mysql_connect_env \<Rightarrow> ConnectionProfile \<Rightarrow> SecretMaterial \<Rightarrow> ConnectorError + MyOpts" where
  "build_options env profile secret =
     bind_res (mysql_base_options env profile secret) (\<lambda>opts.
     bind_res (if tls_enabled (pr_tls profile) then map_res Some (mysql_ssl env profile secret) else Inr None) (\<lambda>ssl.
     Inr (opts\<lparr>mo_prefer_socket := False, mo_ssl := ssl, mo_pool_max := 4\<rparr>)))"

section \<open>Errors of the driver\<close>

text \<open>An error of the server with its code and state; of the rest, what the adapter asks: TLS, and whether it is fatal.\<close>

datatype MySqlError = My_Server u16 string | My_NoKeyFound | My_Other bool bool

definition map_mysql_error :: "MySqlError \<Rightarrow> bool \<Rightarrow> ConnectorError" where
  "map_mysql_error e write =
     (case e of
        My_Server code state \<Rightarrow>
          let category =
              (if code = 1045 then Cat_Authentication
               else if code \<in> {1044, 1142, 1143} then Cat_PermissionDenied
               else if code = 1049 then Cat_NotFound
               else if code \<in> {1062, 1213} then Cat_Conflict
               else if code = 1205 then Cat_Timeout
               else if code \<in> {1040, 1053} then Cat_Unavailable
               else if code \<in> {1064, 1146, 1366} then Cat_InvalidRequest
               else Cat_Protocol) in
          with_retryable (code \<in> {1040, 1053, 1205, 1213}) (with_code (show_word code)
            (ConnectorError_new category (''MySQL request failed with code '' @ show_word code @ '' and SQLSTATE '' @ state)))
      | My_NoKeyFound \<Rightarrow> invalid_mysql_client_private_key
      | My_Other tls fatal \<Rightarrow>
          if tls then with_phase Phase_Tls (ConnectorError_new (if write then Cat_UnknownOutcome else Cat_Unavailable) ''MySQL TLS handshake failed'')
          else with_retryable (\<not> write \<and> fatal)
            (ConnectorError_new (if write \<and> fatal then Cat_UnknownOutcome else if fatal then Cat_Unavailable else Cat_Protocol)
              ''MySQL driver could not complete the request''))"

text \<open>\<open>connect\<close>: \<open>None\<close> when the wait for a connection ran into the timeout.\<close>

definition mysql_connect_from ::
  "(ConnectionCacheIdentity \<Rightarrow> 'd option) \<Rightarrow> mysql_connect_env \<Rightarrow> ConnectionProfile \<Rightarrow> SecretMaterial
     \<Rightarrow> (MyOpts \<Rightarrow> (MySqlError + unit) option) \<Rightarrow> ('d, MyOpts) pools \<Rightarrow> (ConnectorError + MyOpts) \<times> ('d, MyOpts) pools" where
  "mysql_connect_from digest env profile secret wait pools =
     (case pool_for digest (build_options env) profile secret pools of
        (Inl e, pools) \<Rightarrow> (Inl e, pools)
      | (Inr pool, pools) \<Rightarrow>
          (case wait pool of
             None \<Rightarrow> Inl (ConnectorError_new Cat_Timeout ''MySQL connection timed out'')
           | Some (Inl e) \<Rightarrow> Inl (map_mysql_error e False)
           | Some (Inr _) \<Rightarrow> Inr pool, pools))"

definition mysql_execute_checks :: "MySqlFlavor \<Rightarrow> ConnectionProfile \<Rightarrow> SecretMaterial \<Rightarrow> ConnectorError + unit" where
  "mysql_execute_checks flavor profile secret =
     bind_res (mysql_validate_profile flavor profile) (\<lambda>_. validate_auth profile secret)"

text \<open>\<open>validate_connection_input\<close> of the adapter; \<open>None\<close> would be a panic of \<open>into_descriptor\<close>.\<close>

definition mysql_validate_connection_input ::
  "(json \<Rightarrow> string) \<Rightarrow> mysql_connect_env \<Rightarrow> MySqlFlavor \<Rightarrow> ConnectionProfile \<Rightarrow> SecretMaterial
     \<Rightarrow> (ConnectorError + unit) option" where
  "mysql_validate_connection_input to_str env flavor profile secret =
     map_option (\<lambda>descriptor.
       bind_res (validate_connection_input to_str descriptor profile secret) (\<lambda>_.
       bind_res (mysql_validate_profile flavor profile) (\<lambda>_.
       bind_res (validate_auth profile secret) (\<lambda>_.
       map_res (\<lambda>_. ()) (build_options env profile secret)))))
       (into_descriptor (mysql_manifest flavor))"

lemma mysql_manifest_describable: "into_descriptor (mysql_manifest flavor) \<noteq> None"
  by (cases flavor; simp only:; code_simp)

section \<open>Values\<close>

datatype MyValue =
    Mv_Null
  | Mv_Int "64 word"
  | Mv_UInt u64
  | Mv_Float "32 word"
  | Mv_Double f64
  | Mv_Bytes string
  | Mv_Date u16 u8 u8 u8 u8 u8 u32
  | Mv_Time bool u32 u8 u8 u8 u32

text \<open>The column types that \<open>mysql_value_to_db\<close> tells apart.\<close>

datatype MyColumn = Col_Decimal | Col_Json | Col_Binary | Col_Other

text \<open>
  Other crates: dates and times of \<open>chrono\<close> (year, month, day; hour, minute, second, nanosecond; the UTC date and time of
  an RFC 3339 text), base64, JSON, UTF-8 and the widening of an \<open>f32\<close>.
\<close>

record mysql_value_env =
  mv_date :: "string \<Rightarrow> (int \<times> u32 \<times> u32) option"
  mv_time :: "string \<Rightarrow> (u32 \<times> u32 \<times> u32 \<times> u32) option"
  mv_rfc3339 :: "string \<Rightarrow> ((int \<times> u32 \<times> u32) \<times> (u32 \<times> u32 \<times> u32 \<times> u32)) option"
  mv_b64_decode :: "string \<Rightarrow> string option"
  mv_b64_encode :: "string \<Rightarrow> string"
  mv_json :: "DbValue \<Rightarrow> string + string"
  mv_from_json :: "string \<Rightarrow> DbValue option"
  mv_utf8 :: "string \<Rightarrow> bool"
  mv_widen :: "32 word \<Rightarrow> f64"

definition try_u8 :: "string \<Rightarrow> u32 \<Rightarrow> ConnectorError + u8" where
  "try_u8 what n = (if unat n < 2 ^ 8 then Inr (ucast n) else Inl (invalid (''MySQL '' @ what @ '' is out of range'')))"

definition mysql_date_parts :: "int \<times> u32 \<times> u32 \<Rightarrow> ConnectorError + u16 \<times> u8 \<times> u8" where
  "mysql_date_parts value =
     (case value of (year, month, day) \<Rightarrow>
      bind_res (if 0 \<le> year \<and> year < 2 ^ 16 then Inr (word_of_int year) else Inl (invalid ''MySQL date year is out of range'')) (\<lambda>year.
      bind_res (try_u8 ''date month'' month) (\<lambda>month.
      bind_res (try_u8 ''date day'' day) (\<lambda>day. Inr (year, month, day)))))"

definition mysql_time_parts :: "u32 \<times> u32 \<times> u32 \<times> u32 \<Rightarrow> ConnectorError + u8 \<times> u8 \<times> u8 \<times> u32" where
  "mysql_time_parts value =
     (case value of (hour, minute, second, nanosecond) \<Rightarrow>
      bind_res (try_u8 ''time hour'' hour) (\<lambda>hour.
      bind_res (try_u8 ''time minute'' minute) (\<lambda>minute.
      bind_res (try_u8 ''time second'' second) (\<lambda>second. Inr (hour, minute, second, nanosecond div 1000)))))"

definition db_value_to_mysql :: "mysql_value_env \<Rightarrow> DbValue \<Rightarrow> ConnectorError + MyValue" where
  "db_value_to_mysql env value =
     (case value of
        DbNull \<Rightarrow> Inr Mv_Null
      | DbBool b \<Rightarrow> Inr (Mv_Int (if b then 1 else 0))
      | DbInt64 n \<Rightarrow> Inr (Mv_Int n)
      | DbUInt64 n \<Rightarrow> Inr (Mv_UInt n)
      | DbFloat64 x \<Rightarrow> Inr (Mv_Double x)
      | DbDecimal s \<Rightarrow> Inr (Mv_Bytes s)
      | DbString s \<Rightarrow> Inr (Mv_Bytes s)
      | DbUuid s \<Rightarrow> Inr (Mv_Bytes s)
      | DbDate s \<Rightarrow>
          bind_res (ok_or (mv_date env s) (invalid ''date parameter must use YYYY-MM-DD'')) (\<lambda>date.
          bind_res (mysql_date_parts date) (\<lambda>(year, month, day). Inr (Mv_Date year month day 0 0 0 0)))
      | DbTime s \<Rightarrow>
          bind_res (ok_or (mv_time env s) (invalid ''time parameter must use HH:MM:SS[.fraction]'')) (\<lambda>time.
          bind_res (mysql_time_parts time) (\<lambda>(hour, minute, second, micros). Inr (Mv_Time False 0 hour minute second micros)))
      | DbDateTime s \<Rightarrow>
          bind_res (ok_or (mv_rfc3339 env s) (invalid ''datetime parameter must use RFC 3339'')) (\<lambda>(date, time).
          bind_res (mysql_date_parts date) (\<lambda>(year, month, day).
          bind_res (mysql_time_parts time) (\<lambda>(hour, minute, second, micros).
          Inr (Mv_Date year month day hour minute second micros))))
      | DbBinary s \<Rightarrow> bind_res (ok_or (mv_b64_decode env s) (invalid ''binary parameter is not valid base64'')) (\<lambda>bytes. Inr (Mv_Bytes bytes))
      | _ \<Rightarrow> map_res Mv_Bytes (map_err (\<lambda>e. invalid (''could not encode JSON parameter: '' @ e)) (mv_json env value)))"

text \<open>\<open>{n:0w}\<close>.\<close>

definition padded :: "nat \<Rightarrow> nat \<Rightarrow> string" where
  "padded w n = (let s = show_nat n in replicate (w - length s) (CHR ''0'') @ s)"

definition mysql_value_to_db :: "mysql_value_env \<Rightarrow> MyValue \<Rightarrow> MyColumn \<Rightarrow> ConnectorError + DbValue" where
  "mysql_value_to_db env value column =
     (case value of
        Mv_Null \<Rightarrow> Inr DbNull
      | Mv_Int n \<Rightarrow> Inr (DbInt64 n)
      | Mv_UInt n \<Rightarrow> Inr (DbUInt64 n)
      | Mv_Float x \<Rightarrow> Inr (DbFloat64 (mv_widen env x))
      | Mv_Double x \<Rightarrow> Inr (DbFloat64 x)
      | Mv_Bytes bytes \<Rightarrow>
          (case column of
             Col_Decimal \<Rightarrow> if mv_utf8 env bytes then Inr (DbDecimal bytes)
               else Inl (ConnectorError_new Cat_Protocol ''MySQL decimal is not UTF-8'')
           | Col_Json \<Rightarrow> ok_or (mv_from_json env bytes) (ConnectorError_new Cat_Protocol ''MySQL JSON value is invalid'')
           | Col_Binary \<Rightarrow> Inr (DbBinary (mv_b64_encode env bytes))
           | Col_Other \<Rightarrow> Inr (if mv_utf8 env bytes then DbString bytes else DbBinary (mv_b64_encode env bytes)))
      | Mv_Date year month day hour minute second micros \<Rightarrow>
          let date = padded 4 (unat year) @ ''-'' @ padded 2 (unat month) @ ''-'' @ padded 2 (unat day) in
          Inr (if hour = 0 \<and> minute = 0 \<and> second = 0 \<and> micros = 0 then DbDate date
            else DbDateTime (date @ ''T'' @ padded 2 (unat hour) @ '':'' @ padded 2 (unat minute) @ '':'' @ padded 2 (unat second) @
              ''.'' @ padded 6 (unat micros)))
      | Mv_Time negative days hours minutes seconds micros \<Rightarrow>
          Inr (DbTime ((if negative then ''-'' else []) @ padded 2 (unat (ucast days * 24 + ucast hours :: u64)) @ '':'' @
            padded 2 (unat minutes) @ '':'' @ padded 2 (unat seconds) @ ''.'' @ padded 6 (unat micros))))"

text \<open>A row: each column with its name, type and value, if there is one.\<close>

type_synonym MyRow = "(string \<times> MyColumn \<times> MyValue option) list"

definition mysql_row_to_record :: "mysql_value_env \<Rightarrow> MyRow \<Rightarrow> ConnectorError + DbRecord" where
  "mysql_row_to_record env row =
     map_res (foldl (\<lambda>m (k, v). bt_insert k v m) [])
       (map_results (\<lambda>(name, column, value).
          bind_res (ok_or value (ConnectorError_new Cat_Protocol ''MySQL row is incomplete'')) (\<lambda>value.
          map_res (Pair name) (mysql_value_to_db env value column))) row)"

section \<open>Requests\<close>

text \<open>
  The calls of the driver. \<open>Myc_Query\<close> answers the rows up to the end of the result, or up to the error that ended it; \<open>Myc_Drop\<close>
  reads a result to its end.
\<close>

datatype MyCall =
    Myc_Connect int
  | Myc_Begin bool
  | Myc_Query string "MyValue list"
  | Myc_Execute string "MyValue list"
  | Myc_Drop
  | Myc_Commit
  | Myc_Rollback
  | Myc_Elapsed

datatype MyReply =
    Myr_Connected "ConnectorError + unit"
  | Myr_Done "MySqlError + unit"
  | Myr_Rows "MySqlError + MyRow list \<times> MySqlError option"
  | Myr_Affected "MySqlError + u64"
  | Myr_Elapsed u64

type_synonym 'a MyProgram = "(MyCall, MyReply, ConnectorError + 'a) Prog"

fun my_connected :: "MyReply \<Rightarrow> ConnectorError + unit" where
  "my_connected (Myr_Connected x) = x"
| "my_connected _ = Inr ()"

fun my_done :: "MyReply \<Rightarrow> MySqlError + unit" where
  "my_done (Myr_Done x) = x"
| "my_done _ = Inr ()"

fun my_rows :: "MyReply \<Rightarrow> MySqlError + MyRow list \<times> MySqlError option" where
  "my_rows (Myr_Rows x) = x"
| "my_rows _ = Inr ([], None)"

fun my_affected :: "MyReply \<Rightarrow> MySqlError + u64" where
  "my_affected (Myr_Affected x) = x"
| "my_affected _ = Inr 0"

fun my_elapsed :: "MyReply \<Rightarrow> u64" where
  "my_elapsed (Myr_Elapsed ms) = ms"
| "my_elapsed _ = 0"

record mysql_env =
  my_cursors :: cursor_env
  my_sizes :: size_env
  my_parse :: "Dialect \<Rightarrow> string \<Rightarrow> string + NativeStatement list"
  my_values :: mysql_value_env

text \<open>The loop over the rows of a query: rows past the limit and one more are read and dropped.\<close>

fun collect_rows :: "mysql_value_env \<Rightarrow> nat \<Rightarrow> MyRow list \<Rightarrow> MySqlError option \<Rightarrow> DbRecord list \<Rightarrow> ConnectorError + DbRecord list" where
  "collect_rows env row_limit [] broken records =
     (case broken of None \<Rightarrow> Inr records | Some e \<Rightarrow> Inl (map_mysql_error e False))"
| "collect_rows env row_limit (row # rows) broken records =
     (if length records \<le> row_limit then
        bind_res (mysql_row_to_record env row) (\<lambda>record. collect_rows env row_limit rows broken (records @ [record]))
      else collect_rows env row_limit rows broken records)"

definition mysql_read_result :: "mysql_env \<Rightarrow> ConnectorContext \<Rightarrow> u64 \<Rightarrow> DbRecord list \<Rightarrow> OperationResult" where
  "mysql_read_result env cx elapsed records =
     \<lparr>or_request_id = cx_request_id cx, or_records = records, or_next_cursor = None, or_truncated = False,
      or_warnings = [],
      or_metrics = ResultMetrics_default\<lparr>rm_elapsed_ms := elapsed, rm_returned := word_of_nat (length records),
        rm_bytes := (case sz_records (my_sizes env) records of Inr n \<Rightarrow> Some (word_of_nat n) | Inl _ \<Rightarrow> None)\<rparr>,
      or_outcome = Outcome_NotApplicable\<rparr>"

definition mysql_query_built ::
  "mysql_env \<Rightarrow> ConnectorContext \<Rightarrow> BuiltQuery \<Rightarrow> (ConnectorError + OperationResult \<Rightarrow> OperationResult MyProgram)
     \<Rightarrow> OperationResult MyProgram" where
  "mysql_query_built env cx built continue =
     (case map_results (db_value_to_mysql (my_values env)) (bq_parameters built) of
        Inl e \<Rightarrow> continue (Inl e)
      | Inr parameters \<Rightarrow> Do (Myc_Query (bq_sql built) parameters) (\<lambda>r.
          case my_rows r of
            Inl e \<Rightarrow> continue (Inl (map_mysql_error e False))
          | Inr (rows, broken) \<Rightarrow>
              let row_limit = (case bq_row_limit built of Some n \<Rightarrow> n | None \<Rightarrow> unat (cx_max_rows cx)) in
              (case collect_rows (my_values env) row_limit rows broken [] of
                 Inl e \<Rightarrow> continue (Inl e)
               | Inr records \<Rightarrow> Do Myc_Elapsed (\<lambda>t.
                   continue (truncate_records (my_cursors env) (my_sizes env) (mysql_read_result env cx (my_elapsed t) records)
                     row_limit (cx_max_bytes cx) False (bq_base_offset built))))))"

definition mysql_named_parameters_error :: string where
  "mysql_named_parameters_error =
     ''MySQL native SQL accepts positional_parameters with ? placeholders; named parameters are not rewritten''"

definition mysql_native_built :: "string \<Rightarrow> NativeRequest \<Rightarrow> u32 \<Rightarrow> BuiltQuery" where
  "mysql_native_built statement request limit =
     \<lparr>bq_sql = ''SELECT * FROM ('' @ statement @ '') AS `__mcp_native` LIMIT '' @ show_word (ucast limit + 1 :: u64),
      bq_parameters = nat_positional_parameters request, bq_row_limit = Some (unat limit), bq_base_offset = None\<rparr>"

definition mysql_native_query :: "mysql_env \<Rightarrow> ConnectorContext \<Rightarrow> ConnectionProfile \<Rightarrow> NativeRequest \<Rightarrow> OperationResult MyProgram" where
  "mysql_native_query env cx profile request =
     (case bind_res (mysql_validate_native_language (nat_language request)) (\<lambda>_.
          if nat_parameters request \<noteq> [] then Inl (invalid mysql_named_parameters_error)
          else
            bind_res (parse_native (my_parse env) Fam_MySql (nat_statement request) False) (\<lambda>statement.
            bind_res (effective_row_limit cx profile (max (cx_max_rows cx) 1)) (\<lambda>limit. Inr (statement, limit)))) of
        Inl e \<Rightarrow> Return (Inl e)
      | Inr (statement, limit) \<Rightarrow>
          Do (Myc_Begin True) (\<lambda>r.
            case my_done r of
              Inl e \<Rightarrow> Return (Inl (map_mysql_error e False))
            | Inr _ \<Rightarrow> mysql_query_built env cx (mysql_native_built statement request limit) (\<lambda>result.
                case result of
                  Inr result \<Rightarrow> Do Myc_Commit (\<lambda>r.
                    case my_done r of
                      Inl e \<Rightarrow> Return (Inl (map_mysql_error e False))
                    | Inr _ \<Rightarrow> Return (Inr result))
                | Inl e \<Rightarrow> Do Myc_Rollback (\<lambda>_. Return (Inl e)))))"

definition mysql_execute_built :: "mysql_env \<Rightarrow> ConnectorContext \<Rightarrow> BuiltQuery \<Rightarrow> OperationResult MyProgram" where
  "mysql_execute_built env cx built =
     (case map_results (db_value_to_mysql (my_values env)) (bq_parameters built) of
        Inl e \<Rightarrow> Return (Inl e)
      | Inr parameters \<Rightarrow> Do (Myc_Execute (bq_sql built) parameters) (\<lambda>r.
          case my_affected r of
            Inl e \<Rightarrow> Return (Inl (map_mysql_error e True))
          | Inr affected \<Rightarrow> Do Myc_Drop (\<lambda>r.
              case my_done r of
                Inl e \<Rightarrow> Return (Inl (map_mysql_error e True))
              | Inr _ \<Rightarrow> Do Myc_Elapsed (\<lambda>t. Return (Inr (write_result cx (my_elapsed t) affected))))))"

definition mysql_native_execute :: "mysql_env \<Rightarrow> ConnectorContext \<Rightarrow> ConnectionProfile \<Rightarrow> NativeRequest \<Rightarrow> OperationResult MyProgram" where
  "mysql_native_execute env cx profile request =
     (case bind_res (mysql_validate_native_language (nat_language request)) (\<lambda>_.
          if nat_parameters request \<noteq> [] then Inl (invalid mysql_named_parameters_error)
          else
            bind_res (parse_native (my_parse env) Fam_MySql (nat_statement request) True) (\<lambda>statement.
            bind_res (ok_or (nat_max_affected request) (invalid ''native execute requires max_affected'')) (\<lambda>requested.
            bind_res (effective_write_limit profile requested) (\<lambda>limit.
            bind_res (map_results (db_value_to_mysql (my_values env)) (nat_positional_parameters request)) (\<lambda>parameters.
            Inr (statement, parameters, limit)))))) of
        Inl e \<Rightarrow> Return (Inl e)
      | Inr (statement, parameters, limit) \<Rightarrow>
          Do (Myc_Begin False) (\<lambda>r.
            case my_done r of
              Inl e \<Rightarrow> Return (Inl (map_mysql_error e True))
            | Inr _ \<Rightarrow> Do (Myc_Execute statement parameters) (\<lambda>r.
                case my_affected r of
                  Inl e \<Rightarrow> Return (Inl (map_mysql_error e True))
                | Inr affected \<Rightarrow> Do Myc_Drop (\<lambda>r.
                    case my_done r of
                      Inl e \<Rightarrow> Return (Inl (map_mysql_error e True))
                    | Inr _ \<Rightarrow>
                        if affected > limit then
                          Do Myc_Rollback (\<lambda>r.
                            case my_done r of
                              Inl e \<Rightarrow> Return (Inl (map_mysql_error e True))
                            | Inr _ \<Rightarrow> Return (Inl (ConnectorError_new Cat_PermissionDenied
                                ''native SQL exceeded max_affected and was rolled back'')))
                        else
                          Do Myc_Commit (\<lambda>r.
                            case my_done r of
                              Inl e \<Rightarrow> Return (Inl (map_mysql_error e True))
                            | Inr _ \<Rightarrow> Do Myc_Elapsed (\<lambda>t. Return (Inr (write_result cx (my_elapsed t) affected))))))))"

definition mysql_execute_operation ::
  "mysql_env \<Rightarrow> MySqlFlavor \<Rightarrow> ConnectorContext \<Rightarrow> ConnectionProfile \<Rightarrow> DataOperation \<Rightarrow> OperationResult MyProgram" where
  "mysql_execute_operation env flavor cx profile operation =
     (let send = (\<lambda>built. case built of Inl e \<Rightarrow> Return (Inl e) | Inr built \<Rightarrow> mysql_execute_built env cx built) in
      case operation of
        Op_Read request \<Rightarrow>
          (case build_read (my_cursors env) Fam_MySql cx profile request of
             Inl e \<Rightarrow> Return (Inl e)
           | Inr built \<Rightarrow> mysql_query_built env cx built Return)
      | Op_Insert request \<Rightarrow> (case build_insert Fam_MySql profile request of None \<Rightarrow> Panic | Some built \<Rightarrow> send built)
      | Op_Update request \<Rightarrow> send (build_update Fam_MySql profile request)
      | Op_Delete request \<Rightarrow> send (build_delete Fam_MySql profile request)
      | Op_NativeQuery request \<Rightarrow>
          if \<not> pol_allow_native_read (pr_policy profile) then
            Return (Inl (ConnectorError_new Cat_PermissionDenied ''native reads are disabled by connection policy''))
          else mysql_native_query env cx profile request
      | Op_NativeExecute request \<Rightarrow>
          if \<not> pol_allow_native_write (pr_policy profile) then
            Return (Inl (ConnectorError_new Cat_PermissionDenied ''native writes are disabled by connection policy''))
          else mysql_native_execute env cx profile request
      | _ \<Rightarrow> Return (Inl (unsupported
          (''operation is not supported by the '' @ mysql_flavor_name flavor @ '' SQL connector''))))"

definition mysql_execute_inner ::
  "mysql_env \<Rightarrow> Instant \<Rightarrow> MySqlFlavor \<Rightarrow> ConnectorContext \<Rightarrow> ConnectionProfile \<Rightarrow> DataOperation
     \<Rightarrow> OperationResult MyProgram" where
  "mysql_execute_inner env now flavor cx profile operation =
     (case effective_timeout now cx profile
         (case operation of Op_Read request \<Rightarrow> qo_timeout_ms (rd_options request) | _ \<Rightarrow> None) of
        Inl e \<Rightarrow> Return (Inl e)
      | Inr timeout \<Rightarrow> Do (Myc_Connect timeout) (\<lambda>r.
          case my_connected r of
            Inl e \<Rightarrow> Return (Inl e)
          | Inr _ \<Rightarrow> mysql_execute_operation env flavor cx profile operation))"

section \<open>Where connections go\<close>

definition mysql_points_at :: "mysql_connect_env \<Rightarrow> ConnectionProfile \<Rightarrow> MyOpts \<Rightarrow> bool" where
  "mysql_points_at env profile opts \<longleftrightarrow>
     (\<exists>expected. url_host (pr_endpoint profile) = Some expected \<and> eq_ignore_ascii_case (mo_host opts) expected) \<and>
     mo_port opts = mysql_port env profile \<and> mo_db opts = pr_database profile \<and>
     mo_socket opts = None \<and> \<not> mo_prefer_socket opts \<and> mo_init opts = [] \<and> mo_setup opts = []"

text \<open>The default options of the driver name no database, socket or statements.\<close>

definition mysql_defaults :: "mysql_connect_env \<Rightarrow> bool" where
  "mysql_defaults env \<longleftrightarrow> mo_db (mce_default env) = None \<and> mo_socket (mce_default env) = None \<and>
     mo_init (mce_default env) = [] \<and> mo_setup (mce_default env) = []"

text \<open>The options before TLS and the pool, and the check of a connection string, point at the profile.\<close>

lemma mysql_string_target:
  assumes "mysql_connection_string_target env profile opts = Inr ()"
  shows "mysql_points_at env profile (opts\<lparr>mo_prefer_socket := False\<rparr>)"
  using assms by (auto simp: mysql_connection_string_target_def mysql_points_at_def res_simps split: if_splits)

lemma mysql_ssl_verifies:
  "mysql_ssl env profile secret = Inr ssl \<Longrightarrow> \<not> ms_accept_invalid_certs ssl \<and> \<not> ms_skip_domain_validation ssl"
  by (auto simp: mysql_ssl_def res_simps)

lemma eq_ignore_ascii_case_refl [simp]: "eq_ignore_ascii_case s s"
  by (simp add: eq_ignore_ascii_case_def)

lemma base_options_target:
  assumes "mysql_base_options env profile secret = Inr opts" "mysql_defaults env"
  shows "mysql_points_at env profile (opts\<lparr>mo_prefer_socket := False\<rparr>)"
proof (cases "sm_kind secret = Auth_ConnectionString")
  case True
  then show ?thesis using assms(1) mysql_string_target by (auto simp: mysql_base_options_def res_simps)
next
  case False
  then show ?thesis using assms
    by (cases "pr_database profile")
      (auto simp: mysql_base_options_def Let_def res_simps mysql_points_at_def mysql_defaults_def split: if_splits)
qed

lemma points_at_update [simp]:
  "mysql_points_at env profile (opts\<lparr>mo_prefer_socket := False, mo_ssl := ssl, mo_pool_max := n\<rparr>)
     = mysql_points_at env profile (opts\<lparr>mo_prefer_socket := False\<rparr>)"
  by (simp add: mysql_points_at_def)

lemma build_options_target:
  assumes "build_options env profile secret = Inr opts" "mysql_defaults env"
  shows "mysql_points_at env profile opts \<and> (mo_ssl opts \<noteq> None \<longleftrightarrow> tls_enabled (pr_tls profile)) \<and>
    (\<forall>ssl. mo_ssl opts = Some ssl \<longrightarrow> \<not> ms_accept_invalid_certs ssl \<and> \<not> ms_skip_domain_validation ssl)"
proof -
  obtain base ssl where base: "mysql_base_options env profile secret = Inr base"
    and ssl: "(if tls_enabled (pr_tls profile) then map_res Some (mysql_ssl env profile secret) else Inr None) = Inr ssl"
    and opts: "opts = base\<lparr>mo_prefer_socket := False, mo_ssl := ssl, mo_pool_max := 4\<rparr>"
    using assms(1) by (auto simp: build_options_def res_simps)
  show ?thesis using base_options_target [OF base assms(2)] ssl mysql_ssl_verifies
    by (auto simp: opts res_simps split: if_splits)
qed

lemma build_options_identity:
  assumes "cache_identity profile secret = cache_identity profile' secret'"
  shows "build_options env profile secret = build_options env profile' secret'"
proof -
  have same: "pr_endpoint profile = pr_endpoint profile'" "pr_database profile = pr_database profile'"
    "pr_tls profile = pr_tls profile'" "secret = secret'"
    using assms by (simp_all add: cache_identity_def)
  show ?thesis unfolding build_options_def mysql_base_options_def mysql_connection_string_target_def mysql_port_def mysql_ssl_def same ..
qed

interpretation mysql_pools: pool_builder "build_options env" for env
  by unfold_locales (rule build_options_identity)


definition sample_mysql_connect :: mysql_connect_env where
  "sample_mysql_connect = \<lparr>mce_port = (\<lambda>_. None), mce_from_url = (\<lambda>_. None),
     mce_default = \<lparr>mo_host = ''localhost'', mo_port = 3306, mo_user = None, mo_pass = None, mo_db = None, mo_prefer_socket = True,
       mo_socket = None, mo_init = [], mo_setup = [], mo_ssl = None, mo_pool_max = 100\<rparr>,
     mce_from_pem = (\<lambda>_. None), mce_pkcs8_rsa = (\<lambda>_. None), mce_to_pem = (\<lambda>_. None)\<rparr>"


section \<open>What a request does to the database\<close>

fun my_is_execute :: "MyCall \<Rightarrow> bool" where
  "my_is_execute (Myc_Execute _ _) = True"
| "my_is_execute _ = False"

text \<open>Statements that are committed at once: inserts, and updates and deletes with the limit in their text.\<close>

definition mysql_sent :: "mysql_env \<Rightarrow> (ConnectorError + BuiltQuery) \<Rightarrow> string \<Rightarrow> MyValue list \<Rightarrow> bool" where
  "mysql_sent env built sql ps \<longleftrightarrow>
     (\<exists>q. built = Inr q \<and> sql = bq_sql q \<and> map_results (db_value_to_mysql (my_values env)) (bq_parameters q) = Inr ps)"

definition mysql_bounded_statement :: "mysql_env \<Rightarrow> ConnectionProfile \<Rightarrow> DataOperation \<Rightarrow> string \<Rightarrow> MyValue list \<Rightarrow> bool" where
  "mysql_bounded_statement env profile operation =
     (case operation of
        Op_Insert request \<Rightarrow> (case build_insert Fam_MySql profile request of Some built \<Rightarrow> mysql_sent env built | None \<Rightarrow> (\<lambda>_ _. False))
      | Op_Update request \<Rightarrow> mysql_sent env (build_update Fam_MySql profile request)
      | Op_Delete request \<Rightarrow> mysql_sent env (build_delete Fam_MySql profile request)
      | _ \<Rightarrow> (\<lambda>_ _. False))"

text \<open>
  What the calls of a write must be: some first calls of one bounded statement, of a transaction that is rolled back, or
  of a transaction that is committed; and a commit is only sent when the statement changed no more than \<open>limit\<close> rows.
\<close>

definition mysql_write_events :: "(string \<Rightarrow> MyValue list \<Rightarrow> bool) \<Rightarrow> u64 \<Rightarrow> (MyCall \<times> MyReply) list \<Rightarrow> bool" where
  "mysql_write_events bounded limit es \<longleftrightarrow>
     (\<exists>sql ps. bounded sql ps \<and> prefix (map fst es) [Myc_Execute sql ps, Myc_Drop, Myc_Elapsed]) \<or>
     (\<exists>sql ps. prefix (map fst es) [Myc_Begin False, Myc_Execute sql ps, Myc_Drop, Myc_Rollback] \<or>
        prefix (map fst es) [Myc_Begin False, Myc_Execute sql ps, Myc_Drop, Myc_Commit, Myc_Elapsed] \<and>
        (Myc_Commit \<in> fst ` set es \<longrightarrow> (\<exists>affected. my_affected (snd (es ! 1)) = Inr affected \<and> affected \<le> limit)))"

lemma mysql_write_events_Nil [simp]: "mysql_write_events bounded limit []"
  by (simp add: mysql_write_events_def)

lemma mysql_execute_built_events:
  assumes "\<And>sql ps. mysql_sent env (Inr q) sql ps \<Longrightarrow> bounded sql ps"
  shows "all_paths (mysql_write_events bounded limit) (\<lambda>_ _. True) (mysql_execute_built env cx q) []"
proof (cases "map_results (db_value_to_mysql (my_values env)) (bq_parameters q)")
  case (Inr ps)
  then have "bounded (bq_sql q) ps" using assms by (simp add: mysql_sent_def)
  then show ?thesis using Inr by (auto simp: mysql_execute_built_def mysql_write_events_def split: sum.split)
qed (simp add: mysql_execute_built_def)

lemma mysql_native_execute_events:
  "all_paths (mysql_write_events bounded (pol_max_affected (pr_policy profile))) (\<lambda>_ _. True) (mysql_native_execute env cx profile request) []"
proof -
  have "limit \<le> pol_max_affected (pr_policy profile)" if "effective_write_limit profile requested = Inr limit" for requested limit
    using that by (rule effective_write_limit_le)
  then show ?thesis
    by (auto simp: mysql_native_execute_def mysql_write_events_def res_simps not_less split: sum.split prod.split if_splits
        dest: order_trans)
qed

text \<open>The calls of a read: no statement but queries, a native one in a read-only transaction.\<close>

definition mysql_read_events :: "bool \<Rightarrow> (MyCall \<times> MyReply) list \<Rightarrow> bool" where
  "mysql_read_events native es \<longleftrightarrow>
     (\<forall>(call, _) \<in> set es. \<not> my_is_execute call \<and> call \<noteq> Myc_Begin False) \<and>
     (native \<longrightarrow> es = [] \<or> fst (hd es) = Myc_Begin True)"

lemma mysql_query_built_events:
  assumes "\<And>es result. mysql_read_events native es \<Longrightarrow> (native \<Longrightarrow> es \<noteq> []) \<Longrightarrow>
      all_paths (mysql_read_events native) (\<lambda>_ _. True) (continue result) es"
    and "mysql_read_events native es" "native \<Longrightarrow> es \<noteq> []"
  shows "all_paths (mysql_read_events native) (\<lambda>_ _. True) (mysql_query_built env cx built continue) es"
proof -
  have more: "mysql_read_events native (es @ [(Myc_Query sql ps, r)])" "mysql_read_events native (es @ [(Myc_Query sql ps, r), (Myc_Elapsed, t)])"
    for sql ps r t using assms(2,3) by (auto simp: mysql_read_events_def)
  show ?thesis using assms more by (auto simp: mysql_query_built_def Let_def split: sum.split)
qed

lemma mysql_native_query_events: "all_paths (mysql_read_events True) (\<lambda>_ _. True) (mysql_native_query env cx profile request) []"
proof -
  have finish: "all_paths (mysql_read_events True) (\<lambda>_ _. True) (case result of
      Inr result \<Rightarrow> Do Myc_Commit (\<lambda>r. case my_done r of Inl e \<Rightarrow> Return (Inl (map_mysql_error e False)) | Inr _ \<Rightarrow> Return (Inr result))
    | Inl e \<Rightarrow> Do Myc_Rollback (\<lambda>_. Return (Inl e))) es"
    if "mysql_read_events True es" "True \<Longrightarrow> es \<noteq> []" for result :: "ConnectorError + OperationResult" and es
    using that by (auto simp: mysql_read_events_def split: sum.split)
  show ?thesis unfolding mysql_native_query_def
    by (auto simp: mysql_read_events_def split: sum.split intro!: mysql_query_built_events [OF finish])
qed

definition mysql_request_events :: "mysql_env \<Rightarrow> ConnectionProfile \<Rightarrow> DataOperation \<Rightarrow> (MyCall \<times> MyReply) list \<Rightarrow> bool" where
  "mysql_request_events env profile operation =
     (if pg_is_write operation
      then mysql_write_events (mysql_bounded_statement env profile operation) (pol_max_affected (pr_policy profile))
      else mysql_read_events (case operation of Op_NativeQuery _ \<Rightarrow> True | _ \<Rightarrow> False))"

lemma mysql_request_events_Nil [simp]: "mysql_request_events env profile operation []"
  by (simp add: mysql_request_events_def mysql_read_events_def)

lemma mysql_operation_events:
  "all_paths (mysql_request_events env profile operation) (\<lambda>_ _. True) (mysql_execute_operation env flavor cx profile operation) []"
proof (cases operation)
  case (Op_Read request)
  then show ?thesis
    by (auto simp: mysql_execute_operation_def mysql_request_events_def split: sum.split intro!: mysql_query_built_events)
      (simp_all add: mysql_read_events_def)
next
  case (Op_NativeQuery request)
  then show ?thesis using mysql_native_query_events [of env cx profile request]
    by (simp add: mysql_execute_operation_def mysql_request_events_def mysql_read_events_def)
next
  case (Op_NativeExecute request)
  then show ?thesis using mysql_native_execute_events by (simp add: mysql_execute_operation_def mysql_request_events_def)
next
  case (Op_Insert request)
  then show ?thesis
    by (auto simp: mysql_execute_operation_def mysql_request_events_def mysql_bounded_statement_def split: option.split sum.split
        intro!: mysql_execute_built_events)
next
  case (Op_Update request)
  then show ?thesis
    by (auto simp: mysql_execute_operation_def mysql_request_events_def mysql_bounded_statement_def split: sum.split
        intro!: mysql_execute_built_events)
next
  case (Op_Delete request)
  then show ?thesis
    by (auto simp: mysql_execute_operation_def mysql_request_events_def mysql_bounded_statement_def split: sum.split
        intro!: mysql_execute_built_events)
qed (simp_all add: mysql_execute_operation_def)

section \<open>What a write is reported as\<close>

text \<open>
  Errors that are reported as definite: a refusal of the server other than for lack of capacity, a shutdown or a lock wait
  timeout, a private key the driver cannot read, and an error that the driver calls not fatal.
\<close>

definition definite_error :: "MySqlError \<Rightarrow> bool" where
  "definite_error e \<longleftrightarrow>
     (case e of My_Server code _ \<Rightarrow> code \<notin> {1040, 1053, 1205} | My_NoKeyFound \<Rightarrow> True | My_Other tls fatal \<Rightarrow> \<not> tls \<and> \<not> fatal)"

definition definite :: "MySqlError + 'a \<Rightarrow> bool" where
  "definite reply = (case reply of Inl e \<Rightarrow> definite_error e | Inr _ \<Rightarrow> False)"

lemma definite_simps [simp]: "definite (Inl e) = definite_error e" "definite (Inr x) = False"
  by (simp_all add: definite_def)

lemma map_mysql_error_unknown:
  "definite_error e \<or> ce_category (classify_operation_error True (map_mysql_error e True)) = Cat_UnknownOutcome"
  by (cases e) (auto simp: definite_error_def map_mysql_error_def classify_operation_error_def Let_def)

definition mysql_reported :: "(MyCall \<times> MyReply) list \<Rightarrow> ConnectorError + OperationResult \<Rightarrow> bool" where
  "mysql_reported es r =
     (case r of
        Inr result \<Rightarrow> or_outcome result = Outcome_Succeeded \<and>
          (\<exists>sql ps reply. (Myc_Execute sql ps, reply) \<in> set es \<and> my_affected reply = Inr (rm_affected (or_metrics result))) \<and>
          (Myc_Begin False \<in> fst ` set es \<longrightarrow> (\<exists>reply. (Myc_Commit, reply) \<in> set es \<and> my_done reply = Inr ()))
      | Inl e \<Rightarrow> ce_category (classify_operation_error True e) = Cat_UnknownOutcome \<or>
          list_all (\<lambda>(call, _). \<not> my_is_execute call) es \<or>
          list_ex (\<lambda>(call, reply). case call of
              Myc_Execute _ _ \<Rightarrow> definite (my_affected reply) | Myc_Drop \<Rightarrow> definite (my_done reply)
            | Myc_Commit \<Rightarrow> definite (my_done reply) | Myc_Rollback \<Rightarrow> True | _ \<Rightarrow> False) es)"

lemma mysql_execute_built_reported: "all_paths (\<lambda>_. True) mysql_reported (mysql_execute_built env cx built) []"
  using map_mysql_error_unknown
  by (auto simp: mysql_execute_built_def mysql_reported_def write_result_def split: sum.split)

lemma mysql_native_execute_reported: "all_paths (\<lambda>_. True) mysql_reported (mysql_native_execute env cx profile request) []"
  using map_mysql_error_unknown
  by (auto simp: mysql_native_execute_def mysql_reported_def write_result_def split: sum.split)

lemma mysql_operation_reported:
  "pg_is_write operation \<Longrightarrow> all_paths (\<lambda>_. True) mysql_reported (mysql_execute_operation env flavor cx profile operation) []"
  using mysql_execute_built_reported mysql_native_execute_reported
  by (cases operation) (auto simp: mysql_execute_operation_def mysql_reported_def split: option.split sum.split)

section \<open>Requests as a whole\<close>

text \<open>A path of a request: it ends before a connection is asked for, or when there is none, or goes on with the operation.\<close>

lemma mysql_inner_path:
  assumes "path (mysql_execute_inner env now flavor cx profile operation) es q"
  shows "es = [] \<and> (\<forall>r. q = Return r \<longrightarrow> (\<exists>e. r = Inl e)) \<or>
    (\<exists>timeout reply rest. es = (Myc_Connect timeout, reply) # rest \<and>
       (rest = [] \<and> (\<exists>e. q = Return (Inl e)) \<or> path (mysql_execute_operation env flavor cx profile operation) rest q))"
proof (cases "effective_timeout now cx profile (case operation of Op_Read request \<Rightarrow> qo_timeout_ms (rd_options request) | _ \<Rightarrow> None)")
  case (Inl e)
  then show ?thesis using assms by (auto simp: mysql_execute_inner_def path_Return)
next
  case (Inr timeout)
  have "path (case my_connected r of Inl e \<Rightarrow> Return (Inl e) | Inr _ \<Rightarrow> mysql_execute_operation env flavor cx profile operation) rest q \<Longrightarrow>
      rest = [] \<and> (\<exists>e. q = Return (Inl e)) \<or> path (mysql_execute_operation env flavor cx profile operation) rest q" for r rest
    by (cases "my_connected r") (auto simp: path_Return)
  then show ?thesis using assms by (auto simp: mysql_execute_inner_def Inr path_Do)
qed


text \<open>An update that is executed.\<close>

definition sample_mysql_env :: mysql_env where
  "sample_mysql_env = \<lparr>my_cursors = sample_cursors, my_sizes = pg_sizes sample_pg_env, my_parse = (\<lambda>_ _. Inr []),
     my_values = \<lparr>mv_date = (\<lambda>_. None), mv_time = (\<lambda>_. None), mv_rfc3339 = (\<lambda>_. None), mv_b64_decode = Some, mv_b64_encode = id,
       mv_json = (\<lambda>_. Inr []), mv_from_json = (\<lambda>_. None), mv_utf8 = (\<lambda>_. True), mv_widen = ucast\<rparr>\<rparr>"

definition sample_mysql_answer :: "MyCall \<Rightarrow> MyReply" where
  "sample_mysql_answer call =
     (case call of Myc_Execute _ _ \<Rightarrow> Myr_Affected (Inr 2) | Myc_Elapsed \<Rightarrow> Myr_Elapsed 9 | Myc_Connect _ \<Rightarrow> Myr_Connected (Inr ())
      | _ \<Rightarrow> Myr_Done (Inr ()))"

definition sample_mysql_update :: "OperationResult MyProgram" where
  "sample_mysql_update = mysql_execute_inner sample_mysql_env 0 Flavor_MySql sample_cx pg_profile (Op_Update sample_sql_update)"


text \<open>
  A DATETIME at midnight is read as a date, whatever the type of its column: the value that was sent as a
  date and time does not come back as one.
\<close>

lemma midnight_read_as_date:
  assumes "mv_rfc3339 env s = Some (date, 0, 0, 0, 0)" "db_value_to_mysql env (DbDateTime s) = Inr value"
  shows "\<exists>text. mysql_value_to_db env value column = Inr (DbDate text)"
  using assms by (auto simp: db_value_to_mysql_def mysql_time_parts_def try_u8_def mysql_value_to_db_def Let_def res_simps)

end
