(* ===== verification/Mysql_Catalog.thy ===== *)
theory Mysql_Catalog
  imports Mysql Postgres_Catalog Sql_Paging "HOL-Library.Product_Lexorder"
begin

text \<open>
  The metadata requests of the MySQL adapter (\<open>crates/connectors-sql/src/mysql.rs\<close>): the connection test, the search of the catalog and the
  description of a table. Unlike PostgreSQL, foreign keys are told apart by name and referenced table,
  an index is unique only if all its rows say so, and index parts without a column are left out.
\<close>

section \<open>Keys and indexes\<close>

text \<open>Name, type, column and ordinal of a constraint; a foreign key has schema, table and column it refers to; ordinals are \<open>u64\<close>.\<close>

type_synonym ConstraintColumnRow = "string \<times> string \<times> string \<times> u64"
type_synonym ForeignKeyColumnRow = "string \<times> string \<times> string \<times> string \<times> string \<times> u64"
type_synonym IndexColumnRow = "string \<times> u64 \<times> string option \<times> u64"

definition mysql_ordered_columns :: "(u64 \<times> string) list \<Rightarrow> string list" where
  "mysql_ordered_columns columns = map snd (sort_key (\<lambda>c. uint (fst c)) columns)"

definition mysql_group_constraints ::
  "ConstraintColumnRow list \<Rightarrow> (string, (u64 \<times> string) list) btree \<times> (string, (u64 \<times> string) list) btree" where
  "mysql_group_constraints rows =
     foldl (\<lambda>(primary_keys, unique_constraints) (name, constraint_type, column, ordinal).
       let push = bt_entry name [] (\<lambda>v. v @ [(ordinal, column)]) in
       if constraint_type = ''PRIMARY KEY'' then (push primary_keys, unique_constraints)
       else (primary_keys, push unique_constraints)) ([], []) rows"

definition mysql_group_foreign_keys ::
  "ForeignKeyColumnRow list \<Rightarrow> (string \<times> string \<times> string, (u64 \<times> string \<times> string) list) btree" where
  "mysql_group_foreign_keys rows =
     foldl (\<lambda>m (name, column, schema, table, referenced, ordinal).
       bt_entry (name, schema, table) [] (\<lambda>v. v @ [(ordinal, column, referenced)]) m) [] rows"

definition mysql_group_indexes :: "IndexColumnRow list \<Rightarrow> (string, bool \<times> (u64 \<times> string) list) btree" where
  "mysql_group_indexes rows =
     foldl (\<lambda>m (name, non_unique, column, ordinal).
       bt_entry name (non_unique = 0, []) (\<lambda>(unique, v).
         (unique \<and> non_unique = 0, case column of Some column \<Rightarrow> v @ [(ordinal, column)] | None \<Rightarrow> v)) m) [] rows"

definition mysql_named_key :: "string \<times> (u64 \<times> string) list \<Rightarrow> NamedColumns" where
  "mysql_named_key = (\<lambda>(name, columns). \<lparr>nc_name = name, nc_columns = mysql_ordered_columns columns\<rparr>)"

definition mysql_foreign_key :: "(string \<times> string \<times> string) \<times> (u64 \<times> string \<times> string) list \<Rightarrow> ForeignKeyMetadata" where
  "mysql_foreign_key = (\<lambda>((name, schema, table), columns).
     let columns = sort_key (\<lambda>(ordinal, _). uint ordinal) columns in
     \<lparr>fk_name = name, fk_columns = map (\<lambda>(_, column, _). column) columns, fk_referenced_entity = schema @ ''.'' @ table,
      fk_referenced_columns = map (\<lambda>(_, _, referenced). referenced) columns\<rparr>)"

definition mysql_index :: "string \<times> bool \<times> (u64 \<times> string) list \<Rightarrow> IndexMetadata" where
  "mysql_index = (\<lambda>(name, unique, columns). \<lparr>ix_name = name, ix_columns = mysql_ordered_columns columns, ix_unique = unique\<rparr>)"

definition assemble_mysql_metadata ::
  "ConstraintColumnRow list \<Rightarrow> ForeignKeyColumnRow list \<Rightarrow> IndexColumnRow list \<Rightarrow> RelationalMetadata" where
  "assemble_mysql_metadata constraint_rows foreign_key_rows index_rows =
     (let (primary_keys, unique_constraints) = mysql_group_constraints constraint_rows in
      \<lparr>rmd_primary_key = (case primary_keys of [] \<Rightarrow> None | key # _ \<Rightarrow> Some (mysql_named_key key)),
       rmd_foreign_keys = map mysql_foreign_key (mysql_group_foreign_keys foreign_key_rows),
       rmd_unique_constraints = map mysql_named_key unique_constraints,
       rmd_indexes = map mysql_index (mysql_group_indexes index_rows)\<rparr>)"

section \<open>Requests\<close>

text \<open>The queries of the metadata requests; each is one statement with its parameters.\<close>

datatype MyMetaCall =
    Mym_Connect int
  | Mym_Version
  | Mym_Tables "string option" "string option" u64 u64
  | Mym_Table string string
  | Mym_Columns string string
  | Mym_Constraints string string
  | Mym_ForeignKeys string string
  | Mym_Indexes string string

text \<open>The rows of \<open>information_schema.columns\<close>: name, type, \<open>IS_NULLABLE\<close>, ordinal and comment.\<close>

type_synonym MyColumnRow = "string \<times> string \<times> string \<times> u64 \<times> string option"

datatype MyMetaReply =
    Mymr_Connected "ConnectorError + unit"
  | Mymr_Version "MySqlError + string option"
  | Mymr_Tables "MySqlError + (string \<times> string \<times> string) list"
  | Mymr_Table "MySqlError + (string \<times> string option) option"
  | Mymr_Columns "MySqlError + MyColumnRow list"
  | Mymr_Constraints "MySqlError + ConstraintColumnRow list"
  | Mymr_ForeignKeys "MySqlError + ForeignKeyColumnRow list"
  | Mymr_Indexes "MySqlError + IndexColumnRow list"

type_synonym 'a MyMetaProgram = "(MyMetaCall, MyMetaReply, ConnectorError + 'a) Prog"

fun mym_connected :: "MyMetaReply \<Rightarrow> ConnectorError + unit" where
  "mym_connected (Mymr_Connected x) = x"
| "mym_connected _ = Inr ()"

fun mym_version :: "MyMetaReply \<Rightarrow> MySqlError + string option" where
  "mym_version (Mymr_Version x) = x"
| "mym_version _ = Inr None"

fun mym_tables :: "MyMetaReply \<Rightarrow> MySqlError + (string \<times> string \<times> string) list" where
  "mym_tables (Mymr_Tables x) = x"
| "mym_tables _ = Inr []"

fun mym_table :: "MyMetaReply \<Rightarrow> MySqlError + (string \<times> string option) option" where
  "mym_table (Mymr_Table x) = x"
| "mym_table _ = Inr None"

fun mym_columns :: "MyMetaReply \<Rightarrow> MySqlError + MyColumnRow list" where
  "mym_columns (Mymr_Columns x) = x"
| "mym_columns _ = Inr []"

fun mym_constraints :: "MyMetaReply \<Rightarrow> MySqlError + ConstraintColumnRow list" where
  "mym_constraints (Mymr_Constraints x) = x"
| "mym_constraints _ = Inr []"

fun mym_foreign_keys :: "MyMetaReply \<Rightarrow> MySqlError + ForeignKeyColumnRow list" where
  "mym_foreign_keys (Mymr_ForeignKeys x) = x"
| "mym_foreign_keys _ = Inr []"

fun mym_indexes :: "MyMetaReply \<Rightarrow> MySqlError + IndexColumnRow list" where
  "mym_indexes (Mymr_Indexes x) = x"
| "mym_indexes _ = Inr []"

definition mym_connect :: "Instant \<Rightarrow> ConnectorContext \<Rightarrow> ConnectionProfile \<Rightarrow> 'a MyMetaProgram \<Rightarrow> 'a MyMetaProgram" where
  "mym_connect now cx profile k =
     (case effective_timeout now cx profile None of
        Inl e \<Rightarrow> Return (Inl e)
      | Inr timeout \<Rightarrow> Do (Mym_Connect timeout) (\<lambda>r.
          case mym_connected r of Inl e \<Rightarrow> Return (Inl e) | Inr _ \<Rightarrow> k))"

definition mym_query :: "MyMetaCall \<Rightarrow> (MyMetaReply \<Rightarrow> MySqlError + 'r) \<Rightarrow> ('r \<Rightarrow> 'a MyMetaProgram) \<Rightarrow> 'a MyMetaProgram" where
  "mym_query call reply k =
     Do call (\<lambda>r. case reply r of Inl e \<Rightarrow> Return (Inl (map_mysql_error e False)) | Inr rows \<Rightarrow> k rows)"

definition mysql_test_connection ::
  "Instant \<Rightarrow> MySqlFlavor \<Rightarrow> ConnectorContext \<Rightarrow> ConnectionProfile \<Rightarrow> SecretMaterial \<Rightarrow> ConnectionInfo MyMetaProgram" where
  "mysql_test_connection now flavor cx profile secret =
     (case mysql_execute_checks flavor profile secret of
        Inl e \<Rightarrow> Return (Inl e)
      | Inr _ \<Rightarrow> mym_connect now cx profile (mym_query Mym_Version mym_version (\<lambda>row.
          Return (bind_res (ok_or row (ConnectorError_new Cat_Protocol ''MySQL identity query returned no row'')) (\<lambda>version.
            map_res (\<lambda>_. \<lparr>ci_product_name = mysql_flavor_name flavor, ci_product_version = Some version,
              ci_api_mode = mysql_api_mode flavor, ci_server_identity = None, ci_warnings = []\<rparr>)
              (mysql_verify_server_flavor flavor version))))))"

definition mysql_search_catalog ::
  "cursor_env \<Rightarrow> Instant \<Rightarrow> MySqlFlavor \<Rightarrow> ConnectorContext \<Rightarrow> ConnectionProfile \<Rightarrow> SecretMaterial \<Rightarrow> CatalogQuery
     \<Rightarrow> CatalogEntity list MyMetaProgram" where
  "mysql_search_catalog env now flavor cx profile secret q =
     (case mysql_execute_checks flavor profile secret of
        Inl e \<Rightarrow> Return (Inl e)
      | Inr _ \<Rightarrow>
          if cq_limit q = 0 then Return (Inl (invalid ''catalog limit must be greater than zero''))
          else mym_connect now cx profile
            (let limit = min (min (cq_limit q) (cx_max_rows cx)) (pol_max_rows (pr_policy profile)) in
             case decode_offset env (cq_cursor q) of
               Inl e \<Rightarrow> Return (Inl e)
             | Inr offset \<Rightarrow>
                 let namespace = (case cq_namespace q of Some namespace \<Rightarrow> Some namespace | None \<Rightarrow> pr_database profile);
                     pattern = map_option (\<lambda>value. ''%'' @ value @ ''%'') (cq_pattern q) in
                 mym_query (Mym_Tables namespace pattern (ucast limit) offset) mym_tables (\<lambda>rows.
                   Return (Inr (map table_entity rows)))))"

definition mysql_search_catalog_page ::
  "cursor_env \<Rightarrow> Instant \<Rightarrow> MySqlFlavor \<Rightarrow> ConnectorContext \<Rightarrow> ConnectionProfile \<Rightarrow> SecretMaterial \<Rightarrow> CatalogQuery
     \<Rightarrow> CatalogPage MyMetaProgram" where
  "mysql_search_catalog_page env now flavor cx profile secret q =
     (case catalog_fetch_inputs cx profile q of
        Inl e \<Rightarrow> Return (Inl e)
      | Inr (fetch_cx, fetch_profile, fetch_query) \<Rightarrow>
          map_return (\<lambda>r. bind_res r (catalog_page env cx profile q))
            (mysql_search_catalog env now flavor fetch_cx fetch_profile secret fetch_query))"

definition nonempty :: "string option \<Rightarrow> string option" where
  "nonempty s = (if s = Some [] then None else s)"

definition mysql_column_record :: "MyColumnRow \<Rightarrow> DbRecord" where
  "mysql_column_record row =
     (case row of (name, data_type, nullable, ordinal, comment) \<Rightarrow>
      record_of [(''name'', DbString name), (''type'', DbString data_type), (''nullable'', DbBool (nullable = ''YES'')),
        (''ordinal'', DbUInt64 ordinal),
        (''comment'', case nonempty comment of None \<Rightarrow> DbNull | Some comment \<Rightarrow> DbString comment)])"

definition mysql_describe_entity ::
  "Instant \<Rightarrow> MySqlFlavor \<Rightarrow> ConnectorContext \<Rightarrow> ConnectionProfile \<Rightarrow> SecretMaterial \<Rightarrow> string
     \<Rightarrow> EntityDescription MyMetaProgram" where
  "mysql_describe_entity now flavor cx profile secret entity_id =
     (case bind_res (mysql_execute_checks flavor profile secret) (\<lambda>_. split_mysql_entity entity_id (pr_database profile)) of
        Inl e \<Rightarrow> Return (Inl e)
      | Inr (database, table) \<Rightarrow> mym_connect now cx profile
          (mym_query (Mym_Table database table) mym_table (\<lambda>table_info.
             case table_info of
               None \<Rightarrow> Return (Inl (ConnectorError_new Cat_NotFound ''SQL entity was not found''))
             | Some (kind, table_comment) \<Rightarrow>
                 mym_query (Mym_Columns database table) mym_columns (\<lambda>rows.
                 mym_query (Mym_Constraints database table) mym_constraints (\<lambda>constraint_rows.
                 mym_query (Mym_ForeignKeys database table) mym_foreign_keys (\<lambda>foreign_key_rows.
                 mym_query (Mym_Indexes database table) mym_indexes (\<lambda>index_rows.
                 Return (Inr
                   \<lparr>ed_entity = \<lparr>cat_id = database @ ''.'' @ table, cat_namespace = Some database, cat_name = table,
                      cat_kind = to_ascii_lowercase kind, cat_comment = nonempty table_comment\<rparr>,
                    ed_fields = map mysql_column_record rows,
                    ed_metadata = into_record (assemble_mysql_metadata constraint_rows foreign_key_rows index_rows),
                    ed_truncated = False, ed_warnings = []\<rparr>))))))))"

section \<open>The keys of a table\<close>

definition mysql_group_names :: "ConstraintColumnRow list \<Rightarrow> (string, (u64 \<times> string) list) btree" where
  "mysql_group_names rows = foldl (\<lambda>m (name, _, column, ordinal). bt_entry name [] (\<lambda>v. v @ [(ordinal, column)]) m) [] rows"

definition mysql_is_primary :: "ConstraintColumnRow \<Rightarrow> bool" where
  "mysql_is_primary row \<longleftrightarrow> fst (snd row) = ''PRIMARY KEY''"

lemma mysql_group_constraints_split:
  "mysql_group_constraints rows =
     (mysql_group_names (filter mysql_is_primary rows), mysql_group_names (filter (\<lambda>r. \<not> mysql_is_primary r) rows))"
  by (induction rows rule: rev_induct)
    (auto simp: mysql_group_constraints_def mysql_group_names_def mysql_is_primary_def Let_def)

interpretation my_named: row_groups mysql_group_names fst "\<lambda>_. []" "\<lambda>(_, _, column, ordinal) v. v @ [(ordinal, column)]"
  "map (\<lambda>(_, _, column, ordinal). (ordinal, column))"
  by unfold_locales (auto simp: mysql_group_names_def)

definition fk_identity :: "ForeignKeyColumnRow \<Rightarrow> string \<times> string \<times> string" where
  "fk_identity = (\<lambda>(name, _, schema, table, _, _). (name, schema, table))"

interpretation my_fks: row_groups mysql_group_foreign_keys fk_identity "\<lambda>_. []"
  "\<lambda>(_, column, _, _, referenced, ordinal) v. v @ [(ordinal, column, referenced)]"
  "map (\<lambda>(_, column, _, _, referenced, ordinal). (ordinal, column, referenced))"
  by unfold_locales (auto simp: mysql_group_foreign_keys_def fk_identity_def)

text \<open>The parts of an index that have a column.\<close>

definition index_parts :: "IndexColumnRow list \<Rightarrow> (u64 \<times> string) list" where
  "index_parts rows = concat (map (\<lambda>(_, _, column, ordinal). case column of Some column \<Rightarrow> [(ordinal, column)] | None \<Rightarrow> []) rows)"

interpretation my_ixs: row_groups mysql_group_indexes fst "\<lambda>(_, non_unique, _, _). (non_unique = 0, [])"
  "\<lambda>(_, non_unique, column, ordinal) (unique, v).
     (unique \<and> non_unique = 0, case column of Some column \<Rightarrow> v @ [(ordinal, column)] | None \<Rightarrow> v)"
  "\<lambda>rows. (list_all (\<lambda>(_, non_unique, _, _). non_unique = 0) rows, index_parts rows)"
  by unfold_locales (auto simp: mysql_group_indexes_def index_parts_def split: option.split)

text \<open>What is to be described, from the rows of the catalog: for each name the columns of its rows by ordinal.\<close>

definition mysql_keys_of :: "ConstraintColumnRow list \<Rightarrow> NamedColumns list" where
  "mysql_keys_of rows = map (\<lambda>name. \<lparr>nc_name = name,
     nc_columns = map (\<lambda>(_, _, column, _). column) (sort_key (\<lambda>(_, _, _, ordinal). uint ordinal) (filter (\<lambda>r. fst r = name) rows))\<rparr>)
     (sorted_list_of_set (fst ` set rows))"

definition mysql_foreign_keys_of :: "ForeignKeyColumnRow list \<Rightarrow> ForeignKeyMetadata list" where
  "mysql_foreign_keys_of rows = map (\<lambda>(name, schema, table).
     let own = sort_key (\<lambda>(_, _, _, _, _, ordinal). uint ordinal) (filter (\<lambda>r. fk_identity r = (name, schema, table)) rows) in
     \<lparr>fk_name = name, fk_columns = map (\<lambda>(_, column, _). column) own, fk_referenced_entity = schema @ ''.'' @ table,
      fk_referenced_columns = map (\<lambda>(_, _, _, _, referenced, _). referenced) own\<rparr>)
     (sorted_list_of_set (fk_identity ` set rows))"

definition mysql_indexes_of :: "IndexColumnRow list \<Rightarrow> IndexMetadata list" where
  "mysql_indexes_of rows = map (\<lambda>name. let own = filter (\<lambda>r. fst r = name) rows in
     \<lparr>ix_name = name, ix_columns = map snd (sort_key (\<lambda>(ordinal, _). uint ordinal) (index_parts own)),
      ix_unique = (\<forall>(_, non_unique, _, _) \<in> set own. non_unique = 0)\<rparr>)
     (sorted_list_of_set (fst ` set rows))"

lemma mysql_keys_assembled: "map mysql_named_key (mysql_group_names rows) = mysql_keys_of rows"
  unfolding my_named.groups_closed mysql_keys_of_def
  by (simp add: mysql_named_key_def mysql_ordered_columns_def sort_key_map o_def case_prod_unfold)

lemma mysql_foreign_keys_assembled: "map mysql_foreign_key (mysql_group_foreign_keys rows) = mysql_foreign_keys_of rows"
  unfolding my_fks.groups_closed mysql_foreign_keys_of_def
  by (simp add: mysql_foreign_key_def sort_key_map o_def Let_def case_prod_unfold)

lemma mysql_indexes_assembled: "map mysql_index (mysql_group_indexes rows) = mysql_indexes_of rows"
  unfolding my_ixs.groups_closed mysql_indexes_of_def
  by (simp add: mysql_index_def mysql_ordered_columns_def o_def Let_def case_prod_unfold list_all_iff)

text \<open>
  C39: the keys and indexes of a MySQL table are those of the catalog rows, each name once and in order, with the columns by ordinal. The primary key
  is the first of its kind, none exactly when there is none; a foreign key is told apart by name and referenced table, and its referenced columns
  are aligned with its own; an index is unique when no row says otherwise, and its parts without a column are left out.
\<close>

theorem mysql_keys_as_catalog:
  "assemble_mysql_metadata constraint_rows foreign_key_rows index_rows =
     \<lparr>rmd_primary_key = (case mysql_keys_of (filter mysql_is_primary constraint_rows) of [] \<Rightarrow> None | key # _ \<Rightarrow> Some key),
      rmd_foreign_keys = mysql_foreign_keys_of foreign_key_rows,
      rmd_unique_constraints = mysql_keys_of (filter (\<lambda>r. \<not> mysql_is_primary r) constraint_rows),
      rmd_indexes = mysql_indexes_of index_rows\<rparr>"
  unfolding assemble_mysql_metadata_def mysql_group_constraints_split mysql_keys_assembled [symmetric]
    mysql_foreign_keys_assembled mysql_indexes_assembled
  by (simp split: list.split)

end
