(* ===== verification/Mysql_Paging.thy ===== *)
theory Mysql_Paging
  imports Mysql_Catalog Postgres_Paging
begin

text \<open>
  The pages of the MySQL adapter as a client sees them that follows the cursors: a second interpretation of the promises of
  \<open>Sql_Paging\<close>, over the calls, rows and values of this driver.
\<close>

section \<open>Pages of the catalog\<close>

record mysql_catalog_paging =
  mcp_env :: cursor_env
  mcp_now :: Instant
  mcp_flavor :: MySqlFlavor
  mcp_cx :: ConnectorContext
  mcp_profile :: ConnectionProfile
  mcp_secret :: SecretMaterial
  mcp_query :: CatalogQuery
  mcp_answer :: "MyMetaCall \<Rightarrow> MyMetaReply"
  mcp_tables :: "(string \<times> string \<times> string) list"

abbreviation mysql_catalog_limit :: "mysql_catalog_paging \<Rightarrow> u32" where
  "mysql_catalog_limit e \<equiv> catalog_rows (mcp_cx e) (mcp_profile e) (mcp_query e)"

text \<open>
  A request the adapter accepts, with a limit above zero and below the greatest \<open>u32\<close>, on a server that answers \<open>LIMIT\<close> and
  \<open>OFFSET\<close> from the same sorted list of tables.
\<close>

definition mysql_catalog_valid :: "mysql_catalog_paging \<Rightarrow> bool" where
  "mysql_catalog_valid e \<longleftrightarrow>
     cursors_ok (mcp_env e) \<and> is_ok (mysql_execute_checks (mcp_flavor e) (mcp_profile e) (mcp_secret e)) \<and>
     is_ok (effective_timeout (mcp_now e) (mcp_cx e) (mcp_profile e) None) \<and>
     0 < mysql_catalog_limit e \<and> unat (mysql_catalog_limit e) < 2 ^ 32 - 1 \<and> length (mcp_tables e) < 2 ^ 63 \<and>
     (\<forall>timeout. mym_connected (mcp_answer e (Mym_Connect timeout)) = Inr ()) \<and>
     (\<forall>namespace pattern limit offset. mym_tables (mcp_answer e (Mym_Tables namespace pattern limit offset))
        = Inr (take (unat limit) (drop (unat offset) (mcp_tables e))))"

definition mysql_catalog_page_at :: "mysql_catalog_paging \<Rightarrow> string option \<Rightarrow> ConnectorError option + CatalogEntity list \<times> string option" where
  "mysql_catalog_page_at e cursor =
     (case perform (mcp_answer e) (mysql_search_catalog_page (mcp_env e) (mcp_now e) (mcp_flavor e) (mcp_cx e) (mcp_profile e)
         (mcp_secret e) (mcp_query e\<lparr>cq_cursor := cursor\<rparr>)) of
        None \<Rightarrow> Inl None
      | Some (Inl error) \<Rightarrow> Inl (Some error)
      | Some (Inr page) \<Rightarrow> Inr (cp_entities page, cp_next_cursor page))"

definition mysql_catalog_searched ::
  "mysql_catalog_paging \<Rightarrow> ConnectorContext \<Rightarrow> ConnectionProfile \<Rightarrow> CatalogQuery \<Rightarrow> (ConnectorError + CatalogEntity list) option" where
  "mysql_catalog_searched e cx profile q =
     perform (mcp_answer e) (mysql_search_catalog (mcp_env e) (mcp_now e) (mcp_flavor e) cx profile (mcp_secret e) q)"

lemma mysql_checks_policy:
  "mysql_execute_checks flavor (profile\<lparr>pr_policy := policy\<rparr>) secret = mysql_execute_checks flavor profile secret"
proof -
  have same: "pr_product (profile\<lparr>pr_policy := policy\<rparr>) = pr_product profile"
    "pr_api_mode (profile\<lparr>pr_policy := policy\<rparr>) = pr_api_mode profile"
    "pr_tls (profile\<lparr>pr_policy := policy\<rparr>) = pr_tls profile"
    "pr_endpoint (profile\<lparr>pr_policy := policy\<rparr>) = pr_endpoint profile"
    "pr_auth_kind (profile\<lparr>pr_policy := policy\<rparr>) = pr_auth_kind profile" by simp_all
  show ?thesis unfolding mysql_execute_checks_def mysql_validate_profile_def validate_auth_def validate_tls_def same ..
qed

lemma mysql_catalog_searched_rows:
  assumes "mysql_catalog_valid e" "cursor_at (mcp_env e) k cursor" "k \<le> length (map table_entity (mcp_tables e))"
    and "n \<noteq> 0" "n \<le> m" "n \<le> m'"
  shows "mysql_catalog_searched e (mcp_cx e\<lparr>cx_max_rows := m\<rparr>)
      (mcp_profile e\<lparr>pr_policy := (pr_policy (mcp_profile e))\<lparr>pol_max_rows := m'\<rparr>\<rparr>) (mcp_query e\<lparr>cq_cursor := cursor, cq_limit := n\<rparr>)
    = Some (Inr (take (unat n) (drop k (map table_entity (mcp_tables e)))))"
proof -
  let ?cx = "mcp_cx e\<lparr>cx_max_rows := m\<rparr>" and ?profile = "mcp_profile e\<lparr>pr_policy := (pr_policy (mcp_profile e))\<lparr>pol_max_rows := m'\<rparr>\<rparr>"
  obtain timeout where "effective_timeout (mcp_now e) (mcp_cx e) (mcp_profile e) None = Inr timeout"
    and checks: "mysql_execute_checks (mcp_flavor e) (mcp_profile e) (mcp_secret e) = Inr ()"
    using assms(1) by (auto simp: mysql_catalog_valid_def is_ok_iff)
  then have "effective_timeout (mcp_now e) ?cx ?profile None = Inr timeout"
    by (simp add: effective_timeout_def split: if_splits)
  moreover have "mysql_execute_checks (mcp_flavor e) ?profile (mcp_secret e) = Inr ()"
    using checks by (simp add: mysql_checks_policy)
  moreover have "unat (word_of_nat k :: u64) = k" using assms(1,3) by (simp add: mysql_catalog_valid_def unat_of_nat)
  moreover have "min (min n m) m' = n" using assms(5,6) by simp
  ultimately show ?thesis using assms(1,2,4)
    by (simp add: mysql_catalog_searched_def mysql_search_catalog_def mym_connect_def mym_query_def mysql_catalog_valid_def cursor_at_def
        unat_widen take_map drop_map)
qed

lemma mysql_catalog_page_searched:
  assumes "catalog_fetch_inputs (mcp_cx e) (mcp_profile e) (mcp_query e\<lparr>cq_cursor := cursor\<rparr>) = Inr (cx, profile, request)"
    and "mysql_catalog_searched e cx profile request = Some (Inr entities)"
  shows "mysql_catalog_page_at e cursor =
    (case catalog_page (mcp_env e) (mcp_cx e) (mcp_profile e) (mcp_query e\<lparr>cq_cursor := cursor\<rparr>) entities of
      Inl error \<Rightarrow> Inl (Some error) | Inr page \<Rightarrow> Inr (cp_entities page, cp_next_cursor page))"
  using assms(2) unfolding mysql_catalog_page_at_def mysql_search_catalog_page_def assms(1)
  by (simp add: perform_map_return mysql_catalog_searched_def)

interpretation my_tables: catalog_adapter mysql_catalog_valid mcp_env mcp_cx mcp_profile mcp_query "\<lambda>e. map table_entity (mcp_tables e)"
  mysql_catalog_searched mysql_catalog_page_at
  by unfold_locales (use mysql_catalog_searched_rows mysql_catalog_page_searched in \<open>auto simp: mysql_catalog_valid_def\<close>)

text \<open>A client that follows the cursors of a search on MySQL comes to an end and has every table once and in the server's order.\<close>

lemma mysql_catalog_pages:
  "mysql_catalog_valid e \<Longrightarrow> follow (mysql_catalog_page_at e) None = Some (Inr (map table_entity (mcp_tables e)))"
  by (rule my_tables.catalog_pages.follow_all)

section \<open>Pages of a read\<close>

lemma collect_rows_all:
  "map_results (mysql_row_to_record env) rows = Inr records \<Longrightarrow>
    collect_rows env row_limit rows None acc = Inr (acc @ take (Suc row_limit - length acc) records)"
proof (induction rows arbitrary: records acc)
  case (Cons row rows)
  then obtain r rs where r: "mysql_row_to_record env row = Inr r" "map_results (mysql_row_to_record env) rows = Inr rs" "records = r # rs"
    by (auto simp: res_simps)
  show ?case using Cons.IH [OF r(2)] by (auto simp: r Suc_diff_le)
qed simp

record mysql_read_paging =
  mrp_env :: mysql_env
  mrp_now :: Instant
  mrp_flavor :: MySqlFlavor
  mrp_cx :: ConnectorContext
  mrp_profile :: ConnectionProfile
  mrp_request :: ReadRequest
  mrp_answer :: "MyCall \<Rightarrow> MyReply"
  mrp_raw :: "MyRow list"
  mrp_rows :: "DbRecord list"

abbreviation mysql_read_limit :: "mysql_read_paging \<Rightarrow> u32" where
  "mysql_read_limit e \<equiv> read_rows (mrp_cx e) (mrp_profile e) (mrp_request e)"

definition mysql_read_built_at :: "mysql_read_paging \<Rightarrow> string option \<Rightarrow> ConnectorError + BuiltQuery" where
  "mysql_read_built_at e cursor =
     build_read (my_cursors (mrp_env e)) Fam_MySql (mrp_cx e) (mrp_profile e) (read_at (mrp_request e) cursor)"

text \<open>
  A read the adapter accepts, with a limit above zero and parameters it can encode, on a server that answers the statement with one row more
  than the limit from the offset on, out of the same rows, all of which the adapter can decode.
\<close>

definition mysql_read_valid :: "mysql_read_paging \<Rightarrow> bool" where
  "mysql_read_valid e \<longleftrightarrow>
     cursors_ok (my_cursors (mrp_env e)) \<and> sizes_ok (my_sizes (mrp_env e)) (cx_max_bytes (mrp_cx e)) \<and>
     is_ok (mysql_read_built_at e None) \<and>
     is_ok (effective_timeout (mrp_now e) (mrp_cx e) (mrp_profile e) (qo_timeout_ms (rd_options (mrp_request e)))) \<and>
     0 < mysql_read_limit e \<and> length (mrp_rows e) < 2 ^ 64 \<and>
     map_results (mysql_row_to_record (my_values (mrp_env e))) (mrp_raw e) = Inr (mrp_rows e) \<and>
     (\<forall>timeout. my_connected (mrp_answer e (Myc_Connect timeout)) = Inr ()) \<and>
     (\<forall>cursor q limit offset. mysql_read_built_at e cursor = Inr q \<longrightarrow> bq_row_limit q = Some limit \<longrightarrow> bq_base_offset q = Some offset \<longrightarrow>
        (\<exists>ps. map_results (db_value_to_mysql (my_values (mrp_env e))) (bq_parameters q) = Inr ps \<and>
          my_rows (mrp_answer e (Myc_Query (bq_sql q) ps)) = Inr (take (Suc limit) (drop (unat offset) (mrp_raw e)), None)))"

definition mysql_read_page_at :: "mysql_read_paging \<Rightarrow> string option \<Rightarrow> ConnectorError option + DbRecord list \<times> string option" where
  "mysql_read_page_at e cursor =
     (case perform (mrp_answer e) (mysql_execute_inner (mrp_env e) (mrp_now e) (mrp_flavor e) (mrp_cx e) (mrp_profile e)
         (Op_Read (read_at (mrp_request e) cursor))) of
        None \<Rightarrow> Inl None
      | Some (Inl error) \<Rightarrow> Inl (Some error)
      | Some (Inr result) \<Rightarrow> Inr (or_records result, or_next_cursor result))"

lemma map_results_slice:
  "map_results f xs = Inr ys \<Longrightarrow> map_results f (take n (drop k xs)) = Inr (take n (drop k ys))"
  unfolding map_results_Inr_iff by (intro list_all2_takeI list_all2_dropI)

lemma mysql_read_performed:
  assumes "mysql_read_valid e" "cursor_at (my_cursors (mrp_env e)) k cursor" "k \<le> length (mrp_rows e)"
  shows "\<exists>result. mysql_read_page_at e cursor = (case truncate_records (my_cursors (mrp_env e)) (my_sizes (mrp_env e)) result
      (unat (mysql_read_limit e)) (cx_max_bytes (mrp_cx e)) False (Some (word_of_nat k)) of
        Inl error \<Rightarrow> Inl (Some error) | Inr result \<Rightarrow> Inr (or_records result, or_next_cursor result)) \<and>
    or_records result = take (Suc (unat (mysql_read_limit e))) (drop k (mrp_rows e))"
proof -
  let ?L = "unat (mysql_read_limit e)" and ?env = "my_values (mrp_env e)"
  have valid: "is_ok (mysql_read_built_at e None)" "my_connected (mrp_answer e (Myc_Connect timeout)) = Inr ()"
    "length (mrp_rows e) < 2 ^ 64" "map_results (mysql_row_to_record ?env) (mrp_raw e) = Inr (mrp_rows e)" for timeout
    using assms(1) by (simp_all add: mysql_read_valid_def)
  have k: "unat (word_of_nat k :: u64) = k" using valid(3) assms(3) by (simp add: unat_of_nat)
  obtain q where q: "mysql_read_built_at e cursor = Inr q" "bq_row_limit q = Some ?L" "bq_base_offset q = Some (word_of_nat k)"
    using read_at_built [OF valid(1) [unfolded mysql_read_built_at_def]] assms(2) unfolding cursor_at_def mysql_read_built_at_def by blast
  obtain ps where ps: "map_results (db_value_to_mysql ?env) (bq_parameters q) = Inr ps"
    "my_rows (mrp_answer e (Myc_Query (bq_sql q) ps)) = Inr (take (Suc ?L) (drop k (mrp_raw e)), None)"
    using assms(1) q k unfolding mysql_read_valid_def by metis
  have collected: "collect_rows ?env ?L (take (Suc ?L) (drop k (mrp_raw e))) None [] = Inr (take (Suc ?L) (drop k (mrp_rows e)))"
    using collect_rows_all [OF map_results_slice [OF valid(4)]] by simp
  obtain timeout where "effective_timeout (mrp_now e) (mrp_cx e) (mrp_profile e) (qo_timeout_ms (rd_options (mrp_request e))) = Inr timeout"
    using assms(1) by (auto simp: mysql_read_valid_def is_ok_iff)
  then have timeout: "effective_timeout (mrp_now e) (mrp_cx e) (mrp_profile e) (qo_timeout_ms (rd_options (read_at (mrp_request e) cursor))) = Inr timeout"
    by (simp add: read_at_def)
  show ?thesis
    unfolding mysql_read_page_at_def mysql_execute_inner_def
    by (intro exI [of _ "mysql_read_result (mrp_env e) (mrp_cx e) (my_elapsed (mrp_answer e Myc_Elapsed)) (take (Suc ?L) (drop k (mrp_rows e)))"])
      (simp add: timeout valid(2) mysql_execute_operation_def q(1) [unfolded mysql_read_built_at_def] mysql_query_built_def ps q(2,3) Let_def
        collected mysql_read_result_def split: sum.split)
qed

interpretation my_reads: read_adapter mysql_read_valid "\<lambda>e. my_cursors (mrp_env e)" "\<lambda>e. my_sizes (mrp_env e)"
  "\<lambda>e. cx_max_bytes (mrp_cx e)" "\<lambda>e. unat (mysql_read_limit e)" mrp_rows mysql_read_page_at
  by unfold_locales (use mysql_read_performed in \<open>auto simp: mysql_read_valid_def word_less_nat_alt\<close>)

text \<open>
  The pages of a structured read on MySQL. A client that passes the cursor of each result on comes to an end and has
  then seen every row of the answer, decoded, exactly once and in order, however the rows are cut by the row limit and
  by the byte limit. Assumes that the server answers the statements from the same rows and that a single row fits the byte limit.
\<close>

theorem mysql_read_pages_complete: "mysql_read_valid e \<Longrightarrow> follow (mysql_read_page_at e) None = Some (Inr (mrp_rows e))"
  by (rule my_reads.read_pages.follow_all)

section \<open>Examples\<close>

text \<open>A server that reads the offset at the end of the statement.\<close>

definition sample_mysql_offset :: "string \<Rightarrow> nat" where
  "sample_mysql_offset sql = digits_nat (rev (takeWhile is_ascii_digit (rev sql)))"

definition sample_mysql_raw :: "MyRow list" where
  "sample_mysql_raw = map (\<lambda>n. [(''id'', Col_Other, Some (Mv_Int (word_of_nat n)))]) [0..<12]"

definition sample_mysql_rows :: "DbRecord list" where
  "sample_mysql_rows = map (\<lambda>n. [(''id'', DbInt64 (word_of_nat n))]) [0..<12]"

definition sample_mysql_reads :: mysql_read_paging where
  "sample_mysql_reads = \<lparr>mrp_env = sample_mysql_env, mrp_now = 0, mrp_flavor = Flavor_MySql, mrp_cx = sample_cx,
     mrp_profile = pg_profile, mrp_request = sample_sql_read\<lparr>rd_filter := None\<rparr>,
     mrp_answer = (\<lambda>call. case call of
         Myc_Query sql _ \<Rightarrow> Myr_Rows (Inr (take 6 (drop (sample_mysql_offset sql) sample_mysql_raw), None))
       | _ \<Rightarrow> Myr_Connected (Inr ())),
     mrp_raw = sample_mysql_raw, mrp_rows = sample_mysql_rows\<rparr>"

lemma sample_mysql_decoded: "map_results (mysql_row_to_record env) sample_mysql_raw = Inr sample_mysql_rows"
  unfolding map_results_Inr_iff sample_mysql_raw_def sample_mysql_rows_def list_all2_map1 list_all2_map2
  by (simp add: list_all2_same mysql_row_to_record_def mysql_value_to_db_def)

lemma unfiltered_read_end:
  assumes "build_read env Fam_MySql cx profile request = Inr q" "rd_filter request = None"
  obtains before offset where "bq_sql q = before @ '' OFFSET '' @ show_word offset" "bq_base_offset q = Some offset" "bq_parameters q = []"
    "bq_row_limit q = Some (unat (read_rows cx profile request))"
  using assms that
  by (auto simp: build_read_def res_simps effective_row_limit_def Let_def read_rows_def split: if_splits prod.splits)

lemma sample_mysql_offset_read: "sample_mysql_offset (before @ '' OFFSET '' @ show_word (n :: u64)) = unat n"
proof -
  have "takeWhile is_ascii_digit (rev (show_word n) @ CHR '' '' # rest) = rev (show_word n)" for rest
    using show_nat_digits [of "unat n"] by (subst takeWhile_append2) (auto simp: list_all_iff show_word_def is_ascii_digit_def byte_def)
  then show ?thesis by (simp add: sample_mysql_offset_def) (simp add: show_word_def digits_show)
qed

lemma sample_mysql_reads_valid: "mysql_read_valid sample_mysql_reads"
proof -
  have "is_ok (mysql_read_built_at sample_mysql_reads None)"
    "is_ok (effective_timeout 0 sample_cx pg_profile (qo_timeout_ms (rd_options sample_sql_read)))"
    and limit_5: "mysql_read_limit sample_mysql_reads = 5"
    by code_simp+
  moreover have "\<exists>ps. map_results (db_value_to_mysql (my_values (mrp_env sample_mysql_reads))) (bq_parameters q) = Inr ps \<and>
      my_rows (mrp_answer sample_mysql_reads (Myc_Query (bq_sql q) ps)) = Inr (take (Suc limit) (drop (unat offset) sample_mysql_raw), None)"
    if q: "mysql_read_built_at sample_mysql_reads cursor = Inr q" "bq_row_limit q = Some limit" "bq_base_offset q = Some offset"
    for cursor q limit offset
  proof -
    obtain before where b: "bq_sql q = before @ '' OFFSET '' @ show_word offset" "bq_parameters q = []"
      "bq_row_limit q = Some (unat (read_rows (mrp_cx sample_mysql_reads) (mrp_profile sample_mysql_reads) (read_at (mrp_request sample_mysql_reads) cursor)))"
      using unfiltered_read_end [OF q(1) [unfolded mysql_read_built_at_def]] q(3) by (auto simp: sample_mysql_reads_def read_at_def)
    moreover have "read_rows cx profile (read_at request cursor) = read_rows cx profile request" for cx profile request
      by (simp add: read_rows_def read_at_def)
    ultimately have "limit = 5" using q(2) limit_5 by simp
    then show ?thesis using sample_mysql_offset_read [of before offset] by (simp add: sample_mysql_reads_def b(1,2))
  qed
  ultimately show ?thesis using sample_mysql_decoded unfolding mysql_read_valid_def
    by (simp add: sample_mysql_reads_def sample_mysql_env_def sample_pg_env_def sample_cursors_ok sizes_ok_def)
      (auto simp: sample_mysql_rows_def sample_cx_def)
qed

theorem mysql_read_pages_complete_witness:
  "mysql_read_valid sample_mysql_reads \<and> follow (mysql_read_page_at sample_mysql_reads) None = Some (Inr sample_mysql_rows)"
  using mysql_read_pages_complete [OF sample_mysql_reads_valid] sample_mysql_reads_valid by (simp add: sample_mysql_reads_def)

end
