(* ===== verification/Mcp_Tools.thy ===== *)
theory Mcp_Tools
  imports Runtime_Safety Worker
begin

text \<open>
  The tools and resources of the MCP server (\<open>crates/connector-mcp\<close>): which request becomes which operation, under which name and
  identity it reaches the runtime, and what errors a client sees. The routing by name, the decoding of arguments and
  the encoding of answers belong to \<open>rmcp\<close> and \<open>serde_json\<close>.
\<close>

section \<open>Programs one after the other\<close>

primrec prog_bind :: "('q, 'p, 'r) Prog \<Rightarrow> ('r \<Rightarrow> ('q, 'p, 'u) Prog) \<Rightarrow> ('q, 'p, 'u) Prog" where
  "prog_bind (Return r) f = f r"
| "prog_bind Panic f = Panic"
| "prog_bind (Do call k) f = Do call (\<lambda>reply. prog_bind (k reply) f)"

lemma path_bind:
  "path (prog_bind p f) es q \<Longrightarrow>
    (\<exists>q'. path p es q' \<and> q = prog_bind q' f) \<or> (\<exists>es1 es2 r. es = es1 @ es2 \<and> path p es1 (Return r) \<and> path (f r) es2 q)"
proof (induction p arbitrary: es)
  case (Return r)
  then show ?case by (intro disjI2 exI [of _ "[]"] exI [of _ es] exI [of _ r]) (simp add: path_nil)
next
  case Panic
  then show ?case by (auto simp: path_Panic)
next
  case (Do call k)
  from Do.prems consider "es = []" "q = prog_bind (Do call k) f"
    | r es' where "es = (call, r) # es'" "path (prog_bind (k r) f) es' q"
    by (auto simp: path_Do)
  then show ?case
  proof cases
    case 1
    then show ?thesis by (metis path_nil)
  next
    case 2
    from Do.IH [OF rangeI 2(2)] show ?thesis
      by (elim disjE exE conjE) (metis 2(1) path_cons append_Cons)+
  qed
qed

section \<open>Errors\<close>

fun phase_text :: "ErrorPhase \<Rightarrow> string" where
  "phase_text Phase_Configuration = ''configuration''"
| "phase_text Phase_Network = ''network''"
| "phase_text Phase_Tls = ''tls''"
| "phase_text Phase_Authentication = ''authentication''"
| "phase_text Phase_Authorization = ''authorization''"
| "phase_text Phase_Protocol = ''protocol''"
| "phase_text Phase_Operation = ''operation''"

fun store_error_text :: "StoreError \<Rightarrow> string" where
  "store_error_text (Store_Database e) = ''database error: '' @ e"
| "store_error_text (Store_Serialization e) = ''serialization error: '' @ e"
| "store_error_text (Store_Credential e) = ''credential store error: '' @ e"
| "store_error_text Store_NotFound = ''connection profile was not found''"
| "store_error_text (Store_InvalidProfile e) = ''stored profile is invalid: '' @ e"
| "store_error_text (Store_InvalidIdempotencyRecord e) = ''stored idempotency record is invalid: '' @ e"

fun policy_error_text :: "PolicyError \<Rightarrow> string" where
  "policy_error_text (InvalidOperation e) = ''operation request is invalid: '' @ e"
| "policy_error_text (Denied e) = ''action is denied by connection policy: '' @ e"
| "policy_error_text ConfirmationRequired = ''a valid user confirmation grant is required''"
| "policy_error_text (InvalidGrant e) = ''authorization grant is invalid: '' @ e"
| "policy_error_text Expired = ''authorization grant has expired''"
| "policy_error_text Replayed = ''authorization grant was already used''"
| "policy_error_text (GrantMismatch e) = ''authorization grant does not match this request: '' @ e"
| "policy_error_text (Serialization e) = ''canonical serialization failed: '' @ e"

fun runtime_error_text :: "RuntimeError \<Rightarrow> string" where
  "runtime_error_text (RT_Store e) = ''profile store error: '' @ store_error_text e"
| "runtime_error_text (RT_Policy e) = ''policy error: '' @ policy_error_text e"
| "runtime_error_text (RT_Connector e) = ''connector error: '' @ connector_error_text e"
| "runtime_error_text (RT_ConnectorNotFound product api_mode) = connector_not_found_text product api_mode"
| "runtime_error_text (RT_DuplicateConnector product api_mode) =
     ''connector already registered for '' @ product_debug product @ ''/'' @ api_mode"
| "runtime_error_text RT_Timeout = ''operation timed out''"
| "runtime_error_text (RT_Serialization e) = ''structured request could not be serialized: '' @ e"
| "runtime_error_text (RT_InvalidRequest e) = ''invalid request: '' @ e"

definition tool_error_with_retry :: "string \<Rightarrow> string \<Rightarrow> string \<Rightarrow> bool \<Rightarrow> json" where
  "tool_error_with_retry code phase message retryable =
     JObject [(''error'', JObject [(''code'', JString code), (''message'', JString message), (''phase'', JString phase),
       (''retryable'', JBool retryable)])]"

definition mcp_tool_error :: "string \<Rightarrow> string \<Rightarrow> json" where
  "mcp_tool_error code message = tool_error_with_retry code ''configuration'' message False"

definition tool_serialization_error :: "string \<Rightarrow> json" where
  "tool_serialization_error e = mcp_tool_error ''serialization_error'' e"

definition schema_inspection_cancelled_error :: json where
  "schema_inspection_cancelled_error =
     tool_error_with_retry ''cancelled'' ''operation'' ''schema inspection was cancelled'' False"

definition runtime_tool_error :: "RuntimeError \<Rightarrow> json" where
  "runtime_tool_error e =
     (let answer = (\<lambda>code phase retryable. tool_error_with_retry code phase (runtime_error_text e) retryable) in
      case e of
        RT_Timeout \<Rightarrow> answer ''timeout'' ''network'' True
      | RT_ConnectorNotFound _ _ \<Rightarrow> answer ''unsupported'' ''configuration'' False
      | RT_InvalidRequest _ \<Rightarrow> answer ''invalid_request'' ''configuration'' False
      | RT_Policy (InvalidOperation _) \<Rightarrow> answer ''invalid_request'' ''configuration'' False
      | RT_Policy (Serialization _) \<Rightarrow> answer ''internal'' ''operation'' False
      | RT_Policy _ \<Rightarrow> answer ''permission_denied'' ''authorization'' False
      | RT_Store _ \<Rightarrow> answer ''connection_not_found'' ''configuration'' False
      | RT_Connector error \<Rightarrow>
          JObject [(''error'', JObject [(''code'', JString (category_text (ce_category error))),
            (''driver_code'', case ce_code error of None \<Rightarrow> JNull | Some code \<Rightarrow> JString code),
            (''message'', JString (ce_message error)), (''phase'', JString (phase_text (ce_phase error))),
            (''retryable'', JBool (ce_retryable error))])]
      | RT_DuplicateConnector _ _ \<Rightarrow> answer ''internal'' ''operation'' False
      | RT_Serialization _ \<Rightarrow> answer ''internal'' ''operation'' False)"

datatype RpcError = Rpc_InvalidParams string | Rpc_NotFound string | Rpc_Internal string json

definition mcp_internal_error :: "RuntimeError \<Rightarrow> RpcError" where
  "mcp_internal_error e =
     (let data = (\<lambda>category phase. JObject [(''category'', JString category), (''phase'', JString phase)]) in
      Rpc_Internal ''database resource operation failed''
        (case e of
           RT_Timeout \<Rightarrow> data ''timeout'' ''network''
         | RT_ConnectorNotFound _ _ \<Rightarrow> data ''unsupported'' ''configuration''
         | RT_InvalidRequest _ \<Rightarrow> data ''invalid_request'' ''configuration''
         | RT_Policy (InvalidOperation _) \<Rightarrow> data ''invalid_request'' ''configuration''
         | RT_Policy (Serialization _) \<Rightarrow> data ''internal'' ''operation''
         | RT_Policy _ \<Rightarrow> data ''permission_denied'' ''authorization''
         | RT_Store _ \<Rightarrow> data ''not_found'' ''configuration''
         | RT_Connector error \<Rightarrow>
             JObject [(''category'', JString (category_text (ce_category error))),
               (''driver_code'', case ce_code error of None \<Rightarrow> JNull | Some code \<Rightarrow> JString code),
               (''phase'', JString (phase_text (ce_phase error))), (''retryable'', JBool (ce_retryable error))]
         | RT_DuplicateConnector _ _ \<Rightarrow> data ''internal'' ''operation''
         | RT_Serialization _ \<Rightarrow> data ''internal'' ''operation''))"

section \<open>Inputs (input.rs)\<close>

text \<open>The types of the \<open>request\<close> of a data tool.\<close>

datatype ToolRequest =
    Tr_Read ReadRequest
  | Tr_SqlQuery SqlQueryRequest
  | Tr_Insert InsertRequest
  | Tr_Update UpdateRequest
  | Tr_Delete DeleteRequest
  | Tr_Native NativeRequest
  | Tr_TimeSeriesWrite TimeSeriesWriteRequest
  | Tr_Search SearchRequest
  | Tr_VectorSearch VectorSearchRequest
  | Tr_VectorUpsert VectorUpsertRequest

record OperationInput =
  oi_connection_id :: string
  oi_request_id :: "string option"
  oi_request :: ToolRequest

record CatalogInput =
  ci_connection_id :: string
  ci_request_id :: "string option"
  ci_pattern :: "string option"
  ci_namespace :: "string option"
  ci_limit :: u32
  ci_cursor :: "string option"

definition default_catalog_limit :: u32 where
  "default_catalog_limit = 100"

definition default_schema_inspect_limit :: u32 where
  "default_schema_inspect_limit = 10"

section \<open>The tools\<close>

text \<open>How a tool turns its request into an operation: the last argument of \<open>run_operation\<close>.\<close>

datatype Wrap =
    Wrap_Read | Wrap_SqlQuery | Wrap_Insert | Wrap_Update | Wrap_Delete | Wrap_NativeQuery | Wrap_NativeExecute
  | Wrap_TimeSeriesWrite | Wrap_Search | Wrap_VectorSearch | Wrap_VectorUpsert

definition wrap_request :: "Wrap \<Rightarrow> ToolRequest \<Rightarrow> DataOperation option" where
  "wrap_request wrap request =
     (case wrap of
        Wrap_Read \<Rightarrow> (case request of Tr_Read r \<Rightarrow> Some (Op_Read r) | _ \<Rightarrow> None)
      | Wrap_SqlQuery \<Rightarrow> (case request of Tr_SqlQuery r \<Rightarrow> Some (Op_NativeQuery (NativeRequest_from r)) | _ \<Rightarrow> None)
      | Wrap_Insert \<Rightarrow> (case request of Tr_Insert r \<Rightarrow> Some (Op_Insert r) | _ \<Rightarrow> None)
      | Wrap_Update \<Rightarrow> (case request of Tr_Update r \<Rightarrow> Some (Op_Update r) | _ \<Rightarrow> None)
      | Wrap_Delete \<Rightarrow> (case request of Tr_Delete r \<Rightarrow> Some (Op_Delete r) | _ \<Rightarrow> None)
      | Wrap_NativeQuery \<Rightarrow> (case request of Tr_Native r \<Rightarrow> Some (Op_NativeQuery r) | _ \<Rightarrow> None)
      | Wrap_NativeExecute \<Rightarrow> (case request of Tr_Native r \<Rightarrow> Some (Op_NativeExecute r) | _ \<Rightarrow> None)
      | Wrap_TimeSeriesWrite \<Rightarrow> (case request of Tr_TimeSeriesWrite r \<Rightarrow> Some (Op_TimeSeriesWrite r) | _ \<Rightarrow> None)
      | Wrap_Search \<Rightarrow> (case request of Tr_Search r \<Rightarrow> Some (Op_Search r) | _ \<Rightarrow> None)
      | Wrap_VectorSearch \<Rightarrow> (case request of Tr_VectorSearch r \<Rightarrow> Some (Op_VectorSearch r) | _ \<Rightarrow> None)
      | Wrap_VectorUpsert \<Rightarrow> (case request of Tr_VectorUpsert r \<Rightarrow> Some (Op_VectorUpsert r) | _ \<Rightarrow> None))"

record ToolAnnotations =
  ta_read_only :: bool
  ta_destructive :: "bool option"
  ta_idempotent :: "bool option"
  ta_open_world :: bool

definition reading :: ToolAnnotations where
  "reading = \<lparr>ta_read_only = True, ta_destructive = None, ta_idempotent = None, ta_open_world = True\<rparr>"

definition writing :: "bool \<Rightarrow> ToolAnnotations" where
  "writing destructive =
     \<lparr>ta_read_only = False, ta_destructive = Some destructive, ta_idempotent = Some False, ta_open_world = True\<rparr>"

definition sql_tools :: "(string \<times> ToolAnnotations \<times> Wrap) list" where
  "sql_tools =
     [(''sql_read'', reading, Wrap_Read),
      (''sql_query'', reading, Wrap_SqlQuery),
      (''sql_insert'', writing False, Wrap_Insert),
      (''sql_update'', writing True, Wrap_Update),
      (''sql_delete'', writing True, Wrap_Delete)]"

definition native_tools :: "(string \<times> ToolAnnotations \<times> Wrap) list" where
  "native_tools =
     [(''native_query'', reading, Wrap_NativeQuery),
      (''native_execute'', writing True, Wrap_NativeExecute)]"

definition document_tools :: "(string \<times> ToolAnnotations \<times> Wrap) list" where
  "document_tools =
     [(''document_find'', reading, Wrap_Read),
      (''document_insert'', writing False, Wrap_Insert),
      (''document_update'', writing True, Wrap_Update),
      (''document_delete'', writing True, Wrap_Delete)]"

definition kv_tools :: "(string \<times> ToolAnnotations \<times> Wrap) list" where
  "kv_tools =
     [(''kv_read'', reading, Wrap_Read),
      (''kv_put'', writing False, Wrap_Insert),
      (''kv_update'', writing True, Wrap_Update),
      (''kv_delete'', writing True, Wrap_Delete)]"

definition timeseries_tools :: "(string \<times> ToolAnnotations \<times> Wrap) list" where
  "timeseries_tools =
     [(''timeseries_query'', reading, Wrap_NativeQuery),
      (''timeseries_write'', writing False, Wrap_TimeSeriesWrite)]"

definition search_tools :: "(string \<times> ToolAnnotations \<times> Wrap) list" where
  "search_tools =
     [(''search_query'', reading, Wrap_Search),
      (''search_document_read'', reading, Wrap_Read),
      (''search_document_upsert'', writing False, Wrap_Insert),
      (''search_document_update'', writing True, Wrap_Update),
      (''search_document_delete'', writing True, Wrap_Delete)]"

definition event_tools :: "(string \<times> ToolAnnotations \<times> Wrap) list" where
  "event_tools =
     [(''event_ingest'', writing False, Wrap_Insert)]"

definition vector_tools :: "(string \<times> ToolAnnotations \<times> Wrap) list" where
  "vector_tools =
     [(''vector_search'', reading, Wrap_VectorSearch),
      (''vector_fetch'', reading, Wrap_Read),
      (''vector_insert'', writing False, Wrap_Insert),
      (''vector_upsert'', writing False, Wrap_VectorUpsert),
      (''vector_delete'', writing True, Wrap_Delete)]"

definition data_tools :: "(string \<times> ToolAnnotations \<times> Wrap) list" where
  "data_tools =
     sql_tools @ native_tools @ document_tools @ kv_tools @ timeseries_tools @ search_tools @ event_tools @ vector_tools"

definition metadata_tools :: "(string \<times> ToolAnnotations) list" where
  "metadata_tools =
     [(''db_list_connections'', reading\<lparr>ta_open_world := False\<rparr>),
      (''db_list_connectors'', reading\<lparr>ta_open_world := False\<rparr>),
      (''db_get_capabilities'', reading\<lparr>ta_open_world := False\<rparr>),
      (''db_test_connection'', reading),
      (''db_search_catalog'', reading),
      (''db_inspect_schema'', reading),
      (''db_describe_entity'', reading),
      (''db_cancel'', reading\<lparr>ta_idempotent := Some True\<rparr>)]"

record McpServer =
  sv_subject :: string
  sv_session_id :: string

text \<open>
  Other crates: the JSON encodings of inputs and answers, the parser of a UUID, the decoding of a grant and the parser of a URL (scheme, host
  and path segments).
\<close>

record mcp_env =
  me_arguments :: "OperationInput \<Rightarrow> string + json"
  me_result :: "OperationResult \<Rightarrow> json option"
  me_info :: "ConnectionInfo \<Rightarrow> string + json"
  me_page :: "CatalogPage \<Rightarrow> string + json"
  me_description :: "EntityDescription \<Rightarrow> string + json"
  me_capabilities :: "ConnectionCapabilities \<Rightarrow> string + json"
  me_connections :: "SanitizedConnection list \<Rightarrow> string + json"
  me_descriptors :: "ConnectorDescriptor list \<Rightarrow> string + json"
  me_text :: "json \<Rightarrow> string + string"
  me_size :: "json \<Rightarrow> string + nat"
  me_uuid :: "string \<Rightarrow> ConnectionId option"
  me_show_uuid :: "ConnectionId \<Rightarrow> string"
  me_grant :: "json \<Rightarrow> string + AuthorizationGrant"
  me_url :: "string \<Rightarrow> string + string \<times> string option \<times> string list"

definition AUTHORIZATION_META_KEY :: string where
  "AUTHORIZATION_META_KEY = ''com.sql-connector/authorization''"

definition parse_connection_id :: "mcp_env \<Rightarrow> string \<Rightarrow> json + ConnectionId" where
  "parse_connection_id env v = ok_or (me_uuid env v) (mcp_tool_error ''invalid_connection_id'' ''connection_id must be a UUID'')"

definition parse_grant :: "mcp_env \<Rightarrow> (string, json) btree \<Rightarrow> json + AuthorizationGrant option" where
  "parse_grant env meta =
     (case bt_get meta AUTHORIZATION_META_KEY of
        None \<Rightarrow> Inr None
      | Some v \<Rightarrow> map_err (\<lambda>e. mcp_tool_error ''invalid_authorization_grant'' (''authorization metadata is invalid: '' @ e))
          (map_res Some (me_grant env v)))"

definition run_operation ::
  "mcp_env \<Rightarrow> ('c, 's) Runtime \<Rightarrow> string \<Rightarrow> McpServer \<Rightarrow> string \<Rightarrow> OperationInput \<Rightarrow> (string, json) btree \<Rightarrow> DataOperation
     \<Rightarrow> ('c, json + json) Program" where
  "run_operation env rt uuid server tool_name input meta operation =
     (case bind_res (map_err tool_serialization_error (me_arguments env input)) (\<lambda>raw_arguments.
          bind_res (parse_connection_id env (oi_connection_id input)) (\<lambda>connection_id.
          bind_res (parse_grant env meta) (\<lambda>grant. Inr (raw_arguments, connection_id, grant)))) of
        Inl e \<Rightarrow> Return (Inl e)
      | Inr (raw_arguments, connection_id, grant) \<Rightarrow>
          prog_bind (execute_with_request_id rt uuid connection_id operation
              \<lparr>ea_subject = sv_subject server, ea_session_id = sv_session_id server, ea_tool = tool_name,
               ea_arguments = raw_arguments, ea_grant = grant\<rparr> (oi_request_id input)) (\<lambda>r.
            case r of
              Inl e \<Rightarrow> Return (Inl (runtime_tool_error e))
            | Inr result \<Rightarrow> (case me_result env result of None \<Rightarrow> Panic | Some v \<Rightarrow> Return (Inr v))))"

text \<open>A call of a data tool by name; \<open>None\<close> when there is no such tool or its request has another type.\<close>

definition call_data_tool ::
  "mcp_env \<Rightarrow> ('c, 's) Runtime \<Rightarrow> string \<Rightarrow> McpServer \<Rightarrow> string \<Rightarrow> OperationInput \<Rightarrow> (string, json) btree
     \<Rightarrow> ('c, json + json) Program option" where
  "call_data_tool env rt uuid server tool_name input meta =
     (case map_of data_tools tool_name of
        None \<Rightarrow> None
      | Some (annotations, wrap) \<Rightarrow> map_option (run_operation env rt uuid server tool_name input meta) (wrap_request wrap (oi_request input)))"

text \<open>An answer of the runtime as JSON.\<close>

definition tool_json :: "('a \<Rightarrow> string + json) \<Rightarrow> RuntimeError + 'a \<Rightarrow> json + json" where
  "tool_json to_value r = map_err runtime_tool_error (bind_res r (\<lambda>v. map_err RT_Serialization (to_value v)))"

definition db_list_connections :: "mcp_env \<Rightarrow> profile_env \<Rightarrow> ProfileRepository \<Rightarrow> json + json" where
  "db_list_connections env pe db = tool_json (me_connections env) (list_runtime_connections pe db)"

definition db_list_connectors :: "mcp_env \<Rightarrow> ('c, 's) Runtime \<Rightarrow> (json + json) option" where
  "db_list_connectors env rt =
     map_option (\<lambda>descriptors. map_err tool_serialization_error (me_descriptors env descriptors)) (connector_manifests rt)"

definition with_connection_id :: "mcp_env \<Rightarrow> string \<Rightarrow> (ConnectionId \<Rightarrow> ('c, json + json) Program) \<Rightarrow> ('c, json + json) Program" where
  "with_connection_id env v k = (case parse_connection_id env v of Inl e \<Rightarrow> Return (Inl e) | Inr cid \<Rightarrow> k cid)"

definition db_get_capabilities :: "mcp_env \<Rightarrow> ('c, 's) Runtime \<Rightarrow> string \<Rightarrow> ('c, json + json) Program" where
  "db_get_capabilities env rt connection_id =
     with_connection_id env connection_id (\<lambda>cid. map_return (tool_json (me_capabilities env)) (capabilities rt cid))"

definition db_test_connection ::
  "mcp_env \<Rightarrow> ('c, 's) Runtime \<Rightarrow> string \<Rightarrow> McpServer \<Rightarrow> string \<Rightarrow> string option \<Rightarrow> ('c, json + json) Program" where
  "db_test_connection env rt uuid server connection_id request_id =
     with_connection_id env connection_id (\<lambda>cid. map_return (tool_json (me_info env))
       (test_connection_with_request_id rt uuid cid (sv_subject server) (sv_session_id server) request_id))"

definition db_search_catalog ::
  "mcp_env \<Rightarrow> ('c, 's) Runtime \<Rightarrow> string \<Rightarrow> McpServer \<Rightarrow> CatalogInput \<Rightarrow> ('c, json + json) Program" where
  "db_search_catalog env rt uuid server input =
     with_connection_id env (ci_connection_id input) (\<lambda>cid. map_return (tool_json (me_page env))
       (search_catalog_with_request_id rt uuid cid (sv_subject server) (sv_session_id server)
         \<lparr>cq_pattern = ci_pattern input, cq_namespace = ci_namespace input, cq_limit = min (ci_limit input) 1000,
          cq_cursor = ci_cursor input\<rparr> (ci_request_id input)))"

definition db_describe_entity ::
  "mcp_env \<Rightarrow> ('c, 's) Runtime \<Rightarrow> string \<Rightarrow> McpServer \<Rightarrow> string \<Rightarrow> string \<Rightarrow> string option \<Rightarrow> ('c, json + json) Program" where
  "db_describe_entity env rt uuid server connection_id entity_id request_id =
     with_connection_id env connection_id (\<lambda>cid. map_return (tool_json (me_description env))
       (describe_entity_with_request_id rt uuid cid (sv_subject server) (sv_session_id server) entity_id request_id))"

section \<open>Resources\<close>

record McpResource =
  rs_uri :: string
  rs_name :: string
  rs_description :: string
  rs_mime_type :: string

definition list_resources :: "mcp_env \<Rightarrow> profile_env \<Rightarrow> ProfileRepository \<Rightarrow> RpcError + McpResource list" where
  "list_resources env pe db =
     map_res (map (\<lambda>connection. \<lparr>rs_uri = ''db://connections/'' @ me_show_uuid env (sc_id connection) @ ''/manifest'',
         rs_name = sc_display_name connection, rs_description = ''Sanitized connection manifest and capabilities'',
         rs_mime_type = ''application/json''\<rparr>))
       (map_err mcp_internal_error (list_runtime_connections pe db))"

definition list_resource_templates :: "(string \<times> string) list" where
  "list_resource_templates =
     [(''db://connections/{connection_id}/manifest'', ''connection-manifest''),
      (''db://connections/{connection_id}/catalog/{namespace}'', ''connection-catalog''),
      (''db://connections/{connection_id}/entity/{entity_id}'', ''database-entity'')]"

definition resource_json :: "mcp_env \<Rightarrow> ('a \<Rightarrow> string + json) \<Rightarrow> RuntimeError + 'a \<Rightarrow> RpcError + string" where
  "resource_json env to_value r =
     map_err mcp_internal_error
       (bind_res r (\<lambda>v. map_err RT_Serialization (bind_res (to_value v) (me_text env))))"

definition read_resource ::
  "mcp_env \<Rightarrow> ('c, 's) Runtime \<Rightarrow> string \<Rightarrow> McpServer \<Rightarrow> string \<Rightarrow> ('c, RpcError + string) Program" where
  "read_resource env rt uuid server uri =
     (case me_url env uri of
        Inl e \<Rightarrow> Return (Inl (Rpc_InvalidParams (''invalid database resource URI: '' @ e)))
      | Inr (scheme, host, segments) \<Rightarrow>
          if scheme \<noteq> ''db'' \<or> host \<noteq> Some ''connections'' then
            Return (Inl (Rpc_InvalidParams ''resource URI must start with db://connections/''))
          else
            (case segments of
               connection_id # kind # rest \<Rightarrow>
                 (case me_uuid env connection_id of
                    None \<Rightarrow> Return (Inl (Rpc_InvalidParams ''connection_id must be a UUID''))
                  | Some cid \<Rightarrow>
                      if kind = ''manifest'' \<and> rest = [] then
                        map_return (resource_json env (me_capabilities env)) (capabilities rt cid)
                      else if kind = ''catalog'' then
                        map_return (resource_json env (me_page env))
                          (search_catalog rt uuid cid (sv_subject server) (sv_session_id server)
                            \<lparr>cq_pattern = None, cq_namespace = (case rest of [] \<Rightarrow> None | namespace # _ \<Rightarrow> Some namespace),
                             cq_limit = 100, cq_cursor = None\<rparr>)
                      else if kind = ''entity'' \<and> rest \<noteq> [] then
                        map_return (resource_json env (me_description env))
                          (describe_entity rt uuid cid (sv_subject server) (sv_session_id server) (join ''/'' rest))
                      else Return (Inl (Rpc_NotFound ''database resource was not found'')))
             | _ \<Rightarrow> Return (Inl (Rpc_InvalidParams ''database resource URI is incomplete''))))"

section \<open>What tools do\<close>

fun wrap_writes :: "Wrap \<Rightarrow> bool" where
  "wrap_writes Wrap_Insert = True"
| "wrap_writes Wrap_Update = True"
| "wrap_writes Wrap_Delete = True"
| "wrap_writes Wrap_NativeExecute = True"
| "wrap_writes Wrap_TimeSeriesWrite = True"
| "wrap_writes Wrap_VectorUpsert = True"
| "wrap_writes _ = False"

lemma wrap_request_writes: "wrap_request wrap request = Some operation \<Longrightarrow> is_write (classify operation) = wrap_writes wrap"
  by (cases wrap; cases request) (auto simp: wrap_request_def is_write_def)

lemma data_tool_annotations:
  assumes "map_of data_tools tool = Some (annotations, wrap)"
  shows "ta_read_only annotations \<longleftrightarrow> \<not> wrap_writes wrap"
proof -
  have "list_all (\<lambda>(_, annotations, wrap). ta_read_only annotations \<longleftrightarrow> \<not> wrap_writes wrap) data_tools" by code_simp
  then show ?thesis using map_of_SomeD [OF assms] by (auto simp: list_all_iff)
qed

text \<open>The runtime's part of a path of a tool call.\<close>

lemma run_operation_path:
  assumes "path (run_operation env rt uuid server tool input meta operation) es q"
  shows "es = [] \<or> (\<exists>arguments cid grant q'. me_arguments env input = Inr arguments \<and> me_uuid env (oi_connection_id input) = Some cid \<and>
    parse_grant env meta = Inr grant \<and>
    path (execute_with_request_id rt uuid cid operation \<lparr>ea_subject = sv_subject server, ea_session_id = sv_session_id server,
      ea_tool = tool, ea_arguments = arguments, ea_grant = grant\<rparr> (oi_request_id input)) es q')"
proof (cases "bind_res (map_err tool_serialization_error (me_arguments env input)) (\<lambda>raw_arguments.
    bind_res (parse_connection_id env (oi_connection_id input)) (\<lambda>connection_id.
    bind_res (parse_grant env meta) (\<lambda>grant. Inr (raw_arguments, connection_id, grant))))")
  case (Inl e)
  then show ?thesis using assms by (simp add: run_operation_def path_Return)
next
  case (Inr checked)
  then obtain arguments cid grant where c: "checked = (arguments, cid, grant)" "me_arguments env input = Inr arguments"
    "me_uuid env (oi_connection_id input) = Some cid" "parse_grant env meta = Inr grant"
    by (auto simp: res_simps parse_connection_id_def)
  let ?execute = "execute_with_request_id rt uuid cid operation \<lparr>ea_subject = sv_subject server, ea_session_id = sv_session_id server,
      ea_tool = tool, ea_arguments = arguments, ea_grant = grant\<rparr> (oi_request_id input)"
  let ?answer = "\<lambda>r. case r of Inl e \<Rightarrow> Return (Inl (runtime_tool_error e))
    | Inr result \<Rightarrow> (case me_result env result of None \<Rightarrow> Panic | Some v \<Rightarrow> Return (Inr v))"
  have quiet: "path (?answer r) es2 q \<Longrightarrow> es2 = []" for r es2
    by (cases r) (auto simp: path_Return path_Panic split: option.splits)
  have "path (prog_bind ?execute ?answer) es q" using assms Inr unfolding run_operation_def c(1) by simp
  from path_bind [OF this] obtain q' where "path ?execute es q'" using quiet by (metis append_Nil2)
  then show ?thesis using c by blast
qed


section \<open>Advertised tools\<close>

text \<open>The capabilities whose routes a tool serves.\<close>

fun wrap_capabilities :: "Wrap \<Rightarrow> Capability list" where
  "wrap_capabilities Wrap_Read = [Cap_Read]"
| "wrap_capabilities Wrap_SqlQuery = [Cap_NativeQuery, Cap_TimeSeriesQuery]"
| "wrap_capabilities Wrap_Insert = [Cap_Insert]"
| "wrap_capabilities Wrap_Update = [Cap_Update]"
| "wrap_capabilities Wrap_Delete = [Cap_Delete]"
| "wrap_capabilities Wrap_NativeQuery = [Cap_NativeQuery, Cap_TimeSeriesQuery]"
| "wrap_capabilities Wrap_NativeExecute = [Cap_NativeExecute]"
| "wrap_capabilities Wrap_TimeSeriesWrite = [Cap_TimeSeriesWrite]"
| "wrap_capabilities Wrap_Search = [Cap_TextSearch]"
| "wrap_capabilities Wrap_VectorSearch = [Cap_VectorSearch]"
| "wrap_capabilities Wrap_VectorUpsert = [Cap_Upsert]"

lemma wrap_request_matches:
  "wrap_request wrap request = Some operation \<Longrightarrow> capability \<in> set (wrap_capabilities wrap) \<Longrightarrow> route_matches_operation capability operation"
  by (cases wrap; cases request) (auto simp: wrap_request_def)

definition served :: "Capability \<Rightarrow> string \<Rightarrow> bool" where
  "served capability tool =
     (case map_of data_tools tool of
        Some (_, wrap) \<Rightarrow> capability = Cap_Batch \<or> capability \<in> set (wrap_capabilities wrap)
      | None \<Rightarrow> map_of metadata_tools tool \<noteq> None)"

definition all_served :: "McpToolRoute list \<Rightarrow> bool" where
  "all_served routes = list_all (\<lambda>route. served (route_capability route) (route_tool route)) routes"

lemma all_served_simps [simp]:
  "all_served []" "all_served (r # rs) \<longleftrightarrow> served (route_capability r) (route_tool r) \<and> all_served rs"
  "all_served (rs @ qs) \<longleftrightarrow> all_served rs \<and> all_served qs"
  by (simp_all add: all_served_def)

lemma all_served_add_route:
  "all_served rs \<Longrightarrow> t = [] \<or> served c t \<Longrightarrow> all_served (add_tool_route rs m c t)"
  by (auto simp: add_tool_route_def)

lemma all_served_add_routes:
  "all_served rs \<Longrightarrow> list_all (\<lambda>(c, t). t = [] \<or> served c t) cts \<Longrightarrow> all_served (add_tool_routes rs m cts)"
  by (induction rs m cts rule: add_tool_routes.induct) (simp_all add: all_served_add_route)

lemma fixed_routes_served:
  "list_all (\<lambda>(c, t). t = [] \<or> served c t)
     [(Cap_TestConnection, ''db_test_connection''), (Cap_Discover, ''db_search_catalog''), (Cap_Describe, ''db_describe_entity''),
      (Cap_NativeQuery, ''native_query''), (Cap_NativeExecute, ''native_execute''), (Cap_TextSearch, ''search_query''),
      (Cap_VectorSearch, ''vector_search''), (Cap_TimeSeriesQuery, ''timeseries_query''), (Cap_TimeSeriesWrite, ''timeseries_write'')]"
  "served Cap_Describe ''db_inspect_schema''" "served Cap_NativeQuery ''sql_query''"
  "served Cap_Batch ''vector_upsert''" "served Cap_Upsert ''vector_upsert''"
  by code_simp+

lemma kind_routes_served:
  "list_all (\<lambda>(c, t). t = [] \<or> served c t)
     [(Cap_Read, fst (kind_tools k)), (Cap_Insert, fst (snd (kind_tools k))),
      (Cap_Update, fst (snd (snd (kind_tools k)))), (Cap_Delete, snd (snd (snd (kind_tools k))))]"
  "fst (snd (kind_tools k)) = [] \<or> served Cap_Batch (fst (snd (kind_tools k)))"
  by (cases k; simp only:; code_simp)+

lemma mcp_tool_routes_served: "all_served (mcp_tool_routes m k)"
proof -
  note first = all_served_add_routes [OF all_served_simps(1) fixed_routes_served(1), of m]
  have more: "all_served rs \<Longrightarrow> all_served (if b then rs @ [\<lparr>route_capability = Cap_Describe, route_tool = ''db_inspect_schema'',
      route_fixed_policy_target = None\<rparr>] else rs)"
    "all_served rs \<Longrightarrow> all_served (if b then rs @ [\<lparr>route_capability = Cap_NativeQuery, route_tool = ''sql_query'',
      route_fixed_policy_target = None\<rparr>] else rs)" for rs b
    using fixed_routes_served(2,3) by simp_all
  have batch: "(if b then ''vector_upsert'' else fst (snd (kind_tools k))) = [] \<or>
      served Cap_Batch (if b then ''vector_upsert'' else fst (snd (kind_tools k)))" for b
    using fixed_routes_served(4) kind_routes_served(2) [of k] by simp
  have last: "all_served rs \<Longrightarrow> all_served (if b then add_tool_route rs m Cap_Upsert ''vector_upsert'' else rs)" for rs b
    using fixed_routes_served(5) by (simp add: all_served_add_route)
  show ?thesis unfolding mcp_tool_routes_def Let_def case_prod_beta
    by (intro last all_served_add_route [OF _ batch] all_served_add_routes [OF _ kind_routes_served(1)] more first)
qed

text \<open>
  C29: the tools a connector advertises are there and accept its requests. Every route of a descriptor names a tool of the server; a
  data tool under a capability other than \<open>Batch\<close> turns each request into an operation which the runtime takes from this
  tool for this connector.
\<close>

theorem advertised_tools_are_served:
  assumes "into_descriptor manifest = Some descriptor" "route \<in> set (ds_mcp_tools descriptor)"
  shows "map_of metadata_tools (route_tool route) \<noteq> None \<or>
    (\<exists>annotations wrap. map_of data_tools (route_tool route) = Some (annotations, wrap) \<and>
      (route_capability route \<noteq> Cap_Batch \<longrightarrow> (\<forall>request operation. wrap_request wrap request = Some operation \<longrightarrow>
         validate_mcp_tool descriptor operation (route_tool route) = Inr ())))"
proof -
  have "served (route_capability route) (route_tool route)"
    using assms(2) mcp_tool_routes_served unfolding into_descriptor_Some(4) [OF assms(1)] all_served_def list_all_iff by blast
  moreover have "validate_mcp_tool descriptor operation (route_tool route) = Inr ()"
    if "route_matches_operation (route_capability route) operation" for operation
    using assms(2) that by (auto simp: validate_mcp_tool_def validate_allowed_tools_def)
  ultimately show ?thesis using wrap_request_matches by (fastforce simp: served_def split: option.splits)
qed

section \<open>Examples\<close>

lemma path_bind_left: "path p es q \<Longrightarrow> path (prog_bind p f) es (prog_bind q f)"
  by (induction rule: path.induct) (auto intro: path.intros)

text \<open>An update with a grant that a person confirmed.\<close>

definition sample_mcp_env :: mcp_env where
  "sample_mcp_env = \<lparr>me_arguments = (\<lambda>_. Inr JNull), me_result = (\<lambda>_. Some JNull), me_info = (\<lambda>_. Inr JNull), me_page = (\<lambda>_. Inr JNull),
     me_description = (\<lambda>_. Inr JNull), me_capabilities = (\<lambda>_. Inr JNull), me_connections = (\<lambda>_. Inr JNull), me_descriptors = (\<lambda>_. Inr JNull),
     me_text = (\<lambda>_. Inr []), me_size = (\<lambda>_. Inr 1), me_uuid = (\<lambda>_. Some 7), me_show_uuid = (\<lambda>_. []), me_grant = (\<lambda>_. Inr sample_issued), me_url = Inl\<rparr>"

definition sample_server :: McpServer where
  "sample_server = \<lparr>sv_subject = ''u'', sv_session_id = ''s''\<rparr>"

definition sample_tool_input :: OperationInput where
  "sample_tool_input = \<lparr>oi_connection_id = ''7'', oi_request_id = None,
     oi_request = Tr_Update (case sample_update of Op_Update request \<Rightarrow> request)\<rparr>"

definition sample_meta_value :: "(string, json) btree" where
  "sample_meta_value = [(AUTHORIZATION_META_KEY, JNull)]"

lemma sample_tool_call:
  obtains program q where "call_data_tool sample_mcp_env sample_runtime ''id'' sample_server ''sql_update'' sample_tool_input sample_meta_value = Some program"
    "path program sample_events q"
proof -
  have tool: "map_of data_tools ''sql_update'' = Some (writing True, Wrap_Update)" by code_simp
  have wrapped: "wrap_request Wrap_Update (oi_request sample_tool_input) = Some sample_update"
    by (simp add: wrap_request_def sample_tool_input_def sample_update_def)
  have meta: "parse_grant sample_mcp_env sample_meta_value = Inr (Some sample_issued)"
    by (simp add: parse_grant_def sample_meta_value_def sample_mcp_env_def bt_get_def)
  have env: "me_arguments sample_mcp_env x = Inr JNull" "me_uuid sample_mcp_env y = Some 7" for x y
    by (simp_all add: sample_mcp_env_def)
  let ?answer = "\<lambda>r. case r of Inl e \<Rightarrow> Return (Inl (runtime_tool_error e))
    | Inr result \<Rightarrow> (case me_result sample_mcp_env result of None \<Rightarrow> Panic | Some v \<Rightarrow> Return (Inr v))"
  have run: "run_operation sample_mcp_env sample_runtime ''id'' sample_server ''sql_update'' sample_tool_input sample_meta_value sample_update
      = prog_bind (execution sample_runtime sample_arguments) ?answer"
    by (simp add: run_operation_def meta parse_connection_id_def execution_def sample_arguments_def sample_authorization_def env
        sample_server_def sample_tool_input_def)
  show thesis
    using that [of "run_operation sample_mcp_env sample_runtime ''id'' sample_server ''sql_update'' sample_tool_input sample_meta_value sample_update"]
      path_bind_left [OF sample_path, of ?answer]
    by (simp add: call_data_tool_def tool wrapped run)
qed


theorem advertised_tools_are_served_witness:
  "update_route \<in> set (ds_mcp_tools pg_descriptor) \<and> map_of data_tools ''sql_update'' = Some (writing True, Wrap_Update) \<and>
     validate_mcp_tool pg_descriptor sample_update ''sql_update'' = Inr ()"
proof -
  have tool: "update_route \<in> set (ds_mcp_tools pg_descriptor)" "map_of metadata_tools ''sql_update'' = None"
    "map_of data_tools ''sql_update'' = Some (writing True, Wrap_Update)" by code_simp+
  have "wrap_request Wrap_Update (oi_request sample_tool_input) = Some sample_update"
    by (simp add: wrap_request_def sample_tool_input_def sample_update_def)
  then show ?thesis
    using advertised_tools_are_served [OF pg_descriptor tool(1)] tool by (auto simp: update_route_def)
qed

end
