(* ===== verification/Mcp_Inspection.thy ===== *)
theory Mcp_Inspection
  imports Mcp_Tools
begin

text \<open>
  \<open>db_inspect_schema\<close> and \<open>db_cancel\<close> of the MCP server: an inspection is several requests of the runtime under one id, so the server
  itself remembers which inspections run and which were cancelled. The map is behind a mutex; a flag is an \<open>Arc<AtomicBool>\<close>, here an
  index into the list of all flags.
\<close>

section \<open>Inspections\<close>

record ActiveSchemaInspection =
  asi_connection_id :: ConnectionId
  asi_cancelled :: nat

record Inspections =
  in_active :: "(string, ActiveSchemaInspection) hashmap"
  in_flags :: "bool list"

record InspectionGuard =
  ig_request_id :: "string option"
  ig_cancelled :: nat

definition begin_schema_inspection :: "ConnectionId \<Rightarrow> string option \<Rightarrow> Inspections \<Rightarrow> (json + InspectionGuard) \<times> Inspections" where
  "begin_schema_inspection connection_id request_id s =
     (let cancelled = length (in_flags s);
          guard = \<lparr>ig_request_id = request_id, ig_cancelled = cancelled\<rparr>;
          s = s\<lparr>in_flags := in_flags s @ [False]\<rparr> in
      case request_id of
        None \<Rightarrow> (Inr guard, s)
      | Some rid \<Rightarrow>
          if \<not> valid_request_id rid then
            (Inl (mcp_tool_error ''invalid_request''
              (''request_id must contain 1 to 128 ASCII letters, digits, '' @ [CHR 39] @ ''.'' @ [CHR 39] @ '', '' @ [CHR 39] @ ''_'' @ [CHR 39] @
               '', '' @ [CHR 39] @ '':'' @ [CHR 39] @ '', or '' @ [CHR 39] @ ''-'' @ [CHR 39])), s)
          else if hm_get (in_active s) rid \<noteq> None then (Inl (mcp_tool_error ''invalid_request'' ''request_id is already active''), s)
          else (Inr guard, s\<lparr>in_active := hm_insert rid \<lparr>asi_connection_id = connection_id, asi_cancelled = cancelled\<rparr> (in_active s)\<rparr>))"

definition inspection_is_cancelled :: "InspectionGuard \<Rightarrow> Inspections \<Rightarrow> bool" where
  "inspection_is_cancelled guard s = in_flags s ! ig_cancelled guard"

text \<open>\<open>complete\<close> consumes the guard; \<open>drop\<close> is for every other way out.\<close>

definition inspection_drop :: "InspectionGuard \<Rightarrow> Inspections \<Rightarrow> Inspections" where
  "inspection_drop guard s =
     (case ig_request_id guard of None \<Rightarrow> s | Some rid \<Rightarrow> s\<lparr>in_active := hm_remove rid (in_active s)\<rparr>)"

definition inspection_complete :: "InspectionGuard \<Rightarrow> Inspections \<Rightarrow> bool \<times> Inspections" where
  "inspection_complete guard s =
     (case ig_request_id guard of
        None \<Rightarrow> (inspection_is_cancelled guard s, s)
      | Some rid \<Rightarrow> (inspection_is_cancelled guard s, s\<lparr>in_active := hm_remove rid (in_active s)\<rparr>))"

definition cancel_schema_inspection :: "ConnectionId \<Rightarrow> string \<Rightarrow> Inspections \<Rightarrow> nat option \<times> Inspections" where
  "cancel_schema_inspection connection_id request_id s =
     (case hm_get (in_active s) request_id of
        Some inspection \<Rightarrow>
          if asi_connection_id inspection = connection_id then
            (Some (asi_cancelled inspection), s\<lparr>in_flags := (in_flags s)[asi_cancelled inspection := True]\<rparr>)
          else (None, s)
      | None \<Rightarrow> (None, s))"

definition schema_inspection_is_active :: "ConnectionId \<Rightarrow> string \<Rightarrow> nat \<Rightarrow> Inspections \<Rightarrow> bool" where
  "schema_inspection_is_active connection_id request_id cancelled s =
     (case hm_get (in_active s) request_id of
        Some inspection \<Rightarrow> asi_connection_id inspection = connection_id \<and> asi_cancelled inspection = cancelled
      | None \<Rightarrow> False)"

section \<open>The inspection of a schema\<close>

text \<open>The calls of an inspection: those of the runtime's requests, and its own on the map.\<close>

datatype 'c InspectCall =
    Ic_Runtime "'c Call"
  | Ic_Begin ConnectionId "string option"
  | Ic_IsCancelled InspectionGuard
  | Ic_Complete InspectionGuard
  | Ic_Drop InspectionGuard

datatype InspectReply =
    Ir_Runtime Reply
  | Ir_Begin "json + InspectionGuard"
  | Ir_Bool bool

fun ir_reply :: "InspectReply \<Rightarrow> Reply" where
  "ir_reply (Ir_Runtime reply) = reply"
| "ir_reply _ = R_Unit"

fun ir_begin :: "InspectReply \<Rightarrow> json + InspectionGuard" where
  "ir_begin (Ir_Begin r) = r"
| "ir_begin _ = Inl JNull"

fun ir_bool :: "InspectReply \<Rightarrow> bool" where
  "ir_bool (Ir_Bool b) = b"
| "ir_bool _ = True"

type_synonym ('c, 'r) InspectProgram = "('c InspectCall, InspectReply, 'r) Prog"

text \<open>A request of the runtime inside an inspection; a panic drops the guard.\<close>

primrec within :: "InspectionGuard \<Rightarrow> ('c, 'r) Program \<Rightarrow> ('r \<Rightarrow> ('c, 'u) InspectProgram) \<Rightarrow> ('c, 'u) InspectProgram" where
  "within guard (Return r) f = f r"
| "within guard Panic f = Do (Ic_Drop guard) (\<lambda>_. Panic)"
| "within guard (Do call k) f = Do (Ic_Runtime call) (\<lambda>reply. within guard (k (ir_reply reply)) f)"

definition leave_inspection :: "InspectionGuard \<Rightarrow> json + json \<Rightarrow> ('c, json + json) InspectProgram" where
  "leave_inspection guard r = Do (Ic_Drop guard) (\<lambda>_. Return r)"

definition unless_cancelled :: "InspectionGuard \<Rightarrow> ('c, json + json) InspectProgram \<Rightarrow> ('c, json + json) InspectProgram" where
  "unless_cancelled guard rest =
     Do (Ic_IsCancelled guard) (\<lambda>r. if ir_bool r then leave_inspection guard (Inl schema_inspection_cancelled_error) else rest)"

definition inspection_result :: "json list \<Rightarrow> string option \<Rightarrow> json list \<Rightarrow> json" where
  "inspection_result descriptions next_cursor warnings =
     JObject [(''descriptions'', JArray descriptions), (''next_cursor'', case next_cursor of None \<Rightarrow> JNull | Some c \<Rightarrow> JString c),
       (''warnings'', JArray warnings)]"

definition inspect_finish ::
  "mcp_env \<Rightarrow> InspectionGuard \<Rightarrow> u64 \<Rightarrow> string option \<Rightarrow> EntityDescription list \<Rightarrow> json list \<Rightarrow> ('c, json + json) InspectProgram" where
  "inspect_finish env guard max_bytes next_cursor descriptions warnings =
     (case map_results (me_description env) descriptions of
        Inl _ \<Rightarrow> Do (Ic_Drop guard) (\<lambda>_. Panic)
      | Inr descriptions \<Rightarrow>
          let result = inspection_result descriptions next_cursor warnings in
          (case me_size env result of
             Inl e \<Rightarrow> leave_inspection guard (Inl (tool_serialization_error e))
           | Inr bytes \<Rightarrow>
               Do (Ic_Complete guard) (\<lambda>r.
                 if ir_bool r then Return (Inl schema_inspection_cancelled_error)
                 else if unat (word_of_nat bytes :: u64) > unat max_bytes then
                   Return (Inl (mcp_tool_error ''result_too_large''
                     ''schema inspection exceeds the connection byte limit; reduce limit or narrow pattern/namespace''))
                 else Return (Inr result))))"

fun inspect_entities ::
  "mcp_env \<Rightarrow> ('c, 's) Runtime \<Rightarrow> (nat \<Rightarrow> string) \<Rightarrow> McpServer \<Rightarrow> ConnectionId \<Rightarrow> string option \<Rightarrow> InspectionGuard \<Rightarrow> u64 \<Rightarrow> string option
     \<Rightarrow> CatalogEntity list \<Rightarrow> EntityDescription list \<Rightarrow> json list \<Rightarrow> ('c, json + json) InspectProgram" where
  "inspect_entities env rt uuids server cid request_id guard max_bytes next_cursor [] descriptions warnings =
     inspect_finish env guard max_bytes next_cursor descriptions warnings"
| "inspect_entities env rt uuids server cid request_id guard max_bytes next_cursor (entity # entities) descriptions warnings =
     unless_cancelled guard
       (within guard (describe_entity_with_request_id rt (uuids (length entities)) cid (sv_subject server) (sv_session_id server)
           (cat_id entity) request_id) (\<lambda>description.
         unless_cancelled guard
           (let go_on = inspect_entities env rt uuids server cid request_id guard max_bytes next_cursor entities in
            case description of
              Inr description \<Rightarrow> go_on (descriptions @ [description]) warnings
            | Inl (RT_Connector error) \<Rightarrow>
                if ce_category error = Cat_Cancelled then leave_inspection guard (Inl (runtime_tool_error (RT_Connector error)))
                else go_on descriptions (warnings @ [JObject [(''entity_id'', JString (cat_id entity)),
                  (''message'', JString (runtime_error_text (RT_Connector error)))]])
            | Inl error \<Rightarrow> go_on descriptions (warnings @ [JObject [(''entity_id'', JString (cat_id entity)),
                (''message'', JString (runtime_error_text error))]]))))"

definition db_inspect_schema ::
  "mcp_env \<Rightarrow> ('c, 's) Runtime \<Rightarrow> (nat \<Rightarrow> string) \<Rightarrow> string \<Rightarrow> McpServer \<Rightarrow> CatalogInput \<Rightarrow> ('c, json + json) InspectProgram" where
  "db_inspect_schema env rt uuids uuid server input =
     (case parse_connection_id env (ci_connection_id input) of
        Inl e \<Rightarrow> Return (Inl e)
      | Inr cid \<Rightarrow>
          Do (Ic_Begin cid (ci_request_id input)) (\<lambda>r.
            case ir_begin r of
              Inl e \<Rightarrow> Return (Inl e)
            | Inr guard \<Rightarrow>
                within guard (capabilities rt cid) (\<lambda>c.
                  case c of
                    Inl e \<Rightarrow> leave_inspection guard (Inl (runtime_tool_error e))
                  | Inr manifest \<Rightarrow>
                      unless_cancelled guard
                        (within guard (search_catalog_with_request_id rt uuid cid (sv_subject server) (sv_session_id server)
                            \<lparr>cq_pattern = ci_pattern input, cq_namespace = ci_namespace input, cq_limit = min (ci_limit input) 20,
                             cq_cursor = ci_cursor input\<rparr> (ci_request_id input)) (\<lambda>page.
                          unless_cancelled guard
                            (case page of
                               Inl e \<Rightarrow> leave_inspection guard (Inl (runtime_tool_error e))
                             | Inr page \<Rightarrow> inspect_entities env rt uuids server cid (ci_request_id input) guard
                                 (pol_max_bytes (cc_policy manifest)) (cp_next_cursor page) (cp_entities page) [] []))))))"

section \<open>Cancellation\<close>

text \<open>
  The loop of \<open>db_cancel\<close>: \<open>cancels n\<close> is the answer of the runtime in its \<open>n\<close>-th round, \<open>active n\<close> whether the inspection is still the one that was
  flagged. A loop that never ends is \<open>None\<close>.
\<close>

partial_function (option) db_cancel_loop ::
  "(nat \<Rightarrow> RuntimeError + unit) \<Rightarrow> (nat \<Rightarrow> bool) \<Rightarrow> bool \<Rightarrow> nat \<Rightarrow> (RuntimeError + unit) option" where
  "db_cancel_loop cancels active flagged n =
     (case cancels n of
        Inr _ \<Rightarrow> Some (Inr ())
      | Inl (RT_InvalidRequest text) \<Rightarrow>
          if flagged \<and> active n then db_cancel_loop cancels active flagged (Suc n)
          else if flagged then Some (Inr ()) else Some (Inl (RT_InvalidRequest text))
      | Inl e \<Rightarrow> Some (Inl e))"

definition cancel_reply :: "string \<Rightarrow> RuntimeError + unit \<Rightarrow> json + json" where
  "cancel_reply request_id r =
     (case r of
        Inr _ \<Rightarrow> Inr (JObject [(''cancelled'', JBool True), (''request_id'', JString request_id)])
      | Inl e \<Rightarrow> Inl (runtime_tool_error e))"

definition db_cancel ::
  "mcp_env \<Rightarrow> string \<Rightarrow> string \<Rightarrow> (ConnectionId \<Rightarrow> nat \<Rightarrow> RuntimeError + unit) \<Rightarrow> (nat \<Rightarrow> Inspections) \<Rightarrow> Inspections
     \<Rightarrow> (json + json) option \<times> Inspections" where
  "db_cancel env connection_id request_id cancels later s =
     (case parse_connection_id env connection_id of
        Inl e \<Rightarrow> (Some (Inl e), s)
      | Inr cid \<Rightarrow>
          (case cancel_schema_inspection cid request_id s of (flag, s) \<Rightarrow>
             (map_option (cancel_reply request_id)
                (db_cancel_loop (cancels cid)
                  (\<lambda>n. case flag of None \<Rightarrow> False | Some k \<Rightarrow> schema_inspection_is_active cid request_id k (later n)) (flag \<noteq> None) 0), s)))"

section \<open>A cancelled inspection has no result\<close>

text \<open>
  All inspections of a server and the cancellations they meet, in any order. A guard is held from the start of its inspection
  until it is completed or dropped; the history has what was answered.
\<close>

datatype InspectionEvent =
    Ie_Begun InspectionGuard
  | Ie_Completed InspectionGuard bool
  | Ie_Dropped InspectionGuard
  | Ie_Cancelled ConnectionId string "nat option"

definition no_inspections :: Inspections where
  "no_inspections = \<lparr>in_active = [], in_flags = []\<rparr>"

inductive inspections_run :: "Inspections \<Rightarrow> InspectionGuard set \<Rightarrow> InspectionEvent list \<Rightarrow> bool" where
  run_start: "inspections_run no_inspections {} []"
| run_begin: "inspections_run s live_guards es \<Longrightarrow> begin_schema_inspection cid request_id s = (Inr guard, s') \<Longrightarrow>
    inspections_run s' (insert guard live_guards) (es @ [Ie_Begun guard])"
| run_refuse: "inspections_run s live_guards es \<Longrightarrow> begin_schema_inspection cid request_id s = (Inl e, s') \<Longrightarrow> inspections_run s' live_guards es"
| run_complete: "inspections_run s live_guards es \<Longrightarrow> guard \<in> live_guards \<Longrightarrow> inspection_complete guard s = (cancelled, s') \<Longrightarrow>
    inspections_run s' (live_guards - {guard}) (es @ [Ie_Completed guard cancelled])"
| run_drop: "inspections_run s live_guards es \<Longrightarrow> guard \<in> live_guards \<Longrightarrow>
    inspections_run (inspection_drop guard s) (live_guards - {guard}) (es @ [Ie_Dropped guard])"
| run_cancel: "inspections_run s live_guards es \<Longrightarrow> cancel_schema_inspection cid request_id s = (flag, s') \<Longrightarrow>
    inspections_run s' live_guards (es @ [Ie_Cancelled cid request_id flag])"

text \<open>Each active id belongs to one held guard, whose flag no other guard has.\<close>

definition guards_match :: "Inspections \<Rightarrow> InspectionGuard set \<Rightarrow> bool" where
  "guards_match s live_guards \<longleftrightarrow>
     inj_on ig_cancelled live_guards \<and> (\<forall>guard \<in> live_guards. ig_cancelled guard < length (in_flags s)) \<and>
     (\<forall>rid inspection. hm_get (in_active s) rid = Some inspection \<longrightarrow>
        (\<exists>guard \<in> live_guards. ig_request_id guard = Some rid \<and> ig_cancelled guard = asi_cancelled inspection)) \<and>
     (\<forall>guard \<in> live_guards. \<forall>rid. ig_request_id guard = Some rid \<longrightarrow>
        (\<exists>inspection. hm_get (in_active s) rid = Some inspection \<and> asi_cancelled inspection = ig_cancelled guard))"

text \<open>What was told to clients is so: a flag that was set stays set, and a completed inspection that was not cancelled can no longer be.\<close>

definition history_kept :: "Inspections \<Rightarrow> InspectionGuard set \<Rightarrow> InspectionEvent list \<Rightarrow> bool" where
  "history_kept s live_guards es \<longleftrightarrow>
     (\<forall>cid rid k. Ie_Cancelled cid rid (Some k) \<in> set es \<longrightarrow> k < length (in_flags s) \<and> in_flags s ! k) \<and>
     (\<forall>guard. Ie_Completed guard False \<in> set es \<longrightarrow> ig_cancelled guard < length (in_flags s) \<and> ig_cancelled guard \<notin> ig_cancelled ` live_guards \<and>
        \<not> in_flags s ! ig_cancelled guard)"

lemma guards_match_begin:
  assumes "guards_match s live_guards" "begin_schema_inspection cid request_id s = (Inr guard, s')"
  shows "guards_match s' (insert guard live_guards)"
proof -
  have new: "guard = \<lparr>ig_request_id = request_id, ig_cancelled = length (in_flags s)\<rparr>" "in_flags s' = in_flags s @ [False]"
    "in_active s' = (case request_id of None \<Rightarrow> in_active s | Some rid \<Rightarrow>
       hm_insert rid \<lparr>asi_connection_id = cid, asi_cancelled = length (in_flags s)\<rparr> (in_active s))"
    "request_id = Some rid \<Longrightarrow> hm_get (in_active s) rid = None" for rid
    using assms(2) by (auto simp: begin_schema_inspection_def Let_def split: option.splits if_splits)
  have fresh: "length (in_flags s) \<notin> ig_cancelled ` live_guards" using assms(1) by (auto simp: guards_match_def)
  have other: "ig_request_id g \<noteq> Some rid" if "g \<in> live_guards" "request_id = Some rid" for g rid
    using assms(1) new(4) [OF that(2)] that(1) by (fastforce simp: guards_match_def)
  show ?thesis unfolding guards_match_def
  proof (intro conjI allI ballI impI)
    show "inj_on ig_cancelled (insert guard live_guards)" using assms(1) fresh by (auto simp: guards_match_def new(1))
    show "ig_cancelled g < length (in_flags s')" if "g \<in> insert guard live_guards" for g
      using assms(1) that by (auto simp: guards_match_def new(1,2))
    show "\<exists>g \<in> insert guard live_guards. ig_request_id g = Some rid \<and> ig_cancelled g = asi_cancelled inspection"
      if "hm_get (in_active s') rid = Some inspection" for rid inspection
      using assms(1) that by (auto simp: guards_match_def new(1,3) hm_get_insert split: option.splits if_splits)
    show "\<exists>inspection. hm_get (in_active s') rid = Some inspection \<and> asi_cancelled inspection = ig_cancelled g"
      if "g \<in> insert guard live_guards" "ig_request_id g = Some rid" for g rid
      using assms(1) that other [of g rid]
      by (auto simp: guards_match_def new(1,3) hm_get_insert split: option.splits if_splits)
  qed
qed

lemma guards_match_remove:
  assumes "guards_match s live_guards" "guard \<in> live_guards"
  shows "guards_match (inspection_drop guard s) (live_guards - {guard})"
proof -
  have inj: "g = guard" if "g \<in> live_guards" "ig_cancelled g = ig_cancelled guard" for g
    using assms that by (auto simp: guards_match_def inj_on_def)
  have own: "g = guard" if same: "g \<in> live_guards" "ig_request_id g = Some rid" "ig_request_id guard = Some rid" for g rid
  proof -
    obtain i where "hm_get (in_active s) rid = Some i" "asi_cancelled i = ig_cancelled g"
      using assms(1) same(1,2) unfolding guards_match_def by blast
    moreover obtain j where "hm_get (in_active s) rid = Some j" "asi_cancelled j = ig_cancelled guard"
      using assms same(3) unfolding guards_match_def by blast
    ultimately show ?thesis using inj same(1) by simp
  qed
  show ?thesis unfolding guards_match_def
  proof (intro conjI allI ballI impI)
    show "inj_on ig_cancelled (live_guards - {guard})" using assms(1) by (auto simp: guards_match_def inj_on_def)
    show "ig_cancelled g < length (in_flags (inspection_drop guard s))" if "g \<in> live_guards - {guard}" for g
      using assms(1) that by (auto simp: guards_match_def inspection_drop_def split: option.split)
    show "\<exists>g \<in> live_guards - {guard}. ig_request_id g = Some rid \<and> ig_cancelled g = asi_cancelled inspection"
      if "hm_get (in_active (inspection_drop guard s)) rid = Some inspection" for rid inspection
    proof -
      have active: "hm_get (in_active s) rid = Some inspection" "ig_request_id guard \<noteq> Some rid"
        using that by (auto simp: inspection_drop_def hm_get_remove split: option.splits if_splits)
      then show ?thesis using assms(1) unfolding guards_match_def by (metis DiffI singletonD)
    qed
    show "\<exists>inspection. hm_get (in_active (inspection_drop guard s)) rid = Some inspection \<and> asi_cancelled inspection = ig_cancelled g"
      if g: "g \<in> live_guards - {guard}" "ig_request_id g = Some rid" for g rid
    proof -
      have "ig_request_id guard \<noteq> Some rid" using own g by blast
      then show ?thesis using assms(1) g
        by (auto simp: guards_match_def inspection_drop_def hm_get_remove split: option.splits)
    qed
  qed
qed

lemma complete_is_drop: "inspection_complete guard s = (inspection_is_cancelled guard s, inspection_drop guard s)"
  by (simp add: inspection_complete_def inspection_drop_def split: option.split)

lemma flags_drop [simp]: "in_flags (inspection_drop guard s) = in_flags s"
  by (simp add: inspection_drop_def split: option.split)

lemma inspections_invariant: "inspections_run s live_guards es \<Longrightarrow> guards_match s live_guards \<and> history_kept s live_guards es"
proof (induction rule: inspections_run.induct)
  case run_start
  then show ?case by (simp add: guards_match_def history_kept_def no_inspections_def)
next
  case (run_begin s live_guards es cid request_id guard s')
  have "in_flags s' = in_flags s @ [False]" "ig_cancelled guard = length (in_flags s)"
    using run_begin(2) by (auto simp: begin_schema_inspection_def Let_def split: option.splits if_splits)
  then have "history_kept s' (insert guard live_guards) (es @ [Ie_Begun guard])"
    using run_begin.IH by (fastforce simp: history_kept_def nth_append)
  then show ?case using guards_match_begin run_begin by blast
next
  case (run_refuse s live_guards es cid request_id e s')
  have "in_flags s' = in_flags s @ [False]" "in_active s' = in_active s"
    using run_refuse(2) by (auto simp: begin_schema_inspection_def Let_def split: option.splits if_splits)
  then show ?case using run_refuse.IH by (fastforce simp: guards_match_def history_kept_def nth_append)
next
  case (run_complete s live_guards es guard cancelled s')
  have s': "s' = inspection_drop guard s" "cancelled = in_flags s ! ig_cancelled guard"
    using run_complete(3) by (simp_all add: complete_is_drop inspection_is_cancelled_def)
  have "ig_cancelled guard < length (in_flags s)" "ig_cancelled guard \<notin> ig_cancelled ` (live_guards - {guard})"
    using run_complete.IH run_complete(2) by (auto simp: guards_match_def inj_on_def)
  then have "history_kept s' (live_guards - {guard}) (es @ [Ie_Completed guard cancelled])"
    using run_complete.IH s' by (auto simp: history_kept_def)
  then show ?case using guards_match_remove run_complete s'(1) by blast
next
  case (run_drop s live_guards es guard)
  then have "history_kept (inspection_drop guard s) (live_guards - {guard}) (es @ [Ie_Dropped guard])"
    by (auto simp: history_kept_def)
  then show ?case using guards_match_remove run_drop by blast
next
  case (run_cancel s live_guards es cid request_id flag s')
  show ?case
  proof (cases flag)
    case None
    then have "s' = s" using run_cancel(2) by (auto simp: cancel_schema_inspection_def split: option.splits if_splits)
    then show ?thesis using run_cancel.IH None by (auto simp: history_kept_def)
  next
    case (Some k)
    then obtain inspection where i: "hm_get (in_active s) request_id = Some inspection" "k = asi_cancelled inspection"
      "s' = s\<lparr>in_flags := (in_flags s)[k := True]\<rparr>"
      using run_cancel(2) by (auto simp: cancel_schema_inspection_def split: option.splits if_splits)
    have "guards_match s live_guards" using run_cancel.IH by blast
    then have k: "k \<in> ig_cancelled ` live_guards" "k < length (in_flags s)"
      using i(1,2) unfolding guards_match_def by (metis imageI)+
    then have "ig_cancelled g \<noteq> k" if "Ie_Completed g False \<in> set es" for g
      using run_cancel.IH that unfolding history_kept_def by metis
    then have "history_kept s' live_guards (es @ [Ie_Cancelled cid request_id flag])"
      using run_cancel.IH i(3) Some k(2) by (auto simp: history_kept_def nth_list_update)
    moreover have "guards_match s' live_guards" using run_cancel.IH by (simp add: guards_match_def i(3))
    ultimately show ?thesis by blast
  qed
qed

section \<open>What an inspection does\<close>

text \<open>The guards an inspection holds after its calls so far, and the one it completed without being cancelled.\<close>

fun inspection_step :: "InspectionGuard list \<times> InspectionGuard option \<Rightarrow> 'c InspectCall \<times> InspectReply \<Rightarrow> InspectionGuard list \<times> InspectionGuard option" where
  "inspection_step (guards, finished) (Ic_Begin _ _, r) = (case ir_begin r of Inr guard \<Rightarrow> guard # guards | Inl _ \<Rightarrow> guards, finished)"
| "inspection_step (guards, finished) (Ic_Drop guard, r) = (remove1 guard guards, finished)"
| "inspection_step (guards, finished) (Ic_Complete guard, r) = (remove1 guard guards, if ir_bool r then finished else Some guard)"
| "inspection_step state _ = state"

definition inspection_ended :: "InspectionGuard list \<times> InspectionGuard option \<Rightarrow> (json + json) option \<Rightarrow> bool" where
  "inspection_ended state r \<longleftrightarrow> fst state = [] \<and> (\<forall>v. r = Some (Inr v) \<longrightarrow> snd state \<noteq> None)"

abbreviation inspection_monitor where
  "inspection_monitor \<equiv> monitored inspection_step (\<lambda>_. True) inspection_ended"

lemma monitored_leave_inspection: "inspection_monitor (leave_inspection guard (Inl e)) ([guard], finished)"
  by (simp add: leave_inspection_def inspection_ended_def)

lemma monitored_unless_cancelled:
  "inspection_monitor rest ([guard], finished) \<Longrightarrow> inspection_monitor (unless_cancelled guard rest) ([guard], finished)"
  by (simp add: unless_cancelled_def monitored_leave_inspection)

lemma monitored_within:
  "(\<And>r. inspection_monitor (f r) ([guard], finished)) \<Longrightarrow> inspection_monitor (within guard p f) ([guard], finished)"
  by (induction p) (simp_all add: inspection_ended_def)

lemma monitored_finish: "inspection_monitor (inspect_finish env guard max_bytes next_cursor descriptions warnings) ([guard], finished)"
  by (simp add: inspect_finish_def Let_def inspection_ended_def monitored_leave_inspection split: sum.split)

lemma monitored_entities:
  "inspection_monitor (inspect_entities env rt uuids server cid request_id guard max_bytes next_cursor entities descriptions warnings) ([guard], finished)"
proof (induction entities arbitrary: descriptions warnings)
  case (Cons entity entities)
  then show ?case
    by (auto simp: Let_def monitored_leave_inspection intro!: monitored_unless_cancelled monitored_within split: sum.split RuntimeError.split)
qed (simp add: monitored_finish)

lemma monitored_inspection: "inspection_monitor (db_inspect_schema env rt uuids uuid server input) ([], None)"
proof -
  have "inspection_monitor (within guard (capabilities rt cid) f) ([guard], None)"
    if "\<And>r. inspection_monitor (f r) ([guard], None)" for guard cid f
    using that by (rule monitored_within)
  then show ?thesis
    by (auto simp: db_inspect_schema_def inspection_ended_def monitored_leave_inspection monitored_entities
        intro!: monitored_within monitored_unless_cancelled split: sum.split)
qed

lemma finished_event:
  "snd (foldl inspection_step state es) = Some guard \<Longrightarrow> snd state = None \<Longrightarrow> \<exists>r. (Ic_Complete guard, r) \<in> set es \<and> \<not> ir_bool r"
proof (induction es rule: rev_induct)
  case (snoc e es)
  obtain guards finished where before: "foldl inspection_step state es = (guards, finished)" by fastforce
  obtain call r where e: "e = (call, r)" by fastforce
  show ?case
  proof (cases "finished = Some guard")
    case True
    then show ?thesis using snoc before by auto
  next
    case False
    then show ?thesis using snoc.prems(1) before by (cases call) (auto simp: e split: if_splits)
  qed
qed simp


section \<open>The loop of a cancellation\<close>

lemma db_cancel_loop_returns:
  assumes "(\<forall>text. cancels m \<noteq> Inl (RT_InvalidRequest text)) \<or> \<not> active m"
  shows "\<exists>r. db_cancel_loop cancels active flagged 0 = Some r \<and>
    (if flagged then r = Inr () \<or> (\<exists>n \<le> m. r = cancels n \<and> (\<forall>text. r \<noteq> Inl (RT_InvalidRequest text))) else r = cancels 0)"
proof (cases flagged)
  case False
  then show ?thesis by (subst db_cancel_loop.simps) (auto split: sum.split RuntimeError.split)
next
  case True
  have "\<exists>r. db_cancel_loop cancels active flagged n = Some r \<and>
      (r = Inr () \<or> (\<exists>n \<le> m. r = cancels n \<and> (\<forall>text. r \<noteq> Inl (RT_InvalidRequest text))))" if "n \<le> m" for n
    using that
  proof (induction "m - n" arbitrary: n)
    case 0
    then have "n = m" by simp
    then show ?case using assms True by (subst db_cancel_loop.simps) (auto split: sum.split RuntimeError.split)
  next
    case (Suc d)
    then have "\<exists>r. db_cancel_loop cancels active flagged (Suc n) = Some r \<and>
        (r = Inr () \<or> (\<exists>n \<le> m. r = cancels n \<and> (\<forall>text. r \<noteq> Inl (RT_InvalidRequest text))))" by (intro Suc(1)) simp_all
    then show ?case using True Suc.prems by (subst db_cancel_loop.simps) (auto split: sum.split RuntimeError.split)
  qed
  then show ?thesis using True by fastforce
qed

text \<open>
  \<open>db_cancel\<close> ends. As soon as the runtime gives another answer than that it has no such request, or no inspection has the id any
  more, the call returns; for a flagged inspection it then reports success or the error of a runtime that did find the request, and for
  anything else the first answer of the runtime.
\<close>

theorem db_cancel_returns:
  assumes "parse_connection_id env connection_id = Inr cid"
    and "(\<forall>text. cancels cid m \<noteq> Inl (RT_InvalidRequest text)) \<or> hm_get (in_active (later m)) request_id = None"
  shows "\<exists>r. fst (db_cancel env connection_id request_id cancels later s) = Some (cancel_reply request_id r) \<and>
    (if fst (cancel_schema_inspection cid request_id s) = None then r = cancels cid 0
     else r = Inr () \<or> (\<exists>n \<le> m. r = cancels cid n \<and> (\<forall>text. r \<noteq> Inl (RT_InvalidRequest text))))"
proof -
  obtain flag s' where flag: "cancel_schema_inspection cid request_id s = (flag, s')" by fastforce
  let ?active = "\<lambda>n. case flag of None \<Rightarrow> False | Some k \<Rightarrow> schema_inspection_is_active cid request_id k (later n)"
  have "(\<forall>text. cancels cid m \<noteq> Inl (RT_InvalidRequest text)) \<or> \<not> ?active m"
    using assms(2) by (auto simp: schema_inspection_is_active_def split: option.split)
  from db_cancel_loop_returns [of "cancels cid" m ?active "flag \<noteq> None", OF this] show ?thesis
    by (auto simp: db_cancel_def assms(1) flag)
qed

section \<open>Examples\<close>

text \<open>An inspection of a schema without entities, answered by the runtime of the earlier examples.\<close>

lemma path_within: "path p es (Return r) \<Longrightarrow> path (f r) es' q \<Longrightarrow> path (within guard p f) (map (map_prod Ic_Runtime Ir_Runtime) es @ es') q"
  by (induction p es "Return r :: ('a, 'b) Program" rule: path.induct) (auto intro: path.intros)

lemma path_unless_cancelled: "path rest es q \<Longrightarrow> path (unless_cancelled guard rest) ((Ic_IsCancelled guard, Ir_Bool False) # es) q"
  unfolding unless_cancelled_def by (rule path_cons) simp

definition sample_inspection :: InspectionGuard where
  "sample_inspection = \<lparr>ig_request_id = Some ''r'', ig_cancelled = 0\<rparr>"

definition sample_history :: "InspectionEvent list" where
  "sample_history = [Ie_Begun sample_inspection, Ie_Completed sample_inspection False]"

definition sample_inspect_input :: CatalogInput where
  "sample_inspect_input = \<lparr>ci_connection_id = ''7'', ci_request_id = Some ''r'', ci_pattern = None, ci_namespace = None,
     ci_limit = default_schema_inspect_limit, ci_cursor = None\<rparr>"

definition sample_catalog_query :: CatalogQuery where
  "sample_catalog_query = \<lparr>cq_pattern = None, cq_namespace = None, cq_limit = min default_schema_inspect_limit 20, cq_cursor = None\<rparr>"

definition empty_page :: CatalogPage where
  "empty_page = \<lparr>cp_entities = [], cp_next_cursor = None\<rparr>"

fun sample_reply_to :: "nat Call \<Rightarrow> Reply" where
  "sample_reply_to (C_Reserve _ _ _) = R_Reserve (Inr sample_guard)"
| "sample_reply_to (C_GetProfile _) = R_Profile (Inr sample_profile)"
| "sample_reply_to (C_GetSecret _) = R_Secret (Inr pg_secret)"
| "sample_reply_to (C_Activate _ _) = R_Activate (Inr ())"
| "sample_reply_to (C_SearchCatalog _ _ _ _ _ _) = R_Catalog (Completed (Inr empty_page))"
| "sample_reply_to _ = R_Unit"

lemma path_answered: "\<exists>es. path (k (sample_reply_to call)) es q \<Longrightarrow> \<exists>es. path (Do call k) es q"
  by (blast intro: path_cons)

lemma sample_connector_facts:
  "resolve (pr_product sample_profile) (pr_api_mode sample_profile) (rt_registry sample_runtime) = Inr 0"
  "into_descriptor (rt_manifest sample_runtime 0) = Some pg_descriptor"
  "validate_capability_tool pg_descriptor Cap_Discover ''db_search_catalog'' = Inr ()"
  "validate_optional_request_id (Some ''r'') = Inr ()"
  "pol_enabled (pr_policy sample_profile)"
  "pol_max_bytes (pr_policy sample_profile) \<ge> 1"
proof -
  show "into_descriptor (rt_manifest sample_runtime 0) = Some pg_descriptor" by (simp add: sample_runtime_def pg_descriptor)
qed code_simp+

lemma sample_capabilities:
  "\<exists>es manifest. path (capabilities sample_runtime 7) es (Return (Inr manifest)) \<and> pol_max_bytes (cc_policy manifest) \<ge> 1"
proof -
  have "\<exists>es. path (capabilities sample_runtime 7) es (Return (Inr \<lparr>cc_connector = pg_descriptor,
      cc_connection = SanitizedConnection_from sample_profile, cc_policy = pr_policy sample_profile, cc_policy_version = pr_policy_version sample_profile,
      cc_effective_mcp_tools = map (effective_mcp_tool (pr_policy sample_profile)) (ds_mcp_tools pg_descriptor)\<rparr>))"
    unfolding capabilities_def by (rule path_answered) (simp add: as_profile_def path_Return sample_connector_facts)
  then show ?thesis using sample_connector_facts(6) by fastforce
qed

lemma sample_search:
  "\<exists>es. path (search_catalog_with_request_id sample_runtime ''id'' 7 ''u'' ''s'' sample_catalog_query (Some ''r'')) es (Return (Inr empty_page))"
  apply (simp add: search_catalog_with_request_id_def metadata_request_def sample_connector_facts Let_def)
  apply (rule path_answered, simp add: as_guard_def load_profile_def)
  apply (rule path_answered, simp add: as_profile_def sample_connector_facts connector_context_with_request_id_def)
  apply (rule path_answered, simp add: metadata_tool_def sample_connector_facts metadata_activate_def)
  apply (rule path_answered, simp add: as_secret_def)
  apply (rule path_answered, simp add: as_activated_def)
  apply (rule path_answered, simp add: as_catalog_def metadata_outcome_def metadata_audit_def record_audit_def)
  apply (rule path_answered, rule path_answered, simp add: path_Return)
  done

lemma sample_inspect:
  obtains es v where
    "path (db_inspect_schema sample_mcp_env sample_runtime (\<lambda>_. ''e'') ''id'' sample_server sample_inspect_input) es (Return (Inr v))"
    "\<forall>guard reply. (Ic_Complete guard, reply) \<in> set es \<longrightarrow> Ie_Completed guard (ir_bool reply) \<in> set sample_history"
proof -
  let ?g = sample_inspection
  obtain es1 manifest where caps: "path (capabilities sample_runtime 7) es1 (Return (Inr manifest))" "pol_max_bytes (cc_policy manifest) \<ge> 1"
    using sample_capabilities by blast
  obtain es2 where page: "path (search_catalog_with_request_id sample_runtime ''id'' 7 ''u'' ''s'' sample_catalog_query (Some ''r'')) es2 (Return (Inr empty_page))"
    using sample_search by blast
  let ?v = "inspection_result [] None []"
  have finish: "path (inspect_finish sample_mcp_env ?g (pol_max_bytes (cc_policy manifest)) None [] []) [(Ic_Complete ?g, Ir_Bool False)] (Return (Inr ?v))"
    using caps(2) by (simp add: inspect_finish_def sample_mcp_env_def path_Do path_Return word_le_nat_alt)
  let ?es = "(Ic_Begin 7 (Some ''r''), Ir_Begin (Inr ?g)) # map (map_prod Ic_Runtime Ir_Runtime) es1 @ (Ic_IsCancelled ?g, Ir_Bool False) #
    map (map_prod Ic_Runtime Ir_Runtime) es2 @ (Ic_IsCancelled ?g, Ir_Bool False) # [(Ic_Complete ?g, Ir_Bool False)]"
  have "path (db_inspect_schema sample_mcp_env sample_runtime (\<lambda>_. ''e'') ''id'' sample_server sample_inspect_input) ?es (Return (Inr ?v))"
  proof -
    have "parse_connection_id sample_mcp_env ''7'' = Inr 7" by (simp add: parse_connection_id_def sample_mcp_env_def)
    then show ?thesis
      unfolding db_inspect_schema_def sample_inspect_input_def sample_server_def
      by (auto simp: sample_catalog_query_def [symmetric] empty_page_def intro!: path_cons path_within [OF caps(1)] path_within [OF page] path_unless_cancelled finish)
  qed
  then show thesis by (rule that) (auto simp: sample_history_def)
qed

lemma sample_history_run: "\<exists>s. inspections_run s {} sample_history"
proof -
  let ?s = "snd (begin_schema_inspection 7 (Some ''r'') no_inspections)"
  have "is_ok (fst (begin_schema_inspection 7 (Some ''r'') no_inspections))" by code_simp
  then have b: "begin_schema_inspection 7 (Some ''r'') no_inspections = (Inr sample_inspection, ?s)"
    by (auto simp: is_ok_def begin_schema_inspection_def no_inspections_def sample_inspection_def Let_def split: if_splits)
  have "\<not> inspection_is_cancelled sample_inspection ?s" by code_simp
  then have c: "inspection_complete sample_inspection ?s = (False, inspection_drop sample_inspection ?s)" by (simp add: complete_is_drop)
  have "inspections_run ?s {sample_inspection} [Ie_Begun sample_inspection]" using run_begin [OF run_start b] by simp
  from run_complete [OF this _ c] show ?thesis by (auto simp: sample_history_def)
qed


theorem db_cancel_returns_witness:
  "\<exists>r. fst (db_cancel sample_mcp_env ''7'' ''r'' (\<lambda>_ n. if n = 0 then Inl (RT_InvalidRequest ''unknown'') else Inr ()) (\<lambda>_. no_inspections)
     no_inspections) = Some (cancel_reply ''r'' r)"
proof -
  have "parse_connection_id sample_mcp_env ''7'' = Inr 7" by (simp add: parse_connection_id_def sample_mcp_env_def)
  from db_cancel_returns [OF this, of "\<lambda>_ n. if n = 0 then Inl (RT_InvalidRequest ''unknown'') else Inr ()" 1] show ?thesis
    by fastforce
qed

end
