(* ===== verification/Spec2Isabelle.thy ===== *)
theory Spec2Isabelle
  imports Runtime_Safety Worker_Loop Postgres_Numeric Postgres_Connect Postgres_Paging Mysql_Paging Mcp_Inspection
begin

text \<open>
  A verification of the SQL connector: a service through which a language model reads and, with the consent of a
  person, writes databases. The names of the definitions are those of the Rust source under \<open>src/\<close>
  (paths below are relative to it); where one clashes it has a prefix.

  \<^bold>\<open>The program and its theories.\<close>

  \<^item> \<open>crates/connector-core\<close>: the values, operations, errors, profiles and results every part exchanges are
    in \<open>Core_Types\<close>; manifests, descriptors, the routes of MCP tools and the validation of connection input are in
    \<open>Capability\<close>.
  \<^item> \<open>crates/connector-policy\<close>: \<open>Sql_Analysis\<close> has the syntax trees of queries and the visitor that finds
    the relations a query reads, \<open>Policy_Engine\<close> the evaluation of an operation against a policy, \<open>Grant\<close> the
    confirmation grants.
  \<^item> \<open>crates/connector-store\<close>: \<open>Store_Error\<close>, \<open>Audit_Store\<close> (audit log, grant nonces, idempotency records),
    \<open>Profile_Store\<close> and \<open>Credential_Store\<close>. A SQLite table is the list of its rows, a statement
    a function on it; a transaction is one step.
  \<^item> \<open>crates/connector-control\<close>: \<open>Control\<close>, the requests of the person at the control surface.
  \<^item> \<open>crates/connector-runtime\<close>: \<open>Registry\<close>; \<open>Runtime_Rules\<close> (policy decisions, masking, limits of results);
    \<open>Runtime_Requests\<close> (reservation, cancellation, concurrency as a step relation on the shared state);
    \<open>Masked_Cursors\<close>; \<open>Runtime_Programs\<close> and \<open>Runtime_Execute\<close> (the asynchronous requests as programs);
    \<open>Runtime_Safety\<close> (what holds when many requests of several processes interleave).
  \<^item> \<open>crates/connector-ipc\<close>: \<open>Ipc\<close> (frames, envelopes, the client with its pending calls) and
    \<open>Ipc_Supervisor\<close> (the supervisor with its tombstones and retries, and the proxy connector).
  \<^item> \<open>apps/sql-connector/src/worker.rs\<close>: \<open>Worker\<close> (the operations), \<open>Worker_Cancellation\<close> (the life cycle of data
    calls) and \<open>Worker_Loop\<close> (the loop and its tasks as a machine).
  \<^item> \<open>crates/connectors-sql\<close>: \<open>Sql_Builder\<close> (\<open>common.rs\<close>), \<open>Sql_Text\<close> (what a database reads in the built statements),
    \<open>Postgres\<close> (\<open>cancellation.rs\<close> and the requests of \<open>postgres.rs\<close>), \<open>Postgres_Numeric\<close>, \<open>Pools\<close> and
    \<open>Postgres_Connect\<close> (configuration and pools), \<open>Postgres_Catalog\<close> (\<open>relational_metadata.rs\<close> and the metadata
    requests), \<open>Postgres_Paging\<close> (reads and searches over several pages); \<open>Mysql\<close>, \<open>Mysql_Catalog\<close> and \<open>Mysql_Paging\<close> the same for
    \<open>mysql.rs\<close>. \<open>Sql_Paging\<close> states what an adapter promises for its pages to be complete (\<open>catalog_adapter\<close>, \<open>read_adapter\<close>);
    both adapters interpret it.
  \<^item> \<open>crates/connector-mcp\<close>: \<open>Mcp_Tools\<close> (the tools and resources a client calls, \<open>server.rs\<close> and \<open>input.rs\<close>) and
    \<open>Mcp_Inspection\<close> (\<open>db_inspect_schema\<close>, \<open>db_cancel\<close> and the map of running inspections they share).

  \<open>Prelude\<close> has words, results, strings as UTF-8 bytes, sorted and unsorted association lists with the
  locales \<open>keyed_table\<close> and \<open>expiring_table\<close>; \<open>Programs\<close> the asynchronous functions; \<open>Paging\<close> the pages of a result.

  \<^bold>\<open>How the parts meet.\<close> A tool call (\<open>Mcp_Tools\<close>) becomes a request of the runtime: it takes a permit and an id
  (\<open>Runtime_Requests\<close>), reads profile and secret (\<open>Profile_Store\<close>, \<open>Credential_Store\<close>), asks the policy
  (\<open>Policy_Engine\<close>), consumes the grant and reserves the idempotency key (\<open>Grant\<close>, \<open>Audit_Store\<close>), calls
  the connector, and limits, masks and audits what comes back (\<open>Runtime_Rules\<close>). The connector may be a proxy:
  then the call goes through \<open>Ipc_Supervisor\<close> and \<open>Ipc\<close> to a \<open>Worker_Loop\<close>, which calls the adapter, such as
  \<open>Postgres\<close> or \<open>Mysql\<close>. Grants are issued in \<open>Control\<close>.

  \<^bold>\<open>How code is modelled.\<close> A struct is a record, an enum a datatype, \<open>Result\<close> a sum with the error on the left; integers
  are words of their width, with wrapping, checked and saturating arithmetic as the code has it; a
  panic is \<open>None\<close>, or \<open>Panic\<close> in a program. A \<open>BTreeMap\<close> is a sorted association list, a \<open>HashMap\<close> one without
  repeated keys. A function without awaits is a HOL function; one that awaits is a \<open>Prog\<close>,
  a tree of calls with a continuation for every answer, and its properties are proved of all its paths, so of every
  answer and of an interruption at any point. Shared state is advanced by a step relation in which steps of all
  threads interleave. Code of other crates (SHA-256, Ed25519, AES-GCM, base64, serde, sqlparser, globset, the
  drivers) is a parameter; what a theorem needs of it is a hypothesis, and its witness has an instance.

  \<^bold>\<open>What is shown.\<close>

  \<^item> Requests (\<open>Runtime_Safety\<close>, \<open>Runtime_Requests\<close>): one grant sends at most one write, one idempotency key applies
    at most one write, every dispatch was authorised, guards are released, permits bound the concurrency and come back,
    executions are audited, a cancelled request is not activated.
  \<^item> Decisions (\<open>Policy_Engine\<close>, \<open>Sql_Analysis\<close>, \<open>Grant\<close>, \<open>Control\<close>): writes are bounded and confirmed, allowed operations
    only read, the SQL analysis finds exactly the relations read, grants are accepted exactly for what they bind.
  \<^item> Data (\<open>Audit_Store\<close>, \<open>Profile_Store\<close>, \<open>Credential_Store\<close>, \<open>Masked_Cursors\<close>): round trips of what is stored, and that
    failures leave no trace.
  \<^item> Workers (\<open>Ipc\<close>, \<open>Ipc_Supervisor\<close>, \<open>Worker_Cancellation\<close>, \<open>Worker_Loop\<close>): frames are read as written, replies
    reach their own calls, writes are not sent again, each request is answered once, cancellations stick.
  \<^item> SQL (\<open>Sql_Text\<close>, \<open>Postgres\<close> and \<open>Mysql\<close> with their companions): the text of a statement is lexed and parsed to exactly
    what was requested, with values as parameters only; writes stay within their limit and are reported
    truthfully; connections go to the endpoint of the profile; decimals are sent exactly; following the cursors
    of a result ends and gives every row once.
  \<^item> Tools (\<open>Mcp_Tools\<close>, \<open>Mcp_Inspection\<close>): a tool annotated as read-only never executes a write, a dispatch was authorised for the
    identity of the server and the name of the tool, advertised tools are served, a cancelled inspection gives no
    result and \<open>db_cancel\<close> returns.

  \<^bold>\<open>Bounds.\<close> No result depends on fuel: recursive functions have termination proofs, and the client that follows
  cursors is a partial function that is shown to return. Bounds of the code (4096 tombstones, five minutes, 32 data
  calls, 64 MiB frames, 120 seconds for a grant) are hypotheses or conclusions with their values.

  \<^bold>\<open>Not modelled.\<close> The adapters for Oracle, SQL Server, document, time-series and HTTP databases: mostly calls into
  driver crates. Of the MCP server, the descriptions and schemas of tools, the routing of \<open>rmcp\<close> and \<open>get_info\<close>. Of the PostgreSQL adapter, the
  encodings of parameters other than decimals, and of both adapters the texts of the catalog queries, TLS handshakes and the wire
  protocol belong to the driver. \<open>json_to_db_value\<close> follows the arbitrary-precision numbers of \<open>serde_json\<close> and is
  left out. The keyrings of operating systems, processes and sockets are outside. In the worker a
  reply is written in one step: a task that is aborted in the middle of a frame at shutdown is not modelled.
\<close>

end
